(* ===== verification/Go_Prelude.thy ===== *)
theory Go_Prelude
  imports Complex_Main "HOL-Library.AList" "HOL-Library.Multiset" "HOL-Library.Char_ord"
    "HOL-Library.List_Lexorder" "HOL-Library.Product_Lexorder"
begin

text \<open>
  Shared vocabulary of the development: Go maps as association lists, Go's clock, slices and
  \<open>sort\<close> package, and the generic lemmas the component theories use.

  A Go \<open>map[K]V\<close> is a finite association list.  Reading a missing key yields the zero value
  (\<open>gm_get0\<close>), the two-value read is an option (\<open>gm_get\<close>); a \<open>range\<close> loop walks the list, so
  its order is one of the orders Go may choose.  The lookup laws are in the collection
  \<open>gm_simps\<close>.  At the end, reachability and the locale \<open>invariant_system\<close> say what it means
  for a predicate to be an invariant of a component; the component theories interpret it.
\<close>

named_theorems gm_simps "lookup laws of Go maps"
named_theorems queue_defs "definitions of queue operations that proofs unfold"
named_theorems inv_intros "operations keep the invariant"

section \<open>Time\<close>

text \<open>
  \<open>time.Time\<close> is the number of nanoseconds since the zero time (January 1, year 1, UTC), so
  \<open>IsZero\<close> is equality with 0, \<open>After\<close> is \<open>>\<close> and \<open>Truncate\<close> rounds down to a multiple
  counted from the zero time, as the Go documentation defines it.
\<close>

type_synonym time = int

definition IsZero :: "time \<Rightarrow> bool" where
  "IsZero t \<longleftrightarrow> t = 0"

definition After :: "time \<Rightarrow> time \<Rightarrow> bool" where
  "After t u \<longleftrightarrow> u < t"

definition Truncate :: "time \<Rightarrow> int \<Rightarrow> time" where
  "Truncate t d = (if d \<le> 0 then t else t - t mod d)"

abbreviation Microsecond :: int where "Microsecond \<equiv> 1000"
abbreviation Second :: int where "Second \<equiv> 1000000000"

lemma Truncate_idem: "Truncate (Truncate t d) d = Truncate t d"
  by (simp add: Truncate_def minus_mod_eq_mult_div)

section \<open>Go maps\<close>

type_synonym ('k, 'v) gomap = "('k \<times> 'v) list"

definition gm_get :: "('k, 'v) gomap \<Rightarrow> 'k \<Rightarrow> 'v option" where
  "gm_get m k = map_of m k"

definition gm_get0 :: "'v \<Rightarrow> ('k, 'v) gomap \<Rightarrow> 'k \<Rightarrow> 'v" where
  "gm_get0 d m k = (case gm_get m k of None \<Rightarrow> d | Some v \<Rightarrow> v)"

definition gm_put :: "'k \<Rightarrow> 'v \<Rightarrow> ('k, 'v) gomap \<Rightarrow> ('k, 'v) gomap" where
  "gm_put k v m = AList.update k v m"

definition gm_del :: "'k \<Rightarrow> ('k, 'v) gomap \<Rightarrow> ('k, 'v) gomap" where
  "gm_del k m = filter (\<lambda>(k', _). k' \<noteq> k) m"

text \<open>Deleting every key that satisfies a predicate: \<open>for k := range m { if p(k) { delete(m, k) } }\<close>.\<close>

definition gm_del_if :: "('k \<Rightarrow> bool) \<Rightarrow> ('k, 'v) gomap \<Rightarrow> ('k, 'v) gomap" where
  "gm_del_if p m = filter (\<lambda>(k, _). \<not> p k) m"

definition gm_has :: "('k, 'v) gomap \<Rightarrow> 'k \<Rightarrow> bool" where
  "gm_has m k \<longleftrightarrow> gm_get m k \<noteq> None"

text \<open>\<open>m[k]++\<close> on a map of counters.\<close>

definition gm_incr :: "'k \<Rightarrow> ('k, int) gomap \<Rightarrow> ('k, int) gomap" where
  "gm_incr k m = gm_put k (gm_get0 0 m k + 1) m"

definition gm_wf :: "('k, 'v) gomap \<Rightarrow> bool" where
  "gm_wf m \<longleftrightarrow> distinct (map fst m)"

lemma gm_get_Nil [simp, gm_simps]: "gm_get [] k = None"
  by (simp add: gm_get_def)

lemma gm_get_put [simp, gm_simps]:
  "gm_get (gm_put k v m) k' = (if k' = k then Some v else gm_get m k')"
  by (simp add: gm_get_def gm_put_def update_conv')

lemma map_of_filter_key: "map_of (filter (\<lambda>(k, _). P k) m) k = (if P k then map_of m k else None)"
  by (induction m) auto

lemma gm_get_del [simp, gm_simps]:
  "gm_get (gm_del k m) k' = (if k' = k then None else gm_get m k')"
  by (simp add: gm_get_def gm_del_def map_of_filter_key)

lemma gm_get_del_if [simp, gm_simps]:
  "gm_get (gm_del_if p m) k = (if p k then None else gm_get m k)"
  by (simp add: gm_get_def gm_del_if_def map_of_filter_key)

lemma gm_get0_put [simp, gm_simps]:
  "gm_get0 d (gm_put k v m) k' = (if k' = k then v else gm_get0 d m k')"
  by (simp add: gm_get0_def)

lemma gm_get0_del [simp, gm_simps]:
  "gm_get0 d (gm_del k m) k' = (if k' = k then d else gm_get0 d m k')"
  by (simp add: gm_get0_def)

lemma gm_get0_Nil [simp, gm_simps]: "gm_get0 d [] k = d"
  by (simp add: gm_get0_def)

lemma gm_get0_None [simp]: "gm_get m k = None \<Longrightarrow> gm_get0 d m k = d"
  by (simp add: gm_get0_def)

lemma gm_get0_Some [simp]: "gm_get m k = Some v \<Longrightarrow> gm_get0 d m k = v"
  by (simp add: gm_get0_def)

lemma gm_get0_incr [simp, gm_simps]:
  "gm_get0 0 (gm_incr k m) k' = (if k' = k then gm_get0 0 m k + 1 else gm_get0 0 m k')"
  by (simp add: gm_incr_def)

lemma gm_has_simps [simp, gm_simps]:
  "gm_has (gm_put k v m) k' \<longleftrightarrow> k' = k \<or> gm_has m k'"
  "gm_has (gm_del k m) k' \<longleftrightarrow> k' \<noteq> k \<and> gm_has m k'"
  by (auto simp: gm_has_def)

lemma gm_wf_Nil [simp]: "gm_wf []"
  by (simp add: gm_wf_def)

lemma gm_wf_put [simp]: "gm_wf m \<Longrightarrow> gm_wf (gm_put k v m)"
  by (simp add: gm_wf_def gm_put_def distinct_update)

lemma distinct_fst_filter: "distinct (map fst m) \<Longrightarrow> distinct (map fst (filter P m))"
  by (induction m) auto

lemma gm_wf_del [simp]: "gm_wf m \<Longrightarrow> gm_wf (gm_del k m)"
  by (simp add: gm_wf_def gm_del_def distinct_fst_filter)

lemma gm_wf_del_if [simp]: "gm_wf m \<Longrightarrow> gm_wf (gm_del_if p m)"
  by (simp add: gm_wf_def gm_del_if_def distinct_fst_filter)

lemma gm_get_in_set: "gm_get m k = Some v \<Longrightarrow> (k, v) \<in> set m"
  by (simp add: gm_get_def map_of_SomeD)

lemma gm_get_wf_iff: "gm_wf m \<Longrightarrow> gm_get m k = Some v \<longleftrightarrow> (k, v) \<in> set m"
  by (simp add: gm_wf_def gm_get_def)

section \<open>Slices\<close>

text \<open>\<open>append(list[:i], list[i+1:]...)\<close>.\<close>

definition remove_nth :: "nat \<Rightarrow> 'a list \<Rightarrow> 'a list" where
  "remove_nth i xs = take i xs @ drop (Suc i) xs"

lemma set_remove_nth_subset: "set (remove_nth i xs) \<subseteq> set xs"
  by (auto simp: remove_nth_def dest: in_set_takeD in_set_dropD)

lemma length_remove_nth: "i < length xs \<Longrightarrow> length (remove_nth i xs) = length xs - 1"
  by (simp add: remove_nth_def)

lemma remove_nth_0 [simp]: "remove_nth 0 (x # xs) = xs"
  by (simp add: remove_nth_def)

lemma mset_remove_nth: "i < length xs \<Longrightarrow> mset xs = add_mset (xs ! i) (mset (remove_nth i xs))"
  by (metis id_take_nth_drop mset.simps(2) mset_append remove_nth_def union_mset_add_mset_right)

lemma sorted_wrt_remove_nth: "sorted_wrt P xs \<Longrightarrow> sorted_wrt P (remove_nth i xs)"
proof -
  assume P: "sorted_wrt P xs"
  then have "sorted_wrt P (take i xs @ drop i xs)" by simp
  then have "\<forall>x\<in>set (take i xs). \<forall>y\<in>set (drop i xs). P x y"
    by (auto simp only: sorted_wrt_append)
  moreover have "set (drop (Suc i) xs) \<subseteq> set (drop i xs)"
    by (rule set_drop_subset_set_drop) simp
  ultimately show ?thesis
    using P by (auto simp: remove_nth_def sorted_wrt_append sorted_wrt_take sorted_wrt_drop)
qed

lemma map_remove_nth: "map f (remove_nth i xs) = remove_nth i (map f xs)"
  by (simp add: remove_nth_def take_map drop_map)

lemma sorted_map_remove_nth: "sorted (map f xs) \<Longrightarrow> sorted (map f (remove_nth i xs))"
  by (simp only: map_remove_nth sorted_wrt_remove_nth)

text \<open>The first index whose element satisfies a predicate, as a \<open>for i, x := range xs\<close> loop with a \<open>break\<close>.\<close>

fun find_index :: "('a \<Rightarrow> bool) \<Rightarrow> 'a list \<Rightarrow> nat option" where
  "find_index P [] = None"
| "find_index P (x # xs) = (if P x then Some 0 else map_option Suc (find_index P xs))"

lemma find_index_SomeD:
  "find_index P xs = Some i \<Longrightarrow> i < length xs \<and> P (xs ! i) \<and> (\<forall>j<i. \<not> P (xs ! j))"
proof (induction xs arbitrary: i)
  case Nil
  then show ?case by simp
next
  case (Cons x xs)
  then show ?case
    by (cases "P x") (auto simp: nth_Cons less_Suc_eq_0_disj split: nat.splits)
qed

lemma find_index_None_iff: "find_index P xs = None \<longleftrightarrow> (\<forall>x\<in>set xs. \<not> P x)"
  by (induction xs) auto

lemma find_index_length: "find_index P xs = Some i \<Longrightarrow> i < length xs"
  by (simp add: find_index_SomeD)

text \<open>Writing through the pointer stored at an index.\<close>

lemma sorted_map_list_update_same:
  "f y = f (xs ! i) \<Longrightarrow> map f (xs[i := y]) = map f xs"
  by (cases "i < length xs") (simp_all add: map_update list_update_same_conv list_update_beyond)

lemma set_list_updateE:
  assumes "x \<in> set (xs[i := y])"
  obtains "x = y" | "x \<in> set xs"
  using assms set_update_subset_insert by fastforce

section \<open>The sort package\<close>

text \<open>
  \<open>sort.Slice(xs, func(i, j) { return key(xs[i]) < key(xs[j]) })\<close> returns some permutation that
  is sorted by the key, and \<open>sort.SliceStable\<close> the stable one.  Both are \<open>sort_key\<close> here; the
  next lemma says that with distinct keys there is only one sorted permutation, so that the choice
  is immaterial.
\<close>

lemma sorted_permutation_unique:
  assumes "mset ys = mset xs" and "sorted (map f ys)" and "inj_on f (set xs)"
  shows "ys = sort_key f xs"
proof -
  have "sort_key f ys = ys" using assms(2) by (simp add: sort_key_id_if_sorted)
  moreover have "sort_key f ys = sort_key f xs"
    using assms(1,3) by (metis mset_sort sorted_sort_key sort_key_inj_key_eq)
  ultimately show ?thesis by simp
qed

text \<open>
  \<open>sort.Search(n, f)\<close>: Go's binary search for the least index in \<open>[0, n)\<close> at which \<open>f\<close> holds,
  with the library's own midpoint and interval.
\<close>

function sort_search :: "nat \<Rightarrow> nat \<Rightarrow> (nat \<Rightarrow> bool) \<Rightarrow> nat" where
  "sort_search i j f =
     (if i < j then
        let h = (i + j) div 2
        in if \<not> f h then sort_search (Suc h) j f else sort_search i h f
      else i)"
  by pat_completeness auto
termination
  by (relation "measure (\<lambda>(i, j, f). j - i)") auto

declare sort_search.simps [simp del]

lemma sort_search_spec:
  assumes "\<forall>a b. a \<le> b \<and> b < n \<and> f a \<longrightarrow> f b"
    and "i \<le> j" and "j \<le> n"
    and "\<forall>k < i. \<not> f k" and "\<forall>k. j \<le> k \<and> k < n \<longrightarrow> f k"
  shows "sort_search i j f \<le> n \<and> (\<forall>k < sort_search i j f. \<not> f k)
    \<and> (\<forall>k. sort_search i j f \<le> k \<and> k < n \<longrightarrow> f k)"
  using assms
proof (induction i j f rule: sort_search.induct [case_names step])
  case (step i j f)
  note eq = sort_search.simps [of i j f]
  show ?case
  proof (cases "i < j")
    case False
    then have "sort_search i j f = i" by (subst eq) simp
    then show ?thesis using step.prems False by simp
  next
    case True
    define h where "h = (i + j) div 2"
    have h: "i \<le> h" "h < j" using True by (auto simp: h_def)
    show ?thesis
    proof (cases "f h")
      case fh: True
      have "h \<le> n" using h step.prems(3) by simp
      moreover have "\<forall>k. h \<le> k \<and> k < n \<longrightarrow> f k"
        using step.prems(1) fh by blast
      ultimately have "sort_search i h f \<le> n \<and> (\<forall>k < sort_search i h f. \<not> f k)
          \<and> (\<forall>k. sort_search i h f \<le> k \<and> k < n \<longrightarrow> f k)"
        using step.IH(2) [OF True h_def _ step.prems(1) h(1) _ step.prems(4)] fh by blast
      then show ?thesis using True fh by (simp add: eq h_def Let_def)
    next
      case nfh: False
      have "\<forall>k < Suc h. \<not> f k"
        using step.prems(1,3) nfh h(2) by (metis less_Suc_eq_le order_less_le_trans)
      moreover have "Suc h \<le> j" using h(2) by simp
      ultimately have "sort_search (Suc h) j f \<le> n \<and> (\<forall>k < sort_search (Suc h) j f. \<not> f k)
          \<and> (\<forall>k. sort_search (Suc h) j f \<le> k \<and> k < n \<longrightarrow> f k)"
        using step.IH(1) [OF True h_def nfh step.prems(1) _ step.prems(3) _ step.prems(5)] by blast
      then show ?thesis using True nfh by (simp add: eq h_def Let_def)
    qed
  qed
qed

section \<open>Reachable states and invariants\<close>

text \<open>
  The states a component can reach from its initial ones by its steps.  A component theory defines
  its step relation, and interprets \<open>invariant_system\<close> to lift a one-step invariant to all of them.
\<close>

inductive reach :: "('s \<Rightarrow> bool) \<Rightarrow> ('s \<Rightarrow> 's \<Rightarrow> bool) \<Rightarrow> 's \<Rightarrow> bool"
  for init :: "'s \<Rightarrow> bool" and step :: "'s \<Rightarrow> 's \<Rightarrow> bool" where
  reach_init: "init s \<Longrightarrow> reach init step s"
| reach_step: "reach init step s \<Longrightarrow> step s t \<Longrightarrow> reach init step t"

locale invariant_system =
  fixes init :: "'s \<Rightarrow> bool" and step :: "'s \<Rightarrow> 's \<Rightarrow> bool" and inv :: "'s \<Rightarrow> bool"
  assumes inv_init: "init s \<Longrightarrow> inv s"
    and inv_step: "inv s \<Longrightarrow> step s t \<Longrightarrow> inv t"
begin

lemma reach_inv: "reach init step s \<Longrightarrow> inv s"
  by (induction rule: reach.induct) (auto intro: inv_init inv_step)

lemma reach_inv_consequence: "reach init step s \<Longrightarrow> (\<And>t. inv t \<Longrightarrow> P t) \<Longrightarrow> P s"
  using reach_inv by blast

end

end
