(* ===== verification/Queue_Types.thy ===== *)
theory Queue_Types
  imports Go_Prelude
begin

text \<open>
  The data of the message queue (\<open>internal/orchestrator/messagequeue/types.go\<close>): identities,
  queued messages with their metadata, pending workflow moves, policies, the error values, and the
  predicates and metadata transformations of that file.

  A \<open>map[string]interface{}\<close> is a Go map of \<open>mval\<close>: the dynamic values the package stores.
  \<open>MTime\<close> is a time value or the RFC 3339 string that formats it (the package only ever formats
  and parses its own lease expiry, and \<open>time.Parse\<close> inverts \<open>Format\<close>); \<open>MRefs\<close>, \<open>MStrs\<close>
  and \<open>MContexts\<close> are the typed slices the package writes.  Messages are values, so the deep copies of the source
  (\<open>cloneQueuedMessage\<close>, \<open>copyMessageMetadata\<close>) are the identity; a nil map and an empty one are
  both the empty list, which no code of the package tells apart.  A nil \<open>*QueuedMessage\<close> argument
  is \<open>None\<close> in the operations that test for it.
\<close>

section \<open>Values\<close>

record EntityReference =
  er_Version :: int
  er_Ref :: string
  er_Provider :: string
  er_Kind :: string
  er_ID :: string
  er_Scope :: string
  er_Key :: string
  er_Title :: string
  er_URL :: string

record ContextFileMeta =
  cf_Path :: string
  cf_Name :: string
  cf_IsDirectory :: "bool option"

datatype mval =
    MNull
  | MBool bool
  | MInt int
  | MFloat rat
  | MStr string
  | MTime time
  | MList "mval list"
  | MObj "(string \<times> mval) list"
  | MRefs "EntityReference list"
  | MStrs "string list"
  | MContexts "ContextFileMeta list"

type_synonym metadata = "(string, mval) gomap"

text \<open>\<open>value, _ := m[key].(string)\<close> and \<open>.(bool)\<close>.\<close>

definition metadataString :: "metadata \<Rightarrow> string \<Rightarrow> string" where
  "metadataString m k = (case gm_get m k of Some (MStr s) \<Rightarrow> s | _ \<Rightarrow> [])"

definition metadataBool :: "metadata \<Rightarrow> string \<Rightarrow> bool" where
  "metadataBool m k = (case gm_get m k of Some (MBool b) \<Rightarrow> b | _ \<Rightarrow> False)"

lemma metadataBool_put [simp]:
  "metadataBool (gm_put k v m) k' =
     (if k' = k then (case v of MBool b \<Rightarrow> b | _ \<Rightarrow> False) else metadataBool m k')"
  by (simp add: metadataBool_def)

lemma metadataString_put [simp]:
  "metadataString (gm_put k v m) k' =
     (if k' = k then (case v of MStr s \<Rightarrow> s | _ \<Rightarrow> []) else metadataString m k')"
  by (simp add: metadataString_def)

section \<open>Metadata keys\<close>

abbreviation MetadataCoalesceKey :: string where "MetadataCoalesceKey \<equiv> ''coalesce_key''"
abbreviation MetadataEntityReferences :: string where "MetadataEntityReferences \<equiv> ''entity_references''"
abbreviation MetadataQueueAdmissionIDs :: string where "MetadataQueueAdmissionIDs \<equiv> ''queue_admission_ids''"
abbreviation MetadataStepHandoff :: string where "MetadataStepHandoff \<equiv> ''step_handoff''"
abbreviation MetadataContextFiles :: string where "MetadataContextFiles \<equiv> ''context_files''"
abbreviation MetadataLifecycleDurable :: string where
  "MetadataLifecycleDurable \<equiv> ''lifecycle_durable_until_accepted''"
abbreviation MetadataLifecycleGeneration :: string where
  "MetadataLifecycleGeneration \<equiv> ''lifecycle_queue_generation''"
abbreviation MetadataLifecycleReserved :: string where
  "MetadataLifecycleReserved \<equiv> ''lifecycle_reserved_in_flight''"
abbreviation metadataLifecycleReservationID :: string where
  "metadataLifecycleReservationID \<equiv> ''lifecycle_reservation_id''"
abbreviation MetadataLifecycleReservationIncarnation :: string where
  "MetadataLifecycleReservationIncarnation \<equiv> ''lifecycle_reservation_incarnation_id''"
abbreviation MetadataDeliveryReservationToken :: string where
  "MetadataDeliveryReservationToken \<equiv> ''delivery_reservation_token''"
abbreviation MetadataDeliveryReservationExpiresAt :: string where
  "MetadataDeliveryReservationExpiresAt \<equiv> ''delivery_reservation_expires_at''"
abbreviation MetadataDeliveryAttempted :: string where
  "MetadataDeliveryAttempted \<equiv> ''delivery_attempted''"
abbreviation MetadataDurableTranscriptMessageID :: string where
  "MetadataDurableTranscriptMessageID \<equiv> ''durable_transcript_message_id''"
abbreviation MetadataSenderTaskID :: string where "MetadataSenderTaskID \<equiv> ''sender_task_id''"
abbreviation metadataUserMessageRecorded :: string where
  "metadataUserMessageRecorded \<equiv> ''user_message_recorded''"
abbreviation MetadataManagedInput :: string where "MetadataManagedInput \<equiv> ''managed_input''"
abbreviation MetadataClientQueueID :: string where "MetadataClientQueueID \<equiv> ''client_queue_id''"
abbreviation MetadataRequestFingerprint :: string where
  "MetadataRequestFingerprint \<equiv> ''plan_comment_request_fingerprint''"
abbreviation MetadataClientMessageFingerprint :: string where
  "MetadataClientMessageFingerprint \<equiv> ''client_message_request_fingerprint''"

abbreviation QueuedByUser :: string where "QueuedByUser \<equiv> ''user''"
abbreviation QueuedByAgent :: string where "QueuedByAgent \<equiv> ''agent''"
abbreviation QueuedByWorkflow :: string where "QueuedByWorkflow \<equiv> ''workflow''"
abbreviation QueuedByServer :: string where "QueuedByServer \<equiv> ''server''"
abbreviation QueuedByMoveTask :: string where "QueuedByMoveTask \<equiv> ''mcp-move-task''"

definition IsReservedQueuedBy :: "string \<Rightarrow> bool" where
  "IsReservedQueuedBy queuedBy \<longleftrightarrow>
     queuedBy \<in> {QueuedByAgent, QueuedByWorkflow, QueuedByServer, QueuedByMoveTask}"

section \<open>Errors\<close>

text \<open>
  The sentinel errors of the package.  \<open>ErrText\<close> is an unnamed \<open>errors.New\<close> value with its text.
\<close>

datatype qerror =
    ErrQueueFull
  | ErrEntryNotFound
  | ErrNoMergeTarget
  | ErrQueueChanged
  | ErrQueueIDConflict
  | ErrSessionIdentityMismatch
  | ErrLifecycleCancelled
  | ErrQueueDispatchClaimChanged
  | ErrLifecycleReservationChanged
  | ErrAutoMergePolicyChanged
  | ErrQueueAdmissionUnavailable
  | ErrInvalidQueueAdmissionIDs
  | ErrMergeReferenceOverflow
  | ErrSendNowEmpty
  | ErrSendNowClaimChanged
  | ErrSendNowReservationConflict
  | ErrSendNowAttachmentOverflow
  | ErrSendNowReferenceOverflow
  | ErrManagedInputNotPending
  | ErrManagedInputNotHead
  | ErrManagedInputTransition
  | ErrManagedInputBusy
  | ErrText string

section \<open>Structs\<close>

record QueueSessionIdentity =
  si_TaskID :: string
  si_SessionID :: string
  si_SessionIncarnationID :: string

definition no_identity :: QueueSessionIdentity where
  "no_identity = \<lparr>si_TaskID = [], si_SessionID = [], si_SessionIncarnationID = []\<rparr>"

record QueueAttachmentClaim =
  ac_OwnerID :: string
  ac_WorkspaceID :: string
  ac_IDs :: "string list"

datatype AutoMergeSource = AutoMergeSourceGlobal | AutoMergeSourceSession | AutoMergeSourceOther string

record AutoMergePolicy =
  ap_Enabled :: bool
  ap_Source :: AutoMergeSource
  ap_Revision :: int

record AutoMergeOverride =
  ao_Enabled :: bool
  ao_Revision :: int

record MessageAttachment =
  at_Type :: string
  at_Data :: string
  at_AttachmentID :: string
  at_MimeType :: string
  at_Name :: string
  at_SizeBytes :: int
  at_DeliveryMode :: string

text \<open>
  Positions and generations are Go's \<open>int64\<close>, here \<open>int\<close>: they start at 0 and grow by one per
  operation, so no run reaches \<open>2 ^ 63\<close>.
\<close>

record QueuedMessage =
  qm_ID :: string
  qm_SessionID :: string
  qm_TaskID :: string
  qm_Position :: int
  qm_Content :: string
  qm_Model :: string
  qm_PlanMode :: bool
  qm_Attachments :: "MessageAttachment list"
  qm_Metadata :: metadata
  qm_QueuedAt :: time
  qm_QueuedBy :: string
  qm_reservedDelivery :: bool
  qm_reservedLifecycleDelivery :: bool
  qm_dispatchAttemptID :: string
  qm_lifecycleReservationID :: string
  qm_reservationSessionGeneration :: int
  qm_reservationLifecycleGeneration :: int
  qm_reservationGenerationsCaptured :: bool
  qm_reservationIdentity :: QueueSessionIdentity
  qm_reservationToken :: string
  qm_reservationExpiresAt :: time
  qm_deliveryProtocol :: string
  qm_deliverySubmissionID :: string
  qm_deliveryPayloadHash :: string

text \<open>The zero value \<open>QueuedMessage{}\<close>, extended field by field where the source writes a literal.\<close>

definition zero_message :: QueuedMessage where
  "zero_message =
     \<lparr>qm_ID = [], qm_SessionID = [], qm_TaskID = [], qm_Position = 0, qm_Content = [],
      qm_Model = [], qm_PlanMode = False, qm_Attachments = [], qm_Metadata = [], qm_QueuedAt = 0,
      qm_QueuedBy = [], qm_reservedDelivery = False, qm_reservedLifecycleDelivery = False,
      qm_dispatchAttemptID = [], qm_lifecycleReservationID = [],
      qm_reservationSessionGeneration = 0, qm_reservationLifecycleGeneration = 0,
      qm_reservationGenerationsCaptured = False, qm_reservationIdentity = no_identity,
      qm_reservationToken = [], qm_reservationExpiresAt = 0, qm_deliveryProtocol = [],
      qm_deliverySubmissionID = [], qm_deliveryPayloadHash = []\<rparr>"

text \<open>
  The typed one-shot options of a deferred move (\<open>workflowmove.EntryOptions\<close>) are carried by the
  queue unread, so they are an opaque payload here.
\<close>

record QueueRemovalResult =
  rr_Removed :: "QueuedMessage list"
  rr_Retained :: "QueuedMessage list"

record PendingMove =
  pm_MoveID :: string
  pm_SessionIncarnationID :: string
  pm_TaskID :: string
  pm_WorkflowID :: string
  pm_WorkflowStepID :: string
  pm_FromStepID :: string
  pm_FromTransitionID :: int
  pm_Position :: int
  pm_QueuedAt :: time
  pm_Actor :: string
  pm_SenderSessionID :: string
  pm_EntryOptions :: "metadata option"

section \<open>Delivery classes\<close>

definition isManagedInputQueueEntry :: "QueuedMessage \<Rightarrow> bool" where
  "isManagedInputQueueEntry m \<longleftrightarrow> metadataBool (qm_Metadata m) MetadataManagedInput"

definition IsDurableLifecycle :: "QueuedMessage \<Rightarrow> bool" where
  "IsDurableLifecycle m \<longleftrightarrow>
     metadataBool (qm_Metadata m) MetadataLifecycleDurable \<or>
     metadataString (qm_Metadata m) ''origin''
       \<in> {''github_pr_automation'', ''ci_automation'', ''gitlab_mr_automation''}"

definition IsDurablePlanComment :: "QueuedMessage \<Rightarrow> bool" where
  "IsDurablePlanComment m \<longleftrightarrow>
     (metadataString (qm_Metadata m) MetadataClientQueueID \<noteq> [] \<and>
      metadataString (qm_Metadata m) MetadataRequestFingerprint \<noteq> []) \<or>
     (metadataString (qm_Metadata m) MetadataDurableTranscriptMessageID \<noteq> [] \<and>
      metadataString (qm_Metadata m) MetadataClientMessageFingerprint \<noteq> [])"

definition IsDurableDelivery :: "QueuedMessage \<Rightarrow> bool" where
  "IsDurableDelivery m \<longleftrightarrow>
     IsDurableLifecycle m \<or> IsDurablePlanComment m \<or> isManagedInputQueueEntry m"

definition IsReservedInFlight :: "QueuedMessage \<Rightarrow> bool" where
  "IsReservedInFlight m \<longleftrightarrow> metadataBool (qm_Metadata m) MetadataLifecycleReserved"

definition IsDeliveryAttempted :: "QueuedMessage \<Rightarrow> bool" where
  "IsDeliveryAttempted m \<longleftrightarrow> metadataBool (qm_Metadata m) MetadataDeliveryAttempted"

section \<open>Reservation metadata\<close>

definition DeliveryReservationTTL :: int where
  "DeliveryReservationTTL = 30 * Second"

definition markReservedMetadata :: "metadata \<Rightarrow> string list \<Rightarrow> metadata" where
  "markReservedMetadata m reservationIDs =
     (let marked = gm_put MetadataLifecycleReserved (MBool True) m
      in case reservationIDs of
           [] \<Rightarrow> marked
         | rid # _ \<Rightarrow> if rid \<noteq> [] then gm_put metadataLifecycleReservationID (MStr rid) marked
                      else marked)"

definition markReservedMetadataForIncarnation :: "metadata \<Rightarrow> string \<Rightarrow> metadata" where
  "markReservedMetadataForIncarnation m incarnationID =
     (let marked = markReservedMetadata m []
      in if incarnationID \<noteq> []
         then gm_put MetadataLifecycleReservationIncarnation (MStr incarnationID) marked
         else marked)"

text \<open>The lease token is a fresh UUID, passed in as \<open>token\<close>.\<close>

definition markReservedMetadataWithLease ::
  "metadata \<Rightarrow> string \<Rightarrow> time \<Rightarrow> string \<Rightarrow> metadata \<times> string \<times> time" where
  "markReservedMetadataWithLease m incarnationID now token =
     (let expiresAt = now + DeliveryReservationTTL;
          marked = markReservedMetadataForIncarnation m incarnationID
      in (gm_put MetadataDeliveryReservationExpiresAt (MTime expiresAt)
            (gm_put MetadataDeliveryReservationToken (MStr token) marked), token, expiresAt))"

definition lifecycleReservationIncarnation :: "metadata \<Rightarrow> string" where
  "lifecycleReservationIncarnation m = metadataString m MetadataLifecycleReservationIncarnation"

definition deliveryReservationToken :: "metadata \<Rightarrow> string" where
  "deliveryReservationToken m = metadataString m MetadataDeliveryReservationToken"

definition deliveryReservationExpiresAt :: "metadata \<Rightarrow> time" where
  "deliveryReservationExpiresAt m =
     (case gm_get m MetadataDeliveryReservationExpiresAt of Some (MTime t) \<Rightarrow> t | _ \<Rightarrow> 0)"

definition bindDeliveryReservation :: "QueuedMessage \<Rightarrow> metadata \<Rightarrow> QueuedMessage" where
  "bindDeliveryReservation q m =
     q\<lparr>qm_lifecycleReservationID := metadataString m metadataLifecycleReservationID,
       qm_reservationToken := deliveryReservationToken m,
       qm_reservationExpiresAt := deliveryReservationExpiresAt m\<rparr>"

definition reservationMatches :: "QueuedMessage \<Rightarrow> metadata \<Rightarrow> bool" where
  "reservationMatches q m =
     (let stored = deliveryReservationToken m
      in if IsDurablePlanComment q
         then stored \<noteq> [] \<and> qm_reservationToken q \<noteq> [] \<and> stored = qm_reservationToken q
         else stored = [] \<or> (qm_reservationToken q \<noteq> [] \<and> stored = qm_reservationToken q))"

abbreviation reservedKeys :: "string list" where
  "reservedKeys \<equiv>
     [MetadataLifecycleReserved, metadataLifecycleReservationID,
      MetadataLifecycleReservationIncarnation, MetadataDeliveryReservationToken,
      MetadataDeliveryReservationExpiresAt]"

definition clearReservedMetadata :: "metadata \<Rightarrow> metadata" where
  "clearReservedMetadata m = gm_del_if (\<lambda>k. k \<in> set reservedKeys) m"

definition IsStaleAt :: "PendingMove \<Rightarrow> time \<Rightarrow> int \<Rightarrow> bool" where
  "IsStaleAt m now ttl =
     (if ttl \<le> 0 then False
      else if IsZero (pm_QueuedAt m) \<or> After (pm_QueuedAt m) now then False
      else now - pm_QueuedAt m > ttl)"

section \<open>Lemmas\<close>

lemma gm_get_clearReserved [simp]:
  "gm_get (clearReservedMetadata m) k = (if k \<in> set reservedKeys then None else gm_get m k)"
  by (simp add: clearReservedMetadata_def)

lemma clearReserved_not_reserved [simp]:
  "\<not> IsReservedInFlight (q\<lparr>qm_Metadata := clearReservedMetadata m\<rparr>)"
  by (simp add: IsReservedInFlight_def metadataBool_def)

lemma deliveryReservationToken_clear [simp]: "deliveryReservationToken (clearReservedMetadata m) = []"
  by (simp add: deliveryReservationToken_def metadataString_def)

text \<open>
  Marking a row reserved and clearing the marks changes neither its delivery class nor any key
  outside the five reservation keys.
\<close>

lemma gm_get_markReserved:
  "gm_get (markReservedMetadata m ids) k =
     (if k = metadataLifecycleReservationID \<and> ids \<noteq> [] \<and> hd ids \<noteq> [] then Some (MStr (hd ids))
      else if k = MetadataLifecycleReserved then Some (MBool True) else gm_get m k)"
  by (auto simp: markReservedMetadata_def Let_def split: list.splits)

lemma gm_get_markReservedForIncarnation:
  "gm_get (markReservedMetadataForIncarnation m inc) k =
     (if k = MetadataLifecycleReservationIncarnation \<and> inc \<noteq> [] then Some (MStr inc)
      else if k = MetadataLifecycleReserved then Some (MBool True) else gm_get m k)"
  by (simp add: markReservedMetadataForIncarnation_def gm_get_markReserved Let_def)

lemma gm_get_markReservedWithLease:
  "gm_get (fst (markReservedMetadataWithLease m inc now token)) k =
     (if k = MetadataDeliveryReservationExpiresAt then Some (MTime (now + DeliveryReservationTTL))
      else if k = MetadataDeliveryReservationToken then Some (MStr token)
      else gm_get (markReservedMetadataForIncarnation m inc) k)"
  by (simp add: markReservedMetadataWithLease_def Let_def)

lemmas reserved_lookup = gm_get_markReserved gm_get_markReservedForIncarnation
  gm_get_markReservedWithLease

lemma delivery_class_cong:
  assumes "\<And>k. k \<notin> set reservedKeys \<Longrightarrow> gm_get (qm_Metadata a) k = gm_get (qm_Metadata b) k"
  shows "IsDurableLifecycle a = IsDurableLifecycle b"
    and "IsDurablePlanComment a = IsDurablePlanComment b"
    and "isManagedInputQueueEntry a = isManagedInputQueueEntry b"
    and "IsDurableDelivery a = IsDurableDelivery b"
    and "IsDeliveryAttempted a = IsDeliveryAttempted b"
  by (simp_all add: IsDurableLifecycle_def IsDurablePlanComment_def isManagedInputQueueEntry_def
      IsDurableDelivery_def IsDeliveryAttempted_def metadataBool_def metadataString_def assms)

text \<open>A stored lease token is matched only by the copy that carries exactly this token.\<close>

lemma reservationMatches_token:
  "reservationMatches q m \<Longrightarrow> deliveryReservationToken m \<noteq> [] \<Longrightarrow>
   qm_reservationToken q = deliveryReservationToken m"
  by (auto simp: reservationMatches_def Let_def split: if_splits)

text \<open>A zero or future timestamp never makes a pending move stale, whatever the lifetime.\<close>

lemma IsStaleAt_iff:
  "IsStaleAt m now ttl \<longleftrightarrow>
     0 < ttl \<and> pm_QueuedAt m \<noteq> 0 \<and> pm_QueuedAt m \<le> now \<and> ttl < now - pm_QueuedAt m"
  by (auto simp: IsStaleAt_def IsZero_def After_def)

end
