(* ===== verification/Queue_Store.thy ===== *)
theory Queue_Store
  imports Queue_Types
begin

text \<open>
  The state of the in-memory queue repository (\<open>repository_memory.go\<close>, type
  \<open>memoryRepository\<close>), session identities, admission of messages into a session's FIFO list,
  and the counting and listing operations.

  Every operation of the source runs under the repository's mutex, so it is one atomic function from
  the state to a result and the next state; an error is \<open>Inl\<close>, and the state is returned on error
  paths too because some of them have already written (binding an identity, for example).  The
  clock reading and the UUIDs an operation draws are its argument \<open>env\<close>.  An operation that
  writes through its \<open>*QueuedMessage\<close> argument returns the message as it leaves it.
\<close>

section \<open>State\<close>

record env =
  e_now :: time
  e_uuid :: "nat \<Rightarrow> string"

record queueAdmissionKey =
  ak_TaskID :: string
  ak_SessionID :: string
  ak_SessionIncarnationID :: string
  ak_ClientQueueID :: string

record queueAdmissionReceipt =
  ar_Fingerprint :: string
  ar_Message :: QueuedMessage

datatype ManagedInputOrigin =
    ManagedInputOriginHuman
  | ManagedInputOriginAutomation
  | ManagedInputOriginPeriodic
  | ManagedInputOriginInteraction
  | ManagedInputOriginOther string

datatype ManagedInputState =
    ManagedInputStateAccepted
  | ManagedInputStateRunning
  | ManagedInputStateCompleted
  | ManagedInputStateFailed
  | ManagedInputStateCancelled
  | ManagedInputStateUncertain
  | ManagedInputStateSuperseded

text \<open>\<open>managedInputScope\<close> has the fields of \<open>QueueSessionIdentity\<close> and is converted from it.\<close>

type_synonym managedInputScope = QueueSessionIdentity
type_synonym managedInputIDKey = "managedInputScope \<times> string"
type_synonym managedInputOccurrenceKey = "managedInputScope \<times> string"

record ManagedInputReceipt =
  mr_ID :: string
  mr_OccurrenceKey :: string
  mr_TaskID :: string
  mr_SessionID :: string
  mr_SessionIncarnationID :: string
  mr_PayloadDigest :: string
  mr_Payload :: string
  mr_Origin :: ManagedInputOrigin
  mr_CoalesceKey :: string
  mr_Sequence :: int
  mr_ConversationRevision :: int
  mr_State :: ManagedInputState
  mr_CreatedAt :: time
  mr_UpdatedAt :: time
  mr_TurnID :: string
  mr_ExecutionID :: string
  mr_SupersededBy :: string
  mr_Outcome :: string
  mr_fingerprint :: string

record memoryRepository =
  r_entries :: "(string, QueuedMessage list) gomap"
  r_nextPosition :: "(string, int) gomap"
  r_pendingMoves :: "(string, PendingMove) gomap"
  r_generation :: "(string, int) gomap"
  r_sessionGeneration :: "(string, int) gomap"
  r_sendNowGeneration :: "(string, int) gomap"
  r_sendNowClaims :: "(string, (string, unit) gomap) gomap"
  r_autoRun :: "(string, bool) gomap"
  r_autoRunIncarnation :: "(string, string) gomap"
  r_autoMergeOverrides :: "(QueueSessionIdentity, AutoMergeOverride) gomap"
  r_identities :: "(string, QueueSessionIdentity) gomap"
  r_admissionReceipts :: "(queueAdmissionKey, queueAdmissionReceipt) gomap"
  r_managedInputs :: "(managedInputIDKey, ManagedInputReceipt) gomap"
  r_managedOccurrences :: "(managedInputOccurrenceKey, managedInputIDKey) gomap"
  r_statusGeneration :: "(string, int) gomap"

type_synonym repo = memoryRepository
type_synonym 'a result = "(qerror + 'a) \<times> repo"

definition NewMemoryRepository :: repo where
  "NewMemoryRepository =
     \<lparr>r_entries = [], r_nextPosition = [], r_pendingMoves = [], r_generation = [],
      r_sessionGeneration = [], r_sendNowGeneration = [], r_sendNowClaims = [], r_autoRun = [],
      r_autoRunIncarnation = [], r_autoMergeOverrides = [], r_identities = [],
      r_admissionReceipts = [], r_managedInputs = [], r_managedOccurrences = [],
      r_statusGeneration = []\<rparr>"

abbreviation sess :: "repo \<Rightarrow> string \<Rightarrow> QueuedMessage list" where
  "sess r s \<equiv> gm_get0 [] (r_entries r) s"

abbreviation nextPos :: "repo \<Rightarrow> string \<Rightarrow> int" where
  "nextPos r s \<equiv> gm_get0 0 (r_nextPosition r) s"

text \<open>\<open>r.entries[s] = l\<close>, and the variant that deletes the key when the list became empty.\<close>

definition put_entries :: "string \<Rightarrow> QueuedMessage list \<Rightarrow> repo \<Rightarrow> repo" where
  "put_entries s l r = r\<lparr>r_entries := gm_put s l (r_entries r)\<rparr>"

definition store_entries :: "string \<Rightarrow> QueuedMessage list \<Rightarrow> repo \<Rightarrow> repo" where
  "store_entries s l r =
     (if l = [] then r\<lparr>r_entries := gm_del s (r_entries r)\<rparr> else put_entries s l r)"

definition put_next :: "string \<Rightarrow> int \<Rightarrow> repo \<Rightarrow> repo" where
  "put_next s p r = r\<lparr>r_nextPosition := gm_put s p (r_nextPosition r)\<rparr>"

text \<open>\<open>if p > r.nextPosition[s] { r.nextPosition[s] = p }\<close>.\<close>

definition raise_next :: "string \<Rightarrow> int \<Rightarrow> repo \<Rightarrow> repo" where
  "raise_next s p r = (if p > nextPos r s then put_next s p r else r)"

section \<open>Session identities\<close>

definition clearSessionStateLocked :: "string \<Rightarrow> repo \<Rightarrow> repo" where
  "clearSessionStateLocked sid r =
     r\<lparr>r_entries := gm_del sid (r_entries r),
       r_nextPosition := gm_del sid (r_nextPosition r),
       r_pendingMoves := gm_del sid (r_pendingMoves r),
       r_sendNowGeneration := gm_del sid (r_sendNowGeneration r),
       r_sendNowClaims := gm_del sid (r_sendNowClaims r),
       r_autoRun := gm_del sid (r_autoRun r),
       r_autoRunIncarnation := gm_del sid (r_autoRunIncarnation r),
       r_statusGeneration := gm_del sid (r_statusGeneration r),
       r_identities := gm_del sid (r_identities r),
       r_admissionReceipts := gm_del_if (\<lambda>k. ak_SessionID k = sid) (r_admissionReceipts r),
       r_managedInputs := gm_del_if (\<lambda>k. si_SessionID (fst k) = sid) (r_managedInputs r),
       r_managedOccurrences := gm_del_if (\<lambda>k. si_SessionID (fst k) = sid) (r_managedOccurrences r),
       r_autoMergeOverrides := gm_del_if (\<lambda>i. si_SessionID i = sid) (r_autoMergeOverrides r)\<rparr>"

abbreviation incomplete_identity :: "QueueSessionIdentity \<Rightarrow> bool" where
  "incomplete_identity i \<equiv> si_TaskID i = [] \<or> si_SessionID i = [] \<or> si_SessionIncarnationID i = []"

definition bindIdentityLocked :: "QueueSessionIdentity \<Rightarrow> repo \<Rightarrow> unit result" where
  "bindIdentityLocked i r =
     (if incomplete_identity i then (Inl ErrSessionIdentityMismatch, r)
      else case gm_get (r_identities r) (si_SessionID i) of
        Some current \<Rightarrow>
          if current \<noteq> i then (Inl ErrSessionIdentityMismatch, r) else (Inr (), r)
      | None \<Rightarrow>
          if si_SessionIncarnationID i \<noteq> ''memory:'' @ si_SessionID i
          then (Inl ErrSessionIdentityMismatch, r)
          else if \<exists>e\<in>set (sess r (si_SessionID i)). qm_TaskID e \<noteq> si_TaskID i
          then (Inl ErrSessionIdentityMismatch, r)
          else (Inr (), r\<lparr>r_identities := gm_put (si_SessionID i) i (r_identities r)\<rparr>))"

text \<open>
  The prologue of every \<open>...ForSession\<close> operation: bind the identity, then run the body on the
  state that leaves.
\<close>

definition with_identity :: "QueueSessionIdentity \<Rightarrow> (repo \<Rightarrow> 'a result) \<Rightarrow> repo \<Rightarrow> 'a result" where
  "with_identity i body r =
     (case bindIdentityLocked i r of (Inl e, r') \<Rightarrow> (Inl e, r') | (Inr _, r') \<Rightarrow> body r')"

definition validateIdentityLocked :: "QueueSessionIdentity \<Rightarrow> repo \<Rightarrow> qerror option" where
  "validateIdentityLocked i r =
     (if incomplete_identity i then Some ErrSessionIdentityMismatch
      else if gm_get (r_identities r) (si_SessionID i) \<noteq> Some i
      then Some ErrSessionIdentityMismatch else None)"

type_synonym authority = "string \<Rightarrow> string \<Rightarrow> qerror + QueueSessionIdentity"

definition ResolveSessionIdentity ::
  "authority option \<Rightarrow> string \<Rightarrow> string \<Rightarrow> repo \<Rightarrow> QueueSessionIdentity result" where
  "ResolveSessionIdentity auth taskID sid r =
     (if taskID = [] \<or> sid = [] then (Inl ErrSessionIdentityMismatch, r)
      else case auth of
        Some a \<Rightarrow>
          (case a taskID sid of
             Inl e \<Rightarrow> (Inl e, r)
           | Inr i \<Rightarrow>
               if si_TaskID i \<noteq> taskID \<or> si_SessionID i \<noteq> sid \<or> si_SessionIncarnationID i = []
               then (Inl ErrSessionIdentityMismatch, r)
               else
                 let r1 = (case gm_get (r_identities r) sid of
                             Some existing \<Rightarrow>
                               if existing \<noteq> i then clearSessionStateLocked sid r else r
                           | None \<Rightarrow> r)
                 in (Inr i, r1\<lparr>r_identities := gm_put sid i (r_identities r1)\<rparr>))
      | None \<Rightarrow>
          (case gm_get (r_identities r) sid of
             Some i \<Rightarrow>
               if si_TaskID i \<noteq> taskID then (Inl ErrSessionIdentityMismatch, r) else (Inr i, r)
           | None \<Rightarrow>
               let i = \<lparr>si_TaskID = taskID, si_SessionID = sid,
                        si_SessionIncarnationID = ''memory:'' @ sid\<rparr>
               in (Inr i, r\<lparr>r_identities := gm_put sid i (r_identities r)\<rparr>)))"

section \<open>Automatic draining\<close>

definition autoRunLocked :: "string \<Rightarrow> repo \<Rightarrow> bool" where
  "autoRunLocked sid r = (case gm_get (r_autoRun r) sid of None \<Rightarrow> True | Some enabled \<Rightarrow> enabled)"

definition autoRunForIdentityLocked :: "QueueSessionIdentity \<Rightarrow> repo \<Rightarrow> bool \<times> repo" where
  "autoRunForIdentityLocked i r =
     (case gm_get (r_autoRun r) (si_SessionID i) of
        None \<Rightarrow> (True, r)
      | Some enabled \<Rightarrow>
          let inc = gm_get0 [] (r_autoRunIncarnation r) (si_SessionID i)
          in if inc = []
             then (enabled,
                   r\<lparr>r_autoRunIncarnation :=
                       gm_put (si_SessionID i) (si_SessionIncarnationID i) (r_autoRunIncarnation r)\<rparr>)
             else if inc \<noteq> si_SessionIncarnationID i then (True, r)
             else (enabled, r))"

definition identityPointer :: "QueueSessionIdentity \<Rightarrow> QueueSessionIdentity option" where
  "identityPointer i = (if si_SessionIncarnationID i = [] then None else Some i)"

definition setAutoRunLocked :: "QueueSessionIdentity option \<Rightarrow> string \<Rightarrow> bool \<Rightarrow> repo \<Rightarrow> repo" where
  "setAutoRunLocked io sid enabled r =
     r\<lparr>r_autoRun := gm_put sid enabled (r_autoRun r),
       r_autoRunIncarnation :=
         gm_put sid (case io of None \<Rightarrow> [] | Some i \<Rightarrow> si_SessionIncarnationID i)
           (r_autoRunIncarnation r)\<rparr>"

definition GetAutoRun :: "string \<Rightarrow> repo \<Rightarrow> bool" where
  "GetAutoRun sid r = autoRunLocked sid r"

definition SetAutoRun :: "string \<Rightarrow> bool \<Rightarrow> repo \<Rightarrow> unit result" where
  "SetAutoRun sid enabled r = (Inr (), setAutoRunLocked None sid enabled r)"

definition SetAutoRunForSession :: "QueueSessionIdentity \<Rightarrow> bool \<Rightarrow> repo \<Rightarrow> unit result" where
  "SetAutoRunForSession i enabled =
     with_identity i (\<lambda>r. (Inr (), setAutoRunLocked (Some i) (si_SessionID i) enabled r))"

definition pauseAutoRunIfPendingLocked ::
  "QueueSessionIdentity option \<Rightarrow> string \<Rightarrow> repo \<Rightarrow> bool \<times> repo" where
  "pauseAutoRunIfPendingLocked io sid r =
     (if \<exists>m\<in>set (sess r sid). \<not> IsReservedInFlight m
      then (True, setAutoRunLocked io sid False r) else (False, r))"

definition PauseAutoRunIfPending :: "string \<Rightarrow> repo \<Rightarrow> bool result" where
  "PauseAutoRunIfPending sid r =
     (case pauseAutoRunIfPendingLocked None sid r of (b, r') \<Rightarrow> (Inr b, r'))"

definition PauseAutoRunIfPendingForSession :: "QueueSessionIdentity \<Rightarrow> repo \<Rightarrow> bool result" where
  "PauseAutoRunIfPendingForSession i =
     with_identity i (\<lambda>r. case pauseAutoRunIfPendingLocked (Some i) (si_SessionID i) r of
                            (b, r') \<Rightarrow> (Inr b, r'))"

section \<open>Auto-merge policy\<close>

definition GetAutoMergeOverride ::
  "QueueSessionIdentity \<Rightarrow> repo \<Rightarrow> qerror + AutoMergeOverride option" where
  "GetAutoMergeOverride i r =
     (case validateIdentityLocked i r of
        Some e \<Rightarrow> Inl e
      | None \<Rightarrow> Inr (gm_get (r_autoMergeOverrides r) i))"

definition SetAutoMergeOverride :: "QueueSessionIdentity \<Rightarrow> bool \<Rightarrow> repo \<Rightarrow> AutoMergeOverride result" where
  "SetAutoMergeOverride i enabled =
     with_identity i (\<lambda>r.
       let old = gm_get0 \<lparr>ao_Enabled = False, ao_Revision = 0\<rparr> (r_autoMergeOverrides r) i;
           override = \<lparr>ao_Enabled = enabled, ao_Revision = ao_Revision old + 1\<rparr>
       in (Inr override, r\<lparr>r_autoMergeOverrides := gm_put i override (r_autoMergeOverrides r)\<rparr>))"

definition validateAutoMergePolicyLocked ::
  "QueueSessionIdentity \<Rightarrow> AutoMergePolicy \<Rightarrow> repo \<Rightarrow> qerror option" where
  "validateAutoMergePolicyLocked i policy r =
     (let override = gm_get (r_autoMergeOverrides r) i
      in case ap_Source policy of
           AutoMergeSourceGlobal \<Rightarrow>
             if override \<noteq> None then Some ErrAutoMergePolicyChanged else None
         | AutoMergeSourceSession \<Rightarrow>
             (case override of
                None \<Rightarrow> Some ErrAutoMergePolicyChanged
              | Some ov \<Rightarrow>
                  if ao_Enabled ov \<noteq> ap_Enabled policy \<or> ao_Revision ov \<noteq> ap_Revision policy
                  then Some ErrAutoMergePolicyChanged else None)
         | AutoMergeSourceOther _ \<Rightarrow> Some ErrAutoMergePolicyChanged)"

section \<open>Inserting at the tail\<close>

text \<open>\<open>if msg.ID == "" \<dots>\<close> and \<open>if msg.QueuedAt.IsZero() \<dots>\<close>, shared by the insertion paths.\<close>

definition fill_identity :: "env \<Rightarrow> QueuedMessage \<Rightarrow> QueuedMessage" where
  "fill_identity e msg =
     msg\<lparr>qm_ID := (if qm_ID msg = [] then e_uuid e 0 else qm_ID msg),
         qm_QueuedAt := (if IsZero (qm_QueuedAt msg) then e_now e else qm_QueuedAt msg)\<rparr>"

definition insertLocked :: "env \<Rightarrow> QueuedMessage \<Rightarrow> int \<Rightarrow> repo \<Rightarrow> QueuedMessage result" where
  "insertLocked e msg maxPerSession r =
     (let s = qm_SessionID msg; list = sess r s
      in if maxPerSession > 0 \<and> int (length list) \<ge> maxPerSession then (Inl ErrQueueFull, r)
         else
           let p = nextPos r s + 1; msg' = (fill_identity e msg)\<lparr>qm_Position := p\<rparr>
           in (Inr msg', put_entries s (list @ [msg']) (put_next s p r)))"

definition Insert :: "env \<Rightarrow> QueuedMessage \<Rightarrow> int \<Rightarrow> repo \<Rightarrow> QueuedMessage result" where
  "Insert e msg maxPerSession r = insertLocked e msg maxPerSession r"

text \<open>The guard \<open>msg == nil || msg.SessionID != identity.SessionID || msg.TaskID != identity.TaskID\<close>.\<close>

definition for_identity ::
  "QueueSessionIdentity \<Rightarrow> QueuedMessage option \<Rightarrow> (QueuedMessage \<Rightarrow> repo \<Rightarrow> 'a result) \<Rightarrow> repo \<Rightarrow> 'a result"
where
  "for_identity i mo body r =
     (case mo of
        None \<Rightarrow> (Inl ErrSessionIdentityMismatch, r)
      | Some msg \<Rightarrow>
          if qm_SessionID msg \<noteq> si_SessionID i \<or> qm_TaskID msg \<noteq> si_TaskID i
          then (Inl ErrSessionIdentityMismatch, r)
          else with_identity i (body msg) r)"

definition InsertForSession ::
  "env \<Rightarrow> QueueSessionIdentity \<Rightarrow> QueuedMessage option \<Rightarrow> int \<Rightarrow> repo \<Rightarrow> QueuedMessage result" where
  "InsertForSession e i mo maxPerSession =
     for_identity i mo (\<lambda>msg r. insertLocked e msg maxPerSession r)"

definition InsertForSessionWithClaim ::
  "env \<Rightarrow> QueueSessionIdentity \<Rightarrow> QueuedMessage option \<Rightarrow> QueueAttachmentClaim \<Rightarrow> int \<Rightarrow> repo \<Rightarrow>
   QueuedMessage result" where
  "InsertForSessionWithClaim e i mo _ maxPerSession =
     for_identity i mo (\<lambda>msg r. insertLocked e msg maxPerSession r)"

definition InsertForSessionWithPolicy ::
  "env \<Rightarrow> QueueSessionIdentity \<Rightarrow> QueuedMessage option \<Rightarrow> int \<Rightarrow> AutoMergePolicy \<Rightarrow> repo \<Rightarrow>
   QueuedMessage result" where
  "InsertForSessionWithPolicy e i mo maxPerSession policy =
     for_identity i mo (\<lambda>msg r.
       case validateAutoMergePolicyLocked i policy r of
         Some err \<Rightarrow> (Inl err, r)
       | None \<Rightarrow> insertLocked e msg maxPerSession r)"

section \<open>Restoring a dequeued entry\<close>

definition restoreLocked :: "env \<Rightarrow> QueuedMessage option \<Rightarrow> int \<Rightarrow> repo \<Rightarrow> QueuedMessage result" where
  "restoreLocked e mo maxPerSession r =
     (case mo of
        None \<Rightarrow> (Inl ErrEntryNotFound, r)
      | Some msg \<Rightarrow>
          let s = qm_SessionID msg; list = sess r s
          in if qm_reservationGenerationsCaptured msg \<and>
                gm_get0 0 (r_sessionGeneration r) s \<noteq> qm_reservationSessionGeneration msg
             then (Inl ErrQueueDispatchClaimChanged, r)
             else if maxPerSession > 0 \<and> int (length list) \<ge> maxPerSession
             then (Inl ErrQueueFull, r)
             else
               let msg' = fill_identity e msg;
                   index = sort_search 0 (length list) (\<lambda>k. qm_Position (list ! k) > qm_Position msg')
               in (Inr msg',
                   raise_next s (qm_Position msg')
                     (put_entries s (take index list @ [msg'] @ drop index list) r)))"

definition Restore :: "env \<Rightarrow> QueuedMessage option \<Rightarrow> int \<Rightarrow> repo \<Rightarrow> QueuedMessage result" where
  "Restore e mo maxPerSession r = restoreLocked e mo maxPerSession r"

definition RestoreForSession ::
  "env \<Rightarrow> QueueSessionIdentity \<Rightarrow> QueuedMessage option \<Rightarrow> int \<Rightarrow> repo \<Rightarrow> QueuedMessage result" where
  "RestoreForSession e i mo maxPerSession =
     for_identity i mo (\<lambda>msg r. restoreLocked e (Some msg) maxPerSession r)"

section \<open>Requeueing ahead of the head\<close>

definition coalesce_write :: "QueuedMessage \<Rightarrow> time \<Rightarrow> QueuedMessage \<Rightarrow> QueuedMessage" where
  "coalesce_write msg queuedAt existing =
     existing\<lparr>qm_TaskID := qm_TaskID msg, qm_Content := qm_Content msg, qm_Model := qm_Model msg,
       qm_PlanMode := qm_PlanMode msg, qm_Attachments := qm_Attachments msg,
       qm_Metadata := qm_Metadata msg, qm_QueuedAt := queuedAt\<rparr>"

definition removeEntryLocked :: "string \<Rightarrow> nat \<Rightarrow> repo \<Rightarrow> repo" where
  "removeEntryLocked s index r = store_entries s (remove_nth index (sess r s)) r"

definition hasPendingCoalescedSuccessorLocked ::
  "string \<Rightarrow> nat \<Rightarrow> string \<Rightarrow> string \<Rightarrow> repo \<Rightarrow> bool" where
  "hasPendingCoalescedSuccessorLocked s excludedIndex queuedBy coalesceKey r \<longleftrightarrow>
     coalesceKey \<noteq> [] \<and>
     (\<exists>(index, successor)\<in>set (zip [0..<length (sess r s)] (sess r s)).
        \<not> (index = excludedIndex \<or> IsReservedInFlight successor \<or> qm_QueuedBy successor \<noteq> queuedBy) \<and>
        metadataString (qm_Metadata successor) MetadataCoalesceKey = coalesceKey)"

text \<open>Copying every key of one metadata map into another.\<close>

definition overlay_metadata :: "metadata \<Rightarrow> metadata \<Rightarrow> metadata" where
  "overlay_metadata base over = foldl (\<lambda>m (k, v). gm_put k v m) base over"

definition releaseLifecycleReservationForRetryLocked ::
  "QueuedMessage \<Rightarrow> string \<Rightarrow> repo \<Rightarrow> unit result" where
  "releaseLifecycleReservationForRetryLocked msg expectedIncarnationID r =
     (let s = qm_SessionID msg; list = sess r s
      in case find_index (\<lambda>x. qm_ID x = qm_ID msg \<and> IsReservedInFlight x) list of
           None \<Rightarrow> (Inl ErrEntryNotFound, r)
         | Some index \<Rightarrow>
             let existing = list ! index
             in if IsDeliveryAttempted existing \<or> \<not> reservationMatches msg (qm_Metadata existing)
                then (Inl ErrEntryNotFound, r)
                else if expectedIncarnationID \<noteq> [] \<and>
                        lifecycleReservationIncarnation (qm_Metadata existing) \<noteq> expectedIncarnationID
                then (Inl ErrEntryNotFound, r)
                else if hasPendingCoalescedSuccessorLocked s index (qm_QueuedBy existing)
                          (metadataString (qm_Metadata existing) MetadataCoalesceKey) r
                then (Inr (), removeEntryLocked s index r)
                else
                  let released = overlay_metadata (qm_Metadata existing) (qm_Metadata msg)
                  in (Inr (), put_entries s
                        (list[index := existing\<lparr>qm_Metadata := clearReservedMetadata released\<rparr>]) r))"

fun min_position :: "QueuedMessage list \<Rightarrow> int \<Rightarrow> int" where
  "min_position [] acc = acc"
| "min_position (x # xs) acc = min_position xs (if qm_Position x < acc then qm_Position x else acc)"

definition shift_positions :: "int \<Rightarrow> QueuedMessage list \<Rightarrow> QueuedMessage list" where
  "shift_positions d = map (\<lambda>x. x\<lparr>qm_Position := qm_Position x + d\<rparr>)"

text \<open>
  The new position, the entries (shifted in place when the position would not be positive), and
  the state with its high-water mark.
\<close>

definition nextRequeuePositionLocked ::
  "string \<Rightarrow> QueuedMessage list \<Rightarrow> repo \<Rightarrow> int \<times> QueuedMessage list \<times> repo" where
  "nextRequeuePositionLocked s list r =
     (case list of
        [] \<Rightarrow> (1, [], if nextPos r s < 1 then put_next s 1 r else r)
      | x # xs \<Rightarrow>
          let position = min_position xs (qm_Position x) - 1
          in if position \<le> 0 then
               let shift = 1 - position
               in (1, shift_positions shift list, raise_next s 1 (put_next s (nextPos r s + shift) r))
             else (position, list, raise_next s position r))"

definition requeuePreservingFIFOLocked ::
  "env \<Rightarrow> QueuedMessage option \<Rightarrow> string \<Rightarrow> repo \<Rightarrow> QueuedMessage result" where
  "requeuePreservingFIFOLocked e mo expectedIncarnationID r =
     (case mo of
        None \<Rightarrow> (Inl ErrEntryNotFound, r)
      | Some msg \<Rightarrow>
          let s = qm_SessionID msg
          in if qm_reservationGenerationsCaptured msg \<and>
                gm_get0 0 (r_sessionGeneration r) s \<noteq> qm_reservationSessionGeneration msg
             then (Inl ErrQueueDispatchClaimChanged, r)
             else if qm_reservedDelivery msg then
               (case releaseLifecycleReservationForRetryLocked msg expectedIncarnationID r of
                  (Inl err, r') \<Rightarrow> (Inl err, r') | (Inr _, r') \<Rightarrow> (Inr msg, r'))
             else
               let list = sess r s;
                   coalesceKey = metadataString (qm_Metadata msg) MetadataCoalesceKey;
                   target = (if coalesceKey = [] then None
                             else find_index (\<lambda>x. \<not> IsReservedInFlight x \<and> qm_QueuedBy x = qm_QueuedBy msg
                                    \<and> metadataString (qm_Metadata x) MetadataCoalesceKey = coalesceKey) list)
               in case target of
                    Some index \<Rightarrow>
                      let existing = list ! index;
                          queuedAt = (if IsZero (qm_QueuedAt msg) then e_now e else qm_QueuedAt msg)
                      in (Inr (msg\<lparr>qm_ID := qm_ID existing, qm_Position := qm_Position existing\<rparr>),
                          put_entries s (list[index := coalesce_write msg queuedAt existing]) r)
                  | None \<Rightarrow>
                      (case nextRequeuePositionLocked s list r of
                         (position, list', r') \<Rightarrow>
                           let msg' = (fill_identity e msg)\<lparr>qm_Position := position\<rparr>
                           in (Inr msg', put_entries s (msg' # list') r')))"

definition RequeuePreservingFIFO :: "env \<Rightarrow> QueuedMessage option \<Rightarrow> repo \<Rightarrow> QueuedMessage result" where
  "RequeuePreservingFIFO e mo r = requeuePreservingFIFOLocked e mo [] r"

definition RequeuePreservingFIFOForSession ::
  "env \<Rightarrow> QueueSessionIdentity \<Rightarrow> QueuedMessage option \<Rightarrow> repo \<Rightarrow> QueuedMessage result" where
  "RequeuePreservingFIFOForSession e i mo =
     for_identity i mo (\<lambda>msg r. requeuePreservingFIFOLocked e (Some msg) (si_SessionIncarnationID i) r)"

section \<open>Appending to the tail entry\<close>

abbreviation appendSeparator :: string where
  "appendSeparator \<equiv> [CHR 0x0A, CHR 0x0A] @ ''---'' @ [CHR 0x0A, CHR 0x0A]"

definition appendOrInsertTailLocked ::
  "env \<Rightarrow> string \<Rightarrow> string \<Rightarrow> string \<Rightarrow> string \<Rightarrow> string \<Rightarrow> bool \<Rightarrow> MessageAttachment list \<Rightarrow> metadata \<Rightarrow>
   int \<Rightarrow> repo \<Rightarrow> (QueuedMessage \<times> bool) result" where
  "appendOrInsertTailLocked e s taskID content model queuedBy planMode attachments metadata
     maxPerSession r =
     (let list = sess r s;
          fresh = zero_message\<lparr>qm_SessionID := s, qm_TaskID := taskID, qm_Content := content,
                    qm_Model := model, qm_PlanMode := planMode, qm_Attachments := attachments,
                    qm_Metadata := metadata, qm_QueuedBy := queuedBy\<rparr>
      in if list \<noteq> [] \<and> qm_QueuedBy (last list) = queuedBy then
           let tail = (last list)\<lparr>qm_Content := qm_Content (last list) @ appendSeparator @ content\<rparr>
           in (Inr (tail, True), put_entries s (butlast list @ [tail]) r)
         else
           case insertLocked e fresh maxPerSession r of
             (Inl err, r') \<Rightarrow> (Inl err, r') | (Inr msg, r') \<Rightarrow> (Inr (msg, False), r'))"

definition AppendOrInsertTail ::
  "env \<Rightarrow> string \<Rightarrow> string \<Rightarrow> string \<Rightarrow> string \<Rightarrow> string \<Rightarrow> bool \<Rightarrow> MessageAttachment list \<Rightarrow> metadata \<Rightarrow>
   int \<Rightarrow> repo \<Rightarrow> (QueuedMessage \<times> bool) result" where
  "AppendOrInsertTail = appendOrInsertTailLocked"

definition AppendOrInsertTailForSession ::
  "env \<Rightarrow> QueueSessionIdentity \<Rightarrow> string \<Rightarrow> string \<Rightarrow> string \<Rightarrow> bool \<Rightarrow> MessageAttachment list \<Rightarrow>
   metadata \<Rightarrow> int \<Rightarrow> repo \<Rightarrow> (QueuedMessage \<times> bool) result" where
  "AppendOrInsertTailForSession e i content model queuedBy planMode attachments metadata maxPerSession =
     with_identity i
       (appendOrInsertTailLocked e (si_SessionID i) (si_TaskID i) content model queuedBy planMode
          attachments metadata maxPerSession)"

section \<open>Replacing by coalesce key\<close>

definition coalesce_match :: "QueuedMessage \<Rightarrow> string \<Rightarrow> QueuedMessage \<Rightarrow> bool" where
  "coalesce_match msg coalesceKey x \<longleftrightarrow>
     qm_QueuedBy x = qm_QueuedBy msg \<and> metadataString (qm_Metadata x) MetadataCoalesceKey = coalesceKey"

text \<open>
  The loop replaces the first unreserved match; a reserved match seen on the way lifts the
  capacity limit for the insertion, because the reserved row is about to leave the queue.
\<close>

definition insertOrReplaceByCoalesceKeyLocked ::
  "env \<Rightarrow> QueuedMessage \<Rightarrow> string \<Rightarrow> int \<Rightarrow> bool \<Rightarrow> repo \<Rightarrow> (QueuedMessage \<times> bool) result" where
  "insertOrReplaceByCoalesceKeyLocked e msg coalesceKey maxPerSession allowInsert r =
     (let s = qm_SessionID msg; list = sess r s;
          reservedMatch = (\<exists>x\<in>set list. coalesce_match msg coalesceKey x \<and> IsReservedInFlight x)
      in case find_index (\<lambda>x. coalesce_match msg coalesceKey x \<and> \<not> IsReservedInFlight x) list of
           Some index \<Rightarrow>
             let queuedAt = (if IsZero (qm_QueuedAt msg) then e_now e else qm_QueuedAt msg);
                 existing = coalesce_write msg queuedAt (list ! index)
             in (Inr (existing, True), put_entries s (list[index := existing]) r)
         | None \<Rightarrow>
             if \<not> allowInsert then (Inl ErrEntryNotFound, r)
             else
               case insertLocked e msg (if reservedMatch then 0 else maxPerSession) r of
                 (Inl err, r') \<Rightarrow> (Inl err, r') | (Inr m, r') \<Rightarrow> (Inr (m, False), r'))"

definition InsertOrReplaceByCoalesceKey ::
  "env \<Rightarrow> QueuedMessage \<Rightarrow> string \<Rightarrow> int \<Rightarrow> bool \<Rightarrow> repo \<Rightarrow> (QueuedMessage \<times> bool) result" where
  "InsertOrReplaceByCoalesceKey = insertOrReplaceByCoalesceKeyLocked"

definition InsertOrReplaceByCoalesceKeyForSession ::
  "env \<Rightarrow> QueueSessionIdentity \<Rightarrow> QueuedMessage option \<Rightarrow> string \<Rightarrow> int \<Rightarrow> bool \<Rightarrow> repo \<Rightarrow>
   (QueuedMessage \<times> bool) result" where
  "InsertOrReplaceByCoalesceKeyForSession e i mo coalesceKey maxPerSession allowInsert =
     for_identity i mo
       (\<lambda>msg. insertOrReplaceByCoalesceKeyLocked e msg coalesceKey maxPerSession allowInsert)"

text \<open>
  Go converts a \<open>float64\<close> to \<open>int64\<close> by truncation towards zero.
\<close>

definition lifecycleGenerationFromMetadata :: "metadata \<Rightarrow> int option" where
  "lifecycleGenerationFromMetadata m =
     (case gm_get m MetadataLifecycleGeneration of
        Some (MInt n) \<Rightarrow> Some n
      | Some (MFloat q) \<Rightarrow> Some (if q < 0 then - \<lfloor>- q\<rfloor> else \<lfloor>q\<rfloor>)
      | _ \<Rightarrow> None)"

definition insertOrReplaceLifecycleLocked ::
  "env \<Rightarrow> QueuedMessage \<Rightarrow> string \<Rightarrow> int \<Rightarrow> bool \<Rightarrow> repo \<Rightarrow> (QueuedMessage \<times> bool) result" where
  "insertOrReplaceLifecycleLocked e msg coalesceKey maxPerSession allowInsert r =
     (if lifecycleGenerationFromMetadata (qm_Metadata msg)
           \<noteq> Some (gm_get0 0 (r_generation r) (qm_TaskID msg))
      then (Inl ErrLifecycleCancelled, r)
      else insertOrReplaceByCoalesceKeyLocked e msg coalesceKey maxPerSession allowInsert r)"

definition InsertOrReplaceLifecycleByCoalesceKey ::
  "env \<Rightarrow> QueuedMessage \<Rightarrow> string \<Rightarrow> int \<Rightarrow> bool \<Rightarrow> repo \<Rightarrow> (QueuedMessage \<times> bool) result" where
  "InsertOrReplaceLifecycleByCoalesceKey = insertOrReplaceLifecycleLocked"

definition InsertOrReplaceLifecycleByCoalesceKeyForSession ::
  "env \<Rightarrow> QueueSessionIdentity \<Rightarrow> QueuedMessage option \<Rightarrow> string \<Rightarrow> int \<Rightarrow> bool \<Rightarrow> repo \<Rightarrow>
   (QueuedMessage \<times> bool) result" where
  "InsertOrReplaceLifecycleByCoalesceKeyForSession e i mo coalesceKey maxPerSession allowInsert =
     for_identity i mo
       (\<lambda>msg. insertOrReplaceLifecycleLocked e msg coalesceKey maxPerSession allowInsert)"

section \<open>Counting and listing\<close>

definition LifecycleGeneration :: "string \<Rightarrow> repo \<Rightarrow> int" where
  "LifecycleGeneration taskID r = gm_get0 0 (r_generation r) taskID"

definition SessionGeneration :: "string \<Rightarrow> repo \<Rightarrow> int" where
  "SessionGeneration s r = gm_get0 0 (r_sessionGeneration r) s"

abbreviation all_entries :: "repo \<Rightarrow> QueuedMessage list" where
  "all_entries r \<equiv> concat (map snd (r_entries r))"

definition count_pending :: "(string, int) gomap \<Rightarrow> QueuedMessage \<Rightarrow> (string, int) gomap" where
  "count_pending counts msg =
     (if IsReservedInFlight msg then counts
      else if gm_has counts (qm_TaskID msg) then gm_incr (qm_TaskID msg) counts else counts)"

definition CountPendingByTaskIDs :: "string list \<Rightarrow> repo \<Rightarrow> (string, int) gomap" where
  "CountPendingByTaskIDs taskIDs r =
     (let counts = foldl (\<lambda>m t. gm_put t 0 m) [] taskIDs
      in if taskIDs = [] then counts else foldl count_pending counts (all_entries r))"

definition CountQueueDepth :: "repo \<Rightarrow> nat" where
  "CountQueueDepth r = length (filter (\<lambda>m. \<not> IsReservedInFlight m) (all_entries r))"

definition CountBySession :: "string \<Rightarrow> repo \<Rightarrow> nat" where
  "CountBySession s r = length (sess r s)"

definition ListBySession :: "string \<Rightarrow> repo \<Rightarrow> QueuedMessage list" where
  "ListBySession s r = sort_key qm_Position (sess r s)"

abbreviation fifo_key :: "QueuedMessage \<Rightarrow> string \<times> int" where
  "fifo_key m \<equiv> (qm_SessionID m, qm_Position m)"

definition ListDurableLifecycleEntries :: "repo \<Rightarrow> QueuedMessage list" where
  "ListDurableLifecycleEntries r = sort_key fifo_key (filter IsDurableLifecycle (all_entries r))"

definition ListDurableDeliveryEntries :: "repo \<Rightarrow> QueuedMessage list" where
  "ListDurableDeliveryEntries r =
     sort_key fifo_key
       (map (\<lambda>m. bindDeliveryReservation m (qm_Metadata m)) (filter IsDurableDelivery (all_entries r)))"

definition FindByID :: "string \<Rightarrow> repo \<Rightarrow> qerror + QueuedMessage" where
  "FindByID entryID r =
     (case find_index (\<lambda>m. qm_ID m = entryID) (all_entries r) of
        None \<Rightarrow> Inl ErrEntryNotFound
      | Some k \<Rightarrow> Inr (all_entries r ! k))"

record RepositorySnapshot =
  rs_Entries :: "QueuedMessage list"
  rs_PendingMove :: "PendingMove option"
  rs_AutoRun :: bool
  rs_AutoMergeOverride :: "AutoMergeOverride option"
  rs_StatusGeneration :: int

definition Snapshot :: "QueueSessionIdentity \<Rightarrow> repo \<Rightarrow> RepositorySnapshot result" where
  "Snapshot i =
     with_identity i (\<lambda>r.
       let s = si_SessionID i
       in case autoRunForIdentityLocked i r of
            (autoRun, r1) \<Rightarrow>
              let r2 = r1\<lparr>r_statusGeneration := gm_incr s (r_statusGeneration r1)\<rparr>
              in (Inr \<lparr>rs_Entries = sess r s,
                       rs_PendingMove = gm_get (r_pendingMoves r) s,
                       rs_AutoRun = autoRun,
                       rs_AutoMergeOverride = gm_get (r_autoMergeOverrides r) i,
                       rs_StatusGeneration = gm_get0 0 (r_statusGeneration r2) s\<rparr>, r2))"

end
