(* ===== verification/Queue_Delivery.thy ===== *)
theory Queue_Delivery
  imports Queue_Store
begin

text \<open>
  Taking work out of a session's queue (\<open>repository_memory.go\<close>): destructive dequeue, the
  reserve/acknowledge protocol of durable rows, delivery attempts, and the release of a reservation.
\<close>

section \<open>The FIFO head\<close>

definition lower_position :: "QueuedMessage list \<Rightarrow> nat \<Rightarrow> nat \<Rightarrow> nat" where
  "lower_position list index i =
     (if qm_Position (list ! i) < qm_Position (list ! index) then i else index)"

definition lowestPositionIndex :: "QueuedMessage list \<Rightarrow> nat" where
  "lowestPositionIndex list = foldl (lower_position list) 0 [1..<length list]"

lemma foldl_lower_position:
  "foldl (lower_position list) index is \<in> insert index (set is) \<and>
   (\<forall>j\<in>insert index (set is).
      qm_Position (list ! foldl (lower_position list) index is) \<le> qm_Position (list ! j))"
proof (induction "is" arbitrary: index)
  case Nil
  then show ?case by simp
next
  case (Cons i "is")
  have "lower_position list index i \<in> {i, index}"
    and "qm_Position (list ! lower_position list index i) \<le> qm_Position (list ! i)"
    and "qm_Position (list ! lower_position list index i) \<le> qm_Position (list ! index)"
    by (auto simp: lower_position_def)
  with Cons.IH [of "lower_position list index i"] show ?case by fastforce
qed

text \<open>The index is in range and no entry has a smaller position.\<close>

lemma lowestPositionIndex_spec:
  assumes "list \<noteq> []"
  shows "lowestPositionIndex list < length list"
    and "j < length list \<Longrightarrow> qm_Position (list ! lowestPositionIndex list) \<le> qm_Position (list ! j)"
proof -
  have range: "insert 0 (set [1..<length list]) = {..<length list}"
    using assms by (auto simp: gr0_conv_Suc)
  then show "lowestPositionIndex list < length list"
    using foldl_lower_position [of list 0 "[1..<length list]"]
    by (simp add: lowestPositionIndex_def del: set_upt)
  assume "j < length list"
  then show "qm_Position (list ! lowestPositionIndex list) \<le> qm_Position (list ! j)"
    using range foldl_lower_position [of list 0 "[1..<length list]"]
    by (simp add: lowestPositionIndex_def del: set_upt)
qed

lemma lowestPositionIndex_sorted:
  assumes "sorted (map qm_Position list)"
  shows "lowestPositionIndex list = 0"
proof -
  have "foldl (lower_position list) 0 is = 0" if "\<forall>i\<in>set is. i < length list" for "is"
    using that
  proof (induction "is")
    case (Cons i "is")
    then have "0 < length list" and "i < length list" by auto
    then have "qm_Position (list ! 0) \<le> qm_Position (list ! i)"
      using sorted_nth_mono [OF assms, of 0 i] by simp
    then show ?case using Cons by (simp add: lower_position_def)
  qed simp
  then show ?thesis unfolding lowestPositionIndex_def by simp
qed

section \<open>Destructive dequeue\<close>

definition captureReservationLocked :: "QueuedMessage \<Rightarrow> repo \<Rightarrow> QueuedMessage" where
  "captureReservationLocked msg r =
     msg\<lparr>qm_reservationSessionGeneration := gm_get0 0 (r_sessionGeneration r) (qm_SessionID msg),
         qm_reservationLifecycleGeneration :=
           (if qm_TaskID msg \<noteq> [] then gm_get0 0 (r_generation r) (qm_TaskID msg)
            else qm_reservationLifecycleGeneration msg),
         qm_reservationGenerationsCaptured := True\<rparr>"

definition TakeHead :: "string \<Rightarrow> repo \<Rightarrow> QueuedMessage option \<times> repo" where
  "TakeHead s r =
     (let list = sess r s
      in if list = [] then (None, r)
         else
           let k = lowestPositionIndex list; r' = store_entries s (remove_nth k list) r
           in (Some (captureReservationLocked (list ! k) r'), r'))"

definition takeByIDLocked :: "string \<Rightarrow> string \<Rightarrow> repo \<Rightarrow> QueuedMessage option \<times> repo" where
  "takeByIDLocked s entryID r =
     (let list = sess r s
      in case find_index (\<lambda>m. qm_ID m = entryID) list of
           None \<Rightarrow> (None, r)
         | Some k \<Rightarrow>
             let r' = store_entries s (remove_nth k list) r
             in (Some (captureReservationLocked (list ! k) r'), r'))"

definition TakeByID :: "string \<Rightarrow> string \<Rightarrow> repo \<Rightarrow> QueuedMessage option \<times> repo" where
  "TakeByID = takeByIDLocked"

definition TakeByIDForSession :: "QueueSessionIdentity \<Rightarrow> string \<Rightarrow> repo \<Rightarrow> QueuedMessage option result" where
  "TakeByIDForSession i entryID =
     with_identity i (\<lambda>r. case takeByIDLocked (si_SessionID i) entryID r of (mo, r') \<Rightarrow> (Inr mo, r'))"

section \<open>Reserving the head\<close>

definition sendNowClaimContainsLocked :: "string \<Rightarrow> string \<Rightarrow> repo \<Rightarrow> bool" where
  "sendNowClaimContainsLocked s entryID r \<longleftrightarrow> gm_has (gm_get0 [] (r_sendNowClaims r) s) entryID"

definition reservationBelongsToDifferentIncarnation ::
  "metadata \<Rightarrow> QueueSessionIdentity option \<Rightarrow> bool" where
  "reservationBelongsToDifferentIncarnation m io \<longleftrightarrow>
     (case io of
        None \<Rightarrow> False
      | Some i \<Rightarrow> lifecycleReservationIncarnation m \<noteq> [] \<and>
                  lifecycleReservationIncarnation m \<noteq> si_SessionIncarnationID i)"

text \<open>
  The dispatch copy and the stored row.  Reserving draws the reservation id (UUID 0) and, for a plan
  comment, the lease token (UUID 1).
\<close>

definition reserveMemoryDelivery ::
  "env \<Rightarrow> QueuedMessage \<Rightarrow> QueueSessionIdentity option \<Rightarrow> QueuedMessage \<times> QueuedMessage" where
  "reserveMemoryDelivery e head io =
     (let out = head\<lparr>qm_Metadata := clearReservedMetadata (qm_Metadata head),
                     qm_reservedDelivery := True,
                     qm_reservedLifecycleDelivery := IsDurableLifecycle head,
                     qm_reservationIdentity :=
                       (case io of None \<Rightarrow> qm_reservationIdentity head | Some i \<Rightarrow> i),
                     qm_lifecycleReservationID := e_uuid e 0\<rparr>;
          inc = (case io of None \<Rightarrow> [] | Some i \<Rightarrow> si_SessionIncarnationID i);
          meta = markReservedMetadataForIncarnation
                   (markReservedMetadata (qm_Metadata out) [e_uuid e 0]) inc
      in if IsDurablePlanComment head
         then (case markReservedMetadataWithLease meta inc (e_now e) (e_uuid e 1) of
                 (meta', token, expiresAt) \<Rightarrow>
                   (out\<lparr>qm_reservationToken := token, qm_reservationExpiresAt := expiresAt\<rparr>,
                    head\<lparr>qm_Metadata := meta'\<rparr>))
         else (out, head\<lparr>qm_Metadata := meta\<rparr>))"

definition lease_blocks :: "env \<Rightarrow> QueuedMessage \<Rightarrow> QueueSessionIdentity option \<Rightarrow> bool" where
  "lease_blocks e head io \<longleftrightarrow>
     IsDurablePlanComment head \<and> IsReservedInFlight head \<and>
     (let inc = lifecycleReservationIncarnation (qm_Metadata head)
      in (case io of None \<Rightarrow> True | Some i \<Rightarrow> inc = [] \<or> inc = si_SessionIncarnationID i)) \<and>
     deliveryReservationToken (qm_Metadata head) \<noteq> [] \<and>
     After (deliveryReservationExpiresAt (qm_Metadata head)) (e_now e)"

lemma sess_store_entries [simp]:
  "sess (store_entries s l r) s' = (if s' = s then l else sess r s')"
  by (simp add: store_entries_def put_entries_def)

lemma sess_put_entries [simp]:
  "sess (put_entries s l r) s' = (if s' = s then l else sess r s')"
  by (simp add: put_entries_def)

lemma length_removeEntryLocked:
  "sess r s \<noteq> [] \<Longrightarrow>
   length (sess (removeEntryLocked s (lowestPositionIndex (sess r s)) r) s) < length (sess r s)"
  by (simp add: removeEntryLocked_def length_remove_nth lowestPositionIndex_spec)

function reserveHeadLocked ::
  "env \<Rightarrow> string \<Rightarrow> QueueSessionIdentity option \<Rightarrow> bool \<Rightarrow> repo \<Rightarrow> QueuedMessage option \<times> repo" where
  "reserveHeadLocked e s io retainOrdinary r =
     (let list = sess r s
      in if list = [] then (None, r)
         else
           let k = lowestPositionIndex list; head = list ! k
           in if sendNowClaimContainsLocked s (qm_ID head) r then (None, r)
              else if IsDeliveryAttempted head \<and> \<not> isManagedInputQueueEntry head
              then reserveHeadLocked e s io retainOrdinary (removeEntryLocked s k r)
              else if lease_blocks e head io then (None, r)
              else if IsDurableDelivery head \<or> retainOrdinary then
                (if reservationBelongsToDifferentIncarnation (qm_Metadata head) io
                 then reserveHeadLocked e s io retainOrdinary (removeEntryLocked s k r)
                 else case reserveMemoryDelivery e head io of
                        (out, head') \<Rightarrow>
                          (Some (captureReservationLocked out r),
                           put_entries s (list[k := head']) r))
              else (Some (captureReservationLocked head r), removeEntryLocked s k r))"
  by pat_completeness auto
termination
  by (relation "measure (\<lambda>(e, s, io, ret, r). length (sess r s))")
     (auto simp: length_removeEntryLocked)

declare reserveHeadLocked.simps [simp del]

definition ReserveHead :: "env \<Rightarrow> string \<Rightarrow> repo \<Rightarrow> QueuedMessage option \<times> repo" where
  "ReserveHead e s r = reserveHeadLocked e s None False r"

text \<open>The second result says whether the policy allowed automatic draining.\<close>

definition ReserveHeadIfAutoRun :: "env \<Rightarrow> string \<Rightarrow> repo \<Rightarrow> (QueuedMessage option \<times> bool) \<times> repo" where
  "ReserveHeadIfAutoRun e s r =
     (if \<not> autoRunLocked s r then ((None, False), r)
      else case reserveHeadLocked e s None False r of (mo, r') \<Rightarrow> ((mo, True), r'))"

definition reserve_if_auto_run ::
  "env \<Rightarrow> bool \<Rightarrow> QueueSessionIdentity \<Rightarrow> repo \<Rightarrow> (QueuedMessage option \<times> bool) result" where
  "reserve_if_auto_run e retainOrdinary i =
     with_identity i (\<lambda>r.
       case autoRunForIdentityLocked i r of
         (False, r') \<Rightarrow> (Inr (None, False), r')
       | (True, r') \<Rightarrow>
           (case reserveHeadLocked e (si_SessionID i) (Some i) retainOrdinary r' of
              (mo, r'') \<Rightarrow> (Inr (mo, True), r'')))"

definition ReserveHeadIfAutoRunForSession ::
  "env \<Rightarrow> QueueSessionIdentity \<Rightarrow> repo \<Rightarrow> (QueuedMessage option \<times> bool) result" where
  "ReserveHeadIfAutoRunForSession e = reserve_if_auto_run e False"

definition ReserveHeadForDeliveryIfAutoRunForSession ::
  "env \<Rightarrow> QueueSessionIdentity \<Rightarrow> repo \<Rightarrow> (QueuedMessage option \<times> bool) result" where
  "ReserveHeadForDeliveryIfAutoRunForSession e = reserve_if_auto_run e True"

section \<open>Acknowledging and releasing\<close>

definition AcknowledgeReserved :: "QueuedMessage \<Rightarrow> repo \<Rightarrow> unit result" where
  "AcknowledgeReserved reserved r =
     (let s = qm_SessionID reserved; list = sess r s
      in case find_index (\<lambda>m. qm_ID m = qm_ID reserved) list of
           None \<Rightarrow> (Inl ErrEntryNotFound, r)
         | Some k \<Rightarrow>
             let stored = metadataString (qm_Metadata (list ! k)) metadataLifecycleReservationID
             in if qm_lifecycleReservationID reserved = [] \<or> stored \<noteq> qm_lifecycleReservationID reserved
                then (Inl ErrLifecycleReservationChanged, r)
                else (Inr (), store_entries s (remove_nth k list) r))"

definition AcknowledgeByID :: "string \<Rightarrow> string \<Rightarrow> repo \<Rightarrow> unit result" where
  "AcknowledgeByID s entryID r =
     (case find_index (\<lambda>m. qm_ID m = entryID) (sess r s) of
        None \<Rightarrow> (Inl ErrEntryNotFound, r)
      | Some k \<Rightarrow>
          if \<not> IsReservedInFlight (sess r s ! k) then (Inl ErrEntryNotFound, r)
          else (Inr (), removeEntryLocked s k r))"

text \<open>The stored row is reserved by this incarnation and by this very reservation.\<close>

definition owns_reservation :: "QueueSessionIdentity \<Rightarrow> QueuedMessage \<Rightarrow> QueuedMessage \<Rightarrow> bool" where
  "owns_reservation i reserved m \<longleftrightarrow>
     IsReservedInFlight m \<and>
     lifecycleReservationIncarnation (qm_Metadata m) = si_SessionIncarnationID i \<and>
     reservationMatches reserved (qm_Metadata m)"

definition remove_owned :: "QueueSessionIdentity \<Rightarrow> QueuedMessage \<Rightarrow> repo \<Rightarrow> unit result" where
  "remove_owned i reserved r =
     (let s = si_SessionID i
      in case find_index (\<lambda>m. qm_ID m = qm_ID reserved) (sess r s) of
           None \<Rightarrow> (Inl ErrEntryNotFound, r)
         | Some k \<Rightarrow>
             if \<not> owns_reservation i reserved (sess r s ! k) then (Inl ErrEntryNotFound, r)
             else (Inr (), removeEntryLocked s k r))"

definition AcknowledgeByIDForSession ::
  "QueueSessionIdentity \<Rightarrow> QueuedMessage option \<Rightarrow> repo \<Rightarrow> unit result" where
  "AcknowledgeByIDForSession i ro r =
     (case ro of
        None \<Rightarrow> (Inl ErrEntryNotFound, r)
      | Some reserved \<Rightarrow> with_identity i (remove_owned i reserved) r)"

definition DiscardLifecycleReservation ::
  "QueueSessionIdentity \<Rightarrow> QueuedMessage option \<Rightarrow> repo \<Rightarrow> unit result" where
  "DiscardLifecycleReservation i ro r =
     (case ro of
        None \<Rightarrow> (Inl ErrEntryNotFound, r)
      | Some reserved \<Rightarrow> remove_owned i reserved r)"

definition release_owned :: "QueueSessionIdentity \<Rightarrow> QueuedMessage \<Rightarrow> repo \<Rightarrow> unit result" where
  "release_owned i reserved r =
     (let s = si_SessionID i; list = sess r s
      in case find_index (\<lambda>m. qm_ID m = qm_ID reserved) list of
           None \<Rightarrow> (Inl ErrEntryNotFound, r)
         | Some k \<Rightarrow>
             let m = list ! k
             in if IsDeliveryAttempted m \<or> \<not> owns_reservation i reserved m
                then (Inl ErrEntryNotFound, r)
                else if hasPendingCoalescedSuccessorLocked s k (qm_QueuedBy m)
                          (metadataString (qm_Metadata m) MetadataCoalesceKey) r
                then (Inr (), removeEntryLocked s k r)
                else (Inr (), put_entries s
                        (list[k := m\<lparr>qm_Metadata := clearReservedMetadata (qm_Metadata m)\<rparr>]) r))"

definition ReleaseDeliveryReservationForSession ::
  "QueueSessionIdentity \<Rightarrow> QueuedMessage option \<Rightarrow> repo \<Rightarrow> unit result" where
  "ReleaseDeliveryReservationForSession i ro r =
     (case ro of
        None \<Rightarrow> (Inl ErrEntryNotFound, r)
      | Some reserved \<Rightarrow> with_identity i (release_owned i reserved) r)"

text \<open>
  The validation loop of \<open>MarkDeliveryAttemptedForSession\<close>: the indices of the stored rows, or
  the first error.  Only when every candidate is valid are the rows written.
\<close>

fun attempted_rows ::
  "QueueSessionIdentity \<Rightarrow> QueuedMessage list \<Rightarrow> string list \<Rightarrow> QueuedMessage list \<Rightarrow> qerror + nat list" where
  "attempted_rows i list seen [] = Inr []"
| "attempted_rows i list seen (candidate # rest) =
     (if qm_ID candidate = [] \<or> qm_SessionID candidate \<noteq> si_SessionID i \<or>
         qm_TaskID candidate \<noteq> si_TaskID i \<or>
         (\<not> IsDurablePlanComment candidate \<and> \<not> isManagedInputQueueEntry candidate)
      then Inl ErrEntryNotFound
      else if qm_ID candidate \<in> set seen then Inl ErrQueueChanged
      else case find_index (\<lambda>m. qm_ID m = qm_ID candidate) list of
             None \<Rightarrow> Inl ErrEntryNotFound
           | Some k \<Rightarrow>
               if \<not> owns_reservation i candidate (list ! k) then Inl ErrEntryNotFound
               else case attempted_rows i list (qm_ID candidate # seen) rest of
                      Inl err \<Rightarrow> Inl err | Inr ks \<Rightarrow> Inr (k # ks))"

definition mark_attempted :: "QueuedMessage \<Rightarrow> QueuedMessage" where
  "mark_attempted m =
     m\<lparr>qm_Metadata := gm_put metadataUserMessageRecorded (MBool True)
                        (gm_put MetadataDeliveryAttempted (MBool True) (qm_Metadata m))\<rparr>"

definition MarkDeliveryAttemptedForSession ::
  "QueueSessionIdentity \<Rightarrow> QueuedMessage list \<Rightarrow> repo \<Rightarrow> unit result" where
  "MarkDeliveryAttemptedForSession i messages =
     with_identity i (\<lambda>r.
       let s = si_SessionID i; list = sess r s
       in case attempted_rows i list [] messages of
            Inl err \<Rightarrow> (Inl err, r)
          | Inr [] \<Rightarrow> (Inr (), r)
          | Inr ks \<Rightarrow>
              (Inr (), put_entries s (foldl (\<lambda>l k. l[k := mark_attempted (l ! k)]) list ks) r))"

end
