(* ===== verification/Queue_Merge.thy ===== *)
theory Queue_Merge
  imports Queue_Types
begin

text \<open>
  Combining queued messages: the manual merge (\<open>merge.go\<close>), the automatic merge
  (\<open>auto_merge.go\<close>, \<open>admission_metadata.go\<close>), the entity-reference normalisation loop
  (\<open>entityrefs/reference.go\<close>) and the send-now envelope (\<open>send_now.go\<close>).

  What these functions take from regular expressions, URL and JSON parsing is the argument \<open>codec\<close>:
  the check of one entity reference (\<open>entityrefs.normalizeOne\<close>), the JSON decoding of a stored
  value into references or context files, and the JSON text of a value.
\<close>

section \<open>Codec\<close>

record codec =
  c_normalizeOne :: "EntityReference \<Rightarrow> EntityReference option"
  c_decodeRefs :: "mval \<Rightarrow> EntityReference list option"
  c_decodeContexts :: "mval \<Rightarrow> ContextFileMeta list option"
  c_json :: "mval \<Rightarrow> string"

section \<open>Entity references\<close>

abbreviation MaxReferencesPerMessage :: nat where "MaxReferencesPerMessage \<equiv> 100"
abbreviation EntityReferenceVersion :: int where "EntityReferenceVersion \<equiv> 1"

fun normalize_loop ::
  "codec \<Rightarrow> bool \<Rightarrow> string list \<Rightarrow> EntityReference list \<Rightarrow> EntityReference list option" where
  "normalize_loop c strict seen [] = Some []"
| "normalize_loop c strict seen (ref # refs) =
     (if er_Version ref \<noteq> EntityReferenceVersion then normalize_loop c strict seen refs
      else case c_normalizeOne c ref of
             None \<Rightarrow> if strict then None else normalize_loop c strict seen refs
           | Some n \<Rightarrow>
               if er_Ref n \<in> set seen then normalize_loop c strict seen refs
               else map_option (Cons n) (normalize_loop c strict (er_Ref n # seen) refs))"

definition normalize :: "codec \<Rightarrow> EntityReference list \<Rightarrow> bool \<Rightarrow> EntityReference list option" where
  "normalize c refs strict =
     (if length refs > MaxReferencesPerMessage then
        (if strict then None else normalize_loop c strict [] (take MaxReferencesPerMessage refs))
      else normalize_loop c strict [] refs)"

definition NormalizeForSubmission :: "codec \<Rightarrow> EntityReference list \<Rightarrow> EntityReference list option" where
  "NormalizeForSubmission c refs = normalize c refs True"

definition decode_refs :: "codec \<Rightarrow> mval \<Rightarrow> EntityReference list option" where
  "decode_refs c raw = (case raw of MRefs refs \<Rightarrow> Some refs | _ \<Rightarrow> c_decodeRefs c raw)"

definition NormalizePersisted :: "codec \<Rightarrow> mval option \<Rightarrow> EntityReference list" where
  "NormalizePersisted c raw =
     (case raw of
        None \<Rightarrow> [] | Some MNull \<Rightarrow> []
      | Some v \<Rightarrow>
          (case decode_refs c v of
             None \<Rightarrow> []
           | Some refs \<Rightarrow> (case normalize c refs False of None \<Rightarrow> [] | Some n \<Rightarrow> n)))"

text \<open>
  The two loops over the references of a target and a source that append each reference whose
  identity is new.
\<close>

fun union_refs :: "string list \<Rightarrow> EntityReference list \<Rightarrow> EntityReference list" where
  "union_refs seen [] = []"
| "union_refs seen (ref # refs) =
     (if er_Ref ref \<in> set seen then union_refs seen refs
      else ref # union_refs (er_Ref ref # seen) refs)"

definition unionEntityReferences ::
  "codec \<Rightarrow> metadata \<Rightarrow> metadata \<Rightarrow> qerror + EntityReference list" where
  "unionEntityReferences c target source =
     (let joined = union_refs []
            (NormalizePersisted c (gm_get target MetadataEntityReferences) @
             NormalizePersisted c (gm_get source MetadataEntityReferences))
      in if length joined > MaxReferencesPerMessage then Inl ErrMergeReferenceOverflow else Inr joined)"

section \<open>Admission provenance\<close>

definition decode_strings :: "mval \<Rightarrow> string list option" where
  "decode_strings raw =
     (case raw of
        MStrs ids \<Rightarrow> Some ids
      | MList vs \<Rightarrow>
          if \<forall>v\<in>set vs. case v of MStr _ \<Rightarrow> True | MNull \<Rightarrow> True | _ \<Rightarrow> False
          then Some (map (\<lambda>v. case v of MStr s \<Rightarrow> s | _ \<Rightarrow> []) vs) else None
      | _ \<Rightarrow> None)"

definition normalizeQueueAdmissionIDs :: "mval option \<Rightarrow> string list option" where
  "normalizeQueueAdmissionIDs raw =
     (case raw of
        None \<Rightarrow> Some [] | Some MNull \<Rightarrow> Some []
      | Some v \<Rightarrow>
          (case decode_strings v of
             None \<Rightarrow> None
           | Some ids \<Rightarrow> if [] \<in> set ids then None else Some ids))"

fun union_ids :: "'a list \<Rightarrow> 'a list \<Rightarrow> 'a list" where
  "union_ids seen [] = []"
| "union_ids seen (x # xs) =
     (if x \<in> set seen then union_ids seen xs else x # union_ids (x # seen) xs)"

definition unionQueueAdmissionIDs :: "metadata \<Rightarrow> metadata \<Rightarrow> string list option" where
  "unionQueueAdmissionIDs target source =
     (case (normalizeQueueAdmissionIDs (gm_get target MetadataQueueAdmissionIDs),
            normalizeQueueAdmissionIDs (gm_get source MetadataQueueAdmissionIDs)) of
        (Some a, Some b) \<Rightarrow> Some (union_ids [] (a @ b))
      | _ \<Rightarrow> None)"

section \<open>Built-in intents\<close>

abbreviation IntentMetadataKey :: string where "IntentMetadataKey \<equiv> ''builtin_intent''"
abbreviation ErrInvalidIntent :: qerror where
  "ErrInvalidIntent \<equiv> ErrText ''unknown built-in tool request''"

definition intentFromMetadata :: "metadata \<Rightarrow> qerror + string" where
  "intentFromMetadata m =
     (case gm_get m IntentMetadataKey of
        None \<Rightarrow> Inr []
      | Some (MStr text) \<Rightarrow> if text \<noteq> [] \<and> text \<noteq> ''walkthrough'' then Inl ErrInvalidIntent else Inr text
      | Some _ \<Rightarrow> Inl ErrInvalidIntent)"

text \<open>The loop that copies the intent of each metadata map in turn; a later one overwrites.\<close>

fun merge_intents :: "metadata list \<Rightarrow> metadata \<Rightarrow> qerror + metadata" where
  "merge_intents [] merged = Inr merged"
| "merge_intents (m # ms) merged =
     (case intentFromMetadata m of
        Inl err \<Rightarrow> Inl err
      | Inr intent \<Rightarrow>
          merge_intents ms (if intent \<noteq> [] then gm_put IntentMetadataKey (MStr intent) merged else merged))"

section \<open>Manual merge\<close>

abbreviation blank_line :: string where "blank_line \<equiv> [CHR 0x0A, CHR 0x0A]"

definition joinMergeContent :: "string \<Rightarrow> string \<Rightarrow> string" where
  "joinMergeContent target source = (if target = [] then source else target @ blank_line @ source)"

definition hasPlanCommentAdmission :: "metadata \<Rightarrow> bool" where
  "hasPlanCommentAdmission m \<longleftrightarrow>
     gm_has m ''plan_comment_refs'' \<or> gm_has m MetadataRequestFingerprint \<or>
     gm_has m MetadataClientQueueID"

definition mergeAllowed :: "QueuedMessage \<Rightarrow> QueuedMessage \<Rightarrow> string \<Rightarrow> bool" where
  "mergeAllowed source target queuedBy =
     (if IsReservedInFlight target \<or> hasPlanCommentAdmission (qm_Metadata source) \<or>
         hasPlanCommentAdmission (qm_Metadata target) then False
      else if qm_QueuedBy source = QueuedByAgent then
        (if qm_QueuedBy target \<noteq> QueuedByAgent then False
         else let sender = metadataString (qm_Metadata source) MetadataSenderTaskID
              in sender \<noteq> [] \<and> sender = metadataString (qm_Metadata target) MetadataSenderTaskID)
      else if IsReservedQueuedBy (qm_QueuedBy source) then False
      else queuedBy \<noteq> [] \<and> \<not> IsReservedQueuedBy queuedBy \<and>
           qm_QueuedBy source = queuedBy \<and> qm_QueuedBy target = queuedBy)"

definition put_or_delete :: "string \<Rightarrow> bool \<Rightarrow> mval \<Rightarrow> metadata \<Rightarrow> metadata" where
  "put_or_delete k absent v m = (if absent then gm_del k m else gm_put k v m)"

definition mergeEntryMetadata :: "codec \<Rightarrow> metadata \<Rightarrow> metadata \<Rightarrow> qerror + metadata" where
  "mergeEntryMetadata c target source =
     (case merge_intents [target, source] target of
        Inl err \<Rightarrow> Inl err
      | Inr merged \<Rightarrow>
          (case unionEntityReferences c target source of
             Inl err \<Rightarrow> Inl err
           | Inr joined \<Rightarrow>
               let merged' = put_or_delete MetadataEntityReferences (joined = []) (MRefs joined) merged
               in case unionQueueAdmissionIDs target source of
                    None \<Rightarrow> Inl ErrInvalidQueueAdmissionIDs
                  | Some ids \<Rightarrow>
                      Inr (put_or_delete MetadataQueueAdmissionIDs (ids = []) (MStrs ids) merged')))"

section \<open>Attachments\<close>

abbreviation MaxAttachmentBytes :: int where "MaxAttachmentBytes \<equiv> 100 * 1024 * 1024"
abbreviation MaxAttachmentCount :: nat where "MaxAttachmentCount \<equiv> 10"
abbreviation MaxContextFilesPerMessage :: nat where "MaxContextFilesPerMessage \<equiv> 200"

text \<open>
  The length \<open>base64.StdEncoding.DecodeString\<close> returns: line breaks are skipped, the rest is a
  whole number of quanta over the standard alphabet with up to two padding characters at the end.
\<close>

definition base64_alphabet :: "char \<Rightarrow> bool" where
  "base64_alphabet ch \<longleftrightarrow>
     ch \<in> set (''ABCDEFGHIJKLMNOPQRSTUVWXYZ'' @ ''abcdefghijklmnopqrstuvwxyz'' @ ''0123456789+/'')"

definition base64_length :: "string \<Rightarrow> int option" where
  "base64_length s =
     (let t = filter (\<lambda>ch. ch \<noteq> CHR 0x0A \<and> ch \<noteq> CHR 0x0D) s;
          pads = length (takeWhile (\<lambda>ch. ch = CHR ''='') (take 2 (rev t)));
          body = take (length t - pads) t
      in if length t mod 4 = 0 \<and> list_all base64_alphabet body
         then Some (3 * (int (length t) div 4) - int pads) else None)"

definition attachmentPayloadBytes :: "MessageAttachment \<Rightarrow> int option" where
  "attachmentPayloadBytes a =
     (if at_AttachmentID a \<noteq> [] then (if at_SizeBytes a < 0 then None else Some (at_SizeBytes a))
      else if at_Data a = [] then None
      else base64_length (at_Data a))"

fun attachments_fit :: "MessageAttachment list \<Rightarrow> int \<Rightarrow> bool" where
  "attachments_fit [] sofar = True"
| "attachments_fit (a # as) sofar =
     (case attachmentPayloadBytes a of
        None \<Rightarrow> False
      | Some n \<Rightarrow> if n > MaxAttachmentBytes - sofar then False else attachments_fit as (sofar + n))"

definition combineAutoMergeAttachments ::
  "MessageAttachment list \<Rightarrow> MessageAttachment list \<Rightarrow> MessageAttachment list option" where
  "combineAutoMergeAttachments target source =
     (if length target + length source > MaxAttachmentCount then None
      else if attachments_fit (target @ source) 0 then Some (target @ source) else None)"

section \<open>Automatic merge\<close>

definition autoMergeAllowed :: "QueuedMessage \<Rightarrow> QueuedMessage \<Rightarrow> bool" where
  "autoMergeAllowed target source =
     (if isManagedInputQueueEntry target \<or> isManagedInputQueueEntry source \<or>
         IsDurableDelivery target \<or> IsDurableDelivery source then False
      else if qm_TaskID target \<noteq> qm_TaskID source \<or> qm_Model target \<noteq> qm_Model source \<or>
              qm_PlanMode target \<noteq> qm_PlanMode source then False
      else if qm_QueuedBy source = QueuedByAgent then
        (let sender = metadataString (qm_Metadata source) MetadataSenderTaskID
         in qm_QueuedBy target = QueuedByAgent \<and> sender \<noteq> [] \<and>
            sender = metadataString (qm_Metadata target) MetadataSenderTaskID)
      else qm_QueuedBy source \<noteq> [] \<and> qm_QueuedBy source = qm_QueuedBy target \<and>
           \<not> IsReservedQueuedBy (qm_QueuedBy source))"

definition joinAutoMergeContent :: "string \<Rightarrow> string \<Rightarrow> string" where
  "joinAutoMergeContent target source =
     (if target = [] then source else if source = [] then target else target @ blank_line @ source)"

abbreviation additiveKeys :: "string list" where
  "additiveKeys \<equiv> [MetadataEntityReferences, MetadataContextFiles, MetadataQueueAdmissionIDs]"

text \<open>
  The JSON texts of two maps without the additive keys are equal when the maps have the same keys
  and each value the same JSON text (\<open>json.Marshal\<close> writes map keys in sorted order).
\<close>

definition comparableAutoMetadata :: "codec \<Rightarrow> metadata \<Rightarrow> string \<Rightarrow> string option" where
  "comparableAutoMetadata c m k =
     (if k \<in> set additiveKeys then None else map_option (c_json c) (gm_get m k))"

definition autoMetadataEquivalent :: "codec \<Rightarrow> metadata \<Rightarrow> metadata \<Rightarrow> bool" where
  "autoMetadataEquivalent c target source \<longleftrightarrow>
     list_all (\<lambda>k. comparableAutoMetadata c target k = comparableAutoMetadata c source k)
       (map fst target @ map fst source)"

definition normalizeAutoEntityReferences ::
  "codec \<Rightarrow> mval option \<Rightarrow> EntityReference list option" where
  "normalizeAutoEntityReferences c raw =
     (case raw of
        None \<Rightarrow> Some [] | Some MNull \<Rightarrow> Some []
      | Some v \<Rightarrow>
          (case decode_refs c v of None \<Rightarrow> None | Some refs \<Rightarrow> NormalizeForSubmission c refs))"

definition unionAutoEntityReferences ::
  "codec \<Rightarrow> metadata \<Rightarrow> metadata \<Rightarrow> EntityReference list option" where
  "unionAutoEntityReferences c target source =
     (case (normalizeAutoEntityReferences c (gm_get target MetadataEntityReferences),
            normalizeAutoEntityReferences c (gm_get source MetadataEntityReferences)) of
        (Some a, Some b) \<Rightarrow>
          let joined = union_refs [] (a @ b)
          in if length joined \<le> MaxReferencesPerMessage then Some joined else None
      | _ \<Rightarrow> None)"

definition normalizeAutoContextFiles :: "codec \<Rightarrow> mval option \<Rightarrow> ContextFileMeta list option" where
  "normalizeAutoContextFiles c raw =
     (case raw of
        None \<Rightarrow> Some [] | Some MNull \<Rightarrow> Some []
      | Some (MContexts cs) \<Rightarrow> Some cs
      | Some v \<Rightarrow> c_decodeContexts c v)"

definition unionAutoContextFiles ::
  "codec \<Rightarrow> metadata \<Rightarrow> metadata \<Rightarrow> ContextFileMeta list option" where
  "unionAutoContextFiles c target source =
     (case (normalizeAutoContextFiles c (gm_get target MetadataContextFiles),
            normalizeAutoContextFiles c (gm_get source MetadataContextFiles)) of
        (Some a, Some b) \<Rightarrow>
          let joined = union_ids [] (a @ b)
          in if length joined \<le> MaxContextFilesPerMessage then Some joined else None
      | _ \<Rightarrow> None)"

definition mergeAutoMetadata :: "codec \<Rightarrow> metadata \<Rightarrow> metadata \<Rightarrow> metadata option" where
  "mergeAutoMetadata c target source =
     (case (unionAutoEntityReferences c target source, unionAutoContextFiles c target source,
            unionQueueAdmissionIDs target source) of
        (Some refs, Some contexts, Some ids) \<Rightarrow>
          Some (put_or_delete MetadataQueueAdmissionIDs (ids = []) (MStrs ids)
            (put_or_delete MetadataContextFiles (contexts = []) (MContexts contexts)
              (put_or_delete MetadataEntityReferences (refs = []) (MRefs refs) target)))
      | _ \<Rightarrow> None)"

definition latestQueuedAt :: "time \<Rightarrow> time \<Rightarrow> time" where
  "latestQueuedAt first second = (if After second first then second else first)"

record autoMergedValues =
  mv_content :: string
  mv_attachments :: "MessageAttachment list"
  mv_metadata :: metadata
  mv_queuedAt :: time

definition buildAutoMergedEntry ::
  "codec \<Rightarrow> QueuedMessage \<Rightarrow> QueuedMessage \<Rightarrow> autoMergedValues option" where
  "buildAutoMergedEntry c target source =
     (if \<not> autoMergeAllowed target source \<or>
         \<not> autoMetadataEquivalent c (qm_Metadata target) (qm_Metadata source) then None
      else case combineAutoMergeAttachments (qm_Attachments target) (qm_Attachments source) of
             None \<Rightarrow> None
           | Some attachments \<Rightarrow>
               (case mergeAutoMetadata c (qm_Metadata target) (qm_Metadata source) of
                  None \<Rightarrow> None
                | Some metadata \<Rightarrow>
                    Some \<lparr>mv_content = joinAutoMergeContent (qm_Content target) (qm_Content source),
                          mv_attachments = attachments,
                          mv_metadata = metadata,
                          mv_queuedAt = latestQueuedAt (qm_QueuedAt target) (qm_QueuedAt source)\<rparr>))"

definition apply_merged :: "autoMergedValues \<Rightarrow> QueuedMessage \<Rightarrow> QueuedMessage" where
  "apply_merged v target =
     target\<lparr>qm_Content := mv_content v, qm_Attachments := mv_attachments v,
            qm_Metadata := mv_metadata v, qm_QueuedAt := mv_queuedAt v\<rparr>"

end
