(* ===== verification/Queue_SendNow.thy ===== *)
theory Queue_SendNow
  imports Queue_Delivery Queue_Merge
begin

text \<open>
  Send-now (\<open>send_now.go\<close> and the claim operations of \<open>repository_memory.go\<close>): an exact snapshot
  of queue entries is claimed, folded into one replacement prompt, and then either restored,
  acknowledged or released.  The UUIDs of a claim are drawn from the supply by a fixed numbering:
  0 for the envelope, 1 for the claim, and two for each stored row (reservation id, lease token).
\<close>

section \<open>Claims\<close>

record SendNowClaim =
  sc_ClaimID :: string
  sc_Identity :: QueueSessionIdentity
  sc_OperationGeneration :: int
  sc_Sources :: "QueuedMessage list"
  sc_Dispatch :: QueuedMessage
  sc_SourceGenerations :: "(string, int) gomap"
  sc_SessionGeneration :: int
  sc_DeliveryProtocol :: string
  sc_DeliverySubmissionID :: string
  sc_DeliveryPayloadHash :: string

definition HasDurablePlanComment :: "SendNowClaim \<Rightarrow> bool" where
  "HasDurablePlanComment c \<longleftrightarrow>
     (\<exists>q\<in>set (sc_Sources c). IsDurablePlanComment q) \<or> IsDurablePlanComment (sc_Dispatch c)"

definition restoreSendNowMetadata :: "metadata \<Rightarrow> metadata \<Rightarrow> metadata" where
  "restoreSendNowMetadata current claim =
     (let m = clearReservedMetadata current
      in if metadataBool claim metadataUserMessageRecorded
         then gm_put metadataUserMessageRecorded (MBool True) m else m)"

definition sendNowSourceGenerationChanged :: "SendNowClaim \<Rightarrow> QueuedMessage \<Rightarrow> int \<Rightarrow> bool" where
  "sendNowSourceGenerationChanged c source current =
     (if qm_TaskID source = [] then False
      else case gm_get (sc_SourceGenerations c) (qm_TaskID source) of
             None \<Rightarrow> False | Some expected \<Rightarrow> expected \<noteq> current)"

definition sendNowClaimSourcesAllInvalidated :: "SendNowClaim \<Rightarrow> (string, int) gomap \<Rightarrow> bool" where
  "sendNowClaimSourcesAllInvalidated c generations \<longleftrightarrow>
     sc_Sources c \<noteq> [] \<and>
     list_all (\<lambda>q. qm_TaskID q \<noteq> [] \<and>
       sendNowSourceGenerationChanged c q (gm_get0 0 generations (qm_TaskID q))) (sc_Sources c)"

section \<open>The envelope\<close>

fun validate_bytes :: "MessageAttachment list \<Rightarrow> int \<Rightarrow> qerror + int" where
  "validate_bytes [] sofar = Inr sofar"
| "validate_bytes (a # as) sofar =
     (case attachmentPayloadBytes a of
        None \<Rightarrow> Inl ErrSendNowAttachmentOverflow
      | Some n \<Rightarrow>
          if sofar + n > MaxAttachmentBytes then Inl ErrSendNowAttachmentOverflow
          else validate_bytes as (sofar + n))"

fun validate_refs :: "EntityReference list \<Rightarrow> string list \<Rightarrow> qerror + string list" where
  "validate_refs [] seen = Inr seen"
| "validate_refs (ref # refs) seen =
     (if er_Ref ref \<in> set seen then validate_refs refs seen
      else if Suc (length seen) > MaxReferencesPerMessage then Inl ErrSendNowReferenceOverflow
      else validate_refs refs (er_Ref ref # seen))"

text \<open>
  The counters of the loop: attachments, their bytes, and the references seen (their number is the
  length of the list of distinct identities).
\<close>

fun validate_entries :: "codec \<Rightarrow> QueuedMessage list \<Rightarrow> nat \<Rightarrow> int \<Rightarrow> string list \<Rightarrow> qerror + unit" where
  "validate_entries c [] atts bytes seen = Inr ()"
| "validate_entries c (q # qs) atts bytes seen =
     (case intentFromMetadata (qm_Metadata q) of
        Inl err \<Rightarrow> Inl err
      | Inr _ \<Rightarrow>
          let atts' = atts + length (qm_Attachments q)
          in if atts' > MaxAttachmentCount then Inl ErrSendNowAttachmentOverflow
             else case validate_bytes (qm_Attachments q) bytes of
                    Inl err \<Rightarrow> Inl err
                  | Inr bytes' \<Rightarrow>
                      (case validate_refs
                              (NormalizePersisted c (gm_get (qm_Metadata q) MetadataEntityReferences)) seen of
                         Inl err \<Rightarrow> Inl err
                       | Inr seen' \<Rightarrow> validate_entries c qs atts' bytes' seen'))"

definition ValidateSendNowEntries :: "codec \<Rightarrow> QueuedMessage list \<Rightarrow> qerror + unit" where
  "ValidateSendNowEntries c qs =
     (if qs = [] then Inl ErrSendNowEmpty else validate_entries c qs 0 0 [])"

fun join_strings :: "string \<Rightarrow> string list \<Rightarrow> string" where
  "join_strings sep [] = []"
| "join_strings sep [x] = x"
| "join_strings sep (x # y # ys) = x @ sep @ join_strings sep (y # ys)"

definition source_object :: "QueuedMessage \<Rightarrow> mval" where
  "source_object q =
     MObj [(''id'', MStr (qm_ID q)), (''task_id'', MStr (qm_TaskID q)),
           (''position'', MInt (qm_Position q)), (''queued_by'', MStr (qm_QueuedBy q)),
           (''queued_at'', MTime (qm_QueuedAt q)), (''metadata'', MObj (qm_Metadata q))]"

fun first_handoff :: "QueuedMessage list \<Rightarrow> string" where
  "first_handoff [] = []"
| "first_handoff (q # qs) =
     (let text = metadataString (qm_Metadata q) MetadataStepHandoff
      in if text \<noteq> [] then text else first_handoff qs)"

definition BuildSendNowEnvelope :: "codec \<Rightarrow> env \<Rightarrow> QueuedMessage list \<Rightarrow> qerror + QueuedMessage" where
  "BuildSendNowEnvelope c e qs =
     (case ValidateSendNowEntries c qs of
        Inl err \<Rightarrow> Inl err
      | Inr _ \<Rightarrow>
          (case qs of
             [] \<Rightarrow> Inl ErrSendNowEmpty
           | oldest # _ \<Rightarrow>
               (case merge_intents (map qm_Metadata qs) (qm_Metadata oldest) of
                  Inl err \<Rightarrow> Inl err
                | Inr m0 \<Rightarrow>
                    let refs = union_refs [] (concat (map (\<lambda>q. NormalizePersisted c
                                 (gm_get (qm_Metadata q) MetadataEntityReferences)) qs));
                        handoff = first_handoff qs;
                        m1 = gm_del MetadataDurableTranscriptMessageID
                               (gm_del MetadataDeliveryAttempted (gm_del metadataUserMessageRecorded m0));
                        m2 = put_or_delete MetadataEntityReferences (refs = []) (MRefs refs) m1;
                        m3 = put_or_delete MetadataStepHandoff (handoff = []) (MStr handoff) m2;
                        m4 = gm_put ''send_now_sources'' (MList (map source_object qs)) m3
                    in Inr (zero_message\<lparr>
                         qm_ID := ''send-now-'' @ e_uuid e 0,
                         qm_SessionID := qm_SessionID oldest,
                         qm_TaskID := qm_TaskID oldest,
                         qm_Position := qm_Position oldest,
                         qm_Content := join_strings blank_line (filter (\<lambda>t. t \<noteq> []) (map qm_Content qs)),
                         qm_Model := qm_Model oldest,
                         qm_PlanMode := qm_PlanMode oldest,
                         qm_Attachments := concat (map qm_Attachments qs),
                         qm_Metadata := m4,
                         qm_QueuedAt := qm_QueuedAt oldest,
                         qm_QueuedBy := qm_QueuedBy oldest\<rparr>))))"

section \<open>Claiming\<close>

fun requestedSendNowIDs :: "string list \<Rightarrow> QueuedMessage list \<Rightarrow> qerror + string list" where
  "requestedSendNowIDs requested [] = Inr requested"
| "requestedSendNowIDs requested (q # qs) =
     (if qm_ID q = [] \<or> qm_ID q \<in> set requested then Inl ErrSendNowClaimChanged
      else requestedSendNowIDs (qm_ID q # requested) qs)"

text \<open>
  The fields of two messages that must agree: all but the process-local delivery evidence; the
  timestamps agree to the microsecond and the metadata as maps, without the reservation keys.
\<close>

definition same_metadata :: "metadata \<Rightarrow> metadata \<Rightarrow> bool" where
  "same_metadata a b \<longleftrightarrow> list_all (\<lambda>k. gm_get a k = gm_get b k) (map fst a @ map fst b)"

definition sameQueuedMessageContent :: "QueuedMessage \<Rightarrow> QueuedMessage \<Rightarrow> bool" where
  "sameQueuedMessageContent l r \<longleftrightarrow>
     qm_ID l = qm_ID r \<and> qm_SessionID l = qm_SessionID r \<and> qm_TaskID l = qm_TaskID r \<and>
     qm_Position l = qm_Position r \<and> qm_Content l = qm_Content r \<and> qm_Model l = qm_Model r \<and>
     qm_PlanMode l = qm_PlanMode r \<and> qm_Attachments l = qm_Attachments r \<and>
     same_metadata (clearReservedMetadata (qm_Metadata l)) (clearReservedMetadata (qm_Metadata r)) \<and>
     Truncate (qm_QueuedAt l) Microsecond = Truncate (qm_QueuedAt r) Microsecond \<and>
     qm_QueuedBy l = qm_QueuedBy r \<and>
     qm_reservationIdentity l = qm_reservationIdentity r \<and>
     qm_reservationToken l = qm_reservationToken r \<and>
     qm_reservationExpiresAt l = qm_reservationExpiresAt r \<and>
     qm_deliveryProtocol l = qm_deliveryProtocol r \<and>
     qm_deliverySubmissionID l = qm_deliverySubmissionID r \<and>
     qm_deliveryPayloadHash l = qm_deliveryPayloadHash r"

definition validateSendNowSnapshot :: "QueuedMessage list \<Rightarrow> QueuedMessage list \<Rightarrow> bool" where
  "validateSendNowSnapshot selected expected \<longleftrightarrow>
     length selected = length expected \<and> list_all2 sameQueuedMessageContent selected expected"

definition cloneSendNowSource :: "QueuedMessage \<Rightarrow> QueuedMessage" where
  "cloneSendNowSource q =
     (let clone = q\<lparr>qm_Metadata := clearReservedMetadata (qm_Metadata q)\<rparr>
      in if IsDurableDelivery q
         then clone\<lparr>qm_reservedDelivery := True, qm_reservedLifecycleDelivery := IsDurableLifecycle q\<rparr>
         else clone)"

definition bindSendNowDeliveryReservations ::
  "QueueSessionIdentity \<Rightarrow> QueuedMessage list \<Rightarrow> QueuedMessage list" where
  "bindSendNowDeliveryReservations i sources =
     (if si_SessionIncarnationID i = [] then sources
      else map (\<lambda>q. if IsDurableDelivery q
                    then q\<lparr>qm_reservedDelivery := True,
                           qm_reservedLifecycleDelivery := IsDurableLifecycle q,
                           qm_reservationIdentity := i\<rparr>
                    else q) sources)"

text \<open>
  One claimed row: an ordinary row leaves the queue, a durable one is marked reserved.  The result
  is what stays stored and the token and expiry its source copy receives.
\<close>

definition claim_row ::
  "env \<Rightarrow> QueueSessionIdentity \<Rightarrow> nat \<Rightarrow> QueuedMessage \<Rightarrow> QueuedMessage option \<times> string \<times> time" where
  "claim_row e i k q =
     (if \<not> IsDurableDelivery q then (None, [], 0)
      else
        let inc = si_SessionIncarnationID i;
            m = markReservedMetadataForIncarnation
                  (markReservedMetadata (qm_Metadata q) [e_uuid e (2 + 2 * k)]) inc
        in if IsDurablePlanComment q
           then (case markReservedMetadataWithLease m inc (e_now e) (e_uuid e (3 + 2 * k)) of
                   (m', token, expiresAt) \<Rightarrow> (Some (q\<lparr>qm_Metadata := m'\<rparr>), token, expiresAt))
           else (Some (q\<lparr>qm_Metadata := m\<rparr>), [], 0))"

fun claim_rows ::
  "env \<Rightarrow> QueueSessionIdentity \<Rightarrow> string list \<Rightarrow> nat \<Rightarrow> QueuedMessage list \<Rightarrow>
   QueuedMessage list \<times> (string, string \<times> time) gomap" where
  "claim_rows e i requested k [] = ([], [])"
| "claim_rows e i requested k (q # qs) =
     (case claim_rows e i requested (Suc k) qs of
        (remaining, leases) \<Rightarrow>
          if qm_ID q \<notin> set requested then (q # remaining, leases)
          else case claim_row e i k q of
                 (None, _, _) \<Rightarrow> (remaining, leases)
               | (Some q', token, expiresAt) \<Rightarrow>
                   (q' # remaining, (qm_ID q, token, expiresAt) # leases))"

definition bind_lease :: "(string, string \<times> time) gomap \<Rightarrow> QueuedMessage \<Rightarrow> QueuedMessage" where
  "bind_lease leases q =
     (case gm_get leases (qm_ID q) of
        None \<Rightarrow> q
      | Some (token, expiresAt) \<Rightarrow>
          q\<lparr>qm_reservationToken := token, qm_reservationExpiresAt := expiresAt\<rparr>)"

definition task_generations :: "repo \<Rightarrow> QueuedMessage list \<Rightarrow> (string, int) gomap" where
  "task_generations r qs =
     foldl (\<lambda>m q. if qm_TaskID q = [] then m
                  else gm_put (qm_TaskID q) (gm_get0 0 (r_generation r) (qm_TaskID q)) m) [] qs"

definition claimSendNowLocked ::
  "codec \<Rightarrow> env \<Rightarrow> QueueSessionIdentity \<Rightarrow> string \<Rightarrow> QueuedMessage list \<Rightarrow> repo \<Rightarrow> SendNowClaim result" where
  "claimSendNowLocked c e i s expected r =
     (if expected = [] then (Inl ErrSendNowEmpty, r)
      else case requestedSendNowIDs [] expected of
             Inl err \<Rightarrow> (Inl err, r)
           | Inr requested \<Rightarrow>
               let list = sess r s; selected = filter (\<lambda>q. qm_ID q \<in> set requested) list
               in if \<exists>q\<in>set selected. IsReservedInFlight q then (Inl ErrSendNowReservationConflict, r)
                  else if length selected \<noteq> length expected then (Inl ErrSendNowClaimChanged, r)
                  else if \<not> validateSendNowSnapshot selected expected
                  then (Inl ErrSendNowClaimChanged, r)
                  else
                    let sources = bindSendNowDeliveryReservations i (map cloneSendNowSource selected)
                    in case BuildSendNowEnvelope c e sources of
                         Inl err \<Rightarrow> (Inl err, r)
                       | Inr envelope \<Rightarrow>
                           (case claim_rows e i requested 0 list of
                              (remaining, leases) \<Rightarrow>
                                let r1 = store_entries s remaining r;
                                    claimIDs = foldl (\<lambda>m q. gm_put (qm_ID q) () m)
                                                 (gm_get0 [] (r_sendNowClaims r) s) sources;
                                    r2 = r1\<lparr>r_sendNowClaims := gm_put s claimIDs (r_sendNowClaims r1)\<rparr>;
                                    r3 = setAutoRunLocked (identityPointer i) s True r2;
                                    r4 = r3\<lparr>r_sendNowGeneration := gm_incr s (r_sendNowGeneration r3)\<rparr>
                                in (Inr \<lparr>sc_ClaimID = e_uuid e 1, sc_Identity = i,
                                         sc_OperationGeneration = gm_get0 0 (r_sendNowGeneration r4) s,
                                         sc_Sources = map (bind_lease leases) sources,
                                         sc_Dispatch = envelope,
                                         sc_SourceGenerations = task_generations r sources,
                                         sc_SessionGeneration = gm_get0 0 (r_sessionGeneration r) s,
                                         sc_DeliveryProtocol = [], sc_DeliverySubmissionID = [],
                                         sc_DeliveryPayloadHash = []\<rparr>, r4)))"

text \<open>A session without a bound identity is claimed under the zero identity.\<close>

definition ClaimSendNow ::
  "codec \<Rightarrow> env \<Rightarrow> string \<Rightarrow> QueuedMessage list \<Rightarrow> repo \<Rightarrow> SendNowClaim result" where
  "ClaimSendNow c e s expected r =
     claimSendNowLocked c e (gm_get0 no_identity (r_identities r) s) s expected r"

definition ClaimSendNowForSession ::
  "codec \<Rightarrow> env \<Rightarrow> QueueSessionIdentity \<Rightarrow> QueuedMessage list \<Rightarrow> repo \<Rightarrow> SendNowClaim result" where
  "ClaimSendNowForSession c e i expected =
     with_identity i (claimSendNowLocked c e i (si_SessionID i) expected)"

section \<open>Settling a claim\<close>

text \<open>The authority, when configured, must still name the identity the claim was made under.\<close>

definition validateSendNowClaimAuthority :: "authority option \<Rightarrow> SendNowClaim \<Rightarrow> qerror option" where
  "validateSendNowClaimAuthority auth cl =
     (if si_SessionIncarnationID (sc_Identity cl) = [] then None
      else case auth of
             None \<Rightarrow> None
           | Some a \<Rightarrow>
               if a (si_TaskID (sc_Identity cl)) (si_SessionID (sc_Identity cl)) = Inr (sc_Identity cl)
               then None else Some ErrSessionIdentityMismatch)"

definition validateSendNowClaimLocked :: "SendNowClaim \<Rightarrow> string \<Rightarrow> repo \<Rightarrow> qerror option" where
  "validateSendNowClaimLocked cl s r =
     (if si_SessionIncarnationID (sc_Identity cl) \<noteq> [] \<and>
         gm_get0 no_identity (r_identities r) s \<noteq> sc_Identity cl
      then Some ErrSessionIdentityMismatch
      else if sc_OperationGeneration cl > 0 \<and>
              gm_get0 0 (r_sendNowGeneration r) s \<noteq> sc_OperationGeneration cl
      then Some ErrSendNowClaimChanged
      else None)"

text \<open>The prologue shared by restore and acknowledge: authority, identity, operation generation, session generation.\<close>

definition with_claim ::
  "authority option \<Rightarrow> SendNowClaim option \<Rightarrow> (SendNowClaim \<Rightarrow> string \<Rightarrow> repo \<Rightarrow> 'a result) \<Rightarrow> repo \<Rightarrow> 'a result"
where
  "with_claim auth clo body r =
     (case clo of
        None \<Rightarrow> (Inl ErrSendNowEmpty, r)
      | Some cl \<Rightarrow>
          (case sc_Sources cl of
             [] \<Rightarrow> (Inl ErrSendNowEmpty, r)
           | first # _ \<Rightarrow>
               (case validateSendNowClaimAuthority auth cl of
                  Some err \<Rightarrow> (Inl err, r)
                | None \<Rightarrow> body cl (qm_SessionID first) r)))"

definition with_current_claim ::
  "authority option \<Rightarrow> SendNowClaim option \<Rightarrow> (SendNowClaim \<Rightarrow> string \<Rightarrow> repo \<Rightarrow> 'a result) \<Rightarrow> repo \<Rightarrow> 'a result"
where
  "with_current_claim auth clo body =
     with_claim auth clo (\<lambda>cl s r.
       case validateSendNowClaimLocked cl s r of
         Some err \<Rightarrow> (Inl err, r)
       | None \<Rightarrow>
           if sc_SessionGeneration cl \<noteq> gm_get0 0 (r_sessionGeneration r) s \<and>
              \<not> sendNowClaimSourcesAllInvalidated cl (task_generations r (sc_Sources cl))
           then (Inl ErrSendNowClaimChanged, r)
           else body cl s r)"

text \<open>\<open>existing[entry.ID]\<close> over the list: a later entry with the same id overwrites an earlier one.\<close>

definition entry_by_id :: "QueuedMessage list \<Rightarrow> string \<Rightarrow> QueuedMessage option" where
  "entry_by_id list x = find (\<lambda>q. qm_ID q = x) (rev list)"

definition source_stale :: "SendNowClaim \<Rightarrow> repo \<Rightarrow> QueuedMessage \<Rightarrow> bool" where
  "source_stale cl r q =
     sendNowSourceGenerationChanged cl q (gm_get0 0 (r_generation r) (qm_TaskID q))"

definition validateMemorySendNowRestore :: "SendNowClaim \<Rightarrow> string \<Rightarrow> repo \<Rightarrow> bool" where
  "validateMemorySendNowRestore cl s r \<longleftrightarrow>
     list_all (\<lambda>q.
       qm_SessionID q = s \<and>
       (source_stale cl r q \<or>
        (if IsDurableDelivery q then
           (case entry_by_id (sess r s) (qm_ID q) of
              None \<Rightarrow> False
            | Some entry \<Rightarrow>
                \<not> IsDeliveryAttempted entry \<and> reservationMatches q (qm_Metadata entry) \<and>
                (IsReservedInFlight entry \<or> sameQueuedMessageContent entry q))
         else
           (case entry_by_id (sess r s) (qm_ID q) of
              None \<Rightarrow> True | Some entry \<Rightarrow> \<not> IsReservedInFlight entry)))) (sc_Sources cl)"

definition update_by_id :: "string \<Rightarrow> (QueuedMessage \<Rightarrow> QueuedMessage) \<Rightarrow> QueuedMessage list \<Rightarrow> QueuedMessage list" where
  "update_by_id x f list =
     (case find_index (\<lambda>q. qm_ID q = x) (rev list) of
        None \<Rightarrow> list
      | Some k \<Rightarrow> rev ((rev list)[k := f (rev list ! k)]))"

text \<open>
  One source of the restore loop.  \<open>original\<close> is the list before the loop: presence is decided
  against it, and rows are updated in place or appended.
\<close>

definition restore_source ::
  "SendNowClaim \<Rightarrow> string \<Rightarrow> QueuedMessage list \<Rightarrow> QueuedMessage list \<times> repo \<Rightarrow> QueuedMessage \<Rightarrow>
   QueuedMessage list \<times> repo" where
  "restore_source cl s original st q =
     (case st of (list, r) \<Rightarrow>
        if source_stale cl r q then (list, r)
        else case entry_by_id original (qm_ID q) of
               Some _ \<Rightarrow>
                 if IsDurableDelivery q
                 then (update_by_id (qm_ID q)
                         (\<lambda>x. x\<lparr>qm_Metadata := restoreSendNowMetadata (qm_Metadata x) (qm_Metadata q)\<rparr>) list, r)
                 else (list, r)
             | None \<Rightarrow>
                 let clone = q\<lparr>qm_Metadata := clearReservedMetadata (qm_Metadata q)\<rparr>
                 in (list @ [clone], raise_next s (qm_Position clone) r))"

definition removeSendNowClaimOwnershipLocked :: "string \<Rightarrow> QueuedMessage list \<Rightarrow> repo \<Rightarrow> repo" where
  "removeSendNowClaimOwnershipLocked s sources r =
     (let owned = foldl (\<lambda>m q. gm_del (qm_ID q) m) (gm_get0 [] (r_sendNowClaims r) s) sources
      in if owned = [] then r\<lparr>r_sendNowClaims := gm_del s (r_sendNowClaims r)\<rparr>
         else r\<lparr>r_sendNowClaims := gm_put s owned (r_sendNowClaims r)\<rparr>)"

definition RestoreSendNowClaim ::
  "authority option \<Rightarrow> SendNowClaim option \<Rightarrow> repo \<Rightarrow> unit result" where
  "RestoreSendNowClaim auth clo =
     with_current_claim auth clo (\<lambda>cl s r.
       if \<not> validateMemorySendNowRestore cl s r then (Inl ErrSendNowClaimChanged, r)
       else case foldl (restore_source cl s (sess r s)) (sess r s, r) (sc_Sources cl) of
              (list, r') \<Rightarrow>
                (Inr (), removeSendNowClaimOwnershipLocked s (sc_Sources cl)
                           (put_entries s (sort_key qm_Position list) r')))"

definition ack_requested :: "SendNowClaim \<Rightarrow> repo \<Rightarrow> QueuedMessage list" where
  "ack_requested cl r = filter (\<lambda>q. IsDurableDelivery q \<and> \<not> source_stale cl r q) (sc_Sources cl)"

text \<open>
  When no durable source remains the operation returns before it removes the claim's ownership
  marks.
\<close>

definition AcknowledgeSendNowClaim ::
  "authority option \<Rightarrow> SendNowClaim option \<Rightarrow> repo \<Rightarrow> unit result" where
  "AcknowledgeSendNowClaim auth clo =
     with_current_claim auth clo (\<lambda>cl s r.
       if \<not> list_all (\<lambda>q. qm_SessionID q = s) (sc_Sources cl) then (Inl ErrSendNowClaimChanged, r)
       else
         let requested = ack_requested cl r; list = sess r s
         in if \<exists>entry\<in>set list.
                 case entry_by_id requested (qm_ID entry) of
                   None \<Rightarrow> False
                 | Some q \<Rightarrow> \<not> IsReservedInFlight entry \<or> \<not> reservationMatches q (qm_Metadata entry)
            then (Inl ErrSendNowClaimChanged, r)
            else if requested = [] then (Inr (), r)
            else
              let remaining = filter (\<lambda>entry. qm_ID entry \<notin> qm_ID ` set requested) list
              in (Inr (), removeSendNowClaimOwnershipLocked s (sc_Sources cl)
                            (store_entries s remaining r)))"

definition sendNowClaimOwnsAllSources :: "(string, unit) gomap \<Rightarrow> SendNowClaim \<Rightarrow> bool" where
  "sendNowClaimOwnsAllSources owned cl \<longleftrightarrow> list_all (\<lambda>q. gm_has owned (qm_ID q)) (sc_Sources cl)"

text \<open>A stored row that belongs to another owner: it is neither reserved nor the claimed content.\<close>

definition foreign_row :: "SendNowClaim \<Rightarrow> QueuedMessage \<Rightarrow> bool" where
  "foreign_row cl entry =
     (case entry_by_id (sc_Sources cl) (qm_ID entry) of
        None \<Rightarrow> False
      | Some q \<Rightarrow> \<not> IsReservedInFlight entry \<and> \<not> sameQueuedMessageContent entry q)"

definition sendNowClaimSourcesReleaseableLocked :: "string \<Rightarrow> SendNowClaim \<Rightarrow> repo \<Rightarrow> bool" where
  "sendNowClaimSourcesReleaseableLocked s cl r \<longleftrightarrow> \<not> (\<exists>entry\<in>set (sess r s). foreign_row cl entry)"

definition CanReleaseSendNowClaim ::
  "authority option \<Rightarrow> SendNowClaim option \<Rightarrow> repo \<Rightarrow> bool result" where
  "CanReleaseSendNowClaim auth clo =
     with_claim auth clo (\<lambda>cl s r.
       let owned = gm_get0 [] (r_sendNowClaims r) s
       in if owned = [] \<or> \<not> sendNowClaimOwnsAllSources owned cl then (Inr False, r)
          else (Inr (sendNowClaimSourcesReleaseableLocked s cl r), r))"

definition sendNowClaimRowsPresentLocked :: "string \<Rightarrow> SendNowClaim \<Rightarrow> repo \<Rightarrow> bool" where
  "sendNowClaimRowsPresentLocked s cl r \<longleftrightarrow>
     (\<exists>q\<in>set (sc_Sources cl). \<exists>entry\<in>set (sess r s). qm_ID entry = qm_ID q)"

definition removeReleasedSendNowSourcesLocked :: "string \<Rightarrow> SendNowClaim \<Rightarrow> repo \<Rightarrow> bool \<times> repo" where
  "removeReleasedSendNowSourcesLocked s cl r =
     (let list = sess r s;
          remaining = filter (\<lambda>entry. entry_by_id (sc_Sources cl) (qm_ID entry) = None \<or>
                                      foreign_row cl entry) list
      in (\<not> (\<exists>entry\<in>set list. foreign_row cl entry), store_entries s remaining r))"

definition releaseSendNowClaimLocked :: "string \<Rightarrow> SendNowClaim \<Rightarrow> repo \<Rightarrow> bool \<times> repo" where
  "releaseSendNowClaimLocked s cl r =
     (let owned = gm_get0 [] (r_sendNowClaims r) s
      in if owned = [] then (\<not> sendNowClaimRowsPresentLocked s cl r, r)
         else if \<not> sendNowClaimOwnsAllSources owned cl then (False, r)
         else case removeReleasedSendNowSourcesLocked s cl r of
                (settled, r') \<Rightarrow> (settled, removeSendNowClaimOwnershipLocked s (sc_Sources cl) r'))"

definition ReleaseSendNowClaim :: "authority option \<Rightarrow> SendNowClaim option \<Rightarrow> repo \<Rightarrow> bool result" where
  "ReleaseSendNowClaim auth clo =
     with_claim auth clo (\<lambda>cl s r. case releaseSendNowClaimLocked s cl r of (b, r') \<Rightarrow> (Inr b, r'))"

end
