(* ===== verification/Queue_Edit.thy ===== *)
theory Queue_Edit
  imports Queue_SendNow
begin

text \<open>
  Operations that edit a session's queue (\<open>repository_memory.go\<close>, \<open>reorder.go\<close>,
  \<open>repository.go\<close>): content updates, manual and automatic merges, reordering, deletion, purging,
  the transfer and replacement of whole sessions, and deferred workflow moves.
\<close>

section \<open>Updating content\<close>

definition applyMetadataUpdates :: "metadata \<Rightarrow> metadata \<Rightarrow> metadata" where
  "applyMetadataUpdates current updates =
     foldl (\<lambda>m (k, v). if v = MNull then gm_del k m else gm_put k v m) current updates"

definition updateContentAndMetadataLocked ::
  "string \<Rightarrow> string \<Rightarrow> string \<Rightarrow> MessageAttachment list \<Rightarrow> metadata \<Rightarrow> string \<Rightarrow> repo \<Rightarrow> unit result" where
  "updateContentAndMetadataLocked s entryID content attachments updates queuedBy r =
     (if queuedBy = [] \<or> IsReservedQueuedBy queuedBy then (Inl ErrEntryNotFound, r)
      else
        let list = sess r s
        in case find_index (\<lambda>m. qm_ID m = entryID) list of
             None \<Rightarrow> (Inl ErrEntryNotFound, r)
           | Some k \<Rightarrow>
               let m = list ! k
               in if qm_QueuedBy m \<noteq> queuedBy \<or> IsReservedInFlight m then (Inl ErrEntryNotFound, r)
                  else (Inr (), put_entries s
                          (list[k := m\<lparr>qm_Content := content, qm_Attachments := attachments,
                                       qm_Metadata := applyMetadataUpdates (qm_Metadata m) updates\<rparr>]) r))"

definition UpdateContentAndMetadata ::
  "string \<Rightarrow> string \<Rightarrow> string \<Rightarrow> MessageAttachment list \<Rightarrow> metadata \<Rightarrow> string \<Rightarrow> repo \<Rightarrow> unit result" where
  "UpdateContentAndMetadata = updateContentAndMetadataLocked"

definition UpdateContent ::
  "string \<Rightarrow> string \<Rightarrow> string \<Rightarrow> MessageAttachment list \<Rightarrow> string \<Rightarrow> repo \<Rightarrow> unit result" where
  "UpdateContent s entryID content attachments queuedBy =
     UpdateContentAndMetadata s entryID content attachments [] queuedBy"

definition UpdateContentAndMetadataForSession ::
  "QueueSessionIdentity \<Rightarrow> string \<Rightarrow> string \<Rightarrow> MessageAttachment list \<Rightarrow> metadata \<Rightarrow> string \<Rightarrow> repo \<Rightarrow>
   unit result" where
  "UpdateContentAndMetadataForSession i entryID content attachments updates queuedBy =
     with_identity i
       (updateContentAndMetadataLocked (si_SessionID i) entryID content attachments updates queuedBy)"

section \<open>Merging into the entry above\<close>

text \<open>
  The loop that keeps the entry of greatest position among those that pass a test; the first of
  equal positions wins.
\<close>

fun greatest_position :: "QueuedMessage list \<Rightarrow> (QueuedMessage \<Rightarrow> bool) \<Rightarrow> nat \<Rightarrow> nat option \<Rightarrow> nat \<Rightarrow> nat option" where
  "greatest_position list P 0 best k = best"
| "greatest_position list P (Suc n) best k =
     greatest_position list P n
       (if P (list ! k) \<and>
           (case best of None \<Rightarrow> True | Some b \<Rightarrow> qm_Position (list ! k) > qm_Position (list ! b))
        then Some k else best) (Suc k)"

definition position_target :: "QueuedMessage list \<Rightarrow> (QueuedMessage \<Rightarrow> bool) \<Rightarrow> nat option" where
  "position_target list P = greatest_position list P (length list) None 0"

definition mergeIntoAboveLocked ::
  "codec \<Rightarrow> string \<Rightarrow> string \<Rightarrow> string \<Rightarrow> repo \<Rightarrow> QueuedMessage result" where
  "mergeIntoAboveLocked c s sourceID queuedBy r =
     (let list = sess r s
      in case find_index (\<lambda>m. qm_ID m = sourceID) list of
           None \<Rightarrow> (Inl ErrEntryNotFound, r)
         | Some k \<Rightarrow>
             let source = list ! k
             in case position_target list (\<lambda>m. qm_Position m < qm_Position source) of
                  None \<Rightarrow> (Inl ErrNoMergeTarget, r)
                | Some t \<Rightarrow>
                    let target = list ! t
                    in if \<not> mergeAllowed source target queuedBy then (Inl ErrNoMergeTarget, r)
                       else case mergeEntryMetadata c (qm_Metadata target) (qm_Metadata source) of
                              Inl err \<Rightarrow> (Inl err, r)
                            | Inr metadata \<Rightarrow>
                                let target' = target\<lparr>
                                      qm_Content := joinMergeContent (qm_Content target) (qm_Content source),
                                      qm_Attachments := qm_Attachments target @ qm_Attachments source,
                                      qm_Metadata := metadata,
                                      qm_QueuedAt := latestQueuedAt (qm_QueuedAt target) (qm_QueuedAt source)\<rparr>;
                                    list' = remove_nth k (list[t := target']);
                                    r' = put_entries s list' r
                                in (Inr target',
                                    if list' = [] then r'\<lparr>r_nextPosition := gm_del s (r_nextPosition r')\<rparr>
                                    else r'))"

definition MergeIntoAbove :: "codec \<Rightarrow> string \<Rightarrow> string \<Rightarrow> string \<Rightarrow> repo \<Rightarrow> QueuedMessage result" where
  "MergeIntoAbove = mergeIntoAboveLocked"

definition MergeIntoAboveForSession ::
  "codec \<Rightarrow> QueueSessionIdentity \<Rightarrow> string \<Rightarrow> string \<Rightarrow> repo \<Rightarrow> QueuedMessage result" where
  "MergeIntoAboveForSession c i sourceID queuedBy =
     with_identity i (mergeIntoAboveLocked c (si_SessionID i) sourceID queuedBy)"

text \<open>The result names the surviving entry (None when the source is gone) and whether a merge happened.\<close>

definition autoMergeIntoAboveLocked ::
  "codec \<Rightarrow> string \<Rightarrow> string \<Rightarrow> repo \<Rightarrow> (QueuedMessage option \<times> bool) \<times> repo" where
  "autoMergeIntoAboveLocked c s sourceID r =
     (let list = sess r s
      in case find_index (\<lambda>m. qm_ID m = sourceID) list of
           None \<Rightarrow> ((None, False), r)
         | Some k \<Rightarrow>
             let source = list ! k
             in case position_target list (\<lambda>m. qm_Position m < qm_Position source) of
                  None \<Rightarrow> ((Some source, False), r)
                | Some t \<Rightarrow>
                    (case buildAutoMergedEntry c (list ! t) source of
                       None \<Rightarrow> ((Some source, False), r)
                     | Some values \<Rightarrow>
                         let target' = apply_merged values (list ! t)
                         in ((Some target', True),
                             put_entries s (remove_nth k (list[t := target'])) r)))"

definition AutoMergeIntoAbove ::
  "codec \<Rightarrow> string \<Rightarrow> string \<Rightarrow> repo \<Rightarrow> (QueuedMessage option \<times> bool) \<times> repo" where
  "AutoMergeIntoAbove = autoMergeIntoAboveLocked"

definition lift_pure :: "('a \<times> repo) \<Rightarrow> 'a result" where
  "lift_pure p = (Inr (fst p), snd p)"

definition AutoMergeIntoAboveForSession ::
  "codec \<Rightarrow> QueueSessionIdentity \<Rightarrow> string \<Rightarrow> repo \<Rightarrow> (QueuedMessage option \<times> bool) result" where
  "AutoMergeIntoAboveForSession c i sourceID =
     with_identity i (\<lambda>r. lift_pure (autoMergeIntoAboveLocked c (si_SessionID i) sourceID r))"

definition with_policy ::
  "QueueSessionIdentity \<Rightarrow> AutoMergePolicy \<Rightarrow> (repo \<Rightarrow> 'a result) \<Rightarrow> repo \<Rightarrow> 'a result" where
  "with_policy i policy body r =
     (case validateAutoMergePolicyLocked i policy r of Some err \<Rightarrow> (Inl err, r) | None \<Rightarrow> body r)"

definition AutoMergeIntoAboveForSessionWithPolicy ::
  "codec \<Rightarrow> QueueSessionIdentity \<Rightarrow> string \<Rightarrow> AutoMergePolicy \<Rightarrow> repo \<Rightarrow>
   (QueuedMessage option \<times> bool) result" where
  "AutoMergeIntoAboveForSessionWithPolicy c i sourceID policy =
     with_identity i (with_policy i policy
       (\<lambda>r. lift_pure (autoMergeIntoAboveLocked c (si_SessionID i) sourceID r)))"

definition autoMergeCandidateIntoAboveLocked ::
  "codec \<Rightarrow> QueuedMessage \<Rightarrow> repo \<Rightarrow> (QueuedMessage option \<times> bool) \<times> repo" where
  "autoMergeCandidateIntoAboveLocked c candidate r =
     (let s = qm_SessionID candidate; list = sess r s
      in case position_target list (\<lambda>_. True) of
           None \<Rightarrow> ((None, False), r)
         | Some t \<Rightarrow>
             (case buildAutoMergedEntry c (list ! t) candidate of
                None \<Rightarrow> ((None, False), r)
              | Some values \<Rightarrow>
                  let target' = apply_merged values (list ! t)
                  in ((Some target', True), put_entries s (list[t := target']) r)))"

definition AutoMergeCandidateIntoAbove ::
  "codec \<Rightarrow> QueuedMessage \<Rightarrow> repo \<Rightarrow> (QueuedMessage option \<times> bool) \<times> repo" where
  "AutoMergeCandidateIntoAbove = autoMergeCandidateIntoAboveLocked"

definition AutoMergeCandidateIntoAboveForSession ::
  "codec \<Rightarrow> QueueSessionIdentity \<Rightarrow> QueuedMessage option \<Rightarrow> repo \<Rightarrow> (QueuedMessage option \<times> bool) result" where
  "AutoMergeCandidateIntoAboveForSession c i mo =
     for_identity i mo (\<lambda>candidate r. lift_pure (autoMergeCandidateIntoAboveLocked c candidate r))"

definition AutoMergeCandidateIntoAboveForSessionWithPolicy ::
  "codec \<Rightarrow> QueueSessionIdentity \<Rightarrow> QueuedMessage option \<Rightarrow> AutoMergePolicy \<Rightarrow> repo \<Rightarrow>
   (QueuedMessage option \<times> bool) result" where
  "AutoMergeCandidateIntoAboveForSessionWithPolicy c i mo policy =
     for_identity i mo (\<lambda>candidate. with_policy i policy
       (\<lambda>r. lift_pure (autoMergeCandidateIntoAboveLocked c candidate r)))"

section \<open>Reordering\<close>

fun validateReorderInput_loop :: "string list \<Rightarrow> string list \<Rightarrow> bool" where
  "validateReorderInput_loop seen [] = True"
| "validateReorderInput_loop seen (x # xs) =
     (if x \<in> set seen then False else validateReorderInput_loop (x # seen) xs)"

definition validateReorderInput :: "string list \<Rightarrow> qerror option" where
  "validateReorderInput orderedIDs =
     (if orderedIDs = [] then Some ErrQueueChanged
      else if validateReorderInput_loop [] orderedIDs then None else Some ErrQueueChanged)"

definition splitVisibleAndReserved ::
  "QueuedMessage list \<Rightarrow> QueuedMessage list \<times> QueuedMessage list" where
  "splitVisibleAndReserved stored =
     (filter (\<lambda>m. \<not> IsReservedInFlight m) stored, filter IsReservedInFlight stored)"

fun reorder_lookup ::
  "QueuedMessage list \<Rightarrow> string list \<Rightarrow> string list \<Rightarrow> qerror + QueuedMessage list" where
  "reorder_lookup visible seen [] = Inr []"
| "reorder_lookup visible seen (x # xs) =
     (if x \<in> set seen then Inl ErrQueueChanged
      else case entry_by_id visible x of
             None \<Rightarrow> Inl ErrQueueChanged
           | Some m \<Rightarrow>
               (case reorder_lookup visible (x # seen) xs of
                  Inl err \<Rightarrow> Inl err | Inr ms \<Rightarrow> Inr (m # ms)))"

definition validateReorderSet ::
  "QueuedMessage list \<Rightarrow> string list \<Rightarrow> qerror + QueuedMessage list" where
  "validateReorderSet visible orderedIDs =
     (if length orderedIDs \<noteq> length visible then Inl ErrQueueChanged
      else reorder_lookup visible [] orderedIDs)"

text \<open>
  Reserved rows keep their places; the others are taken in turn from \<open>ordered\<close>.  The cursor cannot
  run past the end, as \<open>ordered\<close> has one element per visible row.
\<close>

fun interleave :: "QueuedMessage list \<Rightarrow> QueuedMessage list \<Rightarrow> QueuedMessage list" where
  "interleave [] ordered = []"
| "interleave (m # ms) ordered =
     (if IsReservedInFlight m then m # interleave ms ordered
      else case ordered of [] \<Rightarrow> [] | x # xs \<Rightarrow> x # interleave ms xs)"

fun number_from :: "int \<Rightarrow> QueuedMessage list \<Rightarrow> QueuedMessage list" where
  "number_from n [] = []"
| "number_from n (m # ms) = m\<lparr>qm_Position := n\<rparr> # number_from (n + 1) ms"

definition reorderEntriesLocked :: "string \<Rightarrow> string list \<Rightarrow> repo \<Rightarrow> unit result" where
  "reorderEntriesLocked s orderedIDs r =
     (let ordered_rows = sort_key qm_Position (sess r s);
          visible = fst (splitVisibleAndReserved ordered_rows)
      in case validateReorderSet visible orderedIDs of
           Inl err \<Rightarrow> (Inl err, r)
         | Inr ordered \<Rightarrow>
             let sequence = number_from 1 (interleave ordered_rows ordered)
             in if sequence = [] then (Inr (), r)
                else (Inr (), raise_next s (int (length sequence)) (put_entries s sequence r)))"

definition ReorderEntries :: "string \<Rightarrow> string list \<Rightarrow> repo \<Rightarrow> unit result" where
  "ReorderEntries = reorderEntriesLocked"

definition ReorderEntriesForSession :: "QueueSessionIdentity \<Rightarrow> string list \<Rightarrow> repo \<Rightarrow> unit result" where
  "ReorderEntriesForSession i orderedIDs = with_identity i (reorderEntriesLocked (si_SessionID i) orderedIDs)"

section \<open>Deleting\<close>

definition deleteByIDLocked :: "string \<Rightarrow> string \<Rightarrow> repo \<Rightarrow> unit result" where
  "deleteByIDLocked s entryID r =
     (let list = sess r s
      in case find_index (\<lambda>m. qm_ID m = entryID) list of
           None \<Rightarrow> (Inl ErrEntryNotFound, r)
         | Some k \<Rightarrow>
             if IsReservedInFlight (list ! k) then (Inl ErrEntryNotFound, r)
             else (Inr (), store_entries s (remove_nth k list) r))"

definition DeleteByID :: "string \<Rightarrow> string \<Rightarrow> repo \<Rightarrow> unit result" where
  "DeleteByID = deleteByIDLocked"

definition drop_next_if_empty :: "string \<Rightarrow> QueuedMessage list \<Rightarrow> repo \<Rightarrow> repo" where
  "drop_next_if_empty s list r =
     (if list = [] then r\<lparr>r_nextPosition := gm_del s (r_nextPosition r)\<rparr> else r)"

definition deleteByIDForSessionLocked :: "string \<Rightarrow> string \<Rightarrow> repo \<Rightarrow> QueueRemovalResult result" where
  "deleteByIDForSessionLocked s entryID r =
     (let list = sess r s
      in case find_index (\<lambda>m. qm_ID m = entryID) list of
           None \<Rightarrow> (Inl ErrEntryNotFound, r)
         | Some k \<Rightarrow>
             if IsReservedInFlight (list ! k) then (Inl ErrEntryNotFound, r)
             else
               let list' = remove_nth k list
               in (Inr \<lparr>rr_Removed = [list ! k], rr_Retained = list'\<rparr>,
                   drop_next_if_empty s list' (store_entries s list' r)))"

definition DeleteByIDForSession ::
  "QueueSessionIdentity \<Rightarrow> string \<Rightarrow> repo \<Rightarrow> QueueRemovalResult result" where
  "DeleteByIDForSession i entryID = with_identity i (deleteByIDForSessionLocked (si_SessionID i) entryID)"

definition deleteAllBySessionLocked :: "string \<Rightarrow> repo \<Rightarrow> nat \<times> repo" where
  "deleteAllBySessionLocked s r =
     (let list = sess r s;
          r' = store_entries s (filter IsReservedInFlight list) r
      in (length (filter (\<lambda>m. \<not> IsReservedInFlight m) list),
          r'\<lparr>r_sessionGeneration := gm_incr s (r_sessionGeneration r')\<rparr>))"

definition DeleteAllBySession :: "string \<Rightarrow> repo \<Rightarrow> nat \<times> repo" where
  "DeleteAllBySession = deleteAllBySessionLocked"

definition deleteAllBySessionForIdentityLocked :: "string \<Rightarrow> repo \<Rightarrow> QueueRemovalResult \<times> repo" where
  "deleteAllBySessionForIdentityLocked s r =
     (let list = sess r s; kept = filter IsReservedInFlight list
      in (\<lparr>rr_Removed = filter (\<lambda>m. \<not> IsReservedInFlight m) list, rr_Retained = kept\<rparr>,
          drop_next_if_empty s kept (store_entries s kept r)))"

definition DeleteAllBySessionForIdentity :: "QueueSessionIdentity \<Rightarrow> repo \<Rightarrow> QueueRemovalResult result" where
  "DeleteAllBySessionForIdentity i =
     with_identity i (\<lambda>r. lift_pure (deleteAllBySessionForIdentityLocked (si_SessionID i) r))"

section \<open>Purging\<close>

definition purge_rows ::
  "string \<Rightarrow> (string, QueuedMessage list) gomap \<Rightarrow> (string, QueuedMessage list) gomap" where
  "purge_rows taskID m =
     filter (\<lambda>(_, l). l \<noteq> []) (map (\<lambda>(s, l). (s, filter (\<lambda>q. qm_TaskID q \<noteq> taskID) l)) m)"

definition purge_affected :: "string \<Rightarrow> repo \<Rightarrow> string list" where
  "purge_affected taskID r =
     remdups (map fst (filter (\<lambda>(_, l). \<exists>q\<in>set l. qm_TaskID q = taskID) (r_entries r)) @
              map fst (filter (\<lambda>(_, mv). pm_TaskID mv = taskID) (r_pendingMoves r)))"

definition PurgeTask :: "string \<Rightarrow> repo \<Rightarrow> nat \<times> repo" where
  "PurgeTask taskID r =
     (length (filter (\<lambda>q. qm_TaskID q = taskID) (all_entries r)),
      r\<lparr>r_entries := purge_rows taskID (r_entries r),
        r_pendingMoves := filter (\<lambda>(_, mv). pm_TaskID mv \<noteq> taskID) (r_pendingMoves r),
        r_admissionReceipts := gm_del_if (\<lambda>k. ak_TaskID k = taskID) (r_admissionReceipts r),
        r_sessionGeneration :=
          foldl (\<lambda>m s. gm_incr s m) (r_sessionGeneration r) (purge_affected taskID r),
        r_generation := gm_incr taskID (r_generation r)\<rparr>)"

definition PurgeSession :: "string \<Rightarrow> repo \<Rightarrow> nat \<times> repo" where
  "PurgeSession s r =
     (length (sess r s),
      r\<lparr>r_entries := gm_del s (r_entries r),
        r_admissionReceipts := gm_del_if (\<lambda>k. ak_SessionID k = s) (r_admissionReceipts r),
        r_pendingMoves := gm_del s (r_pendingMoves r),
        r_autoRun := gm_del s (r_autoRun r),
        r_sessionGeneration := gm_incr s (r_sessionGeneration r)\<rparr>)"

definition PurgeDeletedSession :: "QueueSessionIdentity \<Rightarrow> repo \<Rightarrow> repo" where
  "PurgeDeletedSession i r =
     (case gm_get (r_identities r) (si_SessionID i) of
        Some current \<Rightarrow> if current \<noteq> i then r else clearSessionStateLocked (si_SessionID i) r
      | None \<Rightarrow> clearSessionStateLocked (si_SessionID i) r)"

section \<open>Transferring a session\<close>

definition max_position :: "QueuedMessage list \<Rightarrow> int" where
  "max_position list = foldl (\<lambda>acc m. if qm_Position m > acc then qm_Position m else acc) 0 list"

definition moved_row :: "string \<Rightarrow> int \<Rightarrow> QueuedMessage \<Rightarrow> QueuedMessage" where
  "moved_row new d m = m\<lparr>qm_SessionID := new, qm_Position := qm_Position m + d\<rparr>"

definition move_entries :: "string \<Rightarrow> string \<Rightarrow> repo \<Rightarrow> repo" where
  "move_entries old new r =
     (case gm_get (r_entries r) old of
        None \<Rightarrow> r
      | Some list \<Rightarrow>
          let destMax = max_position (sess r new);
              moved = map (moved_row new destMax) list;
              list' = sess r new @ moved;
              r1 = foldl (\<lambda>r m. raise_next new (qm_Position m) r) (put_entries new list' r) list'
          in r1\<lparr>r_entries := gm_del old (r_entries r1)\<rparr>)"

definition move_claims :: "string \<Rightarrow> string \<Rightarrow> repo \<Rightarrow> repo" where
  "move_claims old new r =
     (let claimIDs = gm_get0 [] (r_sendNowClaims r) old
      in if claimIDs \<noteq> []
         then r\<lparr>r_sendNowClaims := gm_del old (gm_put new claimIDs (r_sendNowClaims r))\<rparr> else r)"

definition move_pending_move :: "string \<Rightarrow> string \<Rightarrow> repo \<Rightarrow> repo" where
  "move_pending_move old new r =
     (case gm_get (r_pendingMoves r) old of
        None \<Rightarrow> r
      | Some mv \<Rightarrow>
          let mv' = (case gm_get (r_identities r) new of
                       None \<Rightarrow> mv
                     | Some d \<Rightarrow> mv\<lparr>pm_SessionIncarnationID := si_SessionIncarnationID d,
                                    pm_TaskID := si_TaskID d\<rparr>)
          in r\<lparr>r_pendingMoves := gm_del old (gm_put new mv' (r_pendingMoves r))\<rparr>)"

definition transfer_auto_run ::
  "QueueSessionIdentity option \<Rightarrow> QueueSessionIdentity option \<Rightarrow> string \<Rightarrow> string \<Rightarrow> repo \<Rightarrow>
   bool \<times> bool \<times> repo" where
  "transfer_auto_run source destination old new r =
     (case (source, destination) of
        (Some i, Some d) \<Rightarrow>
          (case autoRunForIdentityLocked i r of
             (a, r1) \<Rightarrow> (case autoRunForIdentityLocked d r1 of (b, r2) \<Rightarrow> (a, b, r2)))
      | _ \<Rightarrow> (autoRunLocked old r, autoRunLocked new r, r))"

text \<open>Both session generations advance before the reserved rows are checked, also when that check fails.\<close>

definition transferSessionLocked ::
  "QueueSessionIdentity option \<Rightarrow> QueueSessionIdentity option \<Rightarrow> string \<Rightarrow> string \<Rightarrow> repo \<Rightarrow> unit result" where
  "transferSessionLocked source destination old new r =
     (if old = new then (Inr (), r)
      else
        let r1 = r\<lparr>r_sessionGeneration := gm_incr new (gm_incr old (r_sessionGeneration r))\<rparr>
        in if \<exists>q\<in>set (sess r1 old). IsReservedInFlight q \<and> \<not> sendNowClaimContainsLocked old (qm_ID q) r1
           then (Inl ErrQueueChanged, r1)
           else case transfer_auto_run source destination old new r1 of
                  (sourceAutoRun, destinationAutoRun, r2) \<Rightarrow>
                    let r3 = move_claims old new (move_entries old new r2);
                        r4 = r3\<lparr>r_nextPosition := gm_del old (r_nextPosition r3)\<rparr>;
                        r5 = move_pending_move old new r4;
                        r6 = setAutoRunLocked destination new (sourceAutoRun \<and> destinationAutoRun) r5
                    in (Inr (), r6\<lparr>r_autoRun := gm_del old (r_autoRun r6),
                                   r_autoRunIncarnation := gm_del old (r_autoRunIncarnation r6),
                                   r_identities := gm_del old (r_identities r6)\<rparr>))"

definition TransferSession :: "string \<Rightarrow> string \<Rightarrow> repo \<Rightarrow> unit result" where
  "TransferSession old new = transferSessionLocked None None old new"

definition TransferSessionIdentities ::
  "QueueSessionIdentity \<Rightarrow> QueueSessionIdentity \<Rightarrow> repo \<Rightarrow> unit result" where
  "TransferSessionIdentities source destination r =
     (if si_TaskID source \<noteq> si_TaskID destination then (Inl ErrSessionIdentityMismatch, r)
      else with_identity source (with_identity destination
             (transferSessionLocked (Some source) (Some destination)
                (si_SessionID source) (si_SessionID destination))) r)"

section \<open>Replacing a session\<close>

definition replaceSessionLocked ::
  "string \<Rightarrow> QueuedMessage list \<Rightarrow> PendingMove option \<Rightarrow> repo \<Rightarrow> unit result" where
  "replaceSessionLocked s rows mo r =
     (let r1 = (if rows = [] then r\<lparr>r_entries := gm_del s (r_entries r)\<rparr>
                else
                  let replaced = map (\<lambda>m. m\<lparr>qm_SessionID := s\<rparr>) rows
                  in raise_next s (max_position replaced)
                       (put_entries s (sort_key qm_Position replaced) r))
      in (Inr (),
          case mo of
            None \<Rightarrow> r1\<lparr>r_pendingMoves := gm_del s (r_pendingMoves r1)\<rparr>
          | Some mv \<Rightarrow> r1\<lparr>r_pendingMoves := gm_put s mv (r_pendingMoves r1)\<rparr>))"

definition ReplaceSession ::
  "string \<Rightarrow> QueuedMessage list \<Rightarrow> PendingMove option \<Rightarrow> repo \<Rightarrow> unit result" where
  "ReplaceSession s rows mo r =
     replaceSessionLocked s rows mo (r\<lparr>r_sessionGeneration := gm_incr s (r_sessionGeneration r)\<rparr>)"

definition validateReplacementSnapshot ::
  "QueueSessionIdentity \<Rightarrow> QueuedMessage list \<Rightarrow> PendingMove option \<Rightarrow> qerror option" where
  "validateReplacementSnapshot i rows mo =
     (if \<exists>m\<in>set rows. qm_SessionID m \<noteq> si_SessionID i \<or> qm_TaskID m \<noteq> si_TaskID i
      then Some ErrSessionIdentityMismatch
      else case mo of
             None \<Rightarrow> None
           | Some mv \<Rightarrow>
               if pm_TaskID mv \<noteq> si_TaskID i \<or> pm_SessionIncarnationID mv \<noteq> si_SessionIncarnationID i
               then Some ErrSessionIdentityMismatch else None)"

definition ReplaceSessionForIdentity ::
  "QueueSessionIdentity \<Rightarrow> QueuedMessage list \<Rightarrow> PendingMove option \<Rightarrow> repo \<Rightarrow> unit result" where
  "ReplaceSessionForIdentity i rows mo r =
     (case validateReplacementSnapshot i rows mo of
        Some err \<Rightarrow> (Inl err, r)
      | None \<Rightarrow> with_identity i (replaceSessionLocked (si_SessionID i) rows mo) r)"

section \<open>Deferred moves\<close>

definition SetPendingMove :: "env \<Rightarrow> string \<Rightarrow> PendingMove option \<Rightarrow> repo \<Rightarrow> PendingMove result" where
  "SetPendingMove e s mo r =
     (case mo of
        None \<Rightarrow> (Inl ErrSessionIdentityMismatch, r)
      | Some mv \<Rightarrow>
          if pm_TaskID mv = [] \<or> s = [] then (Inl ErrSessionIdentityMismatch, r)
          else if pm_SessionIncarnationID mv = [] \<and>
                  (case gm_get (r_identities r) s of
                     Some i \<Rightarrow> si_TaskID i \<noteq> pm_TaskID mv | None \<Rightarrow> False)
          then (Inl ErrSessionIdentityMismatch, r)
          else
            let inc = (if pm_SessionIncarnationID mv \<noteq> [] then pm_SessionIncarnationID mv
                       else case gm_get (r_identities r) s of
                              Some i \<Rightarrow> si_SessionIncarnationID i
                            | None \<Rightarrow> ''memory:'' @ s);
                mv' = mv\<lparr>pm_SessionIncarnationID := inc\<rparr>;
                i = \<lparr>si_TaskID = pm_TaskID mv, si_SessionID = s, si_SessionIncarnationID = inc\<rparr>;
                r1 = (if gm_has (r_identities r) s then r
                      else r\<lparr>r_identities := gm_put s i (r_identities r)\<rparr>)
            in with_identity i (\<lambda>r.
                 let mv'' = (if IsZero (pm_QueuedAt mv') then mv'\<lparr>pm_QueuedAt := e_now e\<rparr> else mv')
                 in (Inr mv'', r\<lparr>r_pendingMoves := gm_put s mv'' (r_pendingMoves r)\<rparr>)) r1)"

definition GetPendingMove :: "string \<Rightarrow> repo \<Rightarrow> PendingMove option" where
  "GetPendingMove s r = gm_get (r_pendingMoves r) s"

definition TakePendingMove :: "string \<Rightarrow> repo \<Rightarrow> PendingMove option \<times> repo" where
  "TakePendingMove s r =
     (case gm_get (r_pendingMoves r) s of
        None \<Rightarrow> (None, r)
      | Some mv \<Rightarrow> (Some mv, r\<lparr>r_pendingMoves := gm_del s (r_pendingMoves r)\<rparr>))"

definition ListPendingMoves :: "repo \<Rightarrow> (string \<times> PendingMove) list" where
  "ListPendingMoves r = sort_key fst (r_pendingMoves r)"

definition DeletePendingMoveIfMatch :: "string \<times> PendingMove \<Rightarrow> string \<Rightarrow> repo \<Rightarrow> bool \<times> repo" where
  "DeletePendingMoveIfMatch expected handoffEntryID r =
     (case expected of (s, mv) \<Rightarrow>
        (case gm_get (r_pendingMoves r) s of
           None \<Rightarrow> (False, r)
         | Some stored \<Rightarrow>
             if pm_MoveID stored \<noteq> pm_MoveID mv \<or>
                pm_SessionIncarnationID stored \<noteq> pm_SessionIncarnationID mv \<or>
                pm_QueuedAt stored \<noteq> pm_QueuedAt mv
             then (False, r)
             else
               let r1 = r\<lparr>r_pendingMoves := gm_del s (r_pendingMoves r)\<rparr>
               in if handoffEntryID = [] then (True, r1)
                  else case find_index (\<lambda>q. qm_ID q = handoffEntryID \<and> qm_TaskID q = pm_TaskID mv \<and>
                                            qm_QueuedBy q = QueuedByMoveTask) (sess r1 s) of
                         None \<Rightarrow> (True, r1)
                       | Some k \<Rightarrow>
                           let list' = remove_nth k (sess r1 s)
                           in (True, drop_next_if_empty s list' (store_entries s list' r1))))"

end
