(* ===== verification/Queue_Admission.thy ===== *)
theory Queue_Admission
  imports Queue_Edit
begin

text \<open>
  Identified admissions (\<open>admission.go\<close>, \<open>repository_admission_memory.go\<close>): a caller-owned queue id
  makes an admission replayable.  The fingerprint of an admission is the hexadecimal SHA-256 of the
  JSON text of its inputs; that digest is the argument \<open>fp\<close>.
\<close>

section \<open>Fingerprints\<close>

record WorkflowEntryIdentity =
  we_WorkflowID :: string
  we_WorkflowStepID :: string
  we_TransitionID :: int
  we_LifecycleGeneration :: int
  we_ExpectedTaskResourceVersion :: string
  we_ExpectedSessionResourceVersion :: string
  we_RejectPendingMove :: bool
  we_EnforceTaskManagementClaim :: bool
  we_ManagementInstallationID :: string
  we_ManagementInstanceKey :: string
  we_ExpectedClaimGeneration :: int

definition no_workflow_entry :: WorkflowEntryIdentity where
  "no_workflow_entry =
     \<lparr>we_WorkflowID = [], we_WorkflowStepID = [], we_TransitionID = 0, we_LifecycleGeneration = 0,
      we_ExpectedTaskResourceVersion = [], we_ExpectedSessionResourceVersion = [],
      we_RejectPendingMove = False, we_EnforceTaskManagementClaim = False,
      we_ManagementInstallationID = [], we_ManagementInstanceKey = [],
      we_ExpectedClaimGeneration = 0\<rparr>"

record queueAdmissionFingerprintInput =
  fi_Identity :: QueueSessionIdentity
  fi_Content :: string
  fi_Model :: string
  fi_PlanMode :: bool
  fi_Attachments :: "MessageAttachment list"
  fi_Metadata :: metadata
  fi_QueuedBy :: string
  fi_WorkflowEntry :: WorkflowEntryIdentity

type_synonym digest = "queueAdmissionFingerprintInput \<Rightarrow> string"

definition queueAdmissionFingerprint ::
  "digest \<Rightarrow> QueueSessionIdentity \<Rightarrow> QueuedMessage \<Rightarrow> WorkflowEntryIdentity option \<Rightarrow> string" where
  "queueAdmissionFingerprint fp i msg entry =
     fp \<lparr>fi_Identity = i, fi_Content = qm_Content msg, fi_Model = qm_Model msg,
         fi_PlanMode = qm_PlanMode msg, fi_Attachments = qm_Attachments msg,
         fi_Metadata = gm_del_if (\<lambda>k. k \<in> {MetadataClientQueueID, MetadataRequestFingerprint,
             MetadataClientMessageFingerprint, MetadataQueueAdmissionIDs}) (qm_Metadata msg),
         fi_QueuedBy = qm_QueuedBy msg,
         fi_WorkflowEntry = (case entry of None \<Rightarrow> no_workflow_entry | Some w \<Rightarrow> w)\<rparr>"

definition queueAdmissionResponseSnapshot :: "QueuedMessage \<Rightarrow> QueuedMessage" where
  "queueAdmissionResponseSnapshot m =
     m\<lparr>qm_Attachments := map (\<lambda>a. a\<lparr>at_Data := []\<rparr>) (qm_Attachments m)\<rparr>"

section \<open>Replay\<close>

abbreviation MaxQueueAdmissionIDLength :: nat where "MaxQueueAdmissionIDLength \<equiv> 128"

definition validateQueueAdmissionInput ::
  "QueueSessionIdentity \<Rightarrow> string \<Rightarrow> QueuedMessage option \<Rightarrow> qerror option" where
  "validateQueueAdmissionInput i clientQueueID mo =
     (if incomplete_identity i then Some ErrSessionIdentityMismatch
      else if clientQueueID = [] \<or> length clientQueueID > MaxQueueAdmissionIDLength
      then Some (ErrText ''client queue id is invalid'')
      else case mo of
             None \<Rightarrow> Some ErrSessionIdentityMismatch
           | Some m \<Rightarrow> if qm_TaskID m \<noteq> si_TaskID i \<or> qm_SessionID m \<noteq> si_SessionID i
                       then Some ErrSessionIdentityMismatch else None)"

definition admission_key :: "QueueSessionIdentity \<Rightarrow> string \<Rightarrow> queueAdmissionKey" where
  "admission_key i clientQueueID =
     \<lparr>ak_TaskID = si_TaskID i, ak_SessionID = si_SessionID i,
      ak_SessionIncarnationID = si_SessionIncarnationID i, ak_ClientQueueID = clientQueueID\<rparr>"

text \<open>
  The three results of the source: the message, whether a receipt was found, and the error.  A
  receipt with another fingerprint is an error with \<open>found = False\<close>.
\<close>

definition replayAdmissionLocked ::
  "queueAdmissionKey \<Rightarrow> string \<Rightarrow> repo \<Rightarrow> QueuedMessage option \<times> bool \<times> qerror option" where
  "replayAdmissionLocked key fingerprint r =
     (case gm_get (r_admissionReceipts r) key of
        None \<Rightarrow> (None, False, None)
      | Some receipt \<Rightarrow>
          if ar_Fingerprint receipt \<noteq> fingerprint then (None, False, Some ErrQueueIDConflict)
          else (Some (ar_Message receipt), True, None))"

definition LookupQueueAdmission ::
  "digest \<Rightarrow> QueueSessionIdentity \<Rightarrow> string \<Rightarrow> QueuedMessage option \<Rightarrow> repo \<Rightarrow>
   (QueuedMessage option \<times> bool) result" where
  "LookupQueueAdmission fp i clientQueueID mo r =
     (case validateQueueAdmissionInput i clientQueueID mo of
        Some err \<Rightarrow> (Inl err, r)
      | None \<Rightarrow>
          (case mo of
             None \<Rightarrow> (Inl ErrSessionIdentityMismatch, r)
           | Some candidate \<Rightarrow>
               with_identity i (\<lambda>r.
                 case replayAdmissionLocked (admission_key i clientQueueID)
                        (queueAdmissionFingerprint fp i candidate None) r of
                   (_, _, Some err) \<Rightarrow> (Inl err, r)
                 | (replay, found, None) \<Rightarrow> (Inr (replay, found), r)) r))"

definition queueIDExistsLocked :: "string \<Rightarrow> repo \<Rightarrow> bool" where
  "queueIDExistsLocked clientQueueID r \<longleftrightarrow> (\<exists>m\<in>set (all_entries r). qm_ID m = clientQueueID)"

section \<open>Admission\<close>

definition rememberAdmissionLocked ::
  "queueAdmissionKey \<Rightarrow> string \<Rightarrow> QueuedMessage \<Rightarrow> repo \<Rightarrow> (QueuedMessage \<times> bool) result" where
  "rememberAdmissionLocked key fingerprint m r =
     (Inr (m, False),
      r\<lparr>r_admissionReceipts :=
          gm_put key \<lparr>ar_Fingerprint = fingerprint, ar_Message = queueAdmissionResponseSnapshot m\<rparr>
            (r_admissionReceipts r)\<rparr>)"

abbreviation merge_enabled :: "AutoMergePolicy option \<Rightarrow> bool" where
  "merge_enabled po \<equiv> (case po of None \<Rightarrow> False | Some p \<Rightarrow> ap_Enabled p)"

definition admitFullAdmissionLocked ::
  "codec \<Rightarrow> queueAdmissionKey \<Rightarrow> string \<Rightarrow> QueuedMessage \<Rightarrow> AutoMergePolicy option \<Rightarrow> repo \<Rightarrow>
   (QueuedMessage \<times> bool) result" where
  "admitFullAdmissionLocked c key fingerprint m po r =
     (if \<not> merge_enabled po then (Inl ErrQueueFull, r)
      else case autoMergeCandidateIntoAboveLocked c m r of
             ((Some merged, True), r') \<Rightarrow> rememberAdmissionLocked key fingerprint merged r'
           | (_, r') \<Rightarrow> (Inl ErrQueueFull, r'))"

definition mergeInsertedAdmissionLocked ::
  "codec \<Rightarrow> string \<Rightarrow> QueuedMessage \<Rightarrow> AutoMergePolicy option \<Rightarrow> repo \<Rightarrow> QueuedMessage \<times> repo" where
  "mergeInsertedAdmissionLocked c s m po r =
     (if \<not> merge_enabled po then (m, r)
      else case autoMergeIntoAboveLocked c s (qm_ID m) r of
             ((Some merged, True), r') \<Rightarrow> (merged, r')
           | (_, r') \<Rightarrow> (m, r'))"

abbreviation has_claim_ids :: "QueueAttachmentClaim option \<Rightarrow> bool" where
  "has_claim_ids co \<equiv> (case co of None \<Rightarrow> False | Some cl \<Rightarrow> ac_IDs cl \<noteq> [])"

definition admitNewAdmissionLocked ::
  "codec \<Rightarrow> env \<Rightarrow> QueueSessionIdentity \<Rightarrow> queueAdmissionKey \<Rightarrow> string \<Rightarrow> QueuedMessage \<Rightarrow>
   QueueAttachmentClaim option \<Rightarrow> int \<Rightarrow> AutoMergePolicy option \<Rightarrow> repo \<Rightarrow> (QueuedMessage \<times> bool) result" where
  "admitNewAdmissionLocked c e i key fingerprint m0 claim maxPerSession po r =
     (let m = (if IsZero (qm_QueuedAt m0) then m0\<lparr>qm_QueuedAt := e_now e\<rparr> else m0)
      in if int (length (sess r (si_SessionID i))) \<ge> maxPerSession \<and> maxPerSession > 0
         then (if has_claim_ids claim then (Inl ErrQueueFull, r)
               else admitFullAdmissionLocked c key fingerprint m po r)
         else if has_claim_ids claim then (Inl ErrQueueAdmissionUnavailable, r)
         else case insertLocked e m maxPerSession r of
                (Inl err, r1) \<Rightarrow> (Inl err, r1)
              | (Inr m', r1) \<Rightarrow>
                  (case mergeInsertedAdmissionLocked c (si_SessionID i) m' po r1 of
                     (accepted, r2) \<Rightarrow> rememberAdmissionLocked key fingerprint accepted r2))"

text \<open>
  The call site of the replay test looks at \<open>found\<close> only, as the source does: the error of a
  conflicting fingerprint is not returned there.
\<close>

definition AdmitQueueMessage ::
  "codec \<Rightarrow> digest \<Rightarrow> env \<Rightarrow> QueueSessionIdentity \<Rightarrow> string \<Rightarrow> QueuedMessage option \<Rightarrow>
   QueueAttachmentClaim option \<Rightarrow> int \<Rightarrow> AutoMergePolicy option \<Rightarrow> WorkflowEntryIdentity option \<Rightarrow> repo \<Rightarrow>
   (QueuedMessage \<times> bool) result" where
  "AdmitQueueMessage c fp e i clientQueueID mo claim maxPerSession po entry r =
     (if entry \<noteq> None then (Inl ErrQueueAdmissionUnavailable, r)
      else case validateQueueAdmissionInput i clientQueueID mo of
             Some err \<Rightarrow> (Inl err, r)
           | None \<Rightarrow>
               (case mo of
                  None \<Rightarrow> (Inl ErrSessionIdentityMismatch, r)
                | Some candidate \<Rightarrow>
                    let key = admission_key i clientQueueID;
                        fingerprint = queueAdmissionFingerprint fp i candidate None
                    in with_identity i (\<lambda>r.
                         case replayAdmissionLocked key fingerprint r of
                           (Some replay, True, _) \<Rightarrow> (Inr (replay, True), r)
                         | _ \<Rightarrow>
                             if queueIDExistsLocked clientQueueID r then (Inl ErrQueueIDConflict, r)
                             else admitNewAdmissionLocked c e i key fingerprint
                                    (candidate\<lparr>qm_ID := clientQueueID\<rparr>) claim maxPerSession po r) r))"

end
