(* ===== verification/Go_Strings.thy ===== *)
theory Go_Strings
  imports Go_Prelude
begin

text \<open>
  The functions of Go's \<open>strings\<close>, \<open>strconv\<close> and \<open>unicode/utf8\<close> that the components call.  A Go string is a
  sequence of bytes, and so is a \<open>string\<close> here: white space beyond ASCII is recognised by its encoding.
\<close>

section \<open>Prefixes and integers\<close>

definition HasPrefix :: "string \<Rightarrow> string \<Rightarrow> bool" where
  "HasPrefix s p \<longleftrightarrow> take (length p) s = p"

definition TrimPrefix :: "string \<Rightarrow> string \<Rightarrow> string" where
  "TrimPrefix s p = (if HasPrefix s p then drop (length p) s else s)"

lemma HasPrefix_append: "HasPrefix s p \<longleftrightarrow> (\<exists>rest. s = p @ rest)"
  by (metis HasPrefix_def append_eq_conv_conj append_take_drop_id)

lemma TrimPrefix_append [simp]: "TrimPrefix (p @ rest) p = rest"
  by (simp add: TrimPrefix_def HasPrefix_def)

fun Itoa :: "nat \<Rightarrow> string" where
  "Itoa n = (if n < 10 then [char_of (48 + n)] else Itoa (n div 10) @ [char_of (48 + n mod 10)])"

declare Itoa.simps [simp del]

definition FormatInt :: "int \<Rightarrow> string" where
  "FormatInt i = (if i < 0 then CHR ''-'' # Itoa (nat (- i)) else Itoa (nat i))"

fun join_with :: "string \<Rightarrow> string list \<Rightarrow> string" where
  "join_with sep [] = []"
| "join_with sep [x] = x"
| "join_with sep (x # y # ys) = x @ sep @ join_with sep (y # ys)"

section \<open>White space\<close>

text \<open>
  The UTF-8 encodings of the characters for which \<open>unicode.IsSpace\<close> holds.  Their first bytes never occur
  inside the encoding of another character, so a match at any byte is a character of the string.
\<close>

definition space_encodings :: "string list" where
  "space_encodings = [
     [CHR 0x09], [CHR 0x0A], [CHR 0x0B], [CHR 0x0C], [CHR 0x0D], [CHR 0x20], [CHR 0xC2, CHR 0x85], [CHR 0xC2, CHR 0xA0], 
     [CHR 0xE1, CHR 0x9A, CHR 0x80], [CHR 0xE2, CHR 0x80, CHR 0x80], [CHR 0xE2, CHR 0x80, CHR 0x81], 
     [CHR 0xE2, CHR 0x80, CHR 0x82], [CHR 0xE2, CHR 0x80, CHR 0x83], [CHR 0xE2, CHR 0x80, CHR 0x84], 
     [CHR 0xE2, CHR 0x80, CHR 0x85], [CHR 0xE2, CHR 0x80, CHR 0x86], [CHR 0xE2, CHR 0x80, CHR 0x87], 
     [CHR 0xE2, CHR 0x80, CHR 0x88], [CHR 0xE2, CHR 0x80, CHR 0x89], [CHR 0xE2, CHR 0x80, CHR 0x8A], 
     [CHR 0xE2, CHR 0x80, CHR 0xA8], [CHR 0xE2, CHR 0x80, CHR 0xA9], [CHR 0xE2, CHR 0x80, CHR 0xAF], 
     [CHR 0xE2, CHR 0x81, CHR 0x9F], [CHR 0xE3, CHR 0x80, CHR 0x80]]"

text \<open>The length of the white space character at the front, and at the end; 0 if there is none.\<close>

definition leading_space :: "string \<Rightarrow> nat" where
  "leading_space s = (case find (HasPrefix s) space_encodings of None \<Rightarrow> 0 | Some p \<Rightarrow> length p)"

definition trailing_space :: "string \<Rightarrow> nat" where
  "trailing_space s = (case find (\<lambda>p. length p \<le> length s \<and> drop (length s - length p) s = p) space_encodings of None \<Rightarrow> 0 | Some p \<Rightarrow> length p)"

function trim_left :: "string \<Rightarrow> string" where
  "trim_left s = (if leading_space s = 0 \<or> s = [] then s else trim_left (drop (leading_space s) s))"
  by pat_completeness auto
termination by (relation "measure length") auto

function trim_right :: "string \<Rightarrow> string" where
  "trim_right s = (if trailing_space s = 0 \<or> s = [] then s else trim_right (take (length s - trailing_space s) s))"
  by pat_completeness auto
termination by (relation "measure length") auto

declare trim_left.simps [simp del] trim_right.simps [simp del]

lemma trim_Nil [simp]: "trim_left [] = []" "trim_right [] = []"
  by (simp_all add: trim_left.simps trim_right.simps)

lemma leading_space_iff: "leading_space s \<noteq> 0 \<longleftrightarrow> (\<exists>p \<in> set space_encodings. HasPrefix s p)"
proof -
  have "p \<noteq> []" if "p \<in> set space_encodings" for p using that by (auto simp: space_encodings_def)
  then show ?thesis by (auto simp: leading_space_def find_None_iff find_Some_iff split: option.split)
qed

definition TrimSpace :: "string \<Rightarrow> string" where
  "TrimSpace s = trim_right (trim_left s)"

fun word_split :: "string \<Rightarrow> string \<times> string" where
  "word_split [] = ([], [])"
| "word_split (c # cs) = (if leading_space (c # cs) \<noteq> 0 then ([], c # cs) else (let (w, rest) = word_split cs in (c # w, rest)))"

lemma word_split_append: "fst (word_split s) @ snd (word_split s) = s"
  by (induction s) (auto simp: case_prod_beta)

lemma trim_left_length: "length (trim_left s) \<le> length s"
  by (induction s rule: trim_left.induct) (subst trim_left.simps, auto)

lemma trim_right_length: "length (trim_right s) \<le> length s"
  by (induction s rule: trim_right.induct) (subst trim_right.simps, auto)

lemma TrimSpace_length: "length (TrimSpace s) \<le> length s"
  unfolding TrimSpace_def using trim_left_length trim_right_length order_trans by blast

lemma trim_left_leading: "trim_left s \<noteq> [] \<Longrightarrow> leading_space (trim_left s) = 0"
proof (induction s rule: trim_left.induct)
  case (1 s)
  show ?case
  proof (cases "leading_space s = 0 \<or> s = []")
    case True then show ?thesis using "1.prems" by (simp add: trim_left.simps [of s])
  next
    case False then show ?thesis using 1 by (simp add: trim_left.simps [of s])
  qed
qed

text \<open>\<open>strings.Fields\<close>.\<close>

function Fields :: "string \<Rightarrow> string list" where
  "Fields s = (let t = trim_left s in if t = [] then [] else fst (word_split t) # Fields (snd (word_split t)))"
  by pat_completeness auto
termination
proof (relation "measure length")
  fix s t :: string assume t: "t = trim_left s" "t \<noteq> []"
  obtain c cs where c: "t = c # cs" using t(2) by (cases t) auto
  have ls: "leading_space (c # cs) = 0" using trim_left_leading [of s] t c by simp
  have "length (snd (word_split cs)) \<le> length cs" using arg_cong [OF word_split_append [of cs], of length] by simp
  then have "length (snd (word_split t)) < length t" using c by (simp add: case_prod_beta ls)
  also have "\<dots> \<le> length s" using t trim_left_length by simp
  finally show "(snd (word_split t), s) \<in> measure length" by simp
qed simp

declare Fields.simps [simp del]

section \<open>UTF-8\<close>

definition byte_in :: "nat \<Rightarrow> nat \<Rightarrow> nat \<Rightarrow> string \<Rightarrow> bool" where
  "byte_in lo hi i s \<longleftrightarrow> i < length s \<and> lo \<le> of_char (s ! i) \<and> of_char (s ! i) \<le> hi"

abbreviation continuation_byte :: "nat \<Rightarrow> string \<Rightarrow> bool" where
  "continuation_byte \<equiv> byte_in 0x80 0xBF"

text \<open>The valid encodings of one to four bytes at the front of a string.\<close>

definition rune1 :: "string \<Rightarrow> bool" where
  "rune1 s \<longleftrightarrow> byte_in 0 0x7F 0 s"

definition rune2 :: "string \<Rightarrow> bool" where
  "rune2 s \<longleftrightarrow> byte_in 0xC2 0xDF 0 s \<and> continuation_byte 1 s"

definition rune3 :: "string \<Rightarrow> bool" where
  "rune3 s \<longleftrightarrow> (byte_in 0xE0 0xE0 0 s \<and> byte_in 0xA0 0xBF 1 s \<or> byte_in 0xE1 0xEC 0 s \<and> continuation_byte 1 s \<or>
     byte_in 0xED 0xED 0 s \<and> byte_in 0x80 0x9F 1 s \<or> byte_in 0xEE 0xEF 0 s \<and> continuation_byte 1 s) \<and> continuation_byte 2 s"

definition rune4 :: "string \<Rightarrow> bool" where
  "rune4 s \<longleftrightarrow> (byte_in 0xF0 0xF0 0 s \<and> byte_in 0x90 0xBF 1 s \<or> byte_in 0xF1 0xF3 0 s \<and> continuation_byte 1 s \<or>
     byte_in 0xF4 0xF4 0 s \<and> byte_in 0x80 0x8F 1 s) \<and> continuation_byte 2 s \<and> continuation_byte 3 s"

lemmas rune_defs = rune1_def rune2_def rune3_def rune4_def

text \<open>The length of that encoding; 0 if the string is empty or starts with an invalid byte.\<close>

definition rune_length :: "string \<Rightarrow> nat" where
  "rune_length s = (if rune1 s then 1 else if rune2 s then 2 else if rune3 s then 3 else if rune4 s then 4 else 0)"

definition RuneStart :: "char \<Rightarrow> bool" where
  "RuneStart c \<longleftrightarrow> \<not> (0x80 \<le> (of_char c :: nat) \<and> (of_char c :: nat) \<le> 0xBF)"

lemma rune_length_le: "rune_length s \<le> length s"
proof -
  have bound: "byte_in lo hi i s \<Longrightarrow> i < length s" for lo hi i by (simp add: byte_in_def)
  have "rune1 s \<Longrightarrow> 1 \<le> length s" "rune2 s \<Longrightarrow> 2 \<le> length s" "rune3 s \<Longrightarrow> 3 \<le> length s" "rune4 s \<Longrightarrow> 4 \<le> length s"
    by (auto simp: rune_defs Suc_le_eq dest!: bound)
  then show ?thesis by (simp add: rune_length_def)
qed

text \<open>\<open>utf8.ValidString\<close>, and \<open>strings.ToValidUTF8\<close> with an empty replacement.\<close>

function ValidString :: "string \<Rightarrow> bool" where
  "ValidString s = (if s = [] then True else if rune_length s = 0 then False else ValidString (drop (rune_length s) s))"
  by pat_completeness auto
termination by (relation "measure length") auto

function ToValidUTF8 :: "string \<Rightarrow> string" where
  "ToValidUTF8 s =
     (if s = [] then []
      else if rune_length s = 0 then ToValidUTF8 (tl s)
      else take (rune_length s) s @ ToValidUTF8 (drop (rune_length s) s))"
  by pat_completeness auto
termination by (relation "measure length") auto

declare ValidString.simps [simp del] ToValidUTF8.simps [simp del]

lemma utf8_Nil [simp]: "ValidString []" "ToValidUTF8 [] = []"
  by (simp_all add: ValidString.simps ToValidUTF8.simps)

lemma valid_step: "s \<noteq> [] \<Longrightarrow> ValidString s \<longleftrightarrow> rune_length s \<noteq> 0 \<and> ValidString (drop (rune_length s) s)"
  by (simp add: ValidString.simps [of s])

lemma utf8_skip: "s \<noteq> [] \<Longrightarrow> rune_length s = 0 \<Longrightarrow> ToValidUTF8 s = ToValidUTF8 (tl s)"
  by (simp add: ToValidUTF8.simps [of s])

lemma utf8_take: "rune_length s \<noteq> 0 \<Longrightarrow> ToValidUTF8 s = take (rune_length s) s @ ToValidUTF8 (drop (rune_length s) s)"
  using rune_length_le [of s] by (cases "s = []") (auto simp: ToValidUTF8.simps [of s])

lemma rune_length_4: "rune_length s \<le> 4"
  by (simp add: rune_length_def)

lemma byte_in_weaken: "byte_in a b i s \<Longrightarrow> lo \<le> a \<Longrightarrow> b \<le> hi \<Longrightarrow> byte_in lo hi i s"
  by (simp add: byte_in_def)

lemma byte_in_prefix: "i < n \<Longrightarrow> i < length s \<Longrightarrow> byte_in lo hi i (take n s @ t) = byte_in lo hi i s"
  by (auto simp: byte_in_def nth_append)

lemma rune_length_prefix:
  assumes "rune_length s \<noteq> 0" "rune_length s \<le> n"
  shows "rune_length (take n s @ t) = rune_length s"
proof -
  have same: "byte_in lo hi i (take n s @ t) = byte_in lo hi i s" if "i < rune_length s" for lo hi i
    using that assms rune_length_le [of s] by (simp add: byte_in_prefix)
  have "rune_length s = 1 \<or> rune_length s = 2 \<or> rune_length s = 3 \<or> rune_length s = 4" using assms(1) rune_length_4 [of s] by linarith
  then have "(1 \<le> rune_length s \<longrightarrow> rune1 (take n s @ t) = rune1 s) \<and> (2 \<le> rune_length s \<longrightarrow> rune2 (take n s @ t) = rune2 s) \<and>
      (3 \<le> rune_length s \<longrightarrow> rune3 (take n s @ t) = rune3 s) \<and> (4 \<le> rune_length s \<longrightarrow> rune4 (take n s @ t) = rune4 s)"
    by (simp add: rune_defs same)
  then show ?thesis using assms(1) by (simp add: rune_length_def split: if_splits)
qed

lemma ToValidUTF8_length: "length (ToValidUTF8 s) \<le> length s"
proof (induction s rule: ToValidUTF8.induct)
  case (1 s)
  consider "s = []" | "s \<noteq> []" "rune_length s = 0" | "s \<noteq> []" "rune_length s \<noteq> 0" by blast
  then show ?case
  proof cases
    case 2
    then show ?thesis using "1.IH"(1) by (simp add: utf8_skip)
  next
    case 3
    then show ?thesis using "1.IH"(2) rune_length_le [of s] by (simp add: utf8_take)
  qed simp
qed

lemma ToValidUTF8_valid: "ValidString (ToValidUTF8 s)"
proof (induction s rule: ToValidUTF8.induct)
  case (1 s)
  consider "s = []" | "s \<noteq> []" "rune_length s = 0" | "s \<noteq> []" "rune_length s \<noteq> 0" by blast
  then show ?case
  proof cases
    case 2
    then show ?thesis using "1.IH"(1) by (simp add: utf8_skip)
  next
    case 3
    let ?t = "take (rune_length s) s @ ToValidUTF8 (drop (rune_length s) s)"
    have "rune_length ?t = rune_length s" using rune_length_prefix [of s "rune_length s"] 3 by simp
    moreover have "?t \<noteq> []" using 3 by simp
    ultimately show ?thesis using "1.IH"(2) 3 rune_length_le [of s] valid_step [of ?t] by (simp add: utf8_take)
  qed simp
qed

lemma valid_unchanged: "ValidString s \<Longrightarrow> ToValidUTF8 s = s"
proof (induction s rule: ValidString.induct)
  case (1 s)
  then show ?case by (cases "s = []") (simp_all add: valid_step [of s] utf8_take)
qed

text \<open>A valid string is cut into two valid ones at every start of a character.\<close>

lemma second_byte: "rune2 s \<Longrightarrow> continuation_byte 1 s" "rune3 s \<Longrightarrow> continuation_byte 1 s" "rune4 s \<Longrightarrow> continuation_byte 1 s"
proof -
  have w: "byte_in 0xA0 0xBF 1 s \<Longrightarrow> continuation_byte 1 s" "byte_in 0x80 0x9F 1 s \<Longrightarrow> continuation_byte 1 s"
    "byte_in 0x90 0xBF 1 s \<Longrightarrow> continuation_byte 1 s" "byte_in 0x80 0x8F 1 s \<Longrightarrow> continuation_byte 1 s"
    by (erule byte_in_weaken; simp)+
  show "rune2 s \<Longrightarrow> continuation_byte 1 s" by (simp add: rune2_def)
  show "rune3 s \<Longrightarrow> continuation_byte 1 s" unfolding rune3_def using w by blast
  show "rune4 s \<Longrightarrow> continuation_byte 1 s" unfolding rune4_def using w by blast
qed

lemma rune_inside: "0 < i \<Longrightarrow> i < rune_length s \<Longrightarrow> \<not> RuneStart (s ! i)"
proof -
  assume i: "0 < i" "i < rune_length s"
  then have "i = 1 \<or> i = 2 \<or> i = 3" using rune_length_4 [of s] by linarith
  then have "continuation_byte i s"
  proof (elim disjE)
    assume "i = 1" then show ?thesis using i second_byte by (simp add: rune_length_def split: if_splits)
  next
    assume "i = 2" then show ?thesis using i by (simp add: rune_length_def rune3_def rune4_def split: if_splits)
  next
    assume "i = 3" then show ?thesis using i by (simp add: rune_length_def rune4_def split: if_splits)
  qed
  then show ?thesis by (simp add: byte_in_def RuneStart_def)
qed

lemma valid_cut:
  "ValidString s \<Longrightarrow> k \<le> length s \<Longrightarrow> (k < length s \<Longrightarrow> RuneStart (s ! k)) \<Longrightarrow> ValidString (take k s) \<and> ValidString (drop k s)"
proof (induction s arbitrary: k rule: ValidString.induct)
  case (1 s)
  show ?case
  proof (cases "s = [] \<or> k = 0")
    case True
    then show ?thesis using 1 by (auto simp: ValidString.simps [of "[]"])
  next
    case False
    let ?n = "rune_length s"
    have n: "?n \<noteq> 0" "ValidString (drop ?n s)" using "1.prems"(1) False valid_step [of s] by auto
    have "?n \<le> k"
    proof (rule ccontr)
      assume c: "\<not> ?n \<le> k"
      then have "k < length s" using rune_length_le [of s] by simp
      then show False using rune_inside [of k s] c False "1.prems"(3) by simp
    qed
    moreover have "ValidString (take (k - ?n) (drop ?n s)) \<and> ValidString (drop (k - ?n) (drop ?n s))"
      using "1.IH" [of "k - ?n"] "1.prems"(2,3) n False calculation rune_length_le [of s] by simp
    moreover have "rune_length (take k s) = ?n" using rune_length_prefix [of s k "[]"] n calculation(1) by simp
    ultimately show ?thesis using n(1) valid_step [of "take k s"] False by (simp add: drop_take)
  qed
qed

end
