(* ===== verification/Managed_Inputs.thy ===== *)
theory Managed_Inputs
  imports Queue_Admission Go_Strings
begin

text \<open>
  Managed inputs (\<open>managed_inputs.go\<close>, \<open>managed_inputs_memory.go\<close>): idempotent inputs of a managed
  conversation.  Each admitted input has a receipt with its own life cycle beside the FIFO row that
  carries its prompt.  The digest of a request is the argument \<open>mfp\<close>.
\<close>

section \<open>Requests\<close>

record ManagedInputRequest =
  rq_ID :: string
  rq_OccurrenceKey :: string
  rq_PayloadDigest :: string
  rq_Payload :: string
  rq_Origin :: ManagedInputOrigin
  rq_CoalesceKey :: string
  rq_ConversationRevision :: int

type_synonym request_digest = "QueueSessionIdentity \<Rightarrow> ManagedInputRequest \<Rightarrow> string"

definition validateManagedInputRequest ::
  "QueueSessionIdentity \<Rightarrow> ManagedInputRequest \<Rightarrow> qerror option" where
  "validateManagedInputRequest i rq =
     (if incomplete_identity i then Some ErrSessionIdentityMismatch
      else if rq_ID rq = [] \<or> rq_OccurrenceKey rq = [] \<or>
              length (rq_ID rq) > MaxQueueAdmissionIDLength \<or>
              length (rq_OccurrenceKey rq) > MaxQueueAdmissionIDLength
      then Some (ErrText ''managed input identity is invalid'')
      else if rq_PayloadDigest rq = [] \<or> length (rq_PayloadDigest rq) > 128 \<or>
              length (rq_CoalesceKey rq) > 256
      then Some (ErrText ''managed input payload digest or coalesce key is invalid'')
      else if (case rq_Origin rq of ManagedInputOriginOther _ \<Rightarrow> True | _ \<Rightarrow> False)
      then Some (ErrText ''managed input origin is invalid'')
      else if rq_ConversationRevision rq < 0
      then Some (ErrText ''managed input conversation revision is invalid'')
      else None)"

text \<open>
  The digest covers every field of the request but its host-minted id, which a retry may change.
\<close>

definition managedInputFingerprint ::
  "request_digest \<Rightarrow> QueueSessionIdentity \<Rightarrow> ManagedInputRequest \<Rightarrow> string" where
  "managedInputFingerprint mfp i rq = mfp i (rq\<lparr>rq_ID := []\<rparr>)"

definition origin_text :: "ManagedInputOrigin \<Rightarrow> string" where
  "origin_text o' =
     (case o' of
        ManagedInputOriginHuman \<Rightarrow> ''human''
      | ManagedInputOriginAutomation \<Rightarrow> ''automation''
      | ManagedInputOriginPeriodic \<Rightarrow> ''periodic''
      | ManagedInputOriginInteraction \<Rightarrow> ''interaction''
      | ManagedInputOriginOther t \<Rightarrow> t)"

definition managedInputQueueMessage ::
  "env \<Rightarrow> QueueSessionIdentity \<Rightarrow> ManagedInputRequest \<Rightarrow> QueuedMessage" where
  "managedInputQueueMessage e i rq =
     zero_message\<lparr>qm_ID := rq_ID rq, qm_TaskID := si_TaskID i, qm_SessionID := si_SessionID i,
       qm_Content := rq_Payload rq, qm_QueuedBy := QueuedByServer,
       qm_Metadata :=
         [(MetadataManagedInput, MBool True), (''managed_input_id'', MStr (rq_ID rq)),
          (''managed_input_occurrence_key'', MStr (rq_OccurrenceKey rq)),
          (''managed_input_origin'', MStr (origin_text (rq_Origin rq))),
          (''managed_input_payload_digest'', MStr (rq_PayloadDigest rq)),
          (''managed_input_conversation_revision'', MInt (rq_ConversationRevision rq)),
          (''managed_input_coalesce_key'', MStr (rq_CoalesceKey rq))],
       qm_QueuedAt := e_now e\<rparr>"

definition managedInputReceiptFromRequest ::
  "QueueSessionIdentity \<Rightarrow> ManagedInputRequest \<Rightarrow> int \<Rightarrow> time \<Rightarrow> ManagedInputReceipt" where
  "managedInputReceiptFromRequest i rq sequence now =
     \<lparr>mr_ID = rq_ID rq, mr_OccurrenceKey = rq_OccurrenceKey rq, mr_TaskID = si_TaskID i,
      mr_SessionID = si_SessionID i, mr_SessionIncarnationID = si_SessionIncarnationID i,
      mr_PayloadDigest = rq_PayloadDigest rq, mr_Payload = rq_Payload rq, mr_Origin = rq_Origin rq,
      mr_CoalesceKey = rq_CoalesceKey rq, mr_Sequence = sequence,
      mr_ConversationRevision = rq_ConversationRevision rq, mr_State = ManagedInputStateAccepted,
      mr_CreatedAt = now, mr_UpdatedAt = now, mr_TurnID = [], mr_ExecutionID = [],
      mr_SupersededBy = [], mr_Outcome = [], mr_fingerprint = []\<rparr>"

definition managedInputIsTerminal :: "ManagedInputState \<Rightarrow> bool" where
  "managedInputIsTerminal st \<longleftrightarrow>
     st = ManagedInputStateCompleted \<or> st = ManagedInputStateFailed \<or>
     st = ManagedInputStateUncertain \<or> st = ManagedInputStateCancelled"

definition validateManagedInputSettlement ::
  "string \<Rightarrow> string \<Rightarrow> ManagedInputState \<Rightarrow> string \<Rightarrow> qerror option" where
  "validateManagedInputSettlement turnID executionID st outcome =
     (if \<not> managedInputIsTerminal st then Some (ErrText ''managed input settlement state is invalid'')
      else if length outcome > 2048 then Some (ErrText ''managed input outcome is too long'')
      else if (turnID = []) \<noteq> (executionID = [])
      then Some (ErrText ''managed input turn and execution identity must be supplied together'')
      else if turnID = [] \<and> st \<noteq> ManagedInputStateUncertain
      then Some (ErrText ''only uncertain managed input settlement may omit execution identity'')
      else None)"

definition managedInputSort :: "ManagedInputReceipt list \<Rightarrow> ManagedInputReceipt list" where
  "managedInputSort = sort_key (\<lambda>m. (mr_Sequence m, mr_CreatedAt m, mr_ID m))"

definition managedInputCanCoalesce :: "ManagedInputRequest \<Rightarrow> bool" where
  "managedInputCanCoalesce rq \<longleftrightarrow>
     rq_Origin rq = ManagedInputOriginPeriodic \<and> TrimSpace (rq_CoalesceKey rq) \<noteq> ''''"

section \<open>Queries on the receipts\<close>

abbreviation scoped :: "managedInputScope \<Rightarrow> repo \<Rightarrow> ManagedInputReceipt list" where
  "scoped scope r \<equiv> map snd (filter (\<lambda>(k, _). fst k = scope) (r_managedInputs r))"

definition nextManagedInputSequenceLocked :: "managedInputScope \<Rightarrow> repo \<Rightarrow> int" where
  "nextManagedInputSequenceLocked scope r =
     foldl (\<lambda>acc m. if mr_Sequence m > acc then mr_Sequence m else acc) 0 (scoped scope r) + 1"

definition admissionReceiptExistsLocked :: "QueueSessionIdentity \<Rightarrow> string \<Rightarrow> repo \<Rightarrow> bool" where
  "admissionReceiptExistsLocked i occurrenceKey r \<longleftrightarrow>
     gm_has (r_admissionReceipts r) (admission_key i occurrenceKey)"

definition managedInputIDExistsLocked :: "string \<Rightarrow> repo \<Rightarrow> bool" where
  "managedInputIDExistsLocked inputID r \<longleftrightarrow> (\<exists>(k, _)\<in>set (r_managedInputs r). snd k = inputID)"

definition replacementIndexForID :: "QueuedMessage list \<Rightarrow> string \<Rightarrow> nat option" where
  "replacementIndexForID rows inputID = find_index (\<lambda>q. qm_ID q = inputID) rows"

definition later_receipt :: "ManagedInputReceipt option \<Rightarrow> ManagedInputReceipt \<Rightarrow> ManagedInputReceipt option" where
  "later_receipt latest m =
     (case latest of
        None \<Rightarrow> Some m
      | Some l \<Rightarrow>
          if mr_Sequence m > mr_Sequence l \<or>
             (mr_Sequence m = mr_Sequence l \<and> After (mr_CreatedAt m) (mr_CreatedAt l))
          then Some m else Some l)"

definition replaceable :: "managedInputScope \<Rightarrow> string \<Rightarrow> repo \<Rightarrow> ManagedInputReceipt \<Rightarrow> bool" where
  "replaceable scope coalesceKey r m \<longleftrightarrow>
     mr_State m = ManagedInputStateAccepted \<and> mr_Origin m = ManagedInputOriginPeriodic \<and>
     mr_CoalesceKey m = coalesceKey \<and>
     (case replacementIndexForID (sess r (si_SessionID scope)) (mr_ID m) of
        None \<Rightarrow> False
      | Some k \<Rightarrow> \<not> IsReservedInFlight (sess r (si_SessionID scope) ! k) \<and>
                  \<not> IsDeliveryAttempted (sess r (si_SessionID scope) ! k))"

definition pendingPeriodicInputLocked ::
  "managedInputScope \<Rightarrow> string \<Rightarrow> repo \<Rightarrow> ManagedInputReceipt option" where
  "pendingPeriodicInputLocked scope coalesceKey r =
     foldl later_receipt None (filter (replaceable scope coalesceKey r) (scoped scope r))"

definition removeManagedQueueRowLocked :: "string \<Rightarrow> string \<Rightarrow> repo \<Rightarrow> repo" where
  "removeManagedQueueRowLocked s inputID r =
     (case replacementIndexForID (sess r s) inputID of
        None \<Rightarrow> r
      | Some k \<Rightarrow> put_entries s (remove_nth k (sess r s)) r)"

text \<open>The head the loop finds is the first entry of lowest position.\<close>

definition isMemoryQueueHead :: "QueuedMessage list \<Rightarrow> string \<Rightarrow> bool" where
  "isMemoryQueueHead rows inputID \<longleftrightarrow>
     rows \<noteq> [] \<and> qm_ID (rows ! lowestPositionIndex rows) = inputID"

definition managedExecutionExistsLocked :: "managedInputScope \<Rightarrow> string \<Rightarrow> string \<Rightarrow> repo \<Rightarrow> bool" where
  "managedExecutionExistsLocked scope turnID executionID r \<longleftrightarrow>
     (\<exists>m\<in>set (scoped scope r). mr_TurnID m = turnID \<and> mr_ExecutionID m = executionID)"

definition managedInputRunningLocked :: "managedInputScope \<Rightarrow> repo \<Rightarrow> bool" where
  "managedInputRunningLocked scope r \<longleftrightarrow>
     (\<exists>m\<in>set (scoped scope r). mr_State m = ManagedInputStateRunning)"

section \<open>Operations\<close>

text \<open>Guarding an operation by the bound identity, without binding it.\<close>

definition with_valid_identity :: "QueueSessionIdentity \<Rightarrow> (repo \<Rightarrow> 'a result) \<Rightarrow> repo \<Rightarrow> 'a result" where
  "with_valid_identity i body r =
     (case validateIdentityLocked i r of Some err \<Rightarrow> (Inl err, r) | None \<Rightarrow> body r)"

definition put_receipt :: "managedInputIDKey \<Rightarrow> ManagedInputReceipt \<Rightarrow> repo \<Rightarrow> repo" where
  "put_receipt key m r = r\<lparr>r_managedInputs := gm_put key m (r_managedInputs r)\<rparr>"

text \<open>The receipt, the occurrence index and the admission receipt a new input leaves.\<close>

definition record_input ::
  "request_digest \<Rightarrow> digest \<Rightarrow> QueueSessionIdentity \<Rightarrow> ManagedInputRequest \<Rightarrow> QueuedMessage \<Rightarrow> repo \<Rightarrow>
   (ManagedInputReceipt \<times> bool) result" where
  "record_input mfp fp i rq msg r =
     (let receipt = (managedInputReceiptFromRequest i rq (nextManagedInputSequenceLocked i r) (qm_QueuedAt msg))
                      \<lparr>mr_fingerprint := managedInputFingerprint mfp i rq\<rparr>;
          key = (i, rq_ID rq);
          r1 = put_receipt key receipt r
      in (Inr (receipt, False),
          r1\<lparr>r_managedOccurrences := gm_put (i, rq_OccurrenceKey rq) key (r_managedOccurrences r1),
             r_admissionReceipts :=
               gm_put (admission_key i (rq_OccurrenceKey rq))
                 \<lparr>ar_Fingerprint = queueAdmissionFingerprint fp i msg None,
                  ar_Message = queueAdmissionResponseSnapshot msg\<rparr> (r_admissionReceipts r1)\<rparr>))"

text \<open>
  Replacing a pending periodic input: its row leaves, the new row is inserted at the tail, and the
  old receipt is superseded.  If the insertion fails the old row is put back in place.
\<close>

definition supersede_input ::
  "env \<Rightarrow> QueueSessionIdentity \<Rightarrow> ManagedInputRequest \<Rightarrow> int \<Rightarrow> ManagedInputReceipt \<Rightarrow> QueuedMessage \<Rightarrow> repo \<Rightarrow>
   QueuedMessage result" where
  "supersede_input e i rq maxPerSession replacement msg r =
     (let s = si_SessionID i; rows = sess r s; key = (i, mr_ID replacement)
      in case replacementIndexForID rows (mr_ID replacement) of
           None \<Rightarrow> (Inl ErrManagedInputNotPending, r)
         | Some k \<Rightarrow>
             (case insertLocked e msg maxPerSession (put_entries s (remove_nth k rows) r) of
                (Inl err, r1) \<Rightarrow> (Inl err, put_entries s rows r1)
              | (Inr msg', r1) \<Rightarrow>
                  let old = gm_get0 replacement (r_managedInputs r1) key
                  in (Inr msg', put_receipt key
                        (old\<lparr>mr_State := ManagedInputStateSuperseded, mr_SupersededBy := rq_ID rq,
                             mr_UpdatedAt := qm_QueuedAt msg'\<rparr>) r1)))"

definition AdmitManagedInput ::
  "request_digest \<Rightarrow> digest \<Rightarrow> env \<Rightarrow> QueueSessionIdentity \<Rightarrow> ManagedInputRequest \<Rightarrow> int \<Rightarrow> repo \<Rightarrow>
   (ManagedInputReceipt \<times> bool) result" where
  "AdmitManagedInput mfp fp e i rq maxPerSession r =
     (case validateManagedInputRequest i rq of
        Some err \<Rightarrow> (Inl err, r)
      | None \<Rightarrow>
          with_valid_identity i (\<lambda>r.
            let msg = managedInputQueueMessage e i rq
            in case gm_get (r_managedOccurrences r) (i, rq_OccurrenceKey rq) of
                 Some inputKey \<Rightarrow>
                   (case gm_get (r_managedInputs r) inputKey of
                      Some receipt \<Rightarrow>
                        if mr_fingerprint receipt \<noteq> managedInputFingerprint mfp i rq
                        then (Inl ErrQueueIDConflict, r) else (Inr (receipt, True), r)
                    | None \<Rightarrow> (Inl ErrQueueIDConflict, r))
               | None \<Rightarrow>
                   if admissionReceiptExistsLocked i (rq_OccurrenceKey rq) r \<or>
                      managedInputIDExistsLocked (rq_ID rq) r \<or> queueIDExistsLocked (rq_ID rq) r
                   then (Inl ErrQueueIDConflict, r)
                   else
                     (case (if managedInputCanCoalesce rq
                            then pendingPeriodicInputLocked i (rq_CoalesceKey rq) r else None) of
                        Some replacement \<Rightarrow>
                          (case supersede_input e i rq maxPerSession replacement msg r of
                             (Inl err, r1) \<Rightarrow> (Inl err, r1)
                           | (Inr msg', r1) \<Rightarrow> record_input mfp fp i rq msg' r1)
                      | None \<Rightarrow>
                          (case insertLocked e msg maxPerSession r of
                             (Inl err, r1) \<Rightarrow> (Inl err, r1)
                           | (Inr msg', r1) \<Rightarrow> record_input mfp fp i rq msg' r1))) r)"

text \<open>Looking a receipt up within the identity, for the operations that act on one.\<close>

definition with_receipt ::
  "QueueSessionIdentity \<Rightarrow> string \<Rightarrow> (ManagedInputReceipt \<Rightarrow> repo \<Rightarrow> 'a result) \<Rightarrow> repo \<Rightarrow> 'a result" where
  "with_receipt i inputID body =
     with_valid_identity i (\<lambda>r.
       case gm_get (r_managedInputs r) (i, inputID) of
         None \<Rightarrow> (Inl ErrEntryNotFound, r)
       | Some m \<Rightarrow> body m r)"

definition GetManagedInput :: "QueueSessionIdentity \<Rightarrow> string \<Rightarrow> repo \<Rightarrow> ManagedInputReceipt result" where
  "GetManagedInput i inputID = with_receipt i inputID (\<lambda>m r. (Inr m, r))"

definition GetManagedInputByExecution ::
  "QueueSessionIdentity \<Rightarrow> string \<Rightarrow> string \<Rightarrow> repo \<Rightarrow> ManagedInputReceipt result" where
  "GetManagedInputByExecution i turnID executionID =
     with_valid_identity i (\<lambda>r.
       case find (\<lambda>m. mr_TurnID m = turnID \<and> mr_ExecutionID m = executionID) (scoped i r) of
         None \<Rightarrow> (Inl ErrEntryNotFound, r)
       | Some m \<Rightarrow> (Inr m, r))"

definition ListManagedInputs :: "QueueSessionIdentity \<Rightarrow> repo \<Rightarrow> ManagedInputReceipt list result" where
  "ListManagedInputs i = with_valid_identity i (\<lambda>r. (Inr (managedInputSort (scoped i r)), r))"

definition CancelManagedInput ::
  "env \<Rightarrow> QueueSessionIdentity \<Rightarrow> string \<Rightarrow> repo \<Rightarrow> (ManagedInputReceipt \<times> bool) result" where
  "CancelManagedInput e i inputID =
     with_receipt i inputID (\<lambda>m r.
       if mr_State m \<noteq> ManagedInputStateAccepted then (Inr (m, False), r)
       else
         let m' = m\<lparr>mr_State := ManagedInputStateCancelled, mr_UpdatedAt := e_now e\<rparr>
         in (Inr (m', True), removeManagedQueueRowLocked (si_SessionID i) inputID (put_receipt (i, inputID) m' r)))"

definition MarkManagedInputRunning ::
  "env \<Rightarrow> QueueSessionIdentity \<Rightarrow> string \<Rightarrow> string \<Rightarrow> string \<Rightarrow> repo \<Rightarrow> (ManagedInputReceipt \<times> bool) result" where
  "MarkManagedInputRunning e i inputID turnID executionID r =
     (if turnID = [] \<or> executionID = []
      then (Inl (ErrText ''managed input execution identity is required''), r)
      else with_receipt i inputID (\<lambda>m r.
        if mr_State m = ManagedInputStateRunning \<and> mr_TurnID m = turnID \<and> mr_ExecutionID m = executionID
        then (Inr (m, False), r)
        else if mr_State m \<noteq> ManagedInputStateAccepted \<or>
                managedExecutionExistsLocked i turnID executionID r
        then (Inl ErrManagedInputTransition, r)
        else if managedInputRunningLocked i r then (Inl ErrManagedInputBusy, r)
        else
          let rows = sess r (si_SessionID i)
          in case replacementIndexForID rows inputID of
               None \<Rightarrow> (Inl ErrManagedInputNotPending, r)
             | Some k \<Rightarrow>
                 if \<not> isMemoryQueueHead rows inputID then (Inl ErrManagedInputNotHead, r)
                 else
                   let m' = m\<lparr>mr_State := ManagedInputStateRunning, mr_TurnID := turnID,
                              mr_ExecutionID := executionID, mr_UpdatedAt := e_now e\<rparr>
                   in (Inr (m', True),
                       put_entries (si_SessionID i) (remove_nth k rows) (put_receipt (i, inputID) m' r))) r)"

definition SettleManagedInput ::
  "env \<Rightarrow> QueueSessionIdentity \<Rightarrow> string \<Rightarrow> string \<Rightarrow> string \<Rightarrow> ManagedInputState \<Rightarrow> string \<Rightarrow> repo \<Rightarrow>
   (ManagedInputReceipt \<times> bool) result" where
  "SettleManagedInput e i inputID turnID executionID st outcome r =
     (case validateManagedInputSettlement turnID executionID st outcome of
        Some err \<Rightarrow> (Inl err, r)
      | None \<Rightarrow>
          with_receipt i inputID (\<lambda>m r.
            if mr_State m = st \<and> mr_TurnID m = turnID \<and> mr_ExecutionID m = executionID \<and>
               mr_Outcome m = outcome
            then (Inr (m, False), r)
            else if mr_State m = ManagedInputStateAccepted \<and> st = ManagedInputStateUncertain \<and>
                    turnID = [] \<and> executionID = [] then
              let m' = m\<lparr>mr_State := ManagedInputStateUncertain, mr_Outcome := outcome,
                         mr_UpdatedAt := e_now e\<rparr>
              in (Inr (m', True),
                  removeManagedQueueRowLocked (si_SessionID i) inputID (put_receipt (i, inputID) m' r))
            else if mr_State m \<noteq> ManagedInputStateRunning \<or> mr_TurnID m \<noteq> turnID \<or>
                    mr_ExecutionID m \<noteq> executionID
            then (Inl ErrManagedInputTransition, r)
            else
              let m' = m\<lparr>mr_State := st, mr_Outcome := outcome, mr_UpdatedAt := e_now e\<rparr>
              in (Inr (m', True), put_receipt (i, inputID) m' r)) r)"

end
