(* ===== verification/Queue_Invariant.thy ===== *)
theory Queue_Invariant
  imports Managed_Inputs
begin

text \<open>
  The representation invariant of the in-memory repository and the proof that every operation keeps
  it.  A session's list is sorted by position, its rows carry the session they are stored under, and
  their positions lie between 1 and the session's high-water mark.  The sortedness is what lets the
  source insert with a binary search and dequeue the front; the high-water mark is what makes a new
  row the last one.

  The step relation \<open>queue_step_for\<close> has one rule per operation of the repository; the interpretation
  \<open>queue_system\<close> lifts the invariant to every state of a run that puts rows back only at positions that
  rows had before.
\<close>

section \<open>Session lists\<close>

definition slist_ok :: "string \<Rightarrow> int \<Rightarrow> QueuedMessage list \<Rightarrow> bool" where
  "slist_ok s np l \<longleftrightarrow>
     sorted (map qm_Position l) \<and>
     list_all (\<lambda>m. qm_SessionID m = s \<and> 0 < qm_Position m \<and> qm_Position m \<le> np) l"

lemma slist_ok_Nil [simp]: "slist_ok s np []"
  by (simp add: slist_ok_def)

lemma slist_ok_mono: "slist_ok s np l \<Longrightarrow> np \<le> np' \<Longrightarrow> slist_ok s np' l"
  unfolding slist_ok_def list_all_iff by fastforce

lemma slist_ok_sorted: "slist_ok s np l \<Longrightarrow> sorted (map qm_Position l)"
  by (simp add: slist_ok_def)

lemma slist_ok_member:
  "slist_ok s np l \<Longrightarrow> m \<in> set l \<Longrightarrow> qm_SessionID m = s \<and> 0 < qm_Position m \<and> qm_Position m \<le> np"
  unfolding slist_ok_def list_all_iff by blast

lemma slist_ok_remove_nth: "slist_ok s np l \<Longrightarrow> slist_ok s np (remove_nth k l)"
  using set_remove_nth_subset [of k l]
  by (auto simp: slist_ok_def list_all_iff sorted_map_remove_nth)

lemma slist_ok_filter: "slist_ok s np l \<Longrightarrow> slist_ok s np (filter P l)"
  unfolding slist_ok_def list_all_iff by (simp add: sorted_filter)

text \<open>Writing through a row pointer without touching session and position.\<close>

abbreviation same_slot :: "QueuedMessage \<Rightarrow> QueuedMessage \<Rightarrow> bool" where
  "same_slot m m' \<equiv> qm_SessionID m' = qm_SessionID m \<and> qm_Position m' = qm_Position m"

lemma slist_ok_slots:
  assumes "slist_ok s np l" and "list_all2 same_slot l l'"
  shows "slist_ok s np l'"
proof -
  have "map qm_Position l' = map qm_Position l"
    using assms(2) by (induction rule: list_all2_induct) simp_all
  moreover have "\<forall>m'\<in>set l'. \<exists>m\<in>set l. same_slot m m'"
    using assms(2) by (induction rule: list_all2_induct) auto
  ultimately show ?thesis
    using assms(1) unfolding slist_ok_def list_all_iff by fastforce
qed

lemma slist_ok_update:
  "slist_ok s np l \<Longrightarrow> same_slot (l ! k) m' \<Longrightarrow> slist_ok s np (l[k := m'])"
  by (cases "k < length l")
     (auto elim!: slist_ok_slots simp: list_all2_conv_all_nth nth_list_update list_update_beyond)

lemma slist_ok_snoc:
  "slist_ok s np l \<Longrightarrow> np < qm_Position m \<Longrightarrow> 0 < qm_Position m \<Longrightarrow> qm_SessionID m = s \<Longrightarrow>
   slist_ok s (qm_Position m) (l @ [m])"
  unfolding slist_ok_def list_all_iff by (fastforce simp: sorted_append)

lemma slist_ok_Cons:
  "slist_ok s np l \<Longrightarrow> qm_SessionID m = s \<Longrightarrow> 0 < qm_Position m \<Longrightarrow> qm_Position m \<le> np \<Longrightarrow>
   \<forall>x\<in>set l. qm_Position m \<le> qm_Position x \<Longrightarrow> slist_ok s np (m # l)"
  unfolding slist_ok_def by simp

lemma slist_ok_sort:
  "(\<And>m. m \<in> set l \<Longrightarrow> qm_SessionID m = s \<and> 0 < qm_Position m \<and> qm_Position m \<le> np) \<Longrightarrow>
   slist_ok s np (sort_key qm_Position l)"
  unfolding slist_ok_def list_all_iff by simp

lemma slist_ok_sort_id [simp]: "slist_ok s np l \<Longrightarrow> sort_key qm_Position l = l"
  by (simp add: slist_ok_def sort_key_id_if_sorted)

text \<open>The binary search of \<open>restoreLocked\<close> finds the first row of greater position.\<close>

lemma sort_search_position:
  fixes p :: int
  assumes "sorted (map qm_Position l)"
  defines "k \<equiv> sort_search 0 (length l) (\<lambda>j. qm_Position (l ! j) > p)"
  shows "k \<le> length l" and "\<forall>m\<in>set (take k l). qm_Position m \<le> p"
    and "\<forall>m\<in>set (drop k l). p < qm_Position m"
proof -
  have "\<forall>a b. a \<le> b \<and> b < length l \<and> p < qm_Position (l ! a) \<longrightarrow> p < qm_Position (l ! b)"
    using sorted_nth_mono [OF assms(1)] by fastforce
  then have spec: "k \<le> length l \<and> (\<forall>j<k. \<not> p < qm_Position (l ! j)) \<and>
      (\<forall>j. k \<le> j \<and> j < length l \<longrightarrow> p < qm_Position (l ! j))"
    unfolding k_def by (intro sort_search_spec) auto
  then show "k \<le> length l" by simp
  show "\<forall>m\<in>set (take k l). qm_Position m \<le> p"
    using spec by (auto simp: in_set_conv_nth not_less)
  show "\<forall>m\<in>set (drop k l). p < qm_Position m"
    using spec by (auto simp: in_set_conv_nth)
qed

lemma slist_ok_insert:
  assumes "slist_ok s np l" and "qm_SessionID m = s" and "0 < qm_Position m"
  defines "k \<equiv> sort_search 0 (length l) (\<lambda>j. qm_Position (l ! j) > qm_Position m)"
  shows "slist_ok s (max np (qm_Position m)) (take k l @ [m] @ drop k l)"
proof -
  note search = sort_search_position [OF slist_ok_sorted [OF assms(1)], of "qm_Position m", folded k_def]
  have parts: "sorted (map qm_Position (take k l))" "sorted (map qm_Position (drop k l))"
    using slist_ok_sorted [OF assms(1)] by (auto simp flip: take_map drop_map simp: sorted_wrt_take sorted_wrt_drop)
  have ranges: "\<forall>x\<in>set (take k l) \<union> set (drop k l). qm_SessionID x = s \<and> 0 < qm_Position x \<and> qm_Position x \<le> np"
    using slist_ok_member [OF assms(1)] by (auto dest: in_set_takeD in_set_dropD)
  have "sorted (map qm_Position (take k l @ [m] @ drop k l))"
    using parts search(2,3) by (fastforce simp: sorted_append)
  moreover have "\<forall>x\<in>set (take k l @ [m] @ drop k l).
      qm_SessionID x = s \<and> 0 < qm_Position x \<and> qm_Position x \<le> max np (qm_Position m)"
    using ranges assms(2,3) by (auto simp: le_max_iff_disj)
  ultimately show ?thesis unfolding slist_ok_def list_all_iff by blast
qed

lemma slist_ok_shift:
  "slist_ok s np l \<Longrightarrow> 0 \<le> d \<Longrightarrow> slist_ok s (np + d) (shift_positions d l)"
  unfolding slist_ok_def list_all_iff shift_positions_def
  by (auto simp: sorted_iff_nth_mono)

lemma number_from_ok:
  assumes "\<forall>m\<in>set l. qm_SessionID m = s" and "0 < n"
  shows "slist_ok s (n - 1 + int (length l)) (number_from n l) \<and>
    (\<forall>m\<in>set (number_from n l). n \<le> qm_Position m)"
  using assms
proof (induction l arbitrary: n)
  case Nil
  then show ?case by simp
next
  case (Cons m l)
  have IH: "slist_ok s (n + int (length l)) (number_from (n + 1) l)"
    "\<forall>m\<in>set (number_from (n + 1) l). n + 1 \<le> qm_Position m"
    using Cons.IH [of "n + 1"] Cons.prems by auto
  have "slist_ok s (n + int (length l)) (m\<lparr>qm_Position := n\<rparr> # number_from (n + 1) l)"
    by (rule slist_ok_Cons) (use IH Cons.prems in auto)
  with IH(2) show ?case by (fastforce simp: algebra_simps)
qed

section \<open>The repository\<close>

definition queue_inv :: "repo \<Rightarrow> bool" where
  "queue_inv r \<longleftrightarrow> gm_wf (r_entries r) \<and> (\<forall>s. 0 \<le> nextPos r s \<and> slist_ok s (nextPos r s) (sess r s))"

lemma queue_inv_sess: "queue_inv r \<Longrightarrow> slist_ok s (nextPos r s) (sess r s)"
  by (simp add: queue_inv_def)

lemma queue_inv_next: "queue_inv r \<Longrightarrow> 0 \<le> nextPos r s"
  by (simp add: queue_inv_def)

lemma queue_inv_fields [simp]:
  "queue_inv (r\<lparr>r_pendingMoves := a\<rparr>) = queue_inv r"
  "queue_inv (r\<lparr>r_generation := b\<rparr>) = queue_inv r"
  "queue_inv (r\<lparr>r_sessionGeneration := b\<rparr>) = queue_inv r"
  "queue_inv (r\<lparr>r_sendNowGeneration := b\<rparr>) = queue_inv r"
  "queue_inv (r\<lparr>r_sendNowClaims := c\<rparr>) = queue_inv r"
  "queue_inv (r\<lparr>r_autoRun := d\<rparr>) = queue_inv r"
  "queue_inv (r\<lparr>r_autoRunIncarnation := f\<rparr>) = queue_inv r"
  "queue_inv (r\<lparr>r_autoMergeOverrides := g\<rparr>) = queue_inv r"
  "queue_inv (r\<lparr>r_identities := h\<rparr>) = queue_inv r"
  "queue_inv (r\<lparr>r_admissionReceipts := j\<rparr>) = queue_inv r"
  "queue_inv (r\<lparr>r_managedInputs := k\<rparr>) = queue_inv r"
  "queue_inv (r\<lparr>r_managedOccurrences := l\<rparr>) = queue_inv r"
  "queue_inv (r\<lparr>r_statusGeneration := b\<rparr>) = queue_inv r"
  by (simp_all add: queue_inv_def)

lemma nextPos_writes [simp]:
  "nextPos (put_entries s l r) s' = nextPos r s'"
  "nextPos (store_entries s l r) s' = nextPos r s'"
  "nextPos (put_next s p r) s' = (if s' = s then p else nextPos r s')"
  "nextPos (raise_next s p r) s' = (if s' = s then max p (nextPos r s) else nextPos r s')"
  "sess (put_next s p r) s' = sess r s'"
  "sess (raise_next s p r) s' = sess r s'"
  by (auto simp: put_entries_def store_entries_def put_next_def raise_next_def)

lemma wf_writes [simp]:
  "gm_wf (r_entries r) \<Longrightarrow> gm_wf (r_entries (put_entries s l r))"
  "gm_wf (r_entries r) \<Longrightarrow> gm_wf (r_entries (store_entries s l r))"
  "gm_wf (r_entries (put_next s p r)) = gm_wf (r_entries r)"
  "gm_wf (r_entries (raise_next s p r)) = gm_wf (r_entries r)"
  by (auto simp: put_entries_def store_entries_def put_next_def raise_next_def)

lemma queue_inv_put [inv_intros]:
  "queue_inv r \<Longrightarrow> slist_ok s (nextPos r s) l \<Longrightarrow> queue_inv (put_entries s l r)"
  by (simp add: queue_inv_def)

lemma queue_inv_store [inv_intros]:
  "queue_inv r \<Longrightarrow> slist_ok s (nextPos r s) l \<Longrightarrow> queue_inv (store_entries s l r)"
  by (simp add: queue_inv_def)

lemma queue_inv_put_next [inv_intros]:
  "queue_inv r \<Longrightarrow> nextPos r s \<le> p \<Longrightarrow> queue_inv (put_next s p r)"
  by (auto simp: queue_inv_def intro: slist_ok_mono order_trans)

lemma queue_inv_raise_next [inv_intros]: "queue_inv r \<Longrightarrow> queue_inv (raise_next s p r)"
  by (auto simp: queue_inv_def le_max_iff_disj intro: slist_ok_mono)

lemma queue_inv_remove [inv_intros]:
  "queue_inv r \<Longrightarrow> queue_inv (store_entries s (remove_nth k (sess r s)) r)"
  "queue_inv r \<Longrightarrow> queue_inv (put_entries s (remove_nth k (sess r s)) r)"
  "queue_inv r \<Longrightarrow> queue_inv (removeEntryLocked s k r)"
  by (auto simp: removeEntryLocked_def intro!: inv_intros slist_ok_remove_nth queue_inv_sess)

lemma queue_inv_update [inv_intros]:
  "queue_inv r \<Longrightarrow> same_slot (sess r s ! k) m' \<Longrightarrow> queue_inv (put_entries s ((sess r s)[k := m']) r)"
  by (auto intro!: inv_intros slist_ok_update queue_inv_sess)

lemma queue_inv_del_entries [inv_intros]:
  "queue_inv r \<Longrightarrow> queue_inv (r\<lparr>r_entries := gm_del s (r_entries r)\<rparr>)"
  by (simp add: queue_inv_def)

lemma queue_inv_drop_next [inv_intros]:
  "queue_inv r \<Longrightarrow> sess r s = [] \<Longrightarrow> queue_inv (r\<lparr>r_nextPosition := gm_del s (r_nextPosition r)\<rparr>)"
  by (simp add: queue_inv_def)

section \<open>Invariants kept by operations\<close>

text \<open>An operation returns a pair of a result and the next state.\<close>

definition keeps :: "(repo \<Rightarrow> bool) \<Rightarrow> (repo \<Rightarrow> 'a \<times> repo) \<Rightarrow> bool" where
  "keeps I f \<longleftrightarrow> (\<forall>r. I r \<longrightarrow> I (snd (f r)))"

lemma keepsI: "(\<And>r. I r \<Longrightarrow> I (snd (f r))) \<Longrightarrow> keeps I f"
  by (simp add: keeps_def)

lemma keepsD: "keeps I f \<Longrightarrow> I r \<Longrightarrow> I (snd (f r))"
  by (simp add: keeps_def)

lemma keepsD_eq: "keeps I f \<Longrightarrow> I r \<Longrightarrow> f r = (x, r') \<Longrightarrow> I r'"
  by (metis keepsD snd_conv)

text \<open>
  What the generic prologues need of an invariant: it does not look at the identity table.
\<close>

locale identity_blind =
  fixes I :: "repo \<Rightarrow> bool"
  assumes blind_identities: "I r \<Longrightarrow> I (r\<lparr>r_identities := h\<rparr>)"
begin

lemma keeps_bind: "keeps I (bindIdentityLocked i)"
  by (rule keepsI) (auto simp: bindIdentityLocked_def blind_identities split: option.splits)

lemma keeps_with_identity: "keeps I body \<Longrightarrow> keeps I (with_identity i body)"
proof (rule keepsI)
  fix r assume "keeps I body" "I r"
  then show "I (snd (with_identity i body r))"
    using keepsD [OF keeps_bind, of r i]
    by (auto simp: with_identity_def keepsD split: prod.splits sum.splits)
qed

lemma keeps_for_identity:
  "(\<And>msg. qm_SessionID msg = si_SessionID i \<Longrightarrow> mo = Some msg \<Longrightarrow> keeps I (body msg)) \<Longrightarrow>
   keeps I (for_identity i mo body)"
  by (rule keepsI) (auto simp: for_identity_def keepsD [OF keeps_with_identity] split: option.splits)

lemma keeps_with_policy: "keeps I body \<Longrightarrow> keeps I (with_policy i policy body)"
  by (rule keepsI) (auto simp: with_policy_def keepsD split: option.splits)

lemma keeps_with_valid_identity: "keeps I body \<Longrightarrow> keeps I (with_valid_identity i body)"
  by (rule keepsI) (auto simp: with_valid_identity_def keepsD split: option.splits)

lemma keeps_lift_pure: "keeps I f \<Longrightarrow> keeps I (\<lambda>r. lift_pure (f r))"
  by (rule keepsI) (simp add: lift_pure_def keepsD)

end

interpretation qi: identity_blind queue_inv
  by unfold_locales simp

lemmas keeps_prologues = qi.keeps_with_identity qi.keeps_for_identity qi.keeps_with_policy
  qi.keeps_with_valid_identity qi.keeps_lift_pure

subsection \<open>Policies and identities\<close>

lemma keeps_ResolveSessionIdentity: "keeps queue_inv (ResolveSessionIdentity auth taskID s)"
  by (rule keepsI)
     (auto simp: ResolveSessionIdentity_def clearSessionStateLocked_def queue_inv_def Let_def
       split: option.splits sum.splits)

lemma queue_inv_autoRun [simp]:
  "queue_inv (snd (autoRunForIdentityLocked i r)) = queue_inv r"
  "queue_inv (setAutoRunLocked io s b r) = queue_inv r"
  by (auto simp: autoRunForIdentityLocked_def setAutoRunLocked_def Let_def split: option.splits)

lemma queue_inv_autoRunForIdentity:
  "autoRunForIdentityLocked i r = (b, r') \<Longrightarrow> queue_inv r' = queue_inv r"
  using queue_inv_autoRun(1) [of i r] by simp

lemma keeps_SetAutoRun: "keeps queue_inv (SetAutoRun s b)"
  "keeps queue_inv (SetAutoRunForSession i b)"
  by (auto simp: SetAutoRun_def SetAutoRunForSession_def intro!: keepsI [where f = "SetAutoRun s b"]
      keepsI [where f = "\<lambda>r. (x, g r)" for x g] keeps_prologues)

lemma keeps_PauseAutoRun: "keeps queue_inv (PauseAutoRunIfPending s)"
  "keeps queue_inv (PauseAutoRunIfPendingForSession i)"
  unfolding PauseAutoRunIfPendingForSession_def
  by (auto simp: PauseAutoRunIfPending_def pauseAutoRunIfPendingLocked_def intro!: keepsI
      keepsD [OF qi.keeps_with_identity])

lemma keeps_SetAutoMergeOverride: "keeps queue_inv (SetAutoMergeOverride i b)"
  unfolding SetAutoMergeOverride_def by (intro keeps_prologues keepsI) (simp add: Let_def)

subsection \<open>Insertion paths\<close>

lemma fill_identity_slot [simp]:
  "qm_SessionID (fill_identity e m) = qm_SessionID m"
  "qm_Position (fill_identity e m) = qm_Position m"
  by (simp_all add: fill_identity_def)

lemma keeps_insertLocked: "keeps queue_inv (insertLocked e msg maxPerSession)"
proof (rule keepsI)
  fix r assume inv: "queue_inv r"
  let ?s = "qm_SessionID msg"
  let ?m = "(fill_identity e msg)\<lparr>qm_Position := nextPos r ?s + 1\<rparr>"
  have "slist_ok ?s (qm_Position ?m) (sess r ?s @ [?m])"
    using queue_inv_next [OF inv, of ?s]
    by (intro slist_ok_snoc [OF queue_inv_sess [OF inv]]) (simp_all add: fill_identity_def)
  then have "queue_inv (put_entries ?s (sess r ?s @ [?m]) (put_next ?s (nextPos r ?s + 1) r))"
    using inv by (intro inv_intros) simp_all
  with inv show "queue_inv (snd (insertLocked e msg maxPerSession r))"
    by (simp add: insertLocked_def Let_def)
qed

lemma keeps_Insert: "keeps queue_inv (Insert e msg maxPerSession)"
  using keeps_insertLocked by (simp add: Insert_def keeps_def)

lemma keeps_InsertForSession:
  "keeps queue_inv (InsertForSession e i mo maxPerSession)"
  "keeps queue_inv (InsertForSessionWithClaim e i mo cl maxPerSession)"
  unfolding InsertForSession_def InsertForSessionWithClaim_def
  by (intro keeps_prologues keeps_insertLocked)+

lemma keeps_InsertForSessionWithPolicy:
  "keeps queue_inv (InsertForSessionWithPolicy e i mo maxPerSession policy)"
  unfolding InsertForSessionWithPolicy_def
  by (intro keeps_prologues keepsI) (auto split: option.splits intro: keepsD [OF keeps_insertLocked])

lemma keeps_restoreLocked:
  assumes "\<And>msg. mo = Some msg \<Longrightarrow> 0 < qm_Position msg"
  shows "keeps queue_inv (restoreLocked e mo maxPerSession)"
proof (rule keepsI)
  fix r assume inv: "queue_inv r"
  show "queue_inv (snd (restoreLocked e mo maxPerSession r))"
  proof (cases mo)
    case (Some msg)
    let ?s = "qm_SessionID msg" and ?m = "fill_identity e msg"
    let ?k = "sort_search 0 (length (sess r ?s)) (\<lambda>k. qm_Position (sess r ?s ! k) > qm_Position ?m)"
    let ?l = "take ?k (sess r ?s) @ [?m] @ drop ?k (sess r ?s)"
    have "slist_ok ?s (max (nextPos r ?s) (qm_Position ?m)) ?l"
      using assms [OF Some]
      by (intro slist_ok_insert [OF queue_inv_sess [OF inv]]) (simp_all add: fill_identity_def)
    then have "queue_inv (raise_next ?s (qm_Position ?m) (put_entries ?s ?l r))"
      using inv by (auto simp: queue_inv_def max.commute max.coboundedI2)
    then show ?thesis
      using inv Some by (simp add: restoreLocked_def Let_def)
  qed (simp add: restoreLocked_def inv)
qed

lemma keeps_Restore:
  assumes "\<And>msg. mo = Some msg \<Longrightarrow> 0 < qm_Position msg"
  shows "keeps queue_inv (Restore e mo maxPerSession)"
    and "keeps queue_inv (RestoreForSession e i mo maxPerSession)"
proof -
  show "keeps queue_inv (Restore e mo maxPerSession)"
    using keeps_restoreLocked [OF assms] by (simp add: Restore_def keeps_def)
  show "keeps queue_inv (RestoreForSession e i mo maxPerSession)"
    unfolding RestoreForSession_def
    by (intro keeps_prologues keeps_restoreLocked) (use assms in auto)
qed

lemma min_position_le: "min_position xs acc \<le> acc \<and> (\<forall>x\<in>set xs. min_position xs acc \<le> qm_Position x)"
proof (induction xs arbitrary: acc)
  case (Cons x xs)
  show ?case using Cons.IH [of "min (qm_Position x) acc"] by (auto simp: min_def split: if_splits)
qed simp

text \<open>The requeue position is positive, within the mark, and below every row of the (shifted) list.\<close>

lemma nextRequeuePosition_ok:
  assumes inv: "queue_inv r" and eq: "nextRequeuePositionLocked s (sess r s) r = (p, l, r')"
  shows "queue_inv r' \<and> slist_ok s (nextPos r' s) l \<and> 0 < p \<and> p \<le> nextPos r' s
    \<and> (\<forall>x\<in>set l. p < qm_Position x)"
proof (cases "sess r s")
  case Nil
  then show ?thesis
    using eq inv by (auto simp: nextRequeuePositionLocked_def intro!: inv_intros split: if_splits)
next
  case (Cons x xs)
  define q where "q = min_position xs (qm_Position x) - 1"
  note ok = queue_inv_sess [OF inv, of s]
  have q: "q < qm_Position y" if "y \<in> set (sess r s)" for y
    using min_position_le [of xs "qm_Position x"] that by (auto simp: Cons q_def)
  have x: "qm_Position x \<le> nextPos r s" using slist_ok_member [OF ok] Cons by auto
  show ?thesis
  proof (cases "q \<le> 0")
    case True
    then have "p = 1" "l = shift_positions (1 - q) (sess r s)"
      and "r' = raise_next s 1 (put_next s (nextPos r s + (1 - q)) r)"
      using eq Cons by (auto simp: nextRequeuePositionLocked_def q_def Let_def)
    moreover have "slist_ok s (nextPos r s + (1 - q)) (shift_positions (1 - q) (sess r s))"
      using True by (intro slist_ok_shift [OF ok]) simp
    ultimately show ?thesis
      using True inv queue_inv_next [OF inv, of s] q
      by (auto simp: shift_positions_def max_def intro!: inv_intros)
  next
    case False
    then have "p = q" "l = sess r s" "r' = raise_next s q r"
      using eq Cons by (auto simp: nextRequeuePositionLocked_def q_def Let_def)
    moreover have "slist_ok s (max q (nextPos r s)) (sess r s)" using ok by (rule slist_ok_mono) simp
    ultimately show ?thesis
      using False inv q x by (auto intro!: inv_intros)
  qed
qed

lemma keeps_releaseForRetry: "keeps queue_inv (releaseLifecycleReservationForRetryLocked msg inc)"
  by (rule keepsI)
     (auto simp: releaseLifecycleReservationForRetryLocked_def Let_def intro!: inv_intros split: option.splits)

lemma keeps_requeueLocked: "keeps queue_inv (requeuePreservingFIFOLocked e mo inc)"
proof (rule keepsI)
  fix r assume inv: "queue_inv r"
  have front: "queue_inv (put_entries s (m\<lparr>qm_Position := p\<rparr> # l) r')"
    if "nextRequeuePositionLocked s (sess r s) r = (p, l, r')" "qm_SessionID m = s" for s p l r' m
    using nextRequeuePosition_ok [OF inv that(1)] that(2)
    by (auto intro!: inv_intros slist_ok_Cons)
  show "queue_inv (snd (requeuePreservingFIFOLocked e mo inc r))"
    using inv
    by (auto simp: requeuePreservingFIFOLocked_def Let_def coalesce_write_def
        intro!: inv_intros front intro: keepsD_eq [OF keeps_releaseForRetry inv]
        split: option.split prod.split sum.split)
qed

lemma keeps_Requeue:
  "keeps queue_inv (RequeuePreservingFIFO e mo)"
  "keeps queue_inv (RequeuePreservingFIFOForSession e i mo)"
  unfolding RequeuePreservingFIFOForSession_def
  using keeps_requeueLocked by (auto simp: RequeuePreservingFIFO_def keeps_def [of queue_inv "RequeuePreservingFIFO e mo"] keepsD intro!: keeps_prologues)

lemma keeps_appendTail:
  "keeps queue_inv (appendOrInsertTailLocked e s taskID content model queuedBy planMode atts meta maxPerSession)"
proof (rule keepsI)
  fix r assume inv: "queue_inv r"
  let ?l = "sess r s"
  have tail: "queue_inv (put_entries s (butlast ?l @ [m]) r)" if "?l \<noteq> []" "same_slot (last ?l) m" for m
  proof -
    have "butlast ?l @ [m] = ?l[length ?l - 1 := m]"
      using that(1) by (metis append_butlast_last_id list_update_length length_butlast)
    then show ?thesis using that inv by (auto simp: last_conv_nth intro!: inv_intros)
  qed
  show "queue_inv (snd (appendOrInsertTailLocked e s taskID content model queuedBy planMode atts meta
      maxPerSession r))"
    using inv
    by (auto simp: appendOrInsertTailLocked_def Let_def intro!: tail
        intro: keepsD_eq [OF keeps_insertLocked] split: prod.splits sum.splits)
qed

lemma keeps_AppendOrInsertTail:
  "keeps queue_inv (AppendOrInsertTail e s taskID content model queuedBy planMode atts meta maxPerSession)"
  "keeps queue_inv (AppendOrInsertTailForSession e i content model queuedBy planMode atts meta maxPerSession)"
  unfolding AppendOrInsertTail_def AppendOrInsertTailForSession_def
  by (intro keeps_prologues keeps_appendTail)+

lemma keeps_replaceByCoalesceKey:
  "keeps queue_inv (insertOrReplaceByCoalesceKeyLocked e msg key maxPerSession allowInsert)"
  by (rule keepsI)
     (auto simp: insertOrReplaceByCoalesceKeyLocked_def Let_def coalesce_write_def intro!: inv_intros
       intro: keepsD_eq [OF keeps_insertLocked] split: option.splits prod.splits sum.splits)

lemma keeps_replaceLifecycle:
  "keeps queue_inv (insertOrReplaceLifecycleLocked e msg key maxPerSession allowInsert)"
  by (rule keepsI)
     (simp add: insertOrReplaceLifecycleLocked_def keepsD [OF keeps_replaceByCoalesceKey])

lemma keeps_InsertOrReplace:
  "keeps queue_inv (InsertOrReplaceByCoalesceKey e msg key maxPerSession allowInsert)"
  "keeps queue_inv (InsertOrReplaceByCoalesceKeyForSession e i mo key maxPerSession allowInsert)"
  "keeps queue_inv (InsertOrReplaceLifecycleByCoalesceKey e msg key maxPerSession allowInsert)"
  "keeps queue_inv (InsertOrReplaceLifecycleByCoalesceKeyForSession e i mo key maxPerSession allowInsert)"
  unfolding InsertOrReplaceByCoalesceKey_def InsertOrReplaceByCoalesceKeyForSession_def
    InsertOrReplaceLifecycleByCoalesceKey_def InsertOrReplaceLifecycleByCoalesceKeyForSession_def
  by (intro keeps_prologues keeps_replaceByCoalesceKey keeps_replaceLifecycle)+

lemma keeps_Snapshot: "keeps queue_inv (Snapshot i)"
  unfolding Snapshot_def
  by (intro keeps_prologues keepsI)
     (auto simp: Let_def dest: queue_inv_autoRunForIdentity split: prod.splits)

subsection \<open>Delivery\<close>

lemma keeps_TakeHead: "keeps queue_inv (TakeHead s)"
  by (rule keepsI) (auto simp: TakeHead_def Let_def intro!: inv_intros)

lemma keeps_takeByIDLocked: "keeps queue_inv (takeByIDLocked s x)"
  by (rule keepsI) (auto simp: takeByIDLocked_def Let_def intro!: inv_intros split: option.splits)

lemma keeps_TakeByID: "keeps queue_inv (TakeByID s x)" "keeps queue_inv (TakeByIDForSession i x)"
  unfolding TakeByID_def TakeByIDForSession_def
  by (intro keeps_takeByIDLocked keeps_prologues keepsI;
      auto intro: keepsD_eq [OF keeps_takeByIDLocked] split: prod.splits)+

lemma reserveMemoryDelivery_slot:
  "reserveMemoryDelivery e head io = (out, head') \<Longrightarrow> same_slot head head'"
  by (auto simp: reserveMemoryDelivery_def Let_def split: if_splits prod.splits)

lemma queue_inv_reserveHead:
  "queue_inv r \<Longrightarrow> queue_inv (snd (reserveHeadLocked e s io retainOrdinary r))"
proof (induction e s io retainOrdinary r rule: reserveHeadLocked.induct)
  case (1 e s io retainOrdinary r)
  let ?k = "lowestPositionIndex (sess r s)"
  have rec: "queue_inv (removeEntryLocked s ?k r)" using "1.prems" by (rule inv_intros)
  show ?case
  proof (subst reserveHeadLocked.simps, goal_cases)
    case 1
    show ?case
      using "1.prems" rec "1.IH"
      by (auto simp: Let_def intro!: inv_intros reserveMemoryDelivery_slot split: prod.split)
  qed
qed

lemma keeps_reserveHeadLocked: "keeps queue_inv (reserveHeadLocked e s io retainOrdinary)"
  by (rule keepsI) (rule queue_inv_reserveHead)

lemma keeps_ReserveHead: "keeps queue_inv (ReserveHead e s)" "keeps queue_inv (ReserveHeadIfAutoRun e s)"
  by (auto simp: ReserveHead_def ReserveHeadIfAutoRun_def intro!: keepsI queue_inv_reserveHead
      intro: keepsD_eq [OF keeps_reserveHeadLocked] split: prod.split)

lemma keeps_reserve_if_auto_run: "keeps queue_inv (reserve_if_auto_run e retainOrdinary i)"
  unfolding reserve_if_auto_run_def
proof (intro keeps_prologues keepsI)
  fix r assume "queue_inv r"
  moreover obtain b r1 where eq: "autoRunForIdentityLocked i r = (b, r1)" by fastforce
  ultimately have "queue_inv r1" by (simp add: queue_inv_autoRunForIdentity)
  then show "queue_inv (snd (case autoRunForIdentityLocked i r of
      (False, r') \<Rightarrow> (Inr (None, False), r')
    | (True, r') \<Rightarrow> (case reserveHeadLocked e (si_SessionID i) (Some i) retainOrdinary r' of
        (mo, r'') \<Rightarrow> (Inr (mo, True), r''))))"
    by (auto simp: eq intro: keepsD_eq [OF keeps_reserveHeadLocked] split: prod.split bool.split)
qed

lemma keeps_ReserveHeadForSession:
  "keeps queue_inv (ReserveHeadIfAutoRunForSession e i)"
  "keeps queue_inv (ReserveHeadForDeliveryIfAutoRunForSession e i)"
  unfolding ReserveHeadIfAutoRunForSession_def ReserveHeadForDeliveryIfAutoRunForSession_def
  by (rule keeps_reserve_if_auto_run)+

lemma keeps_remove_owned: "keeps queue_inv (remove_owned i m)"
  by (rule keepsI) (auto simp: remove_owned_def Let_def intro!: inv_intros split: option.splits)

lemma keeps_release_owned: "keeps queue_inv (release_owned i m)"
  by (rule keepsI) (auto simp: release_owned_def Let_def intro!: inv_intros split: option.splits)

lemma keeps_Acknowledge:
  "keeps queue_inv (AcknowledgeReserved m)"
  "keeps queue_inv (AcknowledgeByID s x)"
  "keeps queue_inv (AcknowledgeByIDForSession i mo)"
  "keeps queue_inv (DiscardLifecycleReservation i mo)"
  "keeps queue_inv (ReleaseDeliveryReservationForSession i mo)"
  by (auto simp: AcknowledgeReserved_def AcknowledgeByID_def AcknowledgeByIDForSession_def
      DiscardLifecycleReservation_def ReleaseDeliveryReservationForSession_def Let_def
      keepsD [OF keeps_remove_owned] keepsD [OF qi.keeps_with_identity [OF keeps_remove_owned]]
      keepsD [OF qi.keeps_with_identity [OF keeps_release_owned]]
      intro!: keepsI inv_intros split: option.splits)

lemma slist_ok_mark_attempted:
  "slist_ok s np l \<Longrightarrow> slist_ok s np (foldl (\<lambda>l k. l[k := mark_attempted (l ! k)]) l ks)"
  by (induction ks arbitrary: l) (simp_all add: slist_ok_update mark_attempted_def)

lemma keeps_MarkDeliveryAttempted: "keeps queue_inv (MarkDeliveryAttemptedForSession i ms)"
  unfolding MarkDeliveryAttemptedForSession_def
  by (intro keeps_prologues keepsI)
     (auto simp: Let_def mark_attempted_def intro!: inv_intros
       slist_ok_mark_attempted [unfolded mark_attempted_def] slist_ok_update queue_inv_sess
       split: sum.split list.split)

subsection \<open>Send-now claims\<close>

lemma slist_ok_ConsD:
  assumes "slist_ok s np (m # l)"
  shows "slist_ok s np l" and "qm_SessionID m = s" and "0 < qm_Position m" and "qm_Position m \<le> np"
    and "x \<in> set l \<Longrightarrow> qm_Position m \<le> qm_Position x"
  using assms by (auto simp: slist_ok_def list_all_iff)

lemma claim_row_slot: "claim_row e i k q = (Some q', x) \<Longrightarrow> same_slot q q'"
  by (auto simp: claim_row_def Let_def split: if_splits prod.splits)

lemma claim_rows_ok:
  assumes "slist_ok s np l"
  shows "slist_ok s np (fst (claim_rows e i requested k l)) \<and>
    (\<forall>p. (\<forall>m\<in>set l. p \<le> qm_Position m) \<longrightarrow>
       (\<forall>m\<in>set (fst (claim_rows e i requested k l)). p \<le> qm_Position m))"
  using assms
proof (induction l arbitrary: k)
  case (Cons q qs)
  note q = slist_ok_ConsD [OF Cons.prems]
  obtain remaining leases where eq: "claim_rows e i requested (Suc k) qs = (remaining, leases)"
    by fastforce
  have IH: "slist_ok s np remaining" "\<forall>m\<in>set remaining. qm_Position q \<le> qm_Position m"
    "\<And>p. \<forall>m\<in>set qs. p \<le> qm_Position m \<Longrightarrow> \<forall>m\<in>set remaining. p \<le> qm_Position m"
    using Cons.IH [OF q(1), of "Suc k"] q(5) by (auto simp: eq)
  have front: "slist_ok s np (q' # remaining)" if "same_slot q q'" for q'
    by (rule slist_ok_Cons) (use that q IH in auto)
  show ?case
    using front [of q] front [OF claim_row_slot, of e i k] claim_row_slot [of e i k q] IH
    by (auto simp: eq split: prod.splits option.splits)
qed simp

lemma keeps_claimSendNowLocked: "keeps queue_inv (claimSendNowLocked c e i s expected)"
proof (rule keepsI)
  fix r assume inv: "queue_inv r"
  have rows: "slist_ok s (nextPos r s) rest" if "claim_rows e i requested 0 (sess r s) = (rest, ls)"
    for requested rest ls
    using claim_rows_ok [OF queue_inv_sess [OF inv, of s], of e i requested 0] that by simp
  show "queue_inv (snd (claimSendNowLocked c e i s expected r))"
    using inv
    by (auto simp: claimSendNowLocked_def Let_def intro!: inv_intros intro: rows
        split: prod.split sum.split)
qed

lemma keeps_ClaimSendNow:
  "keeps queue_inv (ClaimSendNow c e s expected)"
  "keeps queue_inv (ClaimSendNowForSession c e i expected)"
  unfolding ClaimSendNowForSession_def
  by (auto simp: ClaimSendNow_def keepsD [OF keeps_claimSendNowLocked]
      intro!: keepsI [where f = "ClaimSendNow c e s expected"] keeps_prologues keeps_claimSendNowLocked)

lemma keeps_with_claim:
  "(\<And>cl s. clo = Some cl \<Longrightarrow> keeps queue_inv (body cl s)) \<Longrightarrow> keeps queue_inv (with_claim auth clo body)"
  by (rule keepsI) (auto simp: with_claim_def keepsD split: option.splits list.splits)

lemma keeps_with_current_claim:
  assumes "\<And>cl s. clo = Some cl \<Longrightarrow> keeps queue_inv (body cl s)"
  shows "keeps queue_inv (with_current_claim auth clo body)"
  unfolding with_current_claim_def
  by (rule keeps_with_claim, rule keepsI) (use assms in \<open>auto simp: keepsD split: option.splits\<close>)

lemma queue_inv_removeOwnership [simp]:
  "queue_inv (removeSendNowClaimOwnershipLocked s sources r) = queue_inv r"
  by (simp add: removeSendNowClaimOwnershipLocked_def Let_def)

lemma set_update_by_id:
  "m \<in> set (update_by_id x f l) \<Longrightarrow> m \<in> set l \<or> (\<exists>m0\<in>set l. m = f m0)"
proof -
  assume m: "m \<in> set (update_by_id x f l)"
  then show ?thesis
  proof (cases "find_index (\<lambda>q. qm_ID q = x) (rev l)")
    case (Some k)
    then have "rev l ! k \<in> set l" using find_index_length [OF Some] nth_mem [of k "rev l"] by simp
    moreover have "m \<in> set ((rev l)[k := f (rev l ! k)])" using m Some by (simp add: update_by_id_def)
    ultimately show ?thesis using set_update_subset_insert [of "rev l" k "f (rev l ! k)"] by auto
  qed (simp add: update_by_id_def)
qed

abbreviation rows_within :: "string \<Rightarrow> int \<Rightarrow> QueuedMessage list \<Rightarrow> bool" where
  "rows_within s np l \<equiv> (\<forall>m\<in>set l. qm_SessionID m = s \<and> 0 < qm_Position m \<and> qm_Position m \<le> np)"

lemma restore_source_ok:
  assumes "restore_source cl s original (l, r) q = (l', r')"
    and "rows_within s (nextPos r s) l" and "queue_inv r"
    and "qm_SessionID q = s" and "0 < qm_Position q"
  shows "rows_within s (nextPos r' s) l' \<and> queue_inv r' \<and> sess r' s = sess r s"
proof (cases "source_stale cl r q \<or> entry_by_id original (qm_ID q) \<noteq> None")
  case True
  then have r': "r' = r" using assms(1) by (auto simp: restore_source_def split: if_splits)
  have "m \<in> set l \<or> (\<exists>m0\<in>set l. same_slot m0 m)" if "m \<in> set l'" for m
    using assms(1) that True by (auto simp: restore_source_def split: if_splits dest!: set_update_by_id)
  with r' assms(2,3) show ?thesis by fastforce
next
  case False
  then show ?thesis
    using assms
    by (auto simp: restore_source_def le_max_iff_disj intro!: inv_intros)
qed

lemma restore_sources_ok:
  assumes "foldl (restore_source cl s original) (l, r) qs = (l', r')"
    and "rows_within s (nextPos r s) l" and "queue_inv r"
    and "\<forall>q\<in>set qs. qm_SessionID q = s \<and> 0 < qm_Position q"
  shows "rows_within s (nextPos r' s) l' \<and> queue_inv r'"
  using assms
proof (induction qs arbitrary: l r)
  case (Cons q qs)
  obtain l1 r1 where st: "restore_source cl s original (l, r) q = (l1, r1)" by fastforce
  have "rows_within s (nextPos r1 s) l1 \<and> queue_inv r1"
    using restore_source_ok [OF st Cons.prems(2,3)] Cons.prems(4) by simp
  moreover have "foldl (restore_source cl s original) (l1, r1) qs = (l', r')"
    using Cons.prems(1) st by simp
  ultimately show ?case using Cons.IH [of l1 r1] Cons.prems(4) by simp
qed auto

text \<open>The sources of a claim are copies of stored rows, so their positions are positive.\<close>

lemma keeps_RestoreSendNowClaim:
  assumes "\<And>cl. clo = Some cl \<Longrightarrow> \<forall>q\<in>set (sc_Sources cl). 0 < qm_Position q"
  shows "keeps queue_inv (RestoreSendNowClaim auth clo)"
  unfolding RestoreSendNowClaim_def
proof (intro keeps_with_current_claim keepsI)
  fix cl s r
  assume "clo = Some cl" and inv: "queue_inv r"
  then have pos: "\<forall>q\<in>set (sc_Sources cl). 0 < qm_Position q" using assms by blast
  have "queue_inv (put_entries s (sort_key qm_Position l') r')"
    if "foldl (restore_source cl s (sess r s)) (sess r s, r) (sc_Sources cl) = (l', r')"
      and "validateMemorySendNowRestore cl s r" for l' r'
  proof -
    have "\<forall>q\<in>set (sc_Sources cl). qm_SessionID q = s \<and> 0 < qm_Position q"
      using that(2) pos by (auto simp: validateMemorySendNowRestore_def list_all_iff)
    moreover have "rows_within s (nextPos r s) (sess r s)"
      using slist_ok_member [OF queue_inv_sess [OF inv]] by blast
    ultimately have "rows_within s (nextPos r' s) l' \<and> queue_inv r'"
      using restore_sources_ok [OF that(1)] inv by blast
    then show ?thesis by (auto intro!: inv_intros slist_ok_sort)
  qed
  then show "queue_inv (snd (if \<not> validateMemorySendNowRestore cl s r then (Inl ErrSendNowClaimChanged, r)
      else case foldl (restore_source cl s (sess r s)) (sess r s, r) (sc_Sources cl) of
             (list, r') \<Rightarrow> (Inr (), removeSendNowClaimOwnershipLocked s (sc_Sources cl)
                             (put_entries s (sort_key qm_Position list) r'))))"
    using inv by (auto split: prod.split)
qed

lemma keeps_AcknowledgeSendNowClaim: "keeps queue_inv (AcknowledgeSendNowClaim auth clo)"
  unfolding AcknowledgeSendNowClaim_def
  by (intro keeps_with_current_claim keepsI)
     (auto simp: Let_def intro!: inv_intros slist_ok_filter queue_inv_sess)

lemma keeps_ReleaseSendNowClaim:
  "keeps queue_inv (ReleaseSendNowClaim auth clo)" "keeps queue_inv (CanReleaseSendNowClaim auth clo)"
  unfolding ReleaseSendNowClaim_def CanReleaseSendNowClaim_def
  by (intro keeps_with_claim keepsI,
      auto simp: Let_def releaseSendNowClaimLocked_def removeReleasedSendNowSourcesLocked_def
        intro!: inv_intros slist_ok_filter queue_inv_sess)+

subsection \<open>Editing\<close>

lemma keeps_updateContent: "keeps queue_inv (updateContentAndMetadataLocked s x content atts updates by')"
  by (rule keepsI)
     (auto simp: updateContentAndMetadataLocked_def Let_def intro!: inv_intros split: option.splits)

lemma keeps_UpdateContent:
  "keeps queue_inv (UpdateContentAndMetadata s x content atts updates by')"
  "keeps queue_inv (UpdateContent s x content atts by')"
  "keeps queue_inv (UpdateContentAndMetadataForSession i x content atts updates by')"
  unfolding UpdateContentAndMetadata_def UpdateContent_def UpdateContentAndMetadataForSession_def
  by (intro keeps_prologues keeps_updateContent)+

lemma slist_ok_merge:
  "slist_ok s np l \<Longrightarrow> same_slot (l ! t) m \<Longrightarrow> slist_ok s np (remove_nth k (l[t := m]))"
  by (intro slist_ok_remove_nth slist_ok_update)

lemma keeps_mergeIntoAboveLocked: "keeps queue_inv (mergeIntoAboveLocked c s x by')"
  by (rule keepsI)
     (auto simp: mergeIntoAboveLocked_def Let_def intro!: inv_intros slist_ok_merge queue_inv_sess
       split: option.splits sum.splits)

lemma keeps_MergeIntoAbove:
  "keeps queue_inv (MergeIntoAbove c s x by')"
  "keeps queue_inv (MergeIntoAboveForSession c i x by')"
  unfolding MergeIntoAbove_def MergeIntoAboveForSession_def
  by (intro keeps_prologues keeps_mergeIntoAboveLocked)+

lemma apply_merged_slot [simp]:
  "qm_SessionID (apply_merged v m) = qm_SessionID m" "qm_Position (apply_merged v m) = qm_Position m"
  by (simp_all add: apply_merged_def)

lemma keeps_autoMergeLocked: "keeps queue_inv (autoMergeIntoAboveLocked c s x)"
  by (rule keepsI)
     (auto simp: autoMergeIntoAboveLocked_def Let_def intro!: inv_intros slist_ok_merge queue_inv_sess
       split: option.splits)

lemma keeps_autoMergeCandidateLocked: "keeps queue_inv (autoMergeCandidateIntoAboveLocked c m)"
  by (rule keepsI)
     (auto simp: autoMergeCandidateIntoAboveLocked_def Let_def intro!: inv_intros split: option.splits)

lemma keeps_AutoMerge:
  "keeps queue_inv (AutoMergeIntoAbove c s x)"
  "keeps queue_inv (AutoMergeIntoAboveForSession c i x)"
  "keeps queue_inv (AutoMergeIntoAboveForSessionWithPolicy c i x policy)"
  "keeps queue_inv (AutoMergeCandidateIntoAbove c m)"
  "keeps queue_inv (AutoMergeCandidateIntoAboveForSession c i mo)"
  "keeps queue_inv (AutoMergeCandidateIntoAboveForSessionWithPolicy c i mo policy)"
  unfolding AutoMergeIntoAbove_def AutoMergeIntoAboveForSession_def
    AutoMergeIntoAboveForSessionWithPolicy_def AutoMergeCandidateIntoAbove_def
    AutoMergeCandidateIntoAboveForSession_def AutoMergeCandidateIntoAboveForSessionWithPolicy_def
  by (intro keeps_prologues keeps_autoMergeLocked keeps_autoMergeCandidateLocked)+

lemma entry_by_id_SomeD: "entry_by_id l x = Some m \<Longrightarrow> m \<in> set l \<and> qm_ID m = x"
  unfolding entry_by_id_def find_Some_iff by (metis nth_mem set_rev)

lemma reorder_lookup_subset: "reorder_lookup visible seen ids = Inr ms \<Longrightarrow> set ms \<subseteq> set visible"
proof (induction ids arbitrary: seen ms)
  case (Cons x ids)
  then obtain m ms' where "entry_by_id visible x = Some m" and "ms = m # ms'"
    and "reorder_lookup visible (x # seen) ids = Inr ms'"
    by (auto split: if_splits option.splits sum.splits)
  then show ?case using Cons.IH entry_by_id_SomeD by simp
qed simp

lemma interleave_subset: "set (interleave l ordered) \<subseteq> set l \<union> set ordered"
  by (induction l ordered rule: interleave.induct) (auto split: if_splits list.splits)

lemma keeps_reorderLocked: "keeps queue_inv (reorderEntriesLocked s ids)"
proof (rule keepsI)
  fix r assume inv: "queue_inv r"
  let ?l = "sess r s"
  have "slist_ok s (int (length (number_from 1 (interleave ?l ms)))) (number_from 1 (interleave ?l ms))"
    if "validateReorderSet (fst (splitVisibleAndReserved ?l)) ids = Inr ms" for ms
  proof -
    have "set ms \<subseteq> set ?l"
      using that reorder_lookup_subset
      by (fastforce simp: validateReorderSet_def splitVisibleAndReserved_def split: if_splits)
    then have "set (interleave ?l ms) \<subseteq> set ?l" using interleave_subset [of ?l ms] by blast
    then have "\<forall>m\<in>set (interleave ?l ms). qm_SessionID m = s"
      using slist_ok_member [OF queue_inv_sess [OF inv]] by blast
    moreover have "length (number_from n l) = length l" for n l
      by (induction l arbitrary: n) simp_all
    ultimately show ?thesis
      using number_from_ok [of "interleave ?l ms" s 1] by simp
  qed
  then show "queue_inv (snd (reorderEntriesLocked s ids r))"
    using inv slist_ok_sort_id [OF queue_inv_sess [OF inv, of s]]
    by (auto simp: reorderEntriesLocked_def Let_def queue_inv_def le_max_iff_disj
        intro: slist_ok_mono split: sum.splits)
qed

lemma keeps_Reorder: "keeps queue_inv (ReorderEntries s ids)" "keeps queue_inv (ReorderEntriesForSession i ids)"
  unfolding ReorderEntries_def ReorderEntriesForSession_def
  by (intro keeps_prologues keeps_reorderLocked)+

lemma queue_inv_drop_if_empty [inv_intros]:
  "queue_inv r \<Longrightarrow> slist_ok s (nextPos r s) l \<Longrightarrow> queue_inv (drop_next_if_empty s l (store_entries s l r))"
  by (auto simp: drop_next_if_empty_def intro!: inv_intros)

lemma keeps_DeleteByID: "keeps queue_inv (DeleteByID s x)" "keeps queue_inv (DeleteByIDForSession i x)"
  unfolding DeleteByID_def DeleteByIDForSession_def
  by (intro keeps_prologues keepsI;
      auto simp: deleteByIDLocked_def deleteByIDForSessionLocked_def Let_def
        intro!: inv_intros slist_ok_remove_nth queue_inv_sess split: option.splits)+

lemma keeps_DeleteAll:
  "keeps queue_inv (DeleteAllBySession s)" "keeps queue_inv (DeleteAllBySessionForIdentity i)"
  unfolding DeleteAllBySession_def DeleteAllBySessionForIdentity_def
  by (intro keeps_prologues keepsI;
      auto simp: deleteAllBySessionLocked_def deleteAllBySessionForIdentityLocked_def Let_def
        intro!: inv_intros slist_ok_filter queue_inv_sess)+

subsection \<open>Purging, transferring and replacing\<close>

lemma gm_get_purge_rows:
  "gm_wf m \<Longrightarrow> gm_get0 [] (purge_rows taskID m) s = filter (\<lambda>q. qm_TaskID q \<noteq> taskID) (gm_get0 [] m s)"
  unfolding gm_wf_def gm_get0_def gm_get_def purge_rows_def
proof (induction m)
  case (Cons kv m)
  obtain k l where kv: "kv = (k, l)" by fastforce
  have none: "map_of m k = None"
    "map_of (filter P (map (\<lambda>(s, l). (s, f l)) m)) k = None" for P f
    using Cons.prems by (force simp: map_of_eq_None_iff kv)+
  show ?case
    using Cons none by (cases "s = k") (auto simp: kv)
qed simp

lemma gm_wf_purge_rows: "gm_wf m \<Longrightarrow> gm_wf (purge_rows taskID m)"
  unfolding gm_wf_def purge_rows_def
  by (intro distinct_fst_filter) (simp add: case_prod_beta comp_def)

lemma keeps_PurgeTask: "keeps queue_inv (PurgeTask taskID)"
  by (rule keepsI)
     (simp add: PurgeTask_def queue_inv_def gm_get_purge_rows gm_wf_purge_rows slist_ok_filter)

lemma keeps_PurgeSession: "keeps queue_inv (PurgeSession s)"
  by (rule keepsI) (simp add: PurgeSession_def queue_inv_def)

lemma queue_inv_PurgeDeletedSession: "queue_inv r \<Longrightarrow> queue_inv (PurgeDeletedSession i r)"
  by (auto simp: PurgeDeletedSession_def clearSessionStateLocked_def queue_inv_def split: option.splits)

lemma max_position_foldl:
  "foldl (\<lambda>acc m. if qm_Position m > acc then qm_Position m else acc) n l \<ge> n \<and>
   (\<forall>m\<in>set l. qm_Position m \<le> foldl (\<lambda>acc m. if qm_Position m > acc then qm_Position m else acc) n l)"
proof (induction l arbitrary: n)
  case (Cons m l)
  show ?case using Cons [of "max (qm_Position m) n"] by (auto simp: max_def split: if_splits)
qed simp

lemma max_position_ge: "0 \<le> max_position l" "m \<in> set l \<Longrightarrow> qm_Position m \<le> max_position l"
  using max_position_foldl [of 0 l] by (auto simp: max_position_def)

abbreviation raise_all :: "string \<Rightarrow> QueuedMessage list \<Rightarrow> repo \<Rightarrow> repo" where
  "raise_all s l r \<equiv> foldl (\<lambda>r m. raise_next s (qm_Position m) r) r l"

lemma raise_all_entries: "r_entries (raise_all s l r) = r_entries r"
  by (induction l arbitrary: r) (simp_all add: raise_next_def put_next_def)

lemma raise_all_mono: "nextPos r s' \<le> nextPos (raise_all s l r) s'"
proof (induction l arbitrary: r)
  case (Cons m l)
  have "nextPos r s' \<le> nextPos (raise_next s (qm_Position m) r) s'" by simp
  then show ?case using Cons [of "raise_next s (qm_Position m) r"] by simp
qed simp

lemma raise_all_covers: "m \<in> set l \<Longrightarrow> qm_Position m \<le> nextPos (raise_all s l r) s"
proof (induction l arbitrary: r)
  case (Cons x l)
  show ?case
  proof (cases "m = x")
    case True
    have "qm_Position x \<le> nextPos (raise_next s (qm_Position x) r) s" by simp
    then show ?thesis using raise_all_mono [of "raise_next s (qm_Position x) r" s s l] True by simp
  qed (use Cons in simp)
qed simp

text \<open>
  The moved rows keep their order behind the destination's, since each position grows by the
  destination's greatest.
\<close>

lemma slist_ok_append:
  "slist_ok s np a \<Longrightarrow> slist_ok s np b \<Longrightarrow>
   (\<And>x y. x \<in> set a \<Longrightarrow> y \<in> set b \<Longrightarrow> qm_Position x \<le> qm_Position y) \<Longrightarrow> slist_ok s np (a @ b)"
  by (auto simp: slist_ok_def list_all_iff sorted_append)

lemma slist_ok_moved:
  assumes l: "slist_ok old np l" and d: "slist_ok new np' d"
  shows "slist_ok new (max np' (np + max_position d)) (d @ map (moved_row new (max_position d)) l)"
proof (rule slist_ok_append)
  show "slist_ok new (max np' (np + max_position d)) d" using d by (rule slist_ok_mono) simp
  have "slist_ok new (np + max_position d) (map (moved_row new (max_position d)) l)"
    using l max_position_ge(1) [of d]
    by (auto simp: slist_ok_def list_all_iff moved_row_def sorted_iff_nth_mono add_pos_nonneg)
  then show "slist_ok new (max np' (np + max_position d)) (map (moved_row new (max_position d)) l)"
    by (rule slist_ok_mono) simp
next
  fix x y
  assume "x \<in> set d" and "y \<in> set (map (moved_row new (max_position d)) l)"
  then show "qm_Position x \<le> qm_Position y"
    using max_position_ge(2) [of x d] slist_ok_member [OF l] by (fastforce simp: moved_row_def)
qed

lemma slist_ok_any_bound:
  "slist_ok s np l \<Longrightarrow> (\<And>m. m \<in> set l \<Longrightarrow> qm_Position m \<le> np') \<Longrightarrow> slist_ok s np' l"
  by (auto simp: slist_ok_def list_all_iff)

lemma queue_inv_move_entries:
  assumes inv: "queue_inv r" and "old \<noteq> new"
  shows "queue_inv (move_entries old new r)" and "sess (move_entries old new r) old = []"
proof -
  let ?l = "sess r new @ map (moved_row new (max_position (sess r new))) (sess r old)"
  let ?r1 = "raise_all new ?l (put_entries new ?l r)"
  have "slist_ok new (nextPos ?r1 new) ?l"
    using slist_ok_moved [OF queue_inv_sess [OF inv, of old] queue_inv_sess [OF inv, of new]]
    by (rule slist_ok_any_bound) (rule raise_all_covers)
  moreover have "0 \<le> nextPos ?r1 s \<and> (s \<noteq> new \<longrightarrow> slist_ok s (nextPos ?r1 s) (sess r s))" for s
    using raise_all_mono [of "put_entries new ?l r" s new ?l] queue_inv_next [OF inv, of s]
      queue_inv_sess [OF inv, of s] by (auto intro: slist_ok_mono)
  ultimately have r1: "queue_inv ?r1"
    using inv sess_put_entries [of new ?l r] unfolding queue_inv_def raise_all_entries by (simp del: sess_put_entries)
  show "queue_inv (move_entries old new r)" 
    using inv queue_inv_del_entries [OF r1, of old]
    by (auto simp: move_entries_def Let_def split: option.splits)
  show "sess (move_entries old new r) old = []"
    by (auto simp: move_entries_def Let_def split: option.splits)
qed

lemma queue_inv_move_claims [simp]:
  "queue_inv (move_claims old new r) = queue_inv r" "sess (move_claims old new r) = sess r"
  by (auto simp: move_claims_def Let_def)

lemma queue_inv_move_pending_move [simp]: "queue_inv (move_pending_move old new r) = queue_inv r"
  by (auto simp: move_pending_move_def Let_def split: option.splits)

lemma transfer_auto_run_inv:
  "transfer_auto_run source destination old new r = (a, b, r') \<Longrightarrow> queue_inv r' = queue_inv r"
  using queue_inv_autoRun(1)
  by (auto simp: transfer_auto_run_def split: option.splits prod.splits; metis snd_conv)

lemma keeps_transferLocked: "keeps queue_inv (transferSessionLocked source destination old new)"
proof (rule keepsI)
  fix r assume inv: "queue_inv r"
  have moved: "queue_inv (let r3 = move_claims old new (move_entries old new r2)
      in r3\<lparr>r_nextPosition := gm_del old (r_nextPosition r3)\<rparr>)" if "queue_inv r2" "old \<noteq> new" for r2
    unfolding Let_def
    by (intro queue_inv_drop_next) (use queue_inv_move_entries [OF that] in simp_all)
  have bumped: "queue_inv (r\<lparr>r_sessionGeneration := g\<rparr>)" for g using inv by simp
  show "queue_inv (snd (transferSessionLocked source destination old new r))"
    using inv moved [OF transfer_auto_run_inv [THEN iffD2, OF _ bumped]]
    by (auto simp: transferSessionLocked_def Let_def split: prod.split)
qed

lemma keeps_Transfer:
  "keeps queue_inv (TransferSession old new)" "keeps queue_inv (TransferSessionIdentities a b)"
proof -
  show "keeps queue_inv (TransferSession old new)"
    unfolding TransferSession_def by (rule keeps_transferLocked)
  show "keeps queue_inv (TransferSessionIdentities a b)"
    using keepsD [OF qi.keeps_with_identity [OF qi.keeps_with_identity [OF keeps_transferLocked]]]
    by (auto simp: TransferSessionIdentities_def intro!: keepsI)
qed

lemma keeps_replaceLocked:
  assumes "\<forall>m\<in>set rows. 0 < qm_Position m"
  shows "keeps queue_inv (replaceSessionLocked s rows mo)"
proof (rule keepsI)
  fix r assume inv: "queue_inv r"
  let ?rows = "map (\<lambda>m. m\<lparr>qm_SessionID := s\<rparr>) rows"
  have "slist_ok s (max (max_position ?rows) (nextPos r s)) (sort_key qm_Position ?rows)"
    using assms max_position_ge(2) [of _ ?rows] by (intro slist_ok_sort) (fastforce simp: le_max_iff_disj)
  then have "queue_inv (raise_next s (max_position ?rows) (put_entries s (sort_key qm_Position ?rows) r))"
    using inv by (auto simp: queue_inv_def le_max_iff_disj)
  then show "queue_inv (snd (replaceSessionLocked s rows mo r))"
    using inv by (auto simp: replaceSessionLocked_def Let_def intro!: inv_intros split: option.splits)
qed

lemma keeps_Replace:
  assumes "\<forall>m\<in>set rows. 0 < qm_Position m"
  shows "keeps queue_inv (ReplaceSession s rows mo)" "keeps queue_inv (ReplaceSessionForIdentity i rows mo)"
  using keepsD [OF keeps_replaceLocked [OF assms]]
    keepsD [OF qi.keeps_with_identity [OF keeps_replaceLocked [OF assms]]]
  by (auto simp: ReplaceSession_def ReplaceSessionForIdentity_def intro!: keepsI split: option.splits)

lemma keeps_SetPendingMove: "keeps queue_inv (SetPendingMove e s mo)"
proof (rule keepsI)
  fix r assume inv: "queue_inv r"
  have put: "keeps queue_inv (\<lambda>r. (Inr m, r\<lparr>r_pendingMoves := g r\<rparr>))" for m :: PendingMove and g
    by (rule keepsI) simp
  have store: "queue_inv (snd (with_identity i (\<lambda>r. (Inr m, r\<lparr>r_pendingMoves := g r\<rparr>)) r1))"
    if "queue_inv r1" for i and m :: PendingMove and g r1
    by (rule keepsD [OF qi.keeps_with_identity [OF put] that])
  have branch: "(c \<Longrightarrow> queue_inv (snd x)) \<Longrightarrow> (\<not> c \<Longrightarrow> queue_inv (snd y)) \<Longrightarrow>
      queue_inv (snd (if c then x else y))" for c and x y :: "PendingMove result" by simp
  show "queue_inv (snd (SetPendingMove e s mo r))"
  proof (cases mo)
    case (Some mv)
    show ?thesis
      unfolding SetPendingMove_def Let_def Some option.case
      by (intro branch store) (use inv in simp_all)
  qed (simp add: SetPendingMove_def inv)
qed

lemma keeps_TakePendingMove: "keeps queue_inv (TakePendingMove s)"
  by (rule keepsI) (auto simp: TakePendingMove_def split: option.splits)

lemma keeps_DeletePendingMove: "keeps queue_inv (DeletePendingMoveIfMatch expected x)"
proof (rule keepsI)
  fix r assume inv: "queue_inv r"
  have row: "queue_inv (drop_next_if_empty s (remove_nth k (sess r s))
      (store_entries s (remove_nth k (sess r s)) (r\<lparr>r_pendingMoves := a\<rparr>)))" for s k a
    using inv slist_ok_remove_nth [OF queue_inv_sess [OF inv]] by (intro inv_intros) simp_all
  show "queue_inv (snd (DeletePendingMoveIfMatch expected x r))"
    using inv row by (auto simp: DeletePendingMoveIfMatch_def Let_def split: prod.splits option.splits)
qed

subsection \<open>Admissions and managed inputs\<close>

lemma queue_inv_rememberAdmission [simp]: "queue_inv (snd (rememberAdmissionLocked key fp m r)) = queue_inv r"
  by (simp add: rememberAdmissionLocked_def)

lemma keeps_LookupQueueAdmission: "keeps queue_inv (LookupQueueAdmission fp i x mo)"
proof (rule keepsI)
  fix r assume "queue_inv r"
  moreover have "keeps queue_inv (\<lambda>r. case f r of (_, _, Some err) \<Rightarrow> (Inl err, r)
      | (replay, found, None) \<Rightarrow> (Inr (replay, found), r))" for f :: "repo \<Rightarrow> QueuedMessage option \<times> bool \<times> qerror option"
    by (rule keepsI) (auto split: prod.split option.split)
  ultimately show "queue_inv (snd (LookupQueueAdmission fp i x mo r))"
    using keepsD [OF qi.keeps_with_identity]
    by (fastforce simp: LookupQueueAdmission_def split: option.splits)
qed

lemma keeps_admitNew: "keeps queue_inv (admitNewAdmissionLocked c e i key fp m cl maxPerSession po)"
proof (rule keepsI)
  fix r assume inv: "queue_inv r"
  have full: "queue_inv (snd (admitFullAdmissionLocked c key fp m' po r))" for m'
    using inv by (auto simp: admitFullAdmissionLocked_def
        dest: keepsD_eq [OF keeps_autoMergeCandidateLocked] split: prod.split bool.split option.split)
  have merge: "queue_inv r2"
    if "insertLocked e m' maxPerSession r = (Inr m'', r1)"
      and "mergeInsertedAdmissionLocked c s m'' po r1 = (x, r2)" for m' m'' s x r1 r2
    using that keepsD_eq [OF keeps_insertLocked inv that(1)]
    by (auto simp: mergeInsertedAdmissionLocked_def
        dest: keepsD_eq [OF keeps_autoMergeLocked] split: prod.splits bool.splits option.splits if_splits)
  show "queue_inv (snd (admitNewAdmissionLocked c e i key fp m cl maxPerSession po r))"
    using inv full
    by (auto simp: admitNewAdmissionLocked_def Let_def intro: merge keepsD_eq [OF keeps_insertLocked]
        split: prod.split sum.split)
qed

lemma keeps_AdmitQueueMessage:
  "keeps queue_inv (AdmitQueueMessage c fp e i x mo cl maxPerSession po entry)"
proof (rule keepsI)
  fix r assume inv: "queue_inv r"
  have "keeps queue_inv (\<lambda>r. case replayAdmissionLocked key f r of
            (Some replay, True, _) \<Rightarrow> (Inr (replay, True), r)
          | _ \<Rightarrow> if queueIDExistsLocked x r then (Inl ErrQueueIDConflict, r)
                 else admitNewAdmissionLocked c e i key f m cl maxPerSession po r)" for key f m
    by (rule keepsI)
       (auto simp: keepsD [OF keeps_admitNew] split: prod.split option.split bool.split)
  from keepsD [OF qi.keeps_with_identity [OF this] inv]
  show "queue_inv (snd (AdmitQueueMessage c fp e i x mo cl maxPerSession po entry r))"
    using inv by (auto simp: AdmitQueueMessage_def Let_def split: option.split)
qed

lemma queue_inv_put_receipt [simp]: "queue_inv (put_receipt key m r) = queue_inv r"
  by (simp add: put_receipt_def)

lemma queue_inv_record_input [simp]: "queue_inv (snd (record_input mfp fp i rq msg r)) = queue_inv r"
  by (simp add: record_input_def Let_def)

lemma keeps_supersede_input:
  "keeps queue_inv (supersede_input e i rq maxPerSession replacement msg)"
proof (rule keepsI)
  fix r assume inv: "queue_inv r"
  let ?s = "si_SessionID i"
  have removed: "queue_inv (put_entries ?s (remove_nth k (sess r ?s)) r)" for k
    using inv by (rule inv_intros)
  have undone: "queue_inv (put_entries ?s (sess r ?s) r1)"
    if "insertLocked e msg maxPerSession (put_entries ?s (remove_nth k (sess r ?s)) r) = (Inl err, r1)"
    for k err r1
  proof -
    have "r1 = put_entries ?s (remove_nth k (sess r ?s)) r"
      using that by (simp add: insertLocked_def Let_def split: if_splits)
    then show ?thesis using inv removed queue_inv_sess [OF inv] by (auto intro!: inv_intros)
  qed
  show "queue_inv (snd (supersede_input e i rq maxPerSession replacement msg r))"
    using inv removed undone
    by (auto simp: supersede_input_def Let_def dest: keepsD_eq [OF keeps_insertLocked]
        split: option.split prod.split sum.split)
qed

lemma keeps_AdmitManagedInput: "keeps queue_inv (AdmitManagedInput mfp fp e i rq maxPerSession)"
proof (rule keepsI)
  fix r assume inv: "queue_inv r"
  show "queue_inv (snd (AdmitManagedInput mfp fp e i rq maxPerSession r))"
    using inv
    by (auto simp: AdmitManagedInput_def with_valid_identity_def Let_def
        dest: keepsD_eq [OF keeps_supersede_input] keepsD_eq [OF keeps_insertLocked]
        split: option.split prod.split sum.split)
qed

lemma queue_inv_removeManagedRow: "queue_inv r \<Longrightarrow> queue_inv (removeManagedQueueRowLocked s x r)"
  by (auto simp: removeManagedQueueRowLocked_def intro: inv_intros split: option.splits)

lemma keeps_with_receipt:
  "(\<And>m. keeps queue_inv (body m)) \<Longrightarrow> keeps queue_inv (with_receipt i x body)"
  unfolding with_receipt_def
  by (intro keeps_prologues keepsI) (auto simp: keepsD split: option.splits)

lemma keeps_ManagedInput:
  "keeps queue_inv (CancelManagedInput e i x)"
  "keeps queue_inv (MarkManagedInputRunning e i x turnID executionID)"
  "keeps queue_inv (SettleManagedInput e i x turnID executionID st outcome)"
proof -
  show "keeps queue_inv (CancelManagedInput e i x)"
    unfolding CancelManagedInput_def
    by (intro keeps_with_receipt keepsI) (auto simp: Let_def intro!: queue_inv_removeManagedRow)
  have "queue_inv (put_entries s (remove_nth k (sess r s)) (put_receipt key m r))" if "queue_inv r"
    for s k key m r
    using queue_inv_remove(2) [of "put_receipt key m r" s k] that by (simp add: put_receipt_def)
  then show "keeps queue_inv (MarkManagedInputRunning e i x turnID executionID)"
    by (intro keepsI) (auto simp: MarkManagedInputRunning_def with_receipt_def with_valid_identity_def
        Let_def split: option.split)
  show "keeps queue_inv (SettleManagedInput e i x turnID executionID st outcome)"
    by (intro keepsI) (auto simp: SettleManagedInput_def with_receipt_def with_valid_identity_def
        Let_def intro!: queue_inv_removeManagedRow split: option.split)
qed

section \<open>The step relation\<close>

text \<open>
  One rule per operation that may write, with arbitrary arguments.  Five operations put rows back at the
  positions that their arguments carry (a dequeued message, the sources of a claim, a snapshot), without
  a check of those positions: the relation takes as a parameter which ones a caller passes.
  \<open>queue_step\<close> leaves the caller free.
\<close>

inductive queue_step_for :: "(int \<Rightarrow> bool) \<Rightarrow> repo \<Rightarrow> repo \<Rightarrow> bool" for ok :: "int \<Rightarrow> bool" where
  step_resolve: "queue_step_for ok r (snd (ResolveSessionIdentity auth taskID s r))"
| step_set_auto_run: "queue_step_for ok r (snd (SetAutoRun s b r))"
| step_set_auto_run_for_session: "queue_step_for ok r (snd (SetAutoRunForSession i b r))"
| step_pause_auto_run: "queue_step_for ok r (snd (PauseAutoRunIfPending s r))"
| step_pause_auto_run_for_session: "queue_step_for ok r (snd (PauseAutoRunIfPendingForSession i r))"
| step_set_auto_merge_override: "queue_step_for ok r (snd (SetAutoMergeOverride i b r))"
| step_insert: "queue_step_for ok r (snd (Insert e msg maxPerSession r))"
| step_insert_for_session: "queue_step_for ok r (snd (InsertForSession e i mo maxPerSession r))"
| step_insert_with_claim: "queue_step_for ok r (snd (InsertForSessionWithClaim e i mo cl maxPerSession r))"
| step_insert_with_policy: "queue_step_for ok r (snd (InsertForSessionWithPolicy e i mo maxPerSession policy r))"
| step_restore: "pred_option (\<lambda>m. ok (qm_Position m)) mo \<Longrightarrow>
     queue_step_for ok r (snd (Restore e mo maxPerSession r))"
| step_restore_for_session: "pred_option (\<lambda>m. ok (qm_Position m)) mo \<Longrightarrow>
     queue_step_for ok r (snd (RestoreForSession e i mo maxPerSession r))"
| step_requeue: "queue_step_for ok r (snd (RequeuePreservingFIFO e mo r))"
| step_requeue_for_session: "queue_step_for ok r (snd (RequeuePreservingFIFOForSession e i mo r))"
| step_append: "queue_step_for ok r (snd (AppendOrInsertTail e s taskID content model queuedBy planMode atts meta maxPerSession r))"
| step_append_for_session: "queue_step_for ok r (snd (AppendOrInsertTailForSession e i content model queuedBy planMode atts meta maxPerSession r))"
| step_replace_by_key: "queue_step_for ok r (snd (InsertOrReplaceByCoalesceKey e msg key maxPerSession allowInsert r))"
| step_replace_by_key_for_session: "queue_step_for ok r (snd (InsertOrReplaceByCoalesceKeyForSession e i mo key maxPerSession allowInsert r))"
| step_replace_lifecycle: "queue_step_for ok r (snd (InsertOrReplaceLifecycleByCoalesceKey e msg key maxPerSession allowInsert r))"
| step_replace_lifecycle_for_session: "queue_step_for ok r (snd (InsertOrReplaceLifecycleByCoalesceKeyForSession e i mo key maxPerSession allowInsert r))"
| step_snapshot: "queue_step_for ok r (snd (Snapshot i r))"
| step_take_head: "queue_step_for ok r (snd (TakeHead s r))"
| step_take_by_id: "queue_step_for ok r (snd (TakeByID s x r))"
| step_take_by_id_for_session: "queue_step_for ok r (snd (TakeByIDForSession i x r))"
| step_reserve_head: "queue_step_for ok r (snd (ReserveHead e s r))"
| step_reserve_head_auto: "queue_step_for ok r (snd (ReserveHeadIfAutoRun e s r))"
| step_reserve_head_auto_for_session: "queue_step_for ok r (snd (ReserveHeadIfAutoRunForSession e i r))"
| step_reserve_head_for_delivery: "queue_step_for ok r (snd (ReserveHeadForDeliveryIfAutoRunForSession e i r))"
| step_ack_reserved: "queue_step_for ok r (snd (AcknowledgeReserved msg r))"
| step_ack_by_id: "queue_step_for ok r (snd (AcknowledgeByID s x r))"
| step_ack_by_id_for_session: "queue_step_for ok r (snd (AcknowledgeByIDForSession i mo r))"
| step_discard_reservation: "queue_step_for ok r (snd (DiscardLifecycleReservation i mo r))"
| step_release_reservation: "queue_step_for ok r (snd (ReleaseDeliveryReservationForSession i mo r))"
| step_mark_attempted: "queue_step_for ok r (snd (MarkDeliveryAttemptedForSession i ms r))"
| step_claim_send_now: "queue_step_for ok r (snd (ClaimSendNow c e s ms r))"
| step_claim_send_now_for_session: "queue_step_for ok r (snd (ClaimSendNowForSession c e i ms r))"
| step_restore_claim: "pred_option (\<lambda>cl. list_all (\<lambda>q. ok (qm_Position q)) (sc_Sources cl)) clo \<Longrightarrow>
     queue_step_for ok r (snd (RestoreSendNowClaim auth clo r))"
| step_ack_claim: "queue_step_for ok r (snd (AcknowledgeSendNowClaim auth clo r))"
| step_release_claim: "queue_step_for ok r (snd (ReleaseSendNowClaim auth clo r))"
| step_update_content: "queue_step_for ok r (snd (UpdateContent s x content atts queuedBy r))"
| step_update_content_metadata: "queue_step_for ok r (snd (UpdateContentAndMetadata s x content atts updates queuedBy r))"
| step_update_content_for_session: "queue_step_for ok r (snd (UpdateContentAndMetadataForSession i x content atts updates queuedBy r))"
| step_merge: "queue_step_for ok r (snd (MergeIntoAbove c s x queuedBy r))"
| step_merge_for_session: "queue_step_for ok r (snd (MergeIntoAboveForSession c i x queuedBy r))"
| step_auto_merge: "queue_step_for ok r (snd (AutoMergeIntoAbove c s x r))"
| step_auto_merge_for_session: "queue_step_for ok r (snd (AutoMergeIntoAboveForSession c i x r))"
| step_auto_merge_with_policy: "queue_step_for ok r (snd (AutoMergeIntoAboveForSessionWithPolicy c i x policy r))"
| step_auto_merge_candidate: "queue_step_for ok r (snd (AutoMergeCandidateIntoAbove c msg r))"
| step_auto_merge_candidate_for_session: "queue_step_for ok r (snd (AutoMergeCandidateIntoAboveForSession c i mo r))"
| step_auto_merge_candidate_with_policy: "queue_step_for ok r (snd (AutoMergeCandidateIntoAboveForSessionWithPolicy c i mo policy r))"
| step_reorder: "queue_step_for ok r (snd (ReorderEntries s ids r))"
| step_reorder_for_session: "queue_step_for ok r (snd (ReorderEntriesForSession i ids r))"
| step_delete: "queue_step_for ok r (snd (DeleteByID s x r))"
| step_delete_for_session: "queue_step_for ok r (snd (DeleteByIDForSession i x r))"
| step_delete_all: "queue_step_for ok r (snd (DeleteAllBySession s r))"
| step_delete_all_for_identity: "queue_step_for ok r (snd (DeleteAllBySessionForIdentity i r))"
| step_purge_task: "queue_step_for ok r (snd (PurgeTask taskID r))"
| step_purge_session: "queue_step_for ok r (snd (PurgeSession s r))"
| step_transfer: "queue_step_for ok r (snd (TransferSession s s2 r))"
| step_transfer_identities: "queue_step_for ok r (snd (TransferSessionIdentities i i2 r))"
| step_replace_session: "list_all (\<lambda>m. ok (qm_Position m)) ms \<Longrightarrow>
     queue_step_for ok r (snd (ReplaceSession s ms pmo r))"
| step_replace_session_for_identity: "list_all (\<lambda>m. ok (qm_Position m)) ms \<Longrightarrow>
     queue_step_for ok r (snd (ReplaceSessionForIdentity i ms pmo r))"
| step_set_pending_move: "queue_step_for ok r (snd (SetPendingMove e s pmo r))"
| step_take_pending_move: "queue_step_for ok r (snd (TakePendingMove s r))"
| step_delete_pending_move: "queue_step_for ok r (snd (DeletePendingMoveIfMatch expected x r))"
| step_lookup_admission: "queue_step_for ok r (snd (LookupQueueAdmission fp i x mo r))"
| step_admit: "queue_step_for ok r (snd (AdmitQueueMessage c fp e i x mo co maxPerSession po entry r))"
| step_admit_managed: "queue_step_for ok r (snd (AdmitManagedInput mfp fp e i rq maxPerSession r))"
| step_cancel_managed: "queue_step_for ok r (snd (CancelManagedInput e i x r))"
| step_run_managed: "queue_step_for ok r (snd (MarkManagedInputRunning e i x turnID executionID r))"
| step_settle_managed: "queue_step_for ok r (snd (SettleManagedInput e i x turnID executionID st outcome r))"
| step_purge_deleted: "queue_step_for ok r (PurgeDeletedSession i r)"

abbreviation queue_step :: "repo \<Rightarrow> repo \<Rightarrow> bool" where
  "queue_step \<equiv> queue_step_for (\<lambda>p. True)"

lemma queue_step_mono: "queue_step_for ok r r' \<Longrightarrow> (\<And>p. ok p \<Longrightarrow> ok' p) \<Longrightarrow> queue_step_for ok' r r'"
  by (induction rule: queue_step_for.induct)
     (auto simp: pred_option_def list_all_iff intro: queue_step_for.intros)

lemmas operations_keep =
  keeps_ResolveSessionIdentity keeps_SetAutoRun keeps_PauseAutoRun keeps_SetAutoMergeOverride
  keeps_Insert keeps_InsertForSession keeps_InsertForSessionWithPolicy keeps_Requeue
  keeps_AppendOrInsertTail keeps_InsertOrReplace keeps_Snapshot keeps_TakeHead keeps_TakeByID
  keeps_ReserveHead keeps_ReserveHeadForSession keeps_Acknowledge keeps_MarkDeliveryAttempted
  keeps_ClaimSendNow keeps_AcknowledgeSendNowClaim keeps_ReleaseSendNowClaim keeps_UpdateContent
  keeps_MergeIntoAbove keeps_AutoMerge keeps_Reorder keeps_DeleteByID keeps_DeleteAll
  keeps_PurgeTask keeps_PurgeSession keeps_Transfer keeps_SetPendingMove keeps_TakePendingMove
  keeps_DeletePendingMove keeps_LookupQueueAdmission keeps_AdmitQueueMessage
  keeps_AdmitManagedInput keeps_ManagedInput

lemmas operations_inv = operations_keep [THEN keepsD] queue_inv_PurgeDeletedSession

lemma queue_inv_step: "queue_step_for (\<lambda>p. 0 < p) r r' \<Longrightarrow> queue_inv r \<Longrightarrow> queue_inv r'"
proof (induction rule: queue_step_for.induct)
  case (step_restore mo r e maxPerSession)
  then show ?case using keepsD [OF keeps_Restore(1), of mo r] by (auto simp: pred_option_def)
next
  case (step_restore_for_session mo r e i maxPerSession)
  then show ?case using keepsD [OF keeps_Restore(2), of mo r] by (auto simp: pred_option_def)
next
  case (step_restore_claim clo r auth)
  then show ?case using keepsD [OF keeps_RestoreSendNowClaim, of clo r] by (auto simp: pred_option_def list_all_iff)
next
  case (step_replace_session ms r s pmo)
  then show ?case using keepsD [OF keeps_Replace(1)] by (simp add: list_all_iff)
next
  case (step_replace_session_for_identity ms r i pmo)
  then show ?case using keepsD [OF keeps_Replace(2)] by (simp add: list_all_iff)
qed (simp_all add: operations_inv)

section \<open>Reachable states\<close>

text \<open>
  A run of the repository keeps the positions that rows had so far, and a row is put back only at one of
  them: the callers pass what the queue has handed out.  Nothing is assumed of the positions
  themselves.
\<close>

definition positions :: "repo \<Rightarrow> int set" where
  "positions r = set (map qm_Position (concat (map snd (r_entries r))))"

definition issued_step :: "repo \<times> int set \<Rightarrow> repo \<times> int set \<Rightarrow> bool" where
  "issued_step = (\<lambda>(r, issued) (r', issued'). queue_step_for (\<lambda>p. p \<in> issued) r r' \<and> issued' = issued \<union> positions r')"

definition new_run :: "repo \<times> int set \<Rightarrow> bool" where
  "new_run = (\<lambda>(r, issued). r = NewMemoryRepository \<and> issued = {})"

definition issued_inv :: "repo \<times> int set \<Rightarrow> bool" where
  "issued_inv = (\<lambda>(r, issued). queue_inv r \<and> (\<forall>p\<in>issued. 0 < p))"

lemma positions_positive: "queue_inv r \<Longrightarrow> p \<in> positions r \<Longrightarrow> 0 < p"
proof -
  assume inv: "queue_inv r" and "p \<in> positions r"
  then obtain s l m where m: "(s, l) \<in> set (r_entries r)" "m \<in> set l" "p = qm_Position m" by (auto simp: positions_def)
  then have "sess r s = l" using inv by (auto simp: queue_inv_def gm_wf_def gm_get_def map_of_is_SomeI)
  then show "0 < p" using slist_ok_member [OF queue_inv_sess [OF inv, of s]] m by blast
qed

interpretation queue_system: invariant_system new_run issued_step issued_inv
proof unfold_locales
  show "issued_inv s" if "new_run s" for s
    using that by (auto simp: new_run_def issued_inv_def queue_inv_def NewMemoryRepository_def)
  show "issued_inv t" if "issued_inv s" "issued_step s t" for s t
  proof -
    obtain r issued r' issued' where s: "s = (r, issued)" "t = (r', issued')" by (cases s, cases t)
    then have step: "queue_step_for (\<lambda>p. p \<in> issued) r r'" "issued' = issued \<union> positions r'"
      and inv: "queue_inv r" and pos: "\<forall>p\<in>issued. 0 < p"
      using that by (simp_all add: issued_inv_def issued_step_def)
    have "queue_inv r'" using queue_inv_step [OF queue_step_mono [OF step(1)] inv] pos by blast
    then show ?thesis using pos positions_positive [of r'] by (auto simp: s step(2) issued_inv_def)
  qed
qed

definition reachable :: "repo \<Rightarrow> bool" where
  "reachable r \<longleftrightarrow> (\<exists>issued. reach new_run issued_step (r, issued))"

lemma reachable_inv: "reachable r \<Longrightarrow> queue_inv r"
  using queue_system.reach_inv by (fastforce simp: reachable_def issued_inv_def)

lemma reachable_new: "reachable NewMemoryRepository"
  unfolding reachable_def by (rule exI [of _ "{}"], rule reach_init) (simp add: new_run_def)

text \<open>A step that puts no row back goes from a reachable state to a reachable state.\<close>

lemma reachable_step: "reachable r \<Longrightarrow> queue_step_for (\<lambda>p. False) r r' \<Longrightarrow> reachable r'"
proof -
  assume "reachable r" and step: "queue_step_for (\<lambda>p. False) r r'"
  then obtain issued where run: "reach new_run issued_step (r, issued)" by (auto simp: reachable_def)
  have "issued_step (r, issued) (r', issued \<union> positions r')" using queue_step_mono [OF step] by (simp add: issued_step_def)
  from reach_step [OF run this] show ?thesis unfolding reachable_def by blast
qed

text \<open>Whatever is reachable is reached by free steps.\<close>

lemma reachable_free: "reachable r \<Longrightarrow> reach (\<lambda>r. r = NewMemoryRepository) queue_step r"
proof -
  assume "reachable r"
  then obtain issued where "reach new_run issued_step (r, issued)" by (auto simp: reachable_def)
  then have "reach (\<lambda>r. r = NewMemoryRepository) queue_step (fst (r, issued))"
  proof (induction rule: reach.induct)
    case (reach_init s)
    then show ?case by (auto simp: new_run_def intro: reach.reach_init)
  next
    case (reach_step s t)
    then have "queue_step (fst s) (fst t)" by (auto simp: issued_step_def intro: queue_step_mono)
    with reach_step.IH show ?case by (rule reach.reach_step)
  qed
  then show ?thesis by simp
qed

end
