(* ===== verification/Queue_Fence.thy ===== *)
theory Queue_Fence
  imports Queue_Invariant
begin

text \<open>
  Generation fences.  The repository counts, per session and per task, the operations that
  invalidate work already handed out (deleting, purging, transferring or replacing a queue).  A
  dequeued message carries the session generation it was taken at, and putting it back is refused
  once the generation has moved on.

  The locale \<open>bookkeeping\<close> captures what the operations may do to the rest of the state: an
  invariant that looks only at the generation counters and the managed-input tables, and that
  survives incrementing the former and clearing parts of the latter, is kept by every operation of
  the queue proper.  The locale \<open>fence\<close> says what a monotone generation counter gives its clients.
\<close>

section \<open>What the operations leave alone\<close>

inductive managed_step :: "repo \<Rightarrow> repo \<Rightarrow> bool" where
  admit: "managed_step r (snd (AdmitManagedInput mfp fp e i rq n r))"
| cancel: "managed_step r (snd (CancelManagedInput e i x r))"
| start: "managed_step r (snd (MarkManagedInputRunning e i x t u r))"
| settle: "managed_step r (snd (SettleManagedInput e i x t u st out r))"

locale bookkeeping = identity_blind I for I :: "repo \<Rightarrow> bool" +
  assumes blind:
    "I r \<Longrightarrow> I (r\<lparr>r_entries := a\<rparr>)"
    "I r \<Longrightarrow> I (r\<lparr>r_nextPosition := b\<rparr>)"
    "I r \<Longrightarrow> I (r\<lparr>r_pendingMoves := c\<rparr>)"
    "I r \<Longrightarrow> I (r\<lparr>r_sendNowGeneration := d\<rparr>)"
    "I r \<Longrightarrow> I (r\<lparr>r_sendNowClaims := f\<rparr>)"
    "I r \<Longrightarrow> I (r\<lparr>r_autoRun := g\<rparr>)"
    "I r \<Longrightarrow> I (r\<lparr>r_autoRunIncarnation := h\<rparr>)"
    "I r \<Longrightarrow> I (r\<lparr>r_autoMergeOverrides := j\<rparr>)"
    "I r \<Longrightarrow> I (r\<lparr>r_admissionReceipts := k\<rparr>)"
    "I r \<Longrightarrow> I (r\<lparr>r_statusGeneration := l\<rparr>)"
  and counting:
    "I r \<Longrightarrow> I (r\<lparr>r_sessionGeneration := gm_incr s (r_sessionGeneration r)\<rparr>)"
    "I r \<Longrightarrow> I (r\<lparr>r_generation := gm_incr t (r_generation r)\<rparr>)"
  and clearing:
    "I r \<Longrightarrow> I (r\<lparr>r_managedInputs := gm_del_if p (r_managedInputs r)\<rparr>)"
    "I r \<Longrightarrow> I (r\<lparr>r_managedOccurrences := gm_del_if q (r_managedOccurrences r)\<rparr>)"
begin

lemma writes:
  "I r \<Longrightarrow> I (put_entries s l r)" "I r \<Longrightarrow> I (store_entries s l r)"
  "I r \<Longrightarrow> I (put_next s p r)" "I r \<Longrightarrow> I (raise_next s p r)"
  "I r \<Longrightarrow> I (removeEntryLocked s n r)" "I r \<Longrightarrow> I (drop_next_if_empty s l r)"
  "I r \<Longrightarrow> I (setAutoRunLocked io s b r)"
  by (auto simp: put_entries_def store_entries_def put_next_def raise_next_def removeEntryLocked_def
      drop_next_if_empty_def setAutoRunLocked_def intro!: blind)

lemma counting_of:
  "I r \<Longrightarrow> r_sessionGeneration r = m \<Longrightarrow> I (r\<lparr>r_sessionGeneration := gm_incr s m\<rparr>)"
  "I r \<Longrightarrow> r_generation r = m \<Longrightarrow> I (r\<lparr>r_generation := gm_incr t m\<rparr>)"
  using counting by blast+

lemma clearing_of:
  "I r \<Longrightarrow> r_managedInputs r = m \<Longrightarrow> I (r\<lparr>r_managedInputs := gm_del_if p m\<rparr>)"
  "I r \<Longrightarrow> r_managedOccurrences r = m' \<Longrightarrow> I (r\<lparr>r_managedOccurrences := gm_del_if q m'\<rparr>)"
  using clearing by blast+

lemma clear_session: "I r \<Longrightarrow> I (clearSessionStateLocked s r)"
  unfolding clearSessionStateLocked_def
  by (intro blind clearing_of blind_identities) simp_all

lemmas prologues = keeps_with_identity keeps_for_identity keeps_with_policy keeps_lift_pure

lemma keeps_identity_ops:
  "keeps I (ResolveSessionIdentity auth taskID s)"
  "I r \<Longrightarrow> I (PurgeDeletedSession i r)"
  by (auto simp: ResolveSessionIdentity_def PurgeDeletedSession_def Let_def
      intro!: keepsI blind_identities clear_session split: option.splits sum.splits)

lemma auto_run:
  "I r \<Longrightarrow> autoRunForIdentityLocked i r = (b, r') \<Longrightarrow> I r'"
  by (auto simp: autoRunForIdentityLocked_def Let_def intro: blind split: option.splits if_splits)

lemma keeps_policy_ops:
  "keeps I (SetAutoRun s b)" "keeps I (SetAutoRunForSession i b)"
  "keeps I (PauseAutoRunIfPending s)" "keeps I (PauseAutoRunIfPendingForSession i)"
  "keeps I (SetAutoMergeOverride i b)" "keeps I (Snapshot i)"
  unfolding SetAutoRunForSession_def PauseAutoRunIfPendingForSession_def SetAutoMergeOverride_def
    Snapshot_def
  by (intro prologues keepsI;
      auto simp: SetAutoRun_def PauseAutoRunIfPending_def pauseAutoRunIfPendingLocked_def Let_def
        intro!: writes blind dest: auto_run split: prod.splits)+

lemma keeps_insert: "keeps I (insertLocked e msg maxPerSession)"
  by (rule keepsI) (auto simp: insertLocked_def Let_def intro!: writes)

lemma insert_of: "I r \<Longrightarrow> insertLocked e msg maxPerSession r = (x, r') \<Longrightarrow> I r'"
  by (rule keepsD_eq [OF keeps_insert])

lemma keeps_restore: "keeps I (restoreLocked e mo maxPerSession)"
  by (rule keepsI) (auto simp: restoreLocked_def Let_def intro!: writes split: option.splits)

lemma keeps_insert_ops:
  "keeps I (Insert e msg maxPerSession)" "keeps I (InsertForSession e i mo maxPerSession)"
  "keeps I (InsertForSessionWithClaim e i mo cl maxPerSession)"
  "keeps I (InsertForSessionWithPolicy e i mo maxPerSession policy)"
  "keeps I (Restore e mo maxPerSession)" "keeps I (RestoreForSession e i mo maxPerSession)"
proof -
  show "keeps I (Insert e msg maxPerSession)" "keeps I (Restore e mo maxPerSession)"
    using keeps_insert keeps_restore by (simp_all add: keeps_def Insert_def Restore_def)
  show "keeps I (InsertForSession e i mo maxPerSession)"
    "keeps I (InsertForSessionWithClaim e i mo cl maxPerSession)"
    "keeps I (RestoreForSession e i mo maxPerSession)"
    unfolding InsertForSession_def InsertForSessionWithClaim_def RestoreForSession_def
    by (intro prologues keeps_insert keeps_restore)+
  show "keeps I (InsertForSessionWithPolicy e i mo maxPerSession policy)"
    unfolding InsertForSessionWithPolicy_def
    by (intro prologues keepsI) (auto intro: keepsD [OF keeps_insert] split: option.splits)
qed

lemma release_for_retry:
  "I r \<Longrightarrow> releaseLifecycleReservationForRetryLocked msg inc r = (x, r') \<Longrightarrow> I r'"
  by (auto simp: releaseLifecycleReservationForRetryLocked_def Let_def intro: writes
      split: option.splits if_splits)

lemma requeue_position:
  "I r \<Longrightarrow> nextRequeuePositionLocked s l r = (p, l', r') \<Longrightarrow> I r'"
  by (auto simp: nextRequeuePositionLocked_def Let_def intro: writes split: list.splits if_splits)

lemma keeps_requeue: "keeps I (requeuePreservingFIFOLocked e mo inc)"
  by (rule keepsI)
     (auto simp: requeuePreservingFIFOLocked_def Let_def intro!: writes
       intro: release_for_retry requeue_position split: option.split prod.split sum.split)

lemma keeps_append:
  "keeps I (appendOrInsertTailLocked e s taskID content model queuedBy planMode atts meta maxPerSession)"
  by (rule keepsI)
     (auto simp: appendOrInsertTailLocked_def Let_def intro: writes insert_of split: prod.split sum.split)

lemma keeps_coalesce:
  "keeps I (insertOrReplaceByCoalesceKeyLocked e msg key maxPerSession allowInsert)"
  by (rule keepsI)
     (auto simp: insertOrReplaceByCoalesceKeyLocked_def Let_def intro: writes insert_of
       split: option.split prod.split sum.split)

lemma keeps_coalesce_lifecycle:
  "keeps I (insertOrReplaceLifecycleLocked e msg key maxPerSession allowInsert)"
  by (rule keepsI) (simp add: insertOrReplaceLifecycleLocked_def keepsD [OF keeps_coalesce])

lemma keeps_requeue_ops:
  "keeps I (RequeuePreservingFIFO e mo)" "keeps I (RequeuePreservingFIFOForSession e i mo)"
  "keeps I (AppendOrInsertTail e s taskID content model queuedBy planMode atts meta maxPerSession)"
  "keeps I (AppendOrInsertTailForSession e i content model queuedBy planMode atts meta maxPerSession)"
  "keeps I (InsertOrReplaceByCoalesceKey e msg key maxPerSession allowInsert)"
  "keeps I (InsertOrReplaceByCoalesceKeyForSession e i mo key maxPerSession allowInsert)"
  "keeps I (InsertOrReplaceLifecycleByCoalesceKey e msg key maxPerSession allowInsert)"
  "keeps I (InsertOrReplaceLifecycleByCoalesceKeyForSession e i mo key maxPerSession allowInsert)"
proof -
  show "keeps I (RequeuePreservingFIFO e mo)"
    using keeps_requeue by (simp add: keeps_def RequeuePreservingFIFO_def)
qed (unfold RequeuePreservingFIFOForSession_def AppendOrInsertTail_def AppendOrInsertTailForSession_def
    InsertOrReplaceByCoalesceKey_def InsertOrReplaceByCoalesceKeyForSession_def
    InsertOrReplaceLifecycleByCoalesceKey_def InsertOrReplaceLifecycleByCoalesceKeyForSession_def,
    (intro prologues keeps_requeue keeps_append keeps_coalesce keeps_coalesce_lifecycle)+)

lemma reserve_head: "I r \<Longrightarrow> I (snd (reserveHeadLocked e s io retainOrdinary r))"
proof (induction e s io retainOrdinary r rule: reserveHeadLocked.induct)
  case (1 e s io retainOrdinary r)
  have rest: "I (removeEntryLocked s (lowestPositionIndex (sess r s)) r)"
    using "1.prems" by (rule writes)
  show ?case
  proof (subst reserveHeadLocked.simps, goal_cases)
    case 1
    show ?case using "1.prems" rest "1.IH" by (auto simp: Let_def intro!: writes split: prod.split)
  qed
qed

lemma reserve_head_of: "I r \<Longrightarrow> reserveHeadLocked e s io retainOrdinary r = (x, r') \<Longrightarrow> I r'"
  using reserve_head [of r e s io retainOrdinary] by simp

lemma keeps_reserve: "keeps I (reserve_if_auto_run e retainOrdinary i)"
  unfolding reserve_if_auto_run_def
  by (intro prologues keepsI)
     (auto dest: auto_run reserve_head_of split: prod.split bool.split)

lemma keeps_owned: "keeps I (remove_owned i m)" "keeps I (release_owned i m)"
  by (auto simp: remove_owned_def release_owned_def Let_def intro!: keepsI writes split: option.splits)

lemma keeps_delivery_ops:
  "keeps I (TakeHead s)" "keeps I (TakeByID s x)" "keeps I (TakeByIDForSession i x)"
  "keeps I (ReserveHead e s)" "keeps I (ReserveHeadIfAutoRun e s)"
  "keeps I (ReserveHeadIfAutoRunForSession e i)" "keeps I (ReserveHeadForDeliveryIfAutoRunForSession e i)"
  "keeps I (AcknowledgeReserved msg)" "keeps I (AcknowledgeByID s x)"
  "keeps I (AcknowledgeByIDForSession i mo)" "keeps I (DiscardLifecycleReservation i mo)"
  "keeps I (ReleaseDeliveryReservationForSession i mo)" "keeps I (MarkDeliveryAttemptedForSession i ms)"
proof -
  show "keeps I (TakeByIDForSession i x)" "keeps I (MarkDeliveryAttemptedForSession i ms)"
    unfolding TakeByIDForSession_def MarkDeliveryAttemptedForSession_def
    by (intro prologues keepsI; auto simp: takeByIDLocked_def Let_def intro: writes
        split: prod.splits option.splits sum.splits list.splits)+
  show "keeps I (ReserveHeadIfAutoRunForSession e i)" "keeps I (ReserveHeadForDeliveryIfAutoRunForSession e i)"
    unfolding ReserveHeadIfAutoRunForSession_def ReserveHeadForDeliveryIfAutoRunForSession_def
    by (rule keeps_reserve)+
qed (auto simp: TakeHead_def TakeByID_def takeByIDLocked_def ReserveHead_def ReserveHeadIfAutoRun_def
    AcknowledgeReserved_def AcknowledgeByID_def AcknowledgeByIDForSession_def DiscardLifecycleReservation_def
    ReleaseDeliveryReservationForSession_def Let_def
    keepsD [OF keeps_owned(1)] keepsD [OF keeps_with_identity [OF keeps_owned(1)]]
    keepsD [OF keeps_with_identity [OF keeps_owned(2)]]
    intro!: keepsI writes reserve_head dest: reserve_head_of split: option.splits prod.splits)

lemma keeps_claim: "keeps I (claimSendNowLocked c e i s expected)"
  by (rule keepsI)
     (auto simp: claimSendNowLocked_def Let_def intro!: writes blind split: prod.split sum.split)

lemma keeps_claimed:
  assumes "\<And>cl s. keeps I (body cl s)"
  shows "keeps I (with_claim auth clo body)" "keeps I (with_current_claim auth clo body)"
  using assms
  by (auto simp: with_claim_def with_current_claim_def keepsD intro!: keepsI
      split: option.splits list.splits)

lemma remove_ownership: "I r \<Longrightarrow> I (removeSendNowClaimOwnershipLocked s sources r)"
  by (auto simp: removeSendNowClaimOwnershipLocked_def Let_def intro: blind)

lemma restore_sources:
  "I r \<Longrightarrow> foldl (restore_source cl s original) (l, r) qs = (l', r') \<Longrightarrow> I r'"
proof (induction qs arbitrary: l r)
  case (Cons q qs)
  obtain l1 r1 where st: "restore_source cl s original (l, r) q = (l1, r1)" by fastforce
  then have "I r1" using Cons.prems(1)
    by (auto simp: restore_source_def Let_def intro: writes split: if_splits option.splits)
  then show ?case using Cons st by simp
qed simp

lemma keeps_send_now_ops:
  "keeps I (ClaimSendNow c e s ms)" "keeps I (ClaimSendNowForSession c e i ms)"
  "keeps I (RestoreSendNowClaim auth clo)" "keeps I (AcknowledgeSendNowClaim auth clo)"
  "keeps I (ReleaseSendNowClaim auth clo)"
proof -
  show "keeps I (ClaimSendNow c e s ms)"
    by (rule keepsI) (simp add: ClaimSendNow_def keepsD [OF keeps_claim])
  show "keeps I (ClaimSendNowForSession c e i ms)"
    unfolding ClaimSendNowForSession_def by (intro prologues keeps_claim)
qed (unfold RestoreSendNowClaim_def AcknowledgeSendNowClaim_def ReleaseSendNowClaim_def,
    (intro keeps_claimed keepsI;
     auto simp: Let_def releaseSendNowClaimLocked_def removeReleasedSendNowSourcesLocked_def
       intro!: remove_ownership writes dest: restore_sources split: prod.split)+)

lemma keeps_update: "keeps I (updateContentAndMetadataLocked s x content atts updates queuedBy)"
  by (rule keepsI)
     (auto simp: updateContentAndMetadataLocked_def Let_def intro!: writes split: option.splits)

lemma keeps_merge: "keeps I (mergeIntoAboveLocked c s x queuedBy)"
  by (rule keepsI)
     (auto simp: mergeIntoAboveLocked_def Let_def intro!: writes blind split: option.splits sum.splits)

lemma keeps_auto_merge:
  "keeps I (autoMergeIntoAboveLocked c s x)" "keeps I (autoMergeCandidateIntoAboveLocked c m)"
  by (auto simp: autoMergeIntoAboveLocked_def autoMergeCandidateIntoAboveLocked_def Let_def
      intro!: keepsI writes split: option.splits)

lemma keeps_edit_ops:
  "keeps I (UpdateContent s x content atts queuedBy)"
  "keeps I (UpdateContentAndMetadata s x content atts updates queuedBy)"
  "keeps I (UpdateContentAndMetadataForSession i x content atts updates queuedBy)"
  "keeps I (MergeIntoAbove c s x queuedBy)" "keeps I (MergeIntoAboveForSession c i x queuedBy)"
  "keeps I (AutoMergeIntoAbove c s x)" "keeps I (AutoMergeIntoAboveForSession c i x)"
  "keeps I (AutoMergeIntoAboveForSessionWithPolicy c i x policy)"
  "keeps I (AutoMergeCandidateIntoAbove c msg)" "keeps I (AutoMergeCandidateIntoAboveForSession c i mo)"
  "keeps I (AutoMergeCandidateIntoAboveForSessionWithPolicy c i mo policy)"
  unfolding UpdateContent_def UpdateContentAndMetadata_def UpdateContentAndMetadataForSession_def
    MergeIntoAbove_def MergeIntoAboveForSession_def AutoMergeIntoAbove_def
    AutoMergeIntoAboveForSession_def AutoMergeIntoAboveForSessionWithPolicy_def
    AutoMergeCandidateIntoAbove_def AutoMergeCandidateIntoAboveForSession_def
    AutoMergeCandidateIntoAboveForSessionWithPolicy_def
  by (intro prologues keeps_update keeps_merge keeps_auto_merge)+

lemma keeps_reorder: "keeps I (reorderEntriesLocked s ids)"
  by (rule keepsI) (auto simp: reorderEntriesLocked_def Let_def intro!: writes split: sum.splits)

lemma counting_all:
  "I r \<Longrightarrow> I (r\<lparr>r_sessionGeneration := foldl (\<lambda>m s. gm_incr s m) (r_sessionGeneration r) ss\<rparr>)"
proof (induction ss arbitrary: r)
  case (Cons s ss)
  show ?case using Cons.IH [OF counting(1) [OF Cons.prems, of s]] by simp
qed simp

lemma keeps_purge: "keeps I (PurgeTask taskID)" "keeps I (PurgeSession s)"
proof -
  have "I (r\<lparr>r_entries := a, r_pendingMoves := b, r_admissionReceipts := c,
      r_sessionGeneration := foldl (\<lambda>m s. gm_incr s m) (r_sessionGeneration r) ss,
      r_generation := gm_incr t (r_generation r)\<rparr>)" if "I r" for r a b c ss t
  proof -
    have "I (r\<lparr>r_entries := a, r_pendingMoves := b, r_admissionReceipts := c\<rparr>)"
      by (intro blind that)
    from counting_all [OF this, of ss] show ?thesis by (intro counting_of) simp_all
  qed
  then show "keeps I (PurgeTask taskID)" by (intro keepsI) (simp add: PurgeTask_def)
  show "keeps I (PurgeSession s)"
    by (rule keepsI) (auto simp: PurgeSession_def intro!: blind counting_of)
qed

lemma keeps_delete_ops:
  "keeps I (ReorderEntries s ids)" "keeps I (ReorderEntriesForSession i ids)"
  "keeps I (DeleteByID s x)" "keeps I (DeleteByIDForSession i x)"
  "keeps I (DeleteAllBySession s)" "keeps I (DeleteAllBySessionForIdentity i)"
proof -
  show "keeps I (ReorderEntries s ids)" "keeps I (ReorderEntriesForSession i ids)"
    unfolding ReorderEntries_def ReorderEntriesForSession_def by (intro prologues keeps_reorder)+
qed (unfold DeleteByID_def DeleteByIDForSession_def DeleteAllBySession_def DeleteAllBySessionForIdentity_def,
    (intro prologues keepsI;
     auto simp: deleteByIDLocked_def deleteByIDForSessionLocked_def deleteAllBySessionLocked_def
       deleteAllBySessionForIdentityLocked_def Let_def intro!: writes counting_of split: option.splits)+)

lemma raise_all: "I r \<Longrightarrow> I (raise_all s l r)"
  by (induction l arbitrary: r) (simp_all add: writes)

lemma moves:
  "I r \<Longrightarrow> I (move_entries old new r)" "I r \<Longrightarrow> I (move_claims old new r)"
  "I r \<Longrightarrow> I (move_pending_move old new r)"
proof -
  show "I (move_entries old new r)" if "I r"
  proof (cases "gm_get (r_entries r) old")
    case (Some l)
    show ?thesis
      unfolding move_entries_def Some option.case Let_def
      by (intro blind raise_all writes that)
  qed (simp add: move_entries_def that)
qed (auto simp: move_claims_def move_pending_move_def Let_def intro!: blind split: option.splits)

lemma transfer_policy:
  "I r \<Longrightarrow> transfer_auto_run source destination old new r = (a, b, r') \<Longrightarrow> I r'"
  by (auto simp: transfer_auto_run_def dest: auto_run split: option.splits prod.splits)

lemma keeps_transfer: "keeps I (transferSessionLocked source destination old new)"
proof (rule keepsI)
  fix r assume "I r"
  then have "I (r\<lparr>r_sessionGeneration := gm_incr new (gm_incr old (r_sessionGeneration r))\<rparr>)"
    using counting(1) [OF counting(1), of r new old] by simp
  then show "I (snd (transferSessionLocked source destination old new r))"
    using \<open>I r\<close>
    by (auto simp: transferSessionLocked_def Let_def intro!: blind writes moves blind_identities
        dest: transfer_policy split: prod.split)
qed

lemma keeps_replace: "keeps I (replaceSessionLocked s rows mo)"
  by (rule keepsI) (auto simp: replaceSessionLocked_def Let_def intro!: blind writes split: option.splits)

lemma keeps_session_ops:
  "keeps I (TransferSession s s2)" "keeps I (TransferSessionIdentities i i2)"
  "keeps I (ReplaceSession s ms pmo)" "keeps I (ReplaceSessionForIdentity i ms pmo)"
  unfolding TransferSession_def
  by (auto simp: keeps_transfer TransferSessionIdentities_def ReplaceSession_def ReplaceSessionForIdentity_def
      intro!: keepsI [where f = "TransferSessionIdentities i i2"] keepsI [where f = "ReplaceSession s ms pmo"]
      keepsI [where f = "ReplaceSessionForIdentity i ms pmo"] counting
      keepsD [OF keeps_with_identity [OF keeps_with_identity [OF keeps_transfer]]]
      keepsD [OF keeps_replace] keepsD [OF keeps_with_identity [OF keeps_replace]]
      split: option.splits)

lemma keeps_set_pending_move: "keeps I (SetPendingMove e s mo)"
proof (rule keepsI)
  fix r assume r: "I r"
  have put: "keeps I (\<lambda>r. (Inr m, r\<lparr>r_pendingMoves := g r\<rparr>))" for m :: PendingMove and g
    by (rule keepsI) (simp add: blind)
  have store: "I (snd (with_identity i (\<lambda>r. (Inr m, r\<lparr>r_pendingMoves := g r\<rparr>)) r1))"
    if "I r1" for i and m :: PendingMove and g r1
    by (rule keepsD [OF keeps_with_identity [OF put] that])
  have branch: "(c \<Longrightarrow> I (snd x)) \<Longrightarrow> (\<not> c \<Longrightarrow> I (snd y)) \<Longrightarrow>
      I (snd (if c then x else y))" for c and x y :: "PendingMove result" by simp
  show "I (snd (SetPendingMove e s mo r))"
  proof (cases mo)
    case (Some mv)
    show ?thesis
      unfolding SetPendingMove_def Let_def Some option.case
      by (intro branch store) (use r in \<open>simp_all add: blind_identities\<close>)
  qed (simp add: SetPendingMove_def r)
qed

lemma keeps_move_ops:
  "keeps I (SetPendingMove e s pmo)" "keeps I (TakePendingMove s)"
  "keeps I (DeletePendingMoveIfMatch expected x)"
proof -
  show "keeps I (DeletePendingMoveIfMatch expected x)"
    by (rule keepsI)
       (auto simp: DeletePendingMoveIfMatch_def Let_def intro!: writes blind
         split: prod.splits option.splits)
qed (auto simp: TakePendingMove_def keeps_set_pending_move intro!: keepsI [where f = "TakePendingMove s"] blind
    split: option.splits)

lemma auto_merge_of:
  "I r \<Longrightarrow> autoMergeIntoAboveLocked c s x r = (a, r') \<Longrightarrow> I r'"
  "I r \<Longrightarrow> autoMergeCandidateIntoAboveLocked c m r = (a, r') \<Longrightarrow> I r'"
  using keepsD_eq [OF keeps_auto_merge(1)] keepsD_eq [OF keeps_auto_merge(2)] by blast+

lemma remember: "I r \<Longrightarrow> I (snd (rememberAdmissionLocked key fp m r))"
  by (simp add: rememberAdmissionLocked_def blind)

lemma admit_full: "I r \<Longrightarrow> I (snd (admitFullAdmissionLocked c key fp m po r))"
  by (auto simp: admitFullAdmissionLocked_def intro!: remember dest: auto_merge_of
      split: prod.split bool.split option.split)

lemma merge_inserted: "I r \<Longrightarrow> mergeInsertedAdmissionLocked c s m po r = (x, r') \<Longrightarrow> I r'"
  by (auto simp: mergeInsertedAdmissionLocked_def dest: auto_merge_of
      split: prod.splits bool.splits option.splits if_splits)

lemma keeps_admit_new: "keeps I (admitNewAdmissionLocked c e i key fp m cl maxPerSession po)"
  by (rule keepsI)
     (auto simp: admitNewAdmissionLocked_def Let_def intro!: admit_full remember
       dest: insert_of merge_inserted split: prod.split sum.split)

lemma keeps_admission_ops:
  "keeps I (LookupQueueAdmission fp i x mo)"
  "keeps I (AdmitQueueMessage c fp e i x mo co maxPerSession po entry)"
proof -
  have lookup: "keeps I (\<lambda>r. case f r of (_, _, Some err) \<Rightarrow> (Inl err, r)
      | (replay, found, None) \<Rightarrow> (Inr (replay, found), r))"
    for f :: "repo \<Rightarrow> QueuedMessage option \<times> bool \<times> qerror option"
    by (rule keepsI) (auto split: prod.split option.split)
  show "keeps I (LookupQueueAdmission fp i x mo)"
    using keepsD [OF keeps_with_identity [OF lookup]]
    by (auto simp: LookupQueueAdmission_def intro!: keepsI split: option.splits)
  have admit: "keeps I (\<lambda>r. case replayAdmissionLocked key f r of
            (Some replay, True, _) \<Rightarrow> (Inr (replay, True), r)
          | _ \<Rightarrow> if queueIDExistsLocked x r then (Inl ErrQueueIDConflict, r)
                 else admitNewAdmissionLocked c e i key f m co maxPerSession po r)" for key f m
    by (rule keepsI)
       (auto simp: keepsD [OF keeps_admit_new] split: prod.split option.split bool.split)
  show "keeps I (AdmitQueueMessage c fp e i x mo co maxPerSession po entry)"
    using keepsD [OF keeps_with_identity [OF admit]]
    by (auto simp: AdmitQueueMessage_def Let_def intro!: keepsI split: option.split)
qed

lemmas queue_operations = keeps_identity_ops(1) keeps_policy_ops keeps_insert_ops keeps_requeue_ops
  keeps_delivery_ops keeps_send_now_ops keeps_edit_ops keeps_delete_ops keeps_purge keeps_session_ops
  keeps_move_ops keeps_admission_ops

text \<open>
  A whole step: only the four operations on managed inputs are left to the instance.
\<close>

lemma step_or_managed: "queue_step r r' \<Longrightarrow> I r \<Longrightarrow> I r' \<or> managed_step r r'"
  by (induction rule: queue_step_for.induct)
     (simp_all add: queue_operations [THEN keepsD] keeps_identity_ops(2) managed_step.intros)

lemma step:
  assumes "queue_step r r'" and "I r"
    and "\<And>mfp fp e i rq n. keeps I (AdmitManagedInput mfp fp e i rq n)"
    and "\<And>e i x. keeps I (CancelManagedInput e i x)"
    and "\<And>e i x t u. keeps I (MarkManagedInputRunning e i x t u)"
    and "\<And>e i x t u st out. keeps I (SettleManagedInput e i x t u st out)"
  shows "I r'"
  using step_or_managed [OF assms(1,2)]
proof
  assume "managed_step r r'"
  then show ?thesis using assms(2) by cases (simp_all add: assms(3-6) [THEN keepsD])
qed

end

text \<open>An invariant of the counters alone is also kept by the operations on managed inputs.\<close>

locale counters_only = bookkeeping +
  assumes blind_managed:
    "I r \<Longrightarrow> I (r\<lparr>r_managedInputs := a\<rparr>)" "I r \<Longrightarrow> I (r\<lparr>r_managedOccurrences := b\<rparr>)"
begin

lemma receipts:
  "I r \<Longrightarrow> I (put_receipt key m r)" "I r \<Longrightarrow> I (snd (record_input mfp fp i rq msg r))"
  "I r \<Longrightarrow> I (removeManagedQueueRowLocked s x r)"
  by (auto simp: put_receipt_def record_input_def removeManagedQueueRowLocked_def Let_def
      intro!: blind_managed blind writes split: option.splits)

lemma supersede: "I r \<Longrightarrow> supersede_input e i rq n old msg r = (x, r') \<Longrightarrow> I r'"
  by (auto simp: supersede_input_def Let_def intro!: writes receipts
      dest!: insert_of [rotated] split: option.splits prod.splits sum.splits)

lemma keeps_managed:
  "keeps I (AdmitManagedInput mfp fp e i rq n)" "keeps I (CancelManagedInput e i x)"
  "keeps I (MarkManagedInputRunning e i x t u)" "keeps I (SettleManagedInput e i x t u st out)"
proof -
  show "keeps I (AdmitManagedInput mfp fp e i rq n)"
    by (rule keepsI)
       (auto simp: AdmitManagedInput_def with_valid_identity_def Let_def intro!: receipts
         dest: supersede insert_of split: option.split prod.split sum.split)
qed (auto simp: CancelManagedInput_def MarkManagedInputRunning_def SettleManagedInput_def with_receipt_def
    with_valid_identity_def Let_def intro!: keepsI receipts writes split: option.split)

lemma every_step: "queue_step r r' \<Longrightarrow> I r \<Longrightarrow> I r'"
  by (rule step [OF _ _ keeps_managed])

lemma every_run: "queue_step\<^sup>*\<^sup>* r r' \<Longrightarrow> I r \<Longrightarrow> I r'"
  by (induction rule: rtranclp_induct) (auto intro: every_step)

end

interpretation session_counter: counters_only "\<lambda>r. g \<le> SessionGeneration s r" for g s
  by unfold_locales (auto simp: SessionGeneration_def)

interpretation task_counter: counters_only "\<lambda>r. g \<le> LifecycleGeneration t r" for g t
  by unfold_locales (auto simp: LifecycleGeneration_def)

section \<open>Fences\<close>

text \<open>
  A token is stamped with the generation it was issued at; the provider promises that the
  generation never decreases and that it accepts a token of the current generation only.
\<close>

locale generation_fence =
  fixes step :: "'s \<Rightarrow> 's \<Rightarrow> bool" and gen :: "'s \<Rightarrow> int"
    and stamp :: "'t \<Rightarrow> int" and accepts :: "'t \<Rightarrow> 's \<Rightarrow> bool"
  assumes gen_step: "step r r' \<Longrightarrow> gen r \<le> gen r'"
    and accepts_current: "accepts m r \<Longrightarrow> stamp m = gen r"
begin

lemma gen_run: "step\<^sup>*\<^sup>* r r' \<Longrightarrow> gen r \<le> gen r'"
  by (induction rule: rtranclp_induct) (auto dest: gen_step)

lemma fenced_forever: "stamp m < gen r \<Longrightarrow> step\<^sup>*\<^sup>* r r' \<Longrightarrow> \<not> accepts m r'"
  using gen_run [of r r'] accepts_current [of m r'] by auto

end

definition restorable :: "string \<Rightarrow> QueuedMessage \<Rightarrow> repo \<Rightarrow> bool" where
  "restorable s m r \<longleftrightarrow> qm_SessionID m = s \<and> qm_reservationGenerationsCaptured m \<and>
     (\<exists>e n x. fst (Restore e (Some m) n r) = Inr x)"

definition requeueable :: "string \<Rightarrow> QueuedMessage \<Rightarrow> repo \<Rightarrow> bool" where
  "requeueable s m r \<longleftrightarrow> qm_SessionID m = s \<and> qm_reservationGenerationsCaptured m \<and>
     (\<exists>e x. fst (RequeuePreservingFIFO e (Some m) r) = Inr x)"

interpretation restore_fence: generation_fence queue_step "SessionGeneration s"
    qm_reservationSessionGeneration "restorable s" for s
proof unfold_locales
  show "SessionGeneration s r \<le> SessionGeneration s r'" if "queue_step r r'" for r r'
    using session_counter.every_step [OF that] by blast
  show "qm_reservationSessionGeneration m = SessionGeneration s r" if "restorable s m r" for m r
    using that by (auto simp: restorable_def Restore_def restoreLocked_def SessionGeneration_def Let_def
        split: if_splits)
qed

interpretation requeue_fence: generation_fence queue_step "SessionGeneration s"
    qm_reservationSessionGeneration "requeueable s" for s
proof unfold_locales
  show "SessionGeneration s r \<le> SessionGeneration s r'" if "queue_step r r'" for r r'
    by (rule restore_fence.gen_step [OF that])
  show "qm_reservationSessionGeneration m = SessionGeneration s r" if "requeueable s m r" for m r
    using that by (auto simp: requeueable_def RequeuePreservingFIFO_def requeuePreservingFIFOLocked_def
        SessionGeneration_def Let_def split: if_splits)
qed

text \<open>A lifecycle message is stamped with its task's generation when it is built.\<close>

definition lifecycle_stamp :: "QueuedMessage \<Rightarrow> int" where
  "lifecycle_stamp m =
     (case lifecycleGenerationFromMetadata (qm_Metadata m) of None \<Rightarrow> -1 | Some g \<Rightarrow> g)"

definition lifecycle_admissible :: "string \<Rightarrow> QueuedMessage \<Rightarrow> repo \<Rightarrow> bool" where
  "lifecycle_admissible t m r \<longleftrightarrow> qm_TaskID m = t \<and>
     (\<exists>e key n ins x. fst (InsertOrReplaceLifecycleByCoalesceKey e m key n ins r) = Inr x)"

interpretation lifecycle_fence: generation_fence queue_step "LifecycleGeneration t"
    lifecycle_stamp "lifecycle_admissible t" for t
proof unfold_locales
  show "LifecycleGeneration t r \<le> LifecycleGeneration t r'" if "queue_step r r'" for r r'
    using task_counter.every_step [OF that] by blast
  show "lifecycle_stamp m = LifecycleGeneration t r" if "lifecycle_admissible t m r" for m r
    using that by (auto simp: lifecycle_admissible_def InsertOrReplaceLifecycleByCoalesceKey_def
        insertOrReplaceLifecycleLocked_def LifecycleGeneration_def lifecycle_stamp_def split: if_splits)
qed

end
