(* ===== verification/Queue_Scenarios.thy ===== *)
theory Queue_Scenarios
  imports Queue_Fence
begin

text \<open>
  Concrete runs of the repository: the inputs at which the properties of the other theories are
  instantiated.  Every state here is built by the repository's own operations from the empty
  repository, so it is reachable.
\<close>

definition ex_env :: env where
  "ex_env = \<lparr>e_now = 1000000, e_uuid = (\<lambda>k. ''uuid'' @ replicate k CHR ''x'')\<rparr>"

definition ex_later :: env where
  "ex_later = \<lparr>e_now = 2000000, e_uuid = (\<lambda>k. ''later'' @ replicate k CHR ''x'')\<rparr>"

definition ex_msg :: "string \<Rightarrow> string \<Rightarrow> QueuedMessage" where
  "ex_msg i text = zero_message\<lparr>qm_ID := i, qm_SessionID := ''s'', qm_TaskID := ''t'',
     qm_Content := text, qm_QueuedBy := QueuedByUser, qm_QueuedAt := 5\<rparr>"

definition ex_one :: repo where
  "ex_one = snd (Insert ex_env (ex_msg ''a'' ''first'') 0 NewMemoryRepository)"

definition ex_two :: repo where
  "ex_two = snd (Insert ex_env (ex_msg ''b'' ''second'') 0 ex_one)"

lemma reachable_ex_one: "reachable ex_one"
  unfolding ex_one_def by (rule reachable_step [OF reachable_new step_insert])

lemma reachable_ex_two: "reachable ex_two"
  unfolding ex_two_def by (rule reachable_step [OF reachable_ex_one step_insert])

lemma list_reachable: "reachable r \<Longrightarrow> ListBySession s r = sess r s"
  using slist_ok_sort_id [OF queue_inv_sess [OF reachable_inv]] by (simp add: ListBySession_def)

lemmas ex_defs = ex_env_def ex_later_def ex_msg_def zero_message_def no_identity_def
  NewMemoryRepository_def

lemma sess_ex_one: "sess ex_one s = (if s = ''s'' then [(ex_msg ''a'' ''first'')\<lparr>qm_Position := 1\<rparr>] else [])"
  by (simp add: ex_one_def Insert_def insertLocked_def fill_identity_def ex_defs IsZero_def
      put_entries_def put_next_def Let_def)

lemma nextPos_ex_one: "nextPos ex_one s = (if s = ''s'' then 1 else 0)"
  by (simp add: ex_one_def Insert_def insertLocked_def fill_identity_def ex_defs IsZero_def
      put_entries_def put_next_def Let_def)

lemma sess_ex_two:
  "sess ex_two s = (if s = ''s'' then [(ex_msg ''a'' ''first'')\<lparr>qm_Position := 1\<rparr>,
                                      (ex_msg ''b'' ''second'')\<lparr>qm_Position := 2\<rparr>] else [])"
  by (simp add: ex_two_def Insert_def insertLocked_def fill_identity_def IsZero_def sess_ex_one nextPos_ex_one
      Let_def) (simp add: ex_defs)

end
