(* ===== verification/Queue_Fifo.thy ===== *)
theory Queue_Fifo
  imports Queue_Scenarios
begin

text \<open>
  The contract of a session's queue: it is a FIFO.  The locale \<open>fifo_queue\<close> states what a client
  relies on, an abstract list that grows at the back and shrinks at the front, and derives the order
  of delivery for every interleaving of the two operations; it is interpreted on \<open>Insert\<close> and
  \<open>TakeHead\<close>.  The rest of the theory shows what the other operations do to that list: capacity,
  putting a dequeued row back, requeueing ahead of the head, and reordering.
\<close>

section \<open>The interface\<close>

datatype 'm cmd = Enq 'm | Deq

fun run_cmds :: "('m \<Rightarrow> 's \<Rightarrow> 's) \<Rightarrow> ('s \<Rightarrow> 'o option \<times> 's) \<Rightarrow> 'm cmd list \<Rightarrow> 's \<Rightarrow> 'o list \<times> 's" where
  "run_cmds enq deq [] s = ([], s)"
| "run_cmds enq deq (Enq m # cs) s = run_cmds enq deq cs (enq m s)"
| "run_cmds enq deq (Deq # cs) s =
     (case deq s of
        (None, s') \<Rightarrow> run_cmds enq deq cs s'
      | (Some x, s') \<Rightarrow> (case run_cmds enq deq cs s' of (xs, s'') \<Rightarrow> (x # xs, s'')))"

fun enqueued :: "'m cmd list \<Rightarrow> 'm list" where
  "enqueued [] = []"
| "enqueued (Enq m # cs) = m # enqueued cs"
| "enqueued (Deq # cs) = enqueued cs"

locale fifo_queue =
  fixes enq :: "'m \<Rightarrow> 's \<Rightarrow> 's" and deq :: "'s \<Rightarrow> 'o option \<times> 's"
    and inv :: "'s \<Rightarrow> bool" and view :: "'s \<Rightarrow> 'v list"
    and item_in :: "'m \<Rightarrow> 'v" and item_out :: "'o \<Rightarrow> 'v"
  assumes enq_inv: "inv s \<Longrightarrow> inv (enq m s)"
    and enq_view: "inv s \<Longrightarrow> view (enq m s) = view s @ [item_in m]"
    and deq_empty: "inv s \<Longrightarrow> view s = [] \<Longrightarrow> deq s = (None, s)"
    and deq_view: "inv s \<Longrightarrow> view s = v # vs \<Longrightarrow>
      \<exists>x s'. deq s = (Some x, s') \<and> item_out x = v \<and> view s' = vs \<and> inv s'"
begin

lemma conserves:
  "inv s \<Longrightarrow> run_cmds enq deq cs s = (out, s') \<Longrightarrow>
   map item_out out @ view s' = view s @ map item_in (enqueued cs)"
proof (induction cs arbitrary: s out)
  case (Cons c cs)
  show ?case
  proof (cases c)
    case (Enq m)
    with Cons.prems Cons.IH [OF enq_inv] show ?thesis by (simp add: enq_view)
  next
    case Deq
    show ?thesis
    proof (cases "view s")
      case Nil
      with Cons.prems Cons.IH [of s out] show ?thesis by (simp add: Deq deq_empty)
    next
      case (Cons v vs)
      then obtain x t where x: "deq s = (Some x, t)" "item_out x = v" "view t = vs" "inv t"
        using deq_view [OF Cons.prems(1)] by blast
      with Cons.prems(2) obtain xs where "out = x # xs" "run_cmds enq deq cs t = (xs, s')"
        by (auto simp: Deq split: prod.splits)
      with Cons.IH [OF x(4)] x Cons show ?thesis by (simp add: Deq)
    qed
  qed
qed simp

lemma drains:
  "inv s \<Longrightarrow> length (view s) \<le> n \<Longrightarrow>
   \<exists>out s'. run_cmds enq deq (replicate n Deq) s = (out, s') \<and> map item_out out = view s \<and> view s' = []"
proof (induction n arbitrary: s)
  case (Suc n)
  show ?case
  proof (cases "view s")
    case Nil
    with Suc.IH [of s] Suc.prems show ?thesis by (simp add: deq_empty)
  next
    case (Cons v vs)
    then obtain x t where x: "deq s = (Some x, t)" "item_out x = v" "view t = vs" "inv t"
      using deq_view [OF Suc.prems(1)] by blast
    with Suc.IH [OF x(4)] Suc.prems(2) Cons show ?thesis by (fastforce split: prod.splits)
  qed
qed simp

end

section \<open>The memory queue is a FIFO\<close>

text \<open>
  The payload of a row is everything but the bookkeeping the queue itself maintains: the position,
  and the generations a dequeued copy is stamped with.
\<close>

definition payload :: "QueuedMessage \<Rightarrow> QueuedMessage" where
  "payload m = m\<lparr>qm_Position := 0, qm_reservationSessionGeneration := 0,
     qm_reservationLifecycleGeneration := 0, qm_reservationGenerationsCaptured := False\<rparr>"

definition insert_into :: "string \<Rightarrow> env \<times> QueuedMessage \<Rightarrow> repo \<Rightarrow> repo" where
  "insert_into s = (\<lambda>(e, m) r. snd (Insert e (m\<lparr>qm_SessionID := s\<rparr>) 0 r))"

definition inserted_payload :: "string \<Rightarrow> env \<times> QueuedMessage \<Rightarrow> QueuedMessage" where
  "inserted_payload s = (\<lambda>(e, m). payload (fill_identity e (m\<lparr>qm_SessionID := s\<rparr>)))"

lemma payload_position [simp]: "payload (m\<lparr>qm_Position := p\<rparr>) = payload m"
  by (simp add: payload_def)

lemma payload_capture [simp]: "payload (captureReservationLocked m r) = payload m"
  by (simp add: payload_def captureReservationLocked_def)

lemma Insert_unbounded:
  "Insert e m 0 r = (Inr ((fill_identity e m)\<lparr>qm_Position := nextPos r (qm_SessionID m) + 1\<rparr>),
     put_entries (qm_SessionID m)
       (sess r (qm_SessionID m) @ [(fill_identity e m)\<lparr>qm_Position := nextPos r (qm_SessionID m) + 1\<rparr>])
       (put_next (qm_SessionID m) (nextPos r (qm_SessionID m) + 1) r))"
  by (simp add: Insert_def insertLocked_def Let_def)

lemma TakeHead_Nil [simp]: "sess r s = [] \<Longrightarrow> TakeHead s r = (None, r)"
  by (simp add: TakeHead_def)

lemma TakeHead_Cons:
  assumes "queue_inv r" and "sess r s = m # l"
  shows "TakeHead s r = (Some (captureReservationLocked m (store_entries s l r)), store_entries s l r)"
  using assms lowestPositionIndex_sorted [OF slist_ok_sorted [OF queue_inv_sess [OF assms(1), of s]]]
  by (simp add: TakeHead_def Let_def)

lemma TakeHead_SomeE:
  assumes "queue_inv r" and "TakeHead s r = (Some m, r')"
  obtains h l where "sess r s = h # l" and "m = captureReservationLocked h r'"
    and "r' = store_entries s l r" and "queue_inv r'"
proof (cases "sess r s")
  case (Cons h l)
  with TakeHead_Cons [OF assms(1) Cons] assms(2) keepsD [OF keeps_TakeHead assms(1), of s]
  show ?thesis by (intro that) auto
qed (use assms in simp)

interpretation memory_fifo: fifo_queue "insert_into s" "TakeHead s" queue_inv
    "\<lambda>r. map payload (sess r s)" "inserted_payload s" payload for s
proof unfold_locales
  fix r m
  assume inv: "queue_inv r"
  show "queue_inv (insert_into s m r)"
    using keepsD [OF keeps_Insert inv] by (simp add: insert_into_def split: prod.split)
  show "map payload (sess (insert_into s m r) s) = map payload (sess r s) @ [inserted_payload s m]"
    by (simp add: insert_into_def inserted_payload_def Insert_unbounded split: prod.split)
  show "TakeHead s r = (None, r)" if "map payload (sess r s) = []"
    using that by simp
  show "\<exists>x r'. TakeHead s r = (Some x, r') \<and> payload x = v \<and> map payload (sess r' s) = vs \<and> queue_inv r'"
    if "map payload (sess r s) = v # vs" for v vs
    using that inv keepsD [OF keeps_TakeHead inv, of s] by (auto simp: TakeHead_Cons)
qed

section \<open>Properties\<close>

text \<open>
  C5: first in, first out.  From any reachable repository, however inserts into a session and
  dequeues from it are interleaved, the dequeued payloads followed by what is still queued are what
  was queued at the start followed by what was inserted, in that order.
\<close>

theorem fifo_order:
  assumes "reachable r" and "run_cmds (insert_into s) (TakeHead s) cs r = (out, r')"
  shows "map payload out @ map payload (sess r' s) =
         map payload (sess r s) @ map (inserted_payload s) (enqueued cs)"
  using memory_fifo.conserves [OF reachable_inv [OF assms(1)] assms(2)] .

theorem fifo_order_witness:
  "\<exists>out r'. run_cmds (insert_into ''s'') (TakeHead ''s'') [Deq, Enq (ex_env, ex_msg ''c'' ''third''), Deq] ex_two
              = (out, r') \<and>
     map payload out @ map payload (sess r' ''s'') =
       map payload (sess ex_two ''s'') @ [inserted_payload ''s'' (ex_env, ex_msg ''c'' ''third'')]"
proof -
  obtain out r' where "run_cmds (insert_into ''s'') (TakeHead ''s'')
      [Deq, Enq (ex_env, ex_msg ''c'' ''third''), Deq] ex_two = (out, r')" by fastforce
  with fifo_order [OF reachable_ex_two this] show ?thesis by simp
qed

text \<open>
  C32: draining.  Taking the head as often as the session has entries returns every entry, each once
  and in order, and leaves the session empty.
\<close>

theorem drain_session:
  assumes "reachable r" and "CountBySession s r \<le> n"
  shows "\<exists>out r'. run_cmds (insert_into s) (TakeHead s) (replicate n Deq) r = (out, r') \<and>
           map payload out = map payload (ListBySession s r) \<and> CountBySession s r' = 0"
proof -
  note inv = reachable_inv [OF assms(1)]
  have "ListBySession s r = sess r s"
    using slist_ok_sort_id [OF queue_inv_sess [OF inv]] by (simp add: ListBySession_def)
  with memory_fifo.drains [OF inv, of s n] assms(2) show ?thesis
    by (simp add: CountBySession_def)
qed

theorem drain_session_witness:
  "\<exists>out r'. run_cmds (insert_into ''s'') (TakeHead ''s'') (replicate 2 Deq) ex_two = (out, r') \<and>
     map payload out = map payload (ListBySession ''s'' ex_two) \<and> CountBySession ''s'' r' = 0"
  using drain_session [OF reachable_ex_two, of "''s''" 2] by (simp add: CountBySession_def sess_ex_two)

text \<open>
  Insertion and its capacity limit.  A full session (a positive limit, reached) refuses with
  \<open>ErrQueueFull\<close> and nothing changes.  Otherwise the row is appended behind every row of the session
  with a strictly greater position, the other sessions are untouched, and a session within the limit
  stays within it.
\<close>

theorem insert_capacity:
  assumes "reachable r" and "qm_SessionID msg = s"
  shows "if 0 < cap \<and> cap \<le> int (CountBySession s r)
         then Insert e msg cap r = (Inl ErrQueueFull, r)
         else \<exists>m r'. Insert e msg cap r = (Inr m, r') \<and> payload m = payload (fill_identity e msg) \<and>
                sess r' s = sess r s @ [m] \<and> (\<forall>x\<in>set (sess r s). qm_Position x < qm_Position m) \<and>
                (\<forall>s'. s' \<noteq> s \<longrightarrow> sess r' s' = sess r s') \<and>
                (0 < cap \<longrightarrow> int (CountBySession s r') \<le> cap)"
proof -
  have "\<forall>x\<in>set (sess r s). qm_Position x < nextPos r s + 1"
    using slist_ok_member [OF queue_inv_sess [OF reachable_inv [OF assms(1)]]] by force
  then show ?thesis
    using assms(2) by (auto simp: Insert_def insertLocked_def CountBySession_def Let_def)
qed

theorem insert_capacity_witness:
  "Insert ex_env (ex_msg ''c'' ''third'') 2 ex_two = (Inl ErrQueueFull, ex_two)"
  using insert_capacity [OF reachable_ex_two, of "ex_msg ''c'' ''third''" "''s''" 2 ex_env]
  by (simp add: CountBySession_def sess_ex_two ex_msg_def)

lemma sort_search_front:
  assumes "\<forall>x\<in>set l. p < qm_Position x"
  shows "sort_search 0 (length l) (\<lambda>j. qm_Position (l ! j) > p) = 0"
proof -
  have "sort_search 0 (length l) (\<lambda>j. qm_Position (l ! j) > p) \<le> length l \<and>
      (\<forall>k < sort_search 0 (length l) (\<lambda>j. qm_Position (l ! j) > p). \<not> p < qm_Position (l ! k)) \<and>
      (\<forall>k. sort_search 0 (length l) (\<lambda>j. qm_Position (l ! j) > p) \<le> k \<and> k < length l \<longrightarrow> p < qm_Position (l ! k))"
    using assms by (intro sort_search_spec) auto
  then show ?thesis using assms by (metis gr0I nth_mem order_less_le_trans)
qed

lemma distinct_head_less:
  assumes "sorted (map qm_Position (h # l))" and "distinct (map qm_Position (h # l))"
  shows "\<forall>x\<in>set l. qm_Position h < qm_Position x"
  using assms by (force simp: order_less_le)

text \<open>
  Putting a dequeued row back.  When positions are distinct, restoring the row \<open>TakeHead\<close>
  returned, before anything invalidated it, puts it back in front: the session lists the same
  payloads in the same order as before, and the row keeps its position.
\<close>

theorem take_restore_roundtrip:
  assumes "reachable r" and "TakeHead s r = (Some m, r1)"
    and "distinct (map qm_Position (ListBySession s r))"
    and "qm_ID m \<noteq> []" and "\<not> IsZero (qm_QueuedAt m)"
  shows "\<exists>r2. Restore e (Some m) 0 r1 = (Inr m, r2) \<and>
           map payload (ListBySession s r2) = map payload (ListBySession s r) \<and>
           map qm_Position (ListBySession s r2) = map qm_Position (ListBySession s r)"
proof -
  note inv = reachable_inv [OF assms(1)]
  obtain h l where hl: "sess r s = h # l" and m: "m = captureReservationLocked h r1"
    and r1: "r1 = store_entries s l r"
    using TakeHead_SomeE [OF inv assms(2)] by metis
  note ok = queue_inv_sess [OF inv, of s, unfolded hl]
  have list: "ListBySession s r = h # l"
    using slist_ok_sort_id [OF ok] by (simp add: ListBySession_def hl)
  have mh: "qm_SessionID m = s" "qm_Position m = qm_Position h" "payload m = payload h"
    "qm_reservationSessionGeneration m = gm_get0 0 (r_sessionGeneration r1) s" "fill_identity e m = m"
    using slist_ok_ConsD(2) [OF ok] assms(4,5)
    by (simp_all add: m captureReservationLocked_def fill_identity_def payload_def)
  have less: "\<forall>x\<in>set l. qm_Position m < qm_Position x"
    using distinct_head_less [OF slist_ok_sorted [OF ok]] assms(3) by (simp add: list mh)
  have l: "sess r1 s = l" by (simp add: r1)
  have restored: "Restore e (Some m) 0 r1 = (Inr m, raise_next s (qm_Position m) (put_entries s (m # l) r1))"
    using mh l sort_search_front [OF less] by (simp add: Restore_def restoreLocked_def Let_def)
  have "sorted (map qm_Position (m # l))" using slist_ok_sorted [OF ok] mh by simp
  then have "ListBySession s (snd (Restore e (Some m) 0 r1)) = m # l"
    by (simp add: restored ListBySession_def sort_key_id_if_sorted del: sort_key_simps)
  then show ?thesis using restored mh list by simp
qed

theorem take_restore_roundtrip_witness:
  "\<exists>m r1 r2. TakeHead ''s'' ex_two = (Some m, r1) \<and> Restore ex_env (Some m) 0 r1 = (Inr m, r2) \<and>
     map payload (ListBySession ''s'' r2) = map payload (ListBySession ''s'' ex_two) \<and>
     map qm_Position (ListBySession ''s'' r2) = map qm_Position (ListBySession ''s'' ex_two)"
proof -
  note inv = reachable_inv [OF reachable_ex_two]
  obtain m r1 where take: "TakeHead ''s'' ex_two = (Some m, r1)"
    and m: "qm_ID m \<noteq> []" "\<not> IsZero (qm_QueuedAt m)"
    using TakeHead_Cons [OF inv, of "''s''"]
    by (simp add: sess_ex_two captureReservationLocked_def ex_msg_def IsZero_def)
  have "distinct (map qm_Position (ListBySession ''s'' ex_two))"
    by (simp add: ListBySession_def sess_ex_two)
  from take_restore_roundtrip [OF reachable_ex_two take this m] take show ?thesis by blast
qed

lemma payload_shift: "map payload (shift_positions d l) = map payload l"
  by (simp add: shift_positions_def)

lemma nextRequeue_payload:
  "nextRequeuePositionLocked s l r = (p, l', r') \<Longrightarrow> map payload l' = map payload l"
  by (auto simp: nextRequeuePositionLocked_def Let_def payload_shift simp del: list.map
      split: list.splits if_splits)

text \<open>
  Requeueing ahead of the head.  An ordinary message (not a durable reservation, without a
  coalesce key, not invalidated since it was taken) that is requeued becomes the head: the next
  dequeue returns it, and the rows behind it keep their payloads and order, even when positions
  have to be shifted to make room.
\<close>

theorem requeue_is_next:
  assumes "reachable r" and "\<not> qm_reservedDelivery m"
    and "qm_reservationGenerationsCaptured m \<longrightarrow>
           qm_reservationSessionGeneration m = SessionGeneration (qm_SessionID m) r"
    and "metadataString (qm_Metadata m) MetadataCoalesceKey = []"
  shows "\<exists>m' r' h r''. RequeuePreservingFIFO e (Some m) r = (Inr m', r') \<and>
           payload m' = payload (fill_identity e m) \<and>
           map payload (ListBySession (qm_SessionID m) r') =
             payload m' # map payload (ListBySession (qm_SessionID m) r) \<and>
           TakeHead (qm_SessionID m) r' = (Some h, r'') \<and> payload h = payload m'"
proof -
  let ?s = "qm_SessionID m"
  note inv = reachable_inv [OF assms(1)]
  obtain p l r1 where pos: "nextRequeuePositionLocked ?s (sess r ?s) r = (p, l, r1)"
    using prod_cases3 by blast
  let ?m = "(fill_identity e m)\<lparr>qm_Position := p\<rparr>"
  have op: "RequeuePreservingFIFO e (Some m) r = (Inr ?m, put_entries ?s (?m # l) r1)"
    using assms(2-4) pos
    by (auto simp: RequeuePreservingFIFO_def requeuePreservingFIFOLocked_def SessionGeneration_def Let_def)
  let ?r = "put_entries ?s (?m # l) r1"
  have inv': "queue_inv ?r" using keepsD [OF keeps_Requeue(1) inv, of e "Some m"] op by simp
  have lists: "ListBySession ?s ?r = ?m # l" "ListBySession ?s r = sess r ?s"
    using slist_ok_sort_id [OF queue_inv_sess [OF inv', of ?s]] slist_ok_sort_id [OF queue_inv_sess [OF inv]]
    by (simp_all add: ListBySession_def)
  have "TakeHead ?s ?r = (Some (captureReservationLocked ?m (store_entries ?s l ?r)), store_entries ?s l ?r)"
    by (rule TakeHead_Cons [OF inv']) simp
  with op lists nextRequeue_payload [OF pos] show ?thesis by simp
qed

theorem requeue_is_next_witness:
  "\<exists>m' r' h r''. RequeuePreservingFIFO ex_env (Some (ex_msg ''c'' ''again'')) ex_two = (Inr m', r') \<and>
     TakeHead ''s'' r' = (Some h, r'') \<and> payload h = payload m'"
proof -
  have "qm_SessionID (ex_msg ''c'' ''again'') = ''s''" by (simp add: ex_msg_def)
  with requeue_is_next [OF reachable_ex_two, of "ex_msg ''c'' ''again''" ex_env] show ?thesis
    by (auto simp: ex_msg_def zero_message_def metadataString_def)
qed

section \<open>Reordering\<close>

abbreviation visible :: "QueuedMessage list \<Rightarrow> QueuedMessage list" where
  "visible l \<equiv> filter (\<lambda>m. \<not> IsReservedInFlight m) l"

lemma reorder_lookup_iff:
  "reorder_lookup v seen ids = Inr ms \<longleftrightarrow>
   distinct ids \<and> set ids \<inter> set seen = {} \<and> map (entry_by_id v) ids = map Some ms"
proof (induction ids arbitrary: seen ms)
  case (Cons x ids)
  have eq: "reorder_lookup v seen (x # ids) = Inr ms \<longleftrightarrow> x \<notin> set seen \<and>
      (\<exists>m ms'. entry_by_id v x = Some m \<and> reorder_lookup v (x # seen) ids = Inr ms' \<and> ms = m # ms')"
    by (auto split: option.splits sum.splits)
  show ?case unfolding eq Cons.IH by (cases ms) auto
qed auto

lemma entry_by_id_None_iff: "entry_by_id l x = None \<longleftrightarrow> x \<notin> qm_ID ` set l"
  by (auto simp: entry_by_id_def find_None_iff)

lemma entry_by_id_distinct:
  "distinct (map qm_ID l) \<Longrightarrow> m \<in> set l \<Longrightarrow> entry_by_id l (qm_ID m) = Some m"
proof -
  assume "distinct (map qm_ID l)" and m: "m \<in> set l"
  moreover obtain m' where m': "entry_by_id l (qm_ID m) = Some m'"
    using m entry_by_id_None_iff by fastforce
  ultimately show ?thesis using entry_by_id_SomeD [OF m'] by (auto simp: distinct_map dest: inj_onD)
qed

lemma map_Some_entry:
  "map (entry_by_id v) ids = map Some ms \<Longrightarrow> map qm_ID ms = ids \<and> set ms \<subseteq> set v"
proof (induction ids arbitrary: ms)
  case (Cons x ids)
  then obtain m ms' where "ms = m # ms'" "entry_by_id v x = Some m"
    "map (entry_by_id v) ids = map Some ms'" by auto
  with Cons.IH [of ms'] entry_by_id_SomeD [of v x m] show ?case by simp
qed simp

lemma same_ids_same_rows:
  assumes ids: "distinct ids" "length ids = length v" and ms: "map qm_ID ms = ids" "set ms \<subseteq> set v"
  shows "mset ms = mset v" and "mset ids = mset (map qm_ID v)"
proof -
  have dms: "distinct ms" and len: "length ms = length v"
    using ids ms(1) by (auto simp: distinct_map)
  have card: "card (set ms) = length v" using dms len by (simp add: distinct_card)
  then have "set ms = set v"
    using ms(2) card_length [of v] card_seteq [of "set v" "set ms"] by simp
  moreover from this have "distinct v" using card by (simp add: card_distinct)
  ultimately show "mset ms = mset v" using dms by (simp add: set_eq_iff_mset_eq_distinct)
  then have "mset (map qm_ID ms) = mset (map qm_ID v)" by simp
  then show "mset ids = mset (map qm_ID v)" using ms(1) by simp
qed

lemma validateReorderSet_InrD:
  assumes "validateReorderSet v ids = Inr ms"
  shows "distinct ids" "map qm_ID ms = ids" "mset ms = mset v" "mset ids = mset (map qm_ID v)"
proof -
  have ids: "length ids = length v" "distinct ids" "map (entry_by_id v) ids = map Some ms"
    using assms by (auto simp: validateReorderSet_def reorder_lookup_iff split: if_splits)
  note ms = map_Some_entry [OF ids(3)]
  show "distinct ids" "map qm_ID ms = ids" using ids ms by auto
  show "mset ms = mset v" "mset ids = mset (map qm_ID v)"
    using same_ids_same_rows [OF ids(2,1)] ms by blast+
qed

lemma validateReorderSet_complete:
  assumes "distinct ids" and "mset ids = mset (map qm_ID v)"
  shows "\<exists>ms. validateReorderSet v ids = Inr ms"
proof -
  have len: "length ids = length v" using mset_eq_length [OF assms(2)] by simp
  have "set ids = qm_ID ` set v" using mset_eq_setD [OF assms(2)] by simp
  then have "\<forall>x\<in>set ids. entry_by_id v x \<noteq> None" by (simp add: entry_by_id_None_iff)
  then have "map (entry_by_id v) ids = map Some (map (\<lambda>x. the (entry_by_id v x)) ids)" by auto
  then have "reorder_lookup v [] ids = Inr (map (\<lambda>x. the (entry_by_id v x)) ids)"
    using assms(1) by (simp add: reorder_lookup_iff)
  with len show ?thesis by (simp add: validateReorderSet_def)
qed

lemma validateReorderSet_Inl: "validateReorderSet v ids = Inl err \<Longrightarrow> err = ErrQueueChanged"
proof -
  have "reorder_lookup v seen ids = Inl err \<Longrightarrow> err = ErrQueueChanged" for seen
    by (induction ids arbitrary: seen) (auto split: if_splits option.splits sum.splits)
  then show "validateReorderSet v ids = Inl err \<Longrightarrow> err = ErrQueueChanged"
    by (auto simp: validateReorderSet_def split: if_splits)
qed

text \<open>Interleaving keeps reserved rows in place and takes the others in the given order.\<close>

lemma interleave_spec:
  assumes "length ordered = length (visible l)" and "\<forall>m\<in>set ordered. \<not> IsReservedInFlight m"
  shows "length (interleave l ordered) = length l"
    and "visible (interleave l ordered) = ordered"
    and "\<forall>k < length l. IsReservedInFlight (l ! k) \<longrightarrow> interleave l ordered ! k = l ! k"
    and "mset ordered = mset (visible l) \<Longrightarrow> mset (interleave l ordered) = mset l"
proof -
  have "length (interleave l ordered) = length l \<and> visible (interleave l ordered) = ordered \<and>
    (\<forall>k < length l. IsReservedInFlight (l ! k) \<longrightarrow> interleave l ordered ! k = l ! k) \<and>
    mset (interleave l ordered) = mset (filter IsReservedInFlight l) + mset ordered"
    using assms
  proof (induction l ordered rule: interleave.induct)
    case (2 m ms ordered)
    show ?case
    proof (cases "IsReservedInFlight m")
      case True
      with 2 show ?thesis by (auto simp: nth_Cons split: nat.splits)
    next
      case False
      then obtain x xs where "ordered = x # xs" using "2.prems" by (cases ordered) auto
      with 2 False show ?thesis by (auto simp: nth_Cons split: nat.splits)
    qed
  qed auto
  then show "length (interleave l ordered) = length l" "visible (interleave l ordered) = ordered"
    "\<forall>k < length l. IsReservedInFlight (l ! k) \<longrightarrow> interleave l ordered ! k = l ! k"
    "mset ordered = mset (visible l) \<Longrightarrow> mset (interleave l ordered) = mset l"
    using multiset_partition [of "mset l" IsReservedInFlight] by simp_all
qed

lemma number_from_simps [simp]:
  "length (number_from n l) = length l" "map payload (number_from n l) = map payload l"
  by (induction l arbitrary: n) auto

lemma number_from_positions: "map qm_Position (number_from n l) = [n..n + int (length l) - 1]"
proof (induction l arbitrary: n)
  case (Cons m l)
  have "[n..n + int (length (m # l)) - 1] = n # [n + 1..n + 1 + int (length l) - 1]"
    by (subst upto_rec1) (simp_all add: algebra_simps)
  with Cons [of "n + 1"] show ?case by simp
qed simp

lemma visible_payload: "map payload (visible l) = visible (map payload l)"
  by (induction l) (auto simp: payload_def IsReservedInFlight_def)

lemma reserved_payload: "IsReservedInFlight (payload m) = IsReservedInFlight m" "qm_ID (payload m) = qm_ID m"
  by (simp_all add: payload_def IsReservedInFlight_def)

lemma visible_ids: "map payload l = map payload l' \<Longrightarrow> map qm_ID (visible l) = map qm_ID (visible l')"
proof -
  assume "map payload l = map payload l'"
  then have "map payload (visible l) = map payload (visible l')" by (simp add: visible_payload)
  then have "map qm_ID (map payload (visible l)) = map qm_ID (map payload (visible l'))" by simp
  then show ?thesis by (simp add: reserved_payload(2) comp_def)
qed

text \<open>
  C31: reordering.  A reorder request succeeds exactly when it lists the identifiers of the rows that
  are not reserved, each once; every other request is refused with \<open>ErrQueueChanged\<close> and changes
  nothing.  After a success the session holds the same payloads, numbered 1 to n; the rows that are
  not reserved are in the requested order, and each reserved row is at the place it had.
\<close>

theorem reorder_exact:
  assumes "reachable r"
  shows "if distinct ids \<and> mset ids = mset (map qm_ID (visible (ListBySession s r)))
         then \<exists>r'. ReorderEntries s ids r = (Inr (), r') \<and>
                map qm_ID (visible (ListBySession s r')) = ids \<and>
                mset (map payload (ListBySession s r')) = mset (map payload (ListBySession s r)) \<and>
                map qm_Position (ListBySession s r') = [1..int (CountBySession s r)] \<and>
                (\<forall>k < CountBySession s r. IsReservedInFlight (ListBySession s r ! k) \<longrightarrow>
                   payload (ListBySession s r' ! k) = payload (ListBySession s r ! k))
         else ReorderEntries s ids r = (Inl ErrQueueChanged, r)"
proof -
  let ?l = "sess r s"
  note inv = reachable_inv [OF assms]
  have sorted: "sort_key qm_Position ?l = ?l" using slist_ok_sort_id [OF queue_inv_sess [OF inv]] .
  show ?thesis
  proof (cases "validateReorderSet (visible ?l) ids")
    case (Inl err)
    with validateReorderSet_Inl [OF Inl] validateReorderSet_complete [of ids "visible ?l"] sorted
    show ?thesis
      by (auto simp: ReorderEntries_def reorderEntriesLocked_def splitVisibleAndReserved_def
          ListBySession_def Let_def)
  next
    case (Inr ms)
    note ms = validateReorderSet_InrD [OF Inr]
    define seq where "seq = number_from 1 (interleave ?l ms)"
    have "\<forall>m\<in>set ms. \<not> IsReservedInFlight m" using mset_eq_setD [OF ms(3)] by auto
    note il = interleave_spec [OF mset_eq_length [OF ms(3)] this]
    have len: "length seq = length ?l" using il(1) by (simp add: seq_def)
    have "ReorderEntries s ids r =
        (Inr (), if seq = [] then r else raise_next s (int (length seq)) (put_entries s seq r))"
      using Inr sorted
      by (simp add: ReorderEntries_def reorderEntriesLocked_def splitVisibleAndReserved_def
          seq_def [symmetric])
    then obtain r' where op: "ReorderEntries s ids r = (Inr (), r')" and r': "sess r' s = seq"
      using len by (cases "seq = []") auto
    have pay: "map payload seq = map payload (interleave ?l ms)" by (simp add: seq_def)
    have pos: "map qm_Position seq = [1..int (length ?l)]"
      using number_from_positions [of 1 "interleave ?l ms"] il(1) by (simp add: seq_def)
    then have list: "ListBySession s r' = seq"
      using r' by (simp add: ListBySession_def sort_key_id_if_sorted)
    have "map qm_ID (visible seq) = ids" using visible_ids [OF pay] il(2) ms(2) by simp
    moreover have "mset (map payload seq) = mset (map payload ?l)" using pay il(4) [OF ms(3)] by simp
    moreover have "payload (seq ! k) = payload (?l ! k)" if "k < length ?l" "IsReservedInFlight (?l ! k)" for k
    proof -
      have "map payload seq ! k = map payload (interleave ?l ms) ! k" by (simp only: pay)
      then show ?thesis using that il(1,3) len by (simp only: nth_map length_map)
    qed
    ultimately show ?thesis
      using op list r' pos ms(1,4) sorted by (simp add: ListBySession_def CountBySession_def)
  qed
qed

theorem reorder_exact_witness:
  "\<exists>r'. ReorderEntries ''s'' [''b'', ''a''] ex_two = (Inr (), r') \<and>
     map qm_ID (visible (ListBySession ''s'' r')) = [''b'', ''a''] \<and>
     map qm_Position (ListBySession ''s'' r') = [1..2]"
  using reorder_exact [OF reachable_ex_two, of "[''b'', ''a'']" "''s''"]
  by (auto simp: ListBySession_def CountBySession_def sess_ex_two ex_msg_def zero_message_def
      IsReservedInFlight_def metadataBool_def add_mset_commute)

lemma reserved_survives_remove:
  assumes "m \<in> set l" and "IsReservedInFlight m" and "\<not> IsReservedInFlight (l ! k)"
  shows "m \<in> set (remove_nth k l)"
proof -
  obtain j where j: "j < length l" "l ! j = m" using assms(1) by (auto simp: in_set_conv_nth)
  then have "j \<noteq> k" using assms(2,3) by auto
  then consider "j < k" | "k < j" by linarith
  then show ?thesis
  proof cases
    case 1
    then have "m = take k l ! j" "j < length (take k l)" using j by auto
    then show ?thesis by (metis UnCI nth_mem remove_nth_def set_append)
  next
    case 2
    then have "m = drop (Suc k) l ! (j - Suc k)" "j - Suc k < length (drop (Suc k) l)" using j by auto
    then show ?thesis by (metis UnCI nth_mem remove_nth_def set_append)
  qed
qed

text \<open>
  Rows reserved for delivery are out of reach of the editing operations.  Updating the content
  of an entry, deleting an entry and clearing the session leave every reserved row of the session
  exactly as it is.
\<close>

theorem edits_keep_reserved:
  assumes "m \<in> set (sess r s)" and "IsReservedInFlight m"
  shows "m \<in> set (sess (snd (UpdateContentAndMetadata s x content atts updates queuedBy r)) s) \<and>
         m \<in> set (sess (snd (DeleteByID s x r)) s) \<and>
         m \<in> set (sess (snd (DeleteAllBySession s r)) s)"
proof (intro conjI)
  have "m \<in> set ((sess r s)[k := q])" if "\<not> IsReservedInFlight (sess r s ! k)" for k q
    using assms that by (metis in_set_conv_nth length_list_update nth_list_update_neq)
  then show "m \<in> set (sess (snd (UpdateContentAndMetadata s x content atts updates queuedBy r)) s)"
    using assms by (auto simp: UpdateContentAndMetadata_def updateContentAndMetadataLocked_def Let_def
        split: option.split)
  show "m \<in> set (sess (snd (DeleteByID s x r)) s)"
    using assms reserved_survives_remove [OF assms]
    by (auto simp: DeleteByID_def deleteByIDLocked_def Let_def split: option.split)
  show "m \<in> set (sess (snd (DeleteAllBySession s r)) s)"
    using assms by (simp add: DeleteAllBySession_def deleteAllBySessionLocked_def Let_def)
qed

definition ex_reserved :: QueuedMessage where
  "ex_reserved = (ex_msg ''r'' ''in flight'')\<lparr>qm_Metadata := [(MetadataLifecycleReserved, MBool True)]\<rparr>"

theorem edits_keep_reserved_witness:
  "ex_reserved\<lparr>qm_Position := 1\<rparr> \<in>
     set (sess (snd (DeleteByID ''s'' ''r'' (snd (Insert ex_env ex_reserved 0 NewMemoryRepository)))) ''s'')"
proof -
  let ?m = "ex_reserved\<lparr>qm_Position := 1\<rparr>" and ?r = "snd (Insert ex_env ex_reserved 0 NewMemoryRepository)"
  have "?m \<in> set (sess ?r ''s'')" "IsReservedInFlight ?m"
    by (simp_all add: Insert_unbounded ex_reserved_def ex_msg_def NewMemoryRepository_def put_entries_def
        put_next_def fill_identity_def IsZero_def IsReservedInFlight_def metadataBool_def gm_get_def)
  from edits_keep_reserved [OF this, of "''r''"] show ?thesis by blast
qed

end
