(* ===== verification/Queue_Purge.thy ===== *)
theory Queue_Purge
  imports Queue_Fifo
begin

text \<open>
  Destructive mutations of a session or a task: what purging and transferring do to the rows, and
  how the generation fences keep work that was handed out earlier from coming back.
\<close>

section \<open>Fences\<close>

lemma SessionGeneration_simps [simp]:
  "SessionGeneration s (snd (DeleteAllBySession s' r)) =
     (if s = s' then SessionGeneration s r + 1 else SessionGeneration s r)"
  "SessionGeneration s (snd (PurgeSession s' r)) =
     (if s = s' then SessionGeneration s r + 1 else SessionGeneration s r)"
  "SessionGeneration s (snd (ReplaceSession s' ms pmo r)) =
     (if s = s' then SessionGeneration s r + 1 else SessionGeneration s r)"
  by (simp_all add: SessionGeneration_def DeleteAllBySession_def deleteAllBySessionLocked_def
      PurgeSession_def ReplaceSession_def replaceSessionLocked_def store_entries_def put_entries_def raise_next_def put_next_def Let_def
      split: option.split)

lemma TakeHead_stamp:
  assumes "queue_inv r" and "TakeHead s r = (Some m, r1)"
  shows "qm_SessionID m = s" and "qm_reservationGenerationsCaptured m"
    and "qm_reservationSessionGeneration m = SessionGeneration s r1"
proof -
  have "sess r s \<noteq> []" using assms(2) by (auto simp: TakeHead_def Let_def)
  then have "sess r s ! lowestPositionIndex (sess r s) \<in> set (sess r s)"
    using lowestPositionIndex_spec(1) by simp
  then have "qm_SessionID (sess r s ! lowestPositionIndex (sess r s)) = s"
    using slist_ok_member [OF queue_inv_sess [OF assms(1)]] by blast
  then show "qm_SessionID m = s" "qm_reservationGenerationsCaptured m"
    "qm_reservationSessionGeneration m = SessionGeneration s r1"
    using assms(2) by (auto simp: TakeHead_def captureReservationLocked_def SessionGeneration_def Let_def
        split: if_splits)
qed

lemma stale_refused:
  assumes "qm_reservationGenerationsCaptured m"
    and "qm_reservationSessionGeneration m \<noteq> SessionGeneration (qm_SessionID m) r"
  shows "Restore e (Some m) cap r = (Inl ErrQueueDispatchClaimChanged, r)"
    and "RequeuePreservingFIFO e (Some m) r = (Inl ErrQueueDispatchClaimChanged, r)"
  using assms by (simp_all add: Restore_def restoreLocked_def RequeuePreservingFIFO_def
      requeuePreservingFIFOLocked_def SessionGeneration_def Let_def)

text \<open>
  C12: clearing a session fences what was dequeued from it.  A row that was dequeued before the
  session was cleared by \<open>DeleteAllBySession\<close>, purged by \<open>PurgeSession\<close> or replaced by
  \<open>ReplaceSession\<close> can never be put back, by \<open>Restore\<close> or by \<open>RequeuePreservingFIFO\<close>,
  whatever operations ran before and after the clearing: both refuse with
  \<open>ErrQueueDispatchClaimChanged\<close> and change nothing.  Two clearing operations do not advance
  the generation of the session, \<open>DeleteAllBySessionForIdentity\<close> and \<open>PurgeDeletedSession\<close>:
  after the former the row can be put back (\<open>identity_clear_open\<close>).
\<close>

theorem cleared_session_fences:
  assumes "reachable r" and "TakeHead s r = (Some m, r1)" and "queue_step\<^sup>*\<^sup>* r1 r2"
    and "r3 \<in> {snd (DeleteAllBySession s r2), snd (PurgeSession s r2), snd (ReplaceSession s ms pmo r2)}" and "queue_step\<^sup>*\<^sup>* r3 r4"
  shows "Restore e (Some m) cap r4 = (Inl ErrQueueDispatchClaimChanged, r4) \<and>
         RequeuePreservingFIFO e (Some m) r4 = (Inl ErrQueueDispatchClaimChanged, r4)"
proof -
  note m = TakeHead_stamp [OF reachable_inv [OF assms(1)] assms(2)]
  have "SessionGeneration s r1 \<le> SessionGeneration s r2" using assms(3) by (rule restore_fence.gen_run)
  also have "\<dots> < SessionGeneration s r3" using assms(4) by auto
  also have "\<dots> \<le> SessionGeneration s r4" using assms(5) by (rule restore_fence.gen_run)
  finally have "qm_reservationSessionGeneration m \<noteq> SessionGeneration (qm_SessionID m) r4"
    using m by simp
  with stale_refused [OF m(2)] show ?thesis by blast
qed

theorem cleared_session_fences_witness:
  "\<exists>m r1. TakeHead ''s'' ex_two = (Some m, r1) \<and>
     Restore ex_env (Some m) 0 (snd (DeleteAllBySession ''s'' r1)) =
       (Inl ErrQueueDispatchClaimChanged, snd (DeleteAllBySession ''s'' r1))"
proof -
  obtain m r1 where "TakeHead ''s'' ex_two = (Some m, r1)" by (simp add: TakeHead_def sess_ex_two Let_def)
  with cleared_session_fences [OF reachable_ex_two this rtranclp.rtrancl_refl _ rtranclp.rtrancl_refl, where e = ex_env and cap = 0]
  show ?thesis by blast
qed

text \<open>
  Clearing a session through its identity does not fence.  The row that was dequeued last is accepted
  back right after \<open>DeleteAllBySessionForIdentity\<close>.
\<close>

lemma identity_clear_generation:
  "r_sessionGeneration (snd (DeleteAllBySessionForIdentity i r)) = r_sessionGeneration r"
  by (simp add: DeleteAllBySessionForIdentity_def with_identity_def bindIdentityLocked_def
      deleteAllBySessionForIdentityLocked_def lift_pure_def drop_next_if_empty_def store_entries_def put_entries_def Let_def
      split: option.split sum.split prod.split)

theorem identity_clear_open:
  assumes "reachable r" and "TakeHead s r = (Some m, r1)"
  shows "\<exists>r2. Restore e (Some m) 0 (snd (DeleteAllBySessionForIdentity i r1)) = (Inr (fill_identity e m), r2) \<and>
           fill_identity e m \<in> set (sess r2 s)"
proof -
  note m = TakeHead_stamp [OF reachable_inv [OF assms(1)] assms(2)]
  have "gm_get0 0 (r_sessionGeneration (snd (DeleteAllBySessionForIdentity i r1))) s = qm_reservationSessionGeneration m"
    using m(3) by (simp add: identity_clear_generation SessionGeneration_def)
  then show ?thesis using m(1) by (simp add: Restore_def restoreLocked_def Let_def)
qed

text \<open>
  Purging a task cancels its lifecycle work.  A lifecycle message stamped with the generation its
  task had before a purge is refused with \<open>ErrLifecycleCancelled\<close> from then on, whatever happens
  after the purge.
\<close>

theorem purged_task_fences:
  assumes "lifecycleGenerationFromMetadata (qm_Metadata m) = Some (LifecycleGeneration (qm_TaskID m) r)"
    and "queue_step\<^sup>*\<^sup>* (snd (PurgeTask (qm_TaskID m) r)) r'"
  shows "InsertOrReplaceLifecycleByCoalesceKey e m key cap allowInsert r' = (Inl ErrLifecycleCancelled, r')"
proof -
  have "LifecycleGeneration (qm_TaskID m) r < LifecycleGeneration (qm_TaskID m) (snd (PurgeTask (qm_TaskID m) r))"
    by (simp add: LifecycleGeneration_def PurgeTask_def)
  also have "\<dots> \<le> LifecycleGeneration (qm_TaskID m) r'" using assms(2) by (rule lifecycle_fence.gen_run)
  finally show ?thesis
    using assms(1) by (simp add: InsertOrReplaceLifecycleByCoalesceKey_def insertOrReplaceLifecycleLocked_def
        LifecycleGeneration_def)
qed

definition ex_lifecycle :: QueuedMessage where
  "ex_lifecycle = (ex_msg ''l'' ''ci failed'')\<lparr>qm_Metadata :=
     [(MetadataLifecycleDurable, MBool True), (MetadataLifecycleGeneration, MInt 0),
      (MetadataCoalesceKey, MStr ''pr-1'')]\<rparr>"

theorem purged_task_fences_witness:
  "InsertOrReplaceLifecycleByCoalesceKey ex_env ex_lifecycle ''pr-1'' 0 True
     (snd (PurgeTask ''t'' NewMemoryRepository)) =
   (Inl ErrLifecycleCancelled, snd (PurgeTask ''t'' NewMemoryRepository))"
proof -
  have "lifecycleGenerationFromMetadata (qm_Metadata ex_lifecycle) =
      Some (LifecycleGeneration (qm_TaskID ex_lifecycle) NewMemoryRepository)"
    by (simp add: ex_lifecycle_def lifecycleGenerationFromMetadata_def gm_get_def LifecycleGeneration_def
        NewMemoryRepository_def)
  from purged_task_fences [OF this rtranclp.rtrancl_refl, of ex_env "''pr-1''" 0 True] show ?thesis
    by (simp add: ex_lifecycle_def ex_msg_def)
qed

section \<open>Purging a task\<close>

text \<open>
  Purging a task.  The count returned is the number of the task's rows; afterwards no session has
  a row of the task, all other rows are where they were, no deferred move of the task is left, and
  the task's lifecycle generation has advanced by one.
\<close>

theorem purge_task_exact:
  assumes "reachable r" and "PurgeTask t r = (n, r')"
  shows "n = length (filter (\<lambda>m. qm_TaskID m = t) (all_entries r)) \<and>
         (\<forall>s. ListBySession s r' = filter (\<lambda>m. qm_TaskID m \<noteq> t) (ListBySession s r)) \<and>
         (\<forall>s mv. GetPendingMove s r' = Some mv \<longrightarrow> pm_TaskID mv \<noteq> t) \<and>
         LifecycleGeneration t r' = LifecycleGeneration t r + 1"
proof -
  have inv: "queue_inv r" by (rule reachable_inv [OF assms(1)])
  then have wf: "gm_wf (r_entries r)" by (simp add: queue_inv_def)
  have r': "r' = snd (PurgeTask t r)" and n: "n = fst (PurgeTask t r)" using assms(2) by simp_all
  have inv': "queue_inv r'" unfolding r' by (rule keepsD [OF keeps_PurgeTask inv])
  have "ListBySession s r' = filter (\<lambda>m. qm_TaskID m \<noteq> t) (ListBySession s r)" for s
    using slist_ok_sort_id [OF queue_inv_sess [OF inv', of s]] slist_ok_sort_id [OF queue_inv_sess [OF inv, of s]]
    by (simp add: ListBySession_def r' PurgeTask_def gm_get_purge_rows [OF wf])
  moreover have "pm_TaskID mv \<noteq> t" if "GetPendingMove s r' = Some mv" for s mv
    using gm_get_in_set [OF that [unfolded GetPendingMove_def]] by (auto simp: r' PurgeTask_def)
  moreover have "LifecycleGeneration t r' = LifecycleGeneration t r + 1"
    and "n = length (filter (\<lambda>m. qm_TaskID m = t) (all_entries r))"
    by (simp_all add: r' n PurgeTask_def LifecycleGeneration_def)
  ultimately show ?thesis by blast
qed

theorem purge_task_exact_witness:
  "\<exists>r'. PurgeTask ''t'' ex_two = (2, r') \<and> ListBySession ''s'' r' = []"
proof -
  obtain n r' where p: "PurgeTask ''t'' ex_two = (n, r')" by fastforce
  have n: "n = length (filter (\<lambda>m. qm_TaskID m = ''t'') (all_entries ex_two))"
    and empty: "ListBySession ''s'' r' = filter (\<lambda>m. qm_TaskID m \<noteq> ''t'') (ListBySession ''s'' ex_two)"
    using purge_task_exact [OF reachable_ex_two p] by blast+
  obtain l where "r_entries ex_one = [(''s'', l)]"
    by (simp add: ex_one_def Insert_unbounded put_entries_def put_next_def gm_put_def ex_msg_def
        NewMemoryRepository_def)
  moreover define q where "q = sess ex_two ''s''"
  moreover have "r_entries ex_two = gm_put ''s'' q (r_entries ex_one)"
    by (simp add: q_def ex_two_def Insert_unbounded put_entries_def put_next_def ex_msg_def)
  ultimately have "r_entries ex_two = [(''s'', sess ex_two ''s'')]"
    by (simp only: gm_put_def update.simps simp_thms if_True fst_conv)
  with n have "n = 2" by (simp add: sess_ex_two) (simp add: ex_msg_def)
  moreover have "ListBySession ''s'' r' = []"
    using empty by (simp add: ListBySession_def sess_ex_two) (simp add: ex_msg_def)
  ultimately show ?thesis using p by simp
qed

text \<open>
  A purge does not fence a task's only row once it has been dequeued.  The session generation
  advances for the sessions in which the purge still finds a row or a deferred move of the task, and
  \<open>Restore\<close> compares only that generation; so a row that was the last of its task in the session is
  accepted back after the purge of its task.
\<close>

theorem purge_misses_dequeued_row:
  assumes "reachable r" and "TakeHead s r = (Some m, r1)"
    and "\<forall>x\<in>set (sess r1 s). qm_TaskID x \<noteq> qm_TaskID m"
    and "\<forall>(k, mv)\<in>set (r_pendingMoves r1). k \<noteq> s"
  shows "\<exists>m' r3. Restore e (Some m) 0 (snd (PurgeTask (qm_TaskID m) r1)) = (Inr m', r3) \<and>
           m' \<in> set (sess r3 s) \<and> qm_TaskID m' = qm_TaskID m"
proof -
  have inv: "queue_inv r" by (rule reachable_inv [OF assms(1)])
  have inv1: "queue_inv r1" using keepsD_eq [OF keeps_TakeHead inv assms(2)] .
  note m = TakeHead_stamp [OF inv assms(2)]
  let ?r2 = "snd (PurgeTask (qm_TaskID m) r1)"
  have "s \<notin> set (purge_affected (qm_TaskID m) r1)"
  proof -
    have "l = sess r1 s" if "(s, l) \<in> set (r_entries r1)" for l
      using inv1 that gm_get_wf_iff [of "r_entries r1" s l] by (simp add: queue_inv_def)
    then show ?thesis using assms(3,4) by (auto simp: purge_affected_def)
  qed
  moreover have "gm_get0 0 (foldl (\<lambda>m s. gm_incr s m) g ss) s = gm_get0 0 g s" if "s \<notin> set ss" for g ss
    using that by (induction ss arbitrary: g) auto
  ultimately have "SessionGeneration s ?r2 = SessionGeneration s r1"
    by (simp add: SessionGeneration_def PurgeTask_def)
  then have "gm_get0 0 (r_sessionGeneration ?r2) (qm_SessionID m) = qm_reservationSessionGeneration m"
    using m by (simp add: SessionGeneration_def)
  then show ?thesis
    using m(1) by (simp add: Restore_def restoreLocked_def Let_def fill_identity_def)
qed

theorem purge_misses_dequeued_row_witness:
  "\<exists>m r1 m' r3. TakeHead ''s'' ex_one = (Some m, r1) \<and>
     Restore ex_env (Some m) 0 (snd (PurgeTask (qm_TaskID m) r1)) = (Inr m', r3) \<and> m' \<in> set (sess r3 ''s'')"
proof -
  obtain m r1 where take: "TakeHead ''s'' ex_one = (Some m, r1)" and r1: "r1 = store_entries ''s'' [] ex_one"
    by (simp add: TakeHead_def sess_ex_one Let_def lowestPositionIndex_def)
  have "r_pendingMoves ex_one = []"
    by (simp add: ex_one_def Insert_def insertLocked_def ex_defs put_entries_def put_next_def Let_def)
  then have "\<forall>x\<in>set (sess r1 ''s''). qm_TaskID x \<noteq> qm_TaskID m"
    and "\<forall>(k, mv)\<in>set (r_pendingMoves r1). k \<noteq> ''s''"
    by (simp_all add: r1 store_entries_def)
  from purge_misses_dequeued_row [OF reachable_ex_one take this, of ex_env] take show ?thesis by blast
qed

section \<open>Transferring a session\<close>

lemma entries_writes [simp]:
  "r_entries (setAutoRunLocked io s b r) = r_entries r"
  "r_entries (move_claims old new r) = r_entries r"
  "r_entries (move_pending_move old new r) = r_entries r"
  "r_sessionGeneration (setAutoRunLocked io s b r) = r_sessionGeneration r"
  "r_sessionGeneration (move_claims old new r) = r_sessionGeneration r"
  "r_sessionGeneration (move_pending_move old new r) = r_sessionGeneration r"
  by (auto simp: setAutoRunLocked_def move_claims_def move_pending_move_def Let_def split: option.splits)

lemma transfer_auto_run_frame:
  assumes "transfer_auto_run source destination old new r = (a, b, r')"
  shows "r_entries r' = r_entries r" "r_sessionGeneration r' = r_sessionGeneration r"
  using assms by (auto simp: transfer_auto_run_def autoRunForIdentityLocked_def Let_def
      split: option.splits prod.splits if_splits)

lemma raise_all_generation: "r_sessionGeneration (raise_all s l r) = r_sessionGeneration r"
  by (induction l arbitrary: r) (simp_all add: raise_next_def put_next_def)

lemma sess_move_entries:
  assumes "old \<noteq> new"
  shows "sess (move_entries old new r) s =
      (if s = old then [] else if s = new then sess r new @ map (moved_row new (max_position (sess r new))) (sess r old)
       else sess r s)"
    and "r_sessionGeneration (move_entries old new r) = r_sessionGeneration r"
proof -
  show "sess (move_entries old new r) s =
      (if s = old then [] else if s = new then sess r new @ map (moved_row new (max_position (sess r new))) (sess r old)
       else sess r s)"
    using assms
    by (auto simp: move_entries_def Let_def raise_all_entries put_entries_def simp del: foldl_append
        split: option.splits)
  show "r_sessionGeneration (move_entries old new r) = r_sessionGeneration r"
    by (auto simp: move_entries_def Let_def raise_all_generation put_entries_def simp del: foldl_append
        split: option.splits)
qed

text \<open>
  Transferring a session.  If a row of the source is reserved and not owned by a send-now claim,
  the transfer is refused with \<open>ErrQueueChanged\<close> and no row moves.  Otherwise the source is left
  empty and its rows follow those of the destination, in their order, with positions beyond the
  destination's.  Both session generations advance in either case.
\<close>

theorem transfer_exact:
  assumes "reachable r" and "old \<noteq> new" and "TransferSession old new r = (res, r')"
  shows "(if \<exists>q\<in>set (sess r old). IsReservedInFlight q \<and> \<not> sendNowClaimContainsLocked old (qm_ID q) r
          then res = Inl ErrQueueChanged \<and> (\<forall>s. ListBySession s r' = ListBySession s r)
          else res = Inr () \<and> ListBySession old r' = [] \<and>
            ListBySession new r' = ListBySession new r @
              map (moved_row new (max_position (ListBySession new r))) (ListBySession old r)) \<and>
         SessionGeneration old r' = SessionGeneration old r + 1 \<and>
         SessionGeneration new r' = SessionGeneration new r + 1"
proof -
  have inv: "queue_inv r" by (rule reachable_inv [OF assms(1)])
  have inv': "queue_inv r'" using keepsD_eq [OF keeps_Transfer(1) inv assms(3)] .
  let ?r1 = "r\<lparr>r_sessionGeneration := gm_incr new (gm_incr old (r_sessionGeneration r))\<rparr>"
  have claims: "sendNowClaimContainsLocked old x ?r1 = sendNowClaimContainsLocked old x r" for x
    by (simp add: sendNowClaimContainsLocked_def)
  obtain a b r2 where auto: "transfer_auto_run None None old new ?r1 = (a, b, r2)"
    using prod_cases3 by blast
  note frame = transfer_auto_run_frame [OF auto]
  have lists: "ListBySession s r = sess r s" "ListBySession s r' = sess r' s" for s
    using slist_ok_sort_id [OF queue_inv_sess [OF inv, of s]] slist_ok_sort_id [OF queue_inv_sess [OF inv', of s]]
    by (simp_all add: ListBySession_def)
  show ?thesis
    using assms(2,3) auto frame sess_move_entries [OF assms(2), of r2]
    unfolding lists
    by (auto simp: TransferSession_def transferSessionLocked_def claims SessionGeneration_def Let_def
        split: if_splits)
qed

theorem transfer_exact_witness:
  "\<exists>r'. TransferSession ''s'' ''dest'' ex_two = (Inr (), r') \<and> ListBySession ''s'' r' = [] \<and>
     map qm_ID (ListBySession ''dest'' r') = [''a'', ''b'']"
proof -
  obtain res r' where t: "TransferSession ''s'' ''dest'' ex_two = (res, r')" by fastforce
  from transfer_exact [OF reachable_ex_two _ this] t show ?thesis
    by (auto simp: ListBySession_def sess_ex_two ex_msg_def zero_message_def IsReservedInFlight_def
        metadataBool_def moved_row_def)
qed

end
