(* ===== verification/Queue_Protocol.thy ===== *)
theory Queue_Protocol
  imports Queue_Purge
begin

text \<open>
  The delivery protocol.  A durable row is reserved rather than dequeued, and leaves the queue only
  when its delivery is acknowledged by the owner of the current reservation.  The loop of
  \<open>reserveHeadLocked\<close> is shown equal to a direct description of its result; exclusion by leases,
  the hand-over of a reservation, at-most-once delivery of attempted rows and the release of a
  reservation follow from it.
\<close>

section \<open>The result of the reserve loop\<close>

text \<open>The rows the loop throws away on its way to the head it looks at.\<close>

definition discarded :: "env \<Rightarrow> string \<Rightarrow> QueueSessionIdentity option \<Rightarrow> bool \<Rightarrow> repo \<Rightarrow> QueuedMessage \<Rightarrow> bool" where
  "discarded e s io keep r m \<longleftrightarrow>
     \<not> sendNowClaimContainsLocked s (qm_ID m) r \<and>
     (IsDeliveryAttempted m \<and> \<not> isManagedInputQueueEntry m \<or>
      \<not> lease_blocks e m io \<and> (IsDurableDelivery m \<or> keep) \<and>
      reservationBelongsToDifferentIncarnation (qm_Metadata m) io)"

definition reserve_outcome ::
  "env \<Rightarrow> string \<Rightarrow> QueueSessionIdentity option \<Rightarrow> bool \<Rightarrow> repo \<Rightarrow> QueuedMessage list \<Rightarrow>
   QueuedMessage option \<times> QueuedMessage list" where
  "reserve_outcome e s io keep r l =
     (case l of
        [] \<Rightarrow> (None, [])
      | h # t \<Rightarrow>
          if sendNowClaimContainsLocked s (qm_ID h) r \<or> lease_blocks e h io then (None, h # t)
          else if IsDurableDelivery h \<or> keep
          then (case reserveMemoryDelivery e h io of
                  (out, h') \<Rightarrow> (Some (captureReservationLocked out r), h' # t))
          else (Some (captureReservationLocked h r), t))"

lemma frame_remove [simp]:
  "r_sendNowClaims (removeEntryLocked s k r) = r_sendNowClaims r"
  "r_sessionGeneration (removeEntryLocked s k r) = r_sessionGeneration r"
  "r_generation (removeEntryLocked s k r) = r_generation r"
  by (simp_all add: removeEntryLocked_def store_entries_def put_entries_def)

lemma discarded_remove [simp]:
  "discarded e s io keep (removeEntryLocked s' k r) = discarded e s io keep r"
  by (simp add: discarded_def sendNowClaimContainsLocked_def fun_eq_iff)

lemma capture_remove [simp]:
  "captureReservationLocked m (removeEntryLocked s k r) = captureReservationLocked m r"
  by (simp add: captureReservationLocked_def)

lemma reserve_outcome_remove [simp]:
  "reserve_outcome e s io keep (removeEntryLocked s' k r) = reserve_outcome e s io keep r"
  by (simp add: reserve_outcome_def sendNowClaimContainsLocked_def fun_eq_iff split: list.split)

lemma reserve_head_outcome:
  assumes "queue_inv r"
  shows "fst (reserveHeadLocked e s io keep r) =
         fst (reserve_outcome e s io keep r (dropWhile (discarded e s io keep r) (sess r s))) \<and>
       sess (snd (reserveHeadLocked e s io keep r)) s =
         snd (reserve_outcome e s io keep r (dropWhile (discarded e s io keep r) (sess r s))) \<and>
       (\<forall>s'. s' \<noteq> s \<longrightarrow> sess (snd (reserveHeadLocked e s io keep r)) s' = sess r s')"
  using assms
proof (induction "length (sess r s)" arbitrary: r rule: less_induct)
  case less
  note step = reserveHeadLocked.simps [of e s io keep r]
  show ?case
  proof (cases "sess r s")
    case Nil
    then show ?thesis by (simp add: step reserve_outcome_def)
  next
    case (Cons h t)
    have low: "lowestPositionIndex (h # t) = 0"
      using lowestPositionIndex_sorted [OF slist_ok_sorted [OF queue_inv_sess [OF less.prems, of s]]]
      by (simp add: Cons)
    have rest: "sess (removeEntryLocked s 0 r) s' = (if s' = s then t else sess r s')" for s'
      by (simp add: removeEntryLocked_def Cons)
    have inv': "queue_inv (removeEntryLocked s 0 r)" using less.prems by (rule inv_intros)
    show ?thesis
    proof (cases "discarded e s io keep r h")
      case True
      then have rec: "reserveHeadLocked e s io keep r = reserveHeadLocked e s io keep (removeEntryLocked s 0 r)"
        using step low Cons by (auto simp: discarded_def)
      then show ?thesis
        using less.hyps [OF _ inv'] True by (simp add: rec rest Cons)
    next
      case False
      consider (claimed) "sendNowClaimContainsLocked s (qm_ID h) r"
        | (free) "\<not> sendNowClaimContainsLocked s (qm_ID h) r"
          "\<not> (IsDeliveryAttempted h \<and> \<not> isManagedInputQueueEntry h)"
        using False by (auto simp: discarded_def)
      then show ?thesis
      proof cases
        case claimed
        then show ?thesis by (simp add: step low Cons reserve_outcome_def False Let_def)
      next
        case free
        then have "\<not> lease_blocks e h io \<Longrightarrow> IsDurableDelivery h \<or> keep \<Longrightarrow>
            \<not> reservationBelongsToDifferentIncarnation (qm_Metadata h) io"
          using False by (auto simp: discarded_def)
        with free show ?thesis
          by (simp add: step low Cons False reserve_outcome_def rest Let_def split: prod.split) blast
      qed
    qed
  qed
qed


section \<open>The copy and the stored row\<close>

lemma reserve_fields:
  assumes "reserveMemoryDelivery e h io = (out, h')"
  shows "qm_ID out = qm_ID h" "qm_SessionID out = qm_SessionID h"
    and "qm_Metadata out = clearReservedMetadata (qm_Metadata h)"
    and "h' = h\<lparr>qm_Metadata := qm_Metadata h'\<rparr>" "qm_lifecycleReservationID out = e_uuid e 0"
    and "IsDurablePlanComment h \<Longrightarrow> qm_reservationToken out = e_uuid e 1"
    and "qm_reservedDelivery out"
  using assms by (auto simp: reserveMemoryDelivery_def markReservedMetadataWithLease_def Let_def
      split: if_splits)

text \<open>The metadata of the stored row, key by key.\<close>

lemma reserve_lookup:
  assumes "reserveMemoryDelivery e h io = (out, h')"
  defines "inc \<equiv> (case io of None \<Rightarrow> [] | Some i \<Rightarrow> si_SessionIncarnationID i)"
  shows "gm_get (qm_Metadata h') k =
    (if IsDurablePlanComment h \<and> k = MetadataDeliveryReservationExpiresAt
     then Some (MTime (e_now e + DeliveryReservationTTL))
     else if IsDurablePlanComment h \<and> k = MetadataDeliveryReservationToken then Some (MStr (e_uuid e 1))
     else if k = MetadataLifecycleReservationIncarnation \<and> inc \<noteq> [] then Some (MStr inc)
     else if k = MetadataLifecycleReserved then Some (MBool True)
     else if k = metadataLifecycleReservationID \<and> e_uuid e 0 \<noteq> [] then Some (MStr (e_uuid e 0))
     else if k \<in> set reservedKeys then None else gm_get (qm_Metadata h) k)"
proof -
  let ?m = "markReservedMetadataForIncarnation
      (markReservedMetadata (clearReservedMetadata (qm_Metadata h)) [e_uuid e 0]) inc"
  have "qm_Metadata h' = (if IsDurablePlanComment h
      then fst (markReservedMetadataWithLease ?m inc (e_now e) (e_uuid e 1)) else ?m)"
    using assms(1) unfolding inc_def
    by (auto simp: reserveMemoryDelivery_def markReservedMetadataWithLease_def Let_def split: if_splits)
  then show ?thesis by (simp add: reserved_lookup)
qed

lemma reserve_marks:
  assumes "reserveMemoryDelivery e h io = (out, h')"
  shows "IsReservedInFlight h'"
    and "e_uuid e 0 \<noteq> [] \<Longrightarrow> metadataString (qm_Metadata h') metadataLifecycleReservationID = e_uuid e 0"
    and "lifecycleReservationIncarnation (qm_Metadata h') =
           (case io of None \<Rightarrow> [] | Some i \<Rightarrow> si_SessionIncarnationID i)"
    and "IsDurablePlanComment h \<Longrightarrow> deliveryReservationToken (qm_Metadata h') = e_uuid e 1"
    and "IsDurablePlanComment h \<Longrightarrow>
           deliveryReservationExpiresAt (qm_Metadata h') = e_now e + DeliveryReservationTTL"
    and "\<not> IsDurablePlanComment h \<Longrightarrow> deliveryReservationToken (qm_Metadata h') = []"
  by (simp_all add: IsReservedInFlight_def metadataBool_def metadataString_def
      lifecycleReservationIncarnation_def deliveryReservationToken_def deliveryReservationExpiresAt_def
      reserve_lookup [OF assms] split: option.split)

lemma reserve_outside:
  assumes "reserveMemoryDelivery e h io = (out, h')" and "k \<notin> set reservedKeys"
  shows "gm_get (qm_Metadata out) k = gm_get (qm_Metadata h) k"
    and "gm_get (qm_Metadata h') k = gm_get (qm_Metadata h) k"
  using assms(2) by (simp_all add: reserve_fields(3) [OF assms(1)] reserve_lookup [OF assms(1)])

lemma reserve_class:
  assumes "reserveMemoryDelivery e h io = (out, h')"
  shows "IsDurablePlanComment out = IsDurablePlanComment h" "IsDurablePlanComment h' = IsDurablePlanComment h"
    and "IsDeliveryAttempted out = IsDeliveryAttempted h" "IsDeliveryAttempted h' = IsDeliveryAttempted h"
    and "isManagedInputQueueEntry out = isManagedInputQueueEntry h"
      "isManagedInputQueueEntry h' = isManagedInputQueueEntry h"
    and "IsDurableDelivery out = IsDurableDelivery h" "IsDurableDelivery h' = IsDurableDelivery h"
  using delivery_class_cong [of out h] delivery_class_cong [of h' h] reserve_outside [OF assms] by blast+

lemma capture_class [simp]:
  "qm_Metadata (captureReservationLocked m r) = qm_Metadata m" "qm_ID (captureReservationLocked m r) = qm_ID m"
  "qm_SessionID (captureReservationLocked m r) = qm_SessionID m"
  "qm_lifecycleReservationID (captureReservationLocked m r) = qm_lifecycleReservationID m"
  "qm_reservationToken (captureReservationLocked m r) = qm_reservationToken m"
  "qm_reservedDelivery (captureReservationLocked m r) = qm_reservedDelivery m"
  by (simp_all add: captureReservationLocked_def)

lemma class_of_metadata:
  "qm_Metadata a = qm_Metadata b \<Longrightarrow> IsDurablePlanComment a = IsDurablePlanComment b"
  "qm_Metadata a = qm_Metadata b \<Longrightarrow> IsDeliveryAttempted a = IsDeliveryAttempted b"
  "qm_Metadata a = qm_Metadata b \<Longrightarrow> isManagedInputQueueEntry a = isManagedInputQueueEntry b"
  "qm_Metadata a = qm_Metadata b \<Longrightarrow> IsDurableDelivery a = IsDurableDelivery b"
  using delivery_class_cong [of a b] by simp_all

text \<open>What a successful reservation tells: the row it looked at, and what it left behind.\<close>

lemma reserve_SomeE:
  assumes "queue_inv r" and "reserveHeadLocked e s io keep r = (Some m, r1)"
  obtains (kept) h t out h' where "dropWhile (discarded e s io keep r) (sess r s) = h # t"
      "reserveMemoryDelivery e h io = (out, h')" "m = captureReservationLocked out r" "sess r1 s = h' # t"
      "\<not> sendNowClaimContainsLocked s (qm_ID h) r" "\<not> lease_blocks e h io" "IsDurableDelivery h \<or> keep"
      "\<not> discarded e s io keep r h" "qm_reservedDelivery m"
  | (gone) h t where "dropWhile (discarded e s io keep r) (sess r s) = h # t"
      "m = captureReservationLocked h r" "sess r1 s = t"
      "\<not> sendNowClaimContainsLocked s (qm_ID h) r" "\<not> IsDurableDelivery h" "\<not> keep"
      "\<not> discarded e s io keep r h"
proof (cases "dropWhile (discarded e s io keep r) (sess r s)")
  case Nil
  with reserve_head_outcome [OF assms(1), of e s io keep] assms(2) show ?thesis
    by (simp add: reserve_outcome_def)
next
  case (Cons h t)
  then have nd: "\<not> discarded e s io keep r h" by (metis dropWhile_eq_Cons_conv)
  obtain out h' where res: "reserveMemoryDelivery e h io = (out, h')" by fastforce
  then have "qm_reservedDelivery out" by (rule reserve_fields(7))
  with reserve_head_outcome [OF assms(1), of e s io keep] assms(2) Cons nd res that show ?thesis
    by (auto simp: reserve_outcome_def split: if_splits)
qed

text \<open>A reservation writes the rows and no other field of the repository.\<close>

lemma reserve_frame: "(snd (reserveHeadLocked e s io keep r))\<lparr>r_entries := x\<rparr> = r\<lparr>r_entries := x\<rparr>"
proof (induction "length (sess r s)" arbitrary: r keep rule: less_induct)
  case less
  have writes: "(put_entries s l r)\<lparr>r_entries := x\<rparr> = r\<lparr>r_entries := x\<rparr>"
    "(removeEntryLocked s k r)\<lparr>r_entries := x\<rparr> = r\<lparr>r_entries := x\<rparr>" for l k
    by (simp_all add: put_entries_def removeEntryLocked_def store_entries_def)
  have rest: "(snd (reserveHeadLocked e s io kp (removeEntryLocked s (lowestPositionIndex (sess r s)) r)))\<lparr>r_entries := x\<rparr> = r\<lparr>r_entries := x\<rparr>"
    if "sess r s \<noteq> []" for kp
    using less [of "removeEntryLocked s (lowestPositionIndex (sess r s)) r" kp] that by (simp add: length_removeEntryLocked writes)
  show ?case
    by (subst reserveHeadLocked.simps) (simp add: Let_def writes rest split: prod.split)
qed

section \<open>Properties\<close>

text \<open>
  C9: what reserving the head returns.  The loop drops the longest prefix of rows that are spent
  (already attempted, or reserved by an earlier incarnation of the session) and then looks at one
  row: a row owned by a send-now claim or under an unexpired lease yields nothing and stays; a
  durable row stays, marked reserved, and a copy of it is returned; an ordinary row is dequeued.  No
  other row of the session, no other session and no other field of the repository (counters,
  generations, claims, settings, receipts) is touched.
\<close>

theorem reserve_head_exact:
  assumes "reachable r" and "reserveHeadLocked e s io keep r = (mo, r')"
  shows "(mo, ListBySession s r') =
           reserve_outcome e s io keep r (dropWhile (discarded e s io keep r) (ListBySession s r)) \<and>
         (\<forall>s'. s' \<noteq> s \<longrightarrow> ListBySession s' r' = ListBySession s' r) \<and>
         r' = r\<lparr>r_entries := r_entries r'\<rparr>"
proof -
  have inv: "queue_inv r" by (rule reachable_inv [OF assms(1)])
  have inv': "queue_inv r'" using keepsD_eq [OF keeps_reserveHeadLocked inv assms(2)] .
  have frame: "r' = r\<lparr>r_entries := r_entries r'\<rparr>"
    using reserve_frame [of "r_entries r'" e s io keep r] assms(2) by simp
  have lists: "ListBySession x r = sess r x" "ListBySession x r' = sess r' x" for x
    using slist_ok_sort_id [OF queue_inv_sess [OF inv, of x]] slist_ok_sort_id [OF queue_inv_sess [OF inv', of x]]
    by (simp_all add: ListBySession_def)
  show ?thesis using reserve_head_outcome [OF inv, of e s io keep] assms(2) frame by (simp add: lists prod_eq_iff)
qed

theorem reserve_head_exact_witness:
  "\<exists>m r'. reserveHeadLocked ex_env ''s'' None False ex_two = (Some m, r') \<and> qm_ID m = ''a'' \<and>
     map qm_ID (ListBySession ''s'' r') = [''b'']"
proof -
  obtain mo r' where op: "reserveHeadLocked ex_env ''s'' None False ex_two = (mo, r')" by fastforce
  have claims: "\<not> sendNowClaimContainsLocked ''s'' x ex_two" for x
    by (simp add: sendNowClaimContainsLocked_def ex_two_def ex_one_def Insert_unbounded put_entries_def
        put_next_def NewMemoryRepository_def gm_has_def)
  have user: "\<not> IsDurableDelivery m" "\<not> IsDeliveryAttempted m" "\<not> lease_blocks ex_env m None"
    if "qm_Metadata m = []" for m
    using that by (simp_all add: IsDurableDelivery_def IsDurableLifecycle_def IsDurablePlanComment_def
        isManagedInputQueueEntry_def IsDeliveryAttempted_def lease_blocks_def metadataBool_def metadataString_def)
  have "\<not> discarded ex_env ''s'' None False ex_two m" if "qm_Metadata m = []" for m
    using user [OF that] by (simp add: discarded_def)
  with reserve_head_exact [OF reachable_ex_two op] op user claims show ?thesis
    by (simp add: ListBySession_def sess_ex_two reserve_outcome_def ex_msg_def zero_message_def)
qed

text \<open>
  At most one attempt.  A reservation never returns a row whose delivery was already attempted,
  unless it is a managed input (whose executions carry their own receipt), and never a row that a
  send-now claim owns.
\<close>

theorem reserve_skips_attempted:
  assumes "reachable r" and "reserveHeadLocked e s io keep r = (Some m, r')"
  shows "(IsDeliveryAttempted m \<longrightarrow> isManagedInputQueueEntry m) \<and>
         \<not> sendNowClaimContainsLocked s (qm_ID m) r"
  using reachable_inv [OF assms(1)] assms(2)
proof (cases rule: reserve_SomeE)
  case (kept h t out h')
  then show ?thesis
    using reserve_class(3,5) [OF kept(2)] reserve_fields(1) [OF kept(2)]
      class_of_metadata [of m out] by (auto simp: discarded_def)
next
  case (gone h t)
  then show ?thesis using class_of_metadata [of m h] by (auto simp: discarded_def)
qed

theorem reserve_skips_attempted_witness:
  "\<exists>m r'. reserveHeadLocked ex_env ''s'' None False ex_two = (Some m, r') \<and>
     \<not> sendNowClaimContainsLocked ''s'' (qm_ID m) ex_two"
proof -
  have "\<not> IsDeliveryAttempted m" "\<not> IsDurableDelivery m" "\<not> lease_blocks ex_env m None"
    if "qm_Metadata m = []" for m
    using that by (simp_all add: IsDurableDelivery_def IsDurableLifecycle_def IsDurablePlanComment_def
        isManagedInputQueueEntry_def IsDeliveryAttempted_def lease_blocks_def metadataBool_def metadataString_def)
  moreover have "\<not> sendNowClaimContainsLocked ''s'' x ex_two" for x
    by (simp add: sendNowClaimContainsLocked_def ex_two_def ex_one_def Insert_unbounded put_entries_def
        put_next_def NewMemoryRepository_def gm_has_def)
  ultimately obtain m r' where "reserveHeadLocked ex_env ''s'' None False ex_two = (Some m, r')"
    by (subst (asm) reserveHeadLocked.simps)
       (auto simp: sess_ex_two Let_def lowestPositionIndex_def lower_position_def ex_msg_def zero_message_def)
  with reserve_skips_attempted [OF reachable_ex_two this] show ?thesis by blast
qed

section \<open>Leases and hand-over\<close>

definition ex_plan :: QueuedMessage where
  "ex_plan = (ex_msg ''p'' ''comment'')\<lparr>qm_Metadata :=
     [(MetadataClientQueueID, MStr ''q''), (MetadataRequestFingerprint, MStr ''f'')]\<rparr>"

definition ex_plan_repo :: repo where
  "ex_plan_repo = snd (Insert ex_env ex_plan 0 NewMemoryRepository)"

lemma reachable_ex_plan: "reachable ex_plan_repo"
  unfolding ex_plan_repo_def by (rule reachable_step [OF reachable_new step_insert])

lemma sess_ex_plan: "sess ex_plan_repo s = (if s = ''s'' then [ex_plan\<lparr>qm_Position := 1\<rparr>] else [])"
  by (simp add: ex_plan_repo_def Insert_unbounded ex_plan_def ex_msg_def NewMemoryRepository_def
      put_entries_def put_next_def fill_identity_def IsZero_def)

lemma class_ex_plan: "IsDurablePlanComment (ex_plan\<lparr>qm_Position := p\<rparr>)"
  "\<not> IsReservedInFlight (ex_plan\<lparr>qm_Position := p\<rparr>)" "\<not> IsDeliveryAttempted (ex_plan\<lparr>qm_Position := p\<rparr>)"
  "lifecycleReservationIncarnation (qm_Metadata ex_plan) = []"
  by (simp_all add: IsDurablePlanComment_def IsReservedInFlight_def IsDeliveryAttempted_def
      lifecycleReservationIncarnation_def ex_plan_def metadataString_def metadataBool_def gm_get_def)

lemma reserve_ex_plan:
  "\<exists>m r1. reserveHeadLocked e ''s'' io keep ex_plan_repo = (Some m, r1) \<and> IsDurablePlanComment m"
proof -
  have "\<not> sendNowClaimContainsLocked ''s'' x ex_plan_repo" for x
    by (simp add: sendNowClaimContainsLocked_def ex_plan_repo_def Insert_unbounded put_entries_def
        put_next_def NewMemoryRepository_def gm_has_def)
  moreover obtain out h' where res: "reserveMemoryDelivery e (ex_plan\<lparr>qm_Position := 1\<rparr>) io = (out, h')"
    by fastforce
  moreover have "IsDurablePlanComment (captureReservationLocked out ex_plan_repo)"
    using reserve_class(1) [OF res] class_ex_plan class_of_metadata(1) by (metis capture_class(1))
  ultimately show ?thesis
    by (subst reserveHeadLocked.simps)
       (simp add: sess_ex_plan lowestPositionIndex_def class_ex_plan lease_blocks_def IsDurableDelivery_def
         reservationBelongsToDifferentIncarnation_def Let_def split: option.split)
qed

lemma dropWhile_head_mem: "dropWhile P l = h # t \<Longrightarrow> h \<in> set l"
  by (metis list.set_intros(1) set_dropWhileD)

text \<open>
  A delivery lease excludes other deliverers.  While the lease of a reserved plan comment has not
  expired, a further reservation by the same incarnation or by an anonymous caller returns nothing
  and changes nothing.
\<close>

theorem lease_excludes:
  assumes "reachable r" and "reserveHeadLocked e s io keep r = (Some m, r1)" and "IsDurablePlanComment m"
    and "e_uuid e 1 \<noteq> []" and "e_now e' < e_now e + DeliveryReservationTTL" and "io' = io \<or> io' = None"
  shows "reserveHeadLocked e' s io' keep' r1 = (None, r1)"
  using reachable_inv [OF assms(1)] assms(2)
proof (cases rule: reserve_SomeE)
  case (kept h t out h')
  have inv1: "queue_inv r1"
    using keepsD_eq [OF keeps_reserveHeadLocked reachable_inv [OF assms(1)] assms(2)] .
  have low: "lowestPositionIndex (h' # t) = 0"
    using lowestPositionIndex_sorted [OF slist_ok_sorted [OF queue_inv_sess [OF inv1, of s]]] kept(4) by simp
  have plan: "IsDurablePlanComment h"
    using assms(3) reserve_class(1) [OF kept(2)] class_of_metadata(1) [of m out] kept(3) by simp
  have "IsDeliveryAttempted h' \<longrightarrow> isManagedInputQueueEntry h'"
    using kept(5,8) reserve_class(4,6) [OF kept(2)] by (auto simp: discarded_def)
  moreover have "lease_blocks e' h' io'"
    using reserve_marks(1,3-5) [OF kept(2)] plan reserve_class(2) [OF kept(2)] assms(4-6)
    by (auto simp: lease_blocks_def After_def split: option.split)
  ultimately show ?thesis
    by (subst reserveHeadLocked.simps) (auto simp add: kept(4) low Let_def)
next
  case (gone h t)
  then show ?thesis using assms(3) class_of_metadata(1) [of m h] by (simp add: IsDurableDelivery_def)
qed

theorem lease_excludes_witness:
  "\<exists>m r1. reserveHeadLocked ex_env ''s'' None False ex_plan_repo = (Some m, r1) \<and>
     reserveHeadLocked ex_later ''s'' None True r1 = (None, r1)"
proof -
  obtain m r1 where op: "reserveHeadLocked ex_env ''s'' None False ex_plan_repo = (Some m, r1)"
    and plan: "IsDurablePlanComment m" using reserve_ex_plan by blast
  have "e_uuid ex_env 1 \<noteq> []" "e_now ex_later < e_now ex_env + DeliveryReservationTTL"
    by (simp_all add: ex_env_def ex_later_def DeliveryReservationTTL_def)
  from lease_excludes [OF reachable_ex_plan op plan this, of None True] op show ?thesis by blast
qed

lemma ack_head:
  assumes "sess r s = h # t" and "qm_SessionID m = s" and "qm_ID m = qm_ID h"
  shows "AcknowledgeReserved m r =
    (if qm_lifecycleReservationID m = [] \<or>
        metadataString (qm_Metadata h) metadataLifecycleReservationID \<noteq> qm_lifecycleReservationID m
     then (Inl ErrLifecycleReservationChanged, r) else (Inr (), store_entries s t r))"
  using assms by (simp add: AcknowledgeReserved_def Let_def)

text \<open>
  The hand-over of a reservation.  When a durable row is reserved again (by the same
  incarnation), the earlier reservation is void: acknowledging it fails with
  \<open>ErrLifecycleReservationChanged\<close> and changes nothing, and the later holder's acknowledgement
  removes exactly that row.
\<close>

theorem reservation_handover:
  assumes "reachable r" and "reserveHeadLocked e1 s io keep r = (Some m1, r1)"
    and "reserveHeadLocked e2 s io keep r1 = (Some m2, r2)"
    and "IsDurableDelivery m1 \<or> keep" and "e_uuid e1 0 \<noteq> e_uuid e2 0" and "e_uuid e2 0 \<noteq> []"
  shows "AcknowledgeReserved m1 r2 = (Inl ErrLifecycleReservationChanged, r2) \<and>
         (\<exists>r3. AcknowledgeReserved m2 r2 = (Inr (), r3) \<and> ListBySession s r3 = tl (ListBySession s r2) \<and>
            qm_ID (hd (ListBySession s r2)) = qm_ID m1)"
proof -
  have inv: "queue_inv r" by (rule reachable_inv [OF assms(1)])
  have inv1: "queue_inv r1" using keepsD_eq [OF keeps_reserveHeadLocked inv assms(2)] .
  have inv2: "queue_inv r2" using keepsD_eq [OF keeps_reserveHeadLocked inv1 assms(3)] .
  from inv assms(2) obtain h t out h' where
    drop: "dropWhile (discarded e1 s io keep r) (sess r s) = h # t" and
    res: "reserveMemoryDelivery e1 h io = (out, h')" and m1: "m1 = captureReservationLocked out r"
    and r1: "sess r1 s = h' # t" and nd: "\<not> sendNowClaimContainsLocked s (qm_ID h) r" "\<not> discarded e1 s io keep r h"
    and dur: "IsDurableDelivery h \<or> keep"
  proof (cases rule: reserve_SomeE)
    case (gone h t)
    with assms(4) class_of_metadata(4) [of m1 h] show ?thesis by simp
  qed (use that in blast)
  have s: "qm_SessionID h = s"
    using slist_ok_member [OF queue_inv_sess [OF inv]] dropWhile_head_mem [OF drop] by blast
  note fld = reserve_fields [OF res] and mrk = reserve_marks [OF res] and cls = reserve_class [OF res]
  have "\<not> discarded e2 s io keep r1 h'"
    using nd mrk(3) cls(4,6)
    by (auto simp: discarded_def reservationBelongsToDifferentIncarnation_def split: option.splits)
  then have drop2: "dropWhile (discarded e2 s io keep r1) (sess r1 s) = h' # t" by (simp add: r1)
  from inv1 assms(3) obtain out2 h2 where
    res2: "reserveMemoryDelivery e2 h' io = (out2, h2)" and m2: "m2 = captureReservationLocked out2 r1"
    and r2: "sess r2 s = h2 # t"
  proof (cases rule: reserve_SomeE)
    case (gone h0 t0)
    with drop2 dur cls(8) show ?thesis by simp
  qed (use that drop2 in simp)
  note fld2 = reserve_fields [OF res2] and mrk2 = reserve_marks [OF res2]
  have h': "qm_ID h' = qm_ID h" "qm_SessionID h' = s"
    using arg_cong [OF fld(4), of qm_ID] arg_cong [OF fld(4), of qm_SessionID] s by simp_all
  have h2: "qm_ID h2 = qm_ID h"
    using arg_cong [OF fld2(4), of qm_ID] h' by simp
  have ids: "qm_ID m1 = qm_ID h2" "qm_SessionID m1 = s" "qm_ID m2 = qm_ID h2" "qm_SessionID m2 = s"
    "qm_lifecycleReservationID m1 = e_uuid e1 0" "qm_lifecycleReservationID m2 = e_uuid e2 0"
    using m1 m2 fld(1,2,5) fld2(1,2,5) h2 h' s by simp_all
  have list2: "ListBySession s r2 = h2 # t"
    using slist_ok_sort_id [OF queue_inv_sess [OF inv2, of s]] by (simp add: ListBySession_def r2)
  have "ListBySession s (store_entries s t r2) = t"
    using slist_ok_sort_id [OF slist_ok_ConsD(1) [OF queue_inv_sess [OF inv2, of s, unfolded r2]]]
    by (simp add: ListBySession_def)
  then show ?thesis
    using ack_head [OF r2 ids(2,1)] ack_head [OF r2 ids(4,3)] ids(5,6,1) mrk2(2) [OF assms(6)] assms(5,6) list2
    by simp
qed

theorem reservation_handover_witness:
  "\<exists>m1 r1 m2 r2. reserveHeadLocked ex_env ''s'' None True ex_two = (Some m1, r1) \<and>
     reserveHeadLocked ex_later ''s'' None True r1 = (Some m2, r2) \<and>
     AcknowledgeReserved m1 r2 = (Inl ErrLifecycleReservationChanged, r2)"
proof -
  have step: "\<exists>m r'. reserveHeadLocked e ''s'' None True r = (Some m, r') \<and> r_sendNowClaims r' = [] \<and>
      sess r' ''s'' \<noteq> [] \<and> qm_Metadata (sess r' ''s'' ! 0) = qm_Metadata (snd (reserveMemoryDelivery e (sess r ''s'' ! 0) None))"
    if "queue_inv r" "sess r ''s'' \<noteq> []" "r_sendNowClaims r = []" "\<not> IsDurablePlanComment (sess r ''s'' ! 0)"
      "\<not> IsDeliveryAttempted (sess r ''s'' ! 0)" for e r
  proof -
    have "lowestPositionIndex (sess r ''s'') = 0"
      using lowestPositionIndex_sorted [OF slist_ok_sorted [OF queue_inv_sess [OF that(1)]]] .
    with that show ?thesis
      by (subst (1) reserveHeadLocked.simps)
         (auto simp: Let_def sendNowClaimContainsLocked_def gm_has_def lease_blocks_def
           reservationBelongsToDifferentIncarnation_def put_entries_def split: prod.split)
  qed
  have inv: "queue_inv ex_two" by (rule reachable_inv [OF reachable_ex_two])
  have two: "sess ex_two ''s'' \<noteq> []" "r_sendNowClaims ex_two = []" "qm_Metadata (sess ex_two ''s'' ! 0) = []"
    by (simp_all add: sess_ex_two ex_msg_def zero_message_def)
       (simp add: ex_two_def ex_one_def Insert_unbounded put_entries_def put_next_def NewMemoryRepository_def)
  have plain: "\<not> IsDurablePlanComment (sess ex_two ''s'' ! 0)" "\<not> IsDeliveryAttempted (sess ex_two ''s'' ! 0)"
    using two(3) by (simp_all add: IsDurablePlanComment_def IsDeliveryAttempted_def metadataString_def metadataBool_def)
  obtain out h where res: "reserveMemoryDelivery ex_env (sess ex_two ''s'' ! 0) None = (out, h)" by fastforce
  from step [OF inv two(1,2) plain] obtain m1 r1 where
    op1: "reserveHeadLocked ex_env ''s'' None True ex_two = (Some m1, r1)" and r1: "r_sendNowClaims r1 = []"
    "sess r1 ''s'' \<noteq> []" "qm_Metadata (sess r1 ''s'' ! 0) = qm_Metadata h"
    using res by (metis snd_conv)
  have inv1: "queue_inv r1" using keepsD_eq [OF keeps_reserveHeadLocked inv op1] .
  have "\<not> IsDurablePlanComment (sess r1 ''s'' ! 0)" "\<not> IsDeliveryAttempted (sess r1 ''s'' ! 0)"
    using class_of_metadata(1,2) [OF r1(3)] reserve_class(2,4) [OF res] plain by simp_all
  from step [OF inv1 r1(2,1) this] obtain m2 r2 where
    op2: "reserveHeadLocked ex_later ''s'' None True r1 = (Some m2, r2)" by blast
  from reservation_handover [OF reachable_ex_two op1 op2] op1 op2 show ?thesis
    by (simp add: ex_env_def ex_later_def)
qed

section \<open>Releasing a reservation\<close>

lemma frame_writes [simp]:
  "r_identities (put_entries s l r) = r_identities r" "r_identities (store_entries s l r) = r_identities r"
  "r_identities (removeEntryLocked s k r) = r_identities r"
  by (simp_all add: put_entries_def store_entries_def removeEntryLocked_def)

lemma identities_reserveHead: "r_identities (snd (reserveHeadLocked e s io keep r)) = r_identities r"
proof (induction e s io keep r rule: reserveHeadLocked.induct)
  case (1 e s io keep r)
  show ?case
  proof (subst reserveHeadLocked.simps, goal_cases)
    case 1
    show ?case using "1.IH" by (auto simp: Let_def split: prod.split)
  qed
qed

lemma with_identity_bound:
  "gm_get (r_identities r) (si_SessionID i) = Some i \<Longrightarrow> \<not> incomplete_identity i \<Longrightarrow>
   with_identity i body r = body r"
  by (simp add: with_identity_def bindIdentityLocked_def)

lemma owns_own_reservation:
  assumes res: "reserveMemoryDelivery e h (Some i) = (out, h')" and "e_uuid e 1 \<noteq> []"
  shows "owns_reservation i (captureReservationLocked out r) h'"
proof -
  have "IsDurablePlanComment (captureReservationLocked out r) = IsDurablePlanComment h"
    using class_of_metadata(1) [of "captureReservationLocked out r" out] reserve_class(1) [OF res] by simp
  then show ?thesis
    using reserve_marks [OF res] reserve_fields(6) [OF res] assms(2)
    by (cases "IsDurablePlanComment h") (simp_all add: owns_reservation_def reservationMatches_def)
qed

lemma reservation_keeps_coalesce_key:
  "reserveMemoryDelivery e h io = (out, h') \<Longrightarrow>
   metadataString (qm_Metadata h') MetadataCoalesceKey = metadataString (qm_Metadata h) MetadataCoalesceKey"
  by (simp add: metadataString_def reserve_outside(2))

text \<open>
  Releasing a reservation undoes it.  A row that was reserved and kept, and whose delivery was
  not attempted, is put back by its owner's release: the row is first in the session again, not
  reserved, equal to the row before the reservation except that the reservation keys are gone from
  its metadata, and the rows behind it are untouched.
\<close>

theorem release_undoes_reserve:
  assumes "reachable r" and "gm_get (r_identities r) (si_SessionID i) = Some i" and "\<not> incomplete_identity i"
    and "reserveHeadLocked e (si_SessionID i) (Some i) True r = (Some m, r1)"
    and "\<not> IsDeliveryAttempted m" and "metadataString (qm_Metadata m) MetadataCoalesceKey = []"
    and "e_uuid e 1 \<noteq> []"
  shows "\<exists>h t h2 r2. dropWhile (discarded e (si_SessionID i) (Some i) True r) (ListBySession (si_SessionID i) r) = h # t \<and>
           ReleaseDeliveryReservationForSession i (Some m) r1 = (Inr (), r2) \<and>
           ListBySession (si_SessionID i) r2 = h2 # t \<and> \<not> IsReservedInFlight h2 \<and>
           h2 = h\<lparr>qm_Metadata := qm_Metadata h2\<rparr> \<and>
           (\<forall>k. gm_get (qm_Metadata h2) k = (if k \<in> set reservedKeys then None else gm_get (qm_Metadata h) k))"
proof -
  let ?s = "si_SessionID i"
  have inv: "queue_inv r" by (rule reachable_inv [OF assms(1)])
  have inv1: "queue_inv r1" using keepsD_eq [OF keeps_reserveHeadLocked inv assms(4)] .
  from inv assms(4) obtain h t out h' where
    drop: "dropWhile (discarded e ?s (Some i) True r) (sess r ?s) = h # t" and
    res: "reserveMemoryDelivery e h (Some i) = (out, h')" and m: "m = captureReservationLocked out r"
    and r1: "sess r1 ?s = h' # t"
    by (cases rule: reserve_SomeE) auto
  have own: "owns_reservation i m h'" unfolding m using res assms(7) by (rule owns_own_reservation)
  have ids: "qm_ID m = qm_ID h'"
    using m reserve_fields(1) [OF res] arg_cong [OF reserve_fields(4) [OF res], of qm_ID] by simp
  have plain: "\<not> IsDeliveryAttempted h'" "metadataString (qm_Metadata h') MetadataCoalesceKey = []"
    using assms(5,6) m reserve_class(3,4) [OF res] class_of_metadata(2) [of m out]
      reservation_keeps_coalesce_key [OF res] reserve_fields(3) [OF res]
    by (auto simp: metadataString_def)
  define h2 where "h2 = h'\<lparr>qm_Metadata := clearReservedMetadata (qm_Metadata h')\<rparr>"
  have bound: "gm_get (r_identities r1) ?s = Some i"
    using identities_reserveHead [of e ?s "Some i" True r] assms(2,4) by simp
  have op: "ReleaseDeliveryReservationForSession i (Some m) r1 = (Inr (), put_entries ?s (h2 # t) r1)"
    using own ids plain
    by (simp add: ReleaseDeliveryReservationForSession_def with_identity_bound [OF bound assms(3)]
        release_owned_def r1 h2_def hasPendingCoalescedSuccessorLocked_def Let_def)
  have inv2: "queue_inv (put_entries ?s (h2 # t) r1)"
    using keepsD [OF keeps_Acknowledge(5) inv1, of i "Some m"] op by simp
  have lists: "ListBySession ?s (put_entries ?s (h2 # t) r1) = h2 # t" "ListBySession ?s r = sess r ?s"
    using slist_ok_sort_id [OF queue_inv_sess [OF inv2, of ?s]] slist_ok_sort_id [OF queue_inv_sess [OF inv]]
    by (simp_all add: ListBySession_def)
  obtain meta where h': "h' = h\<lparr>qm_Metadata := meta\<rparr>" using reserve_fields(4) [OF res] by blast
  show ?thesis
  proof (intro exI conjI allI)
    show "dropWhile (discarded e ?s (Some i) True r) (ListBySession ?s r) = h # t" using drop lists by simp
    show "ReleaseDeliveryReservationForSession i (Some m) r1 = (Inr (), put_entries ?s (h2 # t) r1)" by (rule op)
    show "ListBySession ?s (put_entries ?s (h2 # t) r1) = h2 # t" by (rule lists)
    show "\<not> IsReservedInFlight h2" by (simp add: h2_def)
    show "h2 = h\<lparr>qm_Metadata := qm_Metadata h2\<rparr>" by (simp add: h2_def h')
    show "gm_get (qm_Metadata h2) k = (if k \<in> set reservedKeys then None else gm_get (qm_Metadata h) k)" for k
      using reserve_outside(2) [OF res, of k] by (simp add: h2_def)
  qed
qed

definition ex_identity :: QueueSessionIdentity where
  "ex_identity = \<lparr>si_TaskID = ''t'', si_SessionID = ''s'', si_SessionIncarnationID = ''inc''\<rparr>"

definition ex_bound :: repo where
  "ex_bound = snd (ResolveSessionIdentity (Some (\<lambda>_ _. Inr ex_identity)) ''t'' ''s'' ex_plan_repo)"

lemma ex_bound_eq: "ex_bound = ex_plan_repo\<lparr>r_identities := [(''s'', ex_identity)]\<rparr>"
proof -
  have "r_identities ex_plan_repo = []"
    by (simp add: ex_plan_repo_def Insert_unbounded put_entries_def put_next_def NewMemoryRepository_def)
  then show ?thesis by (simp add: ex_bound_def ResolveSessionIdentity_def ex_identity_def gm_put_def)
qed

lemma reachable_ex_bound: "reachable ex_bound"
  unfolding ex_bound_def by (rule reachable_step [OF reachable_ex_plan step_resolve])

theorem release_undoes_reserve_witness:
  "\<exists>m r1 r2. reserveHeadLocked ex_env ''s'' (Some ex_identity) True ex_bound = (Some m, r1) \<and>
     ReleaseDeliveryReservationForSession ex_identity (Some m) r1 = (Inr (), r2)"
proof -
  have id: "gm_get (r_identities ex_bound) (si_SessionID ex_identity) = Some ex_identity"
    "\<not> incomplete_identity ex_identity" "si_SessionID ex_identity = ''s''"
    by (simp_all add: ex_bound_eq ex_identity_def gm_get_def)
  have rows: "sess ex_bound ''s'' = [ex_plan\<lparr>qm_Position := 1\<rparr>]"
    using sess_ex_plan [of "''s''"] by (simp add: ex_bound_eq)
  obtain out h' where res: "reserveMemoryDelivery ex_env (ex_plan\<lparr>qm_Position := 1\<rparr>) (Some ex_identity) = (out, h')"
    by fastforce
  have claims: "\<not> sendNowClaimContainsLocked ''s'' x ex_bound" for x
    by (simp add: sendNowClaimContainsLocked_def ex_bound_eq ex_plan_repo_def Insert_unbounded put_entries_def
        put_next_def NewMemoryRepository_def gm_has_def)
  have op: "reserveHeadLocked ex_env (si_SessionID ex_identity) (Some ex_identity) True ex_bound =
      (Some (captureReservationLocked out ex_bound), put_entries ''s'' [h'] ex_bound)"
    using claims res
    by (subst reserveHeadLocked.simps)
       (simp add: id rows lowestPositionIndex_def class_ex_plan lease_blocks_def
         reservationBelongsToDifferentIncarnation_def Let_def)
  have "\<not> IsDeliveryAttempted (captureReservationLocked out ex_bound)"
    using reserve_class(3) [OF res] class_ex_plan(3) class_of_metadata(2) [of "captureReservationLocked out ex_bound" out]
    by simp
  moreover have "metadataString (qm_Metadata (captureReservationLocked out ex_bound)) MetadataCoalesceKey = []"
    by (simp add: reserve_fields(3) [OF res] metadataString_def) (simp add: ex_plan_def gm_get_def)
  moreover have "e_uuid ex_env 1 \<noteq> []" by (simp add: ex_env_def)
  ultimately show ?thesis
    using release_undoes_reserve [OF reachable_ex_bound id(1,2) op] op id(3) by auto
qed

end
