(* ===== verification/Queue_Claims.thy ===== *)
theory Queue_Claims
  imports Queue_Protocol
begin

text \<open>
  Send-now claims: a claim takes exactly the rows its caller saw, excludes every other claim on
  them, folds them into one prompt within the limits of a message, and can be undone.
\<close>

section \<open>Claiming\<close>

lemma requestedSendNowIDs_spec:
  "requestedSendNowIDs acc qs = Inr ids \<Longrightarrow>
   set ids = set acc \<union> qm_ID ` set qs \<and> distinct (map qm_ID qs) \<and> qm_ID ` set qs \<inter> set acc = {} \<and>
   [] \<notin> qm_ID ` set qs"
proof (induction qs arbitrary: acc)
  case (Cons q qs)
  then have q: "qm_ID q \<noteq> []" "qm_ID q \<notin> set acc" "requestedSendNowIDs (qm_ID q # acc) qs = Inr ids"
    by (auto split: if_splits)
  from Cons.IH [OF q(3)] q(1,2) show ?case by auto
qed simp

lemma claim_row_reserved: "claim_row e i k q = (Some q', x) \<Longrightarrow> IsReservedInFlight q' \<and> qm_ID q' = qm_ID q"
proof -
  assume *: "claim_row e i k q = (Some q', x)"
  let ?inc = "si_SessionIncarnationID i"
  let ?m = "markReservedMetadataForIncarnation (markReservedMetadata (qm_Metadata q) [e_uuid e (2 + 2 * k)]) ?inc"
  have "q' = q\<lparr>qm_Metadata := (if IsDurablePlanComment q
      then fst (markReservedMetadataWithLease ?m ?inc (e_now e) (e_uuid e (3 + 2 * k))) else ?m)\<rparr>"
    using * by (auto simp: claim_row_def Let_def split: if_splits prod.splits)
  then show ?thesis
    by (simp add: IsReservedInFlight_def metadataBool_def reserved_lookup)
qed

lemma claim_rows_requested:
  "x \<in> set (fst (claim_rows e i ids k l)) \<Longrightarrow> qm_ID x \<in> set ids \<Longrightarrow> IsReservedInFlight x"
proof (induction l arbitrary: k)
  case (Cons q l)
  obtain rest leases where eq: "claim_rows e i ids (Suc k) l = (rest, leases)" by fastforce
  have IH: "x \<in> set rest \<Longrightarrow> ?case" using Cons.IH [of "Suc k"] Cons.prems(2) by (simp add: eq)
  obtain qo t u where row: "claim_row e i k q = (qo, t, u)" using prod_cases3 by blast
  show ?case
  proof (cases qo)
    case None
    with Cons.prems IH show ?thesis by (auto simp: eq row split: if_splits)
  next
    case (Some q')
    with Cons.prems IH claim_row_reserved [of e i k q q'] show ?thesis by (auto simp: eq row split: if_splits)
  qed
qed simp

lemma requestedSendNowIDs_Inl: "requestedSendNowIDs acc qs = Inl err \<Longrightarrow> err = ErrSendNowClaimChanged"
  by (induction qs arbitrary: acc) (auto split: if_splits)

lemma claimE:
  assumes "claimSendNowLocked c e i s expected r = (Inr cl, r1)"
  obtains ids env where "requestedSendNowIDs [] expected = Inr ids"
    and "\<forall>q\<in>set (sess r s). qm_ID q \<in> set ids \<longrightarrow> \<not> IsReservedInFlight q"
    and "validateSendNowSnapshot (filter (\<lambda>q. qm_ID q \<in> set ids) (sess r s)) expected"
    and "BuildSendNowEnvelope c e (bindSendNowDeliveryReservations i
           (map cloneSendNowSource (filter (\<lambda>q. qm_ID q \<in> set ids) (sess r s)))) = Inr env"
    and "sc_Dispatch cl = env" and "sess r1 s = fst (claim_rows e i ids 0 (sess r s))"
    and "sc_Sources cl = map (bind_lease (snd (claim_rows e i ids 0 (sess r s))))
           (bindSendNowDeliveryReservations i (map cloneSendNowSource (filter (\<lambda>q. qm_ID q \<in> set ids) (sess r s))))"
proof (cases "requestedSendNowIDs [] expected")
  case (Inr ids)
  with assms that show ?thesis
    by (auto simp: claimSendNowLocked_def setAutoRunLocked_def Let_def split: if_splits sum.splits prod.splits)
qed (use assms in \<open>auto simp: claimSendNowLocked_def split: if_splits\<close>)

lemma same_content_ids: "list_all2 sameQueuedMessageContent l l' \<Longrightarrow> map qm_ID l = map qm_ID l'"
  by (induction rule: list_all2_induct) (simp_all add: sameQueuedMessageContent_def)

lemma snapshot_ids: "validateSendNowSnapshot l l' \<Longrightarrow> qm_ID ` set l = qm_ID ` set l'"
  unfolding validateSendNowSnapshot_def by (metis list.set_map same_content_ids)

text \<open>
  C25: claims exclude each other.  After a send-now claim succeeded, every further claim on the session
  that names one of the same entries fails and changes nothing.
\<close>

theorem claims_exclusive:
  assumes "ClaimSendNow c e s expected r = (Inr cl, r1)"
    and "qm_ID ` set expected \<inter> qm_ID ` set expected2 \<noteq> {}"
  shows "\<exists>err. ClaimSendNow c2 e2 s expected2 r1 = (Inl err, r1) \<and>
           err \<in> {ErrSendNowClaimChanged, ErrSendNowReservationConflict}"
proof -
  obtain ids where ids: "requestedSendNowIDs [] expected = Inr ids"
    and r1: "sess r1 s = fst (claim_rows e (gm_get0 no_identity (r_identities r) s) ids 0 (sess r s))"
    using claimE [OF assms(1) [unfolded ClaimSendNow_def]] by metis
  have reserved: "IsReservedInFlight q" if "q \<in> set (sess r1 s)" "qm_ID q \<in> qm_ID ` set expected" for q
    using that claim_rows_requested requestedSendNowIDs_spec [OF ids] unfolding r1 by auto
  obtain x where x: "x \<in> qm_ID ` set expected" "x \<in> qm_ID ` set expected2" using assms(2) by blast
  show ?thesis
  proof (cases "requestedSendNowIDs [] expected2")
    case (Inl err)
    with requestedSendNowIDs_Inl [OF Inl] x(2) show ?thesis by (auto simp: ClaimSendNow_def claimSendNowLocked_def)
  next
    case (Inr ids2)
    let ?sel = "filter (\<lambda>q. qm_ID q \<in> set ids2) (sess r1 s)"
    show ?thesis
    proof (cases "\<exists>q\<in>set ?sel. IsReservedInFlight q")
      case True
      with Inr x(2) show ?thesis by (auto simp: ClaimSendNow_def claimSendNowLocked_def Let_def)
    next
      case False
      have "x \<notin> qm_ID ` set ?sel"
      proof
        assume "x \<in> qm_ID ` set ?sel"
        then obtain q where "q \<in> set ?sel" "qm_ID q = x" by blast
        with reserved [of q] x(1) False show False by simp
      qed
      then have "\<not> validateSendNowSnapshot ?sel expected2"
        using snapshot_ids [of ?sel expected2] x(2) by blast
      with Inr x(2) False show ?thesis by (auto simp: ClaimSendNow_def claimSendNowLocked_def Let_def)
    qed
  qed
qed

definition ex_codec :: codec where
  "ex_codec = \<lparr>c_normalizeOne = Some, c_decodeRefs = (\<lambda>_. None), c_decodeContexts = (\<lambda>_. None),
     c_json = (\<lambda>_. [])\<rparr>"

text \<open>The copy of a row that a claim keeps as its source.\<close>

definition source_copy :: "QueueSessionIdentity \<Rightarrow> QueuedMessage \<Rightarrow> QueuedMessage" where
  "source_copy i q = hd (bindSendNowDeliveryReservations i [cloneSendNowSource q])"

lemma sources_map:
  "bindSendNowDeliveryReservations i (map cloneSendNowSource l) = map (source_copy i) l"
  by (simp add: source_copy_def bindSendNowDeliveryReservations_def)

lemma source_copy_fields [simp]:
  "qm_ID (source_copy i q) = qm_ID q" "qm_SessionID (source_copy i q) = qm_SessionID q"
  "qm_TaskID (source_copy i q) = qm_TaskID q" "qm_Position (source_copy i q) = qm_Position q"
  "qm_Content (source_copy i q) = qm_Content q" "qm_Attachments (source_copy i q) = qm_Attachments q"
  "qm_Metadata (source_copy i q) = clearReservedMetadata (qm_Metadata q)"
  by (simp_all add: source_copy_def bindSendNowDeliveryReservations_def cloneSendNowSource_def Let_def)

lemma envelope_plain:
  "qm_Metadata q = [] \<Longrightarrow> qm_Attachments q = [] \<Longrightarrow> \<exists>env. BuildSendNowEnvelope c e [q] = Inr env"
  by (simp add: BuildSendNowEnvelope_def ValidateSendNowEntries_def intentFromMetadata_def NormalizePersisted_def Let_def)

definition ex_row :: QueuedMessage where
  "ex_row = (ex_msg ''a'' ''first'')\<lparr>qm_Position := 1\<rparr>"

lemma claim_ex_row: "\<exists>cl r1. ClaimSendNow ex_codec ex_env ''s'' [ex_row] ex_two = (Inr cl, r1)"
proof -
  have same: "sameQueuedMessageContent m m" for m
    by (simp add: sameQueuedMessageContent_def same_metadata_def list_all_iff)
  have sel: "filter (\<lambda>q. qm_ID q = ''a'') (sess ex_two ''s'') = [ex_row]"
    by (simp add: sess_ex_two ex_row_def ex_msg_def)
  have ids: "requestedSendNowIDs [] [ex_row] = Inr [''a'']" by (simp add: ex_row_def ex_msg_def)
  have plain: "\<not> IsReservedInFlight ex_row"
    by (simp add: IsReservedInFlight_def metadataBool_def ex_row_def ex_msg_def zero_message_def)
  obtain rows leases where rows: "claim_rows ex_env (gm_get0 no_identity (r_identities ex_two) ''s'') [''a''] 0
      (sess ex_two ''s'') = (rows, leases)" by fastforce
  have "qm_Metadata (source_copy i ex_row) = []" "qm_Attachments (source_copy i ex_row) = []" for i
    by (simp_all add: clearReservedMetadata_def gm_del_if_def) (simp_all add: ex_row_def ex_msg_def zero_message_def)
  from envelope_plain [OF this] obtain env where
    "BuildSendNowEnvelope ex_codec ex_env [source_copy (gm_get0 no_identity (r_identities ex_two) ''s'') ex_row] = Inr env"
    by blast
  moreover have "\<not> IsReservedInFlight x" if "x \<in> set (sess ex_two ''s'')" "qm_ID x = ''a''" for x
  proof -
    have "x \<in> set (filter (\<lambda>q. qm_ID q = ''a'') (sess ex_two ''s''))" using that by simp
    then show ?thesis unfolding sel using plain by simp
  qed
  moreover have "bindSendNowDeliveryReservations i [cloneSendNowSource q] = [source_copy i q]" for i q
    using sources_map [of i "[q]"] by simp
  ultimately show ?thesis
    using ids sel rows
    by (simp add: ClaimSendNow_def claimSendNowLocked_def validateSendNowSnapshot_def same Let_def
        del: requestedSendNowIDs.simps)
qed

theorem claims_exclusive_witness:
  "\<exists>cl r1 err. ClaimSendNow ex_codec ex_env ''s'' [ex_row] ex_two = (Inr cl, r1) \<and>
     ClaimSendNow ex_codec ex_later ''s'' [ex_row] r1 = (Inl err, r1)"
proof -
  obtain cl r1 where "ClaimSendNow ex_codec ex_env ''s'' [ex_row] ex_two = (Inr cl, r1)"
    using claim_ex_row by blast
  with claims_exclusive [OF this, of "[ex_row]" ex_codec ex_later] show ?thesis by auto
qed

section \<open>The envelope\<close>

lemma validate_bytes_mono:
  "validate_bytes as n = Inr n' \<Longrightarrow> n \<le> MaxAttachmentBytes \<Longrightarrow> n' \<le> MaxAttachmentBytes"
  by (induction as arbitrary: n) (auto split: option.splits if_splits)

lemma validate_refs_spec:
  "validate_refs refs seen = Inr seen' \<Longrightarrow> distinct seen \<Longrightarrow> length seen \<le> MaxReferencesPerMessage \<Longrightarrow>
   distinct seen' \<and> length seen' \<le> MaxReferencesPerMessage \<and> set seen' = set seen \<union> er_Ref ` set refs"
proof (induction refs arbitrary: seen)
  case (Cons ref refs)
  show ?case
  proof (cases "er_Ref ref \<in> set seen")
    case True
    with Cons show ?thesis by auto
  next
    case False
    with Cons.prems have "validate_refs refs (er_Ref ref # seen) = Inr seen'"
      "length (er_Ref ref # seen) \<le> MaxReferencesPerMessage" by (auto split: if_splits)
    with Cons.IH [of "er_Ref ref # seen"] Cons.prems(2) False show ?thesis by auto
  qed
qed simp

abbreviation row_refs :: "codec \<Rightarrow> QueuedMessage \<Rightarrow> EntityReference list" where
  "row_refs c q \<equiv> NormalizePersisted c (gm_get (qm_Metadata q) MetadataEntityReferences)"

lemma validate_entries_spec:
  "validate_entries c qs n bytes seen = Inr () \<Longrightarrow> n \<le> MaxAttachmentCount \<Longrightarrow> distinct seen \<Longrightarrow>
   length seen \<le> MaxReferencesPerMessage \<Longrightarrow>
   n + length (concat (map qm_Attachments qs)) \<le> MaxAttachmentCount \<and>
   (\<exists>total. validate_bytes (concat (map qm_Attachments qs)) bytes = Inr total) \<and>
   card (set seen \<union> er_Ref ` set (concat (map (row_refs c) qs))) \<le> MaxReferencesPerMessage"
proof (induction qs arbitrary: n bytes seen)
  case Nil
  then show ?case using distinct_card [of seen] by simp
next
  case (Cons q qs)
  have append: "validate_bytes (as @ bs) k = (case validate_bytes as k of Inl err \<Rightarrow> Inl err | Inr k' \<Rightarrow> validate_bytes bs k')"
    for as bs k by (induction as arbitrary: k) (auto split: option.splits)
  from Cons.prems(1) obtain bytes' seen' where
    step: "n + length (qm_Attachments q) \<le> MaxAttachmentCount"
      "validate_bytes (qm_Attachments q) bytes = Inr bytes'" "validate_refs (row_refs c q) seen = Inr seen'"
      "validate_entries c qs (n + length (qm_Attachments q)) bytes' seen' = Inr ()"
    by (auto simp: Let_def split: sum.splits if_splits)
  note refs = validate_refs_spec [OF step(3) Cons.prems(3,4)]
  from Cons.IH [OF step(4,1)] refs step(2) show ?case by (auto simp: append Un_assoc image_Un)
qed

lemma union_refs_spec:
  "set (map er_Ref (union_refs seen refs)) = er_Ref ` set refs - set seen \<and>
   distinct (map er_Ref (union_refs seen refs))"
proof (induction refs arbitrary: seen)
  case (Cons ref refs)
  show ?case using Cons.IH [of "er_Ref ref # seen"] Cons.IH [of seen] by auto
qed simp

lemma NormalizePersisted_refs:
  "NormalizePersisted c (Some (MRefs refs)) = (case normalize c refs False of None \<Rightarrow> [] | Some n \<Rightarrow> n)"
  by (simp add: NormalizePersisted_def decode_refs_def)

text \<open>
  The limits of the send-now envelope.  A prompt built from queue entries carries all their
  attachments in order, and is built only if there are at most ten of them, their payloads can be
  sized and add up to at most 100 MiB, and the entries name at most one hundred distinct entity
  references, which are the references of the prompt.
\<close>

theorem envelope_limits:
  assumes "BuildSendNowEnvelope c e qs = Inr env"
  shows "qm_Attachments env = concat (map qm_Attachments qs) \<and>
         length (qm_Attachments env) \<le> MaxAttachmentCount \<and>
         (\<exists>total. validate_bytes (qm_Attachments env) 0 = Inr total \<and> total \<le> MaxAttachmentBytes) \<and>
         (\<forall>refs. gm_get (qm_Metadata env) MetadataEntityReferences = Some (MRefs refs) \<longrightarrow>
            distinct (map er_Ref refs) \<and> length refs \<le> MaxReferencesPerMessage \<and>
            er_Ref ` set refs = (\<Union>q\<in>set qs. er_Ref ` set (row_refs c q)))"
proof -
  obtain q qs' where qs: "qs = q # qs'" and valid: "validate_entries c qs 0 0 [] = Inr ()"
    using assms by (auto simp: BuildSendNowEnvelope_def ValidateSendNowEntries_def
        split: sum.splits list.splits if_splits)
  let ?refs = "union_refs [] (concat (map (row_refs c) qs))"
  have att: "qm_Attachments env = concat (map qm_Attachments qs)"
    using assms by (auto simp: BuildSendNowEnvelope_def Let_def split: sum.splits list.splits)
  have meta: "gm_get (qm_Metadata env) MetadataEntityReferences = (if ?refs = [] then None else Some (MRefs ?refs))"
    using assms by (auto simp: BuildSendNowEnvelope_def put_or_delete_def Let_def split: sum.splits list.splits)
  from validate_entries_spec [OF valid] have spec:
    "length (concat (map qm_Attachments qs)) \<le> MaxAttachmentCount"
    "\<exists>total. validate_bytes (concat (map qm_Attachments qs)) 0 = Inr total"
    "card (er_Ref ` set (concat (map (row_refs c) qs))) \<le> MaxReferencesPerMessage" by simp_all
  have "set (map er_Ref ?refs) = er_Ref ` set (concat (map (row_refs c) qs))" "distinct (map er_Ref ?refs)"
    using union_refs_spec [of "[]" "concat (map (row_refs c) qs)"] by simp_all
  moreover from this have "length ?refs \<le> MaxReferencesPerMessage"
    using spec(3) distinct_card [of "map er_Ref ?refs"] by simp
  ultimately show ?thesis
    using att spec(1,2) meta validate_bytes_mono [of "concat (map qm_Attachments qs)" 0]
    by (auto split: if_splits)
qed

theorem envelope_limits_witness:
  "\<exists>env. BuildSendNowEnvelope ex_codec ex_env [ex_msg ''a'' ''first''] = Inr env \<and>
     length (qm_Attachments env) \<le> MaxAttachmentCount"
proof -
  obtain env where "BuildSendNowEnvelope ex_codec ex_env [ex_msg ''a'' ''first''] = Inr env"
    using envelope_plain [of "ex_msg ''a'' ''first''"] by (auto simp: ex_msg_def zero_message_def)
  with envelope_limits [OF this] show ?thesis by blast
qed

section \<open>Undoing a claim\<close>

text \<open>
  A row without its delivery bookkeeping: the reservation keys of its metadata and the process-local
  evidence of a reservation.
\<close>

definition settled :: "QueuedMessage \<Rightarrow> QueuedMessage" where
  "settled q = q\<lparr>qm_Metadata := clearReservedMetadata (qm_Metadata q), qm_reservedDelivery := False,
     qm_reservedLifecycleDelivery := False, qm_reservationIdentity := no_identity,
     qm_reservationToken := [], qm_reservationExpiresAt := 0\<rparr>"

lemma clear_put: "k \<in> set reservedKeys \<Longrightarrow> clearReservedMetadata (gm_put k v m) = clearReservedMetadata m"
proof -
  assume k: "k \<in> set reservedKeys"
  have "filter (\<lambda>(k', _). k' \<notin> S) (AList.update k v m) = filter (\<lambda>(k', _). k' \<notin> S) m" if "k \<in> S" for S
    using that by (induction m) auto
  from this [OF k] show ?thesis by (simp add: clearReservedMetadata_def gm_del_if_def gm_put_def)
qed

lemma clear_clear [simp]: "clearReservedMetadata (clearReservedMetadata m) = clearReservedMetadata m"
  by (simp add: clearReservedMetadata_def gm_del_if_def)

lemma clear_marks:
  "clearReservedMetadata (markReservedMetadata m ids) = clearReservedMetadata m"
  "clearReservedMetadata (markReservedMetadataForIncarnation m inc) = clearReservedMetadata m"
  "clearReservedMetadata (fst (markReservedMetadataWithLease m inc now token)) = clearReservedMetadata m"
  by (simp_all add: markReservedMetadata_def markReservedMetadataForIncarnation_def
      markReservedMetadataWithLease_def clear_put Let_def split: list.split)

lemma put_same: "gm_get m k = Some v \<Longrightarrow> gm_put k v m = m"
  unfolding gm_get_def gm_put_def by (induction m) auto

lemma restore_marked:
  assumes "clearReservedMetadata meta = clearReservedMetadata orig"
  shows "clearReservedMetadata (restoreSendNowMetadata meta (clearReservedMetadata orig)) = clearReservedMetadata orig"
proof (cases "metadataBool (clearReservedMetadata orig) metadataUserMessageRecorded")
  case True
  then have "gm_get (clearReservedMetadata orig) metadataUserMessageRecorded = Some (MBool True)"
    by (auto simp: metadataBool_def split: option.splits mval.splits if_splits)
  then show ?thesis using assms True by (simp add: restoreSendNowMetadata_def put_same)
qed (simp add: restoreSendNowMetadata_def assms)

lemma settled_copy: "settled (source_copy i q) = settled q"
  by (simp add: settled_def source_copy_def bindSendNowDeliveryReservations_def cloneSendNowSource_def Let_def)

lemma settled_bind [simp]: "settled (bind_lease leases q) = settled q"
  by (simp add: settled_def bind_lease_def split: option.split prod.split)

lemma bind_lease_fields [simp]:
  "qm_ID (bind_lease l q) = qm_ID q" "qm_SessionID (bind_lease l q) = qm_SessionID q"
  "qm_TaskID (bind_lease l q) = qm_TaskID q" "qm_Position (bind_lease l q) = qm_Position q"
  "qm_Metadata (bind_lease l q) = qm_Metadata q"
  by (simp_all add: bind_lease_def split: option.split prod.split)

text \<open>What a claimed durable row looks like in the queue.\<close>

lemma claim_row_spec:
  assumes "claim_row e i k q = (qo, token, expiresAt)"
  shows "qo = None \<longleftrightarrow> \<not> IsDurableDelivery q"
    and "qo = Some q' \<Longrightarrow> q' = q\<lparr>qm_Metadata := qm_Metadata q'\<rparr> \<and>
           clearReservedMetadata (qm_Metadata q') = clearReservedMetadata (qm_Metadata q)"
    and "qo = Some q' \<Longrightarrow> IsReservedInFlight q'"
    and "qo = Some q' \<Longrightarrow> IsDurablePlanComment q \<Longrightarrow>
           deliveryReservationToken (qm_Metadata q') = e_uuid e (3 + 2 * k) \<and> token = e_uuid e (3 + 2 * k)"
    and "qo = Some q' \<Longrightarrow> \<not> IsDurablePlanComment q \<Longrightarrow>
           deliveryReservationToken (qm_Metadata q') = deliveryReservationToken (qm_Metadata q) \<and> token = []"
proof -
  let ?inc = "si_SessionIncarnationID i"
  let ?m = "markReservedMetadataForIncarnation (markReservedMetadata (qm_Metadata q) [e_uuid e (2 + 2 * k)]) ?inc"
  let ?meta = "if IsDurablePlanComment q
      then fst (markReservedMetadataWithLease ?m ?inc (e_now e) (e_uuid e (3 + 2 * k))) else ?m"
  show "qo = None \<longleftrightarrow> \<not> IsDurableDelivery q"
    using assms by (auto simp: claim_row_def Let_def split: if_splits prod.splits)
  have q': "q' = q\<lparr>qm_Metadata := ?meta\<rparr>" and t: "token = (if IsDurablePlanComment q then e_uuid e (3 + 2 * k) else [])"
    if "qo = Some q'"
    using assms that by (auto simp: claim_row_def markReservedMetadataWithLease_def Let_def split: if_splits)
  show "q' = q\<lparr>qm_Metadata := qm_Metadata q'\<rparr> \<and>
      clearReservedMetadata (qm_Metadata q') = clearReservedMetadata (qm_Metadata q)" if "qo = Some q'"
    using q' [OF that] by (simp add: clear_marks)
  show "IsReservedInFlight q'" if "qo = Some q'"
    using q' [OF that] by (simp add: IsReservedInFlight_def metadataBool_def reserved_lookup)
  show "deliveryReservationToken (qm_Metadata q') = e_uuid e (3 + 2 * k) \<and> token = e_uuid e (3 + 2 * k)"
    if "qo = Some q'" "IsDurablePlanComment q"
    using q' [OF that(1)] t [OF that(1)] that(2)
    by (simp add: deliveryReservationToken_def metadataString_def reserved_lookup)
  show "deliveryReservationToken (qm_Metadata q') = deliveryReservationToken (qm_Metadata q) \<and> token = []"
    if "qo = Some q'" "\<not> IsDurablePlanComment q"
    using q' [OF that(1)] t [OF that(1)] that(2)
    by (simp add: deliveryReservationToken_def metadataString_def reserved_lookup)
qed


lemma settled_id [simp]: "qm_ID (settled q) = qm_ID q" "qm_Position (settled q) = qm_Position q"
  by (simp_all add: settled_def)

lemma settled_meta:
  "q' = q\<lparr>qm_Metadata := meta\<rparr> \<Longrightarrow> clearReservedMetadata meta = clearReservedMetadata (qm_Metadata q) \<Longrightarrow>
   settled q' = settled q"
  by (simp add: settled_def)

text \<open>The rows and leases of a claim on a list with distinct identifiers.\<close>

lemma claim_rows_spec:
  assumes "distinct (map qm_ID l)" and "claim_rows e i ids k l = (rows, leases)"
  shows "distinct (map qm_ID rows) \<and>
    qm_ID ` set rows = qm_ID ` {q \<in> set l. qm_ID q \<notin> set ids \<or> IsDurableDelivery q} \<and>
    (\<forall>x\<in>set rows. \<exists>q\<in>set l. settled x = settled q) \<and> fst ` set leases \<subseteq> qm_ID ` set l \<and>
    (\<forall>q\<in>set l. qm_ID q \<in> set ids \<and> IsDurableDelivery q \<longrightarrow>
       (\<exists>k q' token expiresAt. claim_row e i k q = (Some q', token, expiresAt) \<and> q' \<in> set rows \<and>
          gm_get leases (qm_ID q) = Some (token, expiresAt)))"
  using assms
proof (induction l arbitrary: k rows leases)
  case (Cons q l)
  obtain rows0 leases0 where rec: "claim_rows e i ids (Suc k) l = (rows0, leases0)" by fastforce
  note IH = Cons.IH [OF _ rec]
  obtain qo token expiresAt where row: "claim_row e i k q = (qo, token, expiresAt)" using prod_cases3 by blast
  have fresh: "qm_ID q \<notin> qm_ID ` set l" "distinct (map qm_ID l)" using Cons.prems(1) by auto
  consider (other) "qm_ID q \<notin> set ids" "rows = q # rows0" "leases = leases0"
    | (ordinary) "qm_ID q \<in> set ids" "qo = None" "rows = rows0" "leases = leases0"
    | (durable) q' where "qm_ID q \<in> set ids" "qo = Some q'" "rows = q' # rows0"
        "leases = (qm_ID q, token, expiresAt) # leases0"
    using Cons.prems(2) rec row by (cases qo) (auto split: if_splits)
  then show ?case
  proof cases
    case other
    then show ?thesis using IH [OF fresh(2)] fresh(1) by (auto 4 3)
  next
    case ordinary
    then show ?thesis using IH [OF fresh(2)] fresh(1) claim_row_spec(1) [OF row] by (auto 4 3)
  next
    case durable
    have settled: "settled q' = settled q"
      using claim_row_spec(2) [OF row durable(2)] settled_meta by blast
    have q': "qm_ID q' = qm_ID q" "IsDurableDelivery q"
      using arg_cong [OF settled, of qm_ID] claim_row_spec(1) [OF row] durable(2) by simp_all
    have look: "gm_get leases (qm_ID x) = gm_get leases0 (qm_ID x)" if "x \<in> set l" for x
    proof -
      have "qm_ID x \<noteq> qm_ID q" using that fresh(1) by (metis image_eqI)
      then show ?thesis by (simp add: durable(4) gm_get_def)
    qed
    have "gm_get leases (qm_ID q) = Some (token, expiresAt)" by (simp add: durable(4) gm_get_def)
    then show ?thesis
      using IH [OF fresh(2)] fresh(1) durable row q' settled look by (auto 4 4)
  qed
qed (simp add: gm_get_def)


lemma find_index_unique:
  "distinct (map f l) \<Longrightarrow> k < length l \<Longrightarrow> find_index (\<lambda>q. f q = f (l ! k)) l = Some k"
proof -
  assume d: "distinct (map f l)" and k: "k < length l"
  have "find_index (\<lambda>q. f q = f (l ! k)) l \<noteq> None" using k by (auto simp: find_index_None_iff)
  then obtain j where "find_index (\<lambda>q. f q = f (l ! k)) l = Some j" by blast
  with find_index_SomeD [OF this] d k show ?thesis by (simp add: distinct_conv_nth) metis
qed

lemma update_by_id_map:
  assumes "distinct (map qm_ID l)"
  shows "update_by_id x f l = map (\<lambda>q. if qm_ID q = x then f q else q) l"
proof (cases "x \<in> qm_ID ` set l")
  case True
  let ?r = "rev l"
  obtain k where k: "k < length ?r" "qm_ID (?r ! k) = x"
    using True by (metis image_iff in_set_conv_nth set_rev)
  have d: "distinct (map qm_ID ?r)" using assms by (metis distinct_rev rev_map)
  have "find_index (\<lambda>q. qm_ID q = x) ?r = Some k"
    using find_index_unique [OF d k(1)] k(2) by simp
  moreover have "?r[k := f (?r ! k)] = map (\<lambda>q. if qm_ID q = x then f q else q) ?r"
    using d k by (auto intro!: nth_equalityI simp: nth_list_update distinct_conv_nth)
  ultimately show ?thesis by (simp add: update_by_id_def rev_map)
next
  case False
  then have "map (\<lambda>q. if qm_ID q = x then f q else q) l = l" by (auto intro!: map_idI)
  moreover have "find_index (\<lambda>q. qm_ID q = x) (rev l) = None" using False by (auto simp: find_index_None_iff)
  ultimately show ?thesis by (simp add: update_by_id_def)
qed

text \<open>
  The state of the restore loop over sources that are copies of rows of \<open>orig\<close>: identifiers stay
  distinct, every row is a row of \<open>orig\<close> up to delivery bookkeeping, and an ordinary source that
  was processed is back.
\<close>

lemma restore_loop:
  assumes "distinct (map qm_ID orig)" and "distinct (map qm_ID qs)"
    and "\<forall>q\<in>set qs. \<exists>o'\<in>set orig. qm_ID q = qm_ID o' \<and> qm_Metadata q = clearReservedMetadata (qm_Metadata o') \<and>
           settled q = settled o'"
    and "\<forall>q\<in>set qs. (entry_by_id rows (qm_ID q) = None) = (\<not> IsDurableDelivery q)"
    and "\<forall>q\<in>set qs. \<forall>r. r_generation r = gens \<longrightarrow> \<not> source_stale cl r q"
    and "distinct (map qm_ID L)" and "\<forall>x\<in>set L. \<exists>o'\<in>set orig. settled x = settled o'"
    and "qm_ID ` set L \<inter> qm_ID ` {q \<in> set qs. \<not> IsDurableDelivery q} = {}"
    and "foldl (restore_source cl s rows) (L, r) qs = (L', r')" and "r_generation r = gens"
  shows "distinct (map qm_ID L') \<and> (\<forall>x\<in>set L'. \<exists>o'\<in>set orig. settled x = settled o') \<and>
    qm_ID ` set L' = qm_ID ` set L \<union> qm_ID ` {q \<in> set qs. \<not> IsDurableDelivery q} \<and>
    r' = raise_all s (filter (\<lambda>q. \<not> IsDurableDelivery q) qs) r"
  using assms(2-)
proof (induction qs arbitrary: L r)
  case (Cons q qs)
  obtain o' where o': "o' \<in> set orig" "qm_ID q = qm_ID o'" "settled q = settled o'"
    "qm_Metadata q = clearReservedMetadata (qm_Metadata o')" using Cons.prems(2) by auto
  have fresh: "\<not> source_stale cl r q" using Cons.prems(4,9) by auto
  note rest = Cons.prems(1) [simplified, THEN conjunct2] Cons.prems(2-4) [simplified, THEN conjunct2]
  show ?case
  proof (cases "IsDurableDelivery q")
    case True
    let ?f = "\<lambda>x. x\<lparr>qm_Metadata := restoreSendNowMetadata (qm_Metadata x) (qm_Metadata q)\<rparr>"
    let ?L = "map (\<lambda>x. if qm_ID x = qm_ID q then ?f x else x) L"
    have step: "restore_source cl s rows (L, r) q = (?L, r)"
      using True fresh Cons.prems(3) update_by_id_map [OF Cons.prems(5)]
      by (auto simp: restore_source_def split: option.splits)
    have ids: "map qm_ID ?L = map qm_ID L" by auto
    have "\<exists>o'\<in>set orig. settled x = settled o'" if x: "x \<in> set ?L" for x
    proof -
      obtain y where y: "y \<in> set L" "x = (if qm_ID y = qm_ID q then ?f y else y)"
        using x unfolding set_map by blast
      obtain p where p: "p \<in> set orig" "settled y = settled p" using Cons.prems(6) y(1) by blast
      show ?thesis
      proof (cases "qm_ID y = qm_ID q")
        case True
        then have "qm_ID p = qm_ID o'" using arg_cong [OF p(2), of qm_ID] o'(2) by simp
        then have "p = o'" using assms(1) p(1) o'(1) by (metis distinct_map inj_onD)
        then have "clearReservedMetadata (qm_Metadata y) = clearReservedMetadata (qm_Metadata o')"
          using arg_cong [OF p(2), of qm_Metadata] by (simp add: settled_def)
        then have "settled (?f y) = settled y"
          using restore_marked [of "qm_Metadata y" "qm_Metadata o'"] by (simp add: settled_def o'(4))
        with True y(2) p show ?thesis by auto
      qed (use y p in auto)
    qed
    then have sett: "\<forall>x\<in>set ?L. \<exists>o'\<in>set orig. settled x = settled o'" by blast
    have dL: "distinct (map qm_ID ?L)" unfolding ids by (rule Cons.prems(5))
    have iL: "qm_ID ` set ?L = qm_ID ` set L" using arg_cong [OF ids, of set] by (simp only: list.set_map)
    have todo: "{x \<in> set (q # qs). \<not> IsDurableDelivery x} = {x \<in> set qs. \<not> IsDurableDelivery x}"
      using True by auto
    have disj: "qm_ID ` set ?L \<inter> qm_ID ` {x \<in> set qs. \<not> IsDurableDelivery x} = {}"
      using Cons.prems(7) unfolding iL todo .
    have run: "foldl (restore_source cl s rows) (?L, r) qs = (L', r')" using Cons.prems(8) step by simp
    have filt: "filter (\<lambda>x. \<not> IsDurableDelivery x) (q # qs) = filter (\<lambda>x. \<not> IsDurableDelivery x) qs"
      using True by simp
    show ?thesis
      using Cons.IH [OF rest(1-4) dL sett disj run Cons.prems(9)] unfolding iL todo filt .
  next
    case False
    let ?c = "q\<lparr>qm_Metadata := clearReservedMetadata (qm_Metadata q)\<rparr>"
    let ?L = "L @ [?c]"
    have step: "restore_source cl s rows (L, r) q = (?L, raise_next s (qm_Position q) r)"
      using False fresh Cons.prems(3) by (auto simp: restore_source_def Let_def split: option.splits)
    have "settled ?c = settled o'" using o'(3) by (simp add: settled_def)
    then have sett: "\<forall>x\<in>set ?L. \<exists>o'\<in>set orig. settled x = settled o'" using Cons.prems(6) o'(1) by auto
    have new: "qm_ID q \<notin> qm_ID ` set L" using Cons.prems(7) False by auto
    have dL: "distinct (map qm_ID ?L)" using new Cons.prems(5) by simp
    have todo: "{x \<in> set (q # qs). \<not> IsDurableDelivery x} = insert q {x \<in> set qs. \<not> IsDurableDelivery x}"
      using False by auto
    have other: "qm_ID q \<notin> qm_ID ` {x \<in> set qs. \<not> IsDurableDelivery x}" using Cons.prems(1) by auto
    have disj: "qm_ID ` set ?L \<inter> qm_ID ` {x \<in> set qs. \<not> IsDurableDelivery x} = {}"
      using Cons.prems(7) other unfolding todo by simp
    have run: "foldl (restore_source cl s rows) (?L, raise_next s (qm_Position q) r) qs = (L', r')"
      using Cons.prems(8) step by simp
    have gen: "r_generation (raise_next s (qm_Position q) r) = gens"
      using Cons.prems(9) by (simp add: raise_next_def put_next_def)
    show ?thesis
      using Cons.IH [OF rest(1-4) dL sett disj run gen] False unfolding todo by simp
  qed
qed simp


lemma task_generations_lookup:
  "gm_get (task_generations r qs) t =
     (if t \<noteq> [] \<and> t \<in> qm_TaskID ` set qs then Some (gm_get0 0 (r_generation r) t) else None)"
proof -
  have "gm_get (foldl (\<lambda>m q. if qm_TaskID q = [] then m
                  else gm_put (qm_TaskID q) (gm_get0 0 (r_generation r) (qm_TaskID q)) m) m0 qs) t =
     (if t \<noteq> [] \<and> t \<in> qm_TaskID ` set qs then Some (gm_get0 0 (r_generation r) t) else gm_get m0 t)" for m0
    by (induction qs arbitrary: m0) auto
  then show ?thesis by (simp add: task_generations_def)
qed

lemma claim_fence:
  assumes "claimSendNowLocked c e i s expected r = (Inr cl, r1)"
  shows "r_generation r1 = r_generation r \<and> r_sessionGeneration r1 = r_sessionGeneration r \<and>
    r_identities r1 = r_identities r \<and> sc_Identity cl = i \<and>
    sc_OperationGeneration cl = gm_get0 0 (r_sendNowGeneration r1) s \<and>
    sc_SessionGeneration cl = gm_get0 0 (r_sessionGeneration r) s \<and>
    (\<exists>qs. sc_SourceGenerations cl = task_generations r qs)"
  using assms
  by (auto simp: claimSendNowLocked_def setAutoRunLocked_def store_entries_def put_entries_def Let_def
      split: if_splits sum.splits prod.splits)

lemma claim_not_stale:
  assumes "sc_SourceGenerations cl = task_generations r qs" and "r_generation r' = r_generation r"
  shows "\<not> source_stale cl r' q"
  by (simp add: source_stale_def sendNowSourceGenerationChanged_def assms task_generations_lookup)

lemma settled_bijection:
  assumes "distinct (map qm_ID l)" "distinct (map qm_ID orig)" "qm_ID ` set l = qm_ID ` set orig"
    and "\<forall>x\<in>set l. \<exists>o'\<in>set orig. settled x = settled o'"
  shows "mset (map settled l) = mset (map settled orig)"
proof -
  have d: "distinct (map settled l')" if "distinct (map qm_ID l')" for l'
  proof -
    have "map qm_ID l' = map qm_ID (map settled l')" by simp
    then show ?thesis using that by (metis distinct_map)
  qed
  have "settled ` set l = settled ` set orig"
  proof
    show "settled ` set l \<subseteq> settled ` set orig" using assms(4) by blast
    show "settled ` set orig \<subseteq> settled ` set l"
    proof
      fix y
      assume "y \<in> settled ` set orig"
      then obtain q where q: "q \<in> set orig" "y = settled q" by blast
      then obtain x where x: "x \<in> set l" "qm_ID x = qm_ID q" using assms(3) by (metis imageE image_eqI)
      obtain p where p: "p \<in> set orig" "settled x = settled p" using assms(4) x(1) by blast
      then have "p = q" using x(2) q(1) assms(2) settled_id(1) by (metis distinct_map inj_onD)
      with p q x show "y \<in> settled ` set l" by (metis image_eqI)
    qed
  qed
  then show ?thesis using d [OF assms(1)] d [OF assms(2)] by (metis list.set_map set_eq_iff_mset_eq_distinct)
qed

lemma settled_sorted_unique:
  assumes "mset (map settled l) = mset (map settled orig)" "sorted (map qm_Position orig)"
    "distinct (map qm_Position orig)"
  shows "map settled (sort_key qm_Position l) = map settled orig"
proof -
  have pos: "map qm_Position (map settled l') = map qm_Position l'" for l' by simp
  have "inj_on qm_Position (set (map settled orig))" using assms(3) pos [of orig] by (metis distinct_map)
  moreover have "mset (map settled (sort_key qm_Position l)) = mset (map settled orig)"
    using assms(1) by simp
  ultimately have "map settled (sort_key qm_Position l) = sort_key qm_Position (map settled orig)"
    by (intro sorted_permutation_unique) (simp_all only: pos sorted_sort_key)
  then show ?thesis using assms(2) pos [of orig] by (metis sort_key_id_if_sorted)
qed

lemma gm_has_Nil: "\<not> gm_has [] k"
  by (simp add: gm_has_def)

lemma ownership_removed:
  "q \<in> set qs \<Longrightarrow> \<not> gm_has (gm_get0 [] (r_sendNowClaims (removeSendNowClaimOwnershipLocked s qs r)) s) (qm_ID q)"
proof -
  assume "q \<in> set qs"
  moreover have "gm_has (foldl (\<lambda>m q. gm_del (qm_ID q) m) m0 qs) x \<longleftrightarrow> x \<notin> qm_ID ` set qs \<and> gm_has m0 x"
    for x and m0 :: "(string, unit) gomap"
    by (induction qs arbitrary: m0) auto
  ultimately show ?thesis
    by (simp add: removeSendNowClaimOwnershipLocked_def Let_def gm_has_Nil)
qed


lemma class_by_clear:
  assumes "clearReservedMetadata (qm_Metadata q') = clearReservedMetadata (qm_Metadata q)"
  shows "IsDurableDelivery q' = IsDurableDelivery q" "IsDurablePlanComment q' = IsDurablePlanComment q"
    "IsDeliveryAttempted q' = IsDeliveryAttempted q"
proof -
  have "gm_get (qm_Metadata q') k = gm_get (qm_Metadata q) k" if "k \<notin> set reservedKeys" for k
    using that arg_cong [OF assms, of "\<lambda>m. gm_get m k"] by (simp only: gm_get_clearReserved if_False)
  note look = this
  show "IsDurablePlanComment q' = IsDurablePlanComment q" "IsDeliveryAttempted q' = IsDeliveryAttempted q"
    by (simp_all add: IsDurablePlanComment_def IsDeliveryAttempted_def metadataString_def metadataBool_def look)
  then show "IsDurableDelivery q' = IsDurableDelivery q"
    by (simp add: IsDurableDelivery_def IsDurableLifecycle_def isManagedInputQueueEntry_def
        metadataString_def metadataBool_def look)
qed

lemma claimed_source:
  assumes "distinct (map qm_ID l)" and "claim_rows e i ids 0 l = (rows, leases)"
    and "q \<in> set l" "qm_ID q \<in> set ids" and "src = bind_lease leases (source_copy i q)"
    and "\<not> IsDeliveryAttempted q" "deliveryReservationToken (qm_Metadata q) = []" "\<forall>k. e_uuid e k \<noteq> []"
  shows "IsDurableDelivery src = IsDurableDelivery q"
    and "\<not> IsDurableDelivery q \<Longrightarrow> entry_by_id rows (qm_ID q) = None"
    and "IsDurableDelivery q \<Longrightarrow> \<exists>entry. entry_by_id rows (qm_ID q) = Some entry \<and>
           \<not> IsDeliveryAttempted entry \<and> reservationMatches src (qm_Metadata entry) \<and> IsReservedInFlight entry"
proof -
  have clr: "clearReservedMetadata (qm_Metadata src) = clearReservedMetadata (qm_Metadata q)"
    by (simp add: assms(5))
  note cls = class_by_clear [OF clr]
  note spec = claim_rows_spec [OF assms(1,2)]
  show "IsDurableDelivery src = IsDurableDelivery q" by (rule cls(1))
  show "entry_by_id rows (qm_ID q) = None" if "\<not> IsDurableDelivery q"
  proof -
    have "q' = q" if "q' \<in> set l" "qm_ID q' = qm_ID q" for q'
      using that assms(1,3) by (metis distinct_map inj_onD)
    then show ?thesis using spec that assms(4) by (auto simp: entry_by_id_None_iff)
  qed
  show "\<exists>entry. entry_by_id rows (qm_ID q) = Some entry \<and> \<not> IsDeliveryAttempted entry \<and>
      reservationMatches src (qm_Metadata entry) \<and> IsReservedInFlight entry" if d: "IsDurableDelivery q"
  proof -
    obtain k q' token expiresAt where row: "claim_row e i k q = (Some q', token, expiresAt)" "q' \<in> set rows"
      "gm_get leases (qm_ID q) = Some (token, expiresAt)"
      using spec [THEN conjunct2, THEN conjunct2, THEN conjunct2, THEN conjunct2, rule_format,
          OF assms(3) conjI [OF assms(4) d]] by (elim exE conjE)
    note r = claim_row_spec [OF row(1)]
    have q': "qm_ID q' = qm_ID q" "clearReservedMetadata (qm_Metadata q') = clearReservedMetadata (qm_Metadata q)"
      using claim_row_reserved [OF row(1)] r(2) [of q'] by blast+
    have "entry_by_id rows (qm_ID q) = Some q'"
      using entry_by_id_distinct [OF conjunct1 [OF spec] row(2)] q'(1) by simp
    moreover have "\<not> IsDeliveryAttempted q'" using class_by_clear(3) [OF q'(2)] assms(6) by simp
    moreover have "qm_reservationToken src = token" by (simp add: assms(5) bind_lease_def row(3))
    then have "reservationMatches src (qm_Metadata q')"
      using r(4,5) [of q'] cls(2) assms(7,8) by (cases "IsDurablePlanComment q") (auto simp: reservationMatches_def)
    ultimately show ?thesis using r(3) [of q'] by blast
  qed
qed

text \<open>Running the restore loop over the sources of a claim brings back the rows of the queue.\<close>

lemma restore_claim_rows:
  assumes "distinct (map qm_ID l)" and "claim_rows e i ids 0 l = (rows, leases)"
    and src: "srcs = map (\<lambda>q. bind_lease leases (source_copy i q)) (filter (\<lambda>q. qm_ID q \<in> set ids) l)"
    and "\<And>q. q \<in> set l \<Longrightarrow> qm_ID q \<in> set ids \<Longrightarrow>
           (IsDurableDelivery (bind_lease leases (source_copy i q)) = IsDurableDelivery q) \<and>
           (entry_by_id rows (qm_ID q) = None) = (\<not> IsDurableDelivery q)"
    and "\<And>ra q. r_generation ra = r_generation r1 \<Longrightarrow> \<not> source_stale cl ra q"
    and loop: "foldl (restore_source cl s rows) (rows, r1) srcs = (L', r')"
  shows "mset (map settled L') = mset (map settled l)"
proof -
  let ?copy = "\<lambda>q. bind_lease leases (source_copy i q)"
  let ?todo = "{q \<in> set srcs. \<not> IsDurableDelivery q}"
  note spec = claim_rows_spec [OF assms(1,2)]
  have ex: "\<exists>o'\<in>set l. q = ?copy o' \<and> qm_ID o' \<in> set ids" if "q \<in> set srcs" for q
    using that unfolding src set_map by auto
  have p3: "\<forall>q\<in>set srcs. \<exists>o'\<in>set l. qm_ID q = qm_ID o' \<and>
      qm_Metadata q = clearReservedMetadata (qm_Metadata o') \<and> settled q = settled o'"
    by (auto simp: src settled_copy)
  have p4: "\<forall>q\<in>set srcs. (entry_by_id rows (qm_ID q) = None) = (\<not> IsDurableDelivery q)"
    using ex assms(4) by fastforce
  have "qm_ID q \<notin> qm_ID ` set rows" if "q \<in> ?todo" for q
    using p4 that by (simp add: entry_by_id_None_iff)
  then have "qm_ID ` ?todo \<subseteq> - (qm_ID ` set rows)" by (intro image_subsetI) simp
  then have p8: "qm_ID ` set rows \<inter> qm_ID ` ?todo = {}" by (subst Int_commute) (simp only: disjoint_eq_subset_Compl)
  have dsrc: "distinct (map qm_ID srcs)" using assms(1) by (simp add: src comp_def distinct_map_filter)
  have L': "distinct (map qm_ID L') \<and> (\<forall>x\<in>set L'. \<exists>o'\<in>set l. settled x = settled o') \<and>
    qm_ID ` set L' = qm_ID ` set rows \<union> qm_ID ` ?todo \<and>
    r' = raise_all s (filter (\<lambda>q. \<not> IsDurableDelivery q) srcs) r1"
    by (rule restore_loop [OF assms(1) dsrc p3 p4 _ _ _ p8 loop refl]) (use spec assms(5) in simp_all)
  have "?todo = ?copy ` {q \<in> set l. qm_ID q \<in> set ids \<and> \<not> IsDurableDelivery q}"
    unfolding src set_map using assms(4) by auto
  then have "qm_ID ` ?todo = qm_ID ` {q \<in> set l. qm_ID q \<in> set ids \<and> \<not> IsDurableDelivery q}"
    by (simp add: image_image)
  moreover have "{q \<in> set l. qm_ID q \<notin> set ids \<or> IsDurableDelivery q} \<union>
      {q \<in> set l. qm_ID q \<in> set ids \<and> \<not> IsDurableDelivery q} = set l" by blast
  ultimately have "qm_ID ` set L' = qm_ID ` set l" using L' spec by (simp flip: image_Un)
  with settled_bijection [OF _ assms(1)] L' show ?thesis by blast
qed

lemma restored_listing:
  "sess (removeSendNowClaimOwnershipLocked s qs (put_entries s (sort_key qm_Position l) r)) s = sort_key qm_Position l"
  by (simp add: removeSendNowClaimOwnershipLocked_def put_entries_def Let_def)

text \<open>
  C29: undoing a claim.  Take a session whose entries have distinct ids and positions, and a claim on
  entries of which none has been attempted or carries a delivery reservation.  If the claim is restored
  before anything else happened, every entry it took is back at its position: the queue lists the same
  entries as before, up to delivery bookkeeping, and the claim owns none of them any more.
\<close>

theorem claim_restore_roundtrip:
  assumes "reachable r" and "ClaimSendNow c e s expected r = (Inr cl, r1)"
    and "distinct (map qm_ID (ListBySession s r))" and "distinct (map qm_Position (ListBySession s r))"
    and "\<forall>q\<in>set (ListBySession s r). qm_ID q \<in> qm_ID ` set expected \<longrightarrow>
      \<not> IsDeliveryAttempted q \<and> deliveryReservationToken (qm_Metadata q) = []"
    and "\<forall>k. e_uuid e k \<noteq> []"
  shows "\<exists>r2. RestoreSendNowClaim None (Some cl) r1 = (Inr (), r2) \<and>
           map settled (ListBySession s r2) = map settled (ListBySession s r) \<and>
           (\<forall>q\<in>set expected. \<not> gm_has (gm_get0 [] (r_sendNowClaims r2) s) (qm_ID q))"
proof -
  let ?i = "gm_get0 no_identity (r_identities r) s" and ?l = "sess r s"
  have ok: "slist_ok s (nextPos r s) ?l"
    using reachable_inv [OF assms(1)] by (rule queue_inv_sess)
  have list: "ListBySession s r = ?l"
    using slist_ok_sorted [OF ok] by (simp add: ListBySession_def sort_key_id_if_sorted)
  note claim = assms(2) [unfolded ClaimSendNow_def]
  obtain ids where val: "validateSendNowSnapshot (filter (\<lambda>q. qm_ID q \<in> set ids) ?l) expected"
    and r1: "sess r1 s = fst (claim_rows e ?i ids 0 ?l)"
    and src0: "sc_Sources cl = map (bind_lease (snd (claim_rows e ?i ids 0 ?l)))
           (bindSendNowDeliveryReservations ?i (map cloneSendNowSource (filter (\<lambda>q. qm_ID q \<in> set ids) ?l)))"
    by (rule claimE [OF claim])
  obtain rows leases where rows: "claim_rows e ?i ids 0 ?l = (rows, leases)" by fastforce
  let ?sel = "filter (\<lambda>q. qm_ID q \<in> set ids) ?l" and ?copy = "\<lambda>q. bind_lease leases (source_copy ?i q)"
  have src: "sc_Sources cl = map ?copy ?sel" and sr1: "sess r1 s = rows"
    by (simp_all add: src0 r1 rows sources_map)
  note fence = claim_fence [OF claim]
  have stale: "\<not> source_stale cl r' q" if "r_generation r' = r_generation r1" for r' q
    using fence claim_not_stale that by metis
  have dl: "distinct (map qm_ID ?l)" using assms(3) list by simp
  have claimed_ids: "qm_ID q \<in> qm_ID ` set expected" if "q \<in> set ?l" "qm_ID q \<in> set ids" for q
    using snapshot_ids [OF val] that by auto
  have cs: "IsDurableDelivery (?copy q) = IsDurableDelivery q"
    "\<not> IsDurableDelivery q \<Longrightarrow> entry_by_id rows (qm_ID q) = None"
    "IsDurableDelivery q \<Longrightarrow> \<exists>entry. entry_by_id rows (qm_ID q) = Some entry \<and>
       \<not> IsDeliveryAttempted entry \<and> reservationMatches (?copy q) (qm_Metadata entry) \<and> IsReservedInFlight entry"
    if "q \<in> set ?l" "qm_ID q \<in> set ids" for q
    using claimed_source [OF dl rows _ _ refl _ _ assms(6), of q] that assms(5) list claimed_ids by (simp_all add: image_iff Bex_def)
  have valid: "validateMemorySendNowRestore cl s r1"
    using cs slist_ok_member [OF ok] sr1
    by (fastforce simp: validateMemorySendNowRestore_def src list_all_iff)
  obtain L' r' where loop: "foldl (restore_source cl s rows) (rows, r1) (sc_Sources cl) = (L', r')" by fastforce
  have "mset (map settled L') = mset (map settled ?l)"
    by (rule restore_claim_rows [OF dl rows src _ stale loop]) (use cs in fastforce)+
  from settled_sorted_unique [OF this slist_ok_sorted [OF ok]]
  have final: "map settled (sort_key qm_Position L') = map settled ?l" using assms(4) list by simp
  let ?r2 = "removeSendNowClaimOwnershipLocked s (sc_Sources cl) (put_entries s (sort_key qm_Position L') r')"
  have expected: "qm_ID ` set expected = qm_ID ` set (sc_Sources cl)"
    using snapshot_ids [OF val] by (simp add: src image_image)
  then have owned: "\<forall>q\<in>set expected. \<not> gm_has (gm_get0 [] (r_sendNowClaims ?r2) s) (qm_ID q)"
    using ownership_removed by (metis imageE image_eqI)
  have "expected \<noteq> []" using claim by (auto simp: claimSendNowLocked_def)
  then obtain first rest where f: "sc_Sources cl = first # rest" using expected by (cases "sc_Sources cl") auto
  have "first \<in> ?copy ` set ?sel" using src f by (metis list.set_intros(1) list.set_map)
  then have "qm_SessionID first = s" using slist_ok_member [OF ok] by auto
  then have "RestoreSendNowClaim None (Some cl) r1 = (Inr (), ?r2)"
    using fence f valid loop sr1
    by (simp add: RestoreSendNowClaim_def with_current_claim_def with_claim_def validateSendNowClaimAuthority_def
        validateSendNowClaimLocked_def)
  with final list owned show ?thesis by (simp add: ListBySession_def restored_listing sort_key_id_if_sorted)
qed

theorem claim_restore_roundtrip_witness:
  "\<exists>cl r1 r2. ClaimSendNow ex_codec ex_env ''s'' [ex_row] ex_two = (Inr cl, r1) \<and>
     RestoreSendNowClaim None (Some cl) r1 = (Inr (), r2) \<and>
     map settled (ListBySession ''s'' r2) = map settled (ListBySession ''s'' ex_two)"
proof -
  obtain cl r1 where c: "ClaimSendNow ex_codec ex_env ''s'' [ex_row] ex_two = (Inr cl, r1)"
    using claim_ex_row by blast
  have l: "ListBySession ''s'' ex_two = sess ex_two ''s''" by (simp add: ListBySession_def sess_ex_two)
  have "distinct (map qm_ID (ListBySession ''s'' ex_two))" "distinct (map qm_Position (ListBySession ''s'' ex_two))"
    "\<forall>q\<in>set (ListBySession ''s'' ex_two). qm_ID q \<in> qm_ID ` set [ex_row] \<longrightarrow>
      \<not> IsDeliveryAttempted q \<and> deliveryReservationToken (qm_Metadata q) = []"
    "\<forall>k. e_uuid ex_env k \<noteq> []"
    by (simp_all add: l sess_ex_two ex_msg_def zero_message_def ex_env_def IsDeliveryAttempted_def
        deliveryReservationToken_def metadataBool_def metadataString_def)
  from claim_restore_roundtrip [OF reachable_ex_two c this] c show ?thesis by blast
qed

section \<open>Acknowledging a claim\<close>

lemma claim_marks:
  assumes "claimSendNowLocked c e i s expected r = (Inr cl, r1)" and "x \<in> qm_ID ` set (sc_Sources cl)"
  shows "sendNowClaimContainsLocked s x r1"
proof -
  have marks: "gm_has (foldl (\<lambda>m q. gm_put (qm_ID q) () m) m0 qs) x \<longleftrightarrow> x \<in> qm_ID ` set qs \<or> gm_has m0 x"
    for qs and m0 :: "(string, unit) gomap" by (induction qs arbitrary: m0) auto
  have "\<exists>l qs m0. sc_Sources cl = map (bind_lease l) qs \<and>
      gm_get0 [] (r_sendNowClaims r1) s = foldl (\<lambda>m q. gm_put (qm_ID q) () m) m0 qs"
    using assms(1) by (force simp: claimSendNowLocked_def setAutoRunLocked_def Let_def
        split: if_splits sum.splits prod.splits)
  then obtain l qs m0 where "sc_Sources cl = map (bind_lease l) qs"
    "gm_get0 [] (r_sendNowClaims r1) s = foldl (\<lambda>m q. gm_put (qm_ID q) () m) m0 qs" by blast
  with assms(2) show ?thesis by (simp add: sendNowClaimContainsLocked_def marks image_image)
qed

text \<open>
  Acknowledging a claim on ordinary entries keeps its ownership marks.  The acknowledgement
  succeeds and changes nothing, so every entry of the settled claim is still recorded as owned by a
  send-now claim of the session.
\<close>

theorem acknowledged_claim_keeps_marks:
  assumes "reachable r" and "ClaimSendNow c e s expected r = (Inr cl, r1)"
    and "\<forall>q\<in>set (ListBySession s r). \<not> IsDurableDelivery q"
  shows "AcknowledgeSendNowClaim None (Some cl) r1 = (Inr (), r1) \<and>
         (\<forall>q\<in>set expected. sendNowClaimContainsLocked s (qm_ID q) r1)"
proof -
  let ?i = "gm_get0 no_identity (r_identities r) s" and ?l = "sess r s"
  have ok: "slist_ok s (nextPos r s) ?l"
    using reachable_inv [OF assms(1)] by (rule queue_inv_sess)
  have list: "ListBySession s r = ?l" by (rule list_reachable [OF assms(1)])
  note claim = assms(2) [unfolded ClaimSendNow_def]
  obtain ids where val: "validateSendNowSnapshot (filter (\<lambda>q. qm_ID q \<in> set ids) ?l) expected"
    and src0: "sc_Sources cl = map (bind_lease (snd (claim_rows e ?i ids 0 ?l)))
           (bindSendNowDeliveryReservations ?i (map cloneSendNowSource (filter (\<lambda>q. qm_ID q \<in> set ids) ?l)))"
    by (rule claimE [OF claim])
  let ?copy = "\<lambda>q. bind_lease (snd (claim_rows e ?i ids 0 ?l)) (source_copy ?i q)"
  have src: "sc_Sources cl = map ?copy (filter (\<lambda>q. qm_ID q \<in> set ids) ?l)" by (simp add: src0 sources_map)
  note fence = claim_fence [OF claim]
  have expected: "qm_ID ` set expected = qm_ID ` set (sc_Sources cl)"
    using snapshot_ids [OF val] by (simp add: src image_image)
  have ordinary: "\<not> IsDurableDelivery q \<and> qm_SessionID q = s" if q: "q \<in> set (sc_Sources cl)" for q
  proof -
    obtain p where p: "p \<in> set ?l" "q = ?copy p" using q unfolding src set_map by auto
    then have "IsDurableDelivery q = IsDurableDelivery p" by (intro class_by_clear(1)) simp
    with p assms(3) list slist_ok_member [OF ok p(1)] show ?thesis by simp
  qed
  have "ack_requested cl r1 = []" using ordinary by (auto simp: ack_requested_def filter_empty_conv)
  moreover have "expected \<noteq> []" using claim by (auto simp: claimSendNowLocked_def)
  then obtain first rest where f: "sc_Sources cl = first # rest" using expected by (cases "sc_Sources cl") auto
  moreover from f have "qm_SessionID first = s" using ordinary by auto
  moreover have "list_all (\<lambda>q. qm_SessionID q = s) (sc_Sources cl)" using ordinary by (simp add: list_all_iff)
  ultimately have "AcknowledgeSendNowClaim None (Some cl) r1 = (Inr (), r1)"
    using fence by (simp add: AcknowledgeSendNowClaim_def with_current_claim_def with_claim_def
        validateSendNowClaimAuthority_def validateSendNowClaimLocked_def entry_by_id_def Let_def)
  moreover have "sendNowClaimContainsLocked s (qm_ID q) r1" if "q \<in> set expected" for q
    using claim_marks [OF claim] that expected by blast
  ultimately show ?thesis by blast
qed

theorem acknowledged_claim_keeps_marks_witness:
  "\<exists>cl r1. ClaimSendNow ex_codec ex_env ''s'' [ex_row] ex_two = (Inr cl, r1) \<and>
     AcknowledgeSendNowClaim None (Some cl) r1 = (Inr (), r1) \<and> sendNowClaimContainsLocked ''s'' ''a'' r1"
proof -
  obtain cl r1 where c: "ClaimSendNow ex_codec ex_env ''s'' [ex_row] ex_two = (Inr cl, r1)"
    using claim_ex_row by blast
  have "\<not> (\<exists>q\<in>set (ListBySession ''s'' ex_two). IsDurableDelivery q)" by code_simp
  then have "\<forall>q\<in>set (ListBySession ''s'' ex_two). \<not> IsDurableDelivery q" by blast
  from acknowledged_claim_keeps_marks [OF reachable_ex_two c this] c show ?thesis
    by (auto simp: ex_row_def ex_msg_def)
qed


end
