(* ===== verification/Merge_Laws.thy ===== *)
theory Merge_Laws
  imports Queue_Claims
begin

text \<open>
  Merging entries: which entry a merge picks, what it does to the queue, and the limits an automatic
  merge respects.
\<close>

section \<open>The entry above\<close>

lemma greatest_position_spec:
  assumes "greatest_position list P n best k = out" "k + n = length list"
    and "\<forall>b. best = Some b \<longrightarrow> b < k \<and> P (list ! b) \<and> (\<forall>j<k. P (list ! j) \<longrightarrow> qm_Position (list ! j) \<le> qm_Position (list ! b))"
    and "best = None \<longrightarrow> (\<forall>j<k. \<not> P (list ! j))"
  shows "case out of
      None \<Rightarrow> (\<forall>j<length list. \<not> P (list ! j))
    | Some b \<Rightarrow> b < length list \<and> P (list ! b) \<and>
        (\<forall>j<length list. P (list ! j) \<longrightarrow> qm_Position (list ! j) \<le> qm_Position (list ! b))"
  using assms
proof (induction n arbitrary: best k)
  case 0
  then show ?case by (auto split: option.split)
next
  case (Suc n)
  let ?best = "if P (list ! k) \<and> (case best of None \<Rightarrow> True | Some b \<Rightarrow> qm_Position (list ! k) > qm_Position (list ! b))
      then Some k else best"
  show ?case
  proof (rule Suc.IH [of ?best "Suc k"])
    show "greatest_position list P n ?best (Suc k) = out" using Suc.prems(1) by simp
    show "Suc k + n = length list" using Suc.prems(2) by simp
    show "\<forall>b. ?best = Some b \<longrightarrow> b < Suc k \<and> P (list ! b) \<and>
        (\<forall>j<Suc k. P (list ! j) \<longrightarrow> qm_Position (list ! j) \<le> qm_Position (list ! b))"
      using Suc.prems(3,4) by (cases best) (fastforce simp: less_Suc_eq split: if_splits)+
    show "?best = None \<longrightarrow> (\<forall>j<Suc k. \<not> P (list ! j))"
      using Suc.prems(4) by (cases best) (auto simp: less_Suc_eq split: if_splits)
  qed
qed

lemma position_target_spec:
  "case position_target list P of
      None \<Rightarrow> (\<forall>j<length list. \<not> P (list ! j))
    | Some b \<Rightarrow> b < length list \<and> P (list ! b) \<and>
        (\<forall>j<length list. P (list ! j) \<longrightarrow> qm_Position (list ! j) \<le> qm_Position (list ! b))"
  by (rule greatest_position_spec [of list P "length list" None 0])
     (simp_all add: position_target_def)

text \<open>In a queue without equal positions the entry above is the one just before.\<close>

lemma entry_above:
  assumes "sorted_wrt (<) (map qm_Position l)" "k < length l"
  shows "position_target l (\<lambda>m. qm_Position m < qm_Position (l ! k)) = (if k = 0 then None else Some (k - 1))"
proof -
  have less: "qm_Position (l ! i) < qm_Position (l ! j) \<longleftrightarrow> i < j" if "i < length l" "j < length l" for i j
    using assms(1) that by (metis length_map less_linear nth_map order_less_asym order_less_irrefl sorted_wrt_nth_less)
  note spec = position_target_spec [of l "\<lambda>m. qm_Position m < qm_Position (l ! k)"]
  show ?thesis
  proof (cases "position_target l (\<lambda>m. qm_Position m < qm_Position (l ! k))")
    case None
    with spec have "\<forall>j<length l. \<not> qm_Position (l ! j) < qm_Position (l ! k)" by simp
    then have "k = 0" using less [of 0 k] assms(2) by (metis gr_zeroI length_greater_0_conv list.size(3) not_less_zero)
    with None show ?thesis by simp
  next
    case (Some b)
    with spec have b: "b < length l" "qm_Position (l ! b) < qm_Position (l ! k)"
      "\<forall>j<length l. qm_Position (l ! j) < qm_Position (l ! k) \<longrightarrow> qm_Position (l ! j) \<le> qm_Position (l ! b)" by simp_all
    then have bk: "b < k" using less assms(2) by blast
    have "\<not> b < k - 1"
    proof
      assume "b < k - 1"
      then have "qm_Position (l ! b) < qm_Position (l ! (k - 1))" using less [of b "k - 1"] b(1) assms(2) by simp
      moreover have "qm_Position (l ! (k - 1)) < qm_Position (l ! k)" using less [of "k - 1" k] bk assms(2) by simp
      then have "qm_Position (l ! (k - 1)) \<le> qm_Position (l ! b)" using b(3) assms(2) by simp
      ultimately show False by simp
    qed
    with bk Some show ?thesis by simp
  qed
qed

lemma split_above:
  assumes "0 < k" "k < length l"
  shows "l = take (k - 1) l @ l ! (k - 1) # l ! k # drop (Suc k) l"
    and "remove_nth k (l[k - 1 := m]) = take (k - 1) l @ m # drop (Suc k) l"
proof -
  have "l = take (k - 1) l @ l ! (k - 1) # drop k l" using id_take_nth_drop [of "k - 1" l] assms by simp
  then show "l = take (k - 1) l @ l ! (k - 1) # l ! k # drop (Suc k) l"
    using Cons_nth_drop_Suc [OF assms(2)] by simp
  have "take k (l[k - 1 := m]) = take (k - 1) l @ [m]"
    using assms by (metis Suc_diff_1 diff_less less_imp_diff_less less_numeral_extra(1) length_list_update
        nth_list_update_eq take_Suc_conv_app_nth take_update_cancel order_refl)
  then show "remove_nth k (l[k - 1 := m]) = take (k - 1) l @ m # drop (Suc k) l"
    using assms by (simp add: remove_nth_def)
qed


section \<open>Merging by hand\<close>

lemma positions_increase:
  assumes "reachable r" "distinct (map qm_Position (ListBySession s r))"
  shows "sorted_wrt (<) (map qm_Position (sess r s))"
  using slist_ok_sorted [OF queue_inv_sess [OF reachable_inv [OF assms(1)], of s]] assms
  by (simp add: list_reachable strict_sorted_iff)

text \<open>The entry that results from merging a source into the entry above it.\<close>

definition merged_entry :: "QueuedMessage \<Rightarrow> QueuedMessage \<Rightarrow> metadata \<Rightarrow> QueuedMessage" where
  "merged_entry target source meta =
     target\<lparr>qm_Content := joinMergeContent (qm_Content target) (qm_Content source),
       qm_Attachments := qm_Attachments target @ qm_Attachments source, qm_Metadata := meta,
       qm_QueuedAt := latestQueuedAt (qm_QueuedAt target) (qm_QueuedAt source)\<rparr>"

text \<open>
  Merging an entry into the one above it.  A refused merge changes nothing.  A successful one
  joins the entry with the entry directly before it, if the merge is allowed: the joined entry
  stands in the place of the upper one, with the contents and attachments of both in order, and
  every other entry stays where it is.
\<close>

theorem merge_exact:
  assumes "reachable r" and "distinct (map qm_Position (ListBySession s r))"
    and "MergeIntoAbove c s x queuedBy r = (res, r')"
  shows "case res of
      Inl err \<Rightarrow> r' = r
    | Inr m \<Rightarrow> (\<exists>pre target source post meta.
        ListBySession s r = pre @ target # source # post \<and> qm_ID source = x \<and> mergeAllowed source target queuedBy \<and>
        mergeEntryMetadata c (qm_Metadata target) (qm_Metadata source) = Inr meta \<and>
        m = merged_entry target source meta \<and> ListBySession s r' = pre @ m # post)"
proof -
  let ?l = "sess r s"
  have r': "reachable r'" using reachable_step [OF assms(1) step_merge] assms(3) by (metis snd_conv)
  show ?thesis
  proof (cases res)
    case (Inl err)
    then show ?thesis
      using assms(3) by (auto simp: MergeIntoAbove_def mergeIntoAboveLocked_def Let_def
          split: option.splits if_splits sum.splits)
  next
    case (Inr m)
    then obtain k t meta where k: "find_index (\<lambda>m. qm_ID m = x) ?l = Some k"
      and t: "position_target ?l (\<lambda>m. qm_Position m < qm_Position (?l ! k)) = Some t"
      and allowed: "mergeAllowed (?l ! k) (?l ! t) queuedBy"
      and meta: "mergeEntryMetadata c (qm_Metadata (?l ! t)) (qm_Metadata (?l ! k)) = Inr meta"
      and m: "m = merged_entry (?l ! t) (?l ! k) meta" and rows: "sess r' s = remove_nth k (?l[t := m])"
      using assms(3) by (auto simp: MergeIntoAbove_def mergeIntoAboveLocked_def merged_entry_def Let_def
          split: option.splits if_splits sum.splits)
    note kl = find_index_SomeD [OF k]
    have kt: "0 < k" "t = k - 1"
      using t entry_above [OF positions_increase [OF assms(1,2)], of k] kl by (auto split: if_splits)
    have "sess r' s = take (k - 1) ?l @ m # drop (Suc k) ?l"
      using split_above(2) [of k ?l m] kl kt rows by simp
    then have "ListBySession s r' = take (k - 1) ?l @ m # drop (Suc k) ?l" using list_reachable [OF r'] by simp
    moreover have "ListBySession s r = take (k - 1) ?l @ ?l ! (k - 1) # ?l ! k # drop (Suc k) ?l"
      using split_above(1) [of k ?l] kl kt list_reachable [OF assms(1)] by simp
    moreover have "qm_ID (?l ! k) = x" using kl by simp
    ultimately show ?thesis using allowed meta m unfolding kt(2) Inr sum.case by blast
  qed
qed


lemma sess_ex_two_list: "ListBySession ''s'' ex_two = sess ex_two ''s''"
  by (rule list_reachable [OF reachable_ex_two])

theorem merge_exact_witness:
  "\<exists>m r'. MergeIntoAbove ex_codec ''s'' ''b'' QueuedByUser ex_two = (Inr m, r') \<and> ListBySession ''s'' r' = [m] \<and>
     qm_Content m = ''first'' @ blank_line @ ''second''"
proof -
  have "map_sum (\<lambda>_. ()) qm_Content (fst (MergeIntoAbove ex_codec ''s'' ''b'' QueuedByUser ex_two)) =
      Inr (''first'' @ blank_line @ ''second'')" by code_simp
  then obtain m r' where m: "MergeIntoAbove ex_codec ''s'' ''b'' QueuedByUser ex_two = (Inr m, r')"
      "qm_Content m = ''first'' @ blank_line @ ''second''"
    by (cases "MergeIntoAbove ex_codec ''s'' ''b'' QueuedByUser ex_two") (auto simp: map_sum_def split: sum.splits)
  have d: "distinct (map qm_Position (ListBySession ''s'' ex_two))"
    and len: "length (ListBySession ''s'' ex_two) = 2" by (simp_all add: sess_ex_two_list sess_ex_two)
  from merge_exact [OF reachable_ex_two d m(1)] obtain pre target source post where
    "ListBySession ''s'' ex_two = pre @ target # source # post" "ListBySession ''s'' r' = pre @ m # post" by auto
  moreover from this len have "pre = []" "post = []" by auto
  ultimately show ?thesis using m by simp
qed

section \<open>Automatic merging\<close>

text \<open>Joining contents is a monoid, so the text of a whole queue does not depend on how it is grouped.\<close>

interpretation auto_join: monoid joinAutoMergeContent "[]"
  by unfold_locales (auto simp: joinAutoMergeContent_def)

definition session_text :: "QueuedMessage list \<Rightarrow> string" where
  "session_text l = foldr (\<lambda>m t. joinAutoMergeContent (qm_Content m) t) l []"

lemma session_text_append: "session_text (l @ l') = joinAutoMergeContent (session_text l) (session_text l')"
  by (induction l) (simp_all add: session_text_def auto_join.assoc)

lemma build_content:
  "buildAutoMergedEntry c target source = Some v \<Longrightarrow>
   mv_content v = joinAutoMergeContent (qm_Content target) (qm_Content source)"
  by (auto simp: buildAutoMergedEntry_def split: if_splits option.splits)

text \<open>
  Automatic merging never changes what is said.  Whether it merges or not, the contents of the
  session read in order and joined by blank lines are the same text before and after; and it merges
  at most the one entry, with the entry directly before it.
\<close>

theorem auto_merge_keeps_text:
  assumes "reachable r" and "distinct (map qm_Position (ListBySession s r))"
    and "AutoMergeIntoAbove c s x r = ((mo, merged), r')"
  shows "session_text (ListBySession s r') = session_text (ListBySession s r) \<and>
    (if merged then \<exists>pre target source post m. ListBySession s r = pre @ target # source # post \<and> qm_ID source = x \<and>
        mo = Some m \<and> ListBySession s r' = pre @ m # post \<and> autoMergeAllowed target source
     else r' = r)"
proof -
  let ?l = "sess r s"
  have r': "reachable r'" using reachable_step [OF assms(1) step_auto_merge] assms(3) by (metis snd_conv)
  show ?thesis
  proof (cases merged)
    case False
    then have "r' = r"
      using assms(3) by (auto simp: AutoMergeIntoAbove_def autoMergeIntoAboveLocked_def Let_def split: option.splits)
    then show ?thesis using False by simp
  next
    case True
    then obtain k t v where k: "find_index (\<lambda>m. qm_ID m = x) ?l = Some k"
      and t: "position_target ?l (\<lambda>m. qm_Position m < qm_Position (?l ! k)) = Some t"
      and v: "buildAutoMergedEntry c (?l ! t) (?l ! k) = Some v"
      and mo: "mo = Some (apply_merged v (?l ! t))"
      and rows: "sess r' s = remove_nth k (?l[t := apply_merged v (?l ! t)])"
      using assms(3) by (auto simp: AutoMergeIntoAbove_def autoMergeIntoAboveLocked_def Let_def split: option.splits)
    note kl = find_index_SomeD [OF k]
    have kt: "0 < k" "t = k - 1"
      using t entry_above [OF positions_increase [OF assms(1,2)], of k] kl by (auto split: if_splits)
    define pre target source post m where defs: "pre = take (k - 1) ?l" "target = ?l ! t" "source = ?l ! k"
      "post = drop (Suc k) ?l" "m = apply_merged v target"
    have lists: "ListBySession s r = pre @ target # source # post" "ListBySession s r' = pre @ m # post"
      using split_above(1) [of k ?l] split_above(2) [of k ?l m] kl kt rows list_reachable [OF assms(1)] list_reachable [OF r'] by (simp_all add: defs)
    have "qm_Content m = joinAutoMergeContent (qm_Content target) (qm_Content source)"
      using build_content [OF v] by (simp add: defs apply_merged_def)
    then have "session_text (ListBySession s r') = session_text (ListBySession s r)"
      unfolding lists session_text_append by (simp add: session_text_def auto_join.assoc)
    moreover have "autoMergeAllowed target source"
      using v by (auto simp: buildAutoMergedEntry_def defs split: if_splits)
    moreover have "qm_ID source = x" "mo = Some m" using kl mo by (simp_all add: defs)
    ultimately show ?thesis using True lists by auto
  qed
qed

theorem auto_merge_keeps_text_witness:
  "\<exists>mo r'. AutoMergeIntoAbove ex_codec ''s'' ''b'' ex_two = ((mo, True), r') \<and>
     session_text (ListBySession ''s'' r') = ''first'' @ blank_line @ ''second''"
proof -
  have "snd (fst (AutoMergeIntoAbove ex_codec ''s'' ''b'' ex_two))" by code_simp
  then obtain mo r' where run: "AutoMergeIntoAbove ex_codec ''s'' ''b'' ex_two = ((mo, True), r')"
    by (cases "AutoMergeIntoAbove ex_codec ''s'' ''b'' ex_two") auto
  have d: "distinct (map qm_Position (ListBySession ''s'' ex_two))" by (simp add: sess_ex_two_list sess_ex_two)
  have "session_text (ListBySession ''s'' ex_two) = ''first'' @ blank_line @ ''second''" by code_simp
  with auto_merge_keeps_text [OF reachable_ex_two d run] run show ?thesis by simp
qed


text \<open>The automatic merge and the send-now envelope measure attachments alike.\<close>

lemma attachments_fit_validate:
  "attachments_fit as n \<longleftrightarrow> (\<exists>bytes. validate_bytes as n = Inr bytes)"
  by (induction as arbitrary: n) (auto split: option.split)

lemma union_ids_spec: "distinct (union_ids seen l) \<and> set (union_ids seen l) = set l - set seen"
proof (induction l arbitrary: seen)
  case (Cons x l)
  show ?case using Cons.IH [of seen] Cons.IH [of "x # seen"] by auto
qed simp

lemma put_or_delete_get [simp]:
  "gm_get (put_or_delete k b v m) k' = (if k' = k then if b then None else Some v else gm_get m k')"
  by (simp add: put_or_delete_def)

text \<open>
  The limits of an automatic merge.  Two entries are merged only if neither is owed a durable
  delivery, they belong to the same task, model and plan mode and to the same author, together have
  at most ten attachments of at most 100 MiB, at most one hundred distinct entity references and at
  most two hundred distinct context files; the merged entry carries exactly their union.
\<close>

theorem auto_merge_limits:
  assumes "buildAutoMergedEntry c target source = Some v"
  shows "\<not> IsDurableDelivery target \<and> \<not> IsDurableDelivery source \<and>
    qm_TaskID target = qm_TaskID source \<and> qm_Model target = qm_Model source \<and>
    qm_PlanMode target = qm_PlanMode source \<and> qm_QueuedBy target = qm_QueuedBy source \<and>
    mv_attachments v = qm_Attachments target @ qm_Attachments source \<and>
    length (mv_attachments v) \<le> MaxAttachmentCount \<and>
    (\<exists>total. validate_bytes (mv_attachments v) 0 = Inr total \<and> total \<le> MaxAttachmentBytes) \<and>
    (\<forall>refs. gm_get (mv_metadata v) MetadataEntityReferences = Some (MRefs refs) \<longrightarrow>
       distinct (map er_Ref refs) \<and> length refs \<le> MaxReferencesPerMessage) \<and>
    (\<forall>files. gm_get (mv_metadata v) MetadataContextFiles = Some (MContexts files) \<longrightarrow>
       distinct files \<and> length files \<le> MaxContextFilesPerMessage) \<and>
    (\<forall>ids. gm_get (mv_metadata v) MetadataQueueAdmissionIDs = Some (MStrs ids) \<longrightarrow> distinct ids)"
proof -
  obtain atts meta where allowed: "autoMergeAllowed target source"
    and atts: "combineAutoMergeAttachments (qm_Attachments target) (qm_Attachments source) = Some atts"
    and meta: "mergeAutoMetadata c (qm_Metadata target) (qm_Metadata source) = Some meta"
    and v: "mv_attachments v = atts" "mv_metadata v = meta"
    using assms by (auto simp: buildAutoMergedEntry_def split: if_splits option.splits)
  have a: "atts = qm_Attachments target @ qm_Attachments source" "length atts \<le> MaxAttachmentCount" "attachments_fit atts 0"
    using atts by (auto simp: combineAutoMergeAttachments_def split: if_splits)
  then obtain bytes where "validate_bytes atts 0 = Inr bytes" using attachments_fit_validate by blast
  with validate_bytes_mono [OF this] have "\<exists>total. validate_bytes atts 0 = Inr total \<and> total \<le> MaxAttachmentBytes" by simp
  moreover have "distinct (map er_Ref refs) \<and> length refs \<le> MaxReferencesPerMessage"
    if "gm_get meta MetadataEntityReferences = Some (MRefs refs)" for refs
    using meta that union_refs_spec
    by (auto simp: mergeAutoMetadata_def unionAutoEntityReferences_def Let_def split: option.splits if_splits)
  moreover have "distinct files \<and> length files \<le> MaxContextFilesPerMessage"
    if "gm_get meta MetadataContextFiles = Some (MContexts files)" for files
    using meta that
    by (auto simp: union_ids_spec mergeAutoMetadata_def unionAutoContextFiles_def Let_def split: option.splits if_splits)
  moreover have "distinct ids" if "gm_get meta MetadataQueueAdmissionIDs = Some (MStrs ids)" for ids
    using meta that
    by (auto simp: union_ids_spec mergeAutoMetadata_def unionQueueAdmissionIDs_def Let_def split: option.splits if_splits)
  moreover have "\<not> IsDurableDelivery target \<and> \<not> IsDurableDelivery source \<and>
      qm_TaskID target = qm_TaskID source \<and> qm_Model target = qm_Model source \<and>
      qm_PlanMode target = qm_PlanMode source \<and> qm_QueuedBy target = qm_QueuedBy source"
    using allowed by (auto simp: autoMergeAllowed_def Let_def split: if_splits)
  ultimately show ?thesis using a v by simp
qed

theorem auto_merge_limits_witness:
  "\<exists>v. buildAutoMergedEntry ex_codec (ex_msg ''a'' ''first'') (ex_msg ''b'' ''second'') = Some v \<and>
     length (mv_attachments v) \<le> MaxAttachmentCount"
proof -
  have "map_option mv_content (buildAutoMergedEntry ex_codec (ex_msg ''a'' ''first'') (ex_msg ''b'' ''second'')) =
      Some (''first'' @ blank_line @ ''second'')" by code_simp
  then obtain v where "buildAutoMergedEntry ex_codec (ex_msg ''a'' ''first'') (ex_msg ''b'' ''second'') = Some v" by blast
  with auto_merge_limits [OF this] show ?thesis by blast
qed

end
