(* ===== verification/Managed_Protocol.thy ===== *)
theory Managed_Protocol
  imports Merge_Laws
begin

text \<open>
  The protocol of managed inputs: the life cycle of a receipt as a state machine that every
  repository step refines, the invariant of the receipt table, and what admission, start and
  settlement do.
\<close>

section \<open>The receipt table\<close>

text \<open>What a receipt never changes.\<close>

definition receipt_core :: "ManagedInputReceipt \<Rightarrow> ManagedInputReceipt" where
  "receipt_core m = m\<lparr>mr_State := ManagedInputStateAccepted, mr_UpdatedAt := 0, mr_TurnID := [],
     mr_ExecutionID := [], mr_SupersededBy := [], mr_Outcome := []\<rparr>"

definition receipt_ok :: "managedInputIDKey \<Rightarrow> ManagedInputReceipt \<Rightarrow> bool" where
  "receipt_ok k m \<longleftrightarrow> mr_ID m = snd k \<and> mr_TaskID m = si_TaskID (fst k) \<and>
     mr_SessionID m = si_SessionID (fst k) \<and>
     mr_SessionIncarnationID m = si_SessionIncarnationID (fst k) \<and> 0 < mr_Sequence m \<and>
     (mr_State m = ManagedInputStateRunning \<longrightarrow> mr_TurnID m \<noteq> [] \<and> mr_ExecutionID m \<noteq> [])"

text \<open>Two receipts of one scope differ in their sequence numbers, and at most one of them is running.\<close>

definition compatible :: "managedInputIDKey \<Rightarrow> ManagedInputReceipt \<Rightarrow> managedInputIDKey \<Rightarrow> ManagedInputReceipt \<Rightarrow> bool" where
  "compatible k m k' m' \<longleftrightarrow> snd k \<noteq> snd k' \<and>
     (fst k = fst k' \<longrightarrow> mr_Sequence m \<noteq> mr_Sequence m' \<and>
        \<not> (mr_State m = ManagedInputStateRunning \<and> mr_State m' = ManagedInputStateRunning))"

definition managed_inv :: "repo \<Rightarrow> bool" where
  "managed_inv r \<longleftrightarrow> gm_wf (r_managedInputs r) \<and>
     (\<forall>k m. gm_get (r_managedInputs r) k = Some m \<longrightarrow> receipt_ok k m) \<and>
     (\<forall>k m k' m'. gm_get (r_managedInputs r) k = Some m \<longrightarrow> gm_get (r_managedInputs r) k' = Some m' \<longrightarrow>
        k \<noteq> k' \<longrightarrow> compatible k m k' m')"

lemma compatible_sym: "compatible k m k' m' = compatible k' m' k m"
  by (auto simp: compatible_def)

lemma managed_invD:
  assumes "managed_inv r"
  shows "gm_wf (r_managedInputs r)" "gm_get (r_managedInputs r) k = Some m \<Longrightarrow> receipt_ok k m"
    "gm_get (r_managedInputs r) k = Some m \<Longrightarrow> gm_get (r_managedInputs r) k' = Some m' \<Longrightarrow> k \<noteq> k' \<Longrightarrow>
     compatible k m k' m'"
  using assms unfolding managed_inv_def by blast+

lemma managed_inv_put:
  assumes "managed_inv r" and "receipt_ok k m"
    and "\<And>k' m'. gm_get (r_managedInputs r) k' = Some m' \<Longrightarrow> k' \<noteq> k \<Longrightarrow> compatible k m k' m'"
  shows "managed_inv (put_receipt k m r)"
proof -
  let ?M = "r_managedInputs (put_receipt k m r)"
  have get: "gm_get ?M k' = (if k' = k then Some m else gm_get (r_managedInputs r) k')" for k'
    by (simp add: put_receipt_def)
  have "gm_wf ?M" using managed_invD(1) [OF assms(1)] by (simp add: put_receipt_def)
  moreover have "receipt_ok k' m'" if "gm_get ?M k' = Some m'" for k' m'
    using that assms(2) managed_invD(2) [OF assms(1), of k' m'] unfolding get by (auto split: if_splits)
  moreover have "compatible k1 m1 k2 m2"
    if *: "gm_get ?M k1 = Some m1" "gm_get ?M k2 = Some m2" "k1 \<noteq> k2" for k1 m1 k2 m2
  proof -
    consider "k1 = k" "m1 = m" | "k2 = k" "m2 = m" | "k1 \<noteq> k" "k2 \<noteq> k"
      using *(1,2) unfolding get by (auto split: if_splits)
    then show ?thesis
    proof cases
      case 1
      with * assms(3) [of k2 m2] show ?thesis unfolding get by simp
    next
      case 2
      with * assms(3) [of k1 m1] compatible_sym [of k1] show ?thesis unfolding get by simp
    next
      case 3
      with * managed_invD(3) [OF assms(1), of k1 m1 k2 m2] show ?thesis unfolding get by simp
    qed
  qed
  ultimately show ?thesis unfolding managed_inv_def by blast
qed

lemma managed_inv_blind: "managed_inv r \<Longrightarrow> r_managedInputs r' = r_managedInputs r \<Longrightarrow> managed_inv r'"
  unfolding managed_inv_def by metis

lemma managed_inv_del_if: "managed_inv r \<Longrightarrow> managed_inv (r\<lparr>r_managedInputs := gm_del_if p (r_managedInputs r)\<rparr>)"
  unfolding managed_inv_def by (auto split: if_splits)

interpretation managed_book: bookkeeping managed_inv
  by unfold_locales (erule managed_inv_del_if | erule managed_inv_blind, simp)+

lemma input_exists_iff: "managedInputIDExistsLocked x r \<longleftrightarrow> (\<exists>i. gm_has (r_managedInputs r) (i, x))"
  by (force simp: managedInputIDExistsLocked_def gm_has_def gm_get_def map_of_eq_None_iff)

text \<open>The receipts of a scope, as the queries of the repository see them.\<close>

lemma scoped_iff:
  "gm_wf (r_managedInputs r) \<Longrightarrow>
   m \<in> set (scoped i r) \<longleftrightarrow> (\<exists>x. gm_get (r_managedInputs r) (i, x) = Some m)"
  by (force simp: gm_get_wf_iff image_iff)

lemma fold_sequence:
  "acc \<le> foldl (\<lambda>acc m. if mr_Sequence m > acc then mr_Sequence m else acc) acc l \<and>
   (m \<in> set l \<longrightarrow> mr_Sequence m \<le> foldl (\<lambda>acc m. if mr_Sequence m > acc then mr_Sequence m else acc) acc l)"
proof (induction l arbitrary: acc)
  case (Cons x l)
  show ?case using Cons.IH [of "if mr_Sequence x > acc then mr_Sequence x else acc"] by (auto split: if_splits)
qed simp

lemma next_sequence:
  "m \<in> set (scoped i r) \<Longrightarrow> mr_Sequence m < nextManagedInputSequenceLocked i r"
  "0 < nextManagedInputSequenceLocked i r"
  using fold_sequence [of 0 "scoped i r" m] unfolding nextManagedInputSequenceLocked_def by linarith+

section \<open>The operations keep the table\<close>

lemma receipt_coreD:
  assumes "receipt_core m' = receipt_core m"
  shows "mr_ID m' = mr_ID m" "mr_TaskID m' = mr_TaskID m" "mr_SessionID m' = mr_SessionID m"
    "mr_SessionIncarnationID m' = mr_SessionIncarnationID m" "mr_Sequence m' = mr_Sequence m"
    "mr_Payload m' = mr_Payload m" "mr_fingerprint m' = mr_fingerprint m"
  using arg_cong [OF assms, of mr_ID] arg_cong [OF assms, of mr_TaskID] arg_cong [OF assms, of mr_SessionID]
    arg_cong [OF assms, of mr_SessionIncarnationID] arg_cong [OF assms, of mr_Sequence]
    arg_cong [OF assms, of mr_Payload] arg_cong [OF assms, of mr_fingerprint]
  by (simp_all add: receipt_core_def)

lemma managed_inv_update:
  assumes "managed_inv r" and "gm_get (r_managedInputs r) k = Some m" and "receipt_core m' = receipt_core m"
    and "mr_State m' = ManagedInputStateRunning \<Longrightarrow> mr_TurnID m' \<noteq> [] \<and> mr_ExecutionID m' \<noteq> [] \<and>
           \<not> managedInputRunningLocked (fst k) r"
  shows "managed_inv (put_receipt k m' r)"
proof (rule managed_inv_put [OF assms(1)])
  have core: "mr_ID m' = mr_ID m" "mr_TaskID m' = mr_TaskID m" "mr_SessionID m' = mr_SessionID m"
    "mr_SessionIncarnationID m' = mr_SessionIncarnationID m" "mr_Sequence m' = mr_Sequence m"
    using receipt_coreD [OF assms(3)] by simp_all
  show "receipt_ok k m'" using managed_invD(2) [OF assms(1,2)] assms(4) core by (auto simp: receipt_ok_def)
  fix k' n
  assume n: "gm_get (r_managedInputs r) k' = Some n" "k' \<noteq> k"
  have "compatible k m k' n" by (rule managed_invD(3) [OF assms(1,2) n(1)]) (use n(2) in simp)
  moreover have "mr_State n \<noteq> ManagedInputStateRunning" if "mr_State m' = ManagedInputStateRunning" "fst k' = fst k"
    using assms(4) [OF that(1)] that(2) n(1) scoped_iff [OF managed_invD(1) [OF assms(1)], of n "fst k"]
    unfolding managedInputRunningLocked_def by (metis prod.collapse)
  ultimately show "compatible k m' k' n" using core by (auto simp: compatible_def)
qed

lemma managed_inv_row [simp]:
  "managed_inv (put_entries s l r) = managed_inv r" "managed_inv (put_next s p r) = managed_inv r"
  "managed_inv (removeManagedQueueRowLocked s x r) = managed_inv r"
  by (auto simp: put_entries_def put_next_def removeManagedQueueRowLocked_def managed_inv_def split: option.split)

lemma managed_inputs_insert [simp]: "r_managedInputs (snd (insertLocked e msg n r)) = r_managedInputs r"
  by (simp add: insertLocked_def put_entries_def put_next_def Let_def)

lemma keeps_cancel: "keeps managed_inv (CancelManagedInput e i x)"
  by (rule keepsI)
     (auto simp: CancelManagedInput_def with_receipt_def with_valid_identity_def Let_def receipt_core_def
       intro!: managed_inv_update split: option.split)

lemma keeps_start: "keeps managed_inv (MarkManagedInputRunning e i x t u)"
  by (rule keepsI)
     (auto simp: MarkManagedInputRunning_def with_receipt_def with_valid_identity_def Let_def receipt_core_def
       intro!: managed_inv_update split: option.split)

lemma keeps_settle: "keeps managed_inv (SettleManagedInput e i x t u st out)"
proof (rule keepsI)
  fix r
  assume "managed_inv r"
  moreover have "st \<noteq> ManagedInputStateRunning" if "validateManagedInputSettlement t u st out = None"
    using that by (auto simp: validateManagedInputSettlement_def managedInputIsTerminal_def split: if_splits)
  ultimately show "managed_inv (snd (SettleManagedInput e i x t u st out r))"
    by (auto simp: SettleManagedInput_def with_receipt_def with_valid_identity_def Let_def receipt_core_def
       intro!: managed_inv_update split: option.split)
qed


lemma record_input_spec:
  "record_input mfp fp i rq msg r = (x, r') \<Longrightarrow>
   \<exists>receipt. x = Inr (receipt, False) \<and> r_managedInputs r' = gm_put (i, rq_ID rq) receipt (r_managedInputs r) \<and>
     r_entries r' = r_entries r \<and> r_nextPosition r' = r_nextPosition r \<and>
     r_managedOccurrences r' = gm_put (i, rq_OccurrenceKey rq) (i, rq_ID rq) (r_managedOccurrences r) \<and>
     r_identities r' = r_identities r \<and>
     receipt = (managedInputReceiptFromRequest i rq (nextManagedInputSequenceLocked i r) (qm_QueuedAt msg))
                 \<lparr>mr_fingerprint := managedInputFingerprint mfp i rq\<rparr>"
  by (auto simp: record_input_def put_receipt_def Let_def)

lemma record_input_inv:
  assumes "managed_inv r" "\<not> managedInputIDExistsLocked (rq_ID rq) r"
    and "record_input mfp fp i rq msg r = (x, r')"
  shows "managed_inv r'"
proof -
  obtain receipt where rec: "r_managedInputs r' = gm_put (i, rq_ID rq) receipt (r_managedInputs r)"
    and receipt: "receipt = (managedInputReceiptFromRequest i rq (nextManagedInputSequenceLocked i r) (qm_QueuedAt msg))
                 \<lparr>mr_fingerprint := managedInputFingerprint mfp i rq\<rparr>"
    using record_input_spec [OF assms(3)] by blast
  have "managed_inv (put_receipt (i, rq_ID rq) receipt r)"
  proof (rule managed_inv_put [OF assms(1)])
    show "receipt_ok (i, rq_ID rq) receipt"
      using next_sequence(2) by (simp add: receipt receipt_ok_def managedInputReceiptFromRequest_def)
    fix k m
    assume m: "gm_get (r_managedInputs r) k = Some m"
    have "snd k \<noteq> rq_ID rq"
      using assms(2) gm_get_in_set [OF m] by (auto simp: managedInputIDExistsLocked_def)
    moreover have "mr_Sequence m < nextManagedInputSequenceLocked i r" if "fst k = i"
      using next_sequence(1) scoped_iff [OF managed_invD(1) [OF assms(1)], of m i] m that by (metis prod.collapse)
    ultimately show "compatible (i, rq_ID rq) receipt k m"
      by (auto simp: compatible_def receipt managedInputReceiptFromRequest_def)
  qed
  then show ?thesis by (rule managed_inv_blind) (simp add: rec put_receipt_def)
qed

lemma later_receipt_mem:
  "foldl later_receipt latest l = Some m \<Longrightarrow> m \<in> set l \<or> latest = Some m"
proof (induction l arbitrary: latest)
  case (Cons x l)
  from Cons.IH [of "later_receipt latest x"] Cons.prems show ?case
    by (auto simp: later_receipt_def split: option.splits if_splits)
qed simp

lemma pending_spec:
  assumes "managed_inv r" "pendingPeriodicInputLocked i key r = Some m"
  shows "gm_get (r_managedInputs r) (i, mr_ID m) = Some m \<and> replaceable i key r m"
proof -
  have "m \<in> set (filter (replaceable i key r) (scoped i r))"
    using later_receipt_mem [OF assms(2) [unfolded pendingPeriodicInputLocked_def]] by blast
  then have m: "m \<in> set (scoped i r)" "replaceable i key r m" by (simp_all only: set_filter mem_Collect_eq)
  then obtain x where x: "gm_get (r_managedInputs r) (i, x) = Some m"
    using scoped_iff [OF managed_invD(1) [OF assms(1)]] by blast
  with managed_invD(2) [OF assms(1) x] m show ?thesis by (simp add: receipt_ok_def)
qed

text \<open>Replacing a pending input: on success its receipt is superseded; on failure nothing changes.\<close>

definition superseded :: "string \<Rightarrow> time \<Rightarrow> ManagedInputReceipt \<Rightarrow> ManagedInputReceipt" where
  "superseded x now m = m\<lparr>mr_State := ManagedInputStateSuperseded, mr_SupersededBy := x, mr_UpdatedAt := now\<rparr>"

lemma supersede_spec:
  assumes "gm_get (r_managedInputs r) (i, mr_ID old) = Some old"
    and "supersede_input e i rq n old msg r = (Inr msg', r')"
  shows "r_managedInputs r' =
    gm_put (i, mr_ID old) (superseded (rq_ID rq) (qm_QueuedAt msg') old) (r_managedInputs r)"
proof -
  have ins: "r_managedInputs r1 = r_managedInputs r0" if "insertLocked e msg n r0 = (y, r1)" for r0 r1 y
    using managed_inputs_insert [of e msg n r0] that by simp
  show ?thesis
    using assms by (auto simp: supersede_input_def superseded_def put_receipt_def put_entries_def gm_get0_def Let_def
        dest!: ins split: option.splits prod.splits sum.splits)
qed

lemma put_twice: "gm_put k v (gm_put k w m) = gm_put k v m"
  unfolding gm_put_def by (induction m) auto

lemma restore_rows:
  assumes "sess r s \<noteq> []"
  shows "put_entries s (sess r s) (put_entries s l r) = r"
proof -
  have "gm_get (r_entries r) s = Some (sess r s)" using assms
    by (cases "gm_get (r_entries r) s") (simp_all add: gm_get0_def)
  from put_same [OF this] show ?thesis by (simp add: put_entries_def put_twice)
qed

lemma supersede_failed:
  "supersede_input e i rq n old msg r = (y, r') \<Longrightarrow> y = Inl err \<Longrightarrow> r' = r"
proof -
  let ?s = "si_SessionID i"
  assume run: "supersede_input e i rq n old msg r = (y, r')" and y: "y = Inl err"
  show "r' = r"
  proof (cases "replacementIndexForID (sess r ?s) (mr_ID old)")
    case None
    then show ?thesis using run by (simp add: supersede_input_def)
  next
    case (Some k)
    then have "sess r ?s \<noteq> []" using find_index_SomeD [OF Some [unfolded replacementIndexForID_def]] by auto
    moreover have "insertLocked e msg n r0 = (Inl err', r1) \<Longrightarrow> r1 = r0" for r0 r1 err'
      by (auto simp: insertLocked_def Let_def split: if_splits)
    ultimately show ?thesis
      using run y Some restore_rows [of r ?s "remove_nth k (sess r ?s)"]
      by (auto simp: supersede_input_def Let_def split: prod.splits sum.splits)
  qed
qed

lemma admitE:
  assumes "AdmitManagedInput mfp fp e i rq n r = (x, r')"
  obtains (refused) err where "x = Inl err" "r' = r"
  | (replay) m key where "x = Inr (m, True)" "r' = r" "gm_get (r_managedInputs r) key = Some m"
      "gm_get (r_managedOccurrences r) (i, rq_OccurrenceKey rq) = Some key"
      "mr_fingerprint m = managedInputFingerprint mfp i rq"
  | (fresh) msg r1 where "gm_get (r_managedOccurrences r) (i, rq_OccurrenceKey rq) = None"
      "\<not> managedInputIDExistsLocked (rq_ID rq) r"
      "insertLocked e (managedInputQueueMessage e i rq) n r = (Inr msg, r1)"
      "record_input mfp fp i rq msg r1 = (x, r')"
  | (replaced) old msg r1 where "gm_get (r_managedOccurrences r) (i, rq_OccurrenceKey rq) = None"
      "\<not> managedInputIDExistsLocked (rq_ID rq) r"
      "pendingPeriodicInputLocked i (rq_CoalesceKey rq) r = Some old"
      "supersede_input e i rq n old (managedInputQueueMessage e i rq) r = (Inr msg, r1)"
      "record_input mfp fp i rq msg r1 = (x, r')"
proof (cases "validateManagedInputRequest i rq \<noteq> None \<or> validateIdentityLocked i r \<noteq> None")
  case True
  with assms refused show thesis
    by (auto simp: AdmitManagedInput_def with_valid_identity_def split: option.splits)
next
  case False
  let ?msg = "managedInputQueueMessage e i rq"
  note pre = False
  show thesis
  proof (cases "gm_get (r_managedOccurrences r) (i, rq_OccurrenceKey rq)")
    case (Some key)
    with assms pre refused replay [of _ key] show thesis
      by (auto simp: AdmitManagedInput_def with_valid_identity_def split: option.splits if_splits)
  next
    case None
    note absent = None
    show thesis
    proof (cases "admissionReceiptExistsLocked i (rq_OccurrenceKey rq) r \<or>
        managedInputIDExistsLocked (rq_ID rq) r \<or> queueIDExistsLocked (rq_ID rq) r")
      case True
      with assms pre absent refused show thesis by (auto simp: AdmitManagedInput_def with_valid_identity_def)
    next
      case free: False
      let ?old = "if managedInputCanCoalesce rq then pendingPeriodicInputLocked i (rq_CoalesceKey rq) r else None"
      show thesis
      proof (cases ?old)
        case None
        obtain y r1 where ins: "insertLocked e ?msg n r = (y, r1)" by fastforce
        then have same: "y = Inl err \<Longrightarrow> r1 = r" for err by (auto simp: insertLocked_def Let_def split: if_splits)
        show thesis
          using assms pre absent free None ins same refused fresh
          by (cases y) (auto simp: AdmitManagedInput_def with_valid_identity_def Let_def)
      next
        case (Some old)
        then have old: "pendingPeriodicInputLocked i (rq_CoalesceKey rq) r = Some old" by (simp split: if_splits)
        obtain y r1 where sup: "supersede_input e i rq n old ?msg r = (y, r1)" by fastforce
        show thesis
        proof (cases y)
          case (Inl err)
          with sup have "r1 = r" by (rule supersede_failed)
          with Inl assms pre absent free Some sup refused show thesis
            by (auto simp: AdmitManagedInput_def with_valid_identity_def Let_def)
        next
          case (Inr msg)
          with assms pre absent free Some sup old replaced show thesis
            by (auto simp: AdmitManagedInput_def with_valid_identity_def Let_def)
        qed
      qed
    qed
  qed
qed

lemma keeps_admit: "keeps managed_inv (AdmitManagedInput mfp fp e i rq n)"
proof (rule keepsI)
  fix r
  assume inv: "managed_inv r"
  obtain x r' where run: "AdmitManagedInput mfp fp e i rq n r = (x, r')" by fastforce
  have "managed_inv r'"
  using run
  proof (cases rule: admitE)
    case refused
    then show ?thesis using inv managed_inv_blind by blast
  next
    case (fresh msg r1)
    then have r1: "r_managedInputs r1 = r_managedInputs r"
      using managed_inputs_insert [of e "managedInputQueueMessage e i rq" n r] by simp
    then have "managed_inv r1" using inv managed_inv_blind by blast
    moreover have "\<not> managedInputIDExistsLocked (rq_ID rq) r1"
      using fresh(2) r1 by (simp add: managedInputIDExistsLocked_def)
    ultimately show ?thesis using record_input_inv fresh(4) by blast
  next
    case (replaced old msg r1)
    note old = pending_spec [OF inv replaced(3)]
    let ?old = "superseded (rq_ID rq) (qm_QueuedAt msg) old"
    have r1: "r_managedInputs r1 = r_managedInputs (put_receipt (i, mr_ID old) ?old r)"
      using supersede_spec [OF conjunct1 [OF old] replaced(4)] by (simp add: put_receipt_def)
    have "managed_inv (put_receipt (i, mr_ID old) ?old r)"
      by (rule managed_inv_update [OF inv conjunct1 [OF old]]) (simp_all add: receipt_core_def superseded_def)
    then have "managed_inv r1" using r1 managed_inv_blind by blast
    moreover have "\<not> managedInputIDExistsLocked (rq_ID rq) r1"
      using replaced(2) old by (auto simp: input_exists_iff r1 put_receipt_def gm_has_def)
    ultimately show ?thesis using record_input_inv replaced(5) by blast
  qed (use inv in simp)
  then show "managed_inv (snd (AdmitManagedInput mfp fp e i rq n r))" using run by simp
qed

section \<open>The life cycle of a receipt\<close>

inductive input_step :: "ManagedInputState \<Rightarrow> ManagedInputState \<Rightarrow> bool" where
  start: "input_step ManagedInputStateAccepted ManagedInputStateRunning"
| cancel: "input_step ManagedInputStateAccepted ManagedInputStateCancelled"
| lose: "input_step ManagedInputStateAccepted ManagedInputStateUncertain"
| replace: "input_step ManagedInputStateAccepted ManagedInputStateSuperseded"
| settle: "managedInputIsTerminal st \<Longrightarrow> input_step ManagedInputStateRunning st"

inductive_cases input_stepE: "input_step st st'"

definition advances :: "ManagedInputReceipt \<Rightarrow> ManagedInputReceipt \<Rightarrow> bool" where
  "advances m m' \<longleftrightarrow> m' = m \<or> (receipt_core m' = receipt_core m \<and> input_step (mr_State m) (mr_State m'))"


lemma advances_refl [simp]: "advances m m"
  by (simp add: advances_def)

lemma superseded_advances:
  "mr_State m = ManagedInputStateAccepted \<Longrightarrow> advances m (superseded x now m)"
  by (simp add: advances_def superseded_def receipt_core_def input_step.replace)

lemma managed_inputs_row [simp]:
  "r_managedInputs (put_entries s l r) = r_managedInputs r"
  "r_managedInputs (removeManagedQueueRowLocked s x r) = r_managedInputs r"
  "r_managedInputs (put_receipt k m r) = gm_put k m (r_managedInputs r)"
  by (auto simp: put_entries_def removeManagedQueueRowLocked_def put_receipt_def split: option.split)

lemma settlement_terminal:
  "validateManagedInputSettlement t u st out = None \<Longrightarrow> managedInputIsTerminal st"
  by (simp add: validateManagedInputSettlement_def split: if_splits)

lemma advances_core:
  "input_step (mr_State m) (mr_State m') \<Longrightarrow> receipt_core m' = receipt_core m \<Longrightarrow> advances m m'"
  by (simp add: advances_def)

lemma settlement_advances:
  "mr_State m = ManagedInputStateRunning \<Longrightarrow> validateManagedInputSettlement t u st out = None \<Longrightarrow>
   advances m (m\<lparr>mr_State := st, mr_Outcome := out, mr_UpdatedAt := now\<rparr>)"
  using settlement_terminal by (intro advances_core) (auto simp: receipt_core_def intro: input_step.settle)

text \<open>What a step of the repository does to a receipt that is there before and after it.\<close>

lemma managed_lifecycle:
  assumes inv: "managed_inv r" and "managed_step r r'"
    and "gm_get (r_managedInputs r) k = Some m" "gm_get (r_managedInputs r') k = Some m'"
  shows "advances m m'"
  using assms(2)
proof cases
  case (admit mfp fp e i rq n)
  obtain x where run: "AdmitManagedInput mfp fp e i rq n r = (x, r')" using admit by (metis prod.collapse)
  have other: "k \<noteq> (i, rq_ID rq)" if "\<not> managedInputIDExistsLocked (rq_ID rq) r"
    using that assms(3) by (auto simp: input_exists_iff gm_has_def)
  from run show ?thesis
  proof (cases rule: admitE)
    case (fresh msg r1)
    have "r_managedInputs r1 = r_managedInputs r"
      using managed_inputs_insert [of e "managedInputQueueMessage e i rq" n r] fresh(3) by simp
    then show ?thesis using record_input_spec [OF fresh(4)] other [OF fresh(2)] assms(3,4) by auto
  next
    case (replaced old msg r1)
    note old = pending_spec [OF inv replaced(3)]
    have "gm_get (r_managedInputs r1) k = Some m'"
      using record_input_spec [OF replaced(5)] other [OF replaced(2)] assms(4) by auto
    then show ?thesis
      using supersede_spec [OF conjunct1 [OF old] replaced(4)] assms(3) old superseded_advances
      by (cases "k = (i, mr_ID old)") (auto simp: replaceable_def)
  qed (use assms(3,4) in auto)
next
  case (cancel e i x)
  then show ?thesis using assms(3,4)
    by (auto simp: CancelManagedInput_def with_receipt_def with_valid_identity_def Let_def
        intro: advances_core simp: receipt_core_def intro!: input_step.cancel split: option.splits if_splits)
next
  case (start e i x t u)
  then show ?thesis using assms(3,4)
    by (auto simp: MarkManagedInputRunning_def with_receipt_def with_valid_identity_def Let_def
        intro: advances_core simp: receipt_core_def intro!: input_step.start split: option.splits if_splits)
next
  case (settle e i x t u st out)
  then show ?thesis using assms(3,4)
    by (auto simp: SettleManagedInput_def with_receipt_def with_valid_identity_def Let_def
        settlement_advances receipt_core_def intro: advances_core intro!: input_step.lose
        split: option.splits if_splits)
qed


interpretation only_deletes: bookkeeping
  "\<lambda>r'. \<forall>k m. gm_get (r_managedInputs r') k = Some m \<longrightarrow> gm_get M k = Some m" for M
  by unfold_locales (auto split: if_splits)

lemma queue_lifecycle:
  assumes "managed_inv r" "queue_step r r'"
    and "gm_get (r_managedInputs r) k = Some m" "gm_get (r_managedInputs r') k = Some m'"
  shows "advances m m'"
proof -
  have "(\<forall>k m. gm_get (r_managedInputs r') k = Some m \<longrightarrow> gm_get (r_managedInputs r) k = Some m) \<or> managed_step r r'"
    by (rule only_deletes.step_or_managed [OF assms(2)]) blast
  then show ?thesis
  proof
    assume "\<forall>k m. gm_get (r_managedInputs r') k = Some m \<longrightarrow> gm_get (r_managedInputs r) k = Some m"
    then have "gm_get (r_managedInputs r) k = Some m'" using assms(4) by blast
    then show ?thesis using assms(3) by simp
  qed (rule managed_lifecycle [OF assms(1) _ assms(3,4)])
qed

interpretation managed_system: invariant_system "\<lambda>r. r = NewMemoryRepository" queue_step managed_inv
proof unfold_locales
  show "managed_inv s" if "s = NewMemoryRepository" for s
    using that by (simp add: managed_inv_def NewMemoryRepository_def)
  show "managed_inv t" if "managed_inv s" "queue_step s t" for s t
    by (rule managed_book.step [OF that(2,1) keeps_admit keeps_cancel keeps_start keeps_settle])
qed

lemma managed_reachable: "reachable r \<Longrightarrow> managed_inv r"
  by (rule managed_system.reach_inv [OF reachable_free])

text \<open>A step during which the receipt under a key is held, not deleted with its session.\<close>

definition held_step :: "managedInputIDKey \<Rightarrow> repo \<Rightarrow> repo \<Rightarrow> bool" where
  "held_step k r r' \<longleftrightarrow> queue_step r r' \<and> gm_has (r_managedInputs r') k"

lemma receipt_life:
  assumes "reachable r" and "(held_step k)\<^sup>*\<^sup>* r r'" and "gm_get (r_managedInputs r) k = Some m"
  shows "\<exists>m'. gm_get (r_managedInputs r') k = Some m' \<and> receipt_core m' = receipt_core m \<and>
           input_step\<^sup>*\<^sup>* (mr_State m) (mr_State m')"
proof -
  have "managed_inv r' \<and> (\<exists>m'. gm_get (r_managedInputs r') k = Some m' \<and> receipt_core m' = receipt_core m \<and>
      input_step\<^sup>*\<^sup>* (mr_State m) (mr_State m'))"
    using assms(2)
  proof (induction rule: rtranclp_induct)
    case base
    then show ?case using managed_reachable [OF assms(1)] assms(3) by blast
  next
    case (step r1 r2)
    then obtain m1 m2 where m1: "gm_get (r_managedInputs r1) k = Some m1" "receipt_core m1 = receipt_core m"
        "input_step\<^sup>*\<^sup>* (mr_State m) (mr_State m1)"
      and m2: "gm_get (r_managedInputs r2) k = Some m2" "queue_step r1 r2"
      by (auto simp: held_step_def gm_has_def)
    have inv: "managed_inv r1" using step.IH by blast
    have "managed_inv r2" by (rule managed_system.inv_step [OF inv m2(2)])
    with queue_lifecycle [OF inv m2(2) m1(1) m2(1)] m1 m2 show ?case
      by (auto simp: advances_def intro: rtranclp.rtrancl_into_rtrancl)
  qed
  then show ?thesis by blast
qed


text \<open>
  C33: the life cycle of a managed input.  While a receipt is held, whatever operations run, it keeps
  its identity, payload, sequence number and fingerprint, and its state moves only along the state
  machine: accepted to running, cancelled, uncertain or superseded, and running to a terminal state.
\<close>

theorem receipt_lifecycle:
  assumes "reachable r" and "(held_step k)\<^sup>*\<^sup>* r r'" and "gm_get (r_managedInputs r) k = Some m"
  shows "\<exists>m'. gm_get (r_managedInputs r') k = Some m' \<and> receipt_core m' = receipt_core m \<and>
           input_step\<^sup>*\<^sup>* (mr_State m) (mr_State m')"
  using receipt_life [OF assms] .

section \<open>An example\<close>

definition ex_session :: repo where
  "ex_session = snd (ResolveSessionIdentity (Some (\<lambda>_ _. Inr ex_identity)) ''t'' ''s'' NewMemoryRepository)"

definition ex_request :: "string \<Rightarrow> ManagedInputRequest" where
  "ex_request x = \<lparr>rq_ID = x, rq_OccurrenceKey = ''tick-'' @ x, rq_PayloadDigest = ''d'', rq_Payload = ''poll'',
     rq_Origin = ManagedInputOriginPeriodic, rq_CoalesceKey = ''poll'', rq_ConversationRevision = 0\<rparr>"

abbreviation ex_admit :: "string \<Rightarrow> repo \<Rightarrow> (ManagedInputReceipt \<times> bool) result" where
  "ex_admit x \<equiv> AdmitManagedInput (\<lambda>_ rq. rq_Payload rq) (\<lambda>_. ''fp'') ex_env ex_identity (ex_request x) 1"

definition ex_admitted :: repo where
  "ex_admitted = snd (ex_admit ''m1'' ex_session)"

definition ex_running :: repo where
  "ex_running = snd (MarkManagedInputRunning ex_env ex_identity ''m1'' ''turn'' ''exec'' ex_admitted)"

lemma reachable_ex_session: "reachable ex_session"
  unfolding ex_session_def by (rule reachable_step [OF reachable_new step_resolve])

lemma reachable_ex_admitted: "reachable ex_admitted"
  unfolding ex_admitted_def by (rule reachable_step [OF reachable_ex_session step_admit_managed])

lemma reachable_ex_running: "reachable ex_running"
  unfolding ex_running_def by (rule reachable_step [OF reachable_ex_admitted step_run_managed])

lemma ex_session_eq: "ex_session = NewMemoryRepository\<lparr>r_identities := [(''s'', ex_identity)]\<rparr>"
  by (simp add: ex_session_def ResolveSessionIdentity_def ex_identity_def gm_put_def NewMemoryRepository_def)

definition ex_receipt :: ManagedInputReceipt where
  "ex_receipt = (managedInputReceiptFromRequest ex_identity (ex_request ''m1'') 1 1000000)\<lparr>mr_fingerprint := ''poll''\<rparr>"

lemma ex_admit_fst: "fst (ex_admit ''m1'' ex_session) = Inr (ex_receipt, False)"
  by code_simp

lemma ex_admitted_receipt: "gm_get (r_managedInputs ex_admitted) (ex_identity, ''m1'') = Some ex_receipt"
  by code_simp

lemma ex_admitted_rows: "map qm_ID (sess ex_admitted ''s'') = [''m1'']"
  by code_simp


theorem receipt_lifecycle_witness:
  "\<exists>m'. gm_get (r_managedInputs ex_running) (ex_identity, ''m1'') = Some m' \<and>
     receipt_core m' = receipt_core ex_receipt \<and> input_step\<^sup>*\<^sup>* ManagedInputStateAccepted (mr_State m')"
proof -
  have "held_step (ex_identity, ''m1'') ex_admitted ex_running"
    unfolding held_step_def by (rule conjI, unfold ex_running_def, rule step_run_managed, code_simp)
  then have run: "(held_step (ex_identity, ''m1''))\<^sup>*\<^sup>* ex_admitted ex_running" by blast
  have "mr_State ex_receipt = ManagedInputStateAccepted" by code_simp
  with receipt_lifecycle [OF reachable_ex_admitted run ex_admitted_receipt] show ?thesis by simp
qed

text \<open>
  Settled inputs are final.  Once an input is completed, failed, uncertain, cancelled or
  superseded, its receipt never changes again while it is held, in any field.
\<close>

theorem settled_forever:
  assumes "reachable r" and "(held_step k)\<^sup>*\<^sup>* r r'" and "gm_get (r_managedInputs r) k = Some m"
    and "managedInputIsTerminal (mr_State m) \<or> mr_State m = ManagedInputStateSuperseded"
  shows "gm_get (r_managedInputs r') k = Some m"
proof -
  have "\<not> input_step (mr_State m) st" for st
    using assms(4) by (auto simp: managedInputIsTerminal_def elim: input_stepE)
  then have final: "advances m m' \<Longrightarrow> m' = m" for m' by (auto simp: advances_def)
  have "managed_inv r' \<and> gm_get (r_managedInputs r') k = Some m"
    using assms(2)
  proof (induction rule: rtranclp_induct)
    case (step r1 r2)
    then obtain m2 where "gm_get (r_managedInputs r2) k = Some m2" "queue_step r1 r2"
      by (auto simp: held_step_def gm_has_def)
    moreover from this step.IH have "managed_inv r2" using managed_system.inv_step by blast
    ultimately show ?case
      using queue_lifecycle [of r1 r2 k m m2] step.IH final by blast
  qed (use managed_reachable [OF assms(1)] assms(3) in blast)
  then show ?thesis by blast
qed

definition ex_done :: repo where
  "ex_done = snd (SettleManagedInput ex_env ex_identity ''m1'' ''turn'' ''exec'' ManagedInputStateCompleted ''ok'' ex_running)"

definition ex_done_later :: repo where
  "ex_done_later = snd (CancelManagedInput ex_later ex_identity ''m1'' ex_done)"

theorem settled_forever_witness:
  "gm_get (r_managedInputs ex_done_later) (ex_identity, ''m1'') = gm_get (r_managedInputs ex_done) (ex_identity, ''m1'')"
proof -
  have reach: "reachable ex_done"
    unfolding ex_done_def by (rule reachable_step [OF reachable_ex_running step_settle_managed])
  have "held_step (ex_identity, ''m1'') ex_done ex_done_later"
    unfolding held_step_def by (rule conjI, unfold ex_done_later_def, rule step_cancel_managed, code_simp)
  then have run: "(held_step (ex_identity, ''m1''))\<^sup>*\<^sup>* ex_done ex_done_later" by blast
  have "map_option (\<lambda>m. managedInputIsTerminal (mr_State m)) (gm_get (r_managedInputs ex_done) (ex_identity, ''m1'')) = Some True"
    by code_simp
  then obtain m where "gm_get (r_managedInputs ex_done) (ex_identity, ''m1'') = Some m" "managedInputIsTerminal (mr_State m)"
    by blast
  with settled_forever [OF reach run] show ?thesis by simp
qed

lemma distinct_unique_length: "distinct l \<Longrightarrow> (\<And>a b. a \<in> set l \<Longrightarrow> b \<in> set l \<Longrightarrow> a = b) \<Longrightarrow> length l \<le> 1"
proof (cases l)
  case (Cons a l')
  assume "distinct l" and eq: "\<And>a b. a \<in> set l \<Longrightarrow> b \<in> set l \<Longrightarrow> a = b"
  with Cons have "b = a" "b \<noteq> a" if "b \<in> set l'" for b using that by auto
  then have "l' = []" by (metis list.set_intros(1) neq_Nil_conv)
  with Cons show ?thesis by simp
qed simp

lemma scoped_distinct:
  assumes "managed_inv r"
  shows "distinct (map mr_Sequence (scoped i r))" "distinct (map mr_ID (scoped i r))"
    "length (filter (\<lambda>m. mr_State m = ManagedInputStateRunning) (scoped i r)) \<le> 1"
proof -
  define xs where "xs = filter (\<lambda>(k, _). fst k = i) (r_managedInputs r)"
  have sc: "scoped i r = map snd xs" by (simp add: xs_def)
  have wf: "gm_wf (r_managedInputs r)" by (rule managed_invD(1) [OF assms])
  then have dk: "distinct (map fst xs)" by (simp add: xs_def gm_wf_def distinct_map_filter)
  have get: "gm_get (r_managedInputs r) (fst p) = Some (snd p)" "fst (fst p) = i" if "p \<in> set xs" for p
    using that gm_get_wf_iff [OF wf] by (auto simp: xs_def)
  have same: "p = q" if "p \<in> set xs" "q \<in> set xs" "fst p = fst q" for p q
    using that get(1) by (metis option.inject prod_eqI)
  have comp: "compatible (fst p) (snd p) (fst q) (snd q)" if "p \<in> set xs" "q \<in> set xs" "p \<noteq> q" for p q
    using managed_invD(3) [OF assms get(1) get(1)] that same by blast
  have inj: "inj_on (\<lambda>p. mr_Sequence (snd p)) (set xs)" "inj_on (\<lambda>p. mr_ID (snd p)) (set xs)"
  proof -
    show "inj_on (\<lambda>p. mr_Sequence (snd p)) (set xs)"
      using comp get(2) by (intro inj_onI) (fastforce simp: compatible_def)
    have "mr_ID (snd p) = snd (fst p)" if "p \<in> set xs" for p
      using managed_invD(2) [OF assms get(1) [OF that]] by (simp add: receipt_ok_def)
    then show "inj_on (\<lambda>p. mr_ID (snd p)) (set xs)"
      using comp by (intro inj_onI) (fastforce simp: compatible_def)
  qed
  have dx: "distinct xs" using dk by (simp add: distinct_map)
  then show seqs: "distinct (map mr_Sequence (scoped i r))" and "distinct (map mr_ID (scoped i r))"
    using inj by (simp_all add: sc comp_def distinct_map)
  show "length (filter (\<lambda>m. mr_State m = ManagedInputStateRunning) (scoped i r)) \<le> 1"
  proof (rule distinct_unique_length)
    show "distinct (filter (\<lambda>m. mr_State m = ManagedInputStateRunning) (scoped i r))"
      using conjunct1 [OF iffD1 [OF distinct_map seqs]] by (rule distinct_filter)
    fix a b
    assume "a \<in> set (filter (\<lambda>m. mr_State m = ManagedInputStateRunning) (scoped i r))"
      "b \<in> set (filter (\<lambda>m. mr_State m = ManagedInputStateRunning) (scoped i r))"
    then obtain p q where "p \<in> set xs" "q \<in> set xs" "a = snd p" "b = snd q"
      "mr_State a = ManagedInputStateRunning" "mr_State b = ManagedInputStateRunning"
      unfolding sc by auto
    with comp [of p q] get(2) show "a = b" by (cases "p = q") (auto simp: compatible_def)
  qed
qed

lemma sort_lexicographic:
  assumes "distinct (map f l)"
  shows "sorted_wrt (<) (map f (sort_key (\<lambda>m. (f m :: int, g m)) l))"
proof -
  let ?s = "sort_key (\<lambda>m. (f m, g m)) l"
  have "sorted (map (\<lambda>m. (f m, g m)) ?s)" by simp
  then have "sorted (map f ?s)"
    unfolding sorted_map by (rule sorted_wrt_mono_rel [rotated]) auto
  moreover have "distinct (map f ?s)"
    using assms mset_eq_imp_distinct_iff [of "map f ?s" "map f l"] by simp
  ultimately show ?thesis by (simp add: strict_sorted_iff)
qed

text \<open>
  The inputs of a conversation.  The listing of a session's inputs is ordered by strictly
  increasing sequence numbers, their identifiers are distinct, and at most one of them is running.
\<close>

theorem listed_inputs:
  assumes "reachable r" and "ListManagedInputs i r = (Inr l, r')"
  shows "sorted_wrt (<) (map mr_Sequence l) \<and> distinct (map mr_ID l) \<and>
         length (filter (\<lambda>m. mr_State m = ManagedInputStateRunning) l) \<le> 1"
proof -
  have l: "l = managedInputSort (scoped i r)"
    using assms(2) by (auto simp: ListManagedInputs_def with_valid_identity_def split: option.splits)
  note d = scoped_distinct [OF managed_reachable [OF assms(1)], of i]
  have m: "mset l = mset (scoped i r)" by (simp add: l managedInputSort_def)
  have "distinct (map mr_ID l)"
    using d(2) m by (metis mset_eq_imp_distinct_iff mset_map)
  moreover have "length (filter P l) = length (filter P (scoped i r))" for P
    using m by (metis mset_filter size_mset)
  ultimately show ?thesis
    using sort_lexicographic [OF d(1)] d(3) by (simp add: l managedInputSort_def)
qed

theorem listed_inputs_witness:
  "\<exists>l. ListManagedInputs ex_identity ex_running = (Inr l, ex_running) \<and>
     length (filter (\<lambda>m. mr_State m = ManagedInputStateRunning) l) \<le> 1 \<and> l \<noteq> []"
proof -
  have "map_sum (\<lambda>_. ()) (map mr_ID) (fst (ListManagedInputs ex_identity ex_running)) = Inr [''m1'']"
    by code_simp
  then obtain l where l: "fst (ListManagedInputs ex_identity ex_running) = Inr l" "map mr_ID l = [''m1'']"
    by (cases "fst (ListManagedInputs ex_identity ex_running)") auto
  have "snd (ListManagedInputs ex_identity ex_running) = ex_running"
    by (simp add: ListManagedInputs_def with_valid_identity_def split: option.split)
  with l have "ListManagedInputs ex_identity ex_running = (Inr l, ex_running)" by (metis prod.collapse)
  with listed_inputs [OF reachable_ex_running this] l(2) show ?thesis by auto
qed


section \<open>Replaying an admission\<close>

text \<open>A step that also keeps the entry of the occurrence index.\<close>

definition remembered_step :: "managedInputIDKey \<Rightarrow> managedInputOccurrenceKey \<Rightarrow> repo \<Rightarrow> repo \<Rightarrow> bool" where
  "remembered_step k oc r r' \<longleftrightarrow> held_step k r r' \<and> gm_has (r_managedOccurrences r') oc"

interpretation occurrences_only: bookkeeping
  "\<lambda>r'. \<forall>oc k. gm_get (r_managedOccurrences r') oc = Some k \<longrightarrow> gm_get M oc = Some k" for M
  by unfold_locales (auto split: if_splits)

lemma occurrences_insert: "r_managedOccurrences (snd (insertLocked e msg n r)) = r_managedOccurrences r"
  by (simp add: insertLocked_def put_entries_def put_next_def Let_def)

lemma occurrences_supersede:
  "supersede_input e i rq n old msg r = (x, r') \<Longrightarrow> r_managedOccurrences r' = r_managedOccurrences r"
  by (auto simp: supersede_input_def insertLocked_def put_receipt_def put_entries_def put_next_def Let_def
      split: option.splits if_splits)


lemma occurrence_kept:
  assumes "queue_step r r'" "gm_get (r_managedOccurrences r) oc = Some k" "gm_has (r_managedOccurrences r') oc"
  shows "gm_get (r_managedOccurrences r') oc = Some k"
proof -
  have "(\<forall>oc k. gm_get (r_managedOccurrences r') oc = Some k \<longrightarrow> gm_get (r_managedOccurrences r) oc = Some k) \<or> managed_step r r'"
    by (rule occurrences_only.step_or_managed [OF assms(1)]) blast
  then show ?thesis
  proof
    assume "\<forall>oc k. gm_get (r_managedOccurrences r') oc = Some k \<longrightarrow> gm_get (r_managedOccurrences r) oc = Some k"
    then show ?thesis using assms(2,3) by (fastforce simp: gm_has_def)
  next
    assume "managed_step r r'"
    then show ?thesis
    proof cases
      case (admit mfp fp e i rq n)
      obtain x where run: "AdmitManagedInput mfp fp e i rq n r = (x, r')" using admit by (metis prod.collapse)
      then show ?thesis
      proof (cases rule: admitE)
        case (fresh msg r1)
        then show ?thesis
          using record_input_spec [OF fresh(4)] assms(2) occurrences_insert [of e "managedInputQueueMessage e i rq" n r]
          by auto
      next
        case (replaced old msg r1)
        then show ?thesis
          using record_input_spec [OF replaced(5)] occurrences_supersede [OF replaced(4)] assms(2) by auto
      qed (use assms(2) in auto)
    qed (use assms(2) in \<open>auto simp: CancelManagedInput_def MarkManagedInputRunning_def SettleManagedInput_def
        with_receipt_def with_valid_identity_def removeManagedQueueRowLocked_def put_receipt_def put_entries_def
        Let_def split: option.split\<close>)
  qed
qed

lemma remembered_run:
  assumes "(remembered_step k oc)\<^sup>*\<^sup>* r r'" "gm_get (r_managedOccurrences r) oc = Some k"
  shows "(held_step k)\<^sup>*\<^sup>* r r' \<and> gm_get (r_managedOccurrences r') oc = Some k"
  using assms(1)
proof (induction rule: rtranclp_induct)
  case (step r1 r2)
  then show ?case
    using occurrence_kept [of r1 r2 oc k]
    by (auto simp: remembered_step_def held_step_def intro: rtranclp.rtrancl_into_rtrancl)
qed (use assms(2) in blast)

text \<open>
  Managed inputs are admitted once.  After an input was admitted, and as long as its receipt is
  remembered, a further request for the same occurrence never queues anything: with the same
  content (its host-minted identifier apart) it returns the existing receipt as a duplicate, and
  with other content it is refused as a conflict; the repository is unchanged.
\<close>

theorem managed_admission_once:
  assumes "reachable r" and "AdmitManagedInput mfp fp e i rq n r = (Inr (m, False), r1)"
    and "(remembered_step (i, rq_ID rq) (i, rq_OccurrenceKey rq))\<^sup>*\<^sup>* r1 r2"
    and "validateIdentityLocked i r2 = None"
    and "validateManagedInputRequest i rq' = None" and "rq_OccurrenceKey rq' = rq_OccurrenceKey rq"
  shows "if managedInputFingerprint mfp i rq' = managedInputFingerprint mfp i rq
         then \<exists>m'. AdmitManagedInput mfp fp' e' i rq' n' r2 = (Inr (m', True), r2) \<and> receipt_core m' = receipt_core m
         else AdmitManagedInput mfp fp' e' i rq' n' r2 = (Inl ErrQueueIDConflict, r2)"
proof -
  have "reachable r1" using reachable_step [OF assms(1) step_admit_managed] assms(2) by (metis snd_conv)
  have "\<exists>r0 msg. record_input mfp fp i rq msg r0 = (Inr (m, False), r1)"
    using assms(2) by (cases rule: admitE) auto
  then obtain r0 msg where "record_input mfp fp i rq msg r0 = (Inr (m, False), r1)" by blast
  note rec = record_input_spec [OF this]
  have m: "gm_get (r_managedInputs r1) (i, rq_ID rq) = Some m" "mr_fingerprint m = managedInputFingerprint mfp i rq"
    and oc: "gm_get (r_managedOccurrences r1) (i, rq_OccurrenceKey rq) = Some (i, rq_ID rq)"
    using rec by auto
  note run = remembered_run [OF assms(3) oc]
  from receipt_life [OF \<open>reachable r1\<close> conjunct1 [OF run] m(1)]
  obtain m' where m': "gm_get (r_managedInputs r2) (i, rq_ID rq) = Some m'" "receipt_core m' = receipt_core m" by blast
  have "mr_fingerprint m' = managedInputFingerprint mfp i rq" using receipt_coreD(7) [OF m'(2)] m(2) by simp
  then have "AdmitManagedInput mfp fp' e' i rq' n' r2 =
      (if managedInputFingerprint mfp i rq \<noteq> managedInputFingerprint mfp i rq'
       then (Inl ErrQueueIDConflict, r2) else (Inr (m', True), r2))"
    by (simp add: AdmitManagedInput_def with_valid_identity_def assms(4-6) conjunct2 [OF run] m'(1) Let_def)
  with m'(2) show ?thesis by simp
qed

theorem managed_admission_once_witness:
  "\<exists>m'. ex_admit ''m1'' ex_running = (Inr (m', True), ex_running)"
proof -
  have "ex_admit ''m1'' ex_session = (Inr (ex_receipt, False), ex_admitted)"
    using ex_admit_fst by (simp add: ex_admitted_def prod_eq_iff)
  moreover have oc: "rq_OccurrenceKey (ex_request ''m1'') = ''tick-m1''" "rq_ID (ex_request ''m1'') = ''m1''"
    by (simp_all add: ex_request_def)
  moreover have "remembered_step (ex_identity, ''m1'') (ex_identity, ''tick-m1'') ex_admitted ex_running"
    unfolding remembered_step_def held_step_def
    by (intro conjI) (unfold ex_running_def, rule step_run_managed, code_simp+)
  then have "(remembered_step (ex_identity, ''m1'') (ex_identity, ''tick-m1''))\<^sup>*\<^sup>* ex_admitted ex_running" by blast
  moreover have "validateIdentityLocked ex_identity ex_running = None" by code_simp
  moreover have "validateManagedInputRequest ex_identity (ex_request ''m1'') = None" by code_simp
  ultimately show ?thesis
    using managed_admission_once [OF reachable_ex_session, of "\<lambda>_ rq. rq_Payload rq" "\<lambda>_. ''fp''" ex_env ex_identity
        "ex_request ''m1''" 1 ex_receipt ex_admitted ex_running "ex_request ''m1''" "\<lambda>_. ''fp''" ex_env 1] by auto
qed


section \<open>What the operations do\<close>

lemma sess_managed [simp]:
  "sess (put_receipt k m r) s = sess r s"
  by (simp add: put_receipt_def)

text \<open>
  Starting an input.  Exactly an accepted input at the head of the queue is started, and only
  while no other input of the conversation runs: its row leaves the queue, the rows behind it stay,
  and its receipt names the turn and execution.  In every other case nothing changes.
\<close>

theorem start_input_exact:
  assumes "reachable r" and "MarkManagedInputRunning e i x t u r = (res, r')"
  shows "case res of
      Inr (m', True) \<Rightarrow>
        (\<exists>m q rest. gm_get (r_managedInputs r) (i, x) = Some m \<and> mr_State m = ManagedInputStateAccepted \<and>
           \<not> managedInputRunningLocked i r \<and>
           ListBySession (si_SessionID i) r = q # rest \<and> qm_ID q = x \<and> ListBySession (si_SessionID i) r' = rest \<and>
           gm_get (r_managedInputs r') (i, x) = Some m' \<and>
           m' = m\<lparr>mr_State := ManagedInputStateRunning, mr_TurnID := t, mr_ExecutionID := u, mr_UpdatedAt := e_now e\<rparr>)
    | _ \<Rightarrow> r' = r"
proof (cases "\<exists>m'. res = Inr (m', True)")
  case False
  then show ?thesis
    using assms(2) by (auto simp: MarkManagedInputRunning_def with_receipt_def with_valid_identity_def Let_def
        split: option.splits if_splits)
next
  case True
  let ?s = "si_SessionID i"
  obtain m' where res: "res = Inr (m', True)" using True by blast
  obtain m k where m: "gm_get (r_managedInputs r) (i, x) = Some m" "mr_State m = ManagedInputStateAccepted"
      "\<not> managedInputRunningLocked i r"
    and k: "find_index (\<lambda>q. qm_ID q = x) (sess r ?s) = Some k" "isMemoryQueueHead (sess r ?s) x"
    and m': "m' = m\<lparr>mr_State := ManagedInputStateRunning, mr_TurnID := t, mr_ExecutionID := u, mr_UpdatedAt := e_now e\<rparr>"
    and r': "r' = put_entries ?s (remove_nth k (sess r ?s)) (put_receipt (i, x) m' r)"
    using assms(2) unfolding res
    by (auto simp: MarkManagedInputRunning_def with_receipt_def with_valid_identity_def replacementIndexForID_def Let_def
        split: option.splits if_splits)
  obtain q rest where rows: "sess r ?s = q # rest" using k(2) by (cases "sess r ?s") (auto simp: isMemoryQueueHead_def)
  have "lowestPositionIndex (sess r ?s) = 0"
    by (rule lowestPositionIndex_sorted [OF slist_ok_sorted [OF queue_inv_sess [OF reachable_inv [OF assms(1)]]]])
  then have q: "qm_ID q = x" using k(2) rows by (simp add: isMemoryQueueHead_def)
  then have "k = 0" using k(1) rows by simp
  then have "sess r' ?s = rest" by (simp add: r' rows remove_nth_def)
  moreover have "reachable r'"
    using reachable_step [OF assms(1) step_run_managed [of _ r e i x t u]] assms(2) by simp
  moreover have "gm_get (r_managedInputs r') (i, x) = Some m'" by (simp add: r')
  ultimately show ?thesis using res m rows q m' assms(1) by (simp add: list_reachable)
qed

theorem start_input_exact_witness:
  "\<exists>m' r'. MarkManagedInputRunning ex_env ex_identity ''m1'' ''turn'' ''exec'' ex_admitted = (Inr (m', True), r') \<and>
     ListBySession ''s'' r' = []"
proof -
  have "map_sum (\<lambda>_. ()) snd (fst (MarkManagedInputRunning ex_env ex_identity ''m1'' ''turn'' ''exec'' ex_admitted)) = Inr True"
    by code_simp
  then obtain m' r' where run: "MarkManagedInputRunning ex_env ex_identity ''m1'' ''turn'' ''exec'' ex_admitted = (Inr (m', True), r')"
    by (cases "MarkManagedInputRunning ex_env ex_identity ''m1'' ''turn'' ''exec'' ex_admitted") (auto simp: map_sum_def split: sum.splits)
  have "map qm_ID (ListBySession ''s'' ex_admitted) = [''m1'']" by code_simp
  with start_input_exact [OF reachable_ex_admitted run] run show ?thesis by (auto simp: ex_identity_def)
qed


lemma insert_managed:
  assumes "insertLocked e (managedInputQueueMessage e i rq) n r = (Inr msg, r1)"
  shows "sess r1 (si_SessionID i) = sess r (si_SessionID i) @ [msg]" "qm_ID msg = (if rq_ID rq = [] then e_uuid e 0 else rq_ID rq)"
    "qm_Content msg = rq_Payload rq" "r_managedInputs r1 = r_managedInputs r"
    "0 < n \<Longrightarrow> int (length (sess r (si_SessionID i))) < n"
  using assms
  by (auto simp: insertLocked_def managedInputQueueMessage_def fill_identity_def put_entries_def put_next_def Let_def
      split: if_splits)

lemma supersede_rows:
  assumes "supersede_input e i rq n old (managedInputQueueMessage e i rq) r = (Inr msg, r1)"
  obtains k r0 where "find_index (\<lambda>q. qm_ID q = mr_ID old) (sess r (si_SessionID i)) = Some k"
    and "insertLocked e (managedInputQueueMessage e i rq) n
           (put_entries (si_SessionID i) (remove_nth k (sess r (si_SessionID i))) r) = (Inr msg, r0)"
    and "sess r1 (si_SessionID i) = sess r0 (si_SessionID i)"
  using assms
  by (auto simp: supersede_input_def replacementIndexForID_def Let_def split: option.splits prod.splits sum.splits)

lemma record_frame:
  assumes "record_input mfp fp i rq msg r = (Inr (m, False), r')"
  shows "sess r' s = sess r s" "gm_get (r_managedInputs r') (i, rq_ID rq) = Some m"
    "mr_State m = ManagedInputStateAccepted" "mr_Sequence m = nextManagedInputSequenceLocked i r"
    "x \<noteq> rq_ID rq \<Longrightarrow> gm_get (r_managedInputs r') (i, x) = gm_get (r_managedInputs r) (i, x)"
  using record_input_spec [OF assms] by (auto simp: managedInputReceiptFromRequest_def)

text \<open>
  Admitting an input.  A newly admitted input is recorded as accepted, with a sequence number above
  all of its conversation, and its row is the last of the queue.  If it coalesces with a pending
  periodic input, that input's row leaves the queue and its receipt is superseded by the new one;
  otherwise all earlier rows stay.  The queue's capacity is respected.
\<close>

theorem admit_input_exact:
  assumes "reachable r" and "AdmitManagedInput mfp fp e i rq n r = (Inr (m, False), r')"
  shows "mr_State m = ManagedInputStateAccepted \<and> gm_get (r_managedInputs r') (i, rq_ID rq) = Some m \<and>
    (\<forall>m0\<in>set (scoped i r). mr_Sequence m0 < mr_Sequence m) \<and>
    (\<exists>rows q. ListBySession (si_SessionID i) r' = rows @ [q] \<and> qm_ID q = rq_ID rq \<and> qm_Content q = rq_Payload rq \<and>
       (0 < n \<longrightarrow> int (length rows) < n) \<and>
       (rows = ListBySession (si_SessionID i) r \<or>
        (\<exists>k old now. k < length (ListBySession (si_SessionID i) r) \<and> rows = remove_nth k (ListBySession (si_SessionID i) r) \<and>
           qm_ID (ListBySession (si_SessionID i) r ! k) = mr_ID old \<and>
           gm_get (r_managedInputs r) (i, mr_ID old) = Some old \<and> mr_State old = ManagedInputStateAccepted \<and>
           mr_CoalesceKey old = rq_CoalesceKey rq \<and>
           gm_get (r_managedInputs r') (i, mr_ID old) = Some (superseded (rq_ID rq) now old))))"
proof -
  let ?s = "si_SessionID i" and ?msg = "managedInputQueueMessage e i rq"
  have inv: "managed_inv r" using managed_reachable [OF assms(1)] .
  have "reachable r'" using reachable_step [OF assms(1) step_admit_managed] assms(2) by (metis snd_conv)
  note list = list_reachable [OF assms(1), of ?s] list_reachable [OF \<open>reachable r'\<close>, of ?s]
  have valid: "rq_ID rq \<noteq> []"
    using assms(2) by (auto simp: AdmitManagedInput_def validateManagedInputRequest_def split: option.splits if_splits)
  from assms(2) show ?thesis
  proof (cases rule: admitE)
    case (fresh msg r1)
    note ins = insert_managed [OF fresh(3)] and rec = record_frame [OF fresh(4)]
    have "mr_Sequence m0 < mr_Sequence m" if "m0 \<in> set (scoped i r)" for m0
      using next_sequence(1) [of m0 i r1] that by (simp add: rec(4) ins(4))
    then show ?thesis using ins rec valid list by simp
  next
    case (replaced old msg r1)
    note old = pending_spec [OF inv replaced(3)] and rec = record_frame [OF replaced(5)]
    note sup = supersede_spec [OF conjunct1 [OF old] replaced(4)]
    obtain k r0 where k: "find_index (\<lambda>q. qm_ID q = mr_ID old) (sess r ?s) = Some k"
      and ins0: "insertLocked e ?msg n (put_entries ?s (remove_nth k (sess r ?s)) r) = (Inr msg, r0)"
      and r1: "sess r1 ?s = sess r0 ?s" by (rule supersede_rows [OF replaced(4)])
    note ins = insert_managed [OF ins0]
    have new: "mr_ID old \<noteq> rq_ID rq"
      using replaced(2) old by (auto simp: input_exists_iff gm_has_def)
    have wf1: "gm_wf (r_managedInputs r1)" using sup managed_invD(1) [OF inv] by simp
    have "mr_Sequence m0 < mr_Sequence m" if m0: "m0 \<in> set (scoped i r)" for m0
    proof -
      obtain x where "gm_get (r_managedInputs r) (i, x) = Some m0"
        using m0 scoped_iff [OF managed_invD(1) [OF inv]] by blast
      then obtain m1 where "gm_get (r_managedInputs r1) (i, x) = Some m1" "mr_Sequence m1 = mr_Sequence m0"
        using sup old by (cases "x = mr_ID old") (auto simp: superseded_def)
      then show ?thesis using next_sequence(1) [of m1 i r1] scoped_iff [OF wf1] rec(4) by metis
    qed
    moreover have "gm_get (r_managedInputs r') (i, mr_ID old) = Some (superseded (rq_ID rq) (qm_QueuedAt msg) old)"
      using rec(5) [OF new] sup by simp
    ultimately show ?thesis
      using ins rec valid list r1 old find_index_SomeD [OF k] by (auto simp: replaceable_def)
  qed simp_all
qed

theorem admit_input_exact_witness:
  "\<exists>m r' rows q. ex_admit ''m2'' ex_admitted = (Inr (m, False), r') \<and> ListBySession ''s'' r' = rows @ [q] \<and>
     qm_ID q = ''m2''"
proof -
  have "map_sum (\<lambda>_. ()) snd (fst (ex_admit ''m2'' ex_admitted)) = Inr False" by code_simp
  then obtain m r' where run: "ex_admit ''m2'' ex_admitted = (Inr (m, False), r')"
    by (cases "ex_admit ''m2'' ex_admitted") (auto simp: map_sum_def split: sum.splits)
  have "si_SessionID ex_identity = ''s''" "rq_ID (ex_request ''m2'') = ''m2''" by (simp_all add: ex_identity_def ex_request_def)
  with admit_input_exact [OF reachable_ex_admitted run] run show ?thesis by auto
qed

text \<open>
  Refused operations on managed inputs change nothing.  Whenever admission, cancellation, start or
  settlement returns an error, the repository is as it was, also when an admission had already
  taken the row it was going to replace out of the queue.
\<close>

theorem managed_failures_change_nothing:
  "(fst (AdmitManagedInput mfp fp e i rq n r) = Inl err \<longrightarrow> snd (AdmitManagedInput mfp fp e i rq n r) = r) \<and>
   (fst (CancelManagedInput e i x r) = Inl err \<longrightarrow> snd (CancelManagedInput e i x r) = r) \<and>
   (fst (MarkManagedInputRunning e i x t u r) = Inl err \<longrightarrow> snd (MarkManagedInputRunning e i x t u r) = r) \<and>
   (fst (SettleManagedInput e i x t u st out r) = Inl err \<longrightarrow> snd (SettleManagedInput e i x t u st out r) = r)"
proof (intro conjI impI)
  assume err: "fst (AdmitManagedInput mfp fp e i rq n r) = Inl err"
  obtain y r' where run: "AdmitManagedInput mfp fp e i rq n r = (y, r')" by fastforce
  then have "y = Inl err" using err by simp
  with run have "r' = r" by (cases rule: admitE) (auto dest!: record_input_spec)
  then show "snd (AdmitManagedInput mfp fp e i rq n r) = r" using run by simp
qed (auto simp: CancelManagedInput_def MarkManagedInputRunning_def SettleManagedInput_def with_receipt_def
    with_valid_identity_def Let_def split: option.splits if_splits)

theorem managed_failures_change_nothing_witness:
  "MarkManagedInputRunning ex_env ex_identity ''m1'' ''turn2'' ''exec2'' ex_running = (Inl ErrManagedInputTransition, ex_running)"
proof -
  have "fst (MarkManagedInputRunning ex_env ex_identity ''m1'' ''turn2'' ''exec2'' ex_running) = Inl ErrManagedInputTransition"
    by code_simp
  with managed_failures_change_nothing [of _ _ ex_env ex_identity _ _ ex_running ErrManagedInputTransition "''m1''" "''turn2''" "''exec2''"]
  show ?thesis by (simp add: prod_eq_iff)
qed

end
