(* ===== verification/Admission_Laws.thy ===== *)
theory Admission_Laws
  imports Managed_Protocol
begin

text \<open>
  Retried admissions.  A caller that does not learn the outcome of an admission repeats it; the
  provider promises that a remembered request is answered from its receipt without touching the
  queue.  The client's lemma is proved once for that interface and holds for both kinds of
  admission.
\<close>

section \<open>The interface\<close>

text \<open>Repeating a request, in the context of one call after the other.\<close>

fun retry :: "('c \<Rightarrow> 'q \<Rightarrow> 's \<Rightarrow> 'x \<times> 's) \<Rightarrow> 'c list \<Rightarrow> 'q \<Rightarrow> 's \<Rightarrow> 'x list \<times> 's" where
  "retry admit [] q s = ([], s)"
| "retry admit (call # calls) q s =
     (case admit call q s of (x, s1) \<Rightarrow> (case retry admit calls q s1 of (xs, s2) \<Rightarrow> (x # xs, s2)))"

locale replayable_admission =
  fixes admit :: "'c \<Rightarrow> 'q \<Rightarrow> 's \<Rightarrow> ('e + 'a \<times> bool) \<times> 's"
    and remembered :: "'q \<Rightarrow> 'a \<Rightarrow> 's \<Rightarrow> bool"
  assumes replay: "remembered q a s \<Longrightarrow> admit call q s = (Inr (a, True), s)"
begin
lemma retries: "remembered q a s \<Longrightarrow> retry admit calls q s = (replicate (length calls) (Inr (a, True)), s)"
  by (induction calls) (simp_all add: replay)

end

section \<open>Queue admissions\<close>

type_synonym queue_call = "env \<times> QueueAttachmentClaim option \<times> int \<times> AutoMergePolicy option"
type_synonym queue_request = "QueueSessionIdentity \<times> string \<times> QueuedMessage"

definition admit_queue ::
  "codec \<Rightarrow> digest \<Rightarrow> queue_call \<Rightarrow> queue_request \<Rightarrow> repo \<Rightarrow> (qerror + QueuedMessage \<times> bool) \<times> repo" where
  "admit_queue c fp call q r =
     (case call of (e, claim, n, po) \<Rightarrow> case q of (i, x, m) \<Rightarrow> AdmitQueueMessage c fp e i x (Some m) claim n po None r)"

definition queue_remembered :: "digest \<Rightarrow> queue_request \<Rightarrow> QueuedMessage \<Rightarrow> repo \<Rightarrow> bool" where
  "queue_remembered fp q a r \<longleftrightarrow> (case q of (i, x, m) \<Rightarrow>
     validateQueueAdmissionInput i x (Some m) = None \<and> gm_get (r_identities r) (si_SessionID i) = Some i \<and>
     gm_get (r_admissionReceipts r) (admission_key i x) =
       Some \<lparr>ar_Fingerprint = queueAdmissionFingerprint fp i m None, ar_Message = a\<rparr>)"

lemma valid_identity: "validateQueueAdmissionInput i x mo = None \<Longrightarrow> \<not> incomplete_identity i"
  by (auto simp: validateQueueAdmissionInput_def)

interpretation queue_admission: replayable_admission "admit_queue c fp" "queue_remembered fp" for c fp
proof unfold_locales
  fix q a r and call :: queue_call
  assume rem: "queue_remembered fp q a r"
  obtain i x m where q: "q = (i, x, m)" by (cases q)
  obtain e claim n po where call: "call = (e, claim, n, po)" by (cases call)
  have valid: "validateQueueAdmissionInput i x (Some m) = None" "gm_get (r_identities r) (si_SessionID i) = Some i"
    using rem by (simp_all add: queue_remembered_def q)
  show "admit_queue c fp call q r = (Inr (a, True), r)"
    using rem by (simp add: admit_queue_def queue_remembered_def q call AdmitQueueMessage_def valid
        with_identity_bound [OF valid(2) valid_identity [OF valid(1)]] replayAdmissionLocked_def Let_def)
qed

lemma bind_bound: "bindIdentityLocked i r = (Inr (), r') \<Longrightarrow> gm_get (r_identities r') (si_SessionID i) = Some i"
  by (auto simp: bindIdentityLocked_def split: if_splits option.splits)

lemma admission_identities:
  "insertLocked e m n r = (x, r') \<Longrightarrow> r_identities r' = r_identities r"
  "mergeInsertedAdmissionLocked c s m po r = (y, r') \<Longrightarrow> r_identities r' = r_identities r"
  "autoMergeCandidateIntoAboveLocked c m r = (z, r') \<Longrightarrow> r_identities r' = r_identities r"
  by (auto simp: insertLocked_def mergeInsertedAdmissionLocked_def autoMergeIntoAboveLocked_def
      autoMergeCandidateIntoAboveLocked_def put_entries_def put_next_def Let_def
      split: if_splits option.splits prod.splits bool.splits)

lemma remember_spec:
  "rememberAdmissionLocked key fpr m r = (Inr (a, dup), r') \<Longrightarrow>
   \<not> dup \<and> gm_get (r_admissionReceipts r') key = Some \<lparr>ar_Fingerprint = fpr, ar_Message = queueAdmissionResponseSnapshot a\<rparr> \<and>
   r_identities r' = r_identities r"
  by (auto simp: rememberAdmissionLocked_def)

lemma admit_new_spec:
  assumes "admitNewAdmissionLocked c e i key fpr m claim n po r = (Inr (a, dup), r')"
  shows "\<not> dup \<and> gm_get (r_admissionReceipts r') key = Some \<lparr>ar_Fingerprint = fpr, ar_Message = queueAdmissionResponseSnapshot a\<rparr> \<and>
   r_identities r' = r_identities r"
proof -
  let ?m = "if IsZero (qm_QueuedAt m) then m\<lparr>qm_QueuedAt := e_now e\<rparr> else m"
  obtain r0 m0 where "rememberAdmissionLocked key fpr m0 r0 = (Inr (a, dup), r')" "r_identities r0 = r_identities r"
    using assms unfolding admitNewAdmissionLocked_def admitFullAdmissionLocked_def Let_def
    by (auto dest!: admission_identities split: if_splits prod.splits sum.splits option.splits bool.splits)
  with remember_spec [OF this(1)] show ?thesis by simp
qed

lemma admitted_remembered:
  assumes "AdmitQueueMessage c fp e i x (Some m) claim n po None r = (Inr (a, False), r1)"
  shows "queue_remembered fp (i, x, m) (queueAdmissionResponseSnapshot a) r1"
proof -
  have valid: "validateQueueAdmissionInput i x (Some m) = None"
    using assms by (auto simp: AdmitQueueMessage_def split: option.splits)
  obtain rb where bind: "bindIdentityLocked i r = (Inr (), rb)"
    using assms by (auto simp: AdmitQueueMessage_def valid with_identity_def Let_def split: prod.splits sum.splits)
  have "admitNewAdmissionLocked c e i (admission_key i x) (queueAdmissionFingerprint fp i m None)
      (m\<lparr>qm_ID := x\<rparr>) claim n po rb = (Inr (a, False), r1)"
    using assms by (auto simp: AdmitQueueMessage_def valid with_identity_def bind Let_def replayAdmissionLocked_def
        split: option.splits if_splits)
  from admit_new_spec [OF this] bind_bound [OF bind] valid show ?thesis by (simp add: queue_remembered_def)
qed

text \<open>
  A retried admission queues nothing.  After a message was admitted under a client's identifier,
  repeating the admission any number of times, with any limits, policy and attachment claims, returns
  the recorded answer every time and leaves the repository as it is.
\<close>

theorem retried_admissions:
  assumes "AdmitQueueMessage c fp e i x (Some m) claim n po None r = (Inr (a, False), r1)"
  shows "retry (admit_queue c fp) calls (i, x, m) r1 =
         (replicate (length calls) (Inr (queueAdmissionResponseSnapshot a, True)), r1)"
  by (rule queue_admission.retries [OF admitted_remembered [OF assms]])


definition ex_text_digest :: digest where
  "ex_text_digest = (\<lambda>f. fi_Content f)"

abbreviation ex_admit_queue :: "string \<Rightarrow> repo \<Rightarrow> (QueuedMessage \<times> bool) result" where
  "ex_admit_queue text \<equiv> AdmitQueueMessage ex_codec ex_text_digest ex_env ex_identity ''c1''
     (Some (ex_msg [] text)) None 1 None None"

definition ex_queued :: repo where
  "ex_queued = snd (ex_admit_queue ''hello'' ex_session)"

theorem retried_admissions_witness:
  "\<exists>a. ex_admit_queue ''hello'' ex_session = (Inr (a, False), ex_queued) \<and>
     retry (admit_queue ex_codec ex_text_digest) [(ex_later, None, 0, None), (ex_env, None, 1, None)]
       (ex_identity, ''c1'', ex_msg [] ''hello'') ex_queued =
     ([Inr (queueAdmissionResponseSnapshot a, True), Inr (queueAdmissionResponseSnapshot a, True)], ex_queued)"
proof -
  have "map_sum (\<lambda>_. ()) snd (fst (ex_admit_queue ''hello'' ex_session)) = Inr False" by code_simp
  then obtain a where a: "ex_admit_queue ''hello'' ex_session = (Inr (a, False), ex_queued)"
    by (cases "ex_admit_queue ''hello'' ex_session") (auto simp: ex_queued_def map_sum_def split: sum.splits)
  show ?thesis
    using a retried_admissions [OF a, of "[(ex_later, None, 0, None), (ex_env, None, 1, None)]"]
    by (auto simp: numeral_2_eq_2)
qed

text \<open>
  C39: a conflicting replay after delivery is admitted.  Once the row of an admission has left the
  queue, the in-memory repository accepts a different message under the same client identifier and
  overwrites the receipt, although looking the admission up reports the conflict.
\<close>

theorem conflicting_replay_admitted:
  assumes "gm_get (r_identities r) (si_SessionID i) = Some i" and "validateQueueAdmissionInput i x (Some m) = None"
    and "gm_get (r_admissionReceipts r) (admission_key i x) = Some receipt"
    and "ar_Fingerprint receipt \<noteq> queueAdmissionFingerprint fp i m None"
    and "\<not> queueIDExistsLocked x r" and "int (CountBySession (si_SessionID i) r) < n"
  shows "fst (LookupQueueAdmission fp i x (Some m) r) = Inl ErrQueueIDConflict \<and>
    (\<exists>a r'. AdmitQueueMessage c fp e i x (Some m) None n None None r = (Inr (a, False), r') \<and> qm_ID a = x \<and>
       gm_get (r_admissionReceipts r') (admission_key i x) =
         Some \<lparr>ar_Fingerprint = queueAdmissionFingerprint fp i m None, ar_Message = queueAdmissionResponseSnapshot a\<rparr>)"
proof -
  note bound = with_identity_bound [OF assms(1) valid_identity [OF assms(2)]]
  let ?m = "m\<lparr>qm_ID := x\<rparr>"
  have x: "x \<noteq> []" and s: "qm_SessionID m = si_SessionID i"
    using assms(2) by (auto simp: validateQueueAdmissionInput_def split: if_splits)
  have "\<exists>a r'. admitNewAdmissionLocked c e i (admission_key i x) (queueAdmissionFingerprint fp i m None) ?m None n None r =
      (Inr (a, False), r') \<and> qm_ID a = x"
    using assms(6) x s
    by (auto simp: admitNewAdmissionLocked_def insertLocked_def mergeInsertedAdmissionLocked_def
        rememberAdmissionLocked_def fill_identity_def CountBySession_def Let_def)
  then obtain a r' where new: "admitNewAdmissionLocked c e i (admission_key i x) (queueAdmissionFingerprint fp i m None) ?m
      None n None r = (Inr (a, False), r')" and a: "qm_ID a = x" by blast
  have "AdmitQueueMessage c fp e i x (Some m) None n None None r = (Inr (a, False), r')"
    using assms(3-5) new by (simp add: AdmitQueueMessage_def assms(2) bound replayAdmissionLocked_def Let_def)
  moreover have "fst (LookupQueueAdmission fp i x (Some m) r) = Inl ErrQueueIDConflict"
    using assms(3,4) by (simp add: LookupQueueAdmission_def assms(2) bound replayAdmissionLocked_def)
  ultimately show ?thesis using admit_new_spec [OF new] a by auto
qed

theorem conflicting_replay_admitted_witness:
  "\<exists>a r'. ex_admit_queue ''other'' (snd (TakeHead ''s'' ex_queued)) = (Inr (a, False), r')"
proof -
  let ?r = "snd (TakeHead ''s'' ex_queued)"
  have s: "si_SessionID ex_identity = ''s''" by (simp add: ex_identity_def)
  have 1: "gm_get (r_identities ?r) (si_SessionID ex_identity) = Some ex_identity" by code_simp
  have 2: "validateQueueAdmissionInput ex_identity ''c1'' (Some (ex_msg [] ''other'')) = None" by code_simp
  have "map_option ar_Fingerprint (gm_get (r_admissionReceipts ?r) (admission_key ex_identity ''c1'')) = Some ''hello''"
    by code_simp
  then obtain receipt where 3: "gm_get (r_admissionReceipts ?r) (admission_key ex_identity ''c1'') = Some receipt"
    "ar_Fingerprint receipt = ''hello''" by blast
  then have 4: "ar_Fingerprint receipt \<noteq> queueAdmissionFingerprint ex_text_digest ex_identity (ex_msg [] ''other'') None"
    by (simp add: queueAdmissionFingerprint_def ex_text_digest_def ex_msg_def)
  have 5: "\<not> queueIDExistsLocked ''c1'' ?r" "int (CountBySession (si_SessionID ex_identity) ?r) < 1" by code_simp+
  from conflicting_replay_admitted [OF 1 2 3(1) 4 5, of ex_codec ex_env] show ?thesis by blast
qed

section \<open>Managed inputs\<close>

type_synonym managed_call = "digest \<times> env \<times> int"
type_synonym managed_request = "QueueSessionIdentity \<times> ManagedInputRequest"

definition admit_managed ::
  "request_digest \<Rightarrow> managed_call \<Rightarrow> managed_request \<Rightarrow> repo \<Rightarrow> (qerror + ManagedInputReceipt \<times> bool) \<times> repo" where
  "admit_managed mfp call q r =
     (case call of (fp, e, n) \<Rightarrow> case q of (i, rq) \<Rightarrow> AdmitManagedInput mfp fp e i rq n r)"

definition managed_remembered :: "request_digest \<Rightarrow> managed_request \<Rightarrow> ManagedInputReceipt \<Rightarrow> repo \<Rightarrow> bool" where
  "managed_remembered mfp q m r \<longleftrightarrow> (case q of (i, rq) \<Rightarrow>
     validateManagedInputRequest i rq = None \<and> validateIdentityLocked i r = None \<and>
     mr_fingerprint m = managedInputFingerprint mfp i rq \<and>
     (\<exists>key. gm_get (r_managedOccurrences r) (i, rq_OccurrenceKey rq) = Some key \<and>
       gm_get (r_managedInputs r) key = Some m))"

interpretation managed_admission: replayable_admission "admit_managed mfp" "managed_remembered mfp" for mfp
  by unfold_locales (auto simp: admit_managed_def managed_remembered_def AdmitManagedInput_def
      with_valid_identity_def Let_def split: prod.splits)

lemma validated_bound: "validateIdentityLocked i r = None \<longleftrightarrow> \<not> incomplete_identity i \<and> gm_get (r_identities r) (si_SessionID i) = Some i"
  by (auto simp: validateIdentityLocked_def)

lemma managed_admit_identities:
  "r_identities (snd (AdmitManagedInput mfp fp e i rq n r)) = r_identities r"
  by (auto simp: AdmitManagedInput_def with_valid_identity_def record_input_def supersede_input_def insertLocked_def
      put_receipt_def put_entries_def put_next_def Let_def split: option.split)

text \<open>
  A retried managed input queues nothing.  After an input was admitted, repeating the request any
  number of times returns its receipt as a duplicate every time and leaves the repository as it is.
\<close>

theorem retried_managed_inputs:
  assumes "AdmitManagedInput mfp fp e i rq n r = (Inr (m, False), r1)"
  shows "retry (admit_managed mfp) calls (i, rq) r1 = (replicate (length calls) (Inr (m, True)), r1)"
proof (rule managed_admission.retries)
  have "\<exists>r0 msg. record_input mfp fp i rq msg r0 = (Inr (m, False), r1)"
    using assms by (cases rule: admitE) auto
  then obtain r0 msg where "record_input mfp fp i rq msg r0 = (Inr (m, False), r1)" by blast
  note rec = record_input_spec [OF this]
  have "validateManagedInputRequest i rq = None \<and> validateIdentityLocked i r = None"
    using assms by (auto simp: AdmitManagedInput_def with_valid_identity_def split: option.splits)
  moreover have "r_identities r1 = r_identities r"
    using managed_admit_identities [of mfp fp e i rq n r] assms by simp
  ultimately show "managed_remembered mfp (i, rq) m r1"
    using rec by (auto simp: managed_remembered_def validated_bound)
qed

theorem retried_managed_inputs_witness:
  "retry (admit_managed (\<lambda>_ rq. rq_Payload rq)) [(\<lambda>_. ''fp'', ex_later, 5), (\<lambda>_. ''fp'', ex_env, 0)]
     (ex_identity, ex_request ''m1'') ex_admitted = ([Inr (ex_receipt, True), Inr (ex_receipt, True)], ex_admitted)"
proof -
  have "ex_admit ''m1'' ex_session = (Inr (ex_receipt, False), ex_admitted)"
    using ex_admit_fst by (simp add: ex_admitted_def prod_eq_iff)
  from retried_managed_inputs [OF this, of "[(\<lambda>_. ''fp'', ex_later, 5), (\<lambda>_. ''fp'', ex_env, 0)]"]
  show ?thesis by (simp add: numeral_2_eq_2)
qed

end
