(* ===== verification/Workflow_Types.thy ===== *)
theory Workflow_Types
  imports Go_Strings
begin

text \<open>
  The data of the workflow engine (\<open>internal/workflow/engine/types.go\<close>, \<open>payloads.go\<close>,
  \<open>adapters.go\<close> and the step models of \<open>internal/workflow/models\<close>), and the compilation of a
  persisted step into the typed actions the engine runs (\<open>CompileStep\<close>).

  Go's open string types \<open>Trigger\<close> and \<open>ActionKind\<close> are strings with one abbreviation per
  constant.  An \<open>any\<close> value of a configuration is a JSON value; a configuration map that may be
  \<open>nil\<close> is an option, and the forwarded maps, which the code only reads and copies, are Go maps in
  which \<open>nil\<close> and the empty map are the same.
\<close>

named_theorems workflow_defs "definitions of the workflow engine that proofs unfold"

section \<open>Triggers, kinds of action and values\<close>

type_synonym Trigger = string

abbreviation TriggerOnEnter :: Trigger where "TriggerOnEnter \<equiv> ''on_enter''"
abbreviation TriggerOnTurnStart :: Trigger where "TriggerOnTurnStart \<equiv> ''on_turn_start''"
abbreviation TriggerOnTurnComplete :: Trigger where "TriggerOnTurnComplete \<equiv> ''on_turn_complete''"
abbreviation TriggerOnExit :: Trigger where "TriggerOnExit \<equiv> ''on_exit''"
abbreviation TriggerOnComment :: Trigger where "TriggerOnComment \<equiv> ''on_comment''"
abbreviation TriggerOnBlockerResolved :: Trigger where "TriggerOnBlockerResolved \<equiv> ''on_blocker_resolved''"
abbreviation TriggerOnChildrenCompleted :: Trigger where "TriggerOnChildrenCompleted \<equiv> ''on_children_completed''"
abbreviation TriggerOnApprovalResolved :: Trigger where "TriggerOnApprovalResolved \<equiv> ''on_approval_resolved''"
abbreviation TriggerOnHeartbeat :: Trigger where "TriggerOnHeartbeat \<equiv> ''on_heartbeat''"
abbreviation TriggerOnBudgetAlert :: Trigger where "TriggerOnBudgetAlert \<equiv> ''on_budget_alert''"
abbreviation TriggerOnAgentError :: Trigger where "TriggerOnAgentError \<equiv> ''on_agent_error''"
abbreviation TriggerOnPRMerged :: Trigger where "TriggerOnPRMerged \<equiv> ''on_pr_merged''"
abbreviation TriggerOnPRClosed :: Trigger where "TriggerOnPRClosed \<equiv> ''on_pr_closed''"

type_synonym ActionKind = string

abbreviation ActionMoveToNext :: ActionKind where "ActionMoveToNext \<equiv> ''move_to_next''"
abbreviation ActionMoveToPrevious :: ActionKind where "ActionMoveToPrevious \<equiv> ''move_to_previous''"
abbreviation ActionMoveToStep :: ActionKind where "ActionMoveToStep \<equiv> ''move_to_step''"
abbreviation ActionEnablePlanMode :: ActionKind where "ActionEnablePlanMode \<equiv> ''enable_plan_mode''"
abbreviation ActionDisablePlanMode :: ActionKind where "ActionDisablePlanMode \<equiv> ''disable_plan_mode''"
abbreviation ActionAutoStartAgent :: ActionKind where "ActionAutoStartAgent \<equiv> ''auto_start_agent''"
abbreviation ActionResetAgentContext :: ActionKind where "ActionResetAgentContext \<equiv> ''reset_agent_context''"
abbreviation ActionSetWorkflowData :: ActionKind where "ActionSetWorkflowData \<equiv> ''set_workflow_data''"
abbreviation ActionSetSessionMode :: ActionKind where "ActionSetSessionMode \<equiv> ''set_session_mode''"
abbreviation ActionRunCodeReview :: ActionKind where "ActionRunCodeReview \<equiv> ''run_code_review''"
abbreviation ActionQueueRun :: ActionKind where "ActionQueueRun \<equiv> ''queue_run''"
abbreviation ActionClearDecisions :: ActionKind where "ActionClearDecisions \<equiv> ''clear_decisions''"
abbreviation ActionQueueRunForEachParticipant :: ActionKind where
  "ActionQueueRunForEachParticipant \<equiv> ''queue_run_for_each_participant''"
abbreviation ActionEnsureParticipantSeat :: ActionKind where
  "ActionEnsureParticipantSeat \<equiv> ''ensure_participant_seat''"
abbreviation ActionCreateChildTask :: ActionKind where "ActionCreateChildTask \<equiv> ''create_child_task''"
abbreviation ActionSwitchWorkflow :: ActionKind where "ActionSwitchWorkflow \<equiv> ''switch_workflow''"

datatype gany = GNull | GBool bool | GNum rat | GStr string | GList "gany list" | GMap "(string \<times> gany) list"

type_synonym data = "(string, gany) gomap"
type_synonym config = "data option"

text \<open>The type assertions \<open>v, _ := m[k].(T)\<close>, with the zero value when the key is missing or of another type.\<close>

definition map_string :: "data \<Rightarrow> string \<Rightarrow> string" where
  "map_string m k = (case gm_get m k of Some (GStr s) \<Rightarrow> s | _ \<Rightarrow> [])"

definition map_bool :: "data \<Rightarrow> string \<Rightarrow> bool" where
  "map_bool m k = (case gm_get m k of Some (GBool b) \<Rightarrow> b | _ \<Rightarrow> False)"

definition map_map :: "data \<Rightarrow> string \<Rightarrow> data option" where
  "map_map m k = (case gm_get m k of Some (GMap d) \<Rightarrow> Some d | _ \<Rightarrow> None)"

section \<open>Actions\<close>

record WaitForQuorumGuard =
  wq_Role :: string
  wq_Threshold :: string

record TransitionGuard =
  tg_WaitForQuorum :: "WaitForQuorumGuard option"

record MoveToStepAction =
  ms_StepID :: string

record AutoStartAgentAction =
  as_PromptOverride :: "string option"
  as_QueueIfBusy :: bool

record SetWorkflowDataAction =
  sd_Key :: string
  sd_Value :: gany

record SetSessionModeAction =
  sm_Mode :: string

record RunCodeReviewAction =
  rc_AgentProfileID :: string

record QueueRunAction =
  qr_Target :: string
  qr_TaskID :: string
  qr_Reason :: string
  qr_Payload :: data

datatype ClearDecisionsAction = ClearDecisionsAction

record QueueRunForEachParticipantAction =
  fp_Role :: string
  fp_Reason :: string
  fp_Payload :: data
  fp_SkipDecided :: bool

record EnsureParticipantSeatAction =
  es_Role :: string

record CreateChildTaskAction =
  cc_Title :: string
  cc_Description :: string
  cc_WorkflowID :: string
  cc_StepID :: string
  cc_AgentProfileID :: string

record SwitchWorkflowAction =
  sw_WorkflowID :: string
  sw_StepID :: string

record Action =
  a_Kind :: ActionKind
  a_RequiresApproval :: bool
  a_DeclaredPosition :: nat
  a_Guard :: "TransitionGuard option"
  a_MoveToStep :: "MoveToStepAction option"
  a_AutoStartAgent :: "AutoStartAgentAction option"
  a_SetWorkflowData :: "SetWorkflowDataAction option"
  a_SetSessionMode :: "SetSessionModeAction option"
  a_RunCodeReview :: "RunCodeReviewAction option"
  a_QueueRun :: "QueueRunAction option"
  a_ClearDecisions :: "ClearDecisionsAction option"
  a_QueueRunForEachParticipant :: "QueueRunForEachParticipantAction option"
  a_CreateChildTask :: "CreateChildTaskAction option"
  a_SwitchWorkflow :: "SwitchWorkflowAction option"
  a_EnsureParticipantSeat :: "EnsureParticipantSeatAction option"

text \<open>\<open>Action{Kind: k}\<close>: every other field has its zero value.\<close>

definition action :: "ActionKind \<Rightarrow> Action" where
  "action k = \<lparr>a_Kind = k, a_RequiresApproval = False, a_DeclaredPosition = 0, a_Guard = None, a_MoveToStep = None,
     a_AutoStartAgent = None, a_SetWorkflowData = None, a_SetSessionMode = None, a_RunCodeReview = None, a_QueueRun = None,
     a_ClearDecisions = None, a_QueueRunForEachParticipant = None, a_CreateChildTask = None, a_SwitchWorkflow = None,
     a_EnsureParticipantSeat = None\<rparr>"

record StepSpec =
  ss_ID :: string
  ss_WorkflowID :: string
  ss_Name :: string
  ss_Position :: int
  ss_Prompt :: string
  ss_Events :: "(Trigger, Action list) gomap"

definition step_actions :: "StepSpec \<Rightarrow> Trigger \<Rightarrow> Action list" where
  "step_actions s t = gm_get0 [] (ss_Events s) t"

definition isTransitionAction :: "ActionKind \<Rightarrow> bool" where
  "isTransitionAction k \<longleftrightarrow> k = ActionMoveToNext \<or> k = ActionMoveToPrevious \<or> k = ActionMoveToStep"

definition ValidParticipantRole :: "string \<Rightarrow> bool" where
  "ValidParticipantRole role \<longleftrightarrow> role \<in> {''reviewer'', ''approver'', ''watcher'', ''collaborator''}"

definition ValidStageType :: "string \<Rightarrow> bool" where
  "ValidStageType stage \<longleftrightarrow> stage \<in> {''work'', ''review'', ''approval'', ''custom'', ''hold''}"

definition ValidWorkflowStyle :: "string \<Rightarrow> bool" where
  "ValidWorkflowStyle style \<longleftrightarrow> style \<in> {''kanban'', ''office'', ''custom''}"

section \<open>Persisted steps\<close>

text \<open>
  The four typed action records of the models (\<open>OnEnterAction\<close>, \<open>OnTurnStartAction\<close>,
  \<open>OnTurnCompleteAction\<close>, \<open>OnExitAction\<close>) and \<open>GenericAction\<close> have the same two fields; their
  types are open strings, so an unknown type can be persisted.
\<close>

record GenericAction =
  ga_Type :: string
  ga_Config :: config

record StepEvents =
  OnEnter :: "GenericAction list"
  OnTurnStart :: "GenericAction list"
  OnTurnComplete :: "GenericAction list"
  OnExit :: "GenericAction list"
  OnComment :: "GenericAction list"
  OnBlockerResolved :: "GenericAction list"
  OnChildrenCompleted :: "GenericAction list"
  OnApprovalResolved :: "GenericAction list"
  OnHeartbeat :: "GenericAction list"
  OnBudgetAlert :: "GenericAction list"
  OnAgentError :: "GenericAction list"
  OnPRMerged :: "GenericAction list"
  OnPRClosed :: "GenericAction list"

text \<open>The fields of a persisted step that the engine, the step selectors and the participant store read.\<close>

record WorkflowStep =
  ws_ID :: string
  ws_WorkflowID :: string
  ws_Name :: string
  ws_Position :: int
  ws_Prompt :: string
  ws_Events :: StepEvents
  ws_IsStartStep :: bool
  ws_AgentProfileID :: string

definition HasOnEnterAction :: "WorkflowStep \<Rightarrow> string \<Rightarrow> bool" where
  "HasOnEnterAction s t \<longleftrightarrow> list_ex (\<lambda>a. ga_Type a = t) (OnEnter (ws_Events s))"

definition HasOnTurnStartAction :: "WorkflowStep \<Rightarrow> bool" where
  "HasOnTurnStartAction s \<longleftrightarrow> 0 < length (OnTurnStart (ws_Events s))"

definition HasOnTurnCompleteAction :: "WorkflowStep \<Rightarrow> string \<Rightarrow> bool" where
  "HasOnTurnCompleteAction s t \<longleftrightarrow> list_ex (\<lambda>a. ga_Type a = t) (OnTurnComplete (ws_Events s))"

text \<open>The loops keep the best step so far; a \<open>nil\<close> entry of the slice is \<open>None\<close>.\<close>

fun select_auto_start :: "WorkflowStep option list \<Rightarrow> WorkflowStep option \<Rightarrow> WorkflowStep option" where
  "select_auto_start [] best = best"
| "select_auto_start (None # steps) best = select_auto_start steps best"
| "select_auto_start (Some s # steps) best =
     (if \<not> HasOnEnterAction s ''auto_start_agent'' then select_auto_start steps best
      else if (case best of None \<Rightarrow> True | Some b \<Rightarrow> ws_Position s < ws_Position b)
      then select_auto_start steps (Some s) else select_auto_start steps best)"

definition SelectAutoStartStep :: "WorkflowStep option list \<Rightarrow> WorkflowStep option" where
  "SelectAutoStartStep steps = select_auto_start steps None"

fun select_start :: "WorkflowStep option list \<Rightarrow> WorkflowStep option \<Rightarrow> WorkflowStep option" where
  "select_start [] first = first"
| "select_start (None # steps) first = select_start steps first"
| "select_start (Some s # steps) first =
     (if ws_IsStartStep s then Some s
      else if (case first of None \<Rightarrow> True | Some b \<Rightarrow> ws_Position s < ws_Position b)
      then select_start steps (Some s) else select_start steps first)"

definition SelectStartStep :: "WorkflowStep option list \<Rightarrow> WorkflowStep option" where
  "SelectStartStep steps = select_start steps None"

section \<open>Compiling a step\<close>

definition readQueueRunConfig :: "config \<Rightarrow> QueueRunAction" where
  "readQueueRunConfig cfg = (case cfg of
       None \<Rightarrow> \<lparr>qr_Target = ''primary'', qr_TaskID = ''this'', qr_Reason = [], qr_Payload = []\<rparr>
     | Some m \<Rightarrow>
         \<lparr>qr_Target = (let target = map_string m ''target'' in if target = [] then ''primary'' else target),
          qr_TaskID = (let taskID = map_string m ''task_id'' in if taskID = [] then ''this'' else taskID),
          qr_Reason = map_string m ''reason'',
          qr_Payload = (case map_map m ''payload'' of None \<Rightarrow> [] | Some p \<Rightarrow> p)\<rparr>)"

definition readQueueRunForEachParticipantConfig :: "config \<Rightarrow> QueueRunForEachParticipantAction" where
  "readQueueRunForEachParticipantConfig cfg = (case cfg of
       None \<Rightarrow> \<lparr>fp_Role = [], fp_Reason = [], fp_Payload = [], fp_SkipDecided = False\<rparr>
     | Some m \<Rightarrow>
         \<lparr>fp_Role = map_string m ''role'', fp_Reason = map_string m ''reason'',
          fp_Payload = (case map_map m ''payload'' of None \<Rightarrow> [] | Some p \<Rightarrow> p),
          fp_SkipDecided = map_bool m ''skip_decided''\<rparr>)"

definition readEnsureParticipantSeatConfig :: "config \<Rightarrow> EnsureParticipantSeatAction" where
  "readEnsureParticipantSeatConfig cfg = (case cfg of
     None \<Rightarrow> \<lparr>es_Role = []\<rparr> | Some m \<Rightarrow> \<lparr>es_Role = map_string m ''role''\<rparr>)"

definition readSessionMode :: "config \<Rightarrow> string" where
  "readSessionMode cfg = (case cfg of None \<Rightarrow> [] | Some m \<Rightarrow> map_string m ''mode'')"

definition ReviewAgentProfileConfigKey :: string where
  "ReviewAgentProfileConfigKey = ''agent_profile_id''"

definition readReviewAgentProfileID :: "config \<Rightarrow> string" where
  "readReviewAgentProfileID cfg = (case cfg of None \<Rightarrow> [] | Some m \<Rightarrow> map_string m ReviewAgentProfileConfigKey)"

text \<open>\<open>None\<close> is the error of a missing configuration or step id, on which every caller skips the action.\<close>

definition readStepID :: "config \<Rightarrow> string option" where
  "readStepID cfg = (case cfg of None \<Rightarrow> None | Some m \<Rightarrow>
     (let stepID = map_string m ''step_id'' in if stepID = [] then None else Some stepID))"

definition ConfigRequiresApproval :: "config \<Rightarrow> bool" where
  "ConfigRequiresApproval cfg = (case cfg of None \<Rightarrow> False | Some m \<Rightarrow> map_bool m ''requires_approval'')"

definition ConfigTransitionGuard :: "config \<Rightarrow> TransitionGuard option" where
  "ConfigTransitionGuard cfg = (case cfg of None \<Rightarrow> None | Some m \<Rightarrow>
     (case (case map_map m ''wait_for_quorum'' of
              Some raw \<Rightarrow> Some raw
            | None \<Rightarrow> (case map_map m ''if'' of None \<Rightarrow> None | Some guard \<Rightarrow> map_map guard ''wait_for_quorum'')) of
        None \<Rightarrow> None
      | Some raw \<Rightarrow>
          (let role = map_string raw ''role''; threshold = map_string raw ''threshold'' in
           if role = [] \<or> threshold = [] then None
           else Some \<lparr>tg_WaitForQuorum = Some \<lparr>wq_Role = role, wq_Threshold = threshold\<rparr>\<rparr>)))"

definition CompileOnEnterAction :: "GenericAction \<Rightarrow> Action option" where
  "CompileOnEnterAction a =
     (let t = ga_Type a; cfg = ga_Config a in
      if t = ''enable_plan_mode'' then Some (action ActionEnablePlanMode)
      else if t = ''auto_start_agent''
        then Some ((action ActionAutoStartAgent)\<lparr>a_AutoStartAgent := Some \<lparr>as_PromptOverride = None, as_QueueIfBusy = True\<rparr>\<rparr>)
      else if t = ''reset_agent_context'' then Some (action ActionResetAgentContext)
      else if t = ''set_session_mode''
        then (let mode = readSessionMode cfg in
              if mode = [] then None
              else Some ((action ActionSetSessionMode)\<lparr>a_SetSessionMode := Some \<lparr>sm_Mode = mode\<rparr>\<rparr>))
      else if t = ''run_code_review''
        then Some ((action ActionRunCodeReview)\<lparr>a_RunCodeReview := Some \<lparr>rc_AgentProfileID = readReviewAgentProfileID cfg\<rparr>\<rparr>)
      else if t = ''clear_decisions''
        then Some ((action ActionClearDecisions)\<lparr>a_ClearDecisions := Some ClearDecisionsAction\<rparr>)
      else if t = ''queue_run_for_each_participant''
        then Some ((action ActionQueueRunForEachParticipant)
               \<lparr>a_QueueRunForEachParticipant := Some (readQueueRunForEachParticipantConfig cfg)\<rparr>)
      else if t = ''queue_run'' then Some ((action ActionQueueRun)\<lparr>a_QueueRun := Some (readQueueRunConfig cfg)\<rparr>)
      else if t = ''ensure_participant_seat''
        then Some ((action ActionEnsureParticipantSeat)\<lparr>a_EnsureParticipantSeat := Some (readEnsureParticipantSeatConfig cfg)\<rparr>)
      else None)"

text \<open>The loop of \<open>compileOnEnter\<close> from index \<open>i\<close> on: the compiled action remembers its declared position.\<close>

fun compile_on_enter :: "nat \<Rightarrow> GenericAction list \<Rightarrow> Action list" where
  "compile_on_enter i [] = []"
| "compile_on_enter i (a # as) =
     (case CompileOnEnterAction a of
        Some compiled \<Rightarrow> compiled\<lparr>a_DeclaredPosition := i\<rparr> # compile_on_enter (Suc i) as
      | None \<Rightarrow> compile_on_enter (Suc i) as)"

definition compileOnEnter :: "WorkflowStep \<Rightarrow> Action list" where
  "compileOnEnter step = compile_on_enter 0 (OnEnter (ws_Events step))"

definition compile_turn_start :: "GenericAction \<Rightarrow> Action option" where
  "compile_turn_start a =
     (if ga_Type a = ''move_to_next'' then Some (action ActionMoveToNext)
      else if ga_Type a = ''move_to_previous'' then Some (action ActionMoveToPrevious)
      else if ga_Type a = ''move_to_step''
        then map_option (\<lambda>stepID. (action ActionMoveToStep)\<lparr>a_MoveToStep := Some \<lparr>ms_StepID = stepID\<rparr>\<rparr>) (readStepID (ga_Config a))
      else None)"

definition compileOnTurnStart :: "WorkflowStep \<Rightarrow> Action list" where
  "compileOnTurnStart step = List.map_filter compile_turn_start (OnTurnStart (ws_Events step))"

text \<open>The transition actions of \<open>compileOnTurnComplete\<close> and \<open>compileGenericActions\<close> carry approval and guard.\<close>

definition compile_transition :: "GenericAction \<Rightarrow> Action option" where
  "compile_transition a =
     (let gated = (\<lambda>k. (action k)\<lparr>a_RequiresApproval := ConfigRequiresApproval (ga_Config a),
                                  a_Guard := ConfigTransitionGuard (ga_Config a)\<rparr>) in
      if ga_Type a = ''move_to_next'' then Some (gated ActionMoveToNext)
      else if ga_Type a = ''move_to_previous'' then Some (gated ActionMoveToPrevious)
      else if ga_Type a = ''move_to_step''
        then map_option (\<lambda>stepID. (gated ActionMoveToStep)\<lparr>a_MoveToStep := Some \<lparr>ms_StepID = stepID\<rparr>\<rparr>) (readStepID (ga_Config a))
      else None)"

definition compile_turn_complete :: "GenericAction \<Rightarrow> Action option" where
  "compile_turn_complete a =
     (if ga_Type a = ''disable_plan_mode'' then Some (action ActionDisablePlanMode) else compile_transition a)"

definition compileOnTurnComplete :: "WorkflowStep \<Rightarrow> Action list" where
  "compileOnTurnComplete step = List.map_filter compile_turn_complete (OnTurnComplete (ws_Events step))"

definition compileOnExit :: "WorkflowStep \<Rightarrow> Action list" where
  "compileOnExit step = List.map_filter
     (\<lambda>a. if ga_Type a = ''disable_plan_mode'' then Some (action ActionDisablePlanMode) else None) (OnExit (ws_Events step))"

definition compile_generic :: "GenericAction \<Rightarrow> Action option" where
  "compile_generic a =
     (if ga_Type a = ''auto_start_agent''
      then Some ((action ActionAutoStartAgent)\<lparr>a_AutoStartAgent := Some \<lparr>as_PromptOverride = None, as_QueueIfBusy = True\<rparr>\<rparr>)
      else if ga_Type a = ''queue_run''
      then Some ((action ActionQueueRun)\<lparr>a_QueueRun := Some (readQueueRunConfig (ga_Config a))\<rparr>)
      else if ga_Type a = ''clear_decisions''
      then Some ((action ActionClearDecisions)\<lparr>a_ClearDecisions := Some ClearDecisionsAction\<rparr>)
      else if ga_Type a = ''queue_run_for_each_participant''
      then Some ((action ActionQueueRunForEachParticipant)
             \<lparr>a_QueueRunForEachParticipant := Some (readQueueRunForEachParticipantConfig (ga_Config a))\<rparr>)
      else compile_transition a)"

definition compileGenericActions :: "GenericAction list \<Rightarrow> Action list" where
  "compileGenericActions actions = List.map_filter compile_generic actions"

definition CompileStep :: "WorkflowStep \<Rightarrow> StepSpec" where
  "CompileStep step = (let ev = ws_Events step in
     \<lparr>ss_ID = ws_ID step, ss_WorkflowID = ws_WorkflowID step, ss_Name = ws_Name step, ss_Position = ws_Position step,
      ss_Prompt = ws_Prompt step,
      ss_Events =
       [(TriggerOnEnter, compileOnEnter step),
        (TriggerOnTurnStart, compileOnTurnStart step),
        (TriggerOnTurnComplete, compileOnTurnComplete step),
        (TriggerOnExit, compileOnExit step),
        (TriggerOnComment, compileGenericActions (OnComment ev)),
        (TriggerOnBlockerResolved, compileGenericActions (OnBlockerResolved ev)),
        (TriggerOnChildrenCompleted, compileGenericActions (OnChildrenCompleted ev)),
        (TriggerOnApprovalResolved, compileGenericActions (OnApprovalResolved ev)),
        (TriggerOnHeartbeat, compileGenericActions (OnHeartbeat ev)),
        (TriggerOnBudgetAlert, compileGenericActions (OnBudgetAlert ev)),
        (TriggerOnAgentError, compileGenericActions (OnAgentError ev)),
        (TriggerOnPRMerged, compileGenericActions (OnPRMerged ev)),
        (TriggerOnPRClosed, compileGenericActions (OnPRClosed ev))]\<rparr>)"

end
