(* ===== verification/Workflow_Stores.thy ===== *)
theory Workflow_Stores
  imports Workflow_Types
begin

text \<open>
  What the workflow engine talks to (\<open>internal/workflow/engine/adapters.go\<close>, \<open>payloads.go\<close>, the
  interfaces and structs of \<open>engine.go\<close> and \<open>phase2_callbacks.go\<close>).

  A Go interface is a record of functions over the state \<open>'s\<close> behind it; a method that reads is a
  function of the state, a method that writes returns the new state.  An optional interface of the
  same value (a type assertion in the code) is an optional field, and a dependency that may be
  \<open>nil\<close> is an option.  The engine runs in a \<open>world\<close>: the state behind the interfaces and the
  counters of \<open>internal/workflow/quorummetrics\<close>, kept as the list of recorded events.  Log lines
  and contexts are not modelled.
\<close>

section \<open>Errors\<close>

datatype werror =
    ErrorText string
  | ErrorWrap string werror
  | ErrorJoin "werror list"
  | ErrActionNotYetWired string
  | ErrMalformedParticipantRole string
  | ErrParticipantSeatUnfillable string
  | ErrParticipantNotFound
  | ErrParticipantSeatChanged string
  | ErrCommentFanOutIncomplete string string string werror
  | CommentFanOutIncompleteError string int werror

text \<open>\<open>errors.Is(err, ErrCommentFanOutIncomplete)\<close> and \<open>errors.Is(err, ErrActionNotYetWired)\<close> along the chain of wrapped errors.\<close>

fun is_fan_out_incomplete :: "werror \<Rightarrow> bool" where
  "is_fan_out_incomplete (ErrCommentFanOutIncomplete t st ro e) = True"
| "is_fan_out_incomplete (ErrorWrap m e) = is_fan_out_incomplete e"
| "is_fan_out_incomplete (CommentFanOutIncompleteError st i e) = is_fan_out_incomplete e"
| "is_fan_out_incomplete (ErrorJoin es) = list_ex is_fan_out_incomplete es"
| "is_fan_out_incomplete _ = False"

fun is_not_yet_wired :: "werror \<Rightarrow> bool" where
  "is_not_yet_wired (ErrActionNotYetWired m) = True"
| "is_not_yet_wired (ErrorWrap m e) = is_not_yet_wired e"
| "is_not_yet_wired (ErrCommentFanOutIncomplete t st ro e) = is_not_yet_wired e"
| "is_not_yet_wired (CommentFanOutIncompleteError st i e) = is_not_yet_wired e"
| "is_not_yet_wired (ErrorJoin es) = list_ex is_not_yet_wired es"
| "is_not_yet_wired _ = False"

section \<open>Payloads of triggers\<close>

record OnCommentPayload =
  cp_CommentID :: string
  cp_AuthorID :: string
  cp_Body :: string
  cp_RetryWorkflowStepID :: string
  cp_RetryWorkflowStepTransitionID :: int

record OnChildrenCompletedPayload =
  ch_ChildSummaries :: "(string \<times> string \<times> string \<times> string list) list"
  ch_WaveKey :: string
  ch_WaveString :: string

record OnAgentErrorPayload =
  ae_FailedAgentID :: string
  ae_FailedSessionID :: string
  ae_ErrorMessage :: string

text \<open>
  The \<open>any\<close> of \<open>HandleInput.Payload\<close>: the payloads that the engine inspects, as a value or as a
  pointer that may be \<open>nil\<close>, and every other value.
\<close>

datatype payload =
    NoPayload
  | CommentPayload OnCommentPayload
  | CommentPointer "OnCommentPayload option"
  | ChildrenPayload OnChildrenCompletedPayload
  | ChildrenPointer "OnChildrenCompletedPayload option"
  | AgentErrorPayload OnAgentErrorPayload
  | AgentErrorPointer "OnAgentErrorPayload option"
  | OtherPayload

definition commentPayload :: "payload \<Rightarrow> OnCommentPayload option" where
  "commentPayload p = (case p of CommentPayload c \<Rightarrow> Some c | CommentPointer co \<Rightarrow> co | _ \<Rightarrow> None)"

definition agentErrorPayload :: "payload \<Rightarrow> OnAgentErrorPayload option" where
  "agentErrorPayload p = (case p of AgentErrorPayload a \<Rightarrow> Some a | AgentErrorPointer ao \<Rightarrow> ao | _ \<Rightarrow> None)"

definition waveIdentityPayload :: "payload \<Rightarrow> string \<times> string" where
  "waveIdentityPayload p = (case p of
       ChildrenPayload c \<Rightarrow> (ch_WaveKey c, ch_WaveString c)
     | ChildrenPointer (Some c) \<Rightarrow> (ch_WaveKey c, ch_WaveString c)
     | _ \<Rightarrow> ([], []))"

section \<open>Rows and requests\<close>

record ParticipantInfo =
  p_ID :: string
  p_StepID :: string
  p_TaskID :: string
  p_Role :: string
  p_AgentProfileID :: string
  p_DecisionRequired :: bool
  p_Position :: int

record DecisionInfo =
  d_ID :: string
  d_TaskID :: string
  d_StepID :: string
  d_ParticipantID :: string
  d_Decision :: string
  d_Note :: string
  d_DecidedAt :: time
  d_DeciderType :: string
  d_DeciderID :: string
  d_Role :: string
  d_Comment :: string
  d_SupersededAt :: "time option"

record MachineState =
  m_TaskID :: string
  m_SessionID :: string
  m_WorkflowID :: string
  m_CurrentStepID :: string
  m_WorkflowStepTransitionID :: int
  m_SessionState :: string
  m_TaskDescription :: string
  m_IsPassthrough :: bool
  m_Data :: data
  m_AgentProfileID :: string

definition no_state :: MachineState where
  "no_state = \<lparr>m_TaskID = [], m_SessionID = [], m_WorkflowID = [], m_CurrentStepID = [], m_WorkflowStepTransitionID = 0,
     m_SessionState = [], m_TaskDescription = [], m_IsPassthrough = False, m_Data = [], m_AgentProfileID = []\<rparr>"

record QueueRunRequest =
  q_AgentProfileID :: string
  q_TaskID :: string
  q_CausingTaskID :: string
  q_WorkflowStepID :: string
  q_Reason :: string
  q_IdempotencyKey :: string
  q_Payload :: data
  q_CausingAgentProfileID :: string
  q_CausingStepTransitionID :: string
  q_WaveKey :: string
  q_WaveString :: string

datatype QueueOutcome =
  QueueOutcomeQueued | QueueOutcomeDeduped | QueueOutcomeCoalesced | QueueOutcomeNone | QueueOutcomeRateLimited

record ParticipantSeatCastResult =
  sc_AgentProfileID :: string
  sc_WorkspaceID :: string
  sc_Provenance :: string
  sc_SelfReview :: bool
  sc_Unfillable :: bool

record ChildTaskSpec =
  ct_Title :: string
  ct_Description :: string
  ct_WorkflowID :: string
  ct_StepID :: string
  ct_AgentProfileID :: string
  ct_CausingAgentProfileID :: string

section \<open>Interfaces\<close>

record 's TransitionStore =
  LoadState :: "string \<Rightarrow> string \<Rightarrow> 's \<Rightarrow> werror + MachineState"
  LoadStep :: "string \<Rightarrow> string \<Rightarrow> 's \<Rightarrow> werror + StepSpec"
  LoadNextStep :: "string \<Rightarrow> int \<Rightarrow> 's \<Rightarrow> werror + StepSpec"
  LoadPreviousStep :: "string \<Rightarrow> int \<Rightarrow> 's \<Rightarrow> werror + StepSpec"
  ApplyTransition :: "string \<Rightarrow> string \<Rightarrow> string \<Rightarrow> string \<Rightarrow> Trigger \<Rightarrow> 's \<Rightarrow> werror option \<times> 's"
  ApplyTransitionIfAtStep :: "string \<Rightarrow> string \<Rightarrow> string \<Rightarrow> string \<Rightarrow> Trigger \<Rightarrow> 's \<Rightarrow> (werror + bool) \<times> 's"
  PersistData :: "string \<Rightarrow> data \<Rightarrow> 's \<Rightarrow> werror option \<times> 's"
  IsOperationApplied :: "string \<Rightarrow> 's \<Rightarrow> werror + bool"
  MarkOperationApplied :: "string \<Rightarrow> 's \<Rightarrow> werror option \<times> 's"

record 's ParticipantStore =
  ListStepParticipants :: "string \<Rightarrow> string \<Rightarrow> 's \<Rightarrow> werror + ParticipantInfo list"
  ListTaskParticipants :: "string \<Rightarrow> 's \<Rightarrow> werror + ParticipantInfo list"
  ListTaskParticipantsForWorkflow :: "(string \<Rightarrow> string \<Rightarrow> 's \<Rightarrow> werror + ParticipantInfo list) option"
  ParticipantsStepIDForTask :: "(string \<Rightarrow> 's \<Rightarrow> werror + string) option"

record 's DecisionStore =
  ListStepDecisions :: "string \<Rightarrow> string \<Rightarrow> 's \<Rightarrow> werror + DecisionInfo list"
  RecordStepDecision :: "DecisionInfo \<Rightarrow> 's \<Rightarrow> werror option \<times> 's"
  ClearStepDecisions :: "string \<Rightarrow> string \<Rightarrow> 's \<Rightarrow> (werror + int) \<times> 's"

type_synonym 's AgentProfileResolver = "string \<Rightarrow> 's \<Rightarrow> werror + bool"
type_synonym 's RunQueueAdapter = "QueueRunRequest \<Rightarrow> 's \<Rightarrow> (werror + QueueOutcome) \<times> 's"
type_synonym 's CEOAgentResolver = "string \<Rightarrow> 's \<Rightarrow> werror + string"
type_synonym 's TargetTaskStepResolver = "string \<Rightarrow> 's \<Rightarrow> werror + string"
type_synonym 's TaskCreator = "string \<Rightarrow> ChildTaskSpec \<Rightarrow> 's \<Rightarrow> (werror + string) \<times> 's"
type_synonym 's WorkflowSwitcher = "string \<Rightarrow> string \<Rightarrow> string \<Rightarrow> 's \<Rightarrow> (werror + string) \<times> 's"
type_synonym 's ParticipantSeatCaster =
  "string \<Rightarrow> string \<Rightarrow> string \<Rightarrow> string \<Rightarrow> 's \<Rightarrow> werror + ParticipantSeatCastResult"

record 's PrimaryAgentResolver =
  PrimaryAgentProfileID :: "string \<Rightarrow> string \<Rightarrow> 's \<Rightarrow> werror + string"
  PrimaryStepIDForTask :: "(string \<Rightarrow> 's \<Rightarrow> werror + string) option"

record 's ParticipantSeatWriter =
  HasRoleSeatForTaskWorkflow :: "string \<Rightarrow> string \<Rightarrow> string \<Rightarrow> 's \<Rightarrow> werror + bool"
  EnsureRoleSeat :: "string \<Rightarrow> string \<Rightarrow> string \<Rightarrow> string \<Rightarrow> string \<Rightarrow> 's \<Rightarrow> (werror + ParticipantInfo) \<times> 's"

datatype metric =
    GuardNotFired string
  | QuorumSlateEmpty string
  | ParticipantAgentUnresolved string
  | SeatEnsureOutcome string string
  | SeatProvenance string string bool

record 's world =
  w_state :: 's
  w_metrics :: "metric list"

definition record_metrics :: "metric list \<Rightarrow> 's world \<Rightarrow> 's world" where
  "record_metrics ms w = w\<lparr>w_metrics := w_metrics w @ ms\<rparr>"

text \<open>A call of an interface changes the state behind it and no counter.\<close>

definition call :: "('s \<Rightarrow> 'a \<times> 's) \<Rightarrow> 's world \<Rightarrow> 'a \<times> 's world" where
  "call f w = (let (a, s) = f (w_state w) in (a, w\<lparr>w_state := s\<rparr>))"

section \<open>Callbacks and the engine\<close>

record ActionInput =
  i_Trigger :: Trigger
  i_State :: MachineState
  i_Step :: StepSpec
  i_Action :: Action
  i_Payload :: payload
  i_OperationID :: string
  i_EntryID :: string
  i_CausingStepTransitionID :: string

text \<open>\<open>Execute\<close> returns the \<open>DataPatch\<close> of its \<open>ActionResult\<close>.\<close>

type_synonym 's ActionCallback = "ActionInput \<Rightarrow> 's world \<Rightarrow> (werror + data) \<times> 's world"
type_synonym 's CallbackRegistry = "ActionKind \<Rightarrow> 's ActionCallback option"

definition MapRegistry_Get :: "(ActionKind, 's ActionCallback) gomap \<Rightarrow> 's CallbackRegistry" where
  "MapRegistry_Get r kind = gm_get r kind"

text \<open>\<open>ExecuteMarkerBearingStepEntryAction\<close> returns whether to abandon the entry, and an error.\<close>

type_synonym 's MarkerBearingStepEntryExecutor =
  "string \<Rightarrow> StepSpec \<Rightarrow> Action \<Rightarrow> nat \<Rightarrow> string \<Rightarrow> int \<Rightarrow> 's world \<Rightarrow> (bool \<times> werror option) \<times> 's world"

record 's Engine =
  e_store :: "'s TransitionStore"
  e_callbacks :: "'s CallbackRegistry"
  e_runQueue :: "'s RunQueueAdapter option"
  e_participants :: "'s ParticipantStore option"
  e_decisions :: "'s DecisionStore option"
  e_ceoResolver :: "'s CEOAgentResolver option"
  e_agentProfiles :: "'s AgentProfileResolver option"
  e_taskCreator :: "'s TaskCreator option"
  e_workflowSwitcher :: "'s WorkflowSwitcher option"
  e_markerExecutor :: "'s MarkerBearingStepEntryExecutor option"

text \<open>\<open>New\<close> without options; each \<open>With\<close> option sets one of the remaining fields.\<close>

definition New :: "'s TransitionStore \<Rightarrow> 's CallbackRegistry \<Rightarrow> 's Engine" where
  "New st cbs = \<lparr>e_store = st, e_callbacks = cbs, e_runQueue = None, e_participants = None, e_decisions = None,
     e_ceoResolver = None, e_agentProfiles = None, e_taskCreator = None, e_workflowSwitcher = None, e_markerExecutor = None\<rparr>"

end
