(* ===== verification/Workflow_Quorum.thy ===== *)
theory Workflow_Quorum
  imports Workflow_Stores
begin

text \<open>
  The quorum guards of the workflow engine (\<open>internal/workflow/engine/quorum.go\<close>): the slate of
  required seats, the mapping of decisions to seats, the thresholds and the outcome of a guard.

  Evaluating a guard reads the stores and may count what it saw; the definitions return the
  counted metrics beside the outcome.  The flag \<open>record\<close> is the code's: a read-only observation
  passes false and counts nothing.
\<close>

section \<open>Thresholds, verdicts and reasons\<close>

abbreviation QuorumAllApprove :: string where "QuorumAllApprove \<equiv> ''all_approve''"
abbreviation QuorumAllDecide :: string where "QuorumAllDecide \<equiv> ''all_decide''"
abbreviation QuorumAnyReject :: string where "QuorumAnyReject \<equiv> ''any_reject''"
abbreviation QuorumMajorityApprove :: string where "QuorumMajorityApprove \<equiv> ''majority_approve''"
abbreviation QuorumNApprovePrefix :: string where "QuorumNApprovePrefix \<equiv> ''n_approve:''"

abbreviation DecisionApproved :: string where "DecisionApproved \<equiv> ''approved''"
abbreviation DecisionRejected :: string where "DecisionRejected \<equiv> ''rejected''"
abbreviation DecisionChangesRequested :: string where "DecisionChangesRequested \<equiv> ''changes_requested''"

abbreviation DeciderTypeAgent :: string where "DeciderTypeAgent \<equiv> ''agent''"
abbreviation DeciderTypeUser :: string where "DeciderTypeUser \<equiv> ''user''"

abbreviation ReasonThresholdNotMet :: string where "ReasonThresholdNotMet \<equiv> ''threshold_not_met''"
abbreviation ReasonSlateEmpty :: string where "ReasonSlateEmpty \<equiv> ''slate_empty''"
abbreviation ReasonDecisionStoreUnwired :: string where "ReasonDecisionStoreUnwired \<equiv> ''decision_store_unwired''"
abbreviation ReasonParticipantStoreUnwired :: string where "ReasonParticipantStoreUnwired \<equiv> ''participant_store_unwired''"
abbreviation ReasonGuardVariantUnrecognized :: string where "ReasonGuardVariantUnrecognized \<equiv> ''guard_variant_unrecognized''"
abbreviation ReasonThresholdUnrecognized :: string where "ReasonThresholdUnrecognized \<equiv> ''threshold_unrecognized''"
abbreviation ReasonThresholdUnsatisfiable :: string where "ReasonThresholdUnsatisfiable \<equiv> ''threshold_unsatisfiable''"
abbreviation ReasonEvaluationError :: string where "ReasonEvaluationError \<equiv> ''evaluation_error''"
abbreviation ReasonSessionUnresolvable :: string where "ReasonSessionUnresolvable \<equiv> ''session_unresolvable''"

record GuardOutcome =
  g_Satisfied :: bool
  g_Reason :: string
  g_Err :: "werror option"
  g_RequiredCount :: int
  g_ReceivedCount :: int

text \<open>\<open>GuardOutcome{Reason: r}\<close>: not satisfied, with counts of zero.\<close>

definition refused :: "string \<Rightarrow> GuardOutcome" where
  "refused r = \<lparr>g_Satisfied = False, g_Reason = r, g_Err = None, g_RequiredCount = 0, g_ReceivedCount = 0\<rparr>"

definition isRejectionVerdict :: "string \<Rightarrow> bool" where
  "isRejectionVerdict d \<longleftrightarrow> d = DecisionRejected \<or> d = DecisionChangesRequested"

section \<open>Required seats\<close>

type_synonym seatCanonKey = "string \<times> string \<times> string \<times> string"

definition canonKeyFor :: "ParticipantInfo \<Rightarrow> seatCanonKey" where
  "canonKeyFor p =
     (if p_AgentProfileID p = [] then (p_TaskID p, p_Role p, [], p_ID p)
      else (p_TaskID p, p_Role p, p_AgentProfileID p, []))"

type_synonym seatCollapseKey = "string \<times> string \<times> string"

definition collapseKeyFor :: "ParticipantInfo \<Rightarrow> seatCollapseKey" where
  "collapseKeyFor p =
     (if p_AgentProfileID p = [] then (p_Role p, [], p_ID p) else (p_Role p, p_AgentProfileID p, []))"

text \<open>
  Rows grouped under a key, the groups in the order in which their keys are first seen: a new key of
  \<open>gm_put\<close> goes to the end, so the map's own list is the slice \<open>order\<close> of the code.
\<close>

definition group_rows :: "('p \<Rightarrow> 'k) \<Rightarrow> 'p list \<Rightarrow> ('k, 'p list) gomap" where
  "group_rows key rows = fold (\<lambda>p g. gm_put (key p) (gm_get0 [] g (key p) @ [p]) g) rows []"

text \<open>The loop that keeps the first row with the lowest id.\<close>

definition lowest_id :: "ParticipantInfo list \<Rightarrow> ParticipantInfo" where
  "lowest_id rows = fold (\<lambda>r best. if p_ID r < p_ID best then r else best) (tl rows) (hd rows)"

definition pickCanonicalRow :: "string \<Rightarrow> ParticipantInfo list \<Rightarrow> ParticipantInfo" where
  "pickCanonicalRow evaluatingStepID rows =
     (case find (\<lambda>r. p_StepID r = evaluatingStepID) rows of Some r \<Rightarrow> r | None \<Rightarrow> lowest_id rows)"

definition canonicalizeByTaskRoleAgent :: "ParticipantInfo list \<Rightarrow> string \<Rightarrow> ParticipantInfo list" where
  "canonicalizeByTaskRoleAgent rows evaluatingStepID =
     map (\<lambda>(k, group). pickCanonicalRow evaluatingStepID group) (group_rows canonKeyFor rows)"

definition pickPerTaskOverTemplate :: "ParticipantInfo list \<Rightarrow> ParticipantInfo" where
  "pickPerTaskOverTemplate rows =
     (case find (\<lambda>r. p_TaskID r \<noteq> []) rows of Some r \<Rightarrow> r | None \<Rightarrow> lowest_id rows)"

definition collapseByRoleAgent :: "ParticipantInfo list \<Rightarrow> ParticipantInfo list" where
  "collapseByRoleAgent rows = map (\<lambda>(k, group). pickPerTaskOverTemplate group) (group_rows collapseKeyFor rows)"

definition gatherParticipantSlate ::
    "'s ParticipantStore \<Rightarrow> string \<Rightarrow> string \<Rightarrow> string \<Rightarrow> 's \<Rightarrow> werror + ParticipantInfo list" where
  "gatherParticipantSlate store stepID taskID workflowID s =
     (case (case ListTaskParticipantsForWorkflow store of
              Some scoped \<Rightarrow> if workflowID \<noteq> [] then scoped taskID workflowID s else ListTaskParticipants store taskID s
            | None \<Rightarrow> ListTaskParticipants store taskID s) of
        Inl err \<Rightarrow> Inl (ErrorWrap ''list task participants'' err)
      | Inr perTask \<Rightarrow>
          (case ListStepParticipants store stepID [] s of
             Inl err \<Rightarrow> Inl (ErrorWrap ''list step participants'' err)
           | Inr templ \<Rightarrow> Inr (perTask @ templ)))"

definition SeatRoleLabelInvalid :: string where
  "SeatRoleLabelInvalid = ''invalid''"

definition quorumRoleLabel :: "string \<Rightarrow> string" where
  "quorumRoleLabel role = (if \<not> ValidParticipantRole role then SeatRoleLabelInvalid else role)"

fun drop_unresolved ::
    "'s AgentProfileResolver \<Rightarrow> string \<Rightarrow> bool \<Rightarrow> ParticipantInfo list \<Rightarrow> 's \<Rightarrow> (werror + ParticipantInfo list) \<times> metric list" where
  "drop_unresolved resolver role record [] s = (Inr [], [])"
| "drop_unresolved resolver role record (seat # seats) s =
     (if p_AgentProfileID seat = []
      then (let (res, ms) = drop_unresolved resolver role record seats s in (map_sum id ((#) seat) res, ms))
      else (case resolver (p_AgentProfileID seat) s of
          Inl err \<Rightarrow> (Inl (ErrorWrap (''resolve agent profile '' @ p_AgentProfileID seat @ '' for quorum seat'') err), [])
        | Inr present \<Rightarrow>
            (let (res, ms) = drop_unresolved resolver role record seats s in
             if present then (map_sum id ((#) seat) res, ms)
             else (res, (if record then [ParticipantAgentUnresolved (quorumRoleLabel role)] else []) @ ms))))"

definition dropUnresolvedAgentSeats ::
    "'s Engine \<Rightarrow> string \<Rightarrow> ParticipantInfo list \<Rightarrow> bool \<Rightarrow> 's \<Rightarrow> (werror + ParticipantInfo list) \<times> metric list" where
  "dropUnresolvedAgentSeats e role seats record s =
     (case e_agentProfiles e of None \<Rightarrow> (Inr seats, []) | Some resolver \<Rightarrow> drop_unresolved resolver role record seats s)"

text \<open>The slate that the stores know for a role, before seats of deleted agents are dropped.\<close>

definition role_slate :: "ParticipantInfo list \<Rightarrow> string \<Rightarrow> string \<Rightarrow> ParticipantInfo list" where
  "role_slate gathered stepID role =
     collapseByRoleAgent (canonicalizeByTaskRoleAgent
       (filter (\<lambda>p. \<not> (p_Role p \<noteq> role \<or> \<not> p_DecisionRequired p)) gathered) stepID)"

definition requiredSeatsForWorkflowRecording ::
    "'s Engine \<Rightarrow> 's ParticipantStore \<Rightarrow> string \<Rightarrow> string \<Rightarrow> string \<Rightarrow> string \<Rightarrow> bool \<Rightarrow> 's
       \<Rightarrow> (werror + ParticipantInfo list) \<times> metric list" where
  "requiredSeatsForWorkflowRecording e participants stepID taskID workflowID role record s =
     (case gatherParticipantSlate participants stepID taskID workflowID s of
        Inl err \<Rightarrow> (Inl err, [])
      | Inr gathered \<Rightarrow> dropUnresolvedAgentSeats e role (role_slate gathered stepID role) record s)"

definition requiredSeatsForWorkflow ::
    "'s Engine \<Rightarrow> 's ParticipantStore \<Rightarrow> string \<Rightarrow> string \<Rightarrow> string \<Rightarrow> string \<Rightarrow> 's
       \<Rightarrow> (werror + ParticipantInfo list) \<times> metric list" where
  "requiredSeatsForWorkflow e participants stepID taskID workflowID role s =
     requiredSeatsForWorkflowRecording e participants stepID taskID workflowID role True s"

definition requiredSeats ::
    "'s Engine \<Rightarrow> 's ParticipantStore \<Rightarrow> string \<Rightarrow> string \<Rightarrow> string \<Rightarrow> 's
       \<Rightarrow> (werror + ParticipantInfo list) \<times> metric list" where
  "requiredSeats e participants stepID taskID role s = requiredSeatsForWorkflow e participants stepID taskID [] role s"

section \<open>Decisions of seats\<close>

definition seat_by_role_agent :: "ParticipantInfo list \<Rightarrow> (string \<times> string, string) gomap" where
  "seat_by_role_agent seats =
     fold (\<lambda>s m. if p_AgentProfileID s \<noteq> [] then gm_put (p_Role s, p_AgentProfileID s) (p_ID s) m else m) seats []"

text \<open>The seat id that a decision is counted for; the empty id is none.\<close>

definition decision_seat :: "ParticipantInfo list \<Rightarrow> DecisionInfo \<Rightarrow> string" where
  "decision_seat seats d =
     (if d_ParticipantID d \<in> set (map p_ID seats) \<and> d_ParticipantID d \<noteq> [] then d_ParticipantID d
      else if d_DeciderType d = DeciderTypeAgent then gm_get0 [] (seat_by_role_agent seats) (d_Role d, d_DeciderID d)
      else [])"

definition mapDecisionsToSeats :: "ParticipantInfo list \<Rightarrow> DecisionInfo list \<Rightarrow> (string, DecisionInfo) gomap" where
  "mapDecisionsToSeats seats decisions =
     fold (\<lambda>d latest. if decision_seat seats d = [] then latest else gm_put (decision_seat seats d) d latest) decisions []"

definition evaluateAnyReject :: "DecisionInfo list \<Rightarrow> string \<Rightarrow> bool \<times> int" where
  "evaluateAnyReject decisions guardRole =
     (let latest = fold (\<lambda>d latest.
            if d_DeciderType d = [] \<or> d_DeciderID d = [] then latest
            else if d_DeciderType d = DeciderTypeAgent \<and> d_Role d \<noteq> guardRole then latest
            else gm_put (d_DeciderType d, d_DeciderID d) d latest) decisions [];
          vetoCount = int (length (filter (\<lambda>(k, d). isRejectionVerdict (d_Decision d)) latest))
      in (0 < vetoCount, vetoCount))"

section \<open>Thresholds\<close>

text \<open>\<open>strconv.Atoi\<close>: an optional sign and decimal digits, within 64 bits.\<close>

fun read_digits :: "int \<Rightarrow> string \<Rightarrow> int option" where
  "read_digits n [] = Some n"
| "read_digits n (c # cs) =
     (if CHR ''0'' \<le> c \<and> c \<le> CHR ''9''
      then read_digits (10 * n + (int (of_char c) - int (of_char (CHR ''0'')))) cs else None)"

definition Atoi :: "string \<Rightarrow> int option" where
  "Atoi s =
     (let neg = (s \<noteq> [] \<and> hd s = CHR ''-'');
          body = (if s \<noteq> [] \<and> (hd s = CHR ''-'' \<or> hd s = CHR ''+'') then tl s else s)
      in if body = [] then None
         else (case read_digits 0 body of
             None \<Rightarrow> None
           | Some n \<Rightarrow> (let v = (if neg then - n else n) in if - (2 ^ 63) \<le> v \<and> v < 2 ^ 63 then Some v else None)))"

definition finishApproveStyle :: "bool \<Rightarrow> int \<Rightarrow> int \<Rightarrow> GuardOutcome" where
  "finishApproveStyle satisfied required received =
     \<lparr>g_Satisfied = satisfied, g_Reason = (if \<not> satisfied then ReasonThresholdNotMet else []), g_Err = None,
      g_RequiredCount = required, g_ReceivedCount = received\<rparr>"

definition evaluateNApprove :: "string \<Rightarrow> int \<Rightarrow> int \<Rightarrow> GuardOutcome" where
  "evaluateNApprove threshold total_seats approveCount =
     (case Atoi (TrimPrefix threshold QuorumNApprovePrefix) of
        None \<Rightarrow> refused ReasonThresholdUnrecognized
      | Some n \<Rightarrow>
          if n \<le> 0 then refused ReasonThresholdUnrecognized
          else if n > total_seats
          then \<lparr>g_Satisfied = False, g_Reason = ReasonThresholdUnsatisfiable, g_Err = None,
                g_RequiredCount = n, g_ReceivedCount = approveCount\<rparr>
          else finishApproveStyle (approveCount \<ge> n) n approveCount)"

definition evaluateApproveStyle :: "string \<Rightarrow> ParticipantInfo list \<Rightarrow> DecisionInfo list \<Rightarrow> GuardOutcome" where
  "evaluateApproveStyle threshold seats decisions =
     (let mapped = mapDecisionsToSeats seats decisions;
          decidedCount = int (length mapped);
          approveCount = int (length (filter (\<lambda>(k, d). d_Decision d = DecisionApproved) mapped));
          n = int (length seats)
      in if threshold = QuorumAllApprove then finishApproveStyle (approveCount = n) n approveCount
         else if threshold = QuorumAllDecide then finishApproveStyle (decidedCount = n) n decidedCount
         else if threshold = QuorumMajorityApprove then finishApproveStyle (approveCount * 2 > n) n approveCount
         else if HasPrefix threshold QuorumNApprovePrefix then evaluateNApprove threshold n approveCount
         else refused ReasonThresholdUnrecognized)"

section \<open>Guards\<close>

definition computeGuardOutcomeRecording ::
    "'s Engine \<Rightarrow> MachineState \<Rightarrow> WaitForQuorumGuard \<Rightarrow> bool \<Rightarrow> 's \<Rightarrow> GuardOutcome \<times> metric list" where
  "computeGuardOutcomeRecording e m guard record s =
     (case e_decisions e of
        None \<Rightarrow> (refused ReasonDecisionStoreUnwired, [])
      | Some decisions \<Rightarrow> (case e_participants e of
        None \<Rightarrow> (refused ReasonParticipantStoreUnwired, [])
      | Some participants \<Rightarrow>
         (let load = ListStepDecisions decisions (m_TaskID m) (m_CurrentStepID m) s;
              failed = (\<lambda>msg err. (refused ReasonEvaluationError)\<lparr>g_Err := Some (ErrorWrap msg err)\<rparr>) in
          if wq_Threshold guard = QuorumAnyReject then
            (case load of
               Inl err \<Rightarrow> (failed ''load step decisions for quorum'' err, [])
             | Inr ds \<Rightarrow> (let (satisfied, received) = evaluateAnyReject ds (wq_Role guard) in
                 (\<lparr>g_Satisfied = satisfied, g_Reason = (if \<not> satisfied then ReasonThresholdNotMet else []), g_Err = None,
                   g_RequiredCount = 1, g_ReceivedCount = received\<rparr>, [])))
          else
            (let (seats, ms) = requiredSeatsForWorkflowRecording e participants (m_CurrentStepID m) (m_TaskID m)
                                 (m_WorkflowID m) (wq_Role guard) record s in
             case seats of
               Inl err \<Rightarrow> (failed ''build required slate for quorum'' err, ms)
             | Inr slate \<Rightarrow>
                 if slate = [] then (refused ReasonSlateEmpty, ms @ (if record then [QuorumSlateEmpty (quorumRoleLabel (wq_Role guard))] else []))
                 else (case load of
                     Inl err \<Rightarrow> (failed ''load step decisions for quorum'' err, ms)
                   | Inr ds \<Rightarrow> (evaluateApproveStyle (wq_Threshold guard) slate ds, ms))))))"

definition computeGuardOutcome ::
    "'s Engine \<Rightarrow> MachineState \<Rightarrow> WaitForQuorumGuard \<Rightarrow> 's \<Rightarrow> GuardOutcome \<times> metric list" where
  "computeGuardOutcome e m guard s = computeGuardOutcomeRecording e m guard True s"

definition evaluateTransitionGuardRecording ::
    "'s Engine \<Rightarrow> MachineState \<Rightarrow> Action \<Rightarrow> bool \<Rightarrow> 's \<Rightarrow> GuardOutcome \<times> metric list" where
  "evaluateTransitionGuardRecording e m a record s =
     (case a_Guard a of
        None \<Rightarrow> (\<lparr>g_Satisfied = True, g_Reason = [], g_Err = None, g_RequiredCount = 0, g_ReceivedCount = 0\<rparr>, [])
      | Some g \<Rightarrow> (case tg_WaitForQuorum g of
          None \<Rightarrow> (refused ReasonGuardVariantUnrecognized, [])
        | Some q \<Rightarrow> computeGuardOutcomeRecording e m q record s))"

definition evaluateTransitionGuard :: "'s Engine \<Rightarrow> MachineState \<Rightarrow> Action \<Rightarrow> 's \<Rightarrow> GuardOutcome \<times> metric list" where
  "evaluateTransitionGuard e m a s = evaluateTransitionGuardRecording e m a True s"

section \<open>The role and seat of a participant\<close>

definition seatFor :: "ParticipantInfo list \<Rightarrow> string \<Rightarrow> ParticipantInfo option" where
  "seatFor seats agentProfileID = find (\<lambda>s. p_AgentProfileID s = agentProfileID) seats"

definition guardRolesAtStep :: "'s Engine \<Rightarrow> string \<Rightarrow> string \<Rightarrow> 's \<Rightarrow> string set" where
  "guardRolesAtStep e workflowID stepID s =
     (if workflowID = [] then {}
      else (case LoadStep (e_store e) workflowID stepID s of
          Inl err \<Rightarrow> {}
        | Inr step \<Rightarrow>
            set (List.map_filter (\<lambda>a.
              if \<not> isTransitionAction (a_Kind a) \<or> a_RequiresApproval a then None
              else (case a_Guard a of None \<Rightarrow> None | Some g \<Rightarrow> (case tg_WaitForQuorum g of None \<Rightarrow> None
                | Some q \<Rightarrow> if wq_Role q = [] then None else Some (wq_Role q))))
              (step_actions step TriggerOnTurnComplete))))"

text \<open>
  The loop over the roles approver and reviewer: it returns at once when a matching seat is at the
  evaluated step, and otherwise collects the matches and the first error.  The participant store
  is an argument here: on an engine without one, the code would call a method of \<open>nil\<close>.
\<close>

fun resolve_roles ::
    "'s Engine \<Rightarrow> 's ParticipantStore \<Rightarrow> string \<Rightarrow> string \<Rightarrow> string \<Rightarrow> string \<Rightarrow> bool \<Rightarrow> string list \<Rightarrow> 's
       \<Rightarrow> (string \<times> string) option \<times> (string \<times> ParticipantInfo) list \<times> werror option \<times> metric list" where
  "resolve_roles e participants stepID taskID workflowID agentID record [] s = (None, [], None, [])"
| "resolve_roles e participants stepID taskID workflowID agentID record (r # rs) s =
     (let (seats, ms) = requiredSeatsForWorkflowRecording e participants stepID taskID workflowID r record s;
          rest = resolve_roles e participants stepID taskID workflowID agentID record rs s in
      case seats of
        Inl err \<Rightarrow> (case rest of (hit, matches, err', ms') \<Rightarrow> (hit, matches, Some err, ms @ ms'))
      | Inr slate \<Rightarrow> (case seatFor slate agentID of
          Some seat \<Rightarrow>
            if p_StepID seat = stepID then (Some (r, p_ID seat), [], None, ms)
            else (case rest of (hit, matches, err', ms') \<Rightarrow> (hit, (r, seat) # matches, err', ms @ ms'))
        | None \<Rightarrow> (case rest of (hit, matches, err', ms') \<Rightarrow> (hit, matches, err', ms @ ms'))))"

definition resolveParticipantRole ::
    "'s Engine \<Rightarrow> 's ParticipantStore \<Rightarrow> string \<Rightarrow> string \<Rightarrow> string \<Rightarrow> bool \<Rightarrow> 's \<Rightarrow> (werror + string \<times> string) \<times> metric list" where
  "resolveParticipantRole e participants taskID stepID agentID record s =
     (if agentID = [] then (Inl ErrParticipantNotFound, [])
      else
       (let workflowID = (case LoadState (e_store e) taskID [] s of Inl err \<Rightarrow> [] | Inr m \<Rightarrow> m_WorkflowID m) in
        case resolve_roles e participants stepID taskID workflowID agentID record [''approver'', ''reviewer''] s of
          (Some hit, matches, err, ms) \<Rightarrow> (Inr hit, ms)
        | (None, matches, Some err, ms) \<Rightarrow> (Inl (ErrorWrap ''resolve participant role'' err), ms)
        | (None, [], None, ms) \<Rightarrow> (Inl ErrParticipantNotFound, ms)
        | (None, first # others, None, ms) \<Rightarrow>
            (let roles = guardRolesAtStep e workflowID stepID s;
                 choice = (if card roles = 1 then find (\<lambda>m. fst m \<in> roles) (first # others) else None) in
             case choice of Some m \<Rightarrow> (Inr (fst m, p_ID (snd m)), ms) | None \<Rightarrow> (Inr (fst first, p_ID (snd first)), ms))))"

definition ResolveParticipantRole ::
    "'s Engine \<Rightarrow> 's ParticipantStore \<Rightarrow> string \<Rightarrow> string \<Rightarrow> string \<Rightarrow> 's \<Rightarrow> (werror + string \<times> string) \<times> metric list" where
  "ResolveParticipantRole e participants taskID stepID agentID s =
     resolveParticipantRole e participants taskID stepID agentID True s"

definition ResolveParticipantRoleReadOnly ::
    "'s Engine \<Rightarrow> 's ParticipantStore \<Rightarrow> string \<Rightarrow> string \<Rightarrow> string \<Rightarrow> 's \<Rightarrow> (werror + string \<times> string) \<times> metric list" where
  "ResolveParticipantRoleReadOnly e participants taskID stepID agentID s =
     resolveParticipantRole e participants taskID stepID agentID False s"

end
