(* ===== verification/Workflow_Engine.thy ===== *)
theory Workflow_Engine
  imports Workflow_Quorum
begin

text \<open>
  The workflow engine itself: handling a trigger (\<open>internal/workflow/engine/engine.go\<close>), recording
  a decision with the re-evaluation of the guarded transitions, and the read-only snapshot of a
  step's quorum (\<open>quorum.go\<close>).
\<close>

section \<open>Inputs and results\<close>

record HandleInput =
  h_TaskID :: string
  h_SessionID :: string
  h_Trigger :: Trigger
  h_OperationID :: string
  h_EvaluateOnly :: bool
  h_DeferOperationMark :: bool
  h_PreloadedState :: "MachineState option"
  h_Payload :: payload
  h_EntryID :: string

record QuorumGuardState =
  qg_TargetStepID :: string
  qg_Role :: string
  qg_Threshold :: string
  qg_RequiredCount :: int
  qg_ReceivedCount :: int
  qg_Satisfied :: bool
  qg_Reason :: string
  qg_Error :: "werror option"

record HandleResult =
  hr_Transitioned :: bool
  hr_FromStepID :: string
  hr_ToStepID :: string
  hr_Guards :: "QuorumGuardState list"
  hr_DataPatch :: data
  hr_Idempotent :: bool
  hr_ActionCount :: int
  hr_TransitionAbandoned :: bool
  hr_OperationMarkDeferred :: bool

definition no_result :: HandleResult where
  "no_result = \<lparr>hr_Transitioned = False, hr_FromStepID = [], hr_ToStepID = [], hr_Guards = [], hr_DataPatch = [],
     hr_Idempotent = False, hr_ActionCount = 0, hr_TransitionAbandoned = False, hr_OperationMarkDeferred = False\<rparr>"

section \<open>Operation marks and targets\<close>

definition isOperationAlreadyApplied :: "'s Engine \<Rightarrow> string \<Rightarrow> 's world \<Rightarrow> werror + bool" where
  "isOperationAlreadyApplied e operationID w =
     (if operationID = [] then Inr False else IsOperationApplied (e_store e) operationID (w_state w))"

definition markOperationApplied :: "'s Engine \<Rightarrow> string \<Rightarrow> 's world \<Rightarrow> werror option \<times> 's world" where
  "markOperationApplied e operationID w =
     (if operationID = [] then (None, w) else call (MarkOperationApplied (e_store e) operationID) w)"

definition markOperationAppliedForInput :: "'s Engine \<Rightarrow> HandleInput \<Rightarrow> 's world \<Rightarrow> werror option \<times> 's world" where
  "markOperationAppliedForInput e inp w =
     (if h_DeferOperationMark inp then (None, w) else markOperationApplied e (h_OperationID inp) w)"

definition loadExecutionState :: "'s Engine \<Rightarrow> HandleInput \<Rightarrow> 's world \<Rightarrow> werror + MachineState" where
  "loadExecutionState e inp w = (case h_PreloadedState inp of
     Some m \<Rightarrow> Inr m | None \<Rightarrow> LoadState (e_store e) (h_TaskID inp) (h_SessionID inp) (w_state w))"

definition commentRetryIsStale :: "HandleInput \<Rightarrow> MachineState \<Rightarrow> bool" where
  "commentRetryIsStale inp m =
     (if h_Trigger inp \<noteq> TriggerOnComment then False
      else (case commentPayload (h_Payload inp) of
          None \<Rightarrow> False
        | Some c \<Rightarrow>
            if cp_RetryWorkflowStepID c = [] then False
            else m_CurrentStepID m \<noteq> cp_RetryWorkflowStepID c
              \<or> m_WorkflowStepTransitionID m \<noteq> cp_RetryWorkflowStepTransitionID c))"

definition resolveTransitionTarget :: "'s Engine \<Rightarrow> MachineState \<Rightarrow> StepSpec \<Rightarrow> Action \<Rightarrow> 's \<Rightarrow> werror + string" where
  "resolveTransitionTarget e m step a s =
     (if a_Kind a = ActionMoveToNext
      then map_sum id ss_ID (LoadNextStep (e_store e) (m_WorkflowID m) (ss_Position step) s)
      else if a_Kind a = ActionMoveToPrevious
      then map_sum id ss_ID (LoadPreviousStep (e_store e) (m_WorkflowID m) (ss_Position step) s)
      else if a_Kind a = ActionMoveToStep
      then (case a_MoveToStep a of
          None \<Rightarrow> Inl (ErrorText ''move_to_step missing target step_id'')
        | Some t \<Rightarrow> if ms_StepID t = [] then Inl (ErrorText ''move_to_step missing target step_id'') else Inr (ms_StepID t))
      else Inr [])"

section \<open>Handling a trigger\<close>

text \<open>\<open>maps.Copy\<close>.\<close>

definition maps_Copy :: "data \<Rightarrow> data \<Rightarrow> data" where
  "maps_Copy dst src = fold (\<lambda>(k, v) m. gm_put k v m) src dst"

definition executeCallback ::
    "'s Engine \<Rightarrow> HandleInput \<Rightarrow> MachineState \<Rightarrow> StepSpec \<Rightarrow> Action \<Rightarrow> data \<Rightarrow> 's world \<Rightarrow> (werror + data) \<times> 's world" where
  "executeCallback e inp m step a dataPatch w =
     (case e_callbacks e (a_Kind a) of
        None \<Rightarrow> (Inr dataPatch, w)
      | Some callback \<Rightarrow>
          (case callback \<lparr>i_Trigger = h_Trigger inp, i_State = m, i_Step = step, i_Action = a, i_Payload = h_Payload inp,
                          i_OperationID = h_OperationID inp, i_EntryID = h_EntryID inp, i_CausingStepTransitionID = []\<rparr> w of
             (Inl err, w') \<Rightarrow> (Inl err, w')
           | (Inr patch, w') \<Rightarrow> (Inr (maps_Copy dataPatch patch), w')))"

text \<open>\<open>filter\<close> is \<open>None\<close> for \<open>HandleTrigger\<close>.\<close>

definition filtered_out :: "(ActionKind \<Rightarrow> bool) option \<Rightarrow> Action \<Rightarrow> bool" where
  "filtered_out flt a = (case flt of None \<Rightarrow> False | Some f \<Rightarrow> \<not> f (a_Kind a))"

fun evaluate_actions ::
    "'s Engine \<Rightarrow> HandleInput \<Rightarrow> MachineState \<Rightarrow> StepSpec \<Rightarrow> (ActionKind \<Rightarrow> bool) option \<Rightarrow> string \<Rightarrow> data
       \<Rightarrow> Action list \<Rightarrow> 's world \<Rightarrow> (werror + string \<times> data) \<times> 's world" where
  "evaluate_actions e inp m step flt target dataPatch [] w = (Inr (target, dataPatch), w)"
| "evaluate_actions e inp m step flt target dataPatch (a # as) w =
     (if filtered_out flt a then evaluate_actions e inp m step flt target dataPatch as w
      else if target = [] \<and> isTransitionAction (a_Kind a) \<and> \<not> a_RequiresApproval a then
        (let (outcome, ms) = evaluateTransitionGuard e m a (w_state w); w1 = record_metrics ms w in
         if \<not> g_Satisfied outcome
         then evaluate_actions e inp m step flt target dataPatch as (record_metrics [GuardNotFired (g_Reason outcome)] w1)
         else (case resolveTransitionTarget e m step a (w_state w1) of
             Inl err \<Rightarrow> (Inl err, w1)
           | Inr resolved \<Rightarrow> evaluate_actions e inp m step flt resolved dataPatch as w1))
      else (case executeCallback e inp m step a dataPatch w of
          (Inl err, w1) \<Rightarrow> (Inl err, w1)
        | (Inr dataPatch', w1) \<Rightarrow> evaluate_actions e inp m step flt target dataPatch' as w1))"

definition evaluateActions ::
    "'s Engine \<Rightarrow> HandleInput \<Rightarrow> MachineState \<Rightarrow> StepSpec \<Rightarrow> Action list \<Rightarrow> (ActionKind \<Rightarrow> bool) option
       \<Rightarrow> 's world \<Rightarrow> (werror + string \<times> data) \<times> 's world" where
  "evaluateActions e inp m step actions flt w = evaluate_actions e inp m step flt [] [] actions w"

definition applyTransition :: "'s Engine \<Rightarrow> HandleInput \<Rightarrow> MachineState \<Rightarrow> string \<Rightarrow> 's world \<Rightarrow> werror option \<times> 's world" where
  "applyTransition e inp m target w =
     call (ApplyTransition (e_store e) (h_TaskID inp) (h_SessionID inp) (m_CurrentStepID m) target (h_Trigger inp)) w"

definition persist_patch :: "'s Engine \<Rightarrow> HandleInput \<Rightarrow> data \<Rightarrow> 's world \<Rightarrow> werror option \<times> 's world" where
  "persist_patch e inp dataPatch w =
     (if 0 < length dataPatch \<and> \<not> h_EvaluateOnly inp
      then call (PersistData (e_store e) (h_SessionID inp) dataPatch) w else (None, w))"

definition processActions ::
    "'s Engine \<Rightarrow> HandleInput \<Rightarrow> MachineState \<Rightarrow> StepSpec \<Rightarrow> Action list \<Rightarrow> (ActionKind \<Rightarrow> bool) option
       \<Rightarrow> 's world \<Rightarrow> (werror + HandleResult) \<times> 's world" where
  "processActions e inp m step actions flt w =
     (case evaluateActions e inp m step actions flt w of
        (Inl err, w1) \<Rightarrow> (Inl err, w1)
      | (Inr (target, dataPatch), w1) \<Rightarrow> (case persist_patch e inp dataPatch w1 of
        (Some err, w2) \<Rightarrow> (Inl err, w2)
      | (None, w2) \<Rightarrow>
         (let result = no_result\<lparr>hr_DataPatch := dataPatch, hr_ActionCount := int (length actions)\<rparr> in
          if target \<noteq> [] \<and> target \<noteq> m_CurrentStepID m then
            (case (if \<not> h_EvaluateOnly inp then applyTransition e inp m target w2 else (None, w2)) of
               (Some err, w3) \<Rightarrow> (Inl err, w3)
             | (None, w3) \<Rightarrow>
                 (Inr (result\<lparr>hr_Transitioned := True, hr_FromStepID := m_CurrentStepID m, hr_ToStepID := target\<rparr>), w3))
          else (Inr result, w2))))"

fun validateActionCallbacks :: "'s Engine \<Rightarrow> (ActionKind \<Rightarrow> bool) option \<Rightarrow> Action list \<Rightarrow> werror option" where
  "validateActionCallbacks e flt [] = None"
| "validateActionCallbacks e flt (a # as) =
     (if filtered_out flt a \<or> isTransitionAction (a_Kind a) then validateActionCallbacks e flt as
      else (case e_callbacks e (a_Kind a) of
          None \<Rightarrow> Some (ErrActionNotYetWired (''action '' @ a_Kind a @ '' has no registered callback''))
        | Some c \<Rightarrow> validateActionCallbacks e flt as))"

text \<open>A result beside the error of a last mark: the code returns both.\<close>

definition with_mark :: "HandleResult \<Rightarrow> werror option \<times> 's world \<Rightarrow> (HandleResult \<times> werror option) \<times> 's world" where
  "with_mark result marked = (case marked of (err, w) \<Rightarrow> ((result, err), w))"

abbreviation failed :: "werror \<Rightarrow> 's world \<Rightarrow> (HandleResult \<times> werror option) \<times> 's world" where
  "failed err w \<equiv> ((no_result, Some err), w)"

text \<open>The error of a fan-out that a comment started carries the visit of the step it was evaluated at.\<close>

definition comment_error :: "HandleInput \<Rightarrow> MachineState \<Rightarrow> werror \<Rightarrow> werror" where
  "comment_error inp m err =
     (if h_Trigger inp = TriggerOnComment \<and> is_fan_out_incomplete err
      then CommentFanOutIncompleteError (m_CurrentStepID m) (m_WorkflowStepTransitionID m) err else err)"

definition handleTrigger ::
    "'s Engine \<Rightarrow> HandleInput \<Rightarrow> (ActionKind \<Rightarrow> bool) option \<Rightarrow> 's world \<Rightarrow> (HandleResult \<times> werror option) \<times> 's world" where
  "handleTrigger e inp flt w =
     (if h_TaskID inp = [] \<or> h_SessionID inp = [] then failed (ErrorText ''task_id and session_id are required'') w
      else (case isOperationAlreadyApplied e (h_OperationID inp) w of
        Inl err \<Rightarrow> failed err w
      | Inr True \<Rightarrow> ((no_result\<lparr>hr_Idempotent := True\<rparr>, None), w)
      | Inr False \<Rightarrow> (case loadExecutionState e inp w of
        Inl err \<Rightarrow> failed err w
      | Inr m \<Rightarrow>
         if commentRetryIsStale inp m then with_mark no_result (markOperationAppliedForInput e inp w)
         else (case LoadStep (e_store e) (m_WorkflowID m) (m_CurrentStepID m) (w_state w) of
           Inl err \<Rightarrow> failed err w
         | Inr step \<Rightarrow>
            (let actions = step_actions step (h_Trigger inp);
                 missing = (if h_OperationID inp \<noteq> [] then validateActionCallbacks e flt actions else None) in
             case missing of
               Some err \<Rightarrow> failed err w
             | None \<Rightarrow>
                if actions = [] then with_mark no_result (markOperationAppliedForInput e inp w)
                else (case processActions e inp m step actions flt w of
                  (Inl err, w1) \<Rightarrow> failed (comment_error inp m err) w1
                | (Inr result, w1) \<Rightarrow>
                    if h_EvaluateOnly inp \<and> hr_Transitioned result
                    then ((result\<lparr>hr_OperationMarkDeferred := h_OperationID inp \<noteq> []\<rparr>, None), w1)
                    else with_mark result (markOperationAppliedForInput e inp w1)))))))"

definition HandleTrigger :: "'s Engine \<Rightarrow> HandleInput \<Rightarrow> 's world \<Rightarrow> (HandleResult \<times> werror option) \<times> 's world" where
  "HandleTrigger e inp w = handleTrigger e inp None w"

end
