(* ===== verification/Workflow_Entry.thy ===== *)
theory Workflow_Entry
  imports Workflow_Engine
begin

text \<open>
  Entering a step: the declaration of which dispatcher owns which kind of action and the allocation
  of markers (\<open>internal/workflow/stepentry/stepentry.go\<close>), and the dispatch of the
  session-independent actions of a committed arrival
  (\<open>internal/workflow/engine/entrydispatch.go\<close>).  The digest function is an argument.
\<close>

section \<open>Ownership of step-entry actions\<close>

datatype Dispatcher = DispatcherLedger | DispatcherMarker

record Ownership =
  ow_Dispatcher :: Dispatcher
  ow_MarkerBearing :: bool

definition owned_by :: "Dispatcher \<Rightarrow> bool \<Rightarrow> Ownership" where
  "owned_by d b = \<lparr>ow_Dispatcher = d, ow_MarkerBearing = b\<rparr>"

definition ownershipTable :: "(string, Ownership) gomap" where
  "ownershipTable =
     [(''clear_decisions'', owned_by DispatcherLedger True),
      (''queue_run_for_each_participant'', owned_by DispatcherLedger True),
      (''queue_run'', owned_by DispatcherLedger False),
      (''run_code_review'', owned_by DispatcherLedger False),
      (''ensure_participant_seat'', owned_by DispatcherLedger False),
      (''enable_plan_mode'', owned_by DispatcherMarker False),
      (''auto_start_agent'', owned_by DispatcherMarker False),
      (''reset_agent_context'', owned_by DispatcherMarker False),
      (''set_session_mode'', owned_by DispatcherMarker False),
      (''configure_session'', owned_by DispatcherMarker False)]"

definition Owner :: "string \<Rightarrow> Ownership option" where
  "Owner kind = gm_get ownershipTable kind"

definition OwnedByLedger :: "string \<Rightarrow> bool" where
  "OwnedByLedger kind = (case Owner kind of None \<Rightarrow> False | Some ow \<Rightarrow> ow_Dispatcher ow = DispatcherLedger)"

definition OwnedByMarker :: "string \<Rightarrow> bool" where
  "OwnedByMarker kind = (case Owner kind of None \<Rightarrow> False | Some ow \<Rightarrow> ow_Dispatcher ow = DispatcherMarker)"

definition MarkerBearing :: "string \<Rightarrow> bool" where
  "MarkerBearing kind = (case Owner kind of None \<Rightarrow> False | Some ow \<Rightarrow> ow_MarkerBearing ow)"

definition IsMarkerBearing :: "string \<Rightarrow> bool" where
  "IsMarkerBearing t = MarkerBearing t"

text \<open>\<open>None\<close> asks for the kinds of both dispatchers.\<close>

definition KnownKinds :: "Dispatcher option \<Rightarrow> string list" where
  "KnownKinds d = map fst (filter (\<lambda>(k, ow). d = None \<or> d = Some (ow_Dispatcher ow)) ownershipTable)"

section \<open>Allocation of markers\<close>

record EnginePosition =
  ep_Position :: nat
  ep_Kind :: string

record PendingAllocation =
  pa_StepID :: string
  pa_Digest :: string
  pa_Positions :: "EnginePosition list"

definition ComputeDigest :: "(string \<Rightarrow> string) \<Rightarrow> GenericAction list \<Rightarrow> string" where
  "ComputeDigest sha256_hex actions = sha256_hex
     (join_with [CHR 0x0A] (map (\<lambda>(i, a). Itoa i @ '':'' @ ga_Type a) (enumerate 0 actions)))"

definition marker_positions :: "nat \<Rightarrow> GenericAction list \<Rightarrow> EnginePosition list" where
  "marker_positions i actions =
     map (\<lambda>(k, a). \<lparr>ep_Position = k, ep_Kind = ga_Type a\<rparr>) (filter (\<lambda>(k, a). IsMarkerBearing (ga_Type a)) (enumerate i actions))"

definition BuildPendingAllocation :: "(string \<Rightarrow> string) \<Rightarrow> string \<Rightarrow> GenericAction list \<Rightarrow> PendingAllocation option" where
  "BuildPendingAllocation sha256_hex stepID actions =
     (let positions = marker_positions 0 actions in
      if positions = [] then None
      else Some \<lparr>pa_StepID = stepID, pa_Digest = ComputeDigest sha256_hex actions, pa_Positions = positions\<rparr>)"

definition SerializePositions :: "EnginePosition list \<Rightarrow> string" where
  "SerializePositions positions = join_with '','' (map (\<lambda>p. Itoa (ep_Position p)) positions)"

section \<open>Dispatch\<close>

definition isSessionShapedActionKind :: "ActionKind \<Rightarrow> bool" where
  "isSessionShapedActionKind kind = OwnedByMarker kind"

definition isSessionIndependentActionKind :: "ActionKind \<Rightarrow> bool" where
  "isSessionIndependentActionKind kind = OwnedByLedger kind"

definition HandleTriggerSessionShapedOnly ::
    "'s Engine \<Rightarrow> HandleInput \<Rightarrow> 's world \<Rightarrow> (HandleResult \<times> werror option) \<times> 's world" where
  "HandleTriggerSessionShapedOnly e inp w = handleTrigger e inp (Some isSessionShapedActionKind) w"

record StepEntryActionResult =
  sr_Kind :: ActionKind
  sr_Err :: "werror option"

definition executeStepEntryAction ::
    "'s Engine \<Rightarrow> MachineState \<Rightarrow> StepSpec \<Rightarrow> Action \<Rightarrow> string \<Rightarrow> 's world \<Rightarrow> werror option \<times> 's world" where
  "executeStepEntryAction e m step a entryID w =
     (case e_callbacks e (a_Kind a) of
        None \<Rightarrow> (None, w)
      | Some callback \<Rightarrow>
          (case callback \<lparr>i_Trigger = TriggerOnEnter, i_State = m, i_Step = step, i_Action = a, i_Payload = NoPayload,
                          i_OperationID = [], i_EntryID = entryID, i_CausingStepTransitionID = entryID\<rparr> w of
             (Inl err, w') \<Rightarrow> (Some err, w') | (Inr patch, w') \<Rightarrow> (None, w')))"

text \<open>The role that \<open>seenEnsureParticipantSeatRole\<close> compares.\<close>

definition seat_role :: "Action \<Rightarrow> string" where
  "seat_role a = (case a_EnsureParticipantSeat a of None \<Rightarrow> [] | Some c \<Rightarrow> TrimSpace (es_Role c))"

fun dispatch_actions ::
    "'s Engine \<Rightarrow> string \<Rightarrow> MachineState \<Rightarrow> StepSpec \<Rightarrow> string \<Rightarrow> int \<Rightarrow> string list \<Rightarrow> Action list \<Rightarrow> 's world
       \<Rightarrow> StepEntryActionResult list \<times> 's world" where
  "dispatch_actions e taskID m step entryID markerEntryID seen [] w = ([], w)"
| "dispatch_actions e taskID m step entryID markerEntryID seen (a # as) w =
     (if \<not> isSessionIndependentActionKind (a_Kind a)
      then dispatch_actions e taskID m step entryID markerEntryID seen as w
      else if a_Kind a = ActionEnsureParticipantSeat \<and> seat_role a \<in> set seen
      then dispatch_actions e taskID m step entryID markerEntryID seen as w
      else
       (let seen' = (if a_Kind a = ActionEnsureParticipantSeat then seat_role a # seen else seen);
            direct = (case executeStepEntryAction e m step a entryID w of (err, w1) \<Rightarrow>
              (case dispatch_actions e taskID m step entryID markerEntryID seen' as w1 of
                 (results, w2) \<Rightarrow> (\<lparr>sr_Kind = a_Kind a, sr_Err = err\<rparr> # results, w2))) in
        case e_markerExecutor e of
          None \<Rightarrow> direct
        | Some executor \<Rightarrow>
            if markerEntryID \<noteq> 0 \<and> MarkerBearing (a_Kind a) then
              (case executor taskID step a (a_DeclaredPosition a) entryID markerEntryID w of
                 ((True, err), w1) \<Rightarrow> ([], w1)
               | ((False, Some err), w1) \<Rightarrow> ([\<lparr>sr_Kind = a_Kind a, sr_Err = Some err\<rparr>], w1)
               | ((False, None), w1) \<Rightarrow>
                   (case dispatch_actions e taskID m step entryID markerEntryID seen' as w1 of
                      (results, w2) \<Rightarrow> (\<lparr>sr_Kind = a_Kind a, sr_Err = None\<rparr> # results, w2)))
            else direct))"

definition DispatchStepEntry ::
    "'s Engine \<Rightarrow> string \<Rightarrow> string \<Rightarrow> string \<Rightarrow> string \<Rightarrow> int \<Rightarrow> 's world \<Rightarrow> StepEntryActionResult list \<times> 's world" where
  "DispatchStepEntry e taskID workflowID stepID entryID markerEntryID w =
     (case LoadStep (e_store e) workflowID stepID (w_state w) of
        Inl err \<Rightarrow> ([\<lparr>sr_Kind = [], sr_Err = Some err\<rparr>], w)
      | Inr step \<Rightarrow>
          (let actions = step_actions step TriggerOnEnter in
           if actions = [] then ([], w)
           else dispatch_actions e taskID
                  (no_state\<lparr>m_TaskID := taskID, m_WorkflowID := workflowID, m_CurrentStepID := stepID\<rparr>)
                  step entryID markerEntryID [] actions w))"

end
