(* ===== verification/Workflow_Callbacks.thy ===== *)
theory Workflow_Callbacks
  imports Workflow_Entry
begin

text \<open>
  The callbacks of the engine's actions (\<open>internal/workflow/engine/phase2_callbacks.go\<close> and
  \<open>phase8_callbacks.go\<close>): queueing runs, the fan-out over participants, clearing decisions, seating
  a participant, creating a child task and switching the workflow.

  The digest of an action's key (\<open>json.Marshal\<close>, \<open>sha256\<close> and the first eight bytes in hex) is the
  argument \<open>digest\<close>, a function of the marshalled fields.
\<close>

section \<open>Keys, reasons and payloads of queued runs\<close>

abbreviation TargetPrimary :: string where "TargetPrimary \<equiv> ''primary''"
abbreviation TargetParticipant :: string where "TargetParticipant \<equiv> ''participant_role:''"
abbreviation TargetAgentProfile :: string where "TargetAgentProfile \<equiv> ''agent_profile_id:''"
abbreviation TargetWorkspaceCEO :: string where "TargetWorkspaceCEO \<equiv> ''workspace.ceo_agent''"
abbreviation TaskIDThis :: string where "TaskIDThis \<equiv> ''this''"
abbreviation reasonTaskChildrenCompleted :: string where "reasonTaskChildrenCompleted \<equiv> ''task_children_completed''"

definition resolveTaskID :: "string \<Rightarrow> string \<Rightarrow> string" where
  "resolveTaskID target currentTaskID =
     (let t = TrimSpace target in if t = [] \<or> t = TaskIDThis then currentTaskID else t)"

definition queueRunReason :: "ActionInput \<Rightarrow> string" where
  "queueRunReason inp =
     (let reason = (case a_QueueRun (i_Action inp) of None \<Rightarrow> [] | Some q \<Rightarrow> qr_Reason q) in
      if reason \<noteq> [] then reason else if i_Trigger inp \<noteq> [] then i_Trigger inp else ''queue_run'')"

definition queueRunForEachParticipantReason :: "ActionInput \<Rightarrow> string" where
  "queueRunForEachParticipantReason inp =
     (let reason = (case a_QueueRunForEachParticipant (i_Action inp) of None \<Rightarrow> [] | Some q \<Rightarrow> fp_Reason q) in
      if reason \<noteq> [] then reason else i_Trigger inp)"

record action_key =
  k_Kind :: ActionKind
  k_Target :: string
  k_TaskID :: string
  k_Role :: string
  k_Reason :: string
  k_Payload :: data
  k_SkipDecided :: bool

definition queue_action_key :: "ActionInput \<Rightarrow> action_key" where
  "queue_action_key inp =
     (let kind = a_Kind (i_Action inp);
          key = \<lparr>k_Kind = kind, k_Target = [], k_TaskID = [], k_Role = [], k_Reason = [], k_Payload = [], k_SkipDecided = False\<rparr> in
      if kind = ActionQueueRun then
        (case a_QueueRun (i_Action inp) of None \<Rightarrow> key | Some q \<Rightarrow>
           key\<lparr>k_Target := TrimSpace (qr_Target q), k_TaskID := TrimSpace (qr_TaskID q), k_Reason := queueRunReason inp,
               k_Payload := qr_Payload q\<rparr>)
      else if kind = ActionQueueRunForEachParticipant then
        (case a_QueueRunForEachParticipant (i_Action inp) of None \<Rightarrow> key | Some q \<Rightarrow>
           key\<lparr>k_Role := TrimSpace (fp_Role q), k_Reason := queueRunForEachParticipantReason inp,
               k_Payload := fp_Payload q, k_SkipDecided := fp_SkipDecided q\<rparr>)
      else key)"

definition queueActionDigest :: "(action_key \<Rightarrow> string) \<Rightarrow> ActionInput \<Rightarrow> string" where
  "queueActionDigest digest inp = digest (queue_action_key inp)"

definition idempotencyKey :: "(action_key \<Rightarrow> string) \<Rightarrow> ActionInput \<Rightarrow> string \<Rightarrow> string \<Rightarrow> string" where
  "idempotencyKey digest inp agentID taskID =
     (let opKey = (if i_EntryID inp = [] then i_OperationID inp else i_EntryID inp) in
      if opKey = [] then []
      else opKey @ '':'' @ ss_ID (i_Step inp) @ '':'' @ taskID @ '':'' @ agentID @ '':'' @ queueActionDigest digest inp)"

definition HasTaskCommentPrefix :: "string \<Rightarrow> bool" where
  "HasTaskCommentPrefix key = HasPrefix key ''task_comment:''"

definition put_nonempty :: "string \<Rightarrow> string \<Rightarrow> data \<Rightarrow> data" where
  "put_nonempty k v m = (if v \<noteq> [] then gm_put k (GStr v) m else m)"

definition queueRunPayload :: "ActionInput \<Rightarrow> data \<Rightarrow> string \<Rightarrow> data" where
  "queueRunPayload inp actionPayload targetTaskID =
     (let comment = commentPayload (i_Payload inp);
          task = m_TaskID (i_State inp);
          o1 = (case comment of None \<Rightarrow> [] | Some c \<Rightarrow>
                 put_nonempty ''author_id'' (cp_AuthorID c) (put_nonempty ''comment_id'' (cp_CommentID c) []));
          o2 = (case agentErrorPayload (i_Payload inp) of None \<Rightarrow> o1 | Some a \<Rightarrow>
                 put_nonempty ''error'' (ae_ErrorMessage a)
                   (put_nonempty ''failed_session_id'' (ae_FailedSessionID a)
                     (put_nonempty ''failed_agent_id'' (ae_FailedAgentID a) o1)));
          o3 = maps_Copy o2 actionPayload;
          o4 = (if targetTaskID \<noteq> [] \<and> task \<noteq> [] \<and> targetTaskID \<noteq> task \<and> (comment \<noteq> None \<or> HasTaskCommentPrefix (i_OperationID inp))
                then gm_put ''source_task_id'' (GStr task) o3 else o3)
      in if comment \<noteq> None \<and> targetTaskID = task
         then gm_put ''workflow_step_transition_id'' (GStr (FormatInt (m_WorkflowStepTransitionID (i_State inp)))) o4 else o4)"

definition run_request :: "(action_key \<Rightarrow> string) \<Rightarrow> ActionInput \<Rightarrow> string \<Rightarrow> string \<Rightarrow> string \<Rightarrow> string \<Rightarrow> data \<Rightarrow> string \<times> string \<Rightarrow> QueueRunRequest" where
  "run_request digest inp agentID taskID stepID reason payload wave =
     \<lparr>q_AgentProfileID = agentID, q_TaskID = taskID, q_CausingTaskID = m_TaskID (i_State inp), q_WorkflowStepID = stepID,
      q_Reason = reason, q_IdempotencyKey = idempotencyKey digest inp agentID taskID,
      q_Payload = queueRunPayload inp payload taskID, q_CausingAgentProfileID = m_AgentProfileID (i_State inp),
      q_CausingStepTransitionID = i_CausingStepTransitionID inp, q_WaveKey = fst wave, q_WaveString = snd wave\<rparr>"

section \<open>Seats of a fan-out\<close>

definition roleSeatsForFanOut ::
    "'s ParticipantStore \<Rightarrow> string \<Rightarrow> string \<Rightarrow> string \<Rightarrow> string \<Rightarrow> 's \<Rightarrow> werror + ParticipantInfo list" where
  "roleSeatsForFanOut store stepID taskID workflowID role s =
     map_sum id (\<lambda>gathered.
       sort_key (\<lambda>p. (p_Position p, p_AgentProfileID p))
         (collapseByRoleAgent (canonicalizeByTaskRoleAgent (filter (\<lambda>p. p_Role p = role) gathered) stepID)))
       (gatherParticipantSlate store stepID taskID workflowID s)"

definition ResolveFanOutSeats ::
    "'s ParticipantStore \<Rightarrow> string \<Rightarrow> string \<Rightarrow> string \<Rightarrow> string \<Rightarrow> 's \<Rightarrow> werror + ParticipantInfo list" where
  "ResolveFanOutSeats store stepID taskID workflowID role s = roleSeatsForFanOut store stepID taskID workflowID role s"

section \<open>queue_run\<close>

record 's QueueRunCallback =
  qc_Adapter :: "'s RunQueueAdapter option"
  qc_Participants :: "'s ParticipantStore option"
  qc_CEOResolver :: "'s CEOAgentResolver option"
  qc_Primary :: "'s PrimaryAgentResolver option"
  qc_TaskSteps :: "'s TargetTaskStepResolver option"

text \<open>The first argument is the step resolver that the value itself implements, if any.\<close>

definition pickStepResolver :: "'s TargetTaskStepResolver option \<Rightarrow> 's TargetTaskStepResolver option \<Rightarrow> 's TargetTaskStepResolver option" where
  "pickStepResolver v fallback = (case v of Some resolver \<Rightarrow> Some resolver | None \<Rightarrow> fallback)"

definition resolveTargetStepID ::
    "ActionInput \<Rightarrow> string \<Rightarrow> 's TargetTaskStepResolver option \<Rightarrow> 's \<Rightarrow> werror + string" where
  "resolveTargetStepID inp taskID resolver s =
     (if taskID = m_TaskID (i_State inp) then Inr (ss_ID (i_Step inp))
      else (case resolver of
          None \<Rightarrow> Inl (ErrActionNotYetWired ''queue_run cross-task target requires TargetTaskStepResolver'')
        | Some r \<Rightarrow> (case r taskID s of
            Inl err \<Rightarrow> Inl (ErrorWrap ''queue_run resolve target task step'' err)
          | Inr stepID \<Rightarrow>
              if stepID = [] then Inl (ErrorText (''queue_run: task '' @ taskID @ '' has no workflow step'')) else Inr stepID)))"

definition resolvePrimary :: "'s QueueRunCallback \<Rightarrow> string \<Rightarrow> string \<Rightarrow> 's \<Rightarrow> werror + string list" where
  "resolvePrimary c taskID stepID s = (case qc_Primary c of
       None \<Rightarrow> Inl (ErrActionNotYetWired ''queue_run target=primary requires PrimaryAgentResolver'')
     | Some primary \<Rightarrow> (case PrimaryAgentProfileID primary stepID taskID s of
         Inl err \<Rightarrow> Inl (ErrorWrap ''queue_run resolve primary'' err)
       | Inr agent \<Rightarrow>
           if agent = [] then Inl (ErrorText (''queue_run: step '' @ stepID @ '' has no primary agent profile'')) else Inr [agent]))"

definition no_participants :: "string \<Rightarrow> string \<Rightarrow> werror" where
  "no_participants role stepID = ErrorText (''queue_run: no participants with role '' @ role @ '' on step '' @ stepID)"

definition callback_resolveParticipantRole :: "'s QueueRunCallback \<Rightarrow> string \<Rightarrow> string \<Rightarrow> string \<Rightarrow> string \<Rightarrow> 's \<Rightarrow> werror + string list" where
  "callback_resolveParticipantRole c stepID taskID workflowID role s = (case qc_Participants c of
       None \<Rightarrow> Inl (ErrActionNotYetWired ''queue_run target=participant_role requires ParticipantStore'')
     | Some store \<Rightarrow> (case roleSeatsForFanOut store stepID taskID workflowID role s of
         Inl err \<Rightarrow> Inl (ErrorWrap ''queue_run list participants'' err)
       | Inr seats \<Rightarrow>
           (let ids = map p_AgentProfileID seats in if ids = [] then Inl (no_participants role stepID) else Inr ids)))"

definition resolveParticipantRoleStepScoped :: "'s QueueRunCallback \<Rightarrow> string \<Rightarrow> string \<Rightarrow> string \<Rightarrow> 's \<Rightarrow> werror + string list" where
  "resolveParticipantRoleStepScoped c stepID taskID role s = (case qc_Participants c of
       None \<Rightarrow> Inl (ErrActionNotYetWired ''queue_run target=participant_role requires ParticipantStore'')
     | Some store \<Rightarrow> (case ListStepParticipants store stepID taskID s of
         Inl err \<Rightarrow> Inl (ErrorWrap ''queue_run list participants'' err)
       | Inr rows \<Rightarrow>
           (let ids = map p_AgentProfileID (filter (\<lambda>p. p_Role p = role) rows) in
            if ids = [] then Inl (no_participants role stepID) else Inr ids)))"

definition resolveCEO :: "'s QueueRunCallback \<Rightarrow> ActionInput \<Rightarrow> string \<Rightarrow> 's \<Rightarrow> werror + string list" where
  "resolveCEO c inp taskID s = (case qc_CEOResolver c of
       None \<Rightarrow> Inl (ErrActionNotYetWired ''queue_run target=workspace.ceo_agent requires CEOAgentResolver'')
     | Some resolver \<Rightarrow> (case resolver taskID s of
         Inl err \<Rightarrow> Inl (ErrorWrap ''queue_run resolve workspace.ceo_agent'' err)
       | Inr agent \<Rightarrow>
           if agent = [] then Inl (ErrorText (''queue_run: workspace has no CEO agent profile for task '' @ taskID))
           else if i_Trigger inp = TriggerOnAgentError
             \<and> (case agentErrorPayload (i_Payload inp) of None \<Rightarrow> False | Some a \<Rightarrow> ae_FailedAgentID a = agent)
           then Inr [] else Inr [agent]))"

text \<open>The agents of a target and the step of their runs.\<close>

definition resolveTarget :: "'s QueueRunCallback \<Rightarrow> ActionInput \<Rightarrow> QueueRunAction \<Rightarrow> string \<Rightarrow> 's \<Rightarrow> werror + string list \<times> string" where
  "resolveTarget c inp q taskID s =
     (let target = TrimSpace (qr_Target q);
          own_step = (\<lambda>opt. case opt of None \<Rightarrow> None | Some r \<Rightarrow> r);
          at_step = (\<lambda>resolver agents. (case resolveTargetStepID inp taskID resolver s of
             Inl err \<Rightarrow> Inl err | Inr stepID \<Rightarrow> map_sum id (\<lambda>ids. (ids, stepID)) (agents stepID))) in
      if target = [] \<or> target = TargetPrimary then
        at_step (pickStepResolver (own_step (map_option PrimaryStepIDForTask (qc_Primary c))) (qc_TaskSteps c))
          (\<lambda>stepID. resolvePrimary c taskID stepID s)
      else if HasPrefix target TargetParticipant then
        (let role = TrimPrefix target TargetParticipant in
         at_step (pickStepResolver (own_step (map_option ParticipantsStepIDForTask (qc_Participants c))) (qc_TaskSteps c))
           (\<lambda>stepID. if taskID = m_TaskID (i_State inp)
                     then callback_resolveParticipantRole c stepID taskID (m_WorkflowID (i_State inp)) role s
                     else resolveParticipantRoleStepScoped c stepID taskID role s))
      else if HasPrefix target TargetAgentProfile then
        (let agent = TrimPrefix target TargetAgentProfile in
         if agent = [] then Inl (ErrorText ''queue_run agent_profile_id target is empty'')
         else at_step (qc_TaskSteps c) (\<lambda>stepID. Inr [agent]))
      else if target = TargetWorkspaceCEO then at_step (qc_TaskSteps c) (\<lambda>stepID. resolveCEO c inp taskID s)
      else Inl (ErrorText (''queue_run: unsupported target '' @ target)))"

text \<open>The loop over the agents: the first refused request ends it.\<close>

fun queue_runs :: "'s RunQueueAdapter \<Rightarrow> (string \<Rightarrow> QueueRunRequest) \<Rightarrow> string list \<Rightarrow> 's world \<Rightarrow> (werror + data) \<times> 's world" where
  "queue_runs adapter req [] w = (Inr [], w)"
| "queue_runs adapter req (agent # agents) w =
     (case call (adapter (req agent)) w of
        (Inl err, w1) \<Rightarrow> (Inl (ErrorWrap (''queue_run for agent '' @ agent) err), w1)
      | (Inr outcome, w1) \<Rightarrow> queue_runs adapter req agents w1)"

definition QueueRunCallback_Execute :: "(action_key \<Rightarrow> string) \<Rightarrow> 's QueueRunCallback \<Rightarrow> 's ActionCallback" where
  "QueueRunCallback_Execute digest c inp w = (case qc_Adapter c of
       None \<Rightarrow> (Inl (ErrActionNotYetWired ''queue_run requires RunQueueAdapter''), w)
     | Some adapter \<Rightarrow> (case a_QueueRun (i_Action inp) of
         None \<Rightarrow> (Inl (ErrorText ''queue_run action missing QueueRun config''), w)
       | Some q \<Rightarrow>
          (let taskID = resolveTaskID (qr_TaskID q) (m_TaskID (i_State inp)) in
           case resolveTarget c inp q taskID (w_state w) of
             Inl err \<Rightarrow> (Inl err, w)
           | Inr (agentIDs, stepID) \<Rightarrow>
              (let reason = queueRunReason inp;
                   wave = (if reason = reasonTaskChildrenCompleted \<and> taskID = m_TaskID (i_State inp)
                           then waveIdentityPayload (i_Payload inp) else ([], [])) in
               queue_runs adapter (\<lambda>agent. run_request digest inp agent taskID stepID reason (qr_Payload q) wave) agentIDs w))))"

section \<open>clear_decisions\<close>

definition ClearDecisionsCallback_Execute :: "'s DecisionStore option \<Rightarrow> 's ActionCallback" where
  "ClearDecisionsCallback_Execute decisions inp w = (case decisions of
       None \<Rightarrow> (Inl (ErrActionNotYetWired ''clear_decisions requires DecisionStore''), w)
     | Some store \<Rightarrow> (case call (ClearStepDecisions store (m_TaskID (i_State inp)) (ss_ID (i_Step inp))) w of
         (Inl err, w1) \<Rightarrow> (Inl (ErrorWrap ''clear_decisions'' err), w1)
       | (Inr n, w1) \<Rightarrow> (Inr [], w1)))"

section \<open>queue_run_for_each_participant\<close>

record 's QueueRunForEachParticipantCallback =
  fc_Adapter :: "'s RunQueueAdapter option"
  fc_Participants :: "'s ParticipantStore option"
  fc_Decisions :: "'s DecisionStore option"

definition wrapCommentFanOut :: "ActionInput \<Rightarrow> string \<Rightarrow> string \<Rightarrow> werror \<Rightarrow> werror" where
  "wrapCommentFanOut inp taskID role err =
     (if i_Trigger inp \<noteq> TriggerOnComment then err else ErrCommentFanOutIncomplete taskID (ss_ID (i_Step inp)) role err)"

definition excludeCommentAuthor :: "ActionInput \<Rightarrow> ParticipantInfo list \<Rightarrow> ParticipantInfo list" where
  "excludeCommentAuthor inp seats = (case commentPayload (i_Payload inp) of
       None \<Rightarrow> seats
     | Some c \<Rightarrow> if cp_AuthorID c = [] then seats else filter (\<lambda>s. p_AgentProfileID s \<noteq> cp_AuthorID c) seats)"

definition excludeDecidedSeats ::
    "'s QueueRunForEachParticipantCallback \<Rightarrow> ActionInput \<Rightarrow> string \<Rightarrow> ParticipantInfo list \<Rightarrow> 's \<Rightarrow> ParticipantInfo list" where
  "excludeDecidedSeats c inp taskID seats s = (case fc_Decisions c of
       None \<Rightarrow> seats
     | Some store \<Rightarrow> (case ListStepDecisions store taskID (ss_ID (i_Step inp)) s of
         Inl err \<Rightarrow> seats
       | Inr decisions \<Rightarrow>
          (let decided = mapDecisionsToSeats seats (filter (\<lambda>d. d_SupersededAt d = None) decisions) in
           filter (\<lambda>seat. \<not> gm_has decided (p_ID seat)) seats)))"

definition filterFanOutSeats ::
    "'s QueueRunForEachParticipantCallback \<Rightarrow> ActionInput \<Rightarrow> string \<Rightarrow> QueueRunForEachParticipantAction
       \<Rightarrow> ParticipantInfo list \<Rightarrow> 's \<Rightarrow> ParticipantInfo list" where
  "filterFanOutSeats c inp taskID cfg seats s =
     (if \<not> fp_SkipDecided cfg then excludeCommentAuthor inp seats
      else excludeDecidedSeats c inp taskID (excludeCommentAuthor inp seats) s)"

text \<open>The loop over the seats: every seat gets its request, and the errors are collected.\<close>

fun fan_out :: "'s RunQueueAdapter \<Rightarrow> (string \<Rightarrow> QueueRunRequest) \<Rightarrow> ParticipantInfo list \<Rightarrow> 's world \<Rightarrow> werror list \<times> 's world" where
  "fan_out adapter req [] w = ([], w)"
| "fan_out adapter req (p # ps) w =
     (case call (adapter (req (p_AgentProfileID p))) w of (res, w1) \<Rightarrow>
       (case fan_out adapter req ps w1 of (errs, w2) \<Rightarrow>
          ((case res of Inl err \<Rightarrow> [ErrorWrap (''queue_run for participant '' @ p_ID p) err] | Inr outcome \<Rightarrow> []) @ errs, w2)))"

definition QueueRunForEachParticipantCallback_Execute ::
    "(action_key \<Rightarrow> string) \<Rightarrow> 's QueueRunForEachParticipantCallback \<Rightarrow> 's ActionCallback" where
  "QueueRunForEachParticipantCallback_Execute digest c inp w =
     (let cfg = a_QueueRunForEachParticipant (i_Action inp);
          role = (case cfg of None \<Rightarrow> [] | Some f \<Rightarrow> fp_Role f);
          taskID = m_TaskID (i_State inp);
          fail = (\<lambda>err v. (Inl (wrapCommentFanOut inp taskID role err), v)) in
      case fc_Adapter c of
        None \<Rightarrow> fail (ErrActionNotYetWired ''queue_run_for_each_participant requires RunQueueAdapter'') w
      | Some adapter \<Rightarrow> (case fc_Participants c of
        None \<Rightarrow> fail (ErrActionNotYetWired ''queue_run_for_each_participant requires ParticipantStore'') w
      | Some store \<Rightarrow> (case cfg of
        None \<Rightarrow> fail (ErrorText ''queue_run_for_each_participant missing role'') w
      | Some f \<Rightarrow>
         if fp_Role f = [] then fail (ErrorText ''queue_run_for_each_participant missing role'') w
         else (case roleSeatsForFanOut store (ss_ID (i_Step inp)) taskID (m_WorkflowID (i_State inp)) (fp_Role f) (w_state w) of
           Inl err \<Rightarrow> fail (ErrorWrap ''queue_run_for_each_participant list participants'' err) w
         | Inr all_seats \<Rightarrow>
            (let seats = filterFanOutSeats c inp taskID f all_seats (w_state w);
                 reason = queueRunForEachParticipantReason inp;
                 wave = (if reason = reasonTaskChildrenCompleted then waveIdentityPayload (i_Payload inp) else ([], [])) in
             case fan_out adapter (\<lambda>agent. run_request digest inp agent taskID (ss_ID (i_Step inp)) reason (fp_Payload f) wave) seats w of
               (errs, w1) \<Rightarrow> if 0 < length errs then fail (ErrorJoin errs) w1 else (Inr [], w1))))))"

section \<open>ensure_participant_seat\<close>

record 's EnsureParticipantSeatCallback =
  ec_Writer :: "'s ParticipantSeatWriter option"
  ec_Caster :: "'s ParticipantSeatCaster option"

abbreviation SeatOutcomeSeated :: string where "SeatOutcomeSeated \<equiv> ''seated''"
abbreviation SeatOutcomeAlreadySeated :: string where "SeatOutcomeAlreadySeated \<equiv> ''already_seated''"
abbreviation SeatOutcomeNoRunner :: string where "SeatOutcomeNoRunner \<equiv> ''no_runner''"
abbreviation SeatOutcomeError :: string where "SeatOutcomeError \<equiv> ''error''"
abbreviation SeatOutcomeMalformedConfig :: string where "SeatOutcomeMalformedConfig \<equiv> ''malformed_config''"

definition EnsureParticipantSeatCallback_Execute :: "'s EnsureParticipantSeatCallback \<Rightarrow> 's ActionCallback" where
  "EnsureParticipantSeatCallback_Execute c inp w =
     (let taskID = m_TaskID (i_State inp); stepID = ss_ID (i_Step inp); workflowID = m_WorkflowID (i_State inp);
          role = seat_role (i_Action inp);
          failed = (\<lambda>err v. (Inl err, record_metrics [SeatEnsureOutcome role SeatOutcomeError] v)) in
      if role = [] \<or> \<not> ValidParticipantRole role
      then (Inl (ErrMalformedParticipantRole role), record_metrics [SeatEnsureOutcome SeatRoleLabelInvalid SeatOutcomeMalformedConfig] w)
      else (case ec_Writer c of
        None \<Rightarrow> failed (ErrActionNotYetWired ''ensure_participant_seat requires ParticipantSeatWriter'') w
      | Some writer \<Rightarrow> (case HasRoleSeatForTaskWorkflow writer workflowID taskID role (w_state w) of
        Inl err \<Rightarrow> failed (ErrorWrap ''ensure_participant_seat check existing seat'' err) w
      | Inr True \<Rightarrow> (Inr [], record_metrics [SeatEnsureOutcome role SeatOutcomeAlreadySeated] w)
      | Inr False \<Rightarrow> (case ec_Caster c of
        None \<Rightarrow> failed (ErrActionNotYetWired ''ensure_participant_seat requires ParticipantSeatCaster'') w
      | Some caster \<Rightarrow> (case caster workflowID taskID stepID role (w_state w) of
        Inl err \<Rightarrow> failed (ErrorWrap ''ensure_participant_seat cast'' err) w
      | Inr cast \<Rightarrow>
         if sc_Unfillable cast
         then (Inl (ErrParticipantSeatUnfillable role), record_metrics [SeatEnsureOutcome role SeatOutcomeNoRunner] w)
         else (case call (EnsureRoleSeat writer workflowID stepID taskID role (sc_AgentProfileID cast)) w of
           (Inl err, w1) \<Rightarrow> failed (ErrorWrap ''ensure_participant_seat write seat'' err) w1
         | (Inr seat, w1) \<Rightarrow>
             (Inr [], record_metrics [SeatEnsureOutcome role SeatOutcomeSeated,
                        SeatProvenance role (sc_Provenance cast) (sc_SelfReview cast)] w1)))))))"

section \<open>create_child_task and switch_workflow\<close>

text \<open>The attribution that the code puts into the context is not modelled.\<close>

definition CreateChildTaskCallback_Execute :: "'s TaskCreator option \<Rightarrow> 's ActionCallback" where
  "CreateChildTaskCallback_Execute creator inp w = (case creator of
       None \<Rightarrow> (Inl (ErrActionNotYetWired ''create_child_task requires TaskCreator''), w)
     | Some create \<Rightarrow> (case a_CreateChildTask (i_Action inp) of
         None \<Rightarrow> (Inl (ErrorText ''create_child_task action missing CreateChildTask config''), w)
       | Some cfg \<Rightarrow>
          if m_TaskID (i_State inp) = [] then (Inl (ErrorText ''create_child_task: trigger has no task id''), w)
          else if cc_Title cfg = [] then (Inl (ErrorText ''create_child_task: title is required''), w)
          else (case call (create (m_TaskID (i_State inp))
                  \<lparr>ct_Title = cc_Title cfg, ct_Description = cc_Description cfg, ct_WorkflowID = cc_WorkflowID cfg,
                   ct_StepID = cc_StepID cfg, ct_AgentProfileID = cc_AgentProfileID cfg,
                   ct_CausingAgentProfileID = m_AgentProfileID (i_State inp)\<rparr>) w of
             (Inl err, w1) \<Rightarrow> (Inl (ErrorWrap ''create_child_task'' err), w1)
           | (Inr child, w1) \<Rightarrow> (Inr [], w1))))"

text \<open>\<open>Dispatch\<close> gets task, session, trigger, operation id and source step; it runs in the world of the engine.\<close>

type_synonym 's DispatchTriggerFn =
  "string \<Rightarrow> string \<Rightarrow> Trigger \<Rightarrow> string \<Rightarrow> string \<Rightarrow> 's world \<Rightarrow> werror option \<times> 's world"

record 's SwitchWorkflowCallback =
  sc_Switcher :: "'s WorkflowSwitcher option"
  sc_Dispatch :: "'s DispatchTriggerFn option"

definition workflowSwitchSourceStepID :: "ActionInput \<Rightarrow> string" where
  "workflowSwitchSourceStepID inp =
     (if m_CurrentStepID (i_State inp) \<noteq> [] then m_CurrentStepID (i_State inp) else ss_ID (i_Step inp))"

definition switch_dispatch :: "'s SwitchWorkflowCallback \<Rightarrow> ActionInput \<Rightarrow> Trigger \<Rightarrow> string \<Rightarrow> 's world \<Rightarrow> werror option \<times> 's world" where
  "switch_dispatch c inp trigger label w = (case sc_Dispatch c of
       None \<Rightarrow> (None, w)
     | Some dispatch \<Rightarrow> dispatch (m_TaskID (i_State inp)) (m_SessionID (i_State inp)) trigger
         (i_OperationID inp @ '':switch_workflow:'' @ label) (workflowSwitchSourceStepID inp) w)"

definition SwitchWorkflowCallback_Execute :: "'s SwitchWorkflowCallback \<Rightarrow> 's ActionCallback" where
  "SwitchWorkflowCallback_Execute c inp w = (case sc_Switcher c of
       None \<Rightarrow> (Inl (ErrActionNotYetWired ''switch_workflow requires WorkflowSwitcher''), w)
     | Some switch \<Rightarrow> (case a_SwitchWorkflow (i_Action inp) of
         None \<Rightarrow> (Inl (ErrorText ''switch_workflow action missing SwitchWorkflow config''), w)
       | Some cfg \<Rightarrow>
          if sw_WorkflowID cfg = [] then (Inl (ErrorText ''switch_workflow: workflow_id is required''), w)
          else if m_TaskID (i_State inp) = [] \<or> m_SessionID (i_State inp) = []
          then (Inl (ErrorText ''switch_workflow: trigger has no task/session id''), w)
          else (case switch_dispatch c inp TriggerOnExit ''on_exit'' w of
            (Some err, w1) \<Rightarrow> (Inl (ErrorWrap ''switch_workflow on_exit'' err), w1)
          | (None, w1) \<Rightarrow> (case call (switch (m_TaskID (i_State inp)) (sw_WorkflowID cfg) (sw_StepID cfg)) w1 of
            (Inl err, w2) \<Rightarrow> (Inl (ErrorWrap ''switch_workflow'' err), w2)
          | (Inr stepID, w2) \<Rightarrow> (case switch_dispatch c inp TriggerOnEnter ''on_enter'' w2 of
            (Some err, w3) \<Rightarrow> (Inl (ErrorWrap ''switch_workflow on_enter'' err), w3)
          | (None, w3) \<Rightarrow> (Inr [], w3))))))"

end
