(* ===== verification/Workflow_Repo.thy ===== *)
theory Workflow_Repo
  imports Workflow_Callbacks
begin

text \<open>
  The tables behind the engine's interfaces: the participant and decision repository
  (\<open>internal/workflow/repository/phase2_sqlite.go\<close>), the adapters that present it to the engine
  (\<open>internal/workflow/adapters/adapters.go\<close>), the lookup of neighbouring steps
  (\<open>internal/workflow/service/service.go\<close>) and the operation ledger
  (\<open>internal/orchestrator/workflow_store.go\<close>).

  A table is the list of its rows in insertion order; \<open>SELECT\<close>, \<open>UPDATE\<close> and \<open>DELETE\<close> filter and
  map it, \<open>ORDER BY\<close> sorts it, and a failed \<open>INSERT\<close> (primary key, unique index, foreign key)
  is an error that leaves the tables as they were, as the rolled-back transaction does.  One
  transaction runs at a time: SQLite has a single writer, and on PostgreSQL the transactions of one decider or seat take
  an advisory lock first.  Failures of the database itself are not modelled.  A fresh UUID and
  the current time are arguments.
\<close>

section \<open>Tables\<close>

record WorkflowStepParticipant = ParticipantInfo +
  pr_CreatedAt :: time
  pr_Provenance :: string

abbreviation ParticipantProvenanceAuto :: string where "ParticipantProvenanceAuto \<equiv> ''auto''"
abbreviation ParticipantProvenanceManual :: string where "ParticipantProvenanceManual \<equiv> ''manual''"

text \<open>
  The rows of \<open>workflow_steps\<close>, \<open>workflow_step_participants\<close> and \<open>workflow_step_decisions\<close>, workflow
  and step of each row of \<open>tasks\<close>, and the operation ledger.  A decision row has the fields of
  \<open>DecisionInfo\<close>.
\<close>

record workflow_db =
  db_steps :: "WorkflowStep list"
  db_tasks :: "(string, string \<times> string) gomap"
  db_participants :: "WorkflowStepParticipant list"
  db_decisions :: "DecisionInfo list"
  db_applied :: "(string, bool) gomap"

definition validParticipantRole :: "string \<Rightarrow> bool" where
  "validParticipantRole role \<longleftrightarrow> role \<in> {''reviewer'', ''approver'', ''watcher'', ''collaborator'', ''runner''}"

definition natural_key :: "WorkflowStepParticipant \<Rightarrow> string \<times> string \<times> string \<times> string" where
  "natural_key p = (p_StepID p, p_TaskID p, p_Role p, p_AgentProfileID p)"

definition natural_key_violation :: werror where
  "natural_key_violation = ErrorText (''UNIQUE constraint failed: workflow_step_participants.step_id, '' @
     ''workflow_step_participants.task_id, workflow_step_participants.role, workflow_step_participants.agent_profile_id'')"

definition role_check_violation :: werror where
  "role_check_violation = ErrorText (''CHECK constraint failed: role IN ('' @ [CHR 0x27] @ ''reviewer'' @ [CHR 0x27] @ '','' @ [CHR 0x27] @ ''approver'' @ [CHR 0x27] @
     '','' @ [CHR 0x27] @ ''watcher'' @ [CHR 0x27] @ '','' @ [CHR 0x27] @ ''collaborator'' @ [CHR 0x27] @ '','' @ [CHR 0x27] @ ''runner'' @ [CHR 0x27] @ '')'')"

text \<open>The constraints of an \<open>INSERT\<close>: the role is one of the schema's, the id and the natural key are new, the step exists.\<close>

definition insert_participant :: "WorkflowStepParticipant \<Rightarrow> workflow_db \<Rightarrow> werror + workflow_db" where
  "insert_participant p db =
     (if \<not> validParticipantRole (p_Role p) then Inl role_check_violation
      else if p_ID p \<in> set (map p_ID (db_participants db)) then Inl (ErrorText ''UNIQUE constraint failed: workflow_step_participants.id'')
      else if natural_key p \<in> set (map natural_key (db_participants db)) then Inl natural_key_violation
      else if p_StepID p \<notin> set (map ws_ID (db_steps db)) then Inl (ErrorText ''FOREIGN KEY constraint failed'')
      else Inr (db\<lparr>db_participants := db_participants db @ [p]\<rparr>))"

definition participant_order :: "WorkflowStepParticipant list \<Rightarrow> WorkflowStepParticipant list" where
  "participant_order = sort_key (\<lambda>p. (p_Role p, p_Position p, p_AgentProfileID p, p_ID p))"

text \<open>\<open>JOIN workflow_steps ws ON ws.id = p.step_id WHERE ws.workflow_id = ?\<close>.\<close>

definition in_workflow :: "string \<Rightarrow> workflow_db \<Rightarrow> WorkflowStepParticipant \<Rightarrow> bool" where
  "in_workflow workflowID db p \<longleftrightarrow> list_ex (\<lambda>ws. ws_ID ws = p_StepID p \<and> ws_WorkflowID ws = workflowID) (db_steps db)"

section \<open>Participants\<close>

definition UpsertStepParticipant :: "string \<Rightarrow> time \<Rightarrow> WorkflowStepParticipant option \<Rightarrow> workflow_db \<Rightarrow> werror option \<times> workflow_db" where
  "UpsertStepParticipant newID now po db = (case po of
       None \<Rightarrow> (Some (ErrorText ''participant must not be nil''), db)
     | Some p0 \<Rightarrow>
        if p_StepID p0 = [] then (Some (ErrorText ''participant.step_id is required''), db)
        else if \<not> validParticipantRole (p_Role p0) then (Some (ErrorText (''invalid participant role '' @ p_Role p0)), db)
        else if p_AgentProfileID p0 = [] then (Some (ErrorText ''participant.agent_profile_id is required''), db)
        else
         (let p = p0\<lparr>p_ID := (if p_ID p0 = [] then newID else p_ID p0),
                     pr_CreatedAt := (if IsZero (pr_CreatedAt p0) then now else pr_CreatedAt p0),
                     pr_Provenance := ParticipantProvenanceManual\<rparr>;
              wrap = (\<lambda>err. Some (ErrorWrap ''upsert step participant'' err)) in
          if p_ID p \<in> set (map p_ID (db_participants db)) then
            (if p_StepID p \<notin> set (map ws_ID (db_steps db)) then (wrap (ErrorText ''FOREIGN KEY constraint failed''), db)
             else if list_ex (\<lambda>r. p_ID r \<noteq> p_ID p \<and> natural_key r = natural_key p) (db_participants db)
             then (wrap natural_key_violation, db)
             else (None, db\<lparr>db_participants := map (\<lambda>r. if p_ID r = p_ID p
                     then p\<lparr>pr_CreatedAt := pr_CreatedAt r, pr_Provenance := pr_Provenance r\<rparr> else r) (db_participants db)\<rparr>))
          else (case insert_participant p db of Inl err \<Rightarrow> (wrap err, db) | Inr db' \<Rightarrow> (None, db'))))"

definition new_participant :: "string \<Rightarrow> time \<Rightarrow> string \<Rightarrow> string \<Rightarrow> string \<Rightarrow> string \<Rightarrow> bool \<Rightarrow> string \<Rightarrow> WorkflowStepParticipant" where
  "new_participant newID now stepID taskID role agentID required provenance =
     \<lparr>p_ID = newID, p_StepID = stepID, p_TaskID = taskID, p_Role = role, p_AgentProfileID = agentID,
      p_DecisionRequired = required, p_Position = 0, pr_CreatedAt = now, pr_Provenance = provenance\<rparr>"

definition UpsertTaskParticipant ::
    "string \<Rightarrow> time \<Rightarrow> string \<Rightarrow> string \<Rightarrow> string \<Rightarrow> string \<Rightarrow> workflow_db \<Rightarrow> (werror + string) \<times> workflow_db" where
  "UpsertTaskParticipant newID now stepID taskID role agentID db =
     (if stepID = [] \<or> taskID = [] \<or> role = [] \<or> agentID = []
      then (Inl (ErrorText ''step_id, task_id, role, and agent_profile_id are required''), db)
      else if \<not> validParticipantRole role then (Inl (ErrorText (''invalid participant role '' @ role)), db)
      else (case find (\<lambda>p. natural_key p = (stepID, taskID, role, agentID)) (db_participants db) of
          Some p \<Rightarrow> (Inr (p_ID p), db)
        | None \<Rightarrow> (case insert_participant (new_participant newID now stepID taskID role agentID True ParticipantProvenanceManual) db of
            Inl err \<Rightarrow> (Inl (ErrorWrap ''insert task participant'' err), db)
          | Inr db' \<Rightarrow> (Inr newID, db'))))"

definition delete_participants :: "(WorkflowStepParticipant \<Rightarrow> bool) \<Rightarrow> workflow_db \<Rightarrow> workflow_db" where
  "delete_participants P db = db\<lparr>db_participants := filter (\<lambda>p. \<not> P p) (db_participants db)\<rparr>"

definition DeleteTaskParticipant :: "string \<Rightarrow> string \<Rightarrow> string \<Rightarrow> string \<Rightarrow> workflow_db \<Rightarrow> werror option \<times> workflow_db" where
  "DeleteTaskParticipant stepID taskID role agentID db =
     (if stepID = [] \<or> taskID = [] \<or> role = [] \<or> agentID = []
      then (Some (ErrorText ''step_id, task_id, role, and agent_profile_id are required''), db)
      else (None, delete_participants (\<lambda>p. natural_key p = (stepID, taskID, role, agentID)) db))"

definition mergeParticipantRows :: "WorkflowStepParticipant list \<Rightarrow> WorkflowStepParticipant list" where
  "mergeParticipantRows rows =
     (if length rows \<le> 1 then rows
      else (let perTask = map (\<lambda>p. (p_Role p, p_AgentProfileID p)) (filter (\<lambda>p. p_TaskID p \<noteq> []) rows) in
            if perTask = [] then rows
            else filter (\<lambda>p. \<not> (p_TaskID p = [] \<and> (p_Role p, p_AgentProfileID p) \<in> set perTask)) rows))"

definition ListStepParticipantsForTask :: "string \<Rightarrow> string \<Rightarrow> workflow_db \<Rightarrow> werror + WorkflowStepParticipant list" where
  "ListStepParticipantsForTask stepID taskID db =
     (if stepID = [] then Inl (ErrorText ''step_id is required'')
      else Inr (mergeParticipantRows (participant_order
        (filter (\<lambda>p. p_StepID p = stepID \<and> (p_TaskID p = [] \<or> p_TaskID p = taskID)) (db_participants db)))))"

definition ListParticipantsForTaskAnyStep :: "string \<Rightarrow> workflow_db \<Rightarrow> werror + WorkflowStepParticipant list" where
  "ListParticipantsForTaskAnyStep taskID db =
     (if taskID = [] then Inl (ErrorText ''task_id is required'')
      else Inr (participant_order (filter (\<lambda>p. p_TaskID p = taskID) (db_participants db))))"

definition ListParticipantsForTaskWorkflow :: "string \<Rightarrow> string \<Rightarrow> workflow_db \<Rightarrow> werror + WorkflowStepParticipant list" where
  "ListParticipantsForTaskWorkflow taskID workflowID db =
     (if taskID = [] then Inl (ErrorText ''task_id is required'')
      else if workflowID = [] then Inl (ErrorText ''workflow_id is required'')
      else Inr (participant_order (filter (\<lambda>p. p_TaskID p = taskID \<and> in_workflow workflowID db p) (db_participants db))))"

definition DeleteStepParticipant :: "string \<Rightarrow> workflow_db \<Rightarrow> werror option \<times> workflow_db" where
  "DeleteStepParticipant i db =
     (if i = [] then (Some (ErrorText ''participant id is required''), db) else (None, delete_participants (\<lambda>p. p_ID p = i) db))"

definition ListTemplateParticipants :: "string \<Rightarrow> workflow_db \<Rightarrow> werror + WorkflowStepParticipant list" where
  "ListTemplateParticipants stepID db =
     (if stepID = [] then Inl (ErrorText ''step_id is required'')
      else Inr (participant_order (filter (\<lambda>p. p_StepID p = stepID \<and> p_TaskID p = []) (db_participants db))))"

definition ListTaskParticipantsByRole :: "string \<Rightarrow> string \<Rightarrow> string \<Rightarrow> workflow_db \<Rightarrow> werror + WorkflowStepParticipant list" where
  "ListTaskParticipantsByRole stepID taskID role db =
     map_sum id (filter (\<lambda>p. p_Role p = role)) (ListStepParticipantsForTask stepID taskID db)"

definition GetStepParticipant :: "string \<Rightarrow> workflow_db \<Rightarrow> werror + WorkflowStepParticipant" where
  "GetStepParticipant i db = (case find (\<lambda>p. p_ID p = i) (db_participants db) of
     None \<Rightarrow> Inl (ErrorText (''workflow step participant not found: '' @ i)) | Some p \<Rightarrow> Inr p)"

text \<open>The first row of an ordered selection, \<open>ORDER BY ... LIMIT 1\<close>.\<close>

definition first_of :: "'a list \<Rightarrow> 'a option" where
  "first_of xs = (case xs of [] \<Rightarrow> None | x # _ \<Rightarrow> Some x)"

definition ResolveCurrentRunner :: "string \<Rightarrow> string \<Rightarrow> workflow_db \<Rightarrow> werror + string" where
  "ResolveCurrentRunner stepID taskID db =
     (if stepID = [] \<or> taskID = [] then Inl (ErrorText ''step_id and task_id are required'')
      else
       (let own = first_of (sort_key (\<lambda>p. (p_Position p, p_ID p))
                    (filter (\<lambda>p. p_StepID p = stepID \<and> p_TaskID p = taskID \<and> p_Role p = ''runner'') (db_participants db)));
            latest = first_of (sort_key (\<lambda>p. (- pr_CreatedAt p, p_ID p))
                    (filter (\<lambda>p. p_TaskID p = taskID \<and> p_Role p = ''runner'') (db_participants db))) in
        if (case own of None \<Rightarrow> False | Some p \<Rightarrow> p_AgentProfileID p \<noteq> []) then Inr (p_AgentProfileID (the own))
        else (case find (\<lambda>ws. ws_ID ws = stepID) (db_steps db) of
            None \<Rightarrow> Inr []
          | Some ws \<Rightarrow>
              if ws_AgentProfileID ws \<noteq> [] then Inr (ws_AgentProfileID ws)
              else (case latest of None \<Rightarrow> Inr [] | Some p \<Rightarrow> Inr (p_AgentProfileID p)))))"

definition GetTaskWorkflowStepID :: "string \<Rightarrow> workflow_db \<Rightarrow> werror + string" where
  "GetTaskWorkflowStepID taskID db =
     (if taskID = [] then Inl (ErrorText ''task_id is required'')
      else (case gm_get (db_tasks db) taskID of None \<Rightarrow> Inr [] | Some (workflowID, stepID) \<Rightarrow> Inr stepID))"

text \<open>The probe has \<open>LIMIT 1\<close> and no order; the model takes the first row of the table.\<close>

definition SetTaskRunner :: "string \<Rightarrow> time \<Rightarrow> string \<Rightarrow> string \<Rightarrow> string \<Rightarrow> workflow_db \<Rightarrow> werror option \<times> workflow_db" where
  "SetTaskRunner newID now stepID taskID agentID db =
     (if stepID = [] \<or> taskID = [] \<or> agentID = [] then (Some (ErrorText ''step_id, task_id, and agent_profile_id are required''), db)
      else (case find (\<lambda>p. p_StepID p = stepID \<and> p_TaskID p = taskID \<and> p_Role p = ''runner'') (db_participants db) of
          Some p \<Rightarrow>
            if list_ex (\<lambda>r. p_ID r \<noteq> p_ID p \<and> natural_key r = (stepID, taskID, ''runner'', agentID)) (db_participants db)
            then (Some (ErrorWrap ''update runner participant'' natural_key_violation), db)
            else (None, db\<lparr>db_participants := map (\<lambda>r. if p_ID r = p_ID p then r\<lparr>p_AgentProfileID := agentID\<rparr> else r) (db_participants db)\<rparr>)
        | None \<Rightarrow> (case insert_participant (new_participant newID now stepID taskID ''runner'' agentID False ParticipantProvenanceManual) db of
            Inl err \<Rightarrow> (Some (ErrorWrap ''insert runner participant'' err), db)
          | Inr db' \<Rightarrow> (None, db'))))"

definition ClearTaskRunner :: "string \<Rightarrow> string \<Rightarrow> workflow_db \<Rightarrow> werror option \<times> workflow_db" where
  "ClearTaskRunner stepID taskID db =
     (if stepID = [] \<or> taskID = [] then (Some (ErrorText ''step_id and task_id are required''), db)
      else (None, delete_participants (\<lambda>p. p_StepID p = stepID \<and> p_TaskID p = taskID \<and> p_Role p = ''runner'') db))"

definition FindParticipantID :: "string \<Rightarrow> string \<Rightarrow> string \<Rightarrow> string \<Rightarrow> workflow_db \<Rightarrow> werror + string" where
  "FindParticipantID stepID taskID role agentID db =
     (if stepID = [] \<or> role = [] \<or> agentID = [] then Inl (ErrorText ''step_id, role, and agent_profile_id are required'')
      else Inr (case first_of (sort_key (\<lambda>p. if p_TaskID p = [] then 1 else (0 :: nat))
                  (filter (\<lambda>p. p_StepID p = stepID \<and> p_Role p = role \<and> p_AgentProfileID p = agentID
                     \<and> (p_TaskID p = taskID \<or> p_TaskID p = [])) (db_participants db))) of
              None \<Rightarrow> [] | Some p \<Rightarrow> p_ID p))"

section \<open>Seats of a role\<close>

definition role_seats :: "string \<Rightarrow> string \<Rightarrow> string \<Rightarrow> workflow_db \<Rightarrow> WorkflowStepParticipant list" where
  "role_seats workflowID taskID role db =
     filter (\<lambda>p. p_TaskID p = taskID \<and> in_workflow workflowID db p \<and> p_Role p = role) (db_participants db)"

definition repo_HasRoleSeatForTaskWorkflow :: "string \<Rightarrow> string \<Rightarrow> string \<Rightarrow> workflow_db \<Rightarrow> werror + bool" where
  "repo_HasRoleSeatForTaskWorkflow workflowID taskID role db =
     (if workflowID = [] \<or> taskID = [] \<or> role = [] then Inl (ErrorText ''workflow_id, task_id, and role are required'')
      else Inr (role_seats workflowID taskID role db \<noteq> []))"

definition ensureRoleSeatTx ::
    "string \<Rightarrow> time \<Rightarrow> string \<Rightarrow> string \<Rightarrow> string \<Rightarrow> string \<Rightarrow> string \<Rightarrow> workflow_db
       \<Rightarrow> (werror + WorkflowStepParticipant \<times> bool) \<times> workflow_db" where
  "ensureRoleSeatTx newID now workflowID stepID taskID role agentID db =
     (case first_of (sort_key (\<lambda>p. (p_Position p, p_AgentProfileID p, p_ID p)) (role_seats workflowID taskID role db)) of
        Some p \<Rightarrow> (Inr (p, False), db)
      | None \<Rightarrow>
         (let seat = new_participant newID now stepID taskID role agentID True ParticipantProvenanceAuto in
          case insert_participant seat db of
            Inl err \<Rightarrow> (Inl (if err = natural_key_violation then err else ErrorWrap ''insert role seat'' err), db)
          | Inr db' \<Rightarrow> (Inr (seat, True), db')))"

text \<open>The bounded retry on a violated natural key.\<close>

fun ensure_role_seat_attempts ::
    "nat \<Rightarrow> string \<Rightarrow> time \<Rightarrow> string \<Rightarrow> string \<Rightarrow> string \<Rightarrow> string \<Rightarrow> string \<Rightarrow> werror \<Rightarrow> workflow_db
       \<Rightarrow> (werror + WorkflowStepParticipant \<times> bool) \<times> workflow_db" where
  "ensure_role_seat_attempts 0 newID now workflowID stepID taskID role agentID err db =
     (Inl (ErrorWrap ''ensure role seat: exhausted retries on natural-key race'' err), db)"
| "ensure_role_seat_attempts (Suc n) newID now workflowID stepID taskID role agentID err db =
     (case ensureRoleSeatTx newID now workflowID stepID taskID role agentID db of
        (Inl err', db') \<Rightarrow>
          if err' = natural_key_violation
          then ensure_role_seat_attempts n newID now workflowID stepID taskID role agentID err' db' else (Inl err', db')
      | (Inr res, db') \<Rightarrow> (Inr res, db'))"

definition ensureRoleSeatMaxAttempts :: nat where
  "ensureRoleSeatMaxAttempts = 3"

definition repo_EnsureRoleSeat ::
    "string \<Rightarrow> time \<Rightarrow> string \<Rightarrow> string \<Rightarrow> string \<Rightarrow> string \<Rightarrow> string \<Rightarrow> workflow_db
       \<Rightarrow> (werror + WorkflowStepParticipant \<times> bool) \<times> workflow_db" where
  "repo_EnsureRoleSeat newID now workflowID stepID taskID role agentID db =
     (if workflowID = [] \<or> stepID = [] \<or> taskID = [] \<or> agentID = []
      then (Inl (ErrorText ''workflow_id, step_id, task_id, and agent_profile_id are required''), db)
      else if \<not> validParticipantRole role then (Inl (ErrorText (''invalid participant role '' @ role)), db)
      else ensure_role_seat_attempts ensureRoleSeatMaxAttempts newID now workflowID stepID taskID role agentID (ErrorText []) db)"

section \<open>Decisions\<close>

definition active_decider_violation :: werror where
  "active_decider_violation = ErrorText (''UNIQUE constraint failed: workflow_step_decisions.task_id, '' @
     ''workflow_step_decisions.step_id, workflow_step_decisions.decider_id, workflow_step_decisions.role'')"

definition same_decider :: "DecisionInfo \<Rightarrow> DecisionInfo \<Rightarrow> bool" where
  "same_decider d r \<longleftrightarrow> d_TaskID r = d_TaskID d \<and> d_StepID r = d_StepID d \<and> d_DeciderID r = d_DeciderID d \<and> d_Role r = d_Role d"

text \<open>The prior rows that a new decision supersedes.\<close>

definition prior_decision :: "DecisionInfo \<Rightarrow> DecisionInfo \<Rightarrow> bool" where
  "prior_decision d r \<longleftrightarrow> d_SupersededAt r = None \<and>
     (if d_DeciderID d \<noteq> [] \<and> d_Role d \<noteq> [] then same_decider d r
      else d_TaskID r = d_TaskID d \<and> d_StepID r = d_StepID d \<and> d_ParticipantID r = d_ParticipantID d)"

definition validateDecisionParticipantSeatTx :: "DecisionInfo \<Rightarrow> workflow_db \<Rightarrow> werror option" where
  "validateDecisionParticipantSeatTx d db =
     (if d_DeciderType d \<noteq> ''agent'' \<or> d_DeciderID d = [] \<or> d_Role d = [] then None
      else (case find (\<lambda>p. p_ID p = d_ParticipantID d \<and> p_StepID p = d_StepID d \<and> p_Role p = d_Role d
                          \<and> (p_TaskID p = d_TaskID d \<or> p_TaskID p = [])) (db_participants db) of
          None \<Rightarrow> None
        | Some p \<Rightarrow>
            if p_AgentProfileID p \<noteq> d_DeciderID d \<or> \<not> p_DecisionRequired p
            then Some (ErrParticipantSeatChanged (d_ParticipantID d)) else None))"

text \<open>The constraints of the insertion: a new id, and at most one active decision per decider and role.\<close>

definition insert_decision :: "DecisionInfo \<Rightarrow> DecisionInfo list \<Rightarrow> werror + DecisionInfo list" where
  "insert_decision d rows =
     (if d_ID d \<in> set (map d_ID rows)
      then Inl (ErrorWrap ''record step decision'' (ErrorText ''UNIQUE constraint failed: workflow_step_decisions.id''))
      else if d_DeciderID d \<noteq> [] \<and> d_Role d \<noteq> [] \<and> list_ex (\<lambda>r. d_SupersededAt r = None \<and> same_decider d r) rows
      then Inl active_decider_violation
      else Inr (rows @ [d\<lparr>d_SupersededAt := None\<rparr>]))"

definition supersede_rows :: "(DecisionInfo \<Rightarrow> bool) \<Rightarrow> time \<Rightarrow> DecisionInfo list \<Rightarrow> DecisionInfo list" where
  "supersede_rows P now rows = map (\<lambda>r. if P r then r\<lparr>d_SupersededAt := Some now\<rparr> else r) rows"

definition recordStepDecisionTx :: "DecisionInfo \<Rightarrow> workflow_db \<Rightarrow> werror option \<times> workflow_db" where
  "recordStepDecisionTx d db = (case validateDecisionParticipantSeatTx d db of
       Some err \<Rightarrow> (Some err, db)
     | None \<Rightarrow> (case insert_decision d (supersede_rows (prior_decision d) (d_DecidedAt d) (db_decisions db)) of
         Inl err \<Rightarrow> (Some err, db)
       | Inr rows \<Rightarrow> (None, db\<lparr>db_decisions := rows\<rparr>)))"

fun record_decision_attempts :: "nat \<Rightarrow> DecisionInfo \<Rightarrow> werror \<Rightarrow> workflow_db \<Rightarrow> werror option \<times> workflow_db" where
  "record_decision_attempts 0 d err db =
     (Some (ErrorWrap ''record step decision: exhausted retries on active-decider race'' err), db)"
| "record_decision_attempts (Suc n) d err db =
     (case recordStepDecisionTx d db of
        (Some err', db') \<Rightarrow> if err' = active_decider_violation then record_decision_attempts n d err' db' else (Some err', db')
      | (None, db') \<Rightarrow> (None, db'))"

definition recordStepDecisionMaxAttempts :: nat where
  "recordStepDecisionMaxAttempts = 3"

definition repo_RecordStepDecision :: "string \<Rightarrow> time \<Rightarrow> DecisionInfo \<Rightarrow> workflow_db \<Rightarrow> werror option \<times> workflow_db" where
  "repo_RecordStepDecision newID now d db =
     (if d_TaskID d = [] \<or> d_StepID d = [] \<or> d_ParticipantID d = []
      then (Some (ErrorText ''decision requires task_id, step_id, and participant_id''), db)
      else if d_Decision d = [] then (Some (ErrorText ''decision verdict must not be empty''), db)
      else record_decision_attempts recordStepDecisionMaxAttempts
             (d\<lparr>d_ID := (if d_ID d = [] then newID else d_ID d),
                d_DecidedAt := (if IsZero (d_DecidedAt d) then now else d_DecidedAt d)\<rparr>) (ErrorText []) db)"

definition decision_order :: "DecisionInfo list \<Rightarrow> DecisionInfo list" where
  "decision_order = sort_key (\<lambda>d. (d_DecidedAt d, d_ID d))"

definition at_step :: "string \<Rightarrow> string \<Rightarrow> DecisionInfo \<Rightarrow> bool" where
  "at_step taskID stepID d \<longleftrightarrow> d_TaskID d = taskID \<and> d_StepID d = stepID"

definition repo_ListStepDecisions :: "string \<Rightarrow> string \<Rightarrow> workflow_db \<Rightarrow> werror + DecisionInfo list" where
  "repo_ListStepDecisions taskID stepID db =
     (if taskID = [] \<or> stepID = [] then Inl (ErrorText ''task_id and step_id are required'')
      else Inr (decision_order (filter (at_step taskID stepID) (db_decisions db))))"

definition ListActiveTaskDecisions :: "string \<Rightarrow> workflow_db \<Rightarrow> werror + DecisionInfo list" where
  "ListActiveTaskDecisions taskID db =
     (if taskID = [] then Inl (ErrorText ''task_id is required'')
      else Inr (decision_order (filter (\<lambda>d. d_TaskID d = taskID \<and> d_SupersededAt d = None) (db_decisions db))))"

definition SupersedeTaskDecisions :: "time \<Rightarrow> string \<Rightarrow> workflow_db \<Rightarrow> werror option \<times> workflow_db" where
  "SupersedeTaskDecisions now taskID db =
     (if taskID = [] then (Some (ErrorText ''task_id is required''), db)
      else (None, db\<lparr>db_decisions := supersede_rows (\<lambda>r. d_TaskID r = taskID \<and> d_SupersededAt r = None) now (db_decisions db)\<rparr>))"

definition repo_ClearStepDecisions :: "string \<Rightarrow> string \<Rightarrow> workflow_db \<Rightarrow> (werror + int) \<times> workflow_db" where
  "repo_ClearStepDecisions taskID stepID db =
     (if taskID = [] \<or> stepID = [] then (Inl (ErrorText ''task_id and step_id are required''), db)
      else (Inr (int (length (filter (at_step taskID stepID) (db_decisions db)))),
            db\<lparr>db_decisions := filter (\<lambda>d. \<not> at_step taskID stepID d) (db_decisions db)\<rparr>))"

section \<open>Adapters\<close>

abbreviation participant_info :: "WorkflowStepParticipant \<Rightarrow> ParticipantInfo" where
  "participant_info \<equiv> ParticipantInfo.truncate"

definition ParticipantAdapter :: "workflow_db ParticipantStore" where
  "ParticipantAdapter =
     \<lparr>ListStepParticipants = (\<lambda>stepID taskID db.
        map_sum (ErrorWrap ''list step participants'') (map participant_info) (ListStepParticipantsForTask stepID taskID db)),
      ListTaskParticipants = (\<lambda>taskID db.
        map_sum (ErrorWrap ''list task participants'') (map participant_info) (ListParticipantsForTaskAnyStep taskID db)),
      ListTaskParticipantsForWorkflow = Some (\<lambda>taskID workflowID db.
        map_sum (ErrorWrap ''list task participants for workflow'') (map participant_info)
          (ListParticipantsForTaskWorkflow taskID workflowID db)),
      ParticipantsStepIDForTask = Some GetTaskWorkflowStepID\<rparr>"

definition DecisionAdapter :: "string \<Rightarrow> time \<Rightarrow> workflow_db DecisionStore" where
  "DecisionAdapter newID now =
     \<lparr>ListStepDecisions = (\<lambda>taskID stepID db. map_sum (ErrorWrap ''list step decisions'') id (repo_ListStepDecisions taskID stepID db)),
      RecordStepDecision = repo_RecordStepDecision newID now,
      ClearStepDecisions = repo_ClearStepDecisions\<rparr>"

definition ParticipantSeatWriterAdapter :: "string \<Rightarrow> time \<Rightarrow> workflow_db ParticipantSeatWriter" where
  "ParticipantSeatWriterAdapter newID now =
     \<lparr>HasRoleSeatForTaskWorkflow = (\<lambda>workflowID taskID role db.
        map_sum (ErrorWrap ''check existing role seat'') id (repo_HasRoleSeatForTaskWorkflow workflowID taskID role db)),
      EnsureRoleSeat = (\<lambda>workflowID stepID taskID role agentID db.
        map_prod (map_sum (ErrorWrap ''ensure role seat'') (\<lambda>(p, inserted). participant_info p)) id
          (repo_EnsureRoleSeat newID now workflowID stepID taskID role agentID db))\<rparr>"

definition PrimaryAgentAdapter :: "workflow_db PrimaryAgentResolver" where
  "PrimaryAgentAdapter =
     \<lparr>PrimaryAgentProfileID = (\<lambda>stepID taskID db.
        map_sum (ErrorWrap (''resolve current runner for step '' @ stepID @ '' task '' @ taskID)) id (ResolveCurrentRunner stepID taskID db)),
      PrimaryStepIDForTask = Some GetTaskWorkflowStepID\<rparr>"

section \<open>Steps and the operation ledger\<close>

definition ListStepsByWorkflow :: "string \<Rightarrow> workflow_db \<Rightarrow> WorkflowStep list" where
  "ListStepsByWorkflow workflowID db = sort_key ws_Position (filter (\<lambda>ws. ws_WorkflowID ws = workflowID) (db_steps db))"

definition GetNextStepByPosition :: "string \<Rightarrow> int \<Rightarrow> workflow_db \<Rightarrow> WorkflowStep option" where
  "GetNextStepByPosition workflowID currentPosition db =
     find (\<lambda>ws. ws_Position ws > currentPosition) (ListStepsByWorkflow workflowID db)"

fun previous_step :: "int \<Rightarrow> WorkflowStep option \<Rightarrow> WorkflowStep list \<Rightarrow> WorkflowStep option" where
  "previous_step pos prev [] = prev"
| "previous_step pos prev (ws # rest) = (if ws_Position ws \<ge> pos then prev else previous_step pos (Some ws) rest)"

definition GetPreviousStepByPosition :: "string \<Rightarrow> int \<Rightarrow> workflow_db \<Rightarrow> WorkflowStep option" where
  "GetPreviousStepByPosition workflowID currentPosition db =
     previous_step currentPosition None (ListStepsByWorkflow workflowID db)"

definition isApplied :: "string \<Rightarrow> (string, bool) gomap \<Rightarrow> bool" where
  "isApplied operationID ledger = (if operationID = [] then False else gm_has ledger operationID)"

definition markApplied :: "string \<Rightarrow> (string, bool) gomap \<Rightarrow> (string, bool) gomap" where
  "markApplied operationID ledger = (if operationID = [] then ledger else gm_put operationID True ledger)"

text \<open>
  The transition store of the orchestrator keeps its operation marks in the ledger of the service and hands every other
  call on to the repositories, which are its parameter.
\<close>

definition workflowStore :: "'s TransitionStore \<Rightarrow> ('s \<times> (string, bool) gomap) TransitionStore" where
  "workflowStore repo =
     \<lparr>LoadState = (\<lambda>t ss (s, ledger). LoadState repo t ss s),
      LoadStep = (\<lambda>flow st (s, ledger). LoadStep repo flow st s),
      LoadNextStep = (\<lambda>flow pos (s, ledger). LoadNextStep repo flow pos s),
      LoadPreviousStep = (\<lambda>flow pos (s, ledger). LoadPreviousStep repo flow pos s),
      ApplyTransition = (\<lambda>t ss st st' trigger (s, ledger). map_prod id (\<lambda>s'. (s', ledger)) (ApplyTransition repo t ss st st' trigger s)),
      ApplyTransitionIfAtStep = (\<lambda>t ss st st' trigger (s, ledger).
        map_prod id (\<lambda>s'. (s', ledger)) (ApplyTransitionIfAtStep repo t ss st st' trigger s)),
      PersistData = (\<lambda>ss patch (s, ledger). map_prod id (\<lambda>s'. (s', ledger)) (PersistData repo ss patch s)),
      IsOperationApplied = (\<lambda>operationID (s, ledger). Inr (isApplied operationID ledger)),
      MarkOperationApplied = (\<lambda>operationID (s, ledger). (None, (s, markApplied operationID ledger)))\<rparr>"

end
