(* ===== verification/Workflow_Decisions.thy ===== *)
theory Workflow_Decisions
  imports Workflow_Engine
begin

text \<open>
  Recording a participant's decision and re-evaluating the guarded transitions of its step, and the
  read-only snapshot of the quorum of a step (\<open>internal/workflow/engine/quorum.go\<close>).
\<close>

section \<open>One guarded transition\<close>

definition guard_entry :: "string \<Rightarrow> WaitForQuorumGuard option \<Rightarrow> GuardOutcome \<Rightarrow> QuorumGuardState" where
  "guard_entry target q outcome =
     \<lparr>qg_TargetStepID = target,
      qg_Role = (case q of None \<Rightarrow> [] | Some g \<Rightarrow> wq_Role g), qg_Threshold = (case q of None \<Rightarrow> [] | Some g \<Rightarrow> wq_Threshold g),
      qg_RequiredCount = g_RequiredCount outcome, qg_ReceivedCount = g_ReceivedCount outcome,
      qg_Satisfied = g_Satisfied outcome, qg_Reason = g_Reason outcome, qg_Error = g_Err outcome\<rparr>"

text \<open>
  The entry, the target or the error of resolving it, whether the guard is satisfied, and the
  counted metrics.  On an error the target is empty and the entry reports an evaluation error.
\<close>

definition evaluateGuardForTransition ::
    "'s Engine \<Rightarrow> MachineState \<Rightarrow> StepSpec \<Rightarrow> Action \<Rightarrow> WaitForQuorumGuard \<Rightarrow> 's
       \<Rightarrow> (QuorumGuardState \<times> (werror + string) \<times> bool) \<times> metric list" where
  "evaluateGuardForTransition e m step a q s =
     (let (outcome, ms) = evaluateTransitionGuard e m a s;
          target = resolveTransitionTarget e m step a s in
      case target of
        Inl err \<Rightarrow> ((guard_entry [] (Some q) ((refused ReasonEvaluationError)\<lparr>g_Err := Some err\<rparr>), target, g_Satisfied outcome), ms)
      | Inr t \<Rightarrow> ((guard_entry t (Some q) outcome, target, g_Satisfied outcome), ms))"

text \<open>The guard of a transition that the re-evaluation looks at.\<close>

definition eligible_guard :: "Action \<Rightarrow> WaitForQuorumGuard option" where
  "eligible_guard a =
     (if \<not> isTransitionAction (a_Kind a) \<or> a_RequiresApproval a then None
      else (case a_Guard a of None \<Rightarrow> None | Some g \<Rightarrow> tg_WaitForQuorum g))"

section \<open>Re-evaluation\<close>

text \<open>
  The loop of \<open>applyFirstSatisfiedGuardedTransition\<close>: the guards so far, and the target of the first
  satisfied transition that leads away from the step.
\<close>

fun select_transition ::
    "'s Engine \<Rightarrow> MachineState \<Rightarrow> StepSpec \<Rightarrow> string \<Rightarrow> QuorumGuardState list \<Rightarrow> Action list \<Rightarrow> 's
       \<Rightarrow> (werror + string \<times> QuorumGuardState list) \<times> metric list" where
  "select_transition e m step selected guards [] s = (Inr (selected, guards), [])"
| "select_transition e m step selected guards (a # as) s =
     (case eligible_guard a of
        None \<Rightarrow> select_transition e m step selected guards as s
      | Some q \<Rightarrow>
         (let ((entry, target, satisfied), ms) = evaluateGuardForTransition e m step a q s in
          case target of
            Inl err \<Rightarrow>
              if satisfied \<and> selected = [] then (Inl err, ms)
              else (case select_transition e m step selected (guards @ [entry]) as s of
                 (res, ms') \<Rightarrow> (res, ms @ GuardNotFired (qg_Reason entry) # ms'))
          | Inr t \<Rightarrow>
              if \<not> satisfied
              then (case select_transition e m step selected (guards @ [entry]) as s of
                 (res, ms') \<Rightarrow> (res, ms @ GuardNotFired (qg_Reason entry) # ms'))
              else (case select_transition e m step
                       (if t = [] \<or> t = m_CurrentStepID m then selected else if selected = [] then t else selected)
                       (guards @ [entry]) as s of
                 (res, ms') \<Rightarrow> (res, ms @ ms'))))"

definition applyFirstSatisfiedGuardedTransition ::
    "'s Engine \<Rightarrow> string \<Rightarrow> string \<Rightarrow> MachineState \<Rightarrow> StepSpec \<Rightarrow> 's world \<Rightarrow> (werror + HandleResult) \<times> 's world" where
  "applyFirstSatisfiedGuardedTransition e taskID sessionID m step w =
     (let (res, ms) = select_transition e m step [] [] (step_actions step TriggerOnTurnComplete) (w_state w);
          w1 = record_metrics ms w in
      case res of
        Inl err \<Rightarrow> (Inl err, w1)
      | Inr (selected, guards) \<Rightarrow>
          if selected = [] then (Inr (no_result\<lparr>hr_Guards := guards\<rparr>), w1)
          else (case call (ApplyTransitionIfAtStep (e_store e) taskID sessionID (m_CurrentStepID m) selected TriggerOnTurnComplete) w1 of
             (Inl err, w2) \<Rightarrow> (Inl err, w2)
           | (Inr applied, w2) \<Rightarrow>
               (let result = no_result\<lparr>hr_Guards := guards, hr_FromStepID := m_CurrentStepID m, hr_ToStepID := selected\<rparr> in
                if \<not> applied then (Inr (result\<lparr>hr_TransitionAbandoned := True\<rparr>), w2)
                else (Inr (result\<lparr>hr_Transitioned := True\<rparr>), w2))))"

definition decision_operation :: "string \<Rightarrow> string \<Rightarrow> string \<Rightarrow> string" where
  "decision_operation taskID stepID decisionID = ''decision:'' @ taskID @ '':'' @ stepID @ '':'' @ decisionID"

definition reevaluateGuardedTransitions ::
    "'s Engine \<Rightarrow> string \<Rightarrow> string \<Rightarrow> string \<Rightarrow> string \<Rightarrow> 's world \<Rightarrow> (werror + HandleResult) \<times> 's world" where
  "reevaluateGuardedTransitions e taskID sessionID stepID decisionID w =
     (let opID = decision_operation taskID stepID decisionID in
      case IsOperationApplied (e_store e) opID (w_state w) of
        Inl err \<Rightarrow> (Inl err, w)
      | Inr True \<Rightarrow> (Inr (no_result\<lparr>hr_Idempotent := True\<rparr>), w)
      | Inr False \<Rightarrow> (case LoadState (e_store e) taskID sessionID (w_state w) of
        Inl err \<Rightarrow> (Inl err, w)
      | Inr m0 \<Rightarrow>
         (let m = m0\<lparr>m_CurrentStepID := stepID\<rparr> in
          case LoadStep (e_store e) (m_WorkflowID m) stepID (w_state w) of
            Inl err \<Rightarrow> (Inl err, w)
          | Inr step \<Rightarrow> (case applyFirstSatisfiedGuardedTransition e taskID sessionID m step w of
            (Inl err, w1) \<Rightarrow> (Inl err, w1)
          | (Inr result, w1) \<Rightarrow> (case markOperationApplied e opID w1 of
            (Some err, w2) \<Rightarrow> (Inl err, w2)
          | (None, w2) \<Rightarrow> (Inr result, w2))))))"

record RecordDecisionResult =
  rd_DecisionID :: string
  rd_DecidedAt :: time
  rd_ReevaluationSkipped :: bool
  rd_SkipReason :: string
  rd_Transitioned :: bool
  rd_TransitionAbandoned :: bool
  rd_FromStepID :: string
  rd_ToStepID :: string
  rd_Guards :: "QuorumGuardState list"

definition no_decision :: RecordDecisionResult where
  "no_decision = \<lparr>rd_DecisionID = [], rd_DecidedAt = 0, rd_ReevaluationSkipped = False, rd_SkipReason = [],
     rd_Transitioned = False, rd_TransitionAbandoned = False, rd_FromStepID = [], rd_ToStepID = [], rd_Guards = []\<rparr>"

text \<open>\<open>uuid.New()\<close> and \<open>time.Now().UTC()\<close> are the arguments \<open>newID\<close> and \<open>now\<close>; the code returns a result beside the error.\<close>

definition RecordParticipantDecision ::
    "'s Engine \<Rightarrow> string \<Rightarrow> time \<Rightarrow> string \<Rightarrow> DecisionInfo \<Rightarrow> 's world \<Rightarrow> (RecordDecisionResult \<times> werror option) \<times> 's world" where
  "RecordParticipantDecision e newID now sessionID d w =
     (case e_decisions e of
        None \<Rightarrow> ((no_decision, Some (ErrorText ''workflow engine: decision store not wired'')), w)
      | Some decisions \<Rightarrow>
         if d_TaskID d = [] \<or> d_StepID d = [] \<or> d_ParticipantID d = []
         then ((no_decision, Some (ErrorText ''record decision requires task_id, step_id, and participant_id'')), w)
         else if d_Decision d = [] then ((no_decision, Some (ErrorText ''record decision verdict must not be empty'')), w)
         else
          (case call (RecordStepDecision decisions (d\<lparr>d_ID := newID, d_DecidedAt := now\<rparr>)) w of
             (Some err, w1) \<Rightarrow> ((no_decision, Some err), w1)
           | (None, w1) \<Rightarrow>
              (let result = no_decision\<lparr>rd_DecisionID := newID, rd_DecidedAt := now\<rparr> in
               if sessionID = []
               then ((result\<lparr>rd_ReevaluationSkipped := True, rd_SkipReason := ReasonSessionUnresolvable\<rparr>, None),
                     record_metrics [GuardNotFired ReasonSessionUnresolvable] w1)
               else (case reevaluateGuardedTransitions e (d_TaskID d) sessionID (d_StepID d) newID w1 of
                  (Inl err, w2) \<Rightarrow> ((result, Some err), w2)
                | (Inr handled, w2) \<Rightarrow>
                    ((result\<lparr>rd_Transitioned := hr_Transitioned handled, rd_TransitionAbandoned := hr_TransitionAbandoned handled,
                       rd_FromStepID := hr_FromStepID handled, rd_ToStepID := hr_ToStepID handled,
                       rd_Guards := hr_Guards handled\<rparr>, None), w2)))))"

section \<open>The snapshot\<close>

record QuorumSnapshot =
  qs_StepID :: string
  qs_ReevaluationBlocked :: bool
  qs_Guards :: "QuorumGuardState list"

definition no_snapshot :: QuorumSnapshot where
  "no_snapshot = \<lparr>qs_StepID = [], qs_ReevaluationBlocked = False, qs_Guards = []\<rparr>"

definition evaluateGuardStateReadOnly ::
    "'s Engine \<Rightarrow> MachineState \<Rightarrow> StepSpec \<Rightarrow> Action \<Rightarrow> TransitionGuard \<Rightarrow> 's \<Rightarrow> QuorumGuardState \<times> metric list" where
  "evaluateGuardStateReadOnly e m step a g s =
     (let (outcome, ms) = evaluateTransitionGuardRecording e m a False s in
      case resolveTransitionTarget e m step a s of
        Inl err \<Rightarrow> (guard_entry [] (tg_WaitForQuorum g) ((refused ReasonEvaluationError)\<lparr>g_Err := Some err\<rparr>), ms)
      | Inr target \<Rightarrow> (guard_entry target (tg_WaitForQuorum g) outcome, ms))"

definition snapshot_guards :: "'s Engine \<Rightarrow> MachineState \<Rightarrow> StepSpec \<Rightarrow> Action list \<Rightarrow> 's \<Rightarrow> (QuorumGuardState \<times> metric list) list" where
  "snapshot_guards e m step actions s = List.map_filter (\<lambda>a.
     if \<not> isTransitionAction (a_Kind a) then None
     else map_option (\<lambda>g. evaluateGuardStateReadOnly e m step a g s) (a_Guard a)) actions"

definition EvaluateStepQuorum ::
    "'s Engine \<Rightarrow> string \<Rightarrow> string \<Rightarrow> 's world \<Rightarrow> (werror + QuorumSnapshot) \<times> 's world" where
  "EvaluateStepQuorum e taskID sessionID w =
     (case LoadState (e_store e) taskID sessionID (w_state w) of
        Inl err \<Rightarrow> (Inl err, w)
      | Inr m \<Rightarrow>
         if m_CurrentStepID m = [] then (Inr no_snapshot, w)
         else (case LoadStep (e_store e) (m_WorkflowID m) (m_CurrentStepID m) (w_state w) of
           Inl err \<Rightarrow> (Inl err, w)
         | Inr step \<Rightarrow>
            (let entries = snapshot_guards e m step (step_actions step TriggerOnTurnComplete) (w_state w);
                 blocked = (case e_decisions e of None \<Rightarrow> False | Some decisions \<Rightarrow>
                   (case ListStepDecisions decisions taskID (m_CurrentStepID m) (w_state w) of
                      Inl err \<Rightarrow> False | Inr ds \<Rightarrow> 0 < length ds)) in
             (Inr \<lparr>qs_StepID = m_CurrentStepID m, qs_ReevaluationBlocked = blocked, qs_Guards = map fst entries\<rparr>,
              record_metrics (concat (map snd entries)) w))))"

end
