(* ===== verification/Workflow_Scenarios.thy ===== *)
theory Workflow_Scenarios
  imports Workflow_Repo Workflow_Decisions
begin

text \<open>
  A transition store over the review tables, and a small board on which the statements about the
  workflow engine are exercised.  Steps are looked up and compiled as \<open>workflowStore\<close> fetches them,
  and operations are marked in its ledger; a transition writes the row of the task, without the
  limits on work in progress that the production store enforces.
\<close>

section \<open>A transition store\<close>

definition fetch_step :: "string \<Rightarrow> workflow_db \<Rightarrow> werror + StepSpec" where
  "fetch_step stepID db = (case find (\<lambda>ws. ws_ID ws = stepID) (db_steps db) of
     None \<Rightarrow> Inl (ErrorText (''step '' @ stepID @ '' not found'')) | Some ws \<Rightarrow> Inr (CompileStep ws))"

definition fetch_next_step :: "string \<Rightarrow> int \<Rightarrow> workflow_db \<Rightarrow> werror + StepSpec" where
  "fetch_next_step workflowID pos db = (case GetNextStepByPosition workflowID pos db of
     None \<Rightarrow> Inl (ErrorText (''no next step after position '' @ FormatInt pos @ '' in workflow '' @ workflowID))
   | Some ws \<Rightarrow> Inr (CompileStep ws))"

definition fetch_previous_step :: "string \<Rightarrow> int \<Rightarrow> workflow_db \<Rightarrow> werror + StepSpec" where
  "fetch_previous_step workflowID pos db = (case GetPreviousStepByPosition workflowID pos db of
     None \<Rightarrow> Inl (ErrorText (''no previous step before position '' @ FormatInt pos @ '' in workflow '' @ workflowID))
   | Some ws \<Rightarrow> Inr (CompileStep ws))"

definition task_step :: "workflow_db \<Rightarrow> string \<Rightarrow> string" where
  "task_step db t = (case gm_get (db_tasks db) t of None \<Rightarrow> [] | Some (flow, st) \<Rightarrow> st)"

definition move_task :: "string \<Rightarrow> string \<Rightarrow> workflow_db \<Rightarrow> workflow_db" where
  "move_task t st db = (case gm_get (db_tasks db) t of None \<Rightarrow> db
     | Some (flow, old) \<Rightarrow> db\<lparr>db_tasks := gm_put t (flow, st) (db_tasks db)\<rparr>)"

definition board_store :: "workflow_db TransitionStore" where
  "board_store =
     \<lparr>LoadState = (\<lambda>t sess db. case gm_get (db_tasks db) t of
          None \<Rightarrow> Inl (ErrorText (''load task '' @ t))
        | Some (flow, st) \<Rightarrow> Inr (no_state\<lparr>m_TaskID := t, m_SessionID := sess, m_WorkflowID := flow, m_CurrentStepID := st\<rparr>)),
      LoadStep = (\<lambda>flow st db. fetch_step st db),
      LoadNextStep = fetch_next_step,
      LoadPreviousStep = fetch_previous_step,
      ApplyTransition = (\<lambda>t sess st st' trigger db. (None, move_task t st' db)),
      ApplyTransitionIfAtStep = (\<lambda>t sess st st' trigger db.
        if task_step db t = st then (Inr True, move_task t st' db) else (Inr False, db)),
      PersistData = (\<lambda>sess patch db. (None, db)),
      IsOperationApplied = (\<lambda>op db. Inr (isApplied op (db_applied db))),
      MarkOperationApplied = (\<lambda>op db. (None, db\<lparr>db_applied := markApplied op (db_applied db)\<rparr>))\<rparr>"

section \<open>A board with a review\<close>

definition ex_events :: StepEvents where
  "ex_events = \<lparr>OnEnter = [], OnTurnStart = [], OnTurnComplete = [], OnExit = [], OnComment = [], OnBlockerResolved = [],
     OnChildrenCompleted = [], OnApprovalResolved = [], OnHeartbeat = [], OnBudgetAlert = [], OnAgentError = [], OnPRMerged = [],
     OnPRClosed = []\<rparr>"

definition ex_plain_step :: "string \<Rightarrow> int \<Rightarrow> WorkflowStep" where
  "ex_plain_step i pos = \<lparr>ws_ID = i, ws_WorkflowID = ''w'', ws_Name = i, ws_Position = pos, ws_Prompt = [], ws_Events = ex_events,
     ws_IsStartStep = False, ws_AgentProfileID = []\<rparr>"

definition ex_guard_config :: "string \<Rightarrow> config" where
  "ex_guard_config threshold =
     Some [(''if'', GMap [(''wait_for_quorum'', GMap [(''role'', GStr ''reviewer''), (''threshold'', GStr threshold)])])]"

definition ex_role_config :: config where
  "ex_role_config = Some [(''role'', GStr ''reviewer'')]"

definition ex_review :: WorkflowStep where
  "ex_review = (ex_plain_step ''review'' 2)\<lparr>ws_Events := ex_events
     \<lparr>OnEnter := [\<lparr>ga_Type = ''configure_session'', ga_Config = None\<rparr>, \<lparr>ga_Type = ''clear_decisions'', ga_Config = None\<rparr>,
        \<lparr>ga_Type = ''ensure_participant_seat'', ga_Config = ex_role_config\<rparr>, \<lparr>ga_Type = ''enable_plan_mode'', ga_Config = None\<rparr>,
        \<lparr>ga_Type = ''queue_run_for_each_participant'', ga_Config = ex_role_config\<rparr>],
      OnTurnComplete := [\<lparr>ga_Type = ''move_to_previous'', ga_Config = ex_guard_config ''any_reject''\<rparr>,
        \<lparr>ga_Type = ''move_to_next'', ga_Config = ex_guard_config ''all_approve''\<rparr>]\<rparr>\<rparr>"

definition ex_steps :: "WorkflowStep list" where
  "ex_steps = [ex_plain_step ''work'' 1, ex_review, ex_plain_step ''done'' 3]"

definition ex_seat :: "string \<Rightarrow> string \<Rightarrow> string \<Rightarrow> WorkflowStepParticipant" where
  "ex_seat i t agent = new_participant i 1 ''review'' t ''reviewer'' agent True ''manual''"

definition ex_decision :: "string \<Rightarrow> time \<Rightarrow> string \<Rightarrow> string \<Rightarrow> string \<Rightarrow> DecisionInfo" where
  "ex_decision i now seat agent verdict =
     \<lparr>d_ID = i, d_TaskID = ''t'', d_StepID = ''review'', d_ParticipantID = seat, d_Decision = verdict, d_Note = [], d_DecidedAt = now,
      d_DeciderType = ''agent'', d_DeciderID = agent, d_Role = ''reviewer'', d_Comment = [], d_SupersededAt = None\<rparr>"

text \<open>Two reviewers: Ada by the template and once more for the task, Bob by the template; both approved.\<close>

definition ex_board :: workflow_db where
  "ex_board = \<lparr>db_steps = ex_steps, db_tasks = [(''t'', (''w'', ''review''))],
     db_participants = [ex_seat ''p1'' [] ''ada'', ex_seat ''p2'' ''t'' ''ada'', ex_seat ''p3'' [] ''bob''],
     db_decisions = [ex_decision ''d1'' 5 ''p2'' ''ada'' ''approved'', ex_decision ''d2'' 6 ''p3'' ''bob'' ''approved''],
     db_applied = []\<rparr>"

definition ex_engine :: "workflow_db Engine" where
  "ex_engine = (New board_store (\<lambda>k. None))\<lparr>e_participants := Some ParticipantAdapter, e_decisions := Some (DecisionAdapter ''n'' 9)\<rparr>"

definition ex_state :: MachineState where
  "ex_state = no_state\<lparr>m_TaskID := ''t'', m_SessionID := ''s'', m_WorkflowID := ''w'', m_CurrentStepID := ''review''\<rparr>"

definition ex_world :: "workflow_db world" where
  "ex_world = \<lparr>w_state = ex_board, w_metrics = []\<rparr>"

definition ex_input :: HandleInput where
  "ex_input = \<lparr>h_TaskID = ''t'', h_SessionID = ''s'', h_Trigger = TriggerOnTurnComplete, h_OperationID = ''op'', h_EvaluateOnly = False,
     h_DeferOperationMark = False, h_PreloadedState = None, h_Payload = NoPayload, h_EntryID = []\<rparr>"

definition ex_action :: Action where
  "ex_action = (action ActionMoveToNext)\<lparr>a_Guard := ConfigTransitionGuard (ex_guard_config ''all_approve'')\<rparr>"

lemma ex_transition:
  "map_prod (\<lambda>(r, err). (hr_Transitioned r, hr_ToStepID r, err)) (\<lambda>w. (task_step (w_state w) ''t'', isApplied ''op'' (db_applied (w_state w)), w_metrics w))
     (HandleTrigger ex_engine ex_input ex_world) = ((True, ''done'', None), (''done'', True, [GuardNotFired ReasonThresholdNotMet]))"
  by code_simp

end
