(* ===== verification/Quorum_Laws.thy ===== *)
theory Quorum_Laws
  imports Workflow_Scenarios
begin

text \<open>
  What a quorum guard decides: the slate of required seats, the decision that counts for a seat,
  the thresholds, and the outcome of a guard on a wired engine.
\<close>

section \<open>Grouping rows\<close>

lemma group_fold_get:
  "gm_get (fold (\<lambda>p g. gm_put (key p) (gm_get0 [] g (key p) @ [p]) g) rows g0) k =
     (if filter (\<lambda>p. key p = k) rows = [] then gm_get g0 k
      else Some (gm_get0 [] g0 k @ filter (\<lambda>p. key p = k) rows))"
  by (induction rows arbitrary: g0) auto

lemma group_rows_get:
  "gm_get (group_rows key rows) k =
     (if filter (\<lambda>p. key p = k) rows = [] then None else Some (filter (\<lambda>p. key p = k) rows))"
  by (simp add: group_rows_def group_fold_get)

lemma group_rows_wf: "gm_wf (group_rows key rows)"
proof -
  have "gm_wf g0 \<Longrightarrow> gm_wf (fold (\<lambda>p g. gm_put (key p) (gm_get0 [] g (key p) @ [p]) g) rows g0)" for g0
    by (induction rows arbitrary: g0) auto
  then show ?thesis by (simp add: group_rows_def)
qed

lemma group_rows_mem:
  "(k, grp) \<in> set (group_rows key rows) \<longleftrightarrow> grp = filter (\<lambda>p. key p = k) rows \<and> grp \<noteq> []"
  using gm_get_wf_iff [OF group_rows_wf, of key rows k grp] by (auto simp: group_rows_get split: if_splits)

text \<open>Picking one row of every group, by a rule that picks a member.\<close>

definition choose_rows :: "('p \<Rightarrow> 'k) \<Rightarrow> ('p list \<Rightarrow> 'p) \<Rightarrow> 'p list \<Rightarrow> 'p list" where
  "choose_rows key pick rows = map (\<lambda>(k, grp). pick grp) (group_rows key rows)"

locale row_choice =
  fixes key :: "'p \<Rightarrow> 'k" and pick :: "'p list \<Rightarrow> 'p"
  assumes pick_mem: "rows \<noteq> [] \<Longrightarrow> pick rows \<in> set rows"
begin

lemma pick_key: "(k, grp) \<in> set (group_rows key rows) \<Longrightarrow> key (pick grp) = k"
  using pick_mem [of grp] by (auto simp: group_rows_mem)

lemma chosen_keys: "map key (choose_rows key pick rows) = map fst (group_rows key rows)"
  unfolding choose_rows_def map_map by (rule map_cong [OF refl]) (auto simp: pick_key)

lemma chosen_distinct: "distinct (map key (choose_rows key pick rows))"
  using group_rows_wf [of key rows] by (simp add: chosen_keys gm_wf_def)

lemma chosen_mem:
  "p \<in> set (choose_rows key pick rows) \<longleftrightarrow>
     p \<in> set rows \<and> p = pick (filter (\<lambda>q. key q = key p) rows)"
proof
  assume "p \<in> set (choose_rows key pick rows)"
  then obtain k grp where g: "(k, grp) \<in> set (group_rows key rows)" "p = pick grp"
    by (auto simp: choose_rows_def)
  then have "key p = k" "grp = filter (\<lambda>q. key q = k) rows" "grp \<noteq> []"
    using pick_key [OF g(1)] by (auto simp: group_rows_mem)
  then show "p \<in> set rows \<and> p = pick (filter (\<lambda>q. key q = key p) rows)"
    using g pick_mem [of grp] by auto
next
  assume p: "p \<in> set rows \<and> p = pick (filter (\<lambda>q. key q = key p) rows)"
  then have "(key p, filter (\<lambda>q. key q = key p) rows) \<in> set (group_rows key rows)"
    by (auto simp: group_rows_mem filter_empty_conv)
  with p show "p \<in> set (choose_rows key pick rows)" by (force simp: choose_rows_def)
qed

lemma chosen_covers:
  assumes "p \<in> set rows"
  shows "\<exists>q\<in>set (choose_rows key pick rows). key q = key p \<and> q = pick (filter (\<lambda>r. key r = key p) rows)"
proof -
  let ?g = "filter (\<lambda>r. key r = key p) rows"
  have ne: "?g \<noteq> []" using assms by (auto simp: filter_empty_conv)
  then have "pick ?g \<in> set rows" "key (pick ?g) = key p" using pick_mem [OF ne] by auto
  then show ?thesis using chosen_mem [of "pick ?g" rows] by auto
qed

end

section \<open>The rules of choice\<close>

lemma lowest_fold:
  fixes b :: ParticipantInfo
  defines "f \<equiv> \<lambda>r best. if p_ID r < p_ID best then r else best"
  shows "fold f rows b \<in> insert b (set rows) \<and> p_ID (fold f rows b) \<le> p_ID b \<and> (\<forall>r\<in>set rows. p_ID (fold f rows b) \<le> p_ID r)"
proof (induction rows arbitrary: b)
  case (Cons r rows)
  have "fold f (r # rows) b = fold f rows (f r b)" by simp
  moreover have "f r b \<in> {r, b}" "p_ID (f r b) \<le> p_ID r" "p_ID (f r b) \<le> p_ID b" by (auto simp: f_def)
  ultimately show ?case using Cons.IH [of "f r b"] by (auto intro: order_trans)
qed simp

lemma lowest_id_spec:
  assumes "rows \<noteq> []"
  shows "lowest_id rows \<in> set rows" and "r \<in> set rows \<Longrightarrow> p_ID (lowest_id rows) \<le> p_ID r"
  using lowest_fold [where rows = "tl rows" and b = "hd rows"] assms
  by (auto simp: lowest_id_def neq_Nil_conv)

lemma find_split:
  "find P xs = Some x \<Longrightarrow> x \<in> set xs \<and> P x"
  by (auto simp: find_Some_iff)

lemma pickCanonicalRow_spec:
  assumes "rows \<noteq> []"
  shows "pickCanonicalRow st rows \<in> set rows"
    and "p_StepID (pickCanonicalRow st rows) \<noteq> st \<Longrightarrow> r \<in> set rows \<Longrightarrow>
           p_StepID r \<noteq> st \<and> p_ID (pickCanonicalRow st rows) \<le> p_ID r"
  using lowest_id_spec [OF assms] by (auto simp: pickCanonicalRow_def find_None_iff split: option.splits dest: find_split)

lemma pickPerTaskOverTemplate_spec:
  assumes "rows \<noteq> []"
  shows "pickPerTaskOverTemplate rows \<in> set rows"
    and "p_TaskID (pickPerTaskOverTemplate rows) = [] \<Longrightarrow> r \<in> set rows \<Longrightarrow> p_TaskID r = []"
  using lowest_id_spec [OF assms] by (auto simp: pickPerTaskOverTemplate_def find_None_iff split: option.splits dest: find_split)

interpretation canon: row_choice canonKeyFor "pickCanonicalRow st" for st
  by unfold_locales (rule pickCanonicalRow_spec)

interpretation collapse: row_choice collapseKeyFor pickPerTaskOverTemplate
  by unfold_locales (rule pickPerTaskOverTemplate_spec)

lemma canonicalize_chosen: "canonicalizeByTaskRoleAgent rows st = choose_rows canonKeyFor (pickCanonicalRow st) rows"
  by (simp add: canonicalizeByTaskRoleAgent_def choose_rows_def)

lemma collapse_chosen: "collapseByRoleAgent rows = choose_rows collapseKeyFor pickPerTaskOverTemplate rows"
  by (simp add: collapseByRoleAgent_def choose_rows_def)

lemma canon_key_collapse: "canonKeyFor p = canonKeyFor q \<Longrightarrow> collapseKeyFor p = collapseKeyFor q"
  by (auto simp: canonKeyFor_def collapseKeyFor_def split: if_splits)

lemma canon_key_task: "canonKeyFor p = canonKeyFor q \<Longrightarrow> p_TaskID p = p_TaskID q \<and> p_Role p = p_Role q"
  by (auto simp: canonKeyFor_def split: if_splits)

section \<open>The required slate\<close>

definition required_row :: "string \<Rightarrow> ParticipantInfo \<Rightarrow> bool" where
  "required_row role p \<longleftrightarrow> p_Role p = role \<and> p_DecisionRequired p"

lemma role_slate_chosen:
  "role_slate gathered st role = choose_rows collapseKeyFor pickPerTaskOverTemplate (choose_rows canonKeyFor (pickCanonicalRow st) (filter (required_row role) gathered))"
  by (simp add: role_slate_def canonicalize_chosen collapse_chosen required_row_def [abs_def])

lemma slate_member:
  assumes q: "q \<in> set (choose_rows collapseKeyFor pickPerTaskOverTemplate (choose_rows canonKeyFor (pickCanonicalRow st) rows))"
  shows "q \<in> set rows"
    and "p_TaskID q = [] \<Longrightarrow> p \<in> set rows \<Longrightarrow> collapseKeyFor p = collapseKeyFor q \<Longrightarrow> p_TaskID p = []"
    and "p_StepID q \<noteq> st \<Longrightarrow> p \<in> set rows \<Longrightarrow> canonKeyFor p = canonKeyFor q \<Longrightarrow> p_StepID p \<noteq> st \<and> p_ID q \<le> p_ID p"
proof -
  let ?c = "choose_rows canonKeyFor (pickCanonicalRow st) rows"
  have qc: "q \<in> set ?c" and pick: "q = pickPerTaskOverTemplate (filter (\<lambda>r. collapseKeyFor r = collapseKeyFor q) ?c)"
    using q by (auto simp: collapse.chosen_mem)
  then have qr: "q \<in> set rows" and cpick: "q = pickCanonicalRow st (filter (\<lambda>r. canonKeyFor r = canonKeyFor q) rows)"
    by (auto simp: canon.chosen_mem)
  show "q \<in> set rows" by (fact qr)
  {
    assume "p_TaskID q = []" "p \<in> set rows" "collapseKeyFor p = collapseKeyFor q"
    moreover obtain p' where "p' \<in> set ?c" "canonKeyFor p' = canonKeyFor p"
      using canon.chosen_covers [OF \<open>p \<in> set rows\<close>] by blast
    ultimately show "p_TaskID p = []"
      using pickPerTaskOverTemplate_spec(2) [of "filter (\<lambda>r. collapseKeyFor r = collapseKeyFor q) ?c" p'] pick qc
        canon_key_collapse [of p' p] canon_key_task [of p' p] by (auto simp: filter_empty_conv)
  }
  assume "p_StepID q \<noteq> st" "p \<in> set rows" "canonKeyFor p = canonKeyFor q"
  then show "p_StepID p \<noteq> st \<and> p_ID q \<le> p_ID p"
    using pickCanonicalRow_spec(2) [of "filter (\<lambda>r. canonKeyFor r = canonKeyFor q) rows" st p] cpick qr
    by (auto simp: filter_empty_conv)
qed

lemma slate_covers:
  assumes "p \<in> set rows"
  shows "\<exists>q\<in>set (choose_rows collapseKeyFor pickPerTaskOverTemplate (choose_rows canonKeyFor (pickCanonicalRow st) rows)). collapseKeyFor q = collapseKeyFor p"
proof -
  obtain p' where "p' \<in> set (choose_rows canonKeyFor (pickCanonicalRow st) rows)" "canonKeyFor p' = canonKeyFor p"
    using canon.chosen_covers [OF assms] by blast
  then show ?thesis using collapse.chosen_covers [of p'] canon_key_collapse [of p' p] by fastforce
qed

text \<open>Seats whose agent profile was deleted are dropped.\<close>

definition live_seat :: "'s Engine \<Rightarrow> 's \<Rightarrow> ParticipantInfo \<Rightarrow> bool" where
  "live_seat e s p \<longleftrightarrow> p_AgentProfileID p = [] \<or>
     (case e_agentProfiles e of None \<Rightarrow> True | Some resolver \<Rightarrow> resolver (p_AgentProfileID p) s = Inr True)"

lemma drop_unresolved_filter:
  assumes "drop_unresolved resolver role rec seats s = (Inr kept, ms)"
  shows "kept = filter (\<lambda>p. p_AgentProfileID p = [] \<or> resolver (p_AgentProfileID p) s = Inr True) seats"
  using assms
proof (induction seats arbitrary: kept ms)
  case (Cons seat seats)
  obtain res ms' where rest: "drop_unresolved resolver role rec seats s = (res, ms')" by fastforce
  show ?case
    using Cons.prems Cons.IH rest by (cases res) (auto split: if_splits sum.splits)
qed simp

lemma drop_unresolved_seats:
  assumes "dropUnresolvedAgentSeats e role seats rec s = (Inr kept, ms)"
  shows "kept = filter (live_seat e s) seats"
proof (cases "e_agentProfiles e")
  case None
  then show ?thesis using assms by (simp add: dropUnresolvedAgentSeats_def live_seat_def [abs_def])
next
  case (Some resolver)
  then show ?thesis
    using drop_unresolved_filter [of resolver role rec seats s kept ms] assms
    by (simp add: dropUnresolvedAgentSeats_def live_seat_def [abs_def])
qed

lemma drop_unresolved_record:
  "fst (drop_unresolved resolver role False seats s) = fst (drop_unresolved resolver role True seats s)
   \<and> snd (drop_unresolved resolver role False seats s) = []"
  by (induction seats) (auto split: sum.splits prod.splits)

lemma collapse_key_agent: "collapseKeyFor p = collapseKeyFor q \<Longrightarrow> p_AgentProfileID p = p_AgentProfileID q"
  by (auto simp: collapseKeyFor_def split: if_splits)

lemma live_seat_key: "collapseKeyFor p = collapseKeyFor q \<Longrightarrow> live_seat e s p = live_seat e s q"
  using collapse_key_agent [of p q] by (cases "e_agentProfiles e") (simp_all add: live_seat_def)

text \<open>
  C2: the required slate.  The seats a guard waits for are rows of the stores for its role that
  require a decision and whose agent still exists; every such row is represented by exactly one
  seat for its role and agent; a row of the task itself wins over a template row, and among the
  rows of one owner the one at the evaluated step wins, or else the one with the lowest id.
\<close>

theorem required_slate:
  assumes "gatherParticipantSlate ps st task flow s = Inr gathered"
    and "requiredSeatsForWorkflowRecording e ps st task flow role rec s = (Inr seats, ms)"
  shows "distinct (map collapseKeyFor seats) \<and>
    (\<forall>q\<in>set seats. q \<in> set gathered \<and> required_row role q \<and> live_seat e s q) \<and>
    (\<forall>p\<in>set gathered. required_row role p \<and> live_seat e s p \<longrightarrow> (\<exists>q\<in>set seats. collapseKeyFor q = collapseKeyFor p)) \<and>
    (\<forall>q\<in>set seats. \<forall>p\<in>set gathered. required_row role p \<longrightarrow>
       (collapseKeyFor p = collapseKeyFor q \<and> p_TaskID p \<noteq> [] \<longrightarrow> p_TaskID q \<noteq> []) \<and>
       (canonKeyFor p = canonKeyFor q \<and> p_StepID q \<noteq> st \<longrightarrow> p_StepID p \<noteq> st \<and> p_ID q \<le> p_ID p))"
proof -
  let ?rows = "filter (required_row role) gathered"
  let ?slate = "choose_rows collapseKeyFor pickPerTaskOverTemplate (choose_rows canonKeyFor (pickCanonicalRow st) ?rows)"
  have seats: "seats = filter (live_seat e s) ?slate"
    using assms drop_unresolved_seats [of e role "role_slate gathered st role" rec s seats ms]
    by (simp add: requiredSeatsForWorkflowRecording_def role_slate_chosen)
  have "distinct (map collapseKeyFor seats)"
    unfolding seats by (rule distinct_map_filter) (rule collapse.chosen_distinct)
  moreover have "\<exists>q\<in>set seats. collapseKeyFor q = collapseKeyFor p"
    if p: "p \<in> set gathered" "required_row role p" "live_seat e s p" for p
  proof -
    obtain q where "q \<in> set ?slate" "collapseKeyFor q = collapseKeyFor p"
      using slate_covers [of p ?rows st] p by auto
    then show ?thesis using live_seat_key [of q p e s] p by (auto simp: seats)
  qed
  moreover have "q \<in> set gathered \<and> required_row role q \<and> live_seat e s q" if q: "q \<in> set seats" for q
    using slate_member(1) [of q st ?rows] q by (simp add: seats)
  moreover have "p_TaskID q \<noteq> []"
    if "q \<in> set seats" "p \<in> set gathered" "required_row role p" "collapseKeyFor p = collapseKeyFor q" "p_TaskID p \<noteq> []" for p q
    using slate_member(2) [of q st ?rows p] that by (auto simp: seats)
  moreover have "p_StepID p \<noteq> st \<and> p_ID q \<le> p_ID p"
    if "q \<in> set seats" "p \<in> set gathered" "required_row role p" "canonKeyFor p = canonKeyFor q" "p_StepID q \<noteq> st" for p q
    using slate_member(3) [of q st ?rows p] that by (simp add: seats)
  ultimately show ?thesis by blast
qed

theorem required_slate_witness:
  "map_sum id (map p_ID) (fst (requiredSeatsForWorkflowRecording ex_engine ParticipantAdapter ''review'' ''t'' ''w'' ''reviewer'' True ex_board))
     = Inr [''p2'', ''p3''] \<and>
   (\<exists>seats. fst (requiredSeatsForWorkflowRecording ex_engine ParticipantAdapter ''review'' ''t'' ''w'' ''reviewer'' True ex_board) = Inr seats \<and>
      distinct (map collapseKeyFor seats))"
proof -
  let ?g = "gatherParticipantSlate ParticipantAdapter ''review'' ''t'' ''w'' ex_board"
  let ?r = "requiredSeatsForWorkflowRecording ex_engine ParticipantAdapter ''review'' ''t'' ''w'' ''reviewer'' True ex_board"
  have ids: "map_sum id (map p_ID) (fst ?r) = Inr [''p2'', ''p3'']" by code_simp
  have "\<not> isl ?g" by code_simp
  then obtain gathered where g: "?g = Inr gathered" by (cases ?g) simp_all
  from ids obtain seats where fs: "fst ?r = Inr seats" by (cases "fst ?r") simp_all
  then have r: "?r = (Inr seats, snd ?r)" by (metis prod.collapse)
  have "distinct (map collapseKeyFor seats)" using required_slate [OF g r] by simp
  with ids fs show ?thesis by blast
qed

section \<open>The decision that counts for a seat\<close>

definition latest_decision :: "ParticipantInfo list \<Rightarrow> DecisionInfo list \<Rightarrow> string \<Rightarrow> DecisionInfo option" where
  "latest_decision seats ds seatID = (if seatID = [] then None else find (\<lambda>d. decision_seat seats d = seatID) (rev ds))"

lemma find_append: "find P (xs @ ys) = (case find P xs of Some x \<Rightarrow> Some x | None \<Rightarrow> find P ys)"
  by (induction xs) auto

lemma latest_put_fold:
  "gm_get (fold (\<lambda>d m. if skip d then m else gm_put (key d) d m) ds m0) k =
     (case find (\<lambda>d. \<not> skip d \<and> key d = k) (rev ds) of Some d \<Rightarrow> Some d | None \<Rightarrow> gm_get m0 k)"
  by (induction ds arbitrary: m0) (auto simp: find_append split: option.splits)

lemma latest_put_wf: "gm_wf m0 \<Longrightarrow> gm_wf (fold (\<lambda>d m. if skip d then m else gm_put (key d) d m) ds m0)"
  by (induction ds arbitrary: m0) auto

lemma mapDecisions_get: "gm_get (mapDecisionsToSeats seats ds) k = latest_decision seats ds k"
proof -
  have "find (\<lambda>d. decision_seat seats d \<noteq> [] \<and> decision_seat seats d = k) (rev ds) = latest_decision seats ds k"
    by (cases "k = []") (auto simp: latest_decision_def find_None_iff intro: arg_cong2 [where f = find])
  then show ?thesis
    using latest_put_fold [of "\<lambda>d. decision_seat seats d = []" "decision_seat seats" ds "[]" k]
    by (simp add: mapDecisionsToSeats_def option.case_eq_if)
qed

lemma mapDecisions_wf: "gm_wf (mapDecisionsToSeats seats ds)"
  unfolding mapDecisionsToSeats_def by (rule latest_put_wf) simp

lemma seat_by_role_agent_range:
  "gm_get (seat_by_role_agent seats) k = Some i \<Longrightarrow> i \<in> set (map p_ID seats)"
proof -
  have "gm_get (fold (\<lambda>s m. if p_AgentProfileID s \<noteq> [] then gm_put (p_Role s, p_AgentProfileID s) (p_ID s) m else m) ss m0) k
        = Some i \<Longrightarrow> i \<in> set (map p_ID ss) \<or> gm_get m0 k = Some i" for ss m0
    by (induction ss arbitrary: m0) (fastforce split: if_splits)+
  from this [of seats "[]"] show "gm_get (seat_by_role_agent seats) k = Some i \<Longrightarrow> i \<in> set (map p_ID seats)"
    by (simp add: seat_by_role_agent_def)
qed

lemma decision_seat_range: "decision_seat seats d \<in> insert [] (set (map p_ID seats))"
  using seat_by_role_agent_range [of seats "(d_Role d, d_DeciderID d)"]
  by (cases "gm_get (seat_by_role_agent seats) (d_Role d, d_DeciderID d)") (auto simp: decision_seat_def)

lemma latest_decision_seat: "latest_decision seats ds k = Some d \<Longrightarrow> k \<in> set (map p_ID seats) \<and> k \<noteq> []"
  using decision_seat_range [of seats d]
  by (auto simp: latest_decision_def split: if_splits dest!: find_split)

text \<open>Counting entries of the map of decisions is counting seats.\<close>

lemma count_seats:
  assumes "distinct (map p_ID seats)"
  shows "length (filter (\<lambda>(k, d). P d) (mapDecisionsToSeats seats ds)) =
         length (filter (\<lambda>p. \<exists>d. latest_decision seats ds (p_ID p) = Some d \<and> P d) seats)"
proof -
  let ?m = "mapDecisionsToSeats seats ds"
  let ?l = "filter (\<lambda>(k, d). P d) ?m" and ?r = "filter (\<lambda>p. \<exists>d. latest_decision seats ds (p_ID p) = Some d \<and> P d) seats"
  have mem: "(k, d) \<in> set ?m \<longleftrightarrow> latest_decision seats ds k = Some d" for k d
    using gm_get_wf_iff [OF mapDecisions_wf] by (metis mapDecisions_get)
  have "distinct (map fst ?l)"
    using mapDecisions_wf [of seats ds] distinct_fst_filter [of ?m] by (simp add: gm_wf_def)
  moreover have "distinct (map p_ID ?r)" using assms by (rule distinct_map_filter)
  moreover have "set (map fst ?l) = set (map p_ID ?r)"
  proof
    show "set (map fst ?l) \<subseteq> set (map p_ID ?r)" using latest_decision_seat [of seats ds] by (force simp: mem)
    show "set (map p_ID ?r) \<subseteq> set (map fst ?l)" by (force simp: mem)
  qed
  ultimately have "length (map fst ?l) = length (map p_ID ?r)"
    using distinct_card [of "map fst ?l"] distinct_card [of "map p_ID ?r"] by argo
  then show ?thesis by (simp only: length_map)
qed

section \<open>Thresholds\<close>

definition approved_seats :: "ParticipantInfo list \<Rightarrow> DecisionInfo list \<Rightarrow> ParticipantInfo list" where
  "approved_seats seats ds =
     filter (\<lambda>p. \<exists>d. latest_decision seats ds (p_ID p) = Some d \<and> d_Decision d = DecisionApproved) seats"

definition decided_seats :: "ParticipantInfo list \<Rightarrow> DecisionInfo list \<Rightarrow> ParticipantInfo list" where
  "decided_seats seats ds = filter (\<lambda>p. \<exists>d. latest_decision seats ds (p_ID p) = Some d) seats"

lemma filter_all_length: "length (filter P xs) = length xs \<longleftrightarrow> (\<forall>x\<in>set xs. P x)"
  by (metis filter_True length_filter_less nat_neq_iff)

text \<open>
  C7: the thresholds.  Where seats have distinct ids, an approve-style guard is satisfied exactly
  when the latest decisions of the seats say so: all of them approve, all of them are decided, more
  than half approve, or at least the given positive number approve.
\<close>

theorem approve_thresholds:
  assumes "distinct (map p_ID seats)"
  shows "g_Satisfied (evaluateApproveStyle threshold seats ds) \<longleftrightarrow>
    threshold = QuorumAllApprove \<and>
      (\<forall>p\<in>set seats. \<exists>d. latest_decision seats ds (p_ID p) = Some d \<and> d_Decision d = DecisionApproved) \<or>
    threshold = QuorumAllDecide \<and> (\<forall>p\<in>set seats. latest_decision seats ds (p_ID p) \<noteq> None) \<or>
    threshold = QuorumMajorityApprove \<and> length seats < 2 * length (approved_seats seats ds) \<or>
    (\<exists>digits n. threshold = QuorumNApprovePrefix @ digits \<and> Atoi digits = Some n \<and> 0 < n \<and> n \<le> int (length (approved_seats seats ds)))"
proof -
  let ?a = "approved_seats seats ds"
  have dec: "length (mapDecisionsToSeats seats ds) = length (decided_seats seats ds)"
    using count_seats [OF assms, of "\<lambda>d. True" ds] by (simp add: decided_seats_def)
  have app: "length (filter (\<lambda>(k, d). d_Decision d = DecisionApproved) (mapDecisionsToSeats seats ds)) = length ?a"
    using count_seats [OF assms, of "\<lambda>d. d_Decision d = DecisionApproved" ds] by (simp add: approved_seats_def)
  have le: "length ?a \<le> length seats" by (simp add: approved_seats_def)
  consider "threshold = QuorumAllApprove" | "threshold = QuorumAllDecide" | "threshold = QuorumMajorityApprove"
    | (n_approve) digits where "threshold = QuorumNApprovePrefix @ digits"
    | (other) "threshold \<noteq> QuorumAllApprove" "threshold \<noteq> QuorumAllDecide" "threshold \<noteq> QuorumMajorityApprove"
        "\<not> HasPrefix threshold QuorumNApprovePrefix"
    by (metis HasPrefix_append)
  then show ?thesis
  proof cases
    case n_approve
    then show ?thesis
      using le by (auto simp: evaluateApproveStyle_def Let_def app HasPrefix_def TrimPrefix_def evaluateNApprove_def refused_def
          finishApproveStyle_def split: option.splits)
  next
    case other
    then show ?thesis by (auto simp: evaluateApproveStyle_def Let_def refused_def HasPrefix_append)
  qed (auto simp: evaluateApproveStyle_def Let_def app dec finishApproveStyle_def approved_seats_def decided_seats_def
      filter_all_length)
qed

definition ex_seats :: "ParticipantInfo list" where
  "ex_seats = map participant_info [ex_seat ''p2'' ''t'' ''ada'', ex_seat ''p3'' [] ''bob'']"

theorem approve_thresholds_witness:
  "distinct (map p_ID ex_seats) \<and> g_Satisfied (evaluateApproveStyle ''all_approve'' ex_seats (db_decisions ex_board)) \<and>
   list_all (\<lambda>p. \<exists>d. latest_decision ex_seats (db_decisions ex_board) (p_ID p) = Some d \<and> d_Decision d = DecisionApproved) ex_seats"
proof -
  have d: "distinct (map p_ID ex_seats)" by code_simp
  have "g_Satisfied (evaluateApproveStyle ''all_approve'' ex_seats (db_decisions ex_board))" by code_simp
  with approve_thresholds [OF d, of "''all_approve''" "db_decisions ex_board"] d show ?thesis by (simp add: list_all_iff)
qed

section \<open>Vetoes\<close>

definition veto_counts :: "string \<Rightarrow> DecisionInfo \<Rightarrow> bool" where
  "veto_counts role d \<longleftrightarrow> d_DeciderType d \<noteq> [] \<and> d_DeciderID d \<noteq> [] \<and> (d_DeciderType d = DeciderTypeAgent \<longrightarrow> d_Role d = role)"

definition decider :: "DecisionInfo \<Rightarrow> string \<times> string" where
  "decider d = (d_DeciderType d, d_DeciderID d)"

definition latest_of_decider :: "string \<Rightarrow> DecisionInfo list \<Rightarrow> string \<times> string \<Rightarrow> DecisionInfo option" where
  "latest_of_decider role ds who = find (\<lambda>d. veto_counts role d \<and> decider d = who) (rev ds)"

lemma any_reject_map:
  "evaluateAnyReject ds role =
     (let latest = fold (\<lambda>d m. if \<not> veto_counts role d then m else gm_put (decider d) d m) ds [];
          n = int (length (filter (\<lambda>(k, d). isRejectionVerdict (d_Decision d)) latest)) in (0 < n, n))"
proof -
  have "(\<lambda>d latest. if d_DeciderType d = [] \<or> d_DeciderID d = [] then latest
            else if d_DeciderType d = DeciderTypeAgent \<and> d_Role d \<noteq> role then latest
            else gm_put (d_DeciderType d, d_DeciderID d) d latest) =
        (\<lambda>d m. if \<not> veto_counts role d then m else gm_put (decider d) d m)"
    by (auto simp: fun_eq_iff veto_counts_def decider_def)
  then show ?thesis by (simp add: evaluateAnyReject_def)
qed

lemma length_filter_card:
  assumes "distinct (map fst m)"
  shows "length (filter (\<lambda>(k, d). P d) m) = card {k. \<exists>d. (k, d) \<in> set m \<and> P d}"
proof -
  have "distinct (map fst (filter (\<lambda>(k, d). P d) m))" using assms by (rule distinct_fst_filter)
  then have "length (filter (\<lambda>(k, d). P d) m) = card (set (map fst (filter (\<lambda>(k, d). P d) m)))"
    by (metis distinct_card length_map)
  also have "set (map fst (filter (\<lambda>(k, d). P d) m)) = {k. \<exists>d. (k, d) \<in> set m \<and> P d}" by force
  finally show ?thesis .
qed

text \<open>
  Vetoes.  The threshold \<open>any_reject\<close> is satisfied exactly when some decider's latest decision
  is a rejection, and counts these deciders; an agent's decision counts only under the guard's role,
  a user's under any role, and seats play no part.
\<close>

theorem any_reject_exact:
  "evaluateAnyReject ds role =
     (\<exists>who d. latest_of_decider role ds who = Some d \<and> isRejectionVerdict (d_Decision d),
      int (card {who. \<exists>d. latest_of_decider role ds who = Some d \<and> isRejectionVerdict (d_Decision d)}))"
proof -
  let ?m = "fold (\<lambda>d m. if \<not> veto_counts role d then m else gm_put (decider d) d m) ds []"
  let ?v = "{who. \<exists>d. latest_of_decider role ds who = Some d \<and> isRejectionVerdict (d_Decision d)}"
  have wf: "gm_wf ?m" by (rule latest_put_wf) simp
  have look: "gm_get ?m who = latest_of_decider role ds who" for who
    using latest_put_fold [of "\<lambda>d. \<not> veto_counts role d" decider ds "[]" who]
    by (simp add: latest_of_decider_def option.case_eq_if)
  have mem: "(who, d) \<in> set ?m \<longleftrightarrow> latest_of_decider role ds who = Some d" for who d
    unfolding look [symmetric] by (rule gm_get_wf_iff [OF wf, symmetric])
  have "length (filter (\<lambda>(k, d). isRejectionVerdict (d_Decision d)) ?m) = card ?v"
    using length_filter_card [of ?m "\<lambda>d. isRejectionVerdict (d_Decision d)"] wf by (simp add: gm_wf_def mem)
  moreover have "finite ?v"
    by (rule finite_subset [of _ "fst ` set ?m"]) (force simp: mem [symmetric])+
  then have "0 < card ?v \<longleftrightarrow> ?v \<noteq> {}" by (simp add: card_gt_0_iff)
  ultimately show ?thesis by (auto simp: any_reject_map Let_def)
qed

section \<open>The outcome of a guard\<close>

lemma finish_reason:
  "g_Satisfied (finishApproveStyle b n k) = b" "g_Reason (finishApproveStyle b n k) = [] \<longleftrightarrow> b"
  by (simp_all add: finishApproveStyle_def)

lemma nApprove_reason: "g_Satisfied (evaluateNApprove t n k) \<longleftrightarrow> g_Reason (evaluateNApprove t n k) = []"
  by (auto simp: evaluateNApprove_def refused_def finish_reason split: option.split)

lemma evaluateApproveStyle_reason:
  "g_Satisfied (evaluateApproveStyle threshold seats ds) \<longleftrightarrow> g_Reason (evaluateApproveStyle threshold seats ds) = []"
  unfolding evaluateApproveStyle_def Let_def
  by (auto simp add: finish_reason nApprove_reason refused_def simp del: filter.simps)

lemma requiredSeats_record:
  "fst (requiredSeatsForWorkflowRecording e ps st task flow role False s) =
     fst (requiredSeatsForWorkflowRecording e ps st task flow role True s) \<and>
   snd (requiredSeatsForWorkflowRecording e ps st task flow role False s) = []"
proof -
  have "fst (dropUnresolvedAgentSeats e role seats False s) = fst (dropUnresolvedAgentSeats e role seats True s) \<and>
        snd (dropUnresolvedAgentSeats e role seats False s) = []" for seats
    using drop_unresolved_record [of _ role seats s] by (cases "e_agentProfiles e") (auto simp: dropUnresolvedAgentSeats_def)
  then show ?thesis by (simp add: requiredSeatsForWorkflowRecording_def split: sum.split)
qed

lemma guard_read_only:
  "fst (evaluateTransitionGuardRecording e m a False s) = fst (evaluateTransitionGuardRecording e m a True s) \<and>
   snd (evaluateTransitionGuardRecording e m a False s) = []"
proof -
  have "fst (computeGuardOutcomeRecording e m q False s) = fst (computeGuardOutcomeRecording e m q True s) \<and>
        snd (computeGuardOutcomeRecording e m q False s) = []" for q
  proof (cases "e_decisions e"; cases "e_participants e")
    fix ds ps assume "e_decisions e = Some ds" "e_participants e = Some ps"
    then show ?thesis
      using requiredSeats_record [of e ps "m_CurrentStepID m" "m_TaskID m" "m_WorkflowID m" "wq_Role q" s]
      by (auto simp: computeGuardOutcomeRecording_def Let_def split: prod.splits sum.splits)
  qed (simp_all add: computeGuardOutcomeRecording_def)
  then show ?thesis by (simp add: evaluateTransitionGuardRecording_def split: option.split)
qed

lemma guard_permits:
  assumes "evaluateTransitionGuardRecording e m a rec s = (outcome, ms)" and "a_Guard a = Some g"
  shows "(g_Satisfied outcome \<longleftrightarrow> g_Reason outcome = []) \<and>
    (g_Satisfied outcome \<longrightarrow> (\<exists>q store ps ds. tg_WaitForQuorum g = Some q \<and> e_decisions e = Some store \<and> e_participants e = Some ps \<and>
       ListStepDecisions store (m_TaskID m) (m_CurrentStepID m) s = Inr ds \<and>
       (if wq_Threshold q = QuorumAnyReject then fst (evaluateAnyReject ds (wq_Role q))
        else \<exists>seats. fst (requiredSeatsForWorkflowRecording e ps (m_CurrentStepID m) (m_TaskID m) (m_WorkflowID m) (wq_Role q) rec s)
               = Inr seats \<and> seats \<noteq> [] \<and> outcome = evaluateApproveStyle (wq_Threshold q) seats ds)))"
proof (cases "tg_WaitForQuorum g")
  case None
  then show ?thesis using assms by (auto simp: evaluateTransitionGuardRecording_def refused_def)
next
  case (Some q)
  then have out: "computeGuardOutcomeRecording e m q rec s = (outcome, ms)"
    using assms by (simp add: evaluateTransitionGuardRecording_def)
  show ?thesis
  proof (cases "e_decisions e"; cases "e_participants e")
    fix store ps assume wired: "e_decisions e = Some store" "e_participants e = Some ps"
    obtain r ms' where req: "requiredSeatsForWorkflowRecording e ps (m_CurrentStepID m) (m_TaskID m) (m_WorkflowID m)
        (wq_Role q) rec s = (r, ms')" by fastforce
    show ?thesis
    proof (cases "wq_Threshold q = QuorumAnyReject")
      case True
      then show ?thesis using out wired Some
        by (auto simp: computeGuardOutcomeRecording_def refused_def Let_def split: sum.splits prod.splits if_splits)
    next
      case False
      then show ?thesis using out wired Some evaluateApproveStyle_reason
        by (auto simp: computeGuardOutcomeRecording_def refused_def Let_def req split: sum.splits if_splits)
    qed
  qed (use out in \<open>auto simp: computeGuardOutcomeRecording_def refused_def\<close>)
qed

text \<open>
  C11: guards fail closed.  A guarded transition is permitted only when both stores are wired and the
  loads succeed, and then either a decider vetoes (\<open>any_reject\<close>) or the non-empty slate of required
  seats meets the threshold; and an outcome carries a reason exactly when it does not permit.
\<close>

theorem guard_fails_closed:
  assumes "evaluateTransitionGuardRecording e m a rec s = (outcome, ms)" and "a_Guard a = Some g"
  shows "(g_Satisfied outcome \<longleftrightarrow> g_Reason outcome = []) \<and>
    (g_Satisfied outcome \<longrightarrow> (\<exists>q store ps ds. tg_WaitForQuorum g = Some q \<and> e_decisions e = Some store \<and> e_participants e = Some ps \<and>
       ListStepDecisions store (m_TaskID m) (m_CurrentStepID m) s = Inr ds \<and>
       (if wq_Threshold q = QuorumAnyReject then fst (evaluateAnyReject ds (wq_Role q))
        else \<exists>seats. fst (requiredSeatsForWorkflowRecording e ps (m_CurrentStepID m) (m_TaskID m) (m_WorkflowID m) (wq_Role q) rec s)
               = Inr seats \<and> seats \<noteq> [] \<and> outcome = evaluateApproveStyle (wq_Threshold q) seats ds)))"
  by (rule guard_permits [OF assms])

theorem guard_fails_closed_witness:
  "g_Satisfied (fst (evaluateTransitionGuardRecording ex_engine ex_state ex_action True ex_board)) \<and>
   g_Reason (fst (evaluateTransitionGuardRecording ex_engine ex_state ex_action True ex_board)) = []"
proof -
  obtain outcome ms where out: "evaluateTransitionGuardRecording ex_engine ex_state ex_action True ex_board = (outcome, ms)" by fastforce
  have "g_Satisfied (fst (evaluateTransitionGuardRecording ex_engine ex_state ex_action True ex_board))" by code_simp
  moreover have "a_Guard ex_action \<noteq> None" by code_simp
  ultimately show ?thesis using guard_fails_closed [OF out] out by auto
qed

text \<open>Without decisions nothing is satisfied.\<close>

lemma approve_undecided: "seats \<noteq> [] \<Longrightarrow> \<not> g_Satisfied (evaluateApproveStyle threshold seats [])"
  by (simp add: evaluateApproveStyle_def Let_def mapDecisionsToSeats_def finishApproveStyle_def evaluateNApprove_def refused_def split: option.split)

lemma reject_undecided: "\<not> fst (evaluateAnyReject [] role)"
  by (simp add: evaluateAnyReject_def)

lemma undecided_unsatisfied:
  assumes "evaluateTransitionGuardRecording e m a rec s = (outcome, ms)" and "a_Guard a = Some g"
    and "e_decisions e = Some store" and "ListStepDecisions store (m_TaskID m) (m_CurrentStepID m) s = Inr []"
  shows "\<not> g_Satisfied outcome"
  using guard_permits [OF assms(1,2)] assms(3,4) approve_undecided reject_undecided
  by (auto split: if_splits)

end
