(* ===== verification/Engine_Laws.thy ===== *)
theory Engine_Laws
  imports Quorum_Laws
begin

text \<open>
  The workflow engine: a trigger with an operation id takes effect once, the first permitted
  transition of the step decides, an evaluation without effects agrees with the real one, and a
  recorded decision moves the task only through a satisfied quorum guard.  The laws of the operation
  ledger are the locale \<open>operation_marks\<close>, interpreted on the store of the orchestrator over any
  repositories.
\<close>

lemma record_metrics_state [simp]: "w_state (record_metrics ms w) = w_state w"
  by (simp add: record_metrics_def)

lemma call_state: "call f w = (a, w') \<longleftrightarrow> f (w_state w) = (a, w_state w') \<and> w' = w\<lparr>w_state := w_state w'\<rparr>"
  by (auto simp: call_def Let_def split: prod.splits)

section \<open>The first permitted transition decides\<close>

definition permitted :: "'s Engine \<Rightarrow> MachineState \<Rightarrow> StepSpec \<Rightarrow> Action \<Rightarrow> string \<Rightarrow> 's \<Rightarrow> bool" where
  "permitted e m step a target s \<longleftrightarrow> isTransitionAction (a_Kind a) \<and> \<not> a_RequiresApproval a \<and>
     g_Satisfied (fst (evaluateTransitionGuard e m a s)) \<and> resolveTransitionTarget e m step a s = Inr target"

lemma evaluate_kept_target:
  "evaluate_actions e inp m step flt target patch as w = (Inr (target', patch'), w') \<Longrightarrow> target \<noteq> [] \<Longrightarrow> target' = target"
  by (induction e inp m step flt target patch as w rule: evaluate_actions.induct) (auto split: if_splits prod.splits sum.splits)

lemma evaluate_first_permitted:
  assumes "evaluate_actions e inp m step flt [] patch as w = (Inr (target, patch'), w')" and "target \<noteq> []"
  shows "\<exists>before a after patch1 w1. as = before @ a # after \<and> \<not> filtered_out flt a \<and>
    evaluate_actions e inp m step flt [] patch before w = (Inr ([], patch1), w1) \<and> permitted e m step a target (w_state w1)"
  using assms
proof (induction as arbitrary: patch w)
  case (Cons a as)
  note IH = this
  show ?case
  proof (cases "\<exists>patch1 w1. evaluate_actions e inp m step flt [] patch [a] w = (Inr ([], patch1), w1) \<and>
      evaluate_actions e inp m step flt [] patch1 as w1 = (Inr (target, patch'), w')")
    case True
    then obtain patch1 w1 where first: "evaluate_actions e inp m step flt [] patch [a] w = (Inr ([], patch1), w1)"
      and rest: "evaluate_actions e inp m step flt [] patch1 as w1 = (Inr (target, patch'), w')" by blast
    obtain before b after patch2 w2 where ih: "as = before @ b # after" "\<not> filtered_out flt b"
      "evaluate_actions e inp m step flt [] patch1 before w1 = (Inr ([], patch2), w2)" "permitted e m step b target (w_state w2)"
      using Cons.IH [OF rest Cons.prems(2)] by blast
    have "evaluate_actions e inp m step flt [] patch (a # before) w = (Inr ([], patch2), w2)"
      using first ih(3) by (auto simp: Let_def split: if_splits prod.splits sum.splits)
    with ih show ?thesis by (metis append_Cons)
  next
    case False
    then have "\<not> filtered_out flt a" "permitted e m step a target (w_state w)"
      using Cons.prems
      by (auto simp: permitted_def Let_def dest: evaluate_kept_target split: if_splits prod.splits sum.splits)
    then show ?thesis by (metis append_Nil evaluate_actions.simps(1))
  qed
qed simp

lemma process_transition:
  assumes "processActions e inp m step actions flt w = (Inr r, w')" and "hr_Transitioned r"
  shows "\<exists>patch w1 w2. evaluateActions e inp m step actions flt w = (Inr (hr_ToStepID r, patch), w1) \<and>
    persist_patch e inp patch w1 = (None, w2) \<and>
    hr_ToStepID r \<noteq> [] \<and> hr_ToStepID r \<noteq> m_CurrentStepID m \<and> hr_FromStepID r = m_CurrentStepID m \<and>
    (if h_EvaluateOnly inp then w' = w2 else applyTransition e inp m (hr_ToStepID r) w2 = (None, w'))"
  using assms
  by (auto simp: processActions_def no_result_def Let_def split: prod.splits sum.splits option.splits if_splits)

lemma handle_transition:
  assumes "handleTrigger e inp flt w = ((r, err), w')" and "hr_Transitioned r"
  obtains m step r0 w0 where "loadExecutionState e inp w = Inr m"
    "LoadStep (e_store e) (m_WorkflowID m) (m_CurrentStepID m) (w_state w) = Inr step"
    "processActions e inp m step (step_actions step (h_Trigger inp)) flt w = (Inr r0, w0)"
    "hr_Transitioned r0" "hr_ToStepID r = hr_ToStepID r0" "hr_FromStepID r = hr_FromStepID r0"
    "if h_EvaluateOnly inp then w' = w0 else markOperationAppliedForInput e inp w0 = (err, w')"
  using assms
  by (auto simp: handleTrigger_def no_result_def with_mark_def Let_def split: prod.splits sum.splits option.splits if_splits bool.splits)

text \<open>
  C14: the first permitted transition decides.  When handling a trigger transitions a task, the step
  the task was at declares, for that trigger, an action whose guard permitted it when the engine
  reached it, whose target is the step it moved to, and before which no action of the step had chosen
  a target; the task leaves its step.  The writes of the call are exactly those of the actions of
  the step, then their data patch, then, unless the call only evaluates, one transition and the mark
  of the operation.
\<close>

theorem first_permitted_transition:
  assumes "HandleTrigger e inp w = ((r, err), w')" and "hr_Transitioned r"
  shows "\<exists>m step before a after patch0 w0 patch w1 w2. loadExecutionState e inp w = Inr m \<and>
    LoadStep (e_store e) (m_WorkflowID m) (m_CurrentStepID m) (w_state w) = Inr step \<and>
    step_actions step (h_Trigger inp) = before @ a # after \<and>
    evaluateActions e inp m step before None w = (Inr ([], patch0), w0) \<and> permitted e m step a (hr_ToStepID r) (w_state w0) \<and>
    hr_FromStepID r = m_CurrentStepID m \<and> hr_ToStepID r \<noteq> m_CurrentStepID m \<and>
    evaluateActions e inp m step (before @ a # after) None w = (Inr (hr_ToStepID r, patch), w1) \<and>
    persist_patch e inp patch w1 = (None, w2) \<and>
    (if h_EvaluateOnly inp then w' = w2
     else \<exists>w3. applyTransition e inp m (hr_ToStepID r) w2 = (None, w3) \<and> markOperationAppliedForInput e inp w3 = (err, w'))"
proof -
  obtain m step r0 w0 where run: "loadExecutionState e inp w = Inr m"
    "LoadStep (e_store e) (m_WorkflowID m) (m_CurrentStepID m) (w_state w) = Inr step"
    "processActions e inp m step (step_actions step (h_Trigger inp)) None w = (Inr r0, w0)"
    and r0: "hr_Transitioned r0" "hr_ToStepID r = hr_ToStepID r0" "hr_FromStepID r = hr_FromStepID r0"
      "if h_EvaluateOnly inp then w' = w0 else markOperationAppliedForInput e inp w0 = (err, w')"
    using handle_transition [OF assms(1) [unfolded HandleTrigger_def] assms(2)] by metis
  obtain patch w1 w2 where ev: "evaluateActions e inp m step (step_actions step (h_Trigger inp)) None w = (Inr (hr_ToStepID r, patch), w1)"
    and p: "persist_patch e inp patch w1 = (None, w2)" "hr_ToStepID r \<noteq> []" "hr_ToStepID r \<noteq> m_CurrentStepID m" "hr_FromStepID r = m_CurrentStepID m"
      "if h_EvaluateOnly inp then w0 = w2 else applyTransition e inp m (hr_ToStepID r) w2 = (None, w0)"
    using process_transition [OF run(3) r0(1), folded r0(2,3)] by blast
  obtain before a after patch0 w3 where first: "step_actions step (h_Trigger inp) = before @ a # after"
    "evaluateActions e inp m step before None w = (Inr ([], patch0), w3)" "permitted e m step a (hr_ToStepID r) (w_state w3)"
    using evaluate_first_permitted [OF ev [unfolded evaluateActions_def] p(2)] unfolding evaluateActions_def by blast
  have "if h_EvaluateOnly inp then w' = w2
     else \<exists>w3. applyTransition e inp m (hr_ToStepID r) w2 = (None, w3) \<and> markOperationAppliedForInput e inp w3 = (err, w')"
    using p(5) r0(4) by (auto split: if_splits)
  with run(1,2) first p(1,3,4) ev [unfolded first(1)] show ?thesis by blast
qed

theorem first_permitted_transition_witness:
  "\<exists>r w' a. HandleTrigger ex_engine ex_input ex_world = ((r, None), w') \<and> hr_ToStepID r = ''done'' \<and>
     a \<in> set (step_actions (CompileStep ex_review) TriggerOnTurnComplete) \<and> isTransitionAction (a_Kind a)"
proof -
  obtain r err w' where run: "HandleTrigger ex_engine ex_input ex_world = ((r, err), w')" by (metis surj_pair)
  have "(\<lambda>((r, err), w). hr_Transitioned r \<and> err = None \<and> hr_ToStepID r = ''done'') (HandleTrigger ex_engine ex_input ex_world)" by code_simp
  with run have r: "hr_Transitioned r" "err = None" "hr_ToStepID r = ''done''" by simp_all
  obtain m step before a after where m: "loadExecutionState ex_engine ex_input ex_world = Inr m"
    and step: "LoadStep (e_store ex_engine) (m_WorkflowID m) (m_CurrentStepID m) (w_state ex_world) = Inr step"
    and a: "step_actions step (h_Trigger ex_input) = before @ a # after" "isTransitionAction (a_Kind a)"
    using first_permitted_transition [OF run r(1)] unfolding permitted_def by blast
  have "loadExecutionState ex_engine ex_input ex_world = Inr ex_state" by code_simp
  with m have "m = ex_state" by simp
  moreover have "LoadStep (e_store ex_engine) (m_WorkflowID ex_state) (m_CurrentStepID ex_state) (w_state ex_world) = Inr (CompileStep ex_review)"
    by code_simp
  ultimately have "step = CompileStep ex_review" using step by simp
  moreover have "h_Trigger ex_input = TriggerOnTurnComplete" by (simp add: ex_input_def)
  ultimately show ?thesis using a run r by fastforce
qed

section \<open>Evaluating without effects\<close>

definition read_only_callbacks :: "'s CallbackRegistry \<Rightarrow> bool" where
  "read_only_callbacks callbacks \<longleftrightarrow> (\<forall>k c. callbacks k = Some c \<longrightarrow> (\<forall>i w. w_state (snd (c i w)) = w_state w))"

lemma execute_read_only:
  assumes "read_only_callbacks (e_callbacks e)" and "executeCallback e inp m step a patch w = (res, w')"
  shows "w_state w' = w_state w"
proof (cases "e_callbacks e (a_Kind a)")
  case (Some c)
  then have "w_state (snd (c i w)) = w_state w" for i using assms(1) by (auto simp: read_only_callbacks_def)
  then show ?thesis using assms(2) Some unfolding executeCallback_def
    by (auto split: prod.splits sum.splits) (metis snd_conv)+
qed (use assms(2) in \<open>simp add: executeCallback_def\<close>)

lemma evaluate_read_only:
  assumes "read_only_callbacks (e_callbacks e)"
  shows "evaluate_actions e inp m step flt target patch as w = (res, w') \<Longrightarrow> w_state w' = w_state w"
proof (induction as arbitrary: target patch w)
  case (Cons a as)
  then show ?case using execute_read_only [OF assms, of inp m step a patch w]
    by (auto simp: Let_def split: if_splits prod.splits sum.splits)
qed simp

lemma process_evaluate_only:
  assumes "read_only_callbacks (e_callbacks e)" and "h_EvaluateOnly inp"
    and "processActions e inp m step actions flt w = (res, w')"
  shows "w_state w' = w_state w"
  using assms evaluate_read_only [OF assms(1), of inp m step flt "[]" "[]" actions w]
  by (auto simp: processActions_def evaluateActions_def persist_patch_def Let_def split: prod.splits sum.splits if_splits)

text \<open>The evaluation of the actions does not look at the flag.\<close>

lemma execute_flag: "executeCallback e (inp\<lparr>h_EvaluateOnly := b\<rparr>) m step a patch w = executeCallback e inp m step a patch w"
  by (cases "e_callbacks e (a_Kind a)") (simp_all add: executeCallback_def)

lemma evaluate_flag: "evaluate_actions e (inp\<lparr>h_EvaluateOnly := b\<rparr>) m step flt target patch as w = evaluate_actions e inp m step flt target patch as w"
  by (induction as arbitrary: target patch w) (auto simp: execute_flag Let_def split: prod.split sum.split)

lemma process_flag:
  assumes "processActions e (inp\<lparr>h_EvaluateOnly := True\<rparr>) m step actions flt w = (res, w1)"
    and "processActions e (inp\<lparr>h_EvaluateOnly := False\<rparr>) m step actions flt w = (Inr r, w2)"
  shows "res = Inr r"
  using assms
  by (auto simp: processActions_def evaluateActions_def evaluate_flag persist_patch_def Let_def
      split: prod.splits sum.splits if_splits option.splits)

lemma process_not_deferred: "processActions e inp m step actions flt w = (Inr r, w') \<Longrightarrow> \<not> hr_OperationMarkDeferred r"
  by (auto simp: processActions_def no_result_def Let_def split: prod.splits sum.splits option.splits if_splits)

text \<open>What is decided before the actions are looked at: an early result, or the state and the step.\<close>

definition prepared :: "'s Engine \<Rightarrow> HandleInput \<Rightarrow> (ActionKind \<Rightarrow> bool) option \<Rightarrow> 's world \<Rightarrow>
    (HandleResult \<times> werror option) \<times> 's world + MachineState \<times> StepSpec" where
  "prepared e inp flt w =
     (if h_TaskID inp = [] \<or> h_SessionID inp = [] then Inl (failed (ErrorText ''task_id and session_id are required'') w)
      else (case isOperationAlreadyApplied e (h_OperationID inp) w of
        Inl err \<Rightarrow> Inl (failed err w)
      | Inr True \<Rightarrow> Inl ((no_result\<lparr>hr_Idempotent := True\<rparr>, None), w)
      | Inr False \<Rightarrow> (case loadExecutionState e inp w of
        Inl err \<Rightarrow> Inl (failed err w)
      | Inr m \<Rightarrow>
         if commentRetryIsStale inp m then Inl (with_mark no_result (markOperationAppliedForInput e inp w))
         else (case LoadStep (e_store e) (m_WorkflowID m) (m_CurrentStepID m) (w_state w) of
           Inl err \<Rightarrow> Inl (failed err w)
         | Inr step \<Rightarrow> (case (if h_OperationID inp \<noteq> [] then validateActionCallbacks e flt (step_actions step (h_Trigger inp)) else None) of
             Some err \<Rightarrow> Inl (failed err w)
           | None \<Rightarrow> if step_actions step (h_Trigger inp) = [] then Inl (with_mark no_result (markOperationAppliedForInput e inp w))
                    else Inr (m, step))))))"

lemma handle_prepared:
  "handleTrigger e inp flt w = (case prepared e inp flt w of Inl out \<Rightarrow> out
     | Inr (m, step) \<Rightarrow> (case processActions e inp m step (step_actions step (h_Trigger inp)) flt w of
         (Inl err, w1) \<Rightarrow> failed (comment_error inp m err) w1
       | (Inr result, w1) \<Rightarrow>
           if h_EvaluateOnly inp \<and> hr_Transitioned result
           then ((result\<lparr>hr_OperationMarkDeferred := h_OperationID inp \<noteq> []\<rparr>, None), w1)
           else with_mark result (markOperationAppliedForInput e inp w1)))"
proof (cases "h_TaskID inp = [] \<or> h_SessionID inp = []")
  case False
  then show ?thesis
  proof (cases "isOperationAlreadyApplied e (h_OperationID inp) w")
    case (Inr applied)
    with False show ?thesis
    proof (cases "loadExecutionState e inp w")
      case (Inr m)
      then show ?thesis using False \<open>isOperationAlreadyApplied e (h_OperationID inp) w = Inr applied\<close>
        by (cases applied; cases "LoadStep (e_store e) (m_WorkflowID m) (m_CurrentStepID m) (w_state w)")
           (auto simp: handleTrigger_def prepared_def Let_def split: option.split)
    qed (cases applied; simp add: handleTrigger_def prepared_def)
  qed (simp add: handleTrigger_def prepared_def)
qed (auto simp: handleTrigger_def prepared_def)

lemma prepared_early:
  assumes "prepared e inp flt w = Inl ((r, err), w1)"
  shows "\<not> hr_Transitioned r \<and> \<not> hr_OperationMarkDeferred r \<and> (h_DeferOperationMark inp \<longrightarrow> w1 = w) \<and>
    (w1 = w \<or> markOperationAppliedForInput e inp w = (err, w1))"
  using assms by (auto simp: prepared_def no_result_def with_mark_def markOperationAppliedForInput_def
      split: if_splits sum.splits bool.splits option.splits prod.splits)

lemmas flag_simps = loadExecutionState_def commentRetryIsStale_def markOperationAppliedForInput_def comment_error_def

lemma prepared_flag: "prepared e (inp\<lparr>h_EvaluateOnly := b\<rparr>) flt w = prepared e inp flt w"
proof -
  have "with_mark no_result (markOperationAppliedForInput e (inp\<lparr>h_EvaluateOnly := b\<rparr>) w) =
        with_mark no_result (markOperationAppliedForInput e inp w)" by (simp add: flag_simps)
  moreover have "loadExecutionState e (inp\<lparr>h_EvaluateOnly := b\<rparr>) w = loadExecutionState e inp w"
      "commentRetryIsStale (inp\<lparr>h_EvaluateOnly := b\<rparr>) = commentRetryIsStale inp"
    by (simp_all add: flag_simps fun_eq_iff split: option.split)
  moreover have "h_TaskID (inp\<lparr>h_EvaluateOnly := b\<rparr>) = h_TaskID inp" "h_SessionID (inp\<lparr>h_EvaluateOnly := b\<rparr>) = h_SessionID inp"
      "h_OperationID (inp\<lparr>h_EvaluateOnly := b\<rparr>) = h_OperationID inp" "h_Trigger (inp\<lparr>h_EvaluateOnly := b\<rparr>) = h_Trigger inp"
    by simp_all
  ultimately show ?thesis by (simp only: prepared_def)
qed

text \<open>
  C30: evaluating agrees and writes at most a mark.  With callbacks that only read, a call that only evaluates
  and finds a transition, or whose caller asked to keep the mark, changes nothing in the stores; without a transition it
  changes nothing but the mark of its operation.  When it finds a transition it leaves the mark to its caller.  Whenever
  the same call without the flag succeeds, it returns the same result, apart from that deferral.
\<close>

theorem evaluate_only_agrees:
  assumes "HandleTrigger e (inp\<lparr>h_EvaluateOnly := True\<rparr>) w = ((r, err), w1)"
  shows "(read_only_callbacks (e_callbacks e) \<and> (hr_Transitioned r \<or> h_DeferOperationMark inp) \<longrightarrow> w_state w1 = w_state w) \<and>
    (read_only_callbacks (e_callbacks e) \<longrightarrow> w_state w1 = w_state w \<or>
       (\<exists>v. w_state v = w_state w \<and> markOperationAppliedForInput e inp v = (err, w1))) \<and>
    (hr_Transitioned r \<longrightarrow> hr_OperationMarkDeferred r = (h_OperationID inp \<noteq> [])) \<and>
    (HandleTrigger e (inp\<lparr>h_EvaluateOnly := False\<rparr>) w = ((r', None), w2) \<longrightarrow> r\<lparr>hr_OperationMarkDeferred := False\<rparr> = r')"
proof (cases "prepared e inp None w")
  case (Inl out)
  then have "HandleTrigger e (inp\<lparr>h_EvaluateOnly := b\<rparr>) w = out" for b by (simp add: HandleTrigger_def handle_prepared prepared_flag)
  then show ?thesis using assms prepared_early [of e inp None w r err w1] Inl by auto
next
  case (Inr ms)
  obtain m step where ms: "ms = (m, step)" by fastforce
  let ?run = "\<lambda>b. processActions e (inp\<lparr>h_EvaluateOnly := b\<rparr>) m step (step_actions step (h_Trigger inp)) None w"
  obtain res v where run: "?run True = (res, v)" by fastforce
  have agree: "res = Inr r2" if "?run False = (Inr r2, v2)" for r2 v2 using process_flag [OF run that] .
  have state: "w_state v = w_state w" if "read_only_callbacks (e_callbacks e)"
    using process_evaluate_only [OF that _ run] by simp
  have run1: "HandleTrigger e (inp\<lparr>h_EvaluateOnly := True\<rparr>) w = (case res of Inl x \<Rightarrow> failed (comment_error inp m x) v
      | Inr res' \<Rightarrow> if hr_Transitioned res' then ((res'\<lparr>hr_OperationMarkDeferred := h_OperationID inp \<noteq> []\<rparr>, None), v)
                 else with_mark res' (markOperationAppliedForInput e inp v))"
    using Inr run by (simp add: HandleTrigger_def handle_prepared prepared_flag ms comment_error_def markOperationAppliedForInput_def split: sum.split)
  obtain res2 v2 where run2: "?run False = (res2, v2)" by fastforce
  have "HandleTrigger e (inp\<lparr>h_EvaluateOnly := False\<rparr>) w = (case res2 of Inl x \<Rightarrow> failed (comment_error inp m x) v2
      | Inr res' \<Rightarrow> with_mark res' (markOperationAppliedForInput e inp v2))"
    using Inr run2 by (simp add: HandleTrigger_def handle_prepared prepared_flag ms comment_error_def markOperationAppliedForInput_def split: sum.split)
  with run1 show ?thesis using assms agree [of _ v2] run2 state process_not_deferred [of e "inp\<lparr>h_EvaluateOnly := True\<rparr>"] run
    by (cases res; cases res2)
       (auto simp: no_result_def with_mark_def markOperationAppliedForInput_def split: if_splits prod.splits)
qed

definition ex_evaluate :: HandleInput where
  "ex_evaluate = ex_input\<lparr>h_EvaluateOnly := True\<rparr>"

theorem evaluate_only_agrees_witness:
  "\<exists>r r' w1 w2. HandleTrigger ex_engine ex_evaluate ex_world = ((r, None), w1) \<and> hr_ToStepID r = ''done'' \<and> w_state w1 = w_state ex_world \<and>
     HandleTrigger ex_engine (ex_evaluate\<lparr>h_EvaluateOnly := False\<rparr>) ex_world = ((r', None), w2) \<and> r\<lparr>hr_OperationMarkDeferred := False\<rparr> = r'"
proof -
  obtain r err w1 r' err' w2 where run: "HandleTrigger ex_engine ex_evaluate ex_world = ((r, err), w1)"
    and run': "HandleTrigger ex_engine (ex_evaluate\<lparr>h_EvaluateOnly := False\<rparr>) ex_world = ((r', err'), w2)" by (metis surj_pair)
  have "(\<lambda>((r, err), w). hr_Transitioned r \<and> err = None \<and> hr_ToStepID r = ''done'') (HandleTrigger ex_engine ex_evaluate ex_world)"
    "(\<lambda>((r, err), w). err = None) (HandleTrigger ex_engine (ex_evaluate\<lparr>h_EvaluateOnly := False\<rparr>) ex_world)" by code_simp+
  with run run' have r: "hr_Transitioned r" "err = None" "err' = None" "hr_ToStepID r = ''done''" by simp_all
  have "ex_evaluate = ex_evaluate\<lparr>h_EvaluateOnly := True\<rparr>" by (simp add: ex_evaluate_def)
  with run have run1: "HandleTrigger ex_engine (ex_evaluate\<lparr>h_EvaluateOnly := True\<rparr>) ex_world = ((r, err), w1)" by simp
  have "read_only_callbacks (e_callbacks ex_engine)" by (simp add: read_only_callbacks_def ex_engine_def New_def)
  then show ?thesis using evaluate_only_agrees [OF run1, of r' w2] run run' r by blast
qed

section \<open>Operations take effect once\<close>

text \<open>What the engine relies on of the ledger of a store: a mark is seen, and no write of the store takes one back.\<close>

locale operation_marks =
  fixes store :: "'s TransitionStore"
  assumes marked: "MarkOperationApplied store op s = (None, s') \<Longrightarrow> op \<noteq> [] \<Longrightarrow> IsOperationApplied store op s' = Inr True"
    and mark_keeps: "IsOperationApplied store op s = Inr True \<Longrightarrow> IsOperationApplied store op (snd (MarkOperationApplied store op' s)) = Inr True"
    and apply_keeps: "IsOperationApplied store op s = Inr True \<Longrightarrow> IsOperationApplied store op (snd (ApplyTransition store t ss st st' tr s)) = Inr True"
    and persist_keeps: "IsOperationApplied store op s = Inr True \<Longrightarrow> IsOperationApplied store op (snd (PersistData store ss patch s)) = Inr True"

definition is_marked :: "'s TransitionStore \<Rightarrow> string \<Rightarrow> 's world \<Rightarrow> bool" where
  "is_marked store op w \<longleftrightarrow> IsOperationApplied store op (w_state w) = Inr True"

text \<open>Callbacks that take no mark back.\<close>

definition keeps_marks :: "'s TransitionStore \<Rightarrow> 's CallbackRegistry \<Rightarrow> bool" where
  "keeps_marks store callbacks \<longleftrightarrow> (\<forall>k c i w op. callbacks k = Some c \<and> is_marked store op w \<longrightarrow> is_marked store op (snd (c i w)))"

text \<open>Any sequence of triggers on an engine, each of the whole step or of some kinds of actions.\<close>

definition run_triggers :: "'s Engine \<Rightarrow> (HandleInput \<times> (ActionKind \<Rightarrow> bool) option) list \<Rightarrow> 's world \<Rightarrow> 's world" where
  "run_triggers e calls w = fold (\<lambda>(inp, flt) w. snd (handleTrigger e inp flt w)) calls w"

lemma marked_metrics [simp]: "is_marked store op (record_metrics ms w) = is_marked store op w"
  by (simp add: is_marked_def)

lemma execute_marked:
  assumes "keeps_marks store (e_callbacks e)" and "is_marked store op w" and "executeCallback e inp m step a patch w = (res, w')"
  shows "is_marked store op w'"
proof (cases "e_callbacks e (a_Kind a)")
  case (Some c)
  then have "is_marked store op (snd (c i w))" for i using assms(1,2) by (auto simp: keeps_marks_def)
  then show ?thesis using assms(3) Some unfolding executeCallback_def
    by (auto split: prod.splits sum.splits) (metis snd_conv)+
qed (use assms in \<open>simp add: executeCallback_def\<close>)

lemma evaluate_marked:
  assumes "keeps_marks store (e_callbacks e)"
  shows "evaluate_actions e inp m step flt target patch as w = (res, w') \<Longrightarrow> is_marked store op w \<Longrightarrow> is_marked store op w'"
proof (induction as arbitrary: target patch w)
  case (Cons a as)
  then show ?case using execute_marked [OF assms, of op w inp m step a patch]
    by (auto simp: Let_def split: if_splits prod.splits sum.splits)
qed simp

context operation_marks
begin

lemma mark_applied:
  assumes "markOperationApplied e op w = (None, w')" and "op \<noteq> []" and "e_store e = store"
  shows "is_marked store op w'"
  using assms marked by (auto simp: markOperationApplied_def is_marked_def call_state)

lemma writes_keep:
  assumes "e_store e = store" "is_marked store op w"
  shows "is_marked store op (snd (markOperationAppliedForInput e inp w))" "is_marked store op (snd (persist_patch e inp patch w))"
    "is_marked store op (snd (applyTransition e inp m target w))"
  using assms mark_keeps apply_keeps persist_keeps
  by (auto simp: is_marked_def markOperationAppliedForInput_def markOperationApplied_def persist_patch_def applyTransition_def call_def case_prod_beta Let_def)

lemma process_keeps:
  assumes "keeps_marks store (e_callbacks e)" "e_store e = store" "is_marked store op w"
  shows "is_marked store op (snd (processActions e inp m step actions flt w))"
proof -
  obtain res w1 where ev: "evaluateActions e inp m step actions flt w = (res, w1)" by fastforce
  have w1: "is_marked store op w1" using evaluate_marked [OF assms(1) ev [unfolded evaluateActions_def] assms(3)] .
  have w2: "is_marked store op w2" if "persist_patch e inp patch w1 = (x, w2)" for patch x w2
    using writes_keep(2) [OF assms(2) w1, of inp patch] that by simp
  have w3: "is_marked store op w3" if "persist_patch e inp patch w1 = (x, w2)" "applyTransition e inp m target w2 = (y, w3)" for patch x w2 target y w3
    using writes_keep(3) [OF assms(2) w2 [OF that(1)], of inp m target] that(2) by simp
  show ?thesis using w1 w2 w3 by (auto simp: processActions_def ev Let_def split: sum.split prod.split option.split)
qed

lemma handle_keeps:
  assumes "keeps_marks store (e_callbacks e)" "e_store e = store" "is_marked store op w"
  shows "is_marked store op (snd (handleTrigger e inp flt w))"
proof (cases "prepared e inp flt w")
  case (Inl out)
  obtain r err w1 where out: "out = ((r, err), w1)" by (metis prod.collapse)
  have "w1 = w \<or> markOperationAppliedForInput e inp w = (err, w1)" using prepared_early Inl out by blast
  then have "is_marked store op w1" using writes_keep(1) [OF assms(2,3), of inp] assms(3) by auto
  then show ?thesis by (simp add: handle_prepared Inl out)
next
  case (Inr ms)
  obtain m step where ms: "ms = (m, step)" by fastforce
  obtain res w1 where run: "processActions e inp m step (step_actions step (h_Trigger inp)) flt w = (res, w1)" by fastforce
  have w1: "is_marked store op w1" using process_keeps [OF assms, of inp m step "step_actions step (h_Trigger inp)" flt] by (simp add: run)
  have "snd (with_mark x p) = snd p" for x and p :: "werror option \<times> 's world" by (simp add: with_mark_def case_prod_beta)
  then show ?thesis using w1 writes_keep(1) [OF assms(2) w1, of inp] by (simp add: handle_prepared Inr ms run split: sum.split)
qed

lemma run_keeps:
  assumes "keeps_marks store (e_callbacks e)" "e_store e = store"
  shows "is_marked store op w \<Longrightarrow> is_marked store op (run_triggers e calls w)"
  unfolding run_triggers_def by (induction calls arbitrary: w) (auto intro: handle_keeps [OF assms])

lemma handled_marked:
  assumes run: "handleTrigger e inp flt w = ((r, None), w')" and e: "e_store e = store" and op: "h_OperationID inp \<noteq> []"
    and "\<not> h_DeferOperationMark inp" and "\<not> hr_OperationMarkDeferred r"
  shows "is_marked store (h_OperationID inp) w'"
proof -
  have marks: "is_marked store (h_OperationID inp) w'"
    if "with_mark res (markOperationAppliedForInput e inp v) = ((r, None), w')" for res v
  proof -
    have "markOperationApplied e (h_OperationID inp) v = (None, w')"
      using that assms(4) by (auto simp: with_mark_def markOperationAppliedForInput_def split: prod.splits)
    then show ?thesis by (rule mark_applied [OF _ op e])
  qed
  moreover have "is_marked store (h_OperationID inp) w" if "isOperationAlreadyApplied e (h_OperationID inp) w = Inr True"
    using that e op by (auto simp: isOperationAlreadyApplied_def is_marked_def split: if_splits)
  ultimately show ?thesis using assms
    by (auto simp: handleTrigger_def Let_def split: if_splits sum.splits bool.splits option.splits prod.splits)
qed

lemma marked_idempotent:
  assumes "is_marked store (h_OperationID inp) w" "e_store e = store" "h_OperationID inp \<noteq> []" "h_TaskID inp \<noteq> []" "h_SessionID inp \<noteq> []"
  shows "handleTrigger e inp flt w = ((no_result\<lparr>hr_Idempotent := True\<rparr>, None), w)"
  using assms by (simp add: handleTrigger_def isOperationAlreadyApplied_def is_marked_def)

end

interpretation ledger: operation_marks "workflowStore repo" for repo :: "'s TransitionStore"
  by unfold_locales (auto simp: workflowStore_def isApplied_def markApplied_def case_prod_beta gm_simps split: if_splits)

text \<open>
  C18: a trigger takes effect once.  Take an engine on the orchestrator's store, over any repositories, with
  callbacks that take no operation mark back.  After a trigger with an operation id was handled without an error,
  with its mark neither left to the caller nor deferred, and after any further triggers on this engine, handling a trigger under the same
  operation id, with whatever actions and callbacks, does nothing and reports an idempotent result.  The
  ledger is in memory: this holds as long as the process runs.
\<close>

theorem trigger_once:
  assumes "HandleTrigger e inp w = ((r, None), w')" and "e_store e = workflowStore repo" and "keeps_marks (workflowStore repo) (e_callbacks e)"
    and "h_OperationID inp \<noteq> []" and "\<not> h_DeferOperationMark inp" and "\<not> hr_OperationMarkDeferred r"
    and "h_OperationID inp' = h_OperationID inp" and "h_TaskID inp' \<noteq> []" and "h_SessionID inp' \<noteq> []"
    and "later = run_triggers e calls w'"
  shows "HandleTrigger e inp' later = ((no_result\<lparr>hr_Idempotent := True\<rparr>, None), later) \<and>
    HandleTriggerSessionShapedOnly e inp' later = ((no_result\<lparr>hr_Idempotent := True\<rparr>, None), later)"
proof -
  have "is_marked (workflowStore repo) (h_OperationID inp) w'"
    by (rule ledger.handled_marked [OF assms(1) [unfolded HandleTrigger_def] assms(2,4,5,6)])
  then have "is_marked (workflowStore repo) (h_OperationID inp') later"
    unfolding assms(7,10) by (rule ledger.run_keeps [OF assms(3,2)])
  then show ?thesis using ledger.marked_idempotent [OF _ assms(2), of inp'] assms(4,7-9)
    by (simp add: HandleTrigger_def HandleTriggerSessionShapedOnly_def)
qed

text \<open>A board without a review: finishing the work moves the task on.\<close>

definition ex_moving :: WorkflowStep where
  "ex_moving = (ex_plain_step ''review'' 2)\<lparr>ws_Events := ex_events\<lparr>OnTurnComplete := [\<lparr>ga_Type = ''move_to_next'', ga_Config = None\<rparr>]\<rparr>\<rparr>"

definition ex_ledger_engine :: "(workflow_db \<times> (string, bool) gomap) Engine" where
  "ex_ledger_engine = New (workflowStore board_store) (\<lambda>k. None)"

definition ex_ledger_world :: "(workflow_db \<times> (string, bool) gomap) world" where
  "ex_ledger_world = \<lparr>w_state = (ex_board\<lparr>db_steps := [ex_plain_step ''work'' 1, ex_moving, ex_plain_step ''done'' 3]\<rparr>, []), w_metrics = []\<rparr>"

theorem trigger_once_witness:
  "\<exists>r w'. HandleTrigger ex_ledger_engine ex_input ex_ledger_world = ((r, None), w') \<and> hr_Transitioned r \<and>
     HandleTrigger ex_ledger_engine ex_input (run_triggers ex_ledger_engine [(ex_input\<lparr>h_OperationID := ''op2''\<rparr>, None)] w') =
       ((no_result\<lparr>hr_Idempotent := True\<rparr>, None), run_triggers ex_ledger_engine [(ex_input\<lparr>h_OperationID := ''op2''\<rparr>, None)] w')"
proof -
  obtain r err w' where run: "HandleTrigger ex_ledger_engine ex_input ex_ledger_world = ((r, err), w')" by (metis surj_pair)
  have "(\<lambda>((r, err), w). hr_Transitioned r \<and> err = None \<and> \<not> hr_OperationMarkDeferred r) (HandleTrigger ex_ledger_engine ex_input ex_ledger_world)" by code_simp
  with run have r: "hr_Transitioned r" "err = None" "\<not> hr_OperationMarkDeferred r" by simp_all
  with run have run': "HandleTrigger ex_ledger_engine ex_input ex_ledger_world = ((r, None), w')" by simp
  have e: "e_store ex_ledger_engine = workflowStore board_store" "keeps_marks (workflowStore board_store) (e_callbacks ex_ledger_engine)"
    "h_OperationID ex_input \<noteq> []" "\<not> h_DeferOperationMark ex_input" "h_TaskID ex_input \<noteq> []" "h_SessionID ex_input \<noteq> []"
    by (simp_all add: ex_ledger_engine_def New_def ex_input_def keeps_marks_def)
  show ?thesis using trigger_once [OF run' e(1-4) r(3) refl e(5,6) refl] run' r by blast
qed

end
