(* ===== verification/Repo_Laws.thy ===== *)
theory Repo_Laws
  imports Quorum_Laws
begin

text \<open>
  The participant and decision repository: the constraints of its tables hold in every reachable
  state, a recorded decision is the one that counts, clearing starts a review afresh, and seating a
  role is idempotent.  The laws that the engine's clients use are the locales \<open>decision_log\<close> and
  \<open>seat_writer\<close>, interpreted on the adapters of the repository.
\<close>

section \<open>Inputs of the actions on the board\<close>

definition ex_call :: "Action \<Rightarrow> ActionInput" where
  "ex_call a = \<lparr>i_Trigger = TriggerOnEnter, i_State = ex_state, i_Step = CompileStep ex_review, i_Action = a, i_Payload = NoPayload,
     i_OperationID = [], i_EntryID = ''e'', i_CausingStepTransitionID = []\<rparr>"

definition ex_clear_input :: ActionInput where
  "ex_clear_input = ex_call (action ActionClearDecisions)"

definition ex_seat_input :: ActionInput where
  "ex_seat_input = ex_call ((action ActionEnsureParticipantSeat)\<lparr>a_EnsureParticipantSeat := Some \<lparr>es_Role = ''reviewer''\<rparr>\<rparr>)"

definition ex_quorum :: WaitForQuorumGuard where
  "ex_quorum = \<lparr>wq_Role = ''reviewer'', wq_Threshold = ''all_approve''\<rparr>"

definition ex_unseated :: "workflow_db world" where
  "ex_unseated = ex_world\<lparr>w_state := ex_board\<lparr>db_participants := []\<rparr>\<rparr>"

definition ex_caster :: "workflow_db ParticipantSeatCaster option" where
  "ex_caster = Some (\<lambda>workflowID taskID stepID role db. Inr \<lparr>sc_AgentProfileID = ''cyd'', sc_WorkspaceID = ''ws'', sc_Provenance = ''runner'', sc_SelfReview = False, sc_Unfillable = False\<rparr>)"

section \<open>The constraints of the tables\<close>

definition one_active :: "DecisionInfo list \<Rightarrow> bool" where
  "one_active rows \<longleftrightarrow> (\<forall>r\<in>set rows. \<forall>r'\<in>set rows. d_SupersededAt r = None \<and> d_SupersededAt r' = None \<and>
     d_DeciderID r \<noteq> [] \<and> d_Role r \<noteq> [] \<and> same_decider r r' \<longrightarrow> r = r')"

definition tables_ok :: "workflow_db \<Rightarrow> bool" where
  "tables_ok db \<longleftrightarrow> distinct (map p_ID (db_participants db)) \<and> distinct (map natural_key (db_participants db)) \<and>
     (\<forall>p\<in>set (db_participants db). validParticipantRole (p_Role p) \<and> p_StepID p \<in> set (map ws_ID (db_steps db))) \<and>
     distinct (map d_ID (db_decisions db)) \<and> one_active (db_decisions db)"

definition empty_db :: "WorkflowStep list \<Rightarrow> (string, string \<times> string) gomap \<Rightarrow> workflow_db" where
  "empty_db steps tasks = \<lparr>db_steps = steps, db_tasks = tasks, db_participants = [], db_decisions = [], db_applied = []\<rparr>"

inductive repo_step :: "workflow_db \<Rightarrow> workflow_db \<Rightarrow> bool" where
  step_upsert: "repo_step db (snd (UpsertStepParticipant newID now p db))"
| step_upsert_task: "repo_step db (snd (UpsertTaskParticipant newID now st t ro a db))"
| step_delete_task: "repo_step db (snd (DeleteTaskParticipant st t ro a db))"
| step_delete: "repo_step db (snd (DeleteStepParticipant i db))"
| step_set_runner: "repo_step db (snd (SetTaskRunner newID now st t a db))"
| step_clear_runner: "repo_step db (snd (ClearTaskRunner st t db))"
| step_ensure: "repo_step db (snd (repo_EnsureRoleSeat newID now flow st t ro a db))"
| step_record: "repo_step db (snd (repo_RecordStepDecision newID now d db))"
| step_supersede: "repo_step db (snd (SupersedeTaskDecisions now t db))"
| step_clear: "repo_step db (snd (repo_ClearStepDecisions t st db))"

lemma insert_participant_ok:
  assumes "insert_participant p db = Inr db'" "tables_ok db" "validParticipantRole (p_Role p)"
  shows "tables_ok db'"
  using assms by (auto simp: insert_participant_def tables_ok_def split: if_splits)

lemma delete_participants_ok: "tables_ok db \<Longrightarrow> tables_ok (delete_participants P db)"
  by (auto simp: delete_participants_def tables_ok_def intro: distinct_map_filter)

text \<open>An update of one row keeps the keys distinct when no other row has the new one.\<close>

lemma distinct_map_update:
  assumes "distinct (map k rows)" "distinct (map i rows)"
    and "\<And>r. r \<in> set rows \<Longrightarrow> i r \<noteq> j \<Longrightarrow> k r \<noteq> v"
  shows "distinct (map (\<lambda>r. if i r = j then v else k r) rows)"
  using assms by (auto simp: distinct_map inj_on_def split: if_splits)

lemma update_row_ok:
  assumes ok: "tables_ok db" and f: "\<And>r. r \<in> set (db_participants db) \<Longrightarrow> p_ID r = j \<Longrightarrow> p_ID (f r) = j \<and> natural_key (f r) = v"
    and new: "\<And>r. r \<in> set (db_participants db) \<Longrightarrow> p_ID r \<noteq> j \<Longrightarrow> natural_key r \<noteq> v"
    and role: "\<And>r. r \<in> set (db_participants db) \<Longrightarrow> p_ID r = j \<Longrightarrow> validParticipantRole (p_Role (f r)) \<and> p_StepID (f r) \<in> set (map ws_ID (db_steps db))"
  shows "tables_ok (db\<lparr>db_participants := map (\<lambda>r. if p_ID r = j then f r else r) (db_participants db)\<rparr>)"
proof -
  let ?rows = "db_participants db"
  define new where "new = map (\<lambda>r. if p_ID r = j then f r else r) ?rows"
  have "map p_ID new = map p_ID ?rows" using f by (auto simp: new_def)
  moreover have "map natural_key new = map (\<lambda>r. if p_ID r = j then v else natural_key r) ?rows"
    using f by (auto simp: new_def)
  moreover have "distinct (map (\<lambda>r. if p_ID r = j then v else natural_key r) ?rows)"
    using ok new by (intro distinct_map_update) (auto simp: tables_ok_def)
  moreover have "validParticipantRole (p_Role q) \<and> p_StepID q \<in> set (map ws_ID (db_steps db))" if "q \<in> set new" for q
    using that ok role by (auto simp: new_def tables_ok_def split: if_splits)
  ultimately show ?thesis using ok by (simp add: tables_ok_def flip: new_def)
qed

section \<open>Decisions\<close>

lemma supersede_mem:
  "r \<in> set (supersede_rows P now rows) \<longleftrightarrow>
     (\<exists>q\<in>set rows. r = (if P q then q\<lparr>d_SupersededAt := Some now\<rparr> else q))"
  by (auto simp: supersede_rows_def)

lemma supersede_active: "r \<in> set (supersede_rows P now rows) \<Longrightarrow> d_SupersededAt r = None \<Longrightarrow> r \<in> set rows \<and> \<not> P r"
proof -
  assume r: "r \<in> set (supersede_rows P now rows)" "d_SupersededAt r = None"
  then obtain q where q: "q \<in> set rows" "r = (if P q then q\<lparr>d_SupersededAt := Some now\<rparr> else q)" by (auto simp: supersede_mem)
  with r(2) show ?thesis by (cases "P q") simp_all
qed

lemma one_active_snoc:
  assumes "one_active rows"
    and "\<And>r. r \<in> set rows \<Longrightarrow> d_SupersededAt r = None \<Longrightarrow> d_DeciderID d \<noteq> [] \<Longrightarrow> d_Role d \<noteq> [] \<Longrightarrow> \<not> same_decider d r"
  shows "one_active (rows @ [d])"
  unfolding one_active_def
proof (intro ballI impI)
  fix r r' assume mem: "r \<in> set (rows @ [d])" "r' \<in> set (rows @ [d])"
    and act: "d_SupersededAt r = None \<and> d_SupersededAt r' = None \<and> d_DeciderID r \<noteq> [] \<and> d_Role r \<noteq> [] \<and> same_decider r r'"
  then have "same_decider r' r" "d_DeciderID r' \<noteq> []" "d_Role r' \<noteq> []" by (auto simp: same_decider_def)
  with mem act assms show "r = r'" by (auto simp: one_active_def)
qed

lemma supersede_ids [simp]: "map d_ID (supersede_rows P now rows) = map d_ID rows"
  by (simp add: supersede_rows_def)

lemma supersede_one_active: "one_active rows \<Longrightarrow> one_active (supersede_rows P now rows)"
  using supersede_active [of _ P now rows] by (auto simp: one_active_def)

lemma no_prior_active:
  assumes "d_DeciderID d \<noteq> []" "d_Role d \<noteq> []" "r \<in> set (supersede_rows (prior_decision d) now rows)" "d_SupersededAt r = None"
  shows "\<not> same_decider d r"
  using supersede_active [OF assms(3,4)] assms by (simp add: prior_decision_def)

text \<open>The partial unique index never rejects the insertion, so the retry loop runs once.\<close>

lemma insert_decision_superseded:
  "insert_decision d (supersede_rows (prior_decision d) now rows) =
     (if d_ID d \<in> set (map d_ID rows)
      then Inl (ErrorWrap ''record step decision'' (ErrorText ''UNIQUE constraint failed: workflow_step_decisions.id''))
      else Inr (supersede_rows (prior_decision d) now rows @ [d\<lparr>d_SupersededAt := None\<rparr>]))"
proof -
  have "\<not> (d_DeciderID d \<noteq> [] \<and> d_Role d \<noteq> [] \<and>
           list_ex (\<lambda>r. d_SupersededAt r = None \<and> same_decider d r) (supersede_rows (prior_decision d) now rows))"
    using no_prior_active [of d _ now rows] by (auto simp: list_ex_iff)
  then show ?thesis by (auto simp: insert_decision_def)
qed

lemma record_attempts_once:
  "record_decision_attempts (Suc n) d err db = recordStepDecisionTx d db"
proof -
  have "fst (recordStepDecisionTx d db) \<noteq> Some active_decider_violation"
    by (auto simp: recordStepDecisionTx_def validateDecisionParticipantSeatTx_def insert_decision_superseded active_decider_violation_def
        split: option.split if_splits)
  then show ?thesis by (auto split: prod.split option.split)
qed

lemma record_tx_ok:
  assumes "tables_ok db"
  shows "tables_ok (snd (recordStepDecisionTx d db))"
proof (cases "validateDecisionParticipantSeatTx d db")
  case None
  let ?rows = "supersede_rows (prior_decision d) (d_DecidedAt d) (db_decisions db)"
  have "one_active ?rows" using assms by (simp add: tables_ok_def supersede_one_active)
  then have act: "one_active (?rows @ [d\<lparr>d_SupersededAt := None\<rparr>])"
    using no_prior_active [of d] by (intro one_active_snoc) (auto simp: same_decider_def)
  show ?thesis
  proof (cases "d_ID d \<in> set (map d_ID (db_decisions db))")
    case False
    then have "distinct (map d_ID (?rows @ [d\<lparr>d_SupersededAt := None\<rparr>]))"
      using assms by (simp add: tables_ok_def del: set_map)
    with False act assms None show ?thesis
      by (simp add: recordStepDecisionTx_def insert_decision_superseded tables_ok_def del: set_map map_append)
  qed (use assms None in \<open>simp add: recordStepDecisionTx_def insert_decision_superseded\<close>)
qed (use assms in \<open>simp add: recordStepDecisionTx_def\<close>)

lemma ensure_tx_ok:
  assumes "tables_ok db" "validParticipantRole role"
  shows "tables_ok (snd (ensureRoleSeatTx newID now flow st t role a db))"
  using assms by (auto simp: ensureRoleSeatTx_def new_participant_def Let_def intro: insert_participant_ok split: option.split sum.split)

lemma ensure_attempts_ok:
  assumes "tables_ok db" "validParticipantRole role"
  shows "tables_ok (snd (ensure_role_seat_attempts n newID now flow st t role a err db))"
  using assms
proof (induction n arbitrary: err db)
  case (Suc n)
  show ?case using Suc ensure_tx_ok [OF Suc.prems, of newID now flow st t a]
    by (auto split: prod.split sum.split)
qed simp

lemma upsert_ok: "tables_ok db \<Longrightarrow> tables_ok (snd (UpsertStepParticipant newID now po db))"
proof -
  assume ok: "tables_ok db"
  show ?thesis
  proof (cases po)
    case (Some p0)
    define p where "p = p0\<lparr>p_ID := (if p_ID p0 = [] then newID else p_ID p0),
                 pr_CreatedAt := (if IsZero (pr_CreatedAt p0) then now else pr_CreatedAt p0),
                 pr_Provenance := ParticipantProvenanceManual\<rparr>"
    have p: "p_Role p = p_Role p0" "p_StepID p = p_StepID p0" by (simp_all add: p_def)
    have "tables_ok (db\<lparr>db_participants := map (\<lambda>r. if p_ID r = p_ID p
             then p\<lparr>pr_CreatedAt := pr_CreatedAt r, pr_Provenance := pr_Provenance r\<rparr> else r) (db_participants db)\<rparr>)"
      if "validParticipantRole (p_Role p0)" "p_StepID p0 \<in> set (map ws_ID (db_steps db))"
        "\<not> list_ex (\<lambda>r. p_ID r \<noteq> p_ID p \<and> natural_key r = natural_key p) (db_participants db)"
      using that p by (intro update_row_ok [OF ok, of "p_ID p" _ "natural_key p"]) (auto simp: natural_key_def list_ex_iff)
    then show ?thesis
      using ok Some insert_participant_ok [OF _ ok, of p] p
      by (auto simp: UpsertStepParticipant_def Let_def simp flip: p_def split: sum.split if_splits)
  qed (simp add: ok UpsertStepParticipant_def)
qed

lemma runner_ok: "tables_ok db \<Longrightarrow> tables_ok (snd (SetTaskRunner newID now st t a db))"
proof -
  assume ok: "tables_ok db"
  show ?thesis
  proof (cases "find (\<lambda>p. p_StepID p = st \<and> p_TaskID p = t \<and> p_Role p = ''runner'') (db_participants db)")
    case None
    then show ?thesis using ok
      by (auto simp: SetTaskRunner_def new_participant_def validParticipantRole_def intro: insert_participant_ok split: sum.split)
  next
    case (Some p)
    then have p: "p \<in> set (db_participants db)" "p_StepID p = st" "p_TaskID p = t" "p_Role p = ''runner''"
      by (auto dest: find_split)
    have same: "r = p" if "r \<in> set (db_participants db)" "p_ID r = p_ID p" for r
      using ok that p(1) by (auto simp: tables_ok_def distinct_map inj_on_def)
    have "tables_ok (db\<lparr>db_participants := map (\<lambda>r. if p_ID r = p_ID p then r\<lparr>p_AgentProfileID := a\<rparr> else r) (db_participants db)\<rparr>)"
      if "\<not> list_ex (\<lambda>r. p_ID r \<noteq> p_ID p \<and> natural_key r = (st, t, ''runner'', a)) (db_participants db)"
      using that p ok by (intro update_row_ok [OF ok, of "p_ID p" _ "(st, t, ''runner'', a)"])
        (auto simp: natural_key_def list_ex_iff validParticipantRole_def tables_ok_def dest: same)
    with ok Some show ?thesis by (simp add: SetTaskRunner_def)
  qed
qed

lemma repo_step_ok: "repo_step db db' \<Longrightarrow> tables_ok db \<Longrightarrow> tables_ok db'"
proof (induction rule: repo_step.induct)
  case (step_upsert_task db newID now st t ro a)
  then show ?case
    by (auto simp: UpsertTaskParticipant_def new_participant_def intro: insert_participant_ok split: option.split sum.split)
next
  case (step_ensure db newID now flow st t ro a)
  then show ?case by (auto simp: repo_EnsureRoleSeat_def intro: ensure_attempts_ok)
next
  case (step_record db newID now d)
  then show ?case
    by (auto simp: repo_RecordStepDecision_def recordStepDecisionMaxAttempts_def numeral_3_eq_3 record_attempts_once
        simp del: record_decision_attempts.simps intro: record_tx_ok)
next
  case (step_supersede db now t)
  then show ?case by (auto simp: SupersedeTaskDecisions_def tables_ok_def supersede_one_active)
next
  case (step_clear db t st)
  then show ?case by (auto simp: repo_ClearStepDecisions_def tables_ok_def one_active_def intro: distinct_map_filter)
qed (auto simp: DeleteTaskParticipant_def DeleteStepParticipant_def ClearTaskRunner_def
    intro: upsert_ok runner_ok delete_participants_ok)

interpretation repo_system: invariant_system "\<lambda>db. \<exists>steps tasks. db = empty_db steps tasks" repo_step tables_ok
  by unfold_locales (fastforce simp: empty_db_def tables_ok_def one_active_def, rule repo_step_ok)

abbreviation repo_reachable :: "workflow_db \<Rightarrow> bool" where
  "repo_reachable \<equiv> reach (\<lambda>db. \<exists>steps tasks. db = empty_db steps tasks) repo_step"

text \<open>
  The constraints of the review tables.  With transactions one after the other, as SQLite's single writer and
  the advisory locks on PostgreSQL order those of one decider, in every state that the operations of the repository
  reach from empty tables, participant ids, their natural keys and decision ids are distinct, every
  participant sits at an existing step, no decider has two active decisions under one role at a step,
  and recording a decision never runs into the index that forbids it.
\<close>

theorem review_tables:
  assumes "repo_reachable db"
  shows "tables_ok db \<and> fst (repo_RecordStepDecision newID now d db) \<noteq> Some active_decider_violation \<and>
    fst (repo_RecordStepDecision newID now d db) \<noteq>
      Some (ErrorWrap ''record step decision: exhausted retries on active-decider race'' active_decider_violation)"
proof -
  have "fst (recordStepDecisionTx d' db) \<notin> {Some active_decider_violation,
      Some (ErrorWrap ''record step decision: exhausted retries on active-decider race'' active_decider_violation)}" for d'
    by (auto simp: recordStepDecisionTx_def validateDecisionParticipantSeatTx_def insert_decision_superseded active_decider_violation_def
        split: option.split if_splits)
  then show ?thesis
    using repo_system.reach_inv [OF assms]
    by (auto simp: repo_RecordStepDecision_def recordStepDecisionMaxAttempts_def numeral_3_eq_3 record_attempts_once active_decider_violation_def
        simp del: record_decision_attempts.simps)
qed

definition ex_reviewed :: workflow_db where
  "ex_reviewed = snd (UpsertTaskParticipant ''p2'' 1 ''review'' ''t'' ''reviewer'' ''ada'' (empty_db ex_steps [(''t'', (''w'', ''review''))]))"

theorem review_tables_witness:
  "tables_ok ex_reviewed \<and> length (db_participants ex_reviewed) = 1 \<and>
   fst (repo_RecordStepDecision ''n'' 9 (ex_decision ''d3'' 9 ''p2'' ''ada'' ''approved'') ex_reviewed) \<noteq> Some active_decider_violation"
proof -
  have "repo_reachable ex_reviewed"
    unfolding ex_reviewed_def by (rule reach_step [OF reach_init], blast, rule step_upsert_task)
  moreover have "length (db_participants ex_reviewed) = 1" by code_simp
  ultimately show ?thesis using review_tables by blast
qed

section \<open>A recorded decision is the one that counts\<close>

lemma sort_key_snoc:
  assumes "\<And>y. y \<in> set xs \<Longrightarrow> k y < k x"
  shows "sort_key k (xs @ [x]) = sort_key k xs @ [x]"
proof (rule properties_for_sort_key)
  show "sorted (map k (sort_key k xs @ [x]))"
    using assms by (auto simp: sorted_append less_imp_le)
  show "filter (\<lambda>y. k z = k y) (sort_key k xs @ [x]) = filter (\<lambda>y. k z = k y) (xs @ [x])" if "z \<in> set (sort_key k xs @ [x])" for z
    unfolding eq_commute [of "k z"] by (simp add: sort_key_stable)
qed simp

lemma record_success:
  assumes "repo_RecordStepDecision newID now d db = (None, db')" and "d_ID d \<noteq> []" and "\<not> IsZero (d_DecidedAt d)"
  shows "db' = db\<lparr>db_decisions := supersede_rows (prior_decision d) (d_DecidedAt d) (db_decisions db) @ [d\<lparr>d_SupersededAt := None\<rparr>]\<rparr>"
    and "d_TaskID d \<noteq> []" and "d_StepID d \<noteq> []" and "d_ParticipantID d \<noteq> []"
  using assms
  by (auto simp: repo_RecordStepDecision_def recordStepDecisionMaxAttempts_def numeral_3_eq_3 record_attempts_once recordStepDecisionTx_def
      insert_decision_superseded simp del: record_decision_attempts.simps split: if_splits option.splits)

text \<open>
  C27: the recorded decision counts.  After a decision with an id and a time was recorded, later than the others of
  its step, the listing of the step ends with it, it is the decision that counts for its seat among any seats that
  include it, and it is the only active decision of its decider under that role, when the decider and the role are
  named.  Transactions run one after the other here; the repository takes a lock that orders the recordings of one
  decider.
\<close>

theorem recorded_decision_counts:
  assumes "repo_RecordStepDecision newID now d db = (None, db')" and "d_ID d \<noteq> []" and "\<not> IsZero (d_DecidedAt d)"
    and "\<And>r. r \<in> set (db_decisions db) \<Longrightarrow> at_step (d_TaskID d) (d_StepID d) r \<Longrightarrow> d_DecidedAt r < d_DecidedAt d"
    and "d_ParticipantID d \<in> set (map p_ID seats)"
  shows "\<exists>ds. repo_ListStepDecisions (d_TaskID d) (d_StepID d) db' = Inr (ds @ [d\<lparr>d_SupersededAt := None\<rparr>]) \<and>
      latest_decision seats (ds @ [d\<lparr>d_SupersededAt := None\<rparr>]) (d_ParticipantID d) = Some (d\<lparr>d_SupersededAt := None\<rparr>) \<and>
      length ds = length (filter (at_step (d_TaskID d) (d_StepID d)) (db_decisions db)) \<and>
      (\<forall>r\<in>set ds. d_DeciderID d \<noteq> [] \<and> d_Role d \<noteq> [] \<and> same_decider d r \<longrightarrow> d_SupersededAt r \<noteq> None)"
proof -
  note ok = record_success [OF assms(1-3)]
  let ?new = "d\<lparr>d_SupersededAt := None\<rparr>" and ?P = "at_step (d_TaskID d) (d_StepID d)"
  let ?rows = "supersede_rows (prior_decision d) (d_DecidedAt d) (db_decisions db)"
  let ?ds = "decision_order (filter ?P ?rows)"
  have earlier: "d_DecidedAt r < d_DecidedAt d" if "r \<in> set (filter ?P ?rows)" for r
    using that assms(4) by (auto simp: supersede_mem at_step_def split: if_splits)
  have "decision_order (filter ?P ?rows @ [?new]) = ?ds @ [?new]"
    unfolding decision_order_def by (rule sort_key_snoc) (use earlier in auto)
  then have "repo_ListStepDecisions (d_TaskID d) (d_StepID d) db' = Inr (?ds @ [?new])"
    using ok by (simp add: repo_ListStepDecisions_def at_step_def)
  moreover have "latest_decision seats (?ds @ [?new]) (d_ParticipantID d) = Some ?new"
    using assms(5) ok(4) by (simp add: latest_decision_def decision_seat_def)
  moreover have "length ?ds = length (filter ?P (db_decisions db))"
  proof -
    have "filter ?P ?rows = map (\<lambda>r. if prior_decision d r then r\<lparr>d_SupersededAt := Some (d_DecidedAt d)\<rparr> else r) (filter ?P (db_decisions db))"
      unfolding supersede_rows_def filter_map by (auto simp: at_step_def [abs_def] comp_def intro: arg_cong2 [where f = map] filter_cong)
    then show ?thesis by (simp add: decision_order_def)
  qed
  moreover have "d_SupersededAt r \<noteq> None" if "r \<in> set ?ds" "d_DeciderID d \<noteq> []" "d_Role d \<noteq> []" "same_decider d r" for r
    using that no_prior_active [of d r] by (auto simp: decision_order_def)
  ultimately show ?thesis by blast
qed

theorem recorded_decision_counts_witness:
  "\<exists>db' ds. repo_RecordStepDecision ''n'' 9 (ex_decision ''d3'' 9 ''p3'' ''bob'' ''rejected'') ex_board = (None, db') \<and>
     repo_ListStepDecisions ''t'' ''review'' db' = Inr (ds @ [ex_decision ''d3'' 9 ''p3'' ''bob'' ''rejected'']) \<and> length ds = 2"
proof -
  let ?d = "ex_decision ''d3'' 9 ''p3'' ''bob'' ''rejected''"
  obtain r db' where run: "repo_RecordStepDecision ''n'' 9 ?d ex_board = (r, db')" by fastforce
  have ok: "fst (repo_RecordStepDecision ''n'' 9 ?d ex_board) = None" by code_simp
  with run have run': "repo_RecordStepDecision ''n'' 9 ?d ex_board = (None, db')" by simp
  have d: "d_ID ?d \<noteq> []" "\<not> IsZero (d_DecidedAt ?d)" "d_TaskID ?d = ''t''" "d_StepID ?d = ''review''" "?d\<lparr>d_SupersededAt := None\<rparr> = ?d"
    "d_ParticipantID ?d \<in> set (map p_ID [ParticipantInfo.truncate (ex_seat ''p3'' [] ''bob'')])"
    by (simp_all add: ex_decision_def IsZero_def ex_seat_def new_participant_def ParticipantInfo.truncate_def)
  have all: "list_all (\<lambda>r. d_DecidedAt r < d_DecidedAt ?d) (db_decisions ex_board)" by code_simp
  have earlier: "d_DecidedAt r < d_DecidedAt ?d" if "r \<in> set (db_decisions ex_board)" "at_step (d_TaskID ?d) (d_StepID ?d) r" for r
    using all that(1) by (simp add: list_all_iff)
  have two: "length (filter (at_step ''t'' ''review'') (db_decisions ex_board)) = 2" by code_simp
  from recorded_decision_counts [OF run' d(1,2) earlier d(6)] two run' show ?thesis
    unfolding d(3-5) by auto
qed

section \<open>Clearing decisions\<close>

text \<open>What the engine relies on when it clears the decisions of a step.\<close>

locale decision_log =
  fixes store :: "'s DecisionStore"
  assumes clear_empty: "ClearStepDecisions store t st s = (Inr n, s') \<Longrightarrow> ListStepDecisions store t st s' = Inr []"
    and clear_frame: "ClearStepDecisions store t st s = (Inr n, s') \<Longrightarrow> (t', st') \<noteq> (t, st) \<Longrightarrow>
      ListStepDecisions store t' st' s' = ListStepDecisions store t' st' s"
begin

lemma clear_callback:
  assumes "ClearDecisionsCallback_Execute (Some store) inp w = (Inr patch, w')"
  obtains n where "ClearStepDecisions store (m_TaskID (i_State inp)) (ss_ID (i_Step inp)) (w_state w) = (Inr n, w_state w')"
proof -
  obtain r s' where c: "ClearStepDecisions store (m_TaskID (i_State inp)) (ss_ID (i_Step inp)) (w_state w) = (r, s')" by fastforce
  then show thesis using assms that by (cases r) (auto simp: ClearDecisionsCallback_Execute_def call_def)
qed

lemma cleared_unsatisfied:
  assumes "ClearDecisionsCallback_Execute (Some store) inp w = (Inr patch, w')" and "e_decisions e = Some store"
    and "m_TaskID m = m_TaskID (i_State inp)" and "m_CurrentStepID m = ss_ID (i_Step inp)" and "a_Guard a = Some g"
  shows "\<not> g_Satisfied (fst (evaluateTransitionGuardRecording e m a rec (w_state w')))"
proof -
  obtain n where "ClearStepDecisions store (m_TaskID m) (m_CurrentStepID m) (w_state w) = (Inr n, w_state w')"
    using clear_callback [OF assms(1)] assms(3,4) by metis
  then show ?thesis
    using undecided_unsatisfied [OF _ assms(5,2)] clear_empty by (metis prod.collapse)
qed

lemma other_steps_kept:
  assumes "ClearDecisionsCallback_Execute (Some store) inp w = (Inr patch, w')"
    and "(t', st') \<noteq> (m_TaskID (i_State inp), ss_ID (i_Step inp))"
  shows "ListStepDecisions store t' st' (w_state w') = ListStepDecisions store t' st' (w_state w)"
  using clear_callback [OF assms(1)] clear_frame assms(2) by metis

end

lemma filter_at_other_step:
  "(t', st') \<noteq> (t, st) \<Longrightarrow> filter (at_step t' st') (filter (\<lambda>d. \<not> at_step t st d) rows) = filter (at_step t' st') rows"
  by (auto simp: at_step_def intro: filter_cong)

interpretation repo_log: decision_log "DecisionAdapter newID now" for newID now
proof unfold_locales
  fix t st s n s'
  assume c: "ClearStepDecisions (DecisionAdapter newID now) t st s = (Inr n, s')"
  then have s': "t \<noteq> []" "st \<noteq> []" "s' = s\<lparr>db_decisions := filter (\<lambda>d. \<not> at_step t st d) (db_decisions s)\<rparr>"
    by (auto simp: DecisionAdapter_def repo_ClearStepDecisions_def split: if_splits)
  then show "ListStepDecisions (DecisionAdapter newID now) t st s' = Inr []"
    by (simp add: DecisionAdapter_def repo_ListStepDecisions_def decision_order_def)
  fix t' st' assume "(t', st') \<noteq> (t, st)"
  with s'(3) show "ListStepDecisions (DecisionAdapter newID now) t' st' s' = ListStepDecisions (DecisionAdapter newID now) t' st' s"
    using filter_at_other_step [of t' st' t st "db_decisions s"]
    by (simp add: DecisionAdapter_def repo_ListStepDecisions_def)
qed

text \<open>
  Clearing starts a review afresh.  After the action \<open>clear_decisions\<close> succeeded for a task at a
  step, no quorum guard of that step permits its transition, and the decisions of every other task and
  step are as they were.
\<close>

theorem clear_starts_afresh:
  assumes "ClearDecisionsCallback_Execute (Some (DecisionAdapter newID now)) inp w = (Inr patch, w')"
    and "e_decisions e = Some (DecisionAdapter newID' now')"
    and "m_TaskID m = m_TaskID (i_State inp)" and "m_CurrentStepID m = ss_ID (i_Step inp)"
  shows "(a_Guard a = Some g \<longrightarrow> \<not> g_Satisfied (fst (evaluateTransitionGuardRecording e m a rec (w_state w')))) \<and>
    ((t', st') \<noteq> (m_TaskID m, m_CurrentStepID m) \<longrightarrow>
       ListStepDecisions (DecisionAdapter newID' now') t' st' (w_state w') = ListStepDecisions (DecisionAdapter newID' now') t' st' (w_state w))"
proof -
  have same: "ClearDecisionsCallback_Execute (Some (DecisionAdapter newID' now')) inp w = (Inr patch, w')"
    using assms(1) by (simp add: ClearDecisionsCallback_Execute_def DecisionAdapter_def)
  show ?thesis
    using repo_log.cleared_unsatisfied [OF same assms(2-4), of a g rec] repo_log.other_steps_kept [OF same, of t' st'] assms(3,4)
    by auto
qed

theorem clear_starts_afresh_witness:
  "\<exists>patch w'. ClearDecisionsCallback_Execute (Some (DecisionAdapter ''n'' 9)) ex_clear_input ex_world = (Inr patch, w') \<and>
     g_Satisfied (fst (evaluateTransitionGuardRecording ex_engine ex_state ex_action True (w_state ex_world))) \<and>
     \<not> g_Satisfied (fst (evaluateTransitionGuardRecording ex_engine ex_state ex_action True (w_state w')))"
proof -
  obtain r w' where run: "ClearDecisionsCallback_Execute (Some (DecisionAdapter ''n'' 9)) ex_clear_input ex_world = (r, w')" by fastforce
  have ok: "case fst (ClearDecisionsCallback_Execute (Some (DecisionAdapter ''n'' 9)) ex_clear_input ex_world) of Inl _ \<Rightarrow> False | Inr _ \<Rightarrow> True"
    by code_simp
  then obtain patch where run': "ClearDecisionsCallback_Execute (Some (DecisionAdapter ''n'' 9)) ex_clear_input ex_world = (Inr patch, w')"
    using run by (cases r) auto
  have e: "e_decisions ex_engine = Some (DecisionAdapter ''n'' 9)" "m_TaskID ex_state = m_TaskID (i_State ex_clear_input)"
      "m_CurrentStepID ex_state = ss_ID (i_Step ex_clear_input)"
    by (simp_all add: ex_engine_def ex_clear_input_def ex_call_def ex_state_def Let_def CompileStep_def ex_review_def ex_plain_step_def)
  have "a_Guard ex_action \<noteq> None" by code_simp
  moreover have "g_Satisfied (fst (evaluateTransitionGuardRecording ex_engine ex_state ex_action True (w_state ex_world)))" by code_simp
  ultimately show ?thesis using clear_starts_afresh [OF run' e, of ex_action] run' by blast
qed

section \<open>Superseded decisions\<close>

text \<open>A change of the decisions that neither their order, their seats nor their verdicts show.\<close>

definition same_verdict :: "(DecisionInfo \<Rightarrow> DecisionInfo) \<Rightarrow> bool" where
  "same_verdict f \<longleftrightarrow> (\<forall>d. \<exists>x. f d = d\<lparr>d_SupersededAt := x\<rparr>)"

lemma same_verdict_fields:
  assumes "same_verdict f"
  shows "d_ID (f d) = d_ID d" "d_DecidedAt (f d) = d_DecidedAt d" "d_Decision (f d) = d_Decision d" "decision_seat seats (f d) = decision_seat seats d"
    "d_DeciderType (f d) = d_DeciderType d" "d_DeciderID (f d) = d_DeciderID d" "d_Role (f d) = d_Role d" "at_step t st (f d) = at_step t st d"
proof -
  obtain x where "f d = d\<lparr>d_SupersededAt := x\<rparr>" using assms by (auto simp: same_verdict_def)
  then show "d_ID (f d) = d_ID d" "d_DecidedAt (f d) = d_DecidedAt d" "d_Decision (f d) = d_Decision d" "decision_seat seats (f d) = decision_seat seats d"
    "d_DeciderType (f d) = d_DeciderType d" "d_DeciderID (f d) = d_DeciderID d" "d_Role (f d) = d_Role d" "at_step t st (f d) = at_step t st d"
    by (simp_all add: decision_seat_def at_step_def)
qed

lemma insort_key_map: "(\<And>x. k (f x) = k x) \<Longrightarrow> insort_key k (f x) (map f xs) = map f (insort_key k x xs)"
  by (induction xs) auto

lemma sort_key_map: "(\<And>x. k (f x) = k x) \<Longrightarrow> sort_key k (map f xs) = map f (sort_key k xs)"
  by (induction xs) (simp_all add: insort_key_map)

lemma gm_put_map: "gm_put k (f v) (map (apsnd f) m) = map (apsnd f) (gm_put k v m)"
  by (induction m) (auto simp: gm_put_def)

lemma latest_put_map:
  assumes "\<And>d. skip (f d) = skip d" "\<And>d. key (f d) = key d"
  shows "fold (\<lambda>d m. if skip d then m else gm_put (key d) d m) (map f ds) (map (apsnd f) m0) =
         map (apsnd f) (fold (\<lambda>d m. if skip d then m else gm_put (key d) d m) ds m0)"
  using assms by (induction ds arbitrary: m0) (simp_all add: gm_put_map)

lemma count_apsnd: "(\<And>d. P (f d) = P d) \<Longrightarrow> length (filter (\<lambda>(k, d). P d) (map (apsnd f) m)) = length (filter (\<lambda>(k, d). P d) m)"
  by (simp add: filter_map comp_def case_prod_unfold)

lemma approve_superseded:
  assumes "same_verdict f"
  shows "evaluateApproveStyle threshold seats (map f ds) = evaluateApproveStyle threshold seats ds"
proof -
  have m: "mapDecisionsToSeats seats (map f ds) = map (apsnd f) (mapDecisionsToSeats seats ds)"
    using latest_put_map [of "\<lambda>d. decision_seat seats d = []" f "decision_seat seats" ds "[]"] same_verdict_fields [OF assms]
    by (simp add: mapDecisionsToSeats_def)
  have c: "length (filter (\<lambda>(k, d). d_Decision d = DecisionApproved) (map (apsnd f) l)) =
           length (filter (\<lambda>(k, d). d_Decision d = DecisionApproved) l)" for l :: "(string \<times> DecisionInfo) list"
    by (rule count_apsnd) (simp add: same_verdict_fields [OF assms])
  show ?thesis by (simp only: evaluateApproveStyle_def m c length_map Let_def)
qed

lemma reject_superseded:
  assumes "same_verdict f"
  shows "evaluateAnyReject (map f ds) role = evaluateAnyReject ds role"
proof -
  have keys: "veto_counts role (f d) = veto_counts role d" "decider (f d) = decider d" for d
    using same_verdict_fields [OF assms] by (simp_all add: veto_counts_def decider_def)
  have m: "fold (\<lambda>d m. if \<not> veto_counts role d then m else gm_put (decider d) d m) (map f ds) [] =
           map (apsnd f) (fold (\<lambda>d m. if \<not> veto_counts role d then m else gm_put (decider d) d m) ds [])"
    using latest_put_map [of "\<lambda>d. \<not> veto_counts role d" f decider ds "[]"] keys by simp
  have c: "length (filter (\<lambda>(k, d). isRejectionVerdict (d_Decision d)) (map (apsnd f) l)) =
           length (filter (\<lambda>(k, d). isRejectionVerdict (d_Decision d)) l)" for l :: "((string \<times> string) \<times> DecisionInfo) list"
    by (rule count_apsnd) (simp add: same_verdict_fields [OF assms])
  show ?thesis by (simp only: any_reject_map m c Let_def)
qed

lemma list_superseded:
  assumes "same_verdict f"
  shows "repo_ListStepDecisions t st (db\<lparr>db_decisions := map f (db_decisions db)\<rparr>) = map_sum id (map f) (repo_ListStepDecisions t st db)"
proof -
  have "filter (at_step t st) (map f rows) = map f (filter (at_step t st) rows)" for rows
    by (induction rows) (simp_all add: same_verdict_fields [OF assms])
  then show ?thesis
    by (simp add: repo_ListStepDecisions_def decision_order_def sort_key_map same_verdict_fields [OF assms])
qed

lemma gather_superseded:
  "gatherParticipantSlate ParticipantAdapter st t flow (db\<lparr>db_decisions := rows\<rparr>) = gatherParticipantSlate ParticipantAdapter st t flow db"
  by (simp add: gatherParticipantSlate_def ParticipantAdapter_def ListStepParticipantsForTask_def ListParticipantsForTaskAnyStep_def
      ListParticipantsForTaskWorkflow_def in_workflow_def [abs_def])

lemma drop_unresolved_cong:
  "(\<And>a. resolver a s' = resolver a s) \<Longrightarrow> drop_unresolved resolver role rec seats s' = drop_unresolved resolver role rec seats s"
proof (induction seats)
  case (Cons seat seats)
  then show ?case by (simp only: drop_unresolved.simps)
qed simp

text \<open>The resolver of agents, which the engine is given, does not read the decisions.\<close>

definition ignores_decisions :: "workflow_db Engine \<Rightarrow> bool" where
  "ignores_decisions e \<longleftrightarrow> (case e_agentProfiles e of None \<Rightarrow> True
     | Some resolver \<Rightarrow> (\<forall>a db rows. resolver a (db\<lparr>db_decisions := rows\<rparr>) = resolver a db))"

text \<open>
  C38: superseded decisions still count.  Superseding every decision of a task, which the rework and
  reopen paths do so that a fresh review starts, changes the outcome of no quorum guard of an engine on the
  repository, whether or not it resolves agents, as long as the resolver does not read the decisions: a step whose
  old approvals satisfied its guard is still satisfied without any new decision.
\<close>

theorem superseded_decisions_count:
  assumes "SupersedeTaskDecisions now t db = (None, db')"
    and "e_decisions e = Some (DecisionAdapter newID now')" and "e_participants e = Some ParticipantAdapter"
    and "ignores_decisions e"
  shows "computeGuardOutcomeRecording e m q rec db' = computeGuardOutcomeRecording e m q rec db"
proof -
  define f :: "DecisionInfo \<Rightarrow> DecisionInfo" where "f = (\<lambda>r. if d_TaskID r = t \<and> d_SupersededAt r = None then r\<lparr>d_SupersededAt := Some now\<rparr> else r)"
  have db': "db' = db\<lparr>db_decisions := map f (db_decisions db)\<rparr>"
    using assms(1) by (auto simp: SupersedeTaskDecisions_def supersede_rows_def f_def split: if_splits)
  have "\<exists>x. f d = d\<lparr>d_SupersededAt := x\<rparr>" for d
    by (cases "d_TaskID d = t \<and> d_SupersededAt d = None") (auto simp: f_def intro: exI [of _ "d_SupersededAt d"])
  then have f: "same_verdict f" by (simp add: same_verdict_def)
  have seats: "requiredSeatsForWorkflowRecording e ParticipantAdapter st' t' flow role rec db' =
      requiredSeatsForWorkflowRecording e ParticipantAdapter st' t' flow role rec db" for st' t' flow role
  proof -
    have "dropUnresolvedAgentSeats e role seats rec db' = dropUnresolvedAgentSeats e role seats rec db" for seats
      using assms(4) by (auto simp: dropUnresolvedAgentSeats_def ignores_decisions_def db' intro!: drop_unresolved_cong split: option.splits)
    then show ?thesis by (simp add: requiredSeatsForWorkflowRecording_def db' gather_superseded split: sum.split)
  qed
  have load: "ListStepDecisions (DecisionAdapter newID now') t' st' db' =
      map_sum id (map f) (ListStepDecisions (DecisionAdapter newID now') t' st' db)" for t' st'
    unfolding db' by (cases "repo_ListStepDecisions t' st' db") (simp_all add: DecisionAdapter_def list_superseded [OF f])
  note defs = computeGuardOutcomeRecording_def assms(2,3) option.case Let_def load seats
  show ?thesis
  proof (cases "ListStepDecisions (DecisionAdapter newID now') (m_TaskID m) (m_CurrentStepID m) db")
    case (Inl err)
    then show ?thesis by (simp only: defs) (simp split: prod.split sum.split)
  next
    case (Inr ds)
    then show ?thesis
      by (simp only: defs) (simp add: approve_superseded [OF f] reject_superseded [OF f] split: prod.split sum.split)
  qed
qed

definition ex_resolving :: "workflow_db Engine" where
  "ex_resolving = ex_engine\<lparr>e_agentProfiles := Some (\<lambda>a db. Inr (a \<noteq> []))\<rparr>"

theorem superseded_decisions_count_witness:
  "\<exists>db'. SupersedeTaskDecisions 8 ''t'' ex_board = (None, db') \<and> list_all (\<lambda>d. d_SupersededAt d \<noteq> None) (db_decisions db') \<and>
     g_Satisfied (fst (computeGuardOutcomeRecording ex_resolving ex_state ex_quorum True db'))"
proof -
  obtain r db' where run: "SupersedeTaskDecisions 8 ''t'' ex_board = (r, db')" by fastforce
  have "fst (SupersedeTaskDecisions 8 ''t'' ex_board) = None \<and>
    list_all (\<lambda>d. d_SupersededAt d \<noteq> None) (db_decisions (snd (SupersedeTaskDecisions 8 ''t'' ex_board)))" by code_simp
  with run have ok: "SupersedeTaskDecisions 8 ''t'' ex_board = (None, db')" "list_all (\<lambda>d. d_SupersededAt d \<noteq> None) (db_decisions db')" by simp_all
  have e: "e_decisions ex_resolving = Some (DecisionAdapter ''n'' 9)" "e_participants ex_resolving = Some ParticipantAdapter"
    by (simp_all add: ex_resolving_def ex_engine_def New_def)
  have resolver: "ignores_decisions ex_resolving" by (simp add: ignores_decisions_def ex_resolving_def)
  have "g_Satisfied (fst (computeGuardOutcomeRecording ex_resolving ex_state ex_quorum True ex_board))" by code_simp
  then show ?thesis using superseded_decisions_count [OF ok(1) e resolver, of ex_state ex_quorum True] ok by auto
qed

section \<open>Seating a role\<close>

text \<open>A successful run found a seat and changed nothing, or found none and wrote one.\<close>

lemma ensure_seat_run:
  assumes "EnsureParticipantSeatCallback_Execute \<lparr>ec_Writer = Some writer, ec_Caster = caster\<rparr> inp w = (Inr patch, w')"
  defines "role \<equiv> seat_role (i_Action inp)" and "flow \<equiv> m_WorkflowID (i_State inp)" and "t \<equiv> m_TaskID (i_State inp)"
  shows "role \<noteq> [] \<and> ValidParticipantRole role \<and>
    (HasRoleSeatForTaskWorkflow writer flow t role (w_state w) = Inr True \<and> w_state w' = w_state w \<or>
     HasRoleSeatForTaskWorkflow writer flow t role (w_state w) = Inr False \<and>
       (\<exists>a seat. EnsureRoleSeat writer flow (ss_ID (i_Step inp)) t role a (w_state w) = (Inr seat, w_state w')))"
  using assms(1) unfolding EnsureParticipantSeatCallback_Execute_def Let_def role_def flow_def t_def
  by (auto simp: record_metrics_def call_def split: if_splits sum.splits bool.splits option.splits prod.splits; blast)

text \<open>What the engine relies on when it seats a participant: a written seat is found again.\<close>

locale seat_writer =
  fixes writer :: "'s ParticipantSeatWriter" and step_of_flow :: "string \<Rightarrow> string \<Rightarrow> 's \<Rightarrow> bool"
  assumes ensured: "EnsureRoleSeat writer flow st t role a s = (Inr seat, s') \<Longrightarrow> step_of_flow flow st s \<Longrightarrow> role \<noteq> [] \<Longrightarrow>
    HasRoleSeatForTaskWorkflow writer flow t role s' = Inr True"
begin

lemma seated_once:
  assumes run: "EnsureParticipantSeatCallback_Execute \<lparr>ec_Writer = Some writer, ec_Caster = caster\<rparr> inp w = (Inr patch, w')"
    and flow: "step_of_flow (m_WorkflowID (i_State inp)) (ss_ID (i_Step inp)) (w_state w)"
    and same: "HasRoleSeatForTaskWorkflow writer' = HasRoleSeatForTaskWorkflow writer"
  shows "EnsureParticipantSeatCallback_Execute \<lparr>ec_Writer = Some writer', ec_Caster = caster'\<rparr> inp w' =
    (Inr [], record_metrics [SeatEnsureOutcome (seat_role (i_Action inp)) SeatOutcomeAlreadySeated] w')"
proof -
  let ?role = "seat_role (i_Action inp)" and ?flow = "m_WorkflowID (i_State inp)" and ?t = "m_TaskID (i_State inp)"
  have role: "?role \<noteq> []" "ValidParticipantRole ?role" using ensure_seat_run [OF run] by simp_all
  have "HasRoleSeatForTaskWorkflow writer ?flow ?t ?role (w_state w') = Inr True"
    using ensure_seat_run [OF run] ensured [OF _ flow] by auto
  then show ?thesis using role same by (simp add: EnsureParticipantSeatCallback_Execute_def Let_def)
qed

end

definition step_in_workflow :: "string \<Rightarrow> string \<Rightarrow> workflow_db \<Rightarrow> bool" where
  "step_in_workflow flow st db \<longleftrightarrow> list_ex (\<lambda>ws. ws_ID ws = st \<and> ws_WorkflowID ws = flow) (db_steps db)"

lemma ensure_tx_failed: "ensureRoleSeatTx newID now flow st t role a db = (Inl err, db') \<Longrightarrow> db' = db"
  by (auto simp: ensureRoleSeatTx_def Let_def split: option.splits sum.splits)

lemma ensure_attempts_first:
  "ensure_role_seat_attempts n newID now flow st t role a err db = (Inr res, db') \<Longrightarrow>
     ensureRoleSeatTx newID now flow st t role a db = (Inr res, db')"
proof (induction n arbitrary: err)
  case (Suc n)
  then show ?case using ensure_tx_failed [of newID now flow st t role a db]
    by (auto split: prod.splits sum.splits if_splits)
qed simp

lemma first_of_sort: "first_of (sort_key k xs) = None \<longleftrightarrow> xs = []"
  by (auto simp: first_of_def split: list.split dest: arg_cong [where f = length])

lemma ensure_role_seats:
  assumes "repo_EnsureRoleSeat newID now flow st t role a db = (Inr res, db')" and "step_in_workflow flow st db"
  shows "length (role_seats flow t role db') = max 1 (length (role_seats flow t role db))"
proof -
  have tx: "ensureRoleSeatTx newID now flow st t role a db = (Inr res, db')"
    using assms(1) by (auto simp: repo_EnsureRoleSeat_def intro: ensure_attempts_first split: if_splits)
  show ?thesis
  proof (cases "role_seats flow t role db = []")
    case True
    then have "db' = db\<lparr>db_participants := db_participants db @ [new_participant newID now st t role a True ''auto'']\<rparr>"
      using tx first_of_sort [of _ "role_seats flow t role db"]
      by (auto simp: ensureRoleSeatTx_def Let_def insert_participant_def first_of_def split: sum.splits if_splits)
    with True assms(2) show ?thesis
      by (simp add: role_seats_def in_workflow_def new_participant_def step_in_workflow_def)
  next
    case False
    then obtain p where "first_of (sort_key (\<lambda>p. (p_Position p, p_AgentProfileID p, p_ID p)) (role_seats flow t role db)) = Some p"
      using first_of_sort [of "\<lambda>p. (p_Position p, p_AgentProfileID p, p_ID p)" "role_seats flow t role db"] by auto
    with tx have "db' = db" by (simp add: ensureRoleSeatTx_def)
    with False show ?thesis by (cases "role_seats flow t role db") auto
  qed
qed

lemma adapter_ensures:
  assumes "EnsureRoleSeat (ParticipantSeatWriterAdapter newID now) flow st t role a s = (Inr seat, s')"
  obtains res where "repo_EnsureRoleSeat newID now flow st t role a s = (Inr res, s')"
  using assms by (cases "repo_EnsureRoleSeat newID now flow st t role a s"; cases "fst (repo_EnsureRoleSeat newID now flow st t role a s)")
    (auto simp: ParticipantSeatWriterAdapter_def)

interpretation repo_seats: seat_writer "ParticipantSeatWriterAdapter newID now" step_in_workflow for newID now
proof
  fix flow st t role a s seat s'
  assume run: "EnsureRoleSeat (ParticipantSeatWriterAdapter newID now) flow st t role a s = (Inr seat, s')"
    and flow: "step_in_workflow flow st s" "role \<noteq> []"
  obtain res where "repo_EnsureRoleSeat newID now flow st t role a s = (Inr res, s')" using adapter_ensures [OF run] .
  with ensure_role_seats [OF this flow(1)] flow(2) have "role_seats flow t role s' \<noteq> []" "flow \<noteq> []" "t \<noteq> []"
    by (auto simp: repo_EnsureRoleSeat_def split: if_splits)
  with flow(2) show "HasRoleSeatForTaskWorkflow (ParticipantSeatWriterAdapter newID now) flow t role s' = Inr True"
    by (simp add: ParticipantSeatWriterAdapter_def repo_HasRoleSeatForTaskWorkflow_def)
qed

text \<open>
  A role is seated once.  After the action \<open>ensure_participant_seat\<close> succeeded at a step of the
  task's workflow, the role has a seat there, a new one only if it had none; and running the action
  again writes nothing and reports the role as already seated.
\<close>

theorem seat_ensured_once:
  assumes "EnsureParticipantSeatCallback_Execute \<lparr>ec_Writer = Some (ParticipantSeatWriterAdapter newID now), ec_Caster = caster\<rparr> inp w = (Inr patch, w')"
    and "step_in_workflow (m_WorkflowID (i_State inp)) (ss_ID (i_Step inp)) (w_state w)"
  shows "EnsureParticipantSeatCallback_Execute \<lparr>ec_Writer = Some (ParticipantSeatWriterAdapter newID' now'), ec_Caster = caster'\<rparr> inp w' =
      (Inr [], record_metrics [SeatEnsureOutcome (seat_role (i_Action inp)) SeatOutcomeAlreadySeated] w') \<and>
    length (role_seats (m_WorkflowID (i_State inp)) (m_TaskID (i_State inp)) (seat_role (i_Action inp)) (w_state w')) =
      max 1 (length (role_seats (m_WorkflowID (i_State inp)) (m_TaskID (i_State inp)) (seat_role (i_Action inp)) (w_state w)))"
proof
  show "EnsureParticipantSeatCallback_Execute \<lparr>ec_Writer = Some (ParticipantSeatWriterAdapter newID' now'), ec_Caster = caster'\<rparr> inp w' =
      (Inr [], record_metrics [SeatEnsureOutcome (seat_role (i_Action inp)) SeatOutcomeAlreadySeated] w')"
    by (rule repo_seats.seated_once [OF assms]) (simp add: ParticipantSeatWriterAdapter_def)
  let ?seats = "role_seats (m_WorkflowID (i_State inp)) (m_TaskID (i_State inp)) (seat_role (i_Action inp))"
  show "length (?seats (w_state w')) = max 1 (length (?seats (w_state w)))"
    using ensure_seat_run [OF assms(1)]
  proof (elim conjE disjE exE)
    assume "HasRoleSeatForTaskWorkflow (ParticipantSeatWriterAdapter newID now) (m_WorkflowID (i_State inp)) (m_TaskID (i_State inp))
        (seat_role (i_Action inp)) (w_state w) = Inr True" and same: "w_state w' = w_state w"
    then have "?seats (w_state w) \<noteq> []"
      by (auto simp: ParticipantSeatWriterAdapter_def repo_HasRoleSeatForTaskWorkflow_def split: if_splits)
    with same show ?thesis by (cases "?seats (w_state w)") auto
  next
    fix a seat
    assume "EnsureRoleSeat (ParticipantSeatWriterAdapter newID now) (m_WorkflowID (i_State inp)) (ss_ID (i_Step inp)) (m_TaskID (i_State inp))
        (seat_role (i_Action inp)) a (w_state w) = (Inr seat, w_state w')"
    then show ?thesis using adapter_ensures ensure_role_seats [OF _ assms(2)] by metis
  qed
qed

theorem seat_ensured_once_witness:
  "\<exists>patch w'. EnsureParticipantSeatCallback_Execute \<lparr>ec_Writer = Some (ParticipantSeatWriterAdapter ''n'' 9), ec_Caster = ex_caster\<rparr> ex_seat_input ex_unseated
       = (Inr patch, w') \<and>
     length (role_seats ''w'' ''t'' ''reviewer'' (w_state ex_unseated)) = 0 \<and> length (role_seats ''w'' ''t'' ''reviewer'' (w_state w')) = 1"
proof -
  let ?run = "EnsureParticipantSeatCallback_Execute \<lparr>ec_Writer = Some (ParticipantSeatWriterAdapter ''n'' 9), ec_Caster = ex_caster\<rparr> ex_seat_input ex_unseated"
  obtain r w' where run: "?run = (r, w')" by fastforce
  have "case fst ?run of Inl _ \<Rightarrow> False | Inr _ \<Rightarrow> True" by code_simp
  then obtain patch where run': "?run = (Inr patch, w')" using run by (cases r) auto
  have flow: "step_in_workflow (m_WorkflowID (i_State ex_seat_input)) (ss_ID (i_Step ex_seat_input)) (w_state ex_unseated)" by code_simp
  have at: "m_WorkflowID (i_State ex_seat_input) = ''w''" "m_TaskID (i_State ex_seat_input) = ''t''" "seat_role (i_Action ex_seat_input) = ''reviewer''"
    by code_simp+
  have none: "length (role_seats ''w'' ''t'' ''reviewer'' (w_state ex_unseated)) = 0" by code_simp
  from seat_ensured_once [OF run' flow] have "length (role_seats ''w'' ''t'' ''reviewer'' (w_state w')) = 1" unfolding at none by simp
  with run' none show ?thesis by blast
qed

end
