(* ===== verification/Decision_Laws.thy ===== *)
theory Decision_Laws
  imports Engine_Laws Repo_Laws
begin

text \<open>
  Recording a decision and the snapshot of a step's quorum: the task moves only to the target of the
  first guarded transition whose quorum is met, no action of the step runs, and the snapshot, which
  changes nothing, reports what the re-evaluation reports.
\<close>

section \<open>The transition that the re-evaluation selects\<close>

text \<open>The step that a guarded transition would move the task to, if its guard is satisfied.\<close>

definition met_target :: "'s Engine \<Rightarrow> MachineState \<Rightarrow> StepSpec \<Rightarrow> 's \<Rightarrow> Action \<Rightarrow> string option" where
  "met_target e m step s a =
     (if eligible_guard a \<noteq> None \<and> g_Satisfied (fst (evaluateTransitionGuard e m a s))
      then (case resolveTransitionTarget e m step a s of Inl err \<Rightarrow> None
            | Inr t \<Rightarrow> if t = [] \<or> t = m_CurrentStepID m then None else Some t)
      else None)"

lemma select_transition_target:
  assumes "fst (select_transition e m step selected guards actions s) = Inr (target, guards')"
  shows "target = (if selected \<noteq> [] then selected
    else case List.map_filter (met_target e m step s) actions of [] \<Rightarrow> [] | t # ts \<Rightarrow> t)"
  using assms
proof (induction actions arbitrary: selected guards)
  case (Cons a as)
  have IH: "target = (if sel \<noteq> [] then sel else case List.map_filter (met_target e m step s) as of [] \<Rightarrow> [] | t # ts \<Rightarrow> t)"
    if "select_transition e m step sel gs as s = (Inr (target, guards'), ms)" for sel gs ms
    using Cons.IH [of sel gs] that by simp
  obtain outcome ms where out: "evaluateTransitionGuard e m a s = (outcome, ms)" by fastforce
  show ?case
  proof (cases "eligible_guard a")
    case None
    then have "met_target e m step s a = None" by (simp add: met_target_def)
    then show ?thesis using Cons.IH [of selected guards] Cons.prems None by (simp add: map_filter_simps)
  next
    case (Some q)
    then have met: "met_target e m step s a = (if g_Satisfied outcome then (case resolveTransitionTarget e m step a s of Inl err \<Rightarrow> None
            | Inr t \<Rightarrow> if t = [] \<or> t = m_CurrentStepID m then None else Some t) else None)"
      using out by (simp add: met_target_def)
    show ?thesis using Cons.prems Some out met
      by (cases "resolveTransitionTarget e m step a s")
         (auto simp: map_filter_simps evaluateGuardForTransition_def Let_def dest: IH split: if_splits prod.splits)
  qed
qed (simp add: map_filter_simps)

lemma snapshot_cons:
  assumes "a_Guard a = Some g" "isTransitionAction (a_Kind a)"
  shows "snapshot_guards e m step (a # as) s = evaluateGuardStateReadOnly e m step a g s # snapshot_guards e m step as s"
  using assms by (simp add: snapshot_guards_def map_filter_simps)

lemma select_transition_guards:
  assumes "fst (select_transition e m step selected guards actions s) = Inr (target, guards')"
  shows "guards' = guards @ map fst (snapshot_guards e m step (filter (\<lambda>a. eligible_guard a \<noteq> None) actions) s)"
  using assms
proof (induction actions arbitrary: selected guards)
  case (Cons a as)
  show ?case
  proof (cases "eligible_guard a")
    case None
    then show ?thesis using Cons by simp
  next
    case (Some q)
    then obtain g where g: "a_Guard a = Some g" "tg_WaitForQuorum g = Some q" "isTransitionAction (a_Kind a)"
      by (auto simp: eligible_guard_def split: if_splits option.splits)
    obtain outcome ms where out: "evaluateTransitionGuard e m a s = (outcome, ms)" by fastforce
    then have read: "evaluateTransitionGuardRecording e m a False s = (outcome, [])"
      using guard_read_only [of e m a s] by (simp add: evaluateTransitionGuard_def prod_eq_iff)
    have IH: "guards' = gs @ map fst (snapshot_guards e m step (filter (\<lambda>a. eligible_guard a \<noteq> None) as) s)"
      if "select_transition e m step sel gs as s = (Inr (target, guards'), ms)" for sel gs ms
      using Cons.IH [of sel gs] that by simp
    have "guards' = guards @ fst (evaluateGuardStateReadOnly e m step a g s) #
        map fst (snapshot_guards e m step (filter (\<lambda>a. eligible_guard a \<noteq> None) as) s)"
      using Cons.prems Some out g(2) read
      by (cases "resolveTransitionTarget e m step a s")
         (auto simp: evaluateGuardStateReadOnly_def evaluateGuardForTransition_def Let_def dest!: IH split: if_splits prod.splits)
    then show ?thesis using Some by (simp add: snapshot_cons [OF g(1,3)])
  qed
qed (simp add: snapshot_guards_def map_filter_simps)

section \<open>Recording a decision\<close>

lemma apply_first_run:
  assumes "applyFirstSatisfiedGuardedTransition e t sess m step w = (Inr r, w')"
  defines "targets \<equiv> List.map_filter (met_target e m step (w_state w)) (step_actions step TriggerOnTurnComplete)"
  shows "hr_Guards r = map fst (snapshot_guards e m step (filter (\<lambda>a. eligible_guard a \<noteq> None) (step_actions step TriggerOnTurnComplete)) (w_state w)) \<and>
    (case targets of [] \<Rightarrow> \<not> hr_Transitioned r \<and> \<not> hr_TransitionAbandoned r \<and> w_state w' = w_state w
     | target # _ \<Rightarrow> ApplyTransitionIfAtStep (e_store e) t sess (m_CurrentStepID m) target TriggerOnTurnComplete (w_state w) =
           (Inr (hr_Transitioned r), w_state w') \<and>
         hr_TransitionAbandoned r = (\<not> hr_Transitioned r) \<and> hr_FromStepID r = m_CurrentStepID m \<and> hr_ToStepID r = target)"
proof -
  obtain res ms where sel: "select_transition e m step [] [] (step_actions step TriggerOnTurnComplete) (w_state w) = (res, ms)" by fastforce
  with assms(1) obtain target guards where res: "res = Inr (target, guards)"
    by (cases res) (auto simp: applyFirstSatisfiedGuardedTransition_def)
  have fst: "fst (select_transition e m step [] [] (step_actions step TriggerOnTurnComplete) (w_state w)) = Inr (target, guards)"
    using sel res by simp
  have nonempty: "x \<noteq> []" if "x \<in> set targets" for x
    using that by (auto simp: targets_def map_filter_def met_target_def split: if_splits sum.splits)
  show ?thesis
  proof (cases targets)
    case Nil
    then show ?thesis using assms(1) sel res select_transition_target [OF fst] select_transition_guards [OF fst]
      by (auto simp: applyFirstSatisfiedGuardedTransition_def no_result_def targets_def)
  next
    case (Cons x xs)
    then have "target = x" "x \<noteq> []" using select_transition_target [OF fst] nonempty by (auto simp: targets_def)
    then show ?thesis using assms(1) sel res Cons select_transition_guards [OF fst]
      by (auto simp: applyFirstSatisfiedGuardedTransition_def no_result_def call_def Let_def split: prod.splits sum.splits if_splits)
  qed
qed

text \<open>The task and the step that a recorded decision is re-evaluated for, at the state after the recording.\<close>

definition decision_context :: "'s Engine \<Rightarrow> string \<Rightarrow> DecisionInfo \<Rightarrow> 's \<Rightarrow> (MachineState \<times> StepSpec) option" where
  "decision_context e sess d s = (case LoadState (e_store e) (d_TaskID d) sess s of Inl err \<Rightarrow> None
     | Inr m \<Rightarrow> (case LoadStep (e_store e) (m_WorkflowID m) (d_StepID d) s of Inl err \<Rightarrow> None
       | Inr step \<Rightarrow> Some (m\<lparr>m_CurrentStepID := d_StepID d\<rparr>, step)))"

definition met_targets :: "'s Engine \<Rightarrow> MachineState \<Rightarrow> StepSpec \<Rightarrow> 's \<Rightarrow> string list" where
  "met_targets e m step s = List.map_filter (met_target e m step s) (step_actions step TriggerOnTurnComplete)"

lemma reevaluate_run:
  assumes "reevaluateGuardedTransitions e t sess st i w = (Inr r, w')" and "hr_Transitioned r"
  obtains m step w1 where "LoadState (e_store e) t sess (w_state w) = Inr m" "LoadStep (e_store e) (m_WorkflowID m) st (w_state w) = Inr step"
    "applyFirstSatisfiedGuardedTransition e t sess (m\<lparr>m_CurrentStepID := st\<rparr>) step w = (Inr r, w1)"
    "markOperationApplied e (decision_operation t st i) w1 = (None, w')"
  using assms
  by (auto simp: reevaluateGuardedTransitions_def no_result_def Let_def split: sum.splits bool.splits prod.splits option.splits)

text \<open>
  C23: a recorded decision moves a task only through a satisfied quorum.  When recording a decision
  reports a transition, the decision was stored first, and the task was moved, by a write that is
  conditional on the task still being at the step of the decision, to the target of the first guarded
  transition of that step whose guard is satisfied by the decisions stored then.
\<close>

theorem decision_moves_through_quorum:
  assumes "RecordParticipantDecision e newID now sess d w = ((r, err), w')" and "rd_Transitioned r"
  shows "\<exists>decisions s1 m step s2 rest. e_decisions e = Some decisions \<and>
    RecordStepDecision decisions (d\<lparr>d_ID := newID, d_DecidedAt := now\<rparr>) (w_state w) = (None, s1) \<and>
    decision_context e sess d s1 = Some (m, step) \<and> met_targets e m step s1 = rd_ToStepID r # rest \<and>
    ApplyTransitionIfAtStep (e_store e) (d_TaskID d) sess (d_StepID d) (rd_ToStepID r) TriggerOnTurnComplete s1 = (Inr True, s2) \<and>
    MarkOperationApplied (e_store e) (decision_operation (d_TaskID d) (d_StepID d) newID) s2 = (None, w_state w') \<and>
    rd_FromStepID r = d_StepID d \<and> rd_ToStepID r \<noteq> d_StepID d \<and> err = None"
proof -
  obtain decisions w1 handled where rec: "e_decisions e = Some decisions"
      "call (RecordStepDecision decisions (d\<lparr>d_ID := newID, d_DecidedAt := now\<rparr>)) w = (None, w1)"
    and re: "reevaluateGuardedTransitions e (d_TaskID d) sess (d_StepID d) newID w1 = (Inr handled, w')" "err = None"
    and r: "rd_Transitioned r = hr_Transitioned handled" "rd_FromStepID r = hr_FromStepID handled" "rd_ToStepID r = hr_ToStepID handled"
    using assms by (auto simp: RecordParticipantDecision_def no_decision_def Let_def split: option.splits if_splits prod.splits sum.splits)
  obtain m0 step w2 where load: "LoadState (e_store e) (d_TaskID d) sess (w_state w1) = Inr m0"
      "LoadStep (e_store e) (m_WorkflowID m0) (d_StepID d) (w_state w1) = Inr step"
    and run: "applyFirstSatisfiedGuardedTransition e (d_TaskID d) sess (m0\<lparr>m_CurrentStepID := d_StepID d\<rparr>) step w1 = (Inr handled, w2)"
    and mark: "markOperationApplied e (decision_operation (d_TaskID d) (d_StepID d) newID) w2 = (None, w')"
    using reevaluate_run [OF re(1)] assms(2) r(1) by metis
  define m where "m = m0\<lparr>m_CurrentStepID := d_StepID d\<rparr>"
  obtain rest where targets: "met_targets e m step (w_state w1) = rd_ToStepID r # rest"
    and cas: "ApplyTransitionIfAtStep (e_store e) (d_TaskID d) sess (d_StepID d) (rd_ToStepID r) TriggerOnTurnComplete (w_state w1) = (Inr True, w_state w2)"
      "rd_FromStepID r = d_StepID d"
    using apply_first_run [OF run] assms(2) r by (auto simp: met_targets_def m_def split: list.splits)
  have "rd_ToStepID r \<in> set (met_targets e m step (w_state w1))" by (simp add: targets)
  then have "rd_ToStepID r \<noteq> d_StepID d" by (auto simp: met_targets_def met_target_def map_filter_def m_def split: if_splits sum.splits)
  moreover have "decision_context e sess d (w_state w1) = Some (m, step)" using load by (simp add: decision_context_def m_def)
  moreover have "MarkOperationApplied (e_store e) (decision_operation (d_TaskID d) (d_StepID d) newID) (w_state w2) = (None, w_state w')"
    using mark by (auto simp: markOperationApplied_def call_state decision_operation_def)
  ultimately show ?thesis using rec targets cas re(2) by (auto simp: call_state)
qed

definition ex_pending :: "workflow_db world" where
  "ex_pending = ex_world\<lparr>w_state := ex_board\<lparr>db_decisions := [ex_decision ''d1'' 5 ''p2'' ''ada'' ''approved'']\<rparr>\<rparr>"

theorem decision_moves_through_quorum_witness:
  "\<exists>r w' m step s1. RecordParticipantDecision ex_engine ''n'' 9 ''s'' (ex_decision [] 0 ''p3'' ''bob'' ''approved'') ex_pending = ((r, None), w') \<and>
     task_step (w_state w') ''t'' = ''done'' \<and> rd_ToStepID r \<in> set (met_targets ex_engine m step s1)"
proof -
  let ?run = "RecordParticipantDecision ex_engine ''n'' 9 ''s'' (ex_decision [] 0 ''p3'' ''bob'' ''approved'') ex_pending"
  obtain r err w' where run: "?run = ((r, err), w')" by (metis surj_pair)
  have "(\<lambda>((r, err), w). rd_Transitioned r \<and> err = None \<and> task_step (w_state w) ''t'' = ''done'') ?run" by code_simp
  with run have r: "rd_Transitioned r" "err = None" "task_step (w_state w') ''t'' = ''done''" by simp_all
  with decision_moves_through_quorum [OF run] run show ?thesis by (metis list.set_intros(1))
qed

text \<open>No action of a step runs when a decision is recorded: neither the callbacks nor the run queue matter.\<close>

lemma decision_runs_no_action:
  "RecordParticipantDecision (e\<lparr>e_callbacks := callbacks, e_runQueue := queue\<rparr>) newID now sess d w = RecordParticipantDecision e newID now sess d w"
proof -
  let ?e = "e\<lparr>e_callbacks := callbacks, e_runQueue := queue\<rparr>"
  have same: "e_store ?e = e_store e" "e_decisions ?e = e_decisions e" "e_participants ?e = e_participants e" "e_agentProfiles ?e = e_agentProfiles e"
    by simp_all
  note drop = dropUnresolvedAgentSeats_def [of ?e, unfolded same, folded dropUnresolvedAgentSeats_def]
  note seats = requiredSeatsForWorkflowRecording_def [of ?e, unfolded drop, folded requiredSeatsForWorkflowRecording_def]
  note compute = computeGuardOutcomeRecording_def [of ?e, unfolded same seats, folded computeGuardOutcomeRecording_def]
  have guard: "evaluateTransitionGuard ?e m a s = evaluateTransitionGuard e m a s" for m a s
    by (simp only: evaluateTransitionGuard_def evaluateTransitionGuardRecording_def compute)
  have target: "resolveTransitionTarget ?e m step a s = resolveTransitionTarget e m step a s" for m step a s
    by (simp only: resolveTransitionTarget_def same)
  have "evaluateGuardForTransition ?e m step a q s = evaluateGuardForTransition e m step a q s" for m step a q s
    by (simp only: evaluateGuardForTransition_def guard target)
  then have sel: "select_transition ?e m step selected guards as s = select_transition e m step selected guards as s" for m step selected guards as s
    by (induction as arbitrary: selected guards) (auto simp: Let_def split: option.split sum.split prod.split)
  have first: "applyFirstSatisfiedGuardedTransition ?e t ss m step v = applyFirstSatisfiedGuardedTransition e t ss m step v" for t ss m step v
    by (simp only: applyFirstSatisfiedGuardedTransition_def sel same)
  have "reevaluateGuardedTransitions ?e t ss st i v = reevaluateGuardedTransitions e t ss st i v" for t ss st i v
    by (simp only: reevaluateGuardedTransitions_def markOperationApplied_def first same)
  then show ?thesis by (simp only: RecordParticipantDecision_def same)
qed

section \<open>The snapshot\<close>

lemma snapshot_no_metrics: "concat (map snd (snapshot_guards e m step as s)) = []"
proof -
  have "snd (evaluateGuardStateReadOnly e m step a g s) = []" for a g
    using guard_read_only [of e m a s] by (auto simp: evaluateGuardStateReadOnly_def Let_def split: prod.split sum.split)
  then show ?thesis by (auto simp: snapshot_guards_def map_filter_def split: if_splits) (metis snd_conv)
qed

lemma snapshot_filter:
  "set (snapshot_guards e m step (filter P as) s) \<subseteq> set (snapshot_guards e m step as s)"
  "(\<And>a. a \<in> set as \<Longrightarrow> isTransitionAction (a_Kind a) \<Longrightarrow> a_Guard a \<noteq> None \<Longrightarrow> P a) \<Longrightarrow>
     snapshot_guards e m step (filter P as) s = snapshot_guards e m step as s"
  by (auto simp: snapshot_guards_def map_filter_def)
     (induction as, auto simp: snapshot_guards_def map_filter_simps split: option.split)

text \<open>
  C34: the snapshot is exact and without effects.  Reading the quorum of a task's step changes no state
  and counts no metric; a re-evaluation in the same state reports only guards that the snapshot
  reports, all of them when no guarded transition waits for an approval and every guard is a quorum;
  and it moves the task only if the snapshot shows a satisfied guard for the target.
\<close>

theorem snapshot_agrees:
  assumes "EvaluateStepQuorum e t sess w = (Inr snap, w')"
    and "LoadState (e_store e) t sess (w_state w) = Inr m" and "m_CurrentStepID m \<noteq> []"
    and "LoadStep (e_store e) (m_WorkflowID m) (m_CurrentStepID m) (w_state w) = Inr step"
    and "applyFirstSatisfiedGuardedTransition e t sess m step w = (Inr r, w2)"
  shows "w' = w \<and> qs_StepID snap = m_CurrentStepID m \<and> set (hr_Guards r) \<subseteq> set (qs_Guards snap) \<and>
    ((\<forall>a\<in>set (step_actions step TriggerOnTurnComplete). isTransitionAction (a_Kind a) \<and> a_Guard a \<noteq> None \<longrightarrow> eligible_guard a \<noteq> None)
       \<longrightarrow> hr_Guards r = qs_Guards snap) \<and>
    (hr_Transitioned r \<longrightarrow> (\<exists>g\<in>set (qs_Guards snap). qg_Satisfied g \<and> qg_TargetStepID g = hr_ToStepID r))"
proof -
  let ?acts = "step_actions step TriggerOnTurnComplete"
  have snap: "w' = w" "qs_StepID snap = m_CurrentStepID m" "qs_Guards snap = map fst (snapshot_guards e m step ?acts (w_state w))"
    using assms(1-4) by (auto simp: EvaluateStepQuorum_def Let_def snapshot_no_metrics record_metrics_def)
  have guards: "hr_Guards r = map fst (snapshot_guards e m step (filter (\<lambda>a. eligible_guard a \<noteq> None) ?acts) (w_state w))"
    using apply_first_run [OF assms(5)] by blast
  have "\<exists>g\<in>set (qs_Guards snap). qg_Satisfied g \<and> qg_TargetStepID g = hr_ToStepID r" if "hr_Transitioned r"
  proof -
    have "hr_ToStepID r \<in> set (List.map_filter (met_target e m step (w_state w)) ?acts)"
      using apply_first_run [OF assms(5)] that by (auto split: list.splits)
    then obtain a where a: "a \<in> set ?acts" "met_target e m step (w_state w) a = Some (hr_ToStepID r)" by (auto simp: map_filter_def)
    then obtain g where g: "a_Guard a = Some g" "isTransitionAction (a_Kind a)" "g_Satisfied (fst (evaluateTransitionGuard e m a (w_state w)))"
      "resolveTransitionTarget e m step a (w_state w) = Inr (hr_ToStepID r)"
      by (auto simp: met_target_def eligible_guard_def split: if_splits option.splits sum.splits)
    let ?entry = "evaluateGuardStateReadOnly e m step a g (w_state w)"
    have "?entry \<in> set (snapshot_guards e m step ?acts (w_state w))"
      using a(1) g(1,2) by (force simp: snapshot_guards_def map_filter_def)
    moreover have "qg_Satisfied (fst ?entry)" "qg_TargetStepID (fst ?entry) = hr_ToStepID r"
      using g(3,4) guard_read_only [of e m a "w_state w"]
      by (auto simp: evaluateGuardStateReadOnly_def evaluateTransitionGuard_def guard_entry_def Let_def split: prod.split)
    ultimately show ?thesis by (force simp: snap(3))
  qed
  moreover have "set (hr_Guards r) \<subseteq> set (qs_Guards snap)"
    using snapshot_filter(1) [of e m step "\<lambda>a. eligible_guard a \<noteq> None" ?acts "w_state w"] by (auto simp: guards snap(3) simp del: not_None_eq)
  moreover have "hr_Guards r = qs_Guards snap"
    if "\<forall>a\<in>set ?acts. isTransitionAction (a_Kind a) \<and> a_Guard a \<noteq> None \<longrightarrow> eligible_guard a \<noteq> None"
    using snapshot_filter(2) [of ?acts "\<lambda>a. eligible_guard a \<noteq> None" e m step "w_state w"] that by (auto simp: guards snap(3) simp del: not_None_eq)
  ultimately show ?thesis using snap(1,2) by blast
qed

theorem snapshot_agrees_witness:
  "\<exists>snap r w2. EvaluateStepQuorum ex_engine ''t'' ''s'' ex_world = (Inr snap, ex_world) \<and> length (qs_Guards snap) = 2 \<and>
     applyFirstSatisfiedGuardedTransition ex_engine ''t'' ''s'' ex_state (CompileStep ex_review) ex_world = (Inr r, w2) \<and>
     set (hr_Guards r) \<subseteq> set (qs_Guards snap) \<and> hr_Transitioned r"
proof -
  let ?snap = "EvaluateStepQuorum ex_engine ''t'' ''s'' ex_world"
    and ?run = "applyFirstSatisfiedGuardedTransition ex_engine ''t'' ''s'' ex_state (CompileStep ex_review) ex_world"
  have "case fst ?snap of Inl _ \<Rightarrow> False | Inr q \<Rightarrow> length (qs_Guards q) = 2" "case fst ?run of Inl _ \<Rightarrow> False | Inr r \<Rightarrow> hr_Transitioned r"
    by code_simp+
  then obtain snap w1 r w2 where ok: "?snap = (Inr snap, w1)" "length (qs_Guards snap) = 2" "?run = (Inr r, w2)" "hr_Transitioned r"
    by (cases ?snap; cases ?run; cases "fst ?snap"; cases "fst ?run") auto
  have load: "LoadState (e_store ex_engine) ''t'' ''s'' (w_state ex_world) = Inr ex_state" "m_CurrentStepID ex_state \<noteq> []"
    "LoadStep (e_store ex_engine) (m_WorkflowID ex_state) (m_CurrentStepID ex_state) (w_state ex_world) = Inr (CompileStep ex_review)"
    by code_simp+
  show ?thesis using snapshot_agrees [OF ok(1) load ok(3)] ok by metis
qed

end
