(* ===== verification/Entry_Laws.thy ===== *)
theory Entry_Laws
  imports Repo_Laws Workflow_Entry Workflow_Callbacks "HOL-Library.Sublist"
begin

text \<open>
  Entering a step: every compiled action of a step belongs to exactly one dispatcher, the markers
  allocated for an entry are those of the compiled actions that bear one, a dispatch stops at the
  first marked action that fails, and a fan-out asks every seat once.
\<close>

section \<open>Ownership\<close>

lemma owner_kinds:
  "OwnedByMarker k \<longleftrightarrow> k \<in> {''enable_plan_mode'', ''auto_start_agent'', ''reset_agent_context'', ''set_session_mode'', ''configure_session''}"
  "OwnedByLedger k \<longleftrightarrow> k \<in> {''clear_decisions'', ''queue_run_for_each_participant'', ''queue_run'', ''run_code_review'', ''ensure_participant_seat''}"
  "MarkerBearing k \<longleftrightarrow> k \<in> {''clear_decisions'', ''queue_run_for_each_participant''}"
  by (auto simp: OwnedByMarker_def OwnedByLedger_def MarkerBearing_def Owner_def ownershipTable_def owned_by_def gm_get_def)

lemma action_kind [simp]: "a_Kind (action k) = k"
  by (simp add: action_def)

lemma compiled_entry_kind:
  assumes "CompileOnEnterAction g = Some a"
  shows "a_Kind a = ga_Type g" and "OwnedByLedger (a_Kind a) \<or> OwnedByMarker (a_Kind a)"
  using assms by (auto simp: CompileOnEnterAction_def Let_def owner_kinds split: if_splits)

lemma compile_on_enter_mem:
  "a \<in> set (compile_on_enter i as) \<Longrightarrow> \<exists>g c. g \<in> set as \<and> CompileOnEnterAction g = Some c \<and> a_Kind a = a_Kind c"
  by (induction as arbitrary: i) (auto split: option.splits, fastforce+)

lemma entry_actions: "step_actions (CompileStep ws) TriggerOnEnter = compile_on_enter 0 (OnEnter (ws_Events ws))"
  by (simp add: step_actions_def CompileStep_def compileOnEnter_def gm_get0_def gm_get_def Let_def)

lemma entry_actions_owned:
  "a \<in> set (step_actions (CompileStep ws) TriggerOnEnter) \<Longrightarrow>
     isSessionShapedActionKind (a_Kind a) \<longleftrightarrow> \<not> isSessionIndependentActionKind (a_Kind a)"
  using compile_on_enter_mem [of a 0 "OnEnter (ws_Events ws)"] compiled_entry_kind(2)
  by (fastforce simp: entry_actions isSessionShapedActionKind_def isSessionIndependentActionKind_def owner_kinds)

lemma evaluate_filtered:
  "evaluate_actions e inp m step (Some f) target patch as w = evaluate_actions e inp m step None target patch (filter (\<lambda>a. f (a_Kind a)) as) w"
  by (induction as arbitrary: target patch w) (auto simp: filtered_out_def Let_def split: prod.split sum.split)

lemma dispatch_filtered:
  "dispatch_actions e t m step entry mark seen as w =
     dispatch_actions e t m step entry mark seen (filter (\<lambda>a. isSessionIndependentActionKind (a_Kind a)) as) w"
  by (induction as arbitrary: seen w) (auto simp: Let_def split: prod.split sum.split option.split bool.split)

text \<open>
  The two dispatchers share out the entry of a step.  Of the compiled actions of entering a step,
  each goes to exactly one of them: the trigger restricted to session-shaped actions evaluates
  exactly those that the dispatch of the arrival leaves out, in their declared order.
\<close>

theorem entry_actions_split:
  fixes ws :: WorkflowStep
  defines "actions \<equiv> step_actions (CompileStep ws) TriggerOnEnter"
  defines "shaped \<equiv> filter (\<lambda>a. isSessionShapedActionKind (a_Kind a)) actions"
    and "indep \<equiv> filter (\<lambda>a. isSessionIndependentActionKind (a_Kind a)) actions"
  shows "mset actions = mset shaped + mset indep \<and>
    evaluateActions e inp m step actions (Some isSessionShapedActionKind) w = evaluateActions e inp m step shaped None w \<and>
    dispatch_actions e t m step entry mark seen actions w = dispatch_actions e t m step entry mark seen indep w"
proof -
  have "shaped = filter (\<lambda>a. \<not> isSessionIndependentActionKind (a_Kind a)) actions"
    unfolding shaped_def by (rule filter_cong) (auto simp: actions_def entry_actions_owned)
  then have "mset actions = mset shaped + mset indep"
    using multiset_partition [of "mset actions" "\<lambda>a. isSessionIndependentActionKind (a_Kind a)"]
    by (simp add: indep_def union_commute)
  moreover have "evaluateActions e inp m step actions (Some isSessionShapedActionKind) w = evaluateActions e inp m step shaped None w"
    by (simp add: evaluateActions_def shaped_def evaluate_filtered [of e inp m step isSessionShapedActionKind])
  ultimately show ?thesis unfolding indep_def using dispatch_filtered by fast
qed

section \<open>Markers\<close>

lemma bearing_compiles:
  assumes "MarkerBearing (ga_Type g)"
  shows "\<exists>c. CompileOnEnterAction g = Some c"
  using assms by (auto simp: owner_kinds CompileOnEnterAction_def Let_def)

lemma marker_positions_compiled:
  "map (\<lambda>p. (ep_Position p, ep_Kind p)) (marker_positions i as) =
   map (\<lambda>a. (a_DeclaredPosition a, a_Kind a)) (filter (\<lambda>a. MarkerBearing (a_Kind a)) (compile_on_enter i as))"
proof (induction as arbitrary: i)
  case (Cons g as)
  show ?case
  proof (cases "CompileOnEnterAction g")
    case None
    then have "\<not> MarkerBearing (ga_Type g)" using bearing_compiles [of g] by auto
    with None Cons show ?thesis by (simp add: marker_positions_def IsMarkerBearing_def)
  next
    case (Some c)
    with Cons compiled_entry_kind(1) [OF Some] show ?thesis by (simp add: marker_positions_def IsMarkerBearing_def)
  qed
qed (simp add: marker_positions_def)

lemma declared_positions:
  "sorted_wrt (<) (map a_DeclaredPosition (compile_on_enter i as)) \<and> (\<forall>a\<in>set (compile_on_enter i as). i \<le> a_DeclaredPosition a)"
  by (induction as arbitrary: i) (force split: option.split)+

text \<open>
  A marker for every marked action.  The allocation that is built from the declared actions of a
  step has exactly the position and kind of each compiled action that bears a marker, in order, with
  strictly increasing positions; there is none exactly when no compiled action bears a marker.
\<close>

theorem allocation_matches_compiled:
  fixes ws :: WorkflowStep
  defines "bearing \<equiv> filter (\<lambda>a. MarkerBearing (a_Kind a)) (step_actions (CompileStep ws) TriggerOnEnter)"
  shows "case BuildPendingAllocation sha stepID (OnEnter (ws_Events ws)) of
      None \<Rightarrow> bearing = []
    | Some alloc \<Rightarrow> bearing \<noteq> [] \<and> pa_StepID alloc = stepID \<and>
        map (\<lambda>p. (ep_Position p, ep_Kind p)) (pa_Positions alloc) = map (\<lambda>a. (a_DeclaredPosition a, a_Kind a)) bearing \<and>
        sorted_wrt (<) (map ep_Position (pa_Positions alloc))"
proof -
  let ?pos = "marker_positions 0 (OnEnter (ws_Events ws))"
  have same: "map (\<lambda>p. (ep_Position p, ep_Kind p)) ?pos = map (\<lambda>a. (a_DeclaredPosition a, a_Kind a)) bearing"
    unfolding bearing_def entry_actions by (rule marker_positions_compiled)
  have "map ep_Position ?pos = map fst (map (\<lambda>p. (ep_Position p, ep_Kind p)) ?pos)" by simp
  also have "\<dots> = map a_DeclaredPosition bearing" unfolding same by simp
  finally have "sorted_wrt (<) (map ep_Position ?pos)"
    using declared_positions [of 0 "OnEnter (ws_Events ws)"] by (simp add: bearing_def entry_actions sorted_wrt_map sorted_wrt_filter)
  moreover have "?pos = [] \<longleftrightarrow> bearing = []" using arg_cong [OF same, of length] by auto
  ultimately show ?thesis using same by (auto simp: BuildPendingAllocation_def Let_def)
qed

section \<open>The dispatch of an arrival\<close>

lemma dispatch_kinds:
  "dispatch_actions e t m step entry mark seen as w = (results, w') \<Longrightarrow>
     subseq (map sr_Kind results) (map a_Kind (filter (\<lambda>a. isSessionIndependentActionKind (a_Kind a)) as))"
  by (induction as arbitrary: seen w results) (auto simp: Let_def split: if_splits option.splits prod.splits bool.splits)

lemma dispatch_stops:
  assumes "e_markerExecutor e = Some executor" and "mark \<noteq> 0"
  shows "dispatch_actions e t m step entry mark seen as w = (xs @ r # ys, w') \<Longrightarrow> MarkerBearing (sr_Kind r) \<Longrightarrow> sr_Err r \<noteq> None \<Longrightarrow> ys = []"
proof (induction as arbitrary: seen w xs)
  case (Cons a as)
  show ?case
  proof (cases xs)
    case Nil
    then show ?thesis using Cons.prems assms
      by (auto simp: Let_def split: if_splits option.splits prod.splits bool.splits dest: Cons.IH [where xs = "[]", simplified])
  next
    case (Cons x xs')
    then show ?thesis using Cons.prems assms
      by (auto simp: Let_def split: if_splits option.splits prod.splits bool.splits
          dest: Cons.IH [where xs = "x # xs'", simplified] Cons.IH)
  qed
qed simp

text \<open>
  An arrival stops at the first marked action that fails.  The results of dispatching the entry of
  a step are, in declared order, those of session-independent actions of the step only; and when
  markers are kept, no action after a marker-bearing one that failed was attempted.
\<close>

theorem dispatch_stops_at_failure:
  assumes "DispatchStepEntry e t flow st entry mark w = (results, w')"
    and "LoadStep (e_store e) flow st (w_state w) = Inr step"
  shows "subseq (map sr_Kind results)
      (map a_Kind (filter (\<lambda>a. isSessionIndependentActionKind (a_Kind a)) (step_actions step TriggerOnEnter))) \<and>
    (\<forall>xs r ys. e_markerExecutor e \<noteq> None \<and> mark \<noteq> 0 \<and> results = xs @ r # ys \<and> MarkerBearing (sr_Kind r) \<and> sr_Err r \<noteq> None \<longrightarrow> ys = [])"
proof (cases "step_actions step TriggerOnEnter = []")
  case True
  then show ?thesis using assms by (simp add: DispatchStepEntry_def)
next
  case False
  then have run: "dispatch_actions e t (no_state\<lparr>m_TaskID := t, m_WorkflowID := flow, m_CurrentStepID := st\<rparr>) step entry mark []
      (step_actions step TriggerOnEnter) w = (results, w')" using assms by (simp add: DispatchStepEntry_def)
  then show ?thesis using dispatch_kinds [OF run] dispatch_stops [of e _ mark] by blast
qed

definition ex_marked_engine :: "workflow_db Engine" where
  "ex_marked_engine = ex_engine\<lparr>e_markerExecutor := Some (\<lambda>t step a pos entry mark w.
     ((False, if a_Kind a = ActionQueueRunForEachParticipant then Some (ErrorText ''queue is down'') else None), w))\<rparr>"

theorem dispatch_stops_at_failure_witness:
  "\<exists>results w'. DispatchStepEntry ex_marked_engine ''t'' ''w'' ''review'' ''e'' 7 ex_world = (results, w') \<and>
     map sr_Kind results = [ActionClearDecisions, ActionEnsureParticipantSeat, ActionQueueRunForEachParticipant] \<and>
     subseq (map sr_Kind results) (map a_Kind (filter (\<lambda>a. isSessionIndependentActionKind (a_Kind a)) (step_actions (CompileStep ex_review) TriggerOnEnter)))"
proof -
  obtain results w' where run: "DispatchStepEntry ex_marked_engine ''t'' ''w'' ''review'' ''e'' 7 ex_world = (results, w')" by fastforce
  have load: "LoadStep (e_store ex_marked_engine) ''w'' ''review'' (w_state ex_world) = Inr (CompileStep ex_review)" by code_simp
  have "map sr_Kind (fst (DispatchStepEntry ex_marked_engine ''t'' ''w'' ''review'' ''e'' 7 ex_world)) =
      [ActionClearDecisions, ActionEnsureParticipantSeat, ActionQueueRunForEachParticipant]" by code_simp
  then show ?thesis using dispatch_stops_at_failure [OF run load] run by auto
qed

section \<open>Fan-out\<close>

text \<open>Asking every seat, whatever the earlier ones answered.\<close>

fun attempts :: "'s RunQueueAdapter \<Rightarrow> QueueRunRequest list \<Rightarrow> 's \<Rightarrow> (werror + QueueOutcome) list \<times> 's" where
  "attempts adapter [] s = ([], s)"
| "attempts adapter (r # rs) s = (case adapter r s of (res, s1) \<Rightarrow> (case attempts adapter rs s1 of (results, s2) \<Rightarrow> (res # results, s2)))"

lemma attempts_length: "attempts adapter rs s = (results, s') \<Longrightarrow> length results = length rs"
  by (induction rs arbitrary: s results) (auto split: prod.splits)

lemma fan_out_attempts:
  assumes "fan_out adapter req seats w = (errs, w')"
    and "attempts adapter (map (\<lambda>p. req (p_AgentProfileID p)) seats) (w_state w) = (results, s')"
  shows "w' = w\<lparr>w_state := s'\<rparr> \<and> length errs = length (filter isl results)"
  using assms
proof (induction seats arbitrary: w errs results w' s')
  case (Cons p ps)
  obtain r s1 where r: "adapter (req (p_AgentProfileID p)) (w_state w) = (r, s1)" by fastforce
  obtain errs2 w2 where rest: "fan_out adapter req ps (w\<lparr>w_state := s1\<rparr>) = (errs2, w2)" by fastforce
  obtain results2 s2 where att: "attempts adapter (map (\<lambda>p. req (p_AgentProfileID p)) ps) s1 = (results2, s2)" by fastforce
  have "w2 = w\<lparr>w_state := s2\<rparr> \<and> length errs2 = length (filter isl results2)" using Cons.IH [OF rest] att by simp
  with Cons.prems r rest att show ?case by (cases r) (auto simp: call_def)
qed simp

text \<open>
  A fan-out asks every seat once.  With the stores wired and the seats of the role loaded, the
  action \<open>queue_run_for_each_participant\<close> sends one run request to each seat that the filter leaves,
  in order and whatever the earlier requests returned; it succeeds exactly when all of them did, its
  error under a comment marks the fan-out as incomplete, and the author of the comment is not asked.
\<close>

theorem fan_out_asks_every_seat:
  assumes "fc_Adapter c = Some adapter" and "fc_Participants c = Some store"
    and "a_QueueRunForEachParticipant (i_Action inp) = Some f" and "fp_Role f \<noteq> []"
    and "roleSeatsForFanOut store (ss_ID (i_Step inp)) (m_TaskID (i_State inp)) (m_WorkflowID (i_State inp)) (fp_Role f) (w_state w) = Inr all_seats"
    and "QueueRunForEachParticipantCallback_Execute digest c inp w = (res, w')"
  shows "\<exists>reqs results. map q_AgentProfileID reqs = map p_AgentProfileID (filterFanOutSeats c inp (m_TaskID (i_State inp)) f all_seats (w_state w)) \<and>
    (\<forall>r\<in>set reqs. q_TaskID r = m_TaskID (i_State inp) \<and> q_WorkflowStepID r = ss_ID (i_Step inp)) \<and>
    attempts adapter reqs (w_state w) = (results, w_state w') \<and> length results = length reqs \<and>
    (isl res \<longleftrightarrow> (\<exists>x\<in>set results. isl x)) \<and>
    (\<forall>err. res = Inl err \<and> i_Trigger inp = TriggerOnComment \<longrightarrow> is_fan_out_incomplete err) \<and>
    (\<forall>p. commentPayload (i_Payload inp) = Some p \<and> cp_AuthorID p \<noteq> [] \<longrightarrow> cp_AuthorID p \<notin> set (map q_AgentProfileID reqs))"
proof -
  define seats where "seats = filterFanOutSeats c inp (m_TaskID (i_State inp)) f all_seats (w_state w)"
  define req where "req = (\<lambda>agent. run_request digest inp agent (m_TaskID (i_State inp)) (ss_ID (i_Step inp)) (queueRunForEachParticipantReason inp)
    (fp_Payload f) (if queueRunForEachParticipantReason inp = reasonTaskChildrenCompleted then waveIdentityPayload (i_Payload inp) else ([], [])))"
  let ?reqs = "map (\<lambda>p. req (p_AgentProfileID p)) seats"
  obtain errs w1 where run: "fan_out adapter req seats w = (errs, w1)" by fastforce
  obtain results s' where att: "attempts adapter ?reqs (w_state w) = (results, s')" by fastforce
  note f = fan_out_attempts [OF run att]
  have res: "(res, w') = (if 0 < length errs then (Inl (wrapCommentFanOut inp (m_TaskID (i_State inp)) (fp_Role f) (ErrorJoin errs)), w1) else (Inr [], w1))"
    using assms run unfolding seats_def req_def by (auto simp: QueueRunForEachParticipantCallback_Execute_def Let_def split: if_splits)
  have "isl res \<longleftrightarrow> (\<exists>x\<in>set results. isl x)" using res f by (auto simp: filter_empty_conv split: if_splits)
  moreover have "is_fan_out_incomplete err" if "res = Inl err" "i_Trigger inp = TriggerOnComment" for err
    using res that by (auto simp: wrapCommentFanOut_def split: if_splits)
  moreover have "w' = w1" using res by (auto split: if_splits)
  moreover have "cp_AuthorID p \<notin> set (map q_AgentProfileID ?reqs)" if "commentPayload (i_Payload inp) = Some p" "cp_AuthorID p \<noteq> []" for p
  proof -
    have "\<forall>x\<in>set (excludeCommentAuthor inp all_seats). p_AgentProfileID x \<noteq> cp_AuthorID p" using that by (simp add: excludeCommentAuthor_def)
    moreover have "set seats \<subseteq> set (excludeCommentAuthor inp all_seats)"
      by (auto simp: seats_def filterFanOutSeats_def excludeDecidedSeats_def Let_def split: option.splits sum.splits if_splits)
    ultimately show ?thesis by (auto simp: req_def run_request_def)
  qed
  ultimately show ?thesis using att attempts_length [OF att] f
    by (intro exI [of _ ?reqs] exI [of _ results]) (auto simp: seats_def req_def run_request_def comp_def)
qed

definition ex_fan_out :: QueueRunForEachParticipantAction where
  "ex_fan_out = \<lparr>fp_Role = ''reviewer'', fp_Reason = [], fp_Payload = [], fp_SkipDecided = False\<rparr>"

definition ex_comment_input :: ActionInput where
  "ex_comment_input = (ex_call ((action ActionQueueRunForEachParticipant)\<lparr>a_QueueRunForEachParticipant := Some ex_fan_out\<rparr>))
     \<lparr>i_Trigger := TriggerOnComment, i_Payload := CommentPayload \<lparr>cp_CommentID = ''c'', cp_AuthorID = ''ada'', cp_Body = ''look'',
        cp_RetryWorkflowStepID = [], cp_RetryWorkflowStepTransitionID = 0\<rparr>\<rparr>"

definition ex_refusing :: "workflow_db QueueRunForEachParticipantCallback" where
  "ex_refusing = \<lparr>fc_Adapter = Some (\<lambda>r db. (Inl (ErrorText ''queue is down''), db)), fc_Participants = Some ParticipantAdapter, fc_Decisions = None\<rparr>"

theorem fan_out_asks_every_seat_witness:
  "\<exists>err w'. QueueRunForEachParticipantCallback_Execute (\<lambda>k. ''key'') ex_refusing ex_comment_input ex_world = (Inl err, w') \<and> is_fan_out_incomplete err"
proof -
  let ?run = "QueueRunForEachParticipantCallback_Execute (\<lambda>k. ''key'') ex_refusing ex_comment_input ex_world"
  let ?seats = "roleSeatsForFanOut ParticipantAdapter (ss_ID (i_Step ex_comment_input)) (m_TaskID (i_State ex_comment_input))
      (m_WorkflowID (i_State ex_comment_input)) (fp_Role ex_fan_out) (w_state ex_world)"
  obtain res w' where run: "?run = (res, w')" by fastforce
  have "isl (fst ?run)" "\<not> isl ?seats" by code_simp+
  then obtain err all_seats where ok: "res = Inl err" "?seats = Inr all_seats" using run by (cases res; cases ?seats) auto
  have wired: "fc_Participants ex_refusing = Some ParticipantAdapter" "a_QueueRunForEachParticipant (i_Action ex_comment_input) = Some ex_fan_out"
      "fp_Role ex_fan_out \<noteq> []" "i_Trigger ex_comment_input = TriggerOnComment"
    by (simp_all add: ex_refusing_def ex_comment_input_def ex_call_def ex_fan_out_def)
  obtain adapter where "fc_Adapter ex_refusing = Some adapter" by (simp add: ex_refusing_def)
  from fan_out_asks_every_seat [OF this wired(1-3) ok(2) run] ok(1) run wired(4) show ?thesis by blast
qed

section \<open>The order of the steps\<close>

lemma previous_step_last:
  assumes "sorted (map ws_Position xs)"
  shows "previous_step pos prev xs = (case filter (\<lambda>ws. ws_Position ws < pos) xs of [] \<Rightarrow> prev | y # ys \<Rightarrow> Some (last (y # ys)))"
  using assms
proof (induction xs arbitrary: prev)
  case (Cons x xs)
  show ?case
  proof (cases "ws_Position x < pos")
    case True
    then show ?thesis using Cons by (auto split: list.split)
  next
    case False
    with Cons.prems have "filter (\<lambda>ws. ws_Position ws < pos) xs = []" by (force simp: filter_empty_conv)
    with False show ?thesis by simp
  qed
qed simp

lemma sorted_map_last: "sorted (map k xs) \<Longrightarrow> x \<in> set xs \<Longrightarrow> k x \<le> k (last xs)"
  by (induction xs) auto

lemma previous_step_Some:
  assumes "sorted (map ws_Position xs)" and "previous_step pos None xs = Some p"
  shows "p \<in> set xs \<and> ws_Position p < pos \<and> (\<forall>q\<in>set xs. ws_Position q < pos \<longrightarrow> ws_Position q \<le> ws_Position p)"
proof -
  let ?ys = "filter (\<lambda>ws. ws_Position ws < pos) xs"
  have ys: "?ys \<noteq> []" "p = last ?ys"
    using assms(2) by (auto simp: previous_step_last [OF assms(1)] split: list.splits)
  then have "p \<in> set ?ys" by (metis last_in_set)
  moreover have "sorted (map ws_Position ?ys)" using assms(1) by (simp add: sorted_filter)
  then have "\<forall>q\<in>set ?ys. ws_Position q \<le> ws_Position p"
    using sorted_map_last [of ws_Position ?ys] ys(2) by blast
  ultimately show ?thesis by auto
qed

lemma find_next_Some:
  assumes "sorted (map ws_Position xs)" and "find (\<lambda>ws. ws_Position ws > pos) xs = Some b"
  shows "b \<in> set xs \<and> pos < ws_Position b \<and> (\<forall>q\<in>set xs. pos < ws_Position q \<longrightarrow> ws_Position b \<le> ws_Position q)"
  using assms by (induction xs) (auto split: if_splits)

lemma steps_of_workflow:
  "sorted (map ws_Position (ListStepsByWorkflow flow db))"
  "set (ListStepsByWorkflow flow db) = {ws \<in> set (db_steps db). ws_WorkflowID ws = flow}"
  by (simp_all add: ListStepsByWorkflow_def)

lemma next_then_previous:
  assumes "a \<in> set (ListStepsByWorkflow flow db)" and "inj_on ws_Position (set (ListStepsByWorkflow flow db))"
    and "GetNextStepByPosition flow (ws_Position a) db = Some b"
  shows "GetPreviousStepByPosition flow (ws_Position b) db = Some a"
proof -
  let ?steps = "ListStepsByWorkflow flow db"
  note b = find_next_Some [OF steps_of_workflow(1) assms(3) [unfolded GetNextStepByPosition_def]]
  have "previous_step (ws_Position b) None ?steps \<noteq> None"
    using assms(1) b by (auto simp: previous_step_last [OF steps_of_workflow(1)] filter_empty_conv split: list.split)
  then obtain p where p: "previous_step (ws_Position b) None ?steps = Some p" by blast
  note p' = previous_step_Some [OF steps_of_workflow(1) p]
  have "ws_Position p = ws_Position a"
  proof (rule antisym)
    show "ws_Position p \<le> ws_Position a" using b p' by (meson linorder_not_less order_le_less_trans)
    show "ws_Position a \<le> ws_Position p" using b p' assms(1) by blast
  qed
  with p' assms(1,2) have "p = a" by (auto dest: inj_onD)
  with p show ?thesis by (simp add: GetPreviousStepByPosition_def)
qed

text \<open>
  Next and previous are inverse.  In a workflow whose steps have distinct positions, the step
  before the next one of a step is the step itself, no step lies between a step and its next one, and
  the last step, and only it, has none.
\<close>

theorem next_previous_inverse:
  assumes "a \<in> set (db_steps db)" and "ws_WorkflowID a = flow" and "inj_on ws_Position {ws \<in> set (db_steps db). ws_WorkflowID ws = flow}"
  shows "case GetNextStepByPosition flow (ws_Position a) db of
      None \<Rightarrow> \<forall>q\<in>set (db_steps db). ws_WorkflowID q = flow \<longrightarrow> ws_Position q \<le> ws_Position a
    | Some b \<Rightarrow> GetPreviousStepByPosition flow (ws_Position b) db = Some a \<and> b \<in> set (db_steps db) \<and> ws_WorkflowID b = flow \<and>
        ws_Position a < ws_Position b \<and>
        (\<forall>q\<in>set (db_steps db). ws_WorkflowID q = flow \<longrightarrow> \<not> (ws_Position a < ws_Position q \<and> ws_Position q < ws_Position b))"
proof (cases "GetNextStepByPosition flow (ws_Position a) db")
  case None
  then have "\<forall>q\<in>set (ListStepsByWorkflow flow db). \<not> ws_Position a < ws_Position q" by (auto simp: GetNextStepByPosition_def find_None_iff)
  with None show ?thesis by (auto simp: steps_of_workflow(2) not_less)
next
  case (Some b)
  have "a \<in> set (ListStepsByWorkflow flow db)" using assms by (simp add: steps_of_workflow)
  from next_then_previous [OF this _ Some] find_next_Some [OF steps_of_workflow(1) Some [unfolded GetNextStepByPosition_def]] assms(3) Some
  show ?thesis by (auto simp: steps_of_workflow(2))
qed

theorem next_previous_inverse_witness:
  "\<exists>b. GetNextStepByPosition ''w'' 2 ex_board = Some b \<and> GetPreviousStepByPosition ''w'' (ws_Position b) ex_board = Some ex_review"
proof -
  have a: "ex_review \<in> set (db_steps ex_board)" "ws_WorkflowID ex_review = ''w''" "ws_Position ex_review = 2"
    by (simp_all add: ex_board_def ex_steps_def ex_review_def ex_plain_step_def)
  have inj: "inj_on ws_Position {ws \<in> set (db_steps ex_board). ws_WorkflowID ws = ''w''}"
    by (auto simp: inj_on_def ex_board_def ex_steps_def ex_review_def ex_plain_step_def)
  have "GetNextStepByPosition ''w'' 2 ex_board \<noteq> None" by code_simp
  then show ?thesis using next_previous_inverse [OF a(1,2) inj] by (auto simp: a(3))
qed

end
