(* ===== verification/Task_Queue.thy ===== *)
theory Task_Queue
  imports Go_Prelude "HOL-Library.Product_Lexorder"
begin

text \<open>
  The priority queue of tasks that wait for an agent (\<open>internal/orchestrator/queue/queue.go\<close>), with
  the operations of Go's \<open>container/heap\<close> that it uses.  Queued tasks are objects that the heap and
  the map by task id share: \<open>tq_objs\<close> is the memory they are allocated in, the heap and the map hold
  addresses, and an object's \<open>index\<close> is updated through either.  Every method holds the mutex.
\<close>

section \<open>Data\<close>

text \<open>The fields of \<open>v1.Task\<close> that the queue reads; the others are carried along.\<close>

record Task =
  t_ID :: string
  t_Priority :: string

record QueuedTask =
  qt_TaskID :: string
  qt_Priority :: int
  qt_QueuedAt :: time
  qt_Task :: Task
  qt_index :: int

datatype queue_error = ErrTaskQueueFull | ErrTaskExists

definition PriorityRank :: "string \<Rightarrow> int" where
  "PriorityRank p = (if p = ''critical'' then 4 else if p = ''high'' then 3 else if p = ''low'' then 1 else 2)"

type_synonym address = nat

record TaskQueue =
  tq_objs :: "QueuedTask list"
  tq_heap :: "address list"
  tq_taskMap :: "(string, address) gomap"
  tq_maxSize :: int

text \<open>The object at a position of the heap.\<close>

definition heap_obj :: "TaskQueue \<Rightarrow> nat \<Rightarrow> QueuedTask" where
  "heap_obj q i = tq_objs q ! (tq_heap q ! i)"

definition set_index :: "address \<Rightarrow> int \<Rightarrow> TaskQueue \<Rightarrow> TaskQueue" where
  "set_index a k q = q\<lparr>tq_objs := (tq_objs q)[a := (tq_objs q ! a)\<lparr>qt_index := k\<rparr>]\<rparr>"

section \<open>The methods of \<open>taskHeap\<close>\<close>

definition taskHeap_Less :: "TaskQueue \<Rightarrow> nat \<Rightarrow> nat \<Rightarrow> bool" where
  "taskHeap_Less q i j =
     (if qt_Priority (heap_obj q i) \<noteq> qt_Priority (heap_obj q j)
      then qt_Priority (heap_obj q i) > qt_Priority (heap_obj q j)
      else qt_QueuedAt (heap_obj q i) < qt_QueuedAt (heap_obj q j))"

definition taskHeap_Swap :: "nat \<Rightarrow> nat \<Rightarrow> TaskQueue \<Rightarrow> TaskQueue" where
  "taskHeap_Swap i j q =
     (let q1 = q\<lparr>tq_heap := (tq_heap q)[i := tq_heap q ! j, j := tq_heap q ! i]\<rparr>;
          q2 = set_index (tq_heap q1 ! i) (int i) q1
      in set_index (tq_heap q2 ! j) (int j) q2)"

definition taskHeap_Push :: "address \<Rightarrow> TaskQueue \<Rightarrow> TaskQueue" where
  "taskHeap_Push a q = (let n = length (tq_heap q); q1 = set_index a (int n) q in q1\<lparr>tq_heap := tq_heap q1 @ [a]\<rparr>)"

definition taskHeap_Pop :: "TaskQueue \<Rightarrow> address \<times> TaskQueue" where
  "taskHeap_Pop q = (let a = last (tq_heap q); q1 = set_index a (-1) q in (a, q1\<lparr>tq_heap := butlast (tq_heap q1)\<rparr>))"

section \<open>container/heap\<close>

text \<open>The parent of position \<open>j\<close>; in Go \<open>(0 - 1) / 2\<close> is 0, as here.\<close>

abbreviation parent :: "nat \<Rightarrow> nat" where "parent j \<equiv> (j - 1) div 2"

function heap_up :: "nat \<Rightarrow> TaskQueue \<Rightarrow> TaskQueue" where
  "heap_up j q =
     (let i = parent j in if i = j \<or> \<not> taskHeap_Less q j i then q else heap_up i (taskHeap_Swap i j q))"
  by pat_completeness auto
termination by (relation "measure fst") (auto simp: Let_def)

declare heap_up.simps [simp del]

text \<open>\<open>heap_down\<close> returns the position where the element stopped.\<close>

function heap_down :: "nat \<Rightarrow> nat \<Rightarrow> TaskQueue \<Rightarrow> nat \<times> TaskQueue" where
  "heap_down i n q =
     (let j1 = 2 * i + 1 in
      if j1 \<ge> n then (i, q)
      else let j = (if j1 + 1 < n \<and> taskHeap_Less q (j1 + 1) j1 then j1 + 1 else j1) in
        if \<not> taskHeap_Less q j i then (i, q) else heap_down j n (taskHeap_Swap i j q))"
  by pat_completeness auto
termination by (relation "measure (\<lambda>(i, n, q). n - i)") (auto simp: Let_def split: if_splits)

declare heap_down.simps [simp del]

definition heap_Push :: "address \<Rightarrow> TaskQueue \<Rightarrow> TaskQueue" where
  "heap_Push a q = (let q1 = taskHeap_Push a q in heap_up (length (tq_heap q1) - 1) q1)"

definition heap_Pop :: "TaskQueue \<Rightarrow> address \<times> TaskQueue" where
  "heap_Pop q = (let n = length (tq_heap q) - 1; (i, q1) = heap_down 0 n (taskHeap_Swap 0 n q) in taskHeap_Pop q1)"

definition heap_Remove :: "nat \<Rightarrow> TaskQueue \<Rightarrow> address \<times> TaskQueue" where
  "heap_Remove i q =
     (let n = length (tq_heap q) - 1;
          q1 = (if n \<noteq> i then (let (i', q2) = heap_down i n (taskHeap_Swap i n q) in if i' > i then q2 else heap_up i q2) else q)
      in taskHeap_Pop q1)"

section \<open>The queue\<close>

text \<open>\<open>heap.Init\<close> does nothing on an empty heap.\<close>

definition NewTaskQueue :: "int \<Rightarrow> TaskQueue" where
  "NewTaskQueue maxSize = \<lparr>tq_objs = [], tq_heap = [], tq_taskMap = [], tq_maxSize = maxSize\<rparr>"

definition Enqueue :: "time \<Rightarrow> Task \<Rightarrow> TaskQueue \<Rightarrow> queue_error option \<times> TaskQueue" where
  "Enqueue now task q =
     (if gm_has (tq_taskMap q) (t_ID task) then (Some ErrTaskExists, q)
      else if tq_maxSize q > 0 \<and> int (length (tq_heap q)) \<ge> tq_maxSize q then (Some ErrTaskQueueFull, q)
      else
        let qt = \<lparr>qt_TaskID = t_ID task, qt_Priority = PriorityRank (t_Priority task), qt_QueuedAt = now, qt_Task = task, qt_index = 0\<rparr>;
            a = length (tq_objs q);
            q1 = heap_Push a (q\<lparr>tq_objs := tq_objs q @ [qt]\<rparr>)
        in (None, q1\<lparr>tq_taskMap := gm_put (t_ID task) a (tq_taskMap q1)\<rparr>))"

definition Dequeue :: "TaskQueue \<Rightarrow> QueuedTask option \<times> TaskQueue" where
  "Dequeue q =
     (if length (tq_heap q) = 0 then (None, q)
      else let (a, q1) = heap_Pop q; qt = tq_objs q1 ! a
           in (Some qt, q1\<lparr>tq_taskMap := gm_del (qt_TaskID qt) (tq_taskMap q1)\<rparr>))"

definition Remove :: "string \<Rightarrow> TaskQueue \<Rightarrow> bool \<times> TaskQueue" where
  "Remove taskID q = (case gm_get (tq_taskMap q) taskID of
       None \<Rightarrow> (False, q)
     | Some a \<Rightarrow>
         let (b, q1) = heap_Remove (nat (qt_index (tq_objs q ! a))) q
         in (True, q1\<lparr>tq_taskMap := gm_del taskID (tq_taskMap q1)\<rparr>))"

definition TaskQueue_Len :: "TaskQueue \<Rightarrow> nat" where
  "TaskQueue_Len q = length (tq_heap q)"

definition IsFull :: "TaskQueue \<Rightarrow> bool" where
  "IsFull q \<longleftrightarrow> tq_maxSize q > 0 \<and> int (length (tq_heap q)) \<ge> tq_maxSize q"

definition TaskQueue_List :: "TaskQueue \<Rightarrow> QueuedTask list" where
  "TaskQueue_List q = map (\<lambda>a. tq_objs q ! a) (tq_heap q)"

end
