(* ===== verification/Heap_Laws.thy ===== *)
theory Heap_Laws
  imports Go_Prelude
begin

text \<open>
  Binary heaps in a list, independent of what is stored: the two sifting loops of Go's
  \<open>container/heap\<close> as functions on a list whose elements are ordered by a key, and what they do to
  the order of the heap.
\<close>

section \<open>Swapping\<close>

definition swap :: "nat \<Rightarrow> nat \<Rightarrow> 'a list \<Rightarrow> 'a list" where
  "swap i j xs = xs[i := xs ! j, j := xs ! i]"

lemma length_swap [simp]: "length (swap i j xs) = length xs"
  by (simp add: swap_def)

lemma nth_swap: "i < length xs \<Longrightarrow> j < length xs \<Longrightarrow> swap i j xs ! k = (if k = j then xs ! i else if k = i then xs ! j else xs ! k)"
  by (auto simp: swap_def nth_list_update)

lemma mset_swap_list: "i < length xs \<Longrightarrow> j < length xs \<Longrightarrow> mset (swap i j xs) = mset xs"
  unfolding swap_def by (rule mset_swap)

section \<open>Sifting\<close>

text \<open>The parent of a position; the position 0 is its own parent.\<close>

definition up_of :: "nat \<Rightarrow> nat" where
  "up_of j = (j - 1) div 2"

lemma up_of_less: "0 < j \<Longrightarrow> up_of j < j"
  by (auto simp: up_of_def)

lemma up_of_le: "up_of j \<le> j"
  by (auto simp: up_of_def)

lemma up_of_fixed: "up_of j = j \<longleftrightarrow> j = 0"
  by (auto simp: up_of_def)

function sift_up :: "('a \<Rightarrow> 'k::linorder) \<Rightarrow> nat \<Rightarrow> 'a list \<Rightarrow> 'a list" where
  "sift_up f j xs = (if up_of j = j \<or> \<not> f (xs ! j) < f (xs ! up_of j) then xs else sift_up f (up_of j) (swap (up_of j) j xs))"
  by pat_completeness auto
termination by (relation "measure (\<lambda>(f, j, xs). j)") (auto simp: up_of_def)

declare sift_up.simps [simp del]

definition least_child :: "('a \<Rightarrow> 'k::linorder) \<Rightarrow> nat \<Rightarrow> nat \<Rightarrow> 'a list \<Rightarrow> nat" where
  "least_child f i n xs = (if 2 * i + 2 < n \<and> f (xs ! (2 * i + 2)) < f (xs ! (2 * i + 1)) then 2 * i + 2 else 2 * i + 1)"

function sift_down :: "('a \<Rightarrow> 'k::linorder) \<Rightarrow> nat \<Rightarrow> nat \<Rightarrow> 'a list \<Rightarrow> nat \<times> 'a list" where
  "sift_down f i n xs =
     (if 2 * i + 1 \<ge> n \<or> \<not> f (xs ! least_child f i n xs) < f (xs ! i) then (i, xs)
      else sift_down f (least_child f i n xs) n (swap i (least_child f i n xs) xs))"
  by pat_completeness auto
termination by (relation "measure (\<lambda>(f, i, n, xs). n - i)") (auto simp: least_child_def split: if_splits)

declare sift_down.simps [simp del]

lemma least_child_bounds: "2 * i + 1 < n \<Longrightarrow> least_child f i n xs < n \<and> i < least_child f i n xs \<and> up_of (least_child f i n xs) = i"
  by (auto simp: least_child_def up_of_def)

lemma up_of_child: "0 < k \<Longrightarrow> up_of k = i \<longleftrightarrow> k = 2 * i + 1 \<or> k = 2 * i + 2"
  unfolding up_of_def by presburger

lemma least_child_least: "0 < k \<Longrightarrow> k < n \<Longrightarrow> up_of k = i \<Longrightarrow> f (xs ! least_child f i n xs) \<le> f (xs ! k)"
proof -
  assume k: "0 < k" "k < n" "up_of k = i"
  then consider "k = 2 * i + 1" | "k = 2 * i + 2" using up_of_child by blast
  then show ?thesis using k(2) by cases (auto simp: least_child_def)
qed

lemma length_sift_up [simp]: "length (sift_up f j xs) = length xs"
  by (induction f j xs rule: sift_up.induct) (subst sift_up.simps, simp)

lemma mset_sift_up: "j < length xs \<Longrightarrow> mset (sift_up f j xs) = mset xs"
proof (induction f j xs rule: sift_up.induct)
  case (1 f j xs)
  then show ?case using up_of_le [of j] by (subst sift_up.simps) (auto simp: mset_swap_list)
qed

lemma sift_up_outside: "j < length xs \<Longrightarrow> j < k \<Longrightarrow> sift_up f j xs ! k = xs ! k"
proof (induction f j xs rule: sift_up.induct)
  case (1 f j xs)
  then show ?case using up_of_le [of j] by (subst sift_up.simps) (auto simp: nth_swap)
qed

lemma length_sift_down [simp]: "length (snd (sift_down f i n xs)) = length xs"
  by (induction f i n xs rule: sift_down.induct) (subst sift_down.simps, simp)

lemma mset_sift_down: "i < length xs \<Longrightarrow> n \<le> length xs \<Longrightarrow> mset (snd (sift_down f i n xs)) = mset xs"
proof (induction f i n xs rule: sift_down.induct)
  case (1 f i n xs)
  then show ?case using least_child_bounds [of i n f xs] by (subst sift_down.simps) (auto simp: mset_swap_list)
qed

lemma sift_down_outside:
  "i < n \<Longrightarrow> n \<le> length xs \<Longrightarrow> n \<le> k \<Longrightarrow> snd (sift_down f i n xs) ! k = xs ! k"
proof (induction f i n xs rule: sift_down.induct)
  case (1 f i n xs)
  then show ?case using least_child_bounds [of i n f xs] by (subst sift_down.simps) (auto simp: nth_swap)
qed

section \<open>The order of the heap\<close>

definition heap_ordered :: "('a \<Rightarrow> 'k::linorder) \<Rightarrow> nat \<Rightarrow> 'a list \<Rightarrow> bool" where
  "heap_ordered f n xs \<longleftrightarrow> (\<forall>k. 0 < k \<and> k < n \<longrightarrow> f (xs ! up_of k) \<le> f (xs ! k))"

text \<open>A heap up to the element at position \<open>i\<close>: every other edge is in order, also across \<open>i\<close>.\<close>

definition heap_except :: "('a \<Rightarrow> 'k::linorder) \<Rightarrow> nat \<Rightarrow> nat \<Rightarrow> 'a list \<Rightarrow> bool" where
  "heap_except f i n xs \<longleftrightarrow>
     (\<forall>k. 0 < k \<and> k < n \<and> k \<noteq> i \<and> up_of k \<noteq> i \<longrightarrow> f (xs ! up_of k) \<le> f (xs ! k)) \<and>
     (\<forall>k. 0 < k \<and> k < n \<and> up_of k = i \<and> 0 < i \<longrightarrow> f (xs ! up_of i) \<le> f (xs ! k))"

definition below_ordered :: "('a \<Rightarrow> 'k::linorder) \<Rightarrow> nat \<Rightarrow> nat \<Rightarrow> 'a list \<Rightarrow> bool" where
  "below_ordered f i n xs \<longleftrightarrow> (\<forall>k. 0 < k \<and> k < n \<and> up_of k = i \<longrightarrow> f (xs ! i) \<le> f (xs ! k))"

lemma heap_root:
  assumes "heap_ordered f n xs" "k < n"
  shows "f (xs ! 0) \<le> f (xs ! k)"
  using assms(2)
proof (induction k rule: less_induct)
  case (less k)
  show ?case
  proof (cases "k = 0")
    case False
    then have "up_of k < k" by (simp add: up_of_less)
    then have "f (xs ! 0) \<le> f (xs ! up_of k)" using less by simp
    also have "\<dots> \<le> f (xs ! k)" using assms(1) less.prems False by (auto simp: heap_ordered_def)
    finally show ?thesis .
  qed simp
qed

lemma sift_up_heap:
  assumes "heap_except f j n xs" "below_ordered f j n xs" "j < n" "n \<le> length xs"
  shows "heap_ordered f n (sift_up f j xs)"
  using assms
proof (induction f j xs rule: sift_up.induct)
  case (1 f j xs)
  let ?i = "up_of j" and ?ys = "swap (up_of j) j xs"
  show ?case
  proof (cases "?i = j \<or> \<not> f (xs ! j) < f (xs ! ?i)")
    case stop: True
    then have "sift_up f j xs = xs" by (subst sift_up.simps) simp
    moreover have "heap_ordered f n xs"
      unfolding heap_ordered_def
    proof (intro allI impI)
      fix k assume k: "0 < k \<and> k < n"
      show "f (xs ! up_of k) \<le> f (xs ! k)"
      proof (cases "k = j")
        case True
        moreover have "up_of k \<noteq> k" using k by (simp add: up_of_fixed)
        ultimately show ?thesis using stop by auto
      next
        case False
        with k "1.prems"(1,2) show ?thesis by (cases "up_of k = j") (auto simp: heap_except_def below_ordered_def)
      qed
    qed
    ultimately show ?thesis by simp
  next
    case False
    have j: "0 < j" "?i < j" using False up_of_less [of j] by (auto simp: up_of_fixed)
    have nth: "?ys ! k = (if k = j then xs ! ?i else if k = ?i then xs ! j else xs ! k)" for k
      using "1.prems"(3,4) j by (intro nth_swap) auto
    have lt: "f (xs ! j) < f (xs ! ?i)" using False by simp
    have E: "f (xs ! up_of k) \<le> f (xs ! k)" if "0 < k" "k < n" "k \<noteq> j" "up_of k \<noteq> j" for k
      using "1.prems"(1) that by (auto simp: heap_except_def)
    have G: "f (xs ! ?i) \<le> f (xs ! k)" if "0 < k" "k < n" "up_of k = j" for k
      using "1.prems"(1) that j by (auto simp: heap_except_def)
    have ii: "0 < ?i \<Longrightarrow> f (xs ! up_of ?i) \<le> f (xs ! ?i)"
      using E [of ?i] j "1.prems"(3) up_of_le [of ?i] by auto
    have "heap_except f ?i n ?ys"
      unfolding heap_except_def
    proof (intro conjI allI impI)
      fix k assume k: "0 < k \<and> k < n \<and> k \<noteq> ?i \<and> up_of k \<noteq> ?i"
      then have "k \<noteq> j" by auto
      then show "f (?ys ! up_of k) \<le> f (?ys ! k)" using k E [of k] G [of k] by (auto simp: nth)
    next
      fix k assume k: "0 < k \<and> k < n \<and> up_of k = ?i \<and> 0 < ?i"
      have "up_of ?i \<noteq> j" "up_of ?i \<noteq> ?i" using j k up_of_less [of ?i] by auto
      then show "f (?ys ! up_of ?i) \<le> f (?ys ! k)"
        using k ii E [of k] j by (cases "k = j") (auto simp: nth)
    qed
    moreover have "below_ordered f ?i n ?ys"
      unfolding below_ordered_def
    proof (intro allI impI)
      fix k assume k: "0 < k \<and> k < n \<and> up_of k = ?i"
      then show "f (?ys ! ?i) \<le> f (?ys ! k)" using lt E [of k] j by (cases "k = j") (auto simp: nth)
    qed
    ultimately have "heap_ordered f n (sift_up f ?i ?ys)"
      using "1.IH" [OF _] False "1.prems"(3,4) j by simp
    then show ?thesis using False by (subst sift_up.simps) simp
  qed
qed

lemma sift_down_heap:
  assumes "heap_except f i n xs" "i < n" "n \<le> length xs"
  shows "case sift_down f i n xs of (i', ys) \<Rightarrow>
    if i' = i then ys = xs \<and> below_ordered f i n xs else i < i' \<and> heap_ordered f n ys"
  using assms
proof (induction f i n xs rule: sift_down.induct)
  case (1 f i n xs)
  let ?j = "least_child f i n xs"
  let ?ys = "swap i ?j xs"
  show ?case
  proof (cases "2 * i + 1 \<ge> n \<or> \<not> f (xs ! ?j) < f (xs ! i)")
    case stop: True
    then have "sift_down f i n xs = (i, xs)" by (subst sift_down.simps) simp
    moreover have "f (xs ! i) \<le> f (xs ! k)" if k: "0 < k" "k < n" "up_of k = i" for k
    proof -
      have "2 * i + 1 < n" using k up_of_child [OF k(1), of i] by auto
      with stop have "f (xs ! i) \<le> f (xs ! ?j)" by simp
      then show ?thesis using least_child_least [OF k, of f xs] by (rule order_trans)
    qed
    ultimately show ?thesis by (simp add: below_ordered_def)
  next
    case False
    have j: "?j < n" "i < ?j" "up_of ?j = i" using False least_child_bounds [of i n f xs] by auto
    have nth: "?ys ! k = (if k = ?j then xs ! i else if k = i then xs ! ?j else xs ! k)" for k
      using "1.prems"(2,3) j by (intro nth_swap) auto
    have lt: "f (xs ! ?j) < f (xs ! i)" using False by simp
    have E: "f (xs ! up_of k) \<le> f (xs ! k)" if "0 < k" "k < n" "k \<noteq> i" "up_of k \<noteq> i" for k
      using "1.prems"(1) that by (auto simp: heap_except_def)
    have G: "f (xs ! up_of i) \<le> f (xs ! k)" if "0 < k" "k < n" "up_of k = i" "0 < i" for k
      using "1.prems"(1) that by (auto simp: heap_except_def)
    have edges: "f (?ys ! up_of k) \<le> f (?ys ! k)" if k: "0 < k" "k < n" "up_of k \<noteq> ?j" for k
    proof -
      consider "k = ?j" | "k = i" | "k \<noteq> ?j" "up_of k = i" | "k \<noteq> ?j" "k \<noteq> i" "up_of k \<noteq> i" by blast
      then show ?thesis
      proof cases
        case 1
        then show ?thesis using j lt by (simp add: nth)
      next
        case 2
        then have "up_of i < i" using k by (simp add: up_of_less)
        with 2 show ?thesis using G [of ?j] j k by (auto simp: nth)
      next
        case 3
        then have "k \<noteq> i" using k up_of_less [of k] by auto
        with 3 show ?thesis using least_child_least [OF k(1,2) 3(2), of f xs] by (auto simp: nth)
      next
        case 4
        then show ?thesis using E [of k] k by (auto simp: nth)
      qed
    qed
    have "heap_except f ?j n ?ys"
      unfolding heap_except_def
    proof (intro conjI allI impI)
      fix k assume "0 < k \<and> k < n \<and> k \<noteq> ?j \<and> up_of k \<noteq> ?j"
      then show "f (?ys ! up_of k) \<le> f (?ys ! k)" using edges by blast
    next
      fix k assume k: "0 < k \<and> k < n \<and> up_of k = ?j \<and> 0 < ?j"
      then have "k \<noteq> ?j" "k \<noteq> i" "up_of k \<noteq> i" using j up_of_less [of k] by auto
      then show "f (?ys ! up_of ?j) \<le> f (?ys ! k)" using E [of k] k j by (auto simp: nth)
    qed
    then have IH: "case sift_down f ?j n ?ys of (i', ys) \<Rightarrow>
        if i' = ?j then ys = ?ys \<and> below_ordered f ?j n ?ys else ?j < i' \<and> heap_ordered f n ys"
      using "1.IH" False j "1.prems"(3) by simp
    have ordered: "heap_ordered f n ?ys" if "below_ordered f ?j n ?ys"
      unfolding heap_ordered_def
    proof (intro allI impI)
      fix k assume k: "0 < k \<and> k < n"
      then show "f (?ys ! up_of k) \<le> f (?ys ! k)"
        using that edges [of k] by (cases "up_of k = ?j") (simp_all add: below_ordered_def)
    qed
    have "sift_down f i n xs = sift_down f ?j n ?ys" using False by (subst sift_down.simps) simp
    with IH ordered j show ?thesis by (auto split: prod.splits if_splits)
  qed
qed

end
