(* ===== verification/Task_Queue_Laws.thy ===== *)
theory Task_Queue_Laws
  imports Task_Queue Heap_Laws
begin

text \<open>
  The task queue is a priority queue: the shared objects, the heap and the map by task id stay
  consistent, a dequeue returns the first task of the highest priority, and removal takes out exactly
  the named task.  The interface \<open>priority_queue\<close> states this over a multiset of waiting tasks.
\<close>

section \<open>The heap of the queue as a heap of keys\<close>

definition task_key :: "QueuedTask \<Rightarrow> int \<times> time" where
  "task_key t = (- qt_Priority t, qt_QueuedAt t)"

definition obj_key :: "TaskQueue \<Rightarrow> address \<Rightarrow> int \<times> time" where
  "obj_key q a = task_key (tq_objs q ! a)"

lemma parent_up_of: "parent j = up_of j"
  by (simp add: up_of_def)

lemma Less_key: "taskHeap_Less q i j \<longleftrightarrow> obj_key q (tq_heap q ! i) < obj_key q (tq_heap q ! j)"
  by (auto simp: taskHeap_Less_def obj_key_def task_key_def heap_obj_def less_prod_def)

text \<open>Updating an index changes nothing else of the objects.\<close>

definition same_objs :: "TaskQueue \<Rightarrow> TaskQueue \<Rightarrow> bool" where
  "same_objs q q' \<longleftrightarrow> map (\<lambda>t. t\<lparr>qt_index := 0\<rparr>) (tq_objs q') = map (\<lambda>t. t\<lparr>qt_index := 0\<rparr>) (tq_objs q) \<and>
     tq_taskMap q' = tq_taskMap q \<and> tq_maxSize q' = tq_maxSize q"

lemma same_objs_refl [simp]: "same_objs q q"
  by (simp add: same_objs_def)

lemma same_objs_trans [trans]: "same_objs q q1 \<Longrightarrow> same_objs q1 q2 \<Longrightarrow> same_objs q q2"
  by (simp add: same_objs_def)

lemma same_objs_set_index: "same_objs q (set_index a k q)"
  by (cases "a < length (tq_objs q)") (auto simp: same_objs_def set_index_def map_update list_update_beyond intro: list_update_same_conv [THEN iffD2])

lemma same_objs_length: "same_objs q q' \<Longrightarrow> length (tq_objs q') = length (tq_objs q)"
  using map_eq_imp_length_eq by (fastforce simp: same_objs_def)

lemma same_objs_nth:
  assumes "same_objs q q'" "a < length (tq_objs q)"
  shows "(tq_objs q' ! a)\<lparr>qt_index := 0\<rparr> = (tq_objs q ! a)\<lparr>qt_index := 0\<rparr>"
  using assms same_objs_length [OF assms(1)] unfolding same_objs_def by (metis nth_map)

lemma same_objs_fields:
  assumes "same_objs q q'" "a < length (tq_objs q)"
  shows "qt_TaskID (tq_objs q' ! a) = qt_TaskID (tq_objs q ! a)" "qt_Task (tq_objs q' ! a) = qt_Task (tq_objs q ! a)"
    "obj_key q' a = obj_key q a"
  using same_objs_nth [OF assms] by (auto simp: obj_key_def task_key_def dest: arg_cong [where f = qt_TaskID] arg_cong [where f = qt_Task]
      arg_cong [where f = qt_Priority] arg_cong [where f = qt_QueuedAt])

section \<open>Consistency of the indexes\<close>

definition index_ok :: "TaskQueue \<Rightarrow> bool" where
  "index_ok q \<longleftrightarrow> distinct (tq_heap q) \<and> (\<forall>k<length (tq_heap q). tq_heap q ! k < length (tq_objs q) \<and>
     qt_index (tq_objs q ! (tq_heap q ! k)) = int k)"

lemma Swap_heap: "tq_heap (taskHeap_Swap i j q) = swap i j (tq_heap q)"
  by (simp add: taskHeap_Swap_def set_index_def swap_def Let_def)

lemma Swap_same: "same_objs q (taskHeap_Swap i j q)"
proof -
  let ?q1 = "q\<lparr>tq_heap := (tq_heap q)[i := tq_heap q ! j, j := tq_heap q ! i]\<rparr>"
  have "same_objs q ?q1" by (simp add: same_objs_def)
  also have "same_objs ?q1 (taskHeap_Swap i j q)"
    unfolding taskHeap_Swap_def Let_def by (rule same_objs_trans [OF same_objs_set_index same_objs_set_index])
  finally show ?thesis .
qed

lemma Swap_index:
  assumes "index_ok q" "i < length (tq_heap q)" "j < length (tq_heap q)"
  shows "index_ok (taskHeap_Swap i j q)"
proof -
  let ?h = "tq_heap q" and ?q = "taskHeap_Swap i j q"
  have d: "distinct (swap i j ?h)" using assms mset_swap_list [of i ?h j] by (metis index_ok_def mset_eq_imp_distinct_iff)
  have objs: "tq_objs ?q = (let xs = (tq_objs q)[swap i j ?h ! i := (tq_objs q ! (swap i j ?h ! i))\<lparr>qt_index := int i\<rparr>]
      in xs[swap i j ?h ! j := (xs ! (swap i j ?h ! j))\<lparr>qt_index := int j\<rparr>])"
    by (simp add: taskHeap_Swap_def set_index_def swap_def Let_def)
  have "swap i j ?h ! k < length (tq_objs ?q) \<and> qt_index (tq_objs ?q ! (swap i j ?h ! k)) = int k" if k: "k < length ?h" for k
  proof -
    have bound: "swap i j ?h ! m < length (tq_objs q)" if "m < length ?h" for m
      using assms that by (auto simp: nth_swap index_ok_def)
    have inj: "swap i j ?h ! k = swap i j ?h ! m \<longleftrightarrow> k = m" if "m < length ?h" for m
      using d k that by (simp add: nth_eq_iff_index_eq)
    have len: "length (tq_objs ?q) = length (tq_objs q)" by (simp add: objs Let_def)
    consider "k = j" | "k = i" "k \<noteq> j" | "k \<noteq> i" "k \<noteq> j" by blast
    then show ?thesis
    proof cases
      case 1
      then show ?thesis using bound [OF k] len by (simp add: objs Let_def)
    next
      case 2
      then show ?thesis using bound [OF k] len inj [OF assms(3)] by (simp add: objs Let_def)
    next
      case 3
      then have "swap i j ?h ! k = ?h ! k" using assms by (simp add: nth_swap)
      with 3 show ?thesis using bound [OF k] len inj [OF assms(2)] inj [OF assms(3)] assms(1) k
        by (simp add: objs Let_def index_ok_def)
    qed
  qed
  then show ?thesis using d by (simp add: index_ok_def Swap_heap)
qed

section \<open>The sifting loops\<close>

lemma set_index_key [simp]: "obj_key (set_index b k q) = obj_key q"
  by (rule ext, cases "b < length (tq_objs q)")
     (auto simp: obj_key_def set_index_def task_key_def nth_list_update list_update_beyond)

lemma Swap_key [simp]: "obj_key (taskHeap_Swap i j q) = obj_key q"
  by (simp add: taskHeap_Swap_def Let_def) (simp add: obj_key_def fun_eq_iff)

lemma up_run:
  "index_ok q \<Longrightarrow> j < length (tq_heap q) \<Longrightarrow>
     tq_heap (heap_up j q) = sift_up (obj_key q) j (tq_heap q) \<and> index_ok (heap_up j q) \<and> same_objs q (heap_up j q) \<and>
     obj_key (heap_up j q) = obj_key q"
proof (induction j q rule: heap_up.induct)
  case (1 j q)
  have step: "heap_up j q = (if up_of j = j \<or> \<not> taskHeap_Less q j (up_of j) then q else heap_up (up_of j) (taskHeap_Swap (up_of j) j q))"
    by (subst heap_up.simps) (simp add: parent_up_of Let_def del: One_nat_def)
  show ?case
  proof (cases "up_of j = j \<or> \<not> taskHeap_Less q j (up_of j)")
    case True
    then show ?thesis using "1.prems" by (subst sift_up.simps) (simp add: step Less_key)
  next
    case False
    let ?q = "taskHeap_Swap (up_of j) j q"
    have lt: "up_of j < length (tq_heap q)" using up_of_le [of j] "1.prems"(2) by simp
    have "tq_heap (heap_up (up_of j) ?q) = sift_up (obj_key ?q) (up_of j) (tq_heap ?q) \<and> index_ok (heap_up (up_of j) ?q) \<and>
        same_objs ?q (heap_up (up_of j) ?q) \<and> obj_key (heap_up (up_of j) ?q) = obj_key q"
      using "1.IH" [of "up_of j"] False "1.prems" lt Swap_index [OF "1.prems"(1) lt "1.prems"(2)] by (simp add: parent_up_of Swap_heap del: One_nat_def)
    moreover have "sift_up (obj_key q) j (tq_heap q) = sift_up (obj_key q) (up_of j) (swap (up_of j) j (tq_heap q))"
      using False by (subst sift_up.simps) (simp add: Less_key)
    ultimately show ?thesis using False by (auto simp: step Swap_heap intro: same_objs_trans [OF Swap_same])
  qed
qed

lemma down_run:
  "index_ok q \<Longrightarrow> i < n \<Longrightarrow> n \<le> length (tq_heap q) \<Longrightarrow>
     sift_down (obj_key q) i n (tq_heap q) = (fst (heap_down i n q), tq_heap (snd (heap_down i n q))) \<and>
     index_ok (snd (heap_down i n q)) \<and> same_objs q (snd (heap_down i n q)) \<and> obj_key (snd (heap_down i n q)) = obj_key q"
proof (induction i n q rule: heap_down.induct)
  case (1 i n q)
  let ?j = "least_child (obj_key q) i n (tq_heap q)"
  have j: "?j = (if 2 * i + 1 + 1 < n \<and> taskHeap_Less q (2 * i + 1 + 1) (2 * i + 1) then 2 * i + 1 + 1 else 2 * i + 1)"
    by (simp add: least_child_def Less_key)
  have step: "heap_down i n q = (if 2 * i + 1 \<ge> n \<or> \<not> taskHeap_Less q ?j i then (i, q) else heap_down ?j n (taskHeap_Swap i ?j q))"
    unfolding j by (subst heap_down.simps) (simp add: Let_def)
  show ?case
  proof (cases "2 * i + 1 \<ge> n \<or> \<not> taskHeap_Less q ?j i")
    case True
    then show ?thesis using "1.prems" by (subst sift_down.simps) (auto simp: step Less_key)
  next
    case False
    let ?q = "taskHeap_Swap i ?j q"
    have b: "?j < n" "i < ?j" using False least_child_bounds [of i n "obj_key q" "tq_heap q"] by auto
    have "sift_down (obj_key ?q) ?j n (tq_heap ?q) = (fst (heap_down ?j n ?q), tq_heap (snd (heap_down ?j n ?q))) \<and>
        index_ok (snd (heap_down ?j n ?q)) \<and> same_objs ?q (snd (heap_down ?j n ?q)) \<and> obj_key (snd (heap_down ?j n ?q)) = obj_key q"
      using "1.IH" [OF refl _ j] False "1.prems" b Swap_index [OF "1.prems"(1), of i ?j] by (simp add: Swap_heap)
    moreover have "sift_down (obj_key q) i n (tq_heap q) = sift_down (obj_key q) ?j n (swap i ?j (tq_heap q))"
      using False by (subst sift_down.simps) (simp add: Less_key)
    ultimately show ?thesis using False by (auto simp: step Swap_heap intro: same_objs_trans [OF Swap_same])
  qed
qed

section \<open>The invariant\<close>

definition map_ok :: "TaskQueue \<Rightarrow> bool" where
  "map_ok q \<longleftrightarrow> (\<forall>i a. gm_get (tq_taskMap q) i = Some a \<longleftrightarrow> a \<in> set (tq_heap q) \<and> qt_TaskID (tq_objs q ! a) = i)"

definition queue_ok :: "TaskQueue \<Rightarrow> bool" where
  "queue_ok q \<longleftrightarrow> index_ok q \<and> heap_ordered (obj_key q) (length (tq_heap q)) (tq_heap q) \<and> map_ok q \<and>
     (tq_maxSize q > 0 \<longrightarrow> int (length (tq_heap q)) \<le> tq_maxSize q)"

lemma queue_ok_get:
  "queue_ok q \<Longrightarrow> gm_get (tq_taskMap q) i = Some b \<longleftrightarrow> b \<in> set (tq_heap q) \<and> qt_TaskID (tq_objs q ! b) = i"
  by (simp add: queue_ok_def map_ok_def)

lemma index_bound: "index_ok q \<Longrightarrow> a \<in> set (tq_heap q) \<Longrightarrow> a < length (tq_objs q)"
  by (auto simp: index_ok_def in_set_conv_nth)

text \<open>What popping the last position of the heap leaves.\<close>

lemma Pop_run:
  assumes "index_ok q" "tq_heap q = h @ [a]"
  shows "fst (taskHeap_Pop q) = a" "tq_heap (snd (taskHeap_Pop q)) = h" "index_ok (snd (taskHeap_Pop q))" "same_objs q (snd (taskHeap_Pop q))"
    "obj_key (snd (taskHeap_Pop q)) = obj_key q"
proof -
  let ?q = "snd (taskHeap_Pop q)"
  show "fst (taskHeap_Pop q) = a" "tq_heap ?q = h" using assms(2) by (simp_all add: taskHeap_Pop_def set_index_def Let_def)
  have "same_objs (set_index a (-1) q) ?q" using assms(2) by (simp add: taskHeap_Pop_def same_objs_def Let_def)
  with same_objs_set_index show "same_objs q ?q" by (rule same_objs_trans)
  show "obj_key ?q = obj_key q"
    using set_index_key [of a "-1" q] assms(2) by (simp add: taskHeap_Pop_def Let_def obj_key_def fun_eq_iff del: set_index_key)
  have objs: "tq_objs ?q = (tq_objs q)[a := (tq_objs q ! a)\<lparr>qt_index := -1\<rparr>]" using assms(2) by (simp add: taskHeap_Pop_def set_index_def Let_def)
  have "distinct (h @ [a])" and all: "\<forall>k<Suc (length h). (h @ [a]) ! k < length (tq_objs q) \<and> qt_index (tq_objs q ! ((h @ [a]) ! k)) = int k"
    using assms(1) unfolding index_ok_def assms(2) by simp_all
  moreover have "h ! k \<noteq> a \<and> h ! k < length (tq_objs q) \<and> qt_index (tq_objs q ! (h ! k)) = int k" if "k < length h" for k
    using all [rule_format, of k] that \<open>distinct (h @ [a])\<close> by (auto simp: nth_append)
  ultimately show "index_ok ?q" unfolding index_ok_def \<open>tq_heap ?q = h\<close> objs by (auto simp: nth_list_update_neq [OF not_sym])
qed

lemma heap_ordered_le: "heap_ordered f n xs \<Longrightarrow> m \<le> n \<Longrightarrow> heap_ordered f m xs"
  by (auto simp: heap_ordered_def)

lemma heap_ordered_append: "heap_ordered f n (xs @ ys) = heap_ordered f n xs" if "n \<le> length xs"
proof -
  have "up_of k < length xs" if "k < n" for k using that \<open>n \<le> length xs\<close> up_of_le [of k] by linarith
  then show ?thesis using that by (auto simp: heap_ordered_def nth_append)
qed

lemma snoc_last: "length xs = Suc n \<Longrightarrow> xs = take n xs @ [xs ! n]"
  by (metis lessI order_refl take_Suc_conv_app_nth take_all)

lemma swap_last:
  assumes "i < n" "length xs = Suc n"
  shows "swap i n xs ! n = xs ! i" "mset (swap i n xs) = mset xs"
  using assms by (simp_all add: nth_swap mset_swap_list)

text \<open>Replacing the element at \<open>i\<close> by the last one breaks the order only there.\<close>

lemma swap_last_except:
  assumes "heap_ordered f (Suc n) xs" "i < n" "length xs = Suc n"
  shows "heap_except f i n (swap i n xs)"
proof -
  have nth: "swap i n xs ! k = (if k = n then xs ! i else if k = i then xs ! n else xs ! k)" for k
    using assms by (intro nth_swap) auto
  have ord: "f (xs ! up_of k) \<le> f (xs ! k)" if "0 < k" "k < n" for k using assms(1) that by (auto simp: heap_ordered_def)
  show ?thesis unfolding heap_except_def
  proof (intro conjI allI impI)
    fix k assume k: "0 < k \<and> k < n \<and> k \<noteq> i \<and> up_of k \<noteq> i"
    then have "up_of k \<noteq> n" using up_of_le [of k] by linarith
    with k ord [of k] show "f (swap i n xs ! up_of k) \<le> f (swap i n xs ! k)" by (simp add: nth)
  next
    fix k assume k: "0 < k \<and> k < n \<and> up_of k = i \<and> 0 < i"
    then have "up_of i \<noteq> n" "up_of i \<noteq> i" "k \<noteq> i" using up_of_less [of i] up_of_less [of k] assms(2) by auto
    moreover have "f (xs ! up_of i) \<le> f (xs ! i)" "f (xs ! i) \<le> f (xs ! k)" using ord [of i] ord [of k] k assms(2) by auto
    ultimately show "f (swap i n xs ! up_of i) \<le> f (swap i n xs ! k)" using k by (auto simp: nth intro: order_trans)
  qed
qed

text \<open>Removing position \<open>i\<close> of a heap: the element leaves, the rest is a heap again.\<close>

lemma Remove_run:
  assumes "index_ok q" "heap_ordered (obj_key q) (length (tq_heap q)) (tq_heap q)" "i < length (tq_heap q)"
  shows "fst (heap_Remove i q) = tq_heap q ! i \<and> mset (tq_heap (snd (heap_Remove i q))) = mset (tq_heap q) - {#tq_heap q ! i#} \<and>
    index_ok (snd (heap_Remove i q)) \<and> same_objs q (snd (heap_Remove i q)) \<and>
    heap_ordered (obj_key q) (length (tq_heap (snd (heap_Remove i q)))) (tq_heap (snd (heap_Remove i q))) \<and>
    obj_key (snd (heap_Remove i q)) = obj_key q"
proof -
  obtain n where n: "length (tq_heap q) = Suc n" using assms(3) by (cases "length (tq_heap q)") auto
  text \<open>The queue before the last position is popped.\<close>
  have "\<exists>q1. heap_Remove i q = taskHeap_Pop q1 \<and> index_ok q1 \<and> same_objs q q1 \<and> obj_key q1 = obj_key q \<and> length (tq_heap q1) = Suc n \<and>
      mset (tq_heap q1) = mset (tq_heap q) \<and> tq_heap q1 ! n = tq_heap q ! i \<and> heap_ordered (obj_key q) n (tq_heap q1)"
  proof (cases "i = n")
    case True
    have "heap_ordered (obj_key q) n (tq_heap q)" by (rule heap_ordered_le [OF assms(2)]) (simp add: n)
    then show ?thesis using True n assms(1) by (intro exI [of _ q]) (simp add: heap_Remove_def)
  next
    case False
    with assms(3) n have i: "i < n" by simp
    let ?q0 = "taskHeap_Swap i n q"
    have q0: "index_ok ?q0" "tq_heap ?q0 = swap i n (tq_heap q)" using Swap_index [OF assms(1)] i n by (auto simp: Swap_heap)
    define q1 where "q1 = snd (heap_down i n ?q0)"
    define i' where "i' = fst (heap_down i n ?q0)"
    have len: "n \<le> length (tq_heap ?q0)" by (simp add: q0(2) n)
    have d: "sift_down (obj_key q) i n (swap i n (tq_heap q)) = (i', tq_heap q1)" "index_ok q1" "same_objs ?q0 q1" "obj_key q1 = obj_key q"
      using down_run [OF q0(1) i len] by (simp_all add: q0(2) q1_def i'_def)
    have sw: "i < length (swap i n (tq_heap q))" "n \<le> length (swap i n (tq_heap q))" using i n by simp_all
    have h1: "length (tq_heap q1) = Suc n" "mset (tq_heap q1) = mset (tq_heap q)" "tq_heap q1 ! n = tq_heap q ! i"
      using length_sift_down [of "obj_key q" i n "swap i n (tq_heap q)"] mset_sift_down [OF sw, of "obj_key q"]
        sift_down_outside [OF i sw(2) order_refl, of "obj_key q"] swap_last [OF i n] n by (simp_all add: d(1))
    have shape: "if i' = i then tq_heap q1 = swap i n (tq_heap q) \<and> below_ordered (obj_key q) i n (swap i n (tq_heap q))
        else i < i' \<and> heap_ordered (obj_key q) n (tq_heap q1)"
      using sift_down_heap [OF swap_last_except [of "obj_key q" n "tq_heap q" i] i sw(2)] assms(2) n i by (simp add: d(1))
    have same: "same_objs q q1" using same_objs_trans [OF Swap_same d(3)] .
    have run: "heap_Remove i q = taskHeap_Pop (if i' > i then q1 else heap_up i q1)"
      using False n by (simp add: heap_Remove_def Let_def q1_def i'_def case_prod_unfold)
    show ?thesis
    proof (cases "i' = i")
      case moved: False
      then show ?thesis using run shape d h1 same by (intro exI [of _ q1]) auto
    next
      case stayed: True
      have up: "tq_heap (heap_up i q1) = sift_up (obj_key q) i (tq_heap q1)" "index_ok (heap_up i q1)" "same_objs q1 (heap_up i q1)" "obj_key (heap_up i q1) = obj_key q"
        using up_run [OF d(2), of i] h1(1) i d(4) by simp_all
      have "heap_ordered (obj_key q) n (sift_up (obj_key q) i (tq_heap q1))"
        using sift_up_heap [of "obj_key q" i n "tq_heap q1"] shape stayed swap_last_except [OF _ i n, of "obj_key q"] assms(2) n i h1(1) by simp
      then show ?thesis
        using run stayed up h1 i sift_up_outside [of i "tq_heap q1" n "obj_key q"] mset_sift_up [of i "tq_heap q1" "obj_key q"]
          same_objs_trans [OF same up(3)]
        by (intro exI [of _ "heap_up i q1"]) simp
    qed
  qed
  then obtain q1 where q1: "heap_Remove i q = taskHeap_Pop q1" "index_ok q1" "same_objs q q1" "obj_key q1 = obj_key q" "length (tq_heap q1) = Suc n"
      "mset (tq_heap q1) = mset (tq_heap q)" "tq_heap q1 ! n = tq_heap q ! i" "heap_ordered (obj_key q) n (tq_heap q1)" by blast
  have h: "tq_heap q1 = take n (tq_heap q1) @ [tq_heap q ! i]" using snoc_last [OF q1(5)] q1(7) by simp
  note pop = Pop_run [OF q1(2) h]
  have "mset (tq_heap q) = mset (take n (tq_heap q1)) + {#tq_heap q ! i#}" using arg_cong [OF h, of mset] q1(6) by simp
  moreover have "heap_ordered (obj_key q) n (take n (tq_heap q1))"
    using q1(5,8) heap_ordered_append [of n "take n (tq_heap q1)" "obj_key q" "[tq_heap q ! i]"] h by simp
  ultimately show ?thesis using pop q1(1,3,4,5) same_objs_trans [OF q1(3) pop(4)] by simp
qed

lemma Swap_self:
  assumes "index_ok q" "i < length (tq_heap q)"
  shows "taskHeap_Swap i i q = q"
proof -
  have "set_index (tq_heap q ! i) (int i) q = q"
  proof -
    have "(tq_objs q ! (tq_heap q ! i))\<lparr>qt_index := int i\<rparr> = tq_objs q ! (tq_heap q ! i)" using assms by (simp add: index_ok_def)
    then show ?thesis by (simp add: set_index_def)
  qed
  then show ?thesis using assms by (simp add: taskHeap_Swap_def Let_def)
qed

lemma Pop_is_Remove:
  assumes "tq_heap q \<noteq> []" "index_ok q"
  shows "heap_Pop q = heap_Remove 0 q"
proof -
  obtain n where n: "length (tq_heap q) = Suc n" using assms(1) by (cases "length (tq_heap q)") auto
  have up0: "heap_up 0 r = r" for r by (simp add: heap_up.simps)
  show ?thesis
  proof (cases n)
    case 0
    then show ?thesis using n Swap_self [OF assms(2), of 0] by (simp add: heap_Pop_def heap_Remove_def heap_down.simps Let_def)
  next
    case (Suc m)
    then show ?thesis using n by (simp add: heap_Pop_def heap_Remove_def Let_def up0 split: prod.split)
  qed
qed

section \<open>The waiting tasks\<close>

text \<open>The tasks in the queue, without their bookkeeping index.\<close>

definition plain :: "QueuedTask \<Rightarrow> QueuedTask" where
  "plain t = t\<lparr>qt_index := 0\<rparr>"

definition waiting :: "TaskQueue \<Rightarrow> QueuedTask multiset" where
  "waiting q = image_mset plain (mset (TaskQueue_List q))"

lemma waiting_heap: "waiting q = image_mset (\<lambda>a. plain (tq_objs q ! a)) (mset (tq_heap q))"
  by (simp add: waiting_def TaskQueue_List_def image_mset.compositionality comp_def)

lemma same_objs_plain: "same_objs q q' \<Longrightarrow> a < length (tq_objs q) \<Longrightarrow> plain (tq_objs q' ! a) = plain (tq_objs q ! a)"
  using same_objs_nth by (simp add: plain_def)

lemma plain_fields [simp]: "qt_TaskID (plain t) = qt_TaskID t" "task_key (plain t) = task_key t" "qt_Task (plain t) = qt_Task t"
  by (simp_all add: plain_def task_key_def)

text \<open>Taking one address out of the heap and its task out of the map.\<close>

lemma removed_ok:
  assumes ok: "queue_ok q" and a: "a \<in> set (tq_heap q)" and h: "mset (tq_heap q1) = mset (tq_heap q) - {#a#}"
    and q1: "index_ok q1" "same_objs q q1" "heap_ordered (obj_key q) (length (tq_heap q1)) (tq_heap q1)" "obj_key q1 = obj_key q"
  defines "q2 \<equiv> q1\<lparr>tq_taskMap := gm_del (qt_TaskID (tq_objs q ! a)) (tq_taskMap q1)\<rparr>"
  shows "queue_ok q2" "waiting q2 = waiting q - {#plain (tq_objs q ! a)#}" "tq_maxSize q2 = tq_maxSize q"
proof -
  have bound: "b < length (tq_objs q)" if "b \<in> set (tq_heap q)" for b using ok that by (auto simp: queue_ok_def intro: index_bound)
  have dist: "distinct (tq_heap q)" using ok by (simp add: queue_ok_def index_ok_def)
  have set: "set (tq_heap q1) = set (tq_heap q) - {a}"
    using h dist by (metis distinct_remove1_removeAll mset_remove1 set_mset_mset set_removeAll)
  have len: "length (tq_heap q1) \<le> length (tq_heap q)" using arg_cong [OF h, of size] by (simp add: size_Diff_submset size_Diff_singleton_if split: if_splits)
  have maps: "tq_taskMap q1 = tq_taskMap q" "tq_maxSize q1 = tq_maxSize q" using q1(2) by (simp_all add: same_objs_def)
  have ids: "qt_TaskID (tq_objs q1 ! b) = qt_TaskID (tq_objs q ! b)" if "b \<in> set (tq_heap q)" for b
    using same_objs_fields(1) [OF q1(2) bound [OF that]] .
  have mo: "gm_get (tq_taskMap q) i = Some b \<longleftrightarrow> b \<in> set (tq_heap q) \<and> qt_TaskID (tq_objs q ! b) = i" for i b
    using queue_ok_get [OF ok] .
  have uniq: "b = a" if "b \<in> set (tq_heap q)" "qt_TaskID (tq_objs q ! b) = qt_TaskID (tq_objs q ! a)" for b
    using mo [of "qt_TaskID (tq_objs q ! a)" b] mo [of "qt_TaskID (tq_objs q ! a)" a] that a by simp
  have "map_ok q2"
    unfolding map_ok_def
  proof (intro allI)
    fix i b
    show "gm_get (tq_taskMap q2) i = Some b \<longleftrightarrow> b \<in> set (tq_heap q2) \<and> qt_TaskID (tq_objs q2 ! b) = i"
      using mo [of i b] uniq [of b] ids [of b] by (auto simp: q2_def maps set)
  qed
  moreover have "obj_key q2 = obj_key q1" "index_ok q2 = index_ok q1" by (simp_all add: q2_def obj_key_def index_ok_def fun_eq_iff)
  ultimately show "queue_ok q2" using q1 ok len by (auto simp: queue_ok_def q2_def maps)
  have "waiting q2 = image_mset (\<lambda>b. plain (tq_objs q1 ! b)) (mset (tq_heap q) - {#a#})" by (simp add: waiting_heap q2_def h)
  also have "\<dots> = image_mset (\<lambda>b. plain (tq_objs q ! b)) (mset (tq_heap q) - {#a#})"
    by (rule image_mset_cong) (auto dest!: in_diffD intro: same_objs_plain [OF q1(2) bound])
  also have "\<dots> = waiting q - {#plain (tq_objs q ! a)#}" using a by (simp add: waiting_heap image_mset_Diff)
  finally show "waiting q2 = waiting q - {#plain (tq_objs q ! a)#}" .
  show "tq_maxSize q2 = tq_maxSize q" by (simp add: q2_def maps)
qed

section \<open>The operations\<close>

lemma Dequeue_run:
  assumes "queue_ok q" "tq_heap q \<noteq> []"
  obtains t q' where "Dequeue q = (Some t, q')" "queue_ok q'" "plain t \<in># waiting q" "waiting q' = waiting q - {#plain t#}"
    "\<And>u. u \<in># waiting q \<Longrightarrow> task_key t \<le> task_key u" "tq_maxSize q' = tq_maxSize q"
proof -
  have ok: "index_ok q" "heap_ordered (obj_key q) (length (tq_heap q)) (tq_heap q)" "0 < length (tq_heap q)" using assms by (auto simp: queue_ok_def)
  let ?a = "tq_heap q ! 0"
  obtain b q1 where pop: "heap_Pop q = (b, q1)" by fastforce
  then have rem: "heap_Remove 0 q = (b, q1)" using Pop_is_Remove [OF assms(2) ok(1)] by simp
  have r: "b = ?a" "mset (tq_heap q1) = mset (tq_heap q) - {#?a#}" "index_ok q1" "same_objs q q1"
      "heap_ordered (obj_key q) (length (tq_heap q1)) (tq_heap q1)" "obj_key q1 = obj_key q"
    using Remove_run [OF ok] by (simp_all add: rem)
  have a: "?a \<in> set (tq_heap q)" "?a < length (tq_objs q)" using ok index_bound by auto
  have t: "plain (tq_objs q1 ! ?a) = plain (tq_objs q ! ?a)" "qt_TaskID (tq_objs q1 ! ?a) = qt_TaskID (tq_objs q ! ?a)"
    using same_objs_plain [OF r(4) a(2)] same_objs_fields(1) [OF r(4) a(2)] by simp_all
  note removed = removed_ok [OF assms(1) a(1) r(2-6)]
  have "Dequeue q = (Some (tq_objs q1 ! ?a), q1\<lparr>tq_taskMap := gm_del (qt_TaskID (tq_objs q ! ?a)) (tq_taskMap q1)\<rparr>)"
    using assms(2) by (simp add: Dequeue_def pop r(1) t(2))
  moreover have "plain (tq_objs q ! ?a) \<in># waiting q" using a(1) by (auto simp: waiting_heap)
  moreover have "task_key (tq_objs q1 ! ?a) \<le> task_key u" if u: "u \<in># waiting q" for u
  proof -
    obtain k where k: "k < length (tq_heap q)" "u = plain (tq_objs q ! (tq_heap q ! k))"
      using u by (auto simp: waiting_heap in_set_conv_nth)
    have "task_key (tq_objs q1 ! ?a) = obj_key q ?a" using fun_cong [OF r(6), of ?a] by (simp add: obj_key_def)
    with heap_root [OF ok(2) k(1)] k(2) show ?thesis by (simp add: obj_key_def)
  qed
  ultimately show thesis using that removed t(1) by metis
qed

lemma Dequeue_empty: "tq_heap q = [] \<Longrightarrow> Dequeue q = (None, q)"
  by (simp add: Dequeue_def)

lemma find_only:
  "x \<in> set xs \<Longrightarrow> P (f x) \<Longrightarrow> (\<And>y. y \<in> set xs \<Longrightarrow> P (f y) \<Longrightarrow> f y = f x) \<Longrightarrow> find P (map f xs) = Some (f x)"
proof (induction xs)
  case (Cons y xs)
  show ?case
  proof (cases "P (f y)")
    case True
    then show ?thesis using Cons.prems(3) [of y] by simp
  next
    case False
    then have "x \<in> set xs" using Cons.prems(1,2) by auto
    then have "find P (map f xs) = Some (f x)" using Cons.IH Cons.prems(2,3) by (meson list.set_intros(2))
    with False show ?thesis by simp
  qed
qed simp

lemma Remove_task:
  assumes "queue_ok q"
  shows "case find (\<lambda>t. qt_TaskID t = taskID) (TaskQueue_List q) of
      None \<Rightarrow> Remove taskID q = (False, q)
    | Some t \<Rightarrow> \<exists>q'. Remove taskID q = (True, q') \<and> queue_ok q' \<and> tq_maxSize q' = tq_maxSize q \<and>
        qt_TaskID t = taskID \<and> plain t \<in># waiting q \<and> waiting q' = waiting q - {#plain t#}"
proof (cases "gm_get (tq_taskMap q) taskID")
  case None
  then have "qt_TaskID (tq_objs q ! b) \<noteq> taskID" if "b \<in> set (tq_heap q)" for b
    using queue_ok_get [OF assms, of taskID b] that by auto
  then have "find (\<lambda>t. qt_TaskID t = taskID) (TaskQueue_List q) = None" by (auto simp: find_None_iff TaskQueue_List_def)
  with None show ?thesis by (simp add: Remove_def)
next
  case (Some a)
  have mo: "gm_get (tq_taskMap q) i = Some b \<longleftrightarrow> b \<in> set (tq_heap q) \<and> qt_TaskID (tq_objs q ! b) = i" for i b
    using queue_ok_get [OF assms] .
  from Some have a: "a \<in> set (tq_heap q)" "qt_TaskID (tq_objs q ! a) = taskID" using mo by auto
  then obtain k where k: "k < length (tq_heap q)" "tq_heap q ! k = a" by (auto simp: in_set_conv_nth)
  have ok: "index_ok q" "heap_ordered (obj_key q) (length (tq_heap q)) (tq_heap q)" using assms by (auto simp: queue_ok_def)
  then have idx: "nat (qt_index (tq_objs q ! a)) = k" using k by (auto simp: index_ok_def)
  obtain b q1 where rem: "heap_Remove k q = (b, q1)" by fastforce
  have r: "b = a" "mset (tq_heap q1) = mset (tq_heap q) - {#a#}" "index_ok q1" "same_objs q q1"
      "heap_ordered (obj_key q) (length (tq_heap q1)) (tq_heap q1)" "obj_key q1 = obj_key q"
    using Remove_run [OF ok k(1)] by (simp_all add: rem k(2))
  note removed = removed_ok [OF assms a(1) r(2-6), unfolded a(2)]
  have "find (\<lambda>t. qt_TaskID t = taskID) (TaskQueue_List q) = Some (tq_objs q ! a)"
  proof -
    have "tq_objs q ! b = tq_objs q ! a" if "b \<in> set (tq_heap q)" "qt_TaskID (tq_objs q ! b) = taskID" for b
      using mo [of taskID b] Some that by simp
    then show ?thesis unfolding TaskQueue_List_def
      using find_only [where f = "\<lambda>b. tq_objs q ! b" and P = "\<lambda>t. qt_TaskID t = taskID", OF a(1) a(2)] by blast
  qed
  moreover have "plain (tq_objs q ! a) \<in># waiting q" using a(1) by (auto simp: waiting_heap)
  moreover have "Remove taskID q = (True, q1\<lparr>tq_taskMap := gm_del taskID (tq_taskMap q1)\<rparr>)" by (simp add: Remove_def Some idx rem)
  ultimately show ?thesis using removed a(2) by simp
qed

lemma Enqueue_refused:
  assumes "queue_ok q" "Enqueue now task q = (Some err, q')"
  shows "q' = q \<and> (err = ErrTaskExists \<and> t_ID task \<in># image_mset qt_TaskID (waiting q) \<or> err = ErrTaskQueueFull \<and> IsFull q)"
proof -
  have "\<exists>b\<in>set (tq_heap q). qt_TaskID (tq_objs q ! b) = t_ID task" if "gm_has (tq_taskMap q) (t_ID task)"
    using that queue_ok_get [OF assms(1)] by (auto simp: gm_has_def)
  then have "t_ID task \<in># image_mset qt_TaskID (waiting q)" if "gm_has (tq_taskMap q) (t_ID task)"
    using that by (force simp: waiting_heap)
  then show ?thesis using assms(2) by (auto simp: Enqueue_def Let_def IsFull_def split: if_splits)
qed

lemma Push_run:
  assumes "index_ok q" "heap_ordered (obj_key q) (length (tq_heap q)) (tq_heap q)" "a < length (tq_objs q)" "a \<notin> set (tq_heap q)"
  shows "mset (tq_heap (heap_Push a q)) = add_mset a (mset (tq_heap q)) \<and> index_ok (heap_Push a q) \<and> same_objs q (heap_Push a q) \<and>
    heap_ordered (obj_key q) (length (tq_heap (heap_Push a q))) (tq_heap (heap_Push a q)) \<and> obj_key (heap_Push a q) = obj_key q"
proof -
  let ?h = "tq_heap q" and ?q = "taskHeap_Push a q"
  have h: "tq_heap ?q = ?h @ [a]" and objs: "tq_objs ?q = (tq_objs q)[a := (tq_objs q ! a)\<lparr>qt_index := int (length ?h)\<rparr>]"
    by (simp_all add: taskHeap_Push_def set_index_def Let_def)
  have same: "same_objs q ?q"
    using same_objs_set_index [of q a "int (length ?h)"] by (simp add: taskHeap_Push_def same_objs_def Let_def)
  have key: "obj_key ?q = obj_key q"
    using set_index_key [of a "int (length ?h)" q] by (simp add: taskHeap_Push_def Let_def obj_key_def fun_eq_iff del: set_index_key)
  have idx: "index_ok ?q" using assms(1,3,4) unfolding index_ok_def h objs
    by (auto simp: nth_append nth_list_update less_Suc_eq)
  have except: "heap_except (obj_key q) (length ?h) (Suc (length ?h)) (?h @ [a])" "below_ordered (obj_key q) (length ?h) (Suc (length ?h)) (?h @ [a])"
  proof -
    have le: "up_of k < length ?h" if "0 < k" "k < Suc (length ?h)" for k using that up_of_less [of k] by linarith
    show "heap_except (obj_key q) (length ?h) (Suc (length ?h)) (?h @ [a])"
      unfolding heap_except_def
    proof (intro conjI allI impI)
      fix k assume "0 < k \<and> k < Suc (length ?h) \<and> k \<noteq> length ?h \<and> up_of k \<noteq> length ?h"
      then show "obj_key q ((?h @ [a]) ! up_of k) \<le> obj_key q ((?h @ [a]) ! k)"
        using assms(2) le [of k] by (simp add: heap_ordered_def nth_append)
    next
      fix k assume k: "0 < k \<and> k < Suc (length ?h) \<and> up_of k = length ?h \<and> 0 < length ?h"
      then show "obj_key q ((?h @ [a]) ! up_of (length ?h)) \<le> obj_key q ((?h @ [a]) ! k)" using le [of k] by simp
    qed
    show "below_ordered (obj_key q) (length ?h) (Suc (length ?h)) (?h @ [a])"
      unfolding below_ordered_def using le by (metis less_irrefl_nat)
  qed
  have up: "heap_Push a q = heap_up (length ?h) ?q" by (simp add: heap_Push_def h Let_def)
  note run = up_run [OF idx, of "length ?h", unfolded h key]
  show ?thesis
    using run sift_up_heap [OF except] mset_sift_up [of "length ?h" "?h @ [a]" "obj_key q"] same_objs_trans [OF same] by (simp add: up)
qed

lemma Enqueue_run:
  assumes "queue_ok q" "Enqueue now task q = (None, q')"
  shows "queue_ok q' \<and> tq_maxSize q' = tq_maxSize q \<and> t_ID task \<notin># image_mset qt_TaskID (waiting q) \<and> \<not> IsFull q \<and>
    waiting q' = add_mset \<lparr>qt_TaskID = t_ID task, qt_Priority = PriorityRank (t_Priority task), qt_QueuedAt = now, qt_Task = task, qt_index = 0\<rparr> (waiting q)"
proof -
  define qt where "qt = \<lparr>qt_TaskID = t_ID task, qt_Priority = PriorityRank (t_Priority task), qt_QueuedAt = now, qt_Task = task, qt_index = 0\<rparr>"
  define a where "a = length (tq_objs q)"
  define q0 where "q0 = q\<lparr>tq_objs := tq_objs q @ [qt]\<rparr>"
  define q1 where "q1 = heap_Push a q0"
  have new: "\<not> gm_has (tq_taskMap q) (t_ID task)" "\<not> IsFull q" and q': "q' = q1\<lparr>tq_taskMap := gm_put (t_ID task) a (tq_taskMap q1)\<rparr>"
    using assms(2) by (auto simp: Enqueue_def Let_def IsFull_def q1_def q0_def a_def qt_def split: if_splits)
  have bound: "b < length (tq_objs q)" if "b \<in> set (tq_heap q)" for b using assms(1) that by (auto simp: queue_ok_def intro: index_bound)
  have old: "tq_objs q0 ! b = tq_objs q ! b" if "b \<in> set (tq_heap q)" for b using bound [OF that] by (simp add: q0_def nth_append)
  have fresh: "a \<notin> set (tq_heap q0)" "a < length (tq_objs q0)" "tq_objs q0 ! a = qt" using bound by (auto simp: q0_def a_def)
  have idx0: "index_ok q0" using assms(1) old by (auto simp: queue_ok_def index_ok_def q0_def)
  have "heap_ordered (obj_key q0) (length (tq_heap q0)) (tq_heap q0)"
  proof -
    have "obj_key q0 (tq_heap q ! k) = obj_key q (tq_heap q ! k)" if "k < length (tq_heap q)" for k using old that by (simp add: obj_key_def)
    moreover have "up_of k < length (tq_heap q)" if "k < length (tq_heap q)" for k using that up_of_le [of k] by linarith
    ultimately show ?thesis using assms(1) by (auto simp: queue_ok_def heap_ordered_def q0_def)
  qed
  note push = Push_run [OF idx0 this fresh(2,1), folded q1_def]
  have mset1: "mset (tq_heap q1) = add_mset a (mset (tq_heap q))" using push by (simp add: q0_def)
  have set1: "set (tq_heap q1) = insert a (set (tq_heap q))" using arg_cong [OF mset1, of set_mset] by simp
  have maps: "tq_taskMap q1 = tq_taskMap q" "tq_maxSize q1 = tq_maxSize q" using push by (simp_all add: same_objs_def q0_def)
  have objs1: "plain (tq_objs q1 ! b) = (if b = a then plain qt else plain (tq_objs q ! b))" if "b \<in> insert a (set (tq_heap q))" for b
    using that same_objs_plain [of q0 q1 b] push fresh old [of b] bound [of b] by (auto simp: a_def q0_def nth_append less_SucI)
  have ids: "qt_TaskID (tq_objs q1 ! b) = (if b = a then t_ID task else qt_TaskID (tq_objs q ! b))" if "b \<in> insert a (set (tq_heap q))" for b
    using arg_cong [OF objs1 [OF that], of qt_TaskID] by (auto simp: qt_def split: if_splits)
  have "map_ok q'"
    unfolding map_ok_def
  proof (intro allI)
    fix i b
    have "gm_get (tq_taskMap q) i = Some b \<longleftrightarrow> b \<in> set (tq_heap q) \<and> qt_TaskID (tq_objs q ! b) = i" using queue_ok_get [OF assms(1)] by simp
    moreover have "\<not> (gm_get (tq_taskMap q) (t_ID task) = Some b)" using new(1) by (auto simp: gm_has_def)
    moreover have "a \<notin> set (tq_heap q)" using fresh(1) by (simp add: q0_def)
    ultimately show "gm_get (tq_taskMap q') i = Some b \<longleftrightarrow> b \<in> set (tq_heap q') \<and> qt_TaskID (tq_objs q' ! b) = i"
      using ids [of b] set1 maps by (cases "b = a") (auto simp: q')
  qed
  moreover have "obj_key q' = obj_key q1" "index_ok q' = index_ok q1" by (simp_all add: q' obj_key_def index_ok_def fun_eq_iff)
  moreover have len: "length (tq_heap q1) = Suc (length (tq_heap q))" using arg_cong [OF mset1, of size] by simp
  ultimately have "queue_ok q'" using push new(2) maps by (auto simp: queue_ok_def q' IsFull_def)
  moreover have "waiting q' = add_mset qt (waiting q)"
  proof -
    have "waiting q' = image_mset (\<lambda>b. plain (tq_objs q1 ! b)) (add_mset a (mset (tq_heap q)))" by (simp add: waiting_heap q' mset1)
    also have "\<dots> = image_mset (\<lambda>b. if b = a then plain qt else plain (tq_objs q ! b)) (add_mset a (mset (tq_heap q)))"
      by (rule image_mset_cong) (use objs1 in auto)
    also have "\<dots> = add_mset qt (waiting q)"
      using fresh(1) by (auto simp: waiting_heap plain_def qt_def q0_def intro!: image_mset_cong)
    finally show ?thesis .
  qed
  moreover have "t_ID task \<notin># image_mset qt_TaskID (waiting q)"
  proof
    assume "t_ID task \<in># image_mset qt_TaskID (waiting q)"
    then obtain b where "b \<in> set (tq_heap q)" "qt_TaskID (tq_objs q ! b) = t_ID task" by (auto simp: waiting_heap)
    then have "gm_get (tq_taskMap q) (t_ID task) = Some b" using queue_ok_get [OF assms(1)] by simp
    with new(1) show False by (simp add: gm_has_def)
  qed
  ultimately show ?thesis using new maps by (simp add: q' qt_def)
qed

end
