(* ===== verification/Task_Queue_Props.thy ===== *)
theory Task_Queue_Props
  imports Task_Queue_Laws
begin

text \<open>
  What the task queue promises its callers.  \<open>priority_queue\<close> is the interface a scheduler relies on:
  a multiset of waiting items and a \<open>pop\<close> that returns a least one by a key.  The queue of
  \<open>Task_Queue\<close> implements it in every state that \<open>Enqueue\<close>, \<open>Dequeue\<close> and \<open>Remove\<close> reach.
\<close>

section \<open>The interface\<close>

primrec drain :: "('q \<Rightarrow> 'i option \<times> 'q) \<Rightarrow> nat \<Rightarrow> 'q \<Rightarrow> 'i list \<times> 'q" where
  "drain pop 0 q = ([], q)"
| "drain pop (Suc n) q = (case pop q of
      (None, q') \<Rightarrow> ([], q')
    | (Some x, q') \<Rightarrow> (let (xs, q'') = drain pop n q' in (x # xs, q'')))"

locale priority_queue =
  fixes inv :: "'q \<Rightarrow> bool" and items :: "'q \<Rightarrow> 'i multiset" and key :: "'i \<Rightarrow> 'k::linorder"
    and pop :: "'q \<Rightarrow> 'i option \<times> 'q"
  assumes pop_none: "inv q \<Longrightarrow> items q = {#} \<Longrightarrow> pop q = (None, q)"
    and pop_some: "inv q \<Longrightarrow> items q \<noteq> {#} \<Longrightarrow> \<exists>x q'. pop q = (Some x, q') \<and> inv q' \<and> x \<in># items q \<and>
      items q' = items q - {#x#} \<and> (\<forall>y. y \<in># items q \<longrightarrow> key x \<le> key y)"
begin

lemma drain_sorted:
  "inv q \<Longrightarrow> size (items q) \<le> n \<Longrightarrow> \<exists>xs q'. drain pop n q = (xs, q') \<and> sorted (map key xs) \<and> mset xs = items q \<and> inv q' \<and> items q' = {#}"
proof (induction n arbitrary: q)
  case (Suc n)
  show ?case
  proof (cases "items q = {#}")
    case False
    then obtain x q' where x: "pop q = (Some x, q')" "inv q'" "x \<in># items q" "items q' = items q - {#x#}"
        "\<And>y. y \<in># items q \<Longrightarrow> key x \<le> key y" using pop_some [OF Suc.prems(1)] by blast
    have "size (items q') \<le> n" using x(3,4) Suc.prems(2) by (simp add: size_Diff_singleton)
    then obtain xs q'' where d: "drain pop n q' = (xs, q'')" "sorted (map key xs)" "mset xs = items q'" "inv q''" "items q'' = {#}"
      using Suc.IH [OF x(2)] by blast
    have "\<forall>y\<in>set xs. key x \<le> key y" using d(3) x(4,5) by (metis in_diffD set_mset_mset)
    moreover have "mset (x # xs) = items q" using d(3) x(3,4) by simp
    ultimately show ?thesis using x(1) d by simp
  qed (use Suc.prems pop_none in simp)
qed simp

lemma drain_stays_empty: "inv q \<Longrightarrow> items q = {#} \<Longrightarrow> drain pop n q = ([], q)"
  by (cases n) (simp_all add: pop_none)

end

section \<open>The queue implements it\<close>

text \<open>What a caller gets from \<open>Dequeue\<close>, without the bookkeeping index.\<close>

definition next_task :: "TaskQueue \<Rightarrow> QueuedTask option \<times> TaskQueue" where
  "next_task q = (let (r, q') = Dequeue q in (map_option plain r, q'))"

lemma waiting_empty [simp]: "waiting q = {#} \<longleftrightarrow> tq_heap q = []"
  by (simp add: waiting_heap)

lemma size_waiting [simp]: "size (waiting q) = TaskQueue_Len q"
  by (simp add: waiting_heap TaskQueue_Len_def)

interpretation tq: priority_queue queue_ok waiting task_key next_task
proof unfold_locales
  fix q assume "queue_ok q" "waiting q = {#}"
  then show "next_task q = (None, q)" by (simp add: next_task_def Dequeue_empty)
next
  fix q assume "queue_ok q" "waiting q \<noteq> {#}"
  then obtain t q' where "Dequeue q = (Some t, q')" "queue_ok q'" "plain t \<in># waiting q" "waiting q' = waiting q - {#plain t#}"
    "\<And>u. u \<in># waiting q \<Longrightarrow> task_key t \<le> task_key u" by (auto elim: Dequeue_run)
  then show "\<exists>x q'. next_task q = (Some x, q') \<and> queue_ok q' \<and> x \<in># waiting q \<and> waiting q' = waiting q - {#x#} \<and>
      (\<forall>y. y \<in># waiting q \<longrightarrow> task_key x \<le> task_key y)"
    by (intro exI [of _ "plain t"] exI [of _ q']) (simp add: next_task_def)
qed

section \<open>Reachable queues\<close>

inductive tq_step :: "TaskQueue \<Rightarrow> TaskQueue \<Rightarrow> bool" where
  "tq_step q (snd (Enqueue now task q))"
| "tq_step q (snd (Dequeue q))"
| "tq_step q (snd (Remove taskID q))"

definition tq_reach :: "int \<Rightarrow> TaskQueue \<Rightarrow> bool" where
  "tq_reach maxSize = reach (\<lambda>q. q = NewTaskQueue maxSize) tq_step"

lemma Enqueue_ok: "queue_ok q \<Longrightarrow> queue_ok (snd (Enqueue now task q)) \<and> tq_maxSize (snd (Enqueue now task q)) = tq_maxSize q"
  using Enqueue_refused [of q now task] Enqueue_run [of q now task] by (cases "Enqueue now task q"; cases "fst (Enqueue now task q)") auto

lemma Dequeue_ok: "queue_ok q \<Longrightarrow> queue_ok (snd (Dequeue q)) \<and> tq_maxSize (snd (Dequeue q)) = tq_maxSize q"
  by (cases "tq_heap q = []") (auto simp: Dequeue_empty elim: Dequeue_run)

lemma Remove_ok: "queue_ok q \<Longrightarrow> queue_ok (snd (Remove taskID q)) \<and> tq_maxSize (snd (Remove taskID q)) = tq_maxSize q"
  using Remove_task [of q taskID] by (auto split: option.splits)

interpretation tqi: invariant_system "\<lambda>q. q = NewTaskQueue m" tq_step "\<lambda>q. queue_ok q \<and> tq_maxSize q = m" for m
proof unfold_locales
  fix q assume "q = NewTaskQueue m"
  then show "queue_ok q \<and> tq_maxSize q = m"
    by (simp add: NewTaskQueue_def queue_ok_def index_ok_def map_ok_def heap_ordered_def)
next
  fix q q' assume inv: "queue_ok q \<and> tq_maxSize q = m" and step: "tq_step q q'"
  from step show "queue_ok q' \<and> tq_maxSize q' = m" by cases (use inv Enqueue_ok Dequeue_ok Remove_ok in auto)
qed

lemma tq_reach_ok: "tq_reach m q \<Longrightarrow> queue_ok q \<and> tq_maxSize q = m"
  unfolding tq_reach_def by (rule tqi.reach_inv)

lemma tq_reach_new: "tq_reach m (NewTaskQueue m)"
  by (simp add: tq_reach_def reach_init)

lemma tq_reach_enqueue: "tq_reach m q \<Longrightarrow> tq_reach m (snd (Enqueue now task q))"
  unfolding tq_reach_def by (blast intro: reach_step tq_step.intros)

lemma distinct_ids: "queue_ok q \<Longrightarrow> distinct (map qt_TaskID (TaskQueue_List q))"
proof -
  assume ok: "queue_ok q"
  then have "distinct (tq_heap q)" by (simp add: queue_ok_def index_ok_def)
  moreover have "inj_on (\<lambda>a. qt_TaskID (tq_objs q ! a)) (set (tq_heap q))"
    by (rule inj_onI) (metis queue_ok_get [OF ok] option.inject)
  ultimately show ?thesis by (simp add: TaskQueue_List_def distinct_map comp_def)
qed

lemma filter_is_remove1:
  "distinct (map f xs) \<Longrightarrow> x \<in> set xs \<Longrightarrow> filter (\<lambda>y. f y \<noteq> f x) xs = remove1 x xs"
proof (induction xs)
  case (Cons y ys)
  have "filter (\<lambda>z. f z \<noteq> f y) ys = ys" using Cons.prems(1) by (force simp: filter_id_conv image_iff)
  with Cons show ?case by auto
qed simp

section \<open>Properties\<close>

text \<open>
  C16: Whatever sequence of \<open>Enqueue\<close>, \<open>Dequeue\<close> and \<open>Remove\<close> ran on a new task queue, no two waiting
  tasks have the same id, a positive maximum size is never exceeded, every waiting object carries its
  own heap position as its index, and the map by task id has an entry exactly for the waiting tasks,
  pointing at their object.
\<close>

theorem task_queue_invariant:
  assumes "tq_reach m q"
  shows "distinct (map qt_TaskID (TaskQueue_List q)) \<and> (m > 0 \<longrightarrow> int (TaskQueue_Len q) \<le> m) \<and>
    (\<forall>k<TaskQueue_Len q. qt_index (TaskQueue_List q ! k) = int k) \<and>
    (\<forall>i a. gm_get (tq_taskMap q) i = Some a \<longleftrightarrow> (\<exists>k<TaskQueue_Len q. tq_heap q ! k = a \<and> qt_TaskID (TaskQueue_List q ! k) = i))"
proof (intro conjI)
  have ok: "queue_ok q" "tq_maxSize q = m" using tq_reach_ok [OF assms] by auto
  show "distinct (map qt_TaskID (TaskQueue_List q))" using distinct_ids ok by blast
  show "m > 0 \<longrightarrow> int (TaskQueue_Len q) \<le> m" using ok by (simp add: queue_ok_def TaskQueue_Len_def)
  show "\<forall>k<TaskQueue_Len q. qt_index (TaskQueue_List q ! k) = int k"
    using ok by (simp add: queue_ok_def index_ok_def TaskQueue_Len_def TaskQueue_List_def)
  show "\<forall>i a. gm_get (tq_taskMap q) i = Some a \<longleftrightarrow> (\<exists>k<TaskQueue_Len q. tq_heap q ! k = a \<and> qt_TaskID (TaskQueue_List q ! k) = i)"
    using queue_ok_get [OF ok(1)] by (auto simp: TaskQueue_Len_def TaskQueue_List_def in_set_conv_nth)
qed

definition ex_task :: "string \<Rightarrow> string \<Rightarrow> Task" where
  "ex_task i p = \<lparr>t_ID = i, t_Priority = p\<rparr>"

definition ex_queue :: TaskQueue where
  "ex_queue = snd (Enqueue 3 (ex_task ''c'' ''critical'') (snd (Enqueue 2 (ex_task ''b'' ''low'') (snd (Enqueue 1 (ex_task ''a'' ''low'') (NewTaskQueue 3))))))"

lemma ex_queue_reach: "tq_reach 3 ex_queue"
  unfolding ex_queue_def by (intro tq_reach_enqueue tq_reach_new)

lemma ex_queue_facts: "TaskQueue_Len ex_queue = 3" "map qt_TaskID (TaskQueue_List ex_queue) = [''c'', ''b'', ''a'']" "IsFull ex_queue"
  by code_simp+

theorem task_queue_invariant_witness:
  "distinct (map qt_TaskID (TaskQueue_List ex_queue)) \<and> int (TaskQueue_Len ex_queue) \<le> 3 \<and> qt_index (TaskQueue_List ex_queue ! 0) = int 0 \<and>
   map qt_TaskID (TaskQueue_List ex_queue) = [''c'', ''b'', ''a'']"
  using task_queue_invariant [OF ex_queue_reach] ex_queue_facts by simp

text \<open>
  C8: The task queue is a priority queue.  From every reachable state, dequeuing as often as there are
  waiting tasks returns each of them exactly once, by descending priority and within a priority by the
  time they were queued, and leaves a queue from which nothing more is returned.
\<close>

theorem task_queue_drains_in_order:
  assumes "tq_reach m q"
  shows "\<exists>ts q'. drain next_task (TaskQueue_Len q) q = (ts, q') \<and> mset ts = waiting q \<and>
    sorted_wrt (\<lambda>t u. qt_Priority t > qt_Priority u \<or> qt_Priority t = qt_Priority u \<and> qt_QueuedAt t \<le> qt_QueuedAt u) ts \<and>
    Dequeue q' = (None, q')"
proof -
  have ok: "queue_ok q" using tq_reach_ok [OF assms] by simp
  obtain ts q' where d: "drain next_task (TaskQueue_Len q) q = (ts, q')" "sorted (map task_key ts)" "mset ts = waiting q" "waiting q' = {#}"
    using tq.drain_sorted [OF ok, of "TaskQueue_Len q"] by auto
  have "sorted_wrt (\<lambda>t u. task_key t \<le> task_key u) ts" using d(2) by (simp add: sorted_map)
  then have "sorted_wrt (\<lambda>t u. qt_Priority t > qt_Priority u \<or> qt_Priority t = qt_Priority u \<and> qt_QueuedAt t \<le> qt_QueuedAt u) ts"
    by (rule sorted_wrt_mono_rel [rotated]) (auto simp: task_key_def less_eq_prod_def)
  then show ?thesis using d by (auto simp: Dequeue_empty)
qed

theorem task_queue_drains_in_order_witness:
  "(\<exists>ts q'. drain next_task (TaskQueue_Len ex_queue) ex_queue = (ts, q') \<and> mset ts = waiting ex_queue \<and> Dequeue q' = (None, q')) \<and>
   map qt_TaskID (fst (drain next_task 5 ex_queue)) = [''c'', ''a'', ''b'']"
proof
  show "\<exists>ts q'. drain next_task (TaskQueue_Len ex_queue) ex_queue = (ts, q') \<and> mset ts = waiting ex_queue \<and> Dequeue q' = (None, q')"
    using task_queue_drains_in_order [OF ex_queue_reach] by blast
  show "map qt_TaskID (fst (drain next_task 5 ex_queue)) = [''c'', ''a'', ''b'']" by code_simp
qed

text \<open>
  \<open>Enqueue\<close> is exact on every reachable queue: it refuses a task whose id is already waiting, then
  a full queue, and changes nothing when it refuses; otherwise the waiting tasks are those from before
  and the new one with the rank of its priority and the current time.
\<close>

theorem enqueue_exact:
  assumes "tq_reach m q"
  shows "let (err, q') = Enqueue now task q in
    if t_ID task \<in> set (map qt_TaskID (TaskQueue_List q)) then err = Some ErrTaskExists \<and> q' = q
    else if IsFull q then err = Some ErrTaskQueueFull \<and> q' = q
    else err = None \<and> waiting q' = add_mset \<lparr>qt_TaskID = t_ID task, qt_Priority = PriorityRank (t_Priority task),
      qt_QueuedAt = now, qt_Task = task, qt_index = 0\<rparr> (waiting q)"
proof -
  have ok: "queue_ok q" using tq_reach_ok [OF assms] by simp
  have ids: "set_mset (image_mset qt_TaskID (waiting q)) = set (map qt_TaskID (TaskQueue_List q))"
    by (force simp: waiting_def plain_def image_iff)
  have has: "gm_has (tq_taskMap q) (t_ID task) \<longleftrightarrow> t_ID task \<in> set (map qt_TaskID (TaskQueue_List q))"
    using queue_ok_get [OF ok, of "t_ID task"] by (auto simp: gm_has_def TaskQueue_List_def image_iff) metis+
  show ?thesis
  proof (cases "Enqueue now task q")
    case (Pair err q')
    show ?thesis
    proof (cases err)
      case None
      then show ?thesis using Enqueue_run [OF ok] Pair unfolding ids by auto
    next
      case (Some e)
      then show ?thesis using Enqueue_refused [OF ok, of now task e q'] Pair has unfolding ids
        by (auto simp: Enqueue_def IsFull_def split: if_splits)
    qed
  qed
qed

theorem enqueue_exact_witness:
  "Enqueue 9 (ex_task ''b'' ''high'') ex_queue = (Some ErrTaskExists, ex_queue) \<and>
   Enqueue 9 (ex_task ''z'' ''high'') ex_queue = (Some ErrTaskQueueFull, ex_queue)"
proof -
  have "t_ID (ex_task ''b'' ''high'') \<in> set (map qt_TaskID (TaskQueue_List ex_queue))"
    "t_ID (ex_task ''z'' ''high'') \<notin> set (map qt_TaskID (TaskQueue_List ex_queue))"
    by (simp_all only: ex_queue_facts) (simp_all add: ex_task_def)
  then show ?thesis
    using enqueue_exact [OF ex_queue_reach, of 9 "ex_task ''b'' ''high''"] enqueue_exact [OF ex_queue_reach, of 9 "ex_task ''z'' ''high''"] ex_queue_facts(3)
    by (simp add: prod_eq_iff case_prod_beta)
qed

text \<open>
  \<open>Remove\<close> takes out exactly the named task.  On every reachable queue it answers false and
  changes nothing when no waiting task has that id; otherwise it answers true and the waiting tasks are
  those from before without the single one of that id, and the queue still drains in order.
\<close>

theorem remove_exact:
  assumes "tq_reach m q"
  shows "let (found, q') = Remove taskID q in
    found = (taskID \<in> set (map qt_TaskID (TaskQueue_List q))) \<and> (\<not> found \<longrightarrow> q' = q) \<and>
    waiting q' = filter_mset (\<lambda>t. qt_TaskID t \<noteq> taskID) (waiting q) \<and> tq_reach m q'"
proof -
  have ok: "queue_ok q" using tq_reach_ok [OF assms] by simp
  have r: "tq_reach m (snd (Remove taskID q))"
    using assms unfolding tq_reach_def by (blast intro: reach_step tq_step.intros)
  show ?thesis
  proof (cases "find (\<lambda>t. qt_TaskID t = taskID) (TaskQueue_List q)")
    case None
    then have no: "taskID \<notin> set (map qt_TaskID (TaskQueue_List q))" by (auto simp: find_None_iff)
    then have "filter_mset (\<lambda>t. qt_TaskID t \<noteq> taskID) (waiting q) = waiting q"
      by (subst filter_mset_eq_conv) (auto simp: waiting_def)
    then show ?thesis using no Remove_task [OF ok, of taskID] None assms by simp
  next
    case (Some t)
    then obtain q' where q': "Remove taskID q = (True, q')" "qt_TaskID t = taskID" "waiting q' = waiting q - {#plain t#}"
      using Remove_task [OF ok, of taskID] by auto
    have t: "t \<in> set (TaskQueue_List q)" using Some by (auto simp: find_Some_iff)
    have "filter (\<lambda>u. qt_TaskID u \<noteq> qt_TaskID (plain t)) (map plain (TaskQueue_List q)) = remove1 (plain t) (map plain (TaskQueue_List q))"
      by (rule filter_is_remove1) (use distinct_ids [OF ok] t in \<open>simp_all add: comp_def\<close>)
    then have "filter_mset (\<lambda>u. qt_TaskID u \<noteq> taskID) (waiting q) = waiting q - {#plain t#}"
      using q'(2) by (simp add: waiting_def flip: mset_map mset_filter mset_remove1)
    then show ?thesis using q' r t by auto
  qed
qed

theorem remove_exact_witness:
  "fst (Remove ''b'' ex_queue) \<and> waiting (snd (Remove ''b'' ex_queue)) = filter_mset (\<lambda>t. qt_TaskID t \<noteq> ''b'') (waiting ex_queue) \<and>
   map qt_TaskID (fst (drain next_task 5 (snd (Remove ''b'' ex_queue)))) = [''c'', ''a'']"
proof (intro conjI)
  show "fst (Remove ''b'' ex_queue)" using remove_exact [OF ex_queue_reach, of "''b''"] ex_queue_facts(2) by (simp add: case_prod_beta)
  show "waiting (snd (Remove ''b'' ex_queue)) = filter_mset (\<lambda>t. qt_TaskID t \<noteq> ''b'') (waiting ex_queue)"
    using remove_exact [OF ex_queue_reach, of "''b''"] by (simp add: case_prod_beta)
  show "map qt_TaskID (fst (drain next_task 5 (snd (Remove ''b'' ex_queue)))) = [''c'', ''a'']" by code_simp
qed

end
