(* ===== verification/Routing_Policy.thy ===== *)
theory Routing_Policy
  imports Go_Prelude "HOL-Library.Word"
begin

text \<open>
  The classification of provider failures that routing acts on (\<open>agent/runtime/routingerr\<close>) and the
  recovery policies of a candidate (\<open>agent/runtime/routingpolicy/policy.go\<close>): validation, the delay
  before a retry, computed on 64-bit unsigned words, and the evaluation of one failure.
\<close>

section \<open>Codes and classes\<close>

type_synonym Code = string
type_synonym Class = string
type_synonym Phase = string

abbreviation ClassTransient :: Class where "ClassTransient \<equiv> ''transient''"
abbreviation ClassHard :: Class where "ClassHard \<equiv> ''hard''"
abbreviation ClassUnclassified :: Class where "ClassUnclassified \<equiv> ''unclassified''"

abbreviation CatalogueVersion :: string where "CatalogueVersion \<equiv> ''provider-errors.v1''"

abbreviation CodeAuthRequired :: Code where "CodeAuthRequired \<equiv> ''auth_required''"
abbreviation CodeMissingCredentials :: Code where "CodeMissingCredentials \<equiv> ''missing_credentials''"
abbreviation CodeSubscriptionRequired :: Code where "CodeSubscriptionRequired \<equiv> ''subscription_required''"
abbreviation CodeQuotaLimited :: Code where "CodeQuotaLimited \<equiv> ''quota_limited''"
abbreviation CodeRateLimited :: Code where "CodeRateLimited \<equiv> ''rate_limited''"
abbreviation CodeNetworkUnavailable :: Code where "CodeNetworkUnavailable \<equiv> ''network_unavailable''"
abbreviation CodeProviderUnavailable :: Code where "CodeProviderUnavailable \<equiv> ''provider_unavailable''"
abbreviation CodeProviderOverloaded :: Code where "CodeProviderOverloaded \<equiv> ''provider_overloaded''"
abbreviation CodeModelCapacity :: Code where "CodeModelCapacity \<equiv> ''model_capacity''"
abbreviation CodeModelUnavailable :: Code where "CodeModelUnavailable \<equiv> ''model_unavailable''"
abbreviation CodeProviderNotConfigured :: Code where "CodeProviderNotConfigured \<equiv> ''provider_not_configured''"
abbreviation CodeUnknownProvider :: Code where "CodeUnknownProvider \<equiv> ''unknown_provider_error''"
abbreviation CodeAgentRuntime :: Code where "CodeAgentRuntime \<equiv> ''agent_runtime_error''"
abbreviation CodeAgentTransportLost :: Code where "CodeAgentTransportLost \<equiv> ''agent_transport_lost''"
abbreviation CodeProviderResourceExhausted :: Code where "CodeProviderResourceExhausted \<equiv> ''provider_resource_exhausted''"
abbreviation CodeTask :: Code where "CodeTask \<equiv> ''task_error''"
abbreviation CodeRepo :: Code where "CodeRepo \<equiv> ''repo_error''"
abbreviation CodePermissionDeniedByUser :: Code where "CodePermissionDeniedByUser \<equiv> ''permission_denied_by_user''"
abbreviation CodeNpxCacheCorrupted :: Code where "CodeNpxCacheCorrupted \<equiv> ''npx_cache_corrupted''"
abbreviation CodeManagedRuntimeNpmResolution :: Code where "CodeManagedRuntimeNpmResolution \<equiv> ''managed_runtime_npm_resolution''"
abbreviation CodeManagedRuntimeNpmPolicy :: Code where "CodeManagedRuntimeNpmPolicy \<equiv> ''managed_runtime_npm_policy''"
abbreviation CodeManagedRuntimeStartup :: Code where "CodeManagedRuntimeStartup \<equiv> ''managed_runtime_startup''"
abbreviation CodeResumeCorrupted :: Code where "CodeResumeCorrupted \<equiv> ''resume_corrupted''"
abbreviation CodeAccountBlocked :: Code where "CodeAccountBlocked \<equiv> ''account_blocked''"

abbreviation ConfHigh :: string where "ConfHigh \<equiv> ''high''"
abbreviation ConfLow :: string where "ConfLow \<equiv> ''low''"

abbreviation PhaseAuthCheck :: Phase where "PhaseAuthCheck \<equiv> ''auth_check''"
abbreviation PhaseStreaming :: Phase where "PhaseStreaming \<equiv> ''streaming''"
abbreviation PhaseToolExecution :: Phase where "PhaseToolExecution \<equiv> ''tool_execution''"
abbreviation PhaseShutdown :: Phase where "PhaseShutdown \<equiv> ''shutdown''"
abbreviation PhaseProcessStart :: Phase where "PhaseProcessStart \<equiv> ''process_start''"
abbreviation PhaseSessionInit :: Phase where "PhaseSessionInit \<equiv> ''session_init''"
abbreviation PhasePromptSend :: Phase where "PhasePromptSend \<equiv> ''prompt_send''"

definition HoldsUntilRelease :: "Code \<Rightarrow> bool" where
  "HoldsUntilRelease code \<longleftrightarrow> code = CodeAccountBlocked"

definition ClassForCode :: "Code \<Rightarrow> Class" where
  "ClassForCode code =
     (if code \<in> {CodeNetworkUnavailable, CodeProviderUnavailable, CodeProviderOverloaded, CodeModelCapacity,
         CodeRateLimited, CodeAgentTransportLost, CodeProviderResourceExhausted} then ClassTransient
      else if code \<in> {CodeAuthRequired, CodeMissingCredentials, CodeSubscriptionRequired, CodeQuotaLimited,
         CodeModelUnavailable, CodeProviderNotConfigured, CodeAccountBlocked} then ClassHard
      else ClassUnclassified)"

text \<open>A classified failure.\<close>

record Error =
  e_Code :: Code
  e_Class :: Class
  e_CatalogueVersion :: string
  e_Confidence :: string
  e_Phase :: Phase
  e_FallbackAllowed :: bool
  e_AutoRetryable :: bool
  e_UserAction :: bool
  e_ClassifierRule :: string
  e_ExitCode :: "int option"
  e_ResetHint :: "time option"
  e_ResetHintInferred :: bool
  e_RawExcerpt :: string
  e_RemediationPath :: string

section \<open>Policies\<close>

abbreviation PolicyVersion :: int where "PolicyVersion \<equiv> 1"
abbreviation MinRetries :: int where "MinRetries \<equiv> 1"
abbreviation MaxRetries :: int where "MaxRetries \<equiv> 10"
abbreviation MinInitialIntervalSeconds :: int where "MinInitialIntervalSeconds \<equiv> 1"
abbreviation MaxInitialIntervalSeconds :: int where "MaxInitialIntervalSeconds \<equiv> 3600"
abbreviation MaxRetryDelay :: int where "MaxRetryDelay \<equiv> 24 * 60 * 60 * Second"
abbreviation MinResetWaitSeconds :: int where "MinResetWaitSeconds \<equiv> 1"
abbreviation MaxResetWaitSeconds :: int where "MaxResetWaitSeconds \<equiv> 7 * 24 * 60 * 60"
abbreviation MinUnclassifiedThreshold :: int where "MinUnclassifiedThreshold \<equiv> 2"
abbreviation MaxUnclassifiedThreshold :: int where "MaxUnclassifiedThreshold \<equiv> 10"

type_synonym Outcome = string

abbreviation OutcomeSkip :: Outcome where "OutcomeSkip \<equiv> ''skip''"
abbreviation OutcomeStop :: Outcome where "OutcomeStop \<equiv> ''stop''"

record RetryPolicy =
  rp_Enabled :: bool
  rp_MaxRetries :: int
  rp_InitialIntervalSeconds :: int

record ResetWaitPolicy =
  rw_Enabled :: bool
  rw_MaxWaitSeconds :: int

record Policy =
  pl_Retry :: RetryPolicy
  pl_WaitForReset :: ResetWaitPolicy
  pl_OnExhausted :: Outcome

record UnclassifiedPolicy =
  up_Enabled :: bool
  up_ConsecutiveFailureThreshold :: int

record Document =
  d_Version :: int
  d_Transient :: Policy
  d_Hard :: Policy
  d_Unclassified :: "UnclassifiedPolicy option"

definition zero_policy :: Policy where
  "zero_policy = \<lparr>pl_Retry = \<lparr>rp_Enabled = False, rp_MaxRetries = 0, rp_InitialIntervalSeconds = 0\<rparr>,
     pl_WaitForReset = \<lparr>rw_Enabled = False, rw_MaxWaitSeconds = 0\<rparr>, pl_OnExhausted = ''''\<rparr>"

definition DefaultPolicy :: Policy where
  "DefaultPolicy = zero_policy\<lparr>pl_OnExhausted := OutcomeSkip\<rparr>"

definition DefaultDocument :: Document where
  "DefaultDocument = \<lparr>d_Version = PolicyVersion, d_Transient = DefaultPolicy, d_Hard = DefaultPolicy,
     d_Unclassified = Some \<lparr>up_Enabled = False, up_ConsecutiveFailureThreshold = 0\<rparr>\<rparr>"

definition PolicyFor :: "Document \<Rightarrow> Class \<Rightarrow> Policy option" where
  "PolicyFor document class' =
     (if class' = ClassTransient then Some (d_Transient document)
      else if class' = ClassHard then Some (d_Hard document)
      else None)"

text \<open>The rejections of the validator, one constructor per message.\<close>

datatype policy_error =
    UnsupportedVersion int
  | TransientPolicy policy_error
  | HardPolicy policy_error
  | ThresholdOutOfRange
  | DisabledThresholdNonzero
  | BadOnExhausted
  | MaxRetriesOutOfRange
  | InitialIntervalOutOfRange
  | DisabledRetryNonzero
  | MaxWaitOutOfRange
  | DisabledWaitNonzero

definition ValidatePolicy :: "Policy \<Rightarrow> policy_error option" where
  "ValidatePolicy policy =
     (if pl_OnExhausted policy \<noteq> OutcomeSkip \<and> pl_OnExhausted policy \<noteq> OutcomeStop then Some BadOnExhausted
      else
        let retry = pl_Retry policy;
            reset_wait = pl_WaitForReset policy;
            retry_error =
              (if rp_Enabled retry
               then (if rp_MaxRetries retry < MinRetries \<or> rp_MaxRetries retry > MaxRetries then Some MaxRetriesOutOfRange
                     else if rp_InitialIntervalSeconds retry < MinInitialIntervalSeconds \<or> rp_InitialIntervalSeconds retry > MaxInitialIntervalSeconds
                     then Some InitialIntervalOutOfRange else None)
               else if rp_MaxRetries retry \<noteq> 0 \<or> rp_InitialIntervalSeconds retry \<noteq> 0 then Some DisabledRetryNonzero
               else None)
        in case retry_error of
             Some err \<Rightarrow> Some err
           | None \<Rightarrow>
               if rw_Enabled reset_wait
               then (if rw_MaxWaitSeconds reset_wait < MinResetWaitSeconds \<or> rw_MaxWaitSeconds reset_wait > MaxResetWaitSeconds
                     then Some MaxWaitOutOfRange else None)
               else if rw_MaxWaitSeconds reset_wait \<noteq> 0 then Some DisabledWaitNonzero
               else None)"

definition ValidateDocument :: "Document \<Rightarrow> policy_error option" where
  "ValidateDocument document =
     (if d_Version document \<noteq> PolicyVersion then Some (UnsupportedVersion (d_Version document))
      else case ValidatePolicy (d_Transient document) of
        Some err \<Rightarrow> Some (TransientPolicy err)
      | None \<Rightarrow> (case ValidatePolicy (d_Hard document) of
          Some err \<Rightarrow> Some (HardPolicy err)
        | None \<Rightarrow> (case d_Unclassified document of
            None \<Rightarrow> None
          | Some policy \<Rightarrow>
              if up_Enabled policy
              then (if up_ConsecutiveFailureThreshold policy < MinUnclassifiedThreshold \<or>
                       up_ConsecutiveFailureThreshold policy > MaxUnclassifiedThreshold
                    then Some ThresholdOutOfRange else None)
              else if up_ConsecutiveFailureThreshold policy \<noteq> 0 then Some DisabledThresholdNonzero
              else None)))"

section \<open>Evaluation of a failure\<close>

type_synonym DecisionKind = string

abbreviation DecisionWaitForReset :: DecisionKind where "DecisionWaitForReset \<equiv> ''waiting_for_reset''"
abbreviation DecisionRetry :: DecisionKind where "DecisionRetry \<equiv> ''retry_wait''"
abbreviation DecisionSkip :: DecisionKind where "DecisionSkip \<equiv> ''skip''"
abbreviation DecisionStop :: DecisionKind where "DecisionStop \<equiv> ''stop''"

record EvaluationInput =
  ei_Failure :: "Error option"
  ei_Now :: time
  ei_RetryOrdinal :: int
  ei_ResetWaitUsed :: bool
  ei_EffectSafe :: bool

record Evaluation =
  ev_Kind :: DecisionKind
  ev_Class :: Class
  ev_Code :: Code
  ev_CatalogueVersion :: string
  ev_RetryOrdinal :: int
  ev_Deadline :: time
  ev_PendingOutcome :: Outcome

definition failureClass :: "Error \<Rightarrow> Class" where
  "failureClass failure = (if e_Class failure \<noteq> '''' then e_Class failure else ClassForCode (e_Code failure))"

definition resetWaitDeadline :: "Policy \<Rightarrow> Error \<Rightarrow> EvaluationInput \<Rightarrow> time option" where
  "resetWaitDeadline policy failure input =
     (case e_ResetHint failure of
        None \<Rightarrow> None
      | Some resetAt \<Rightarrow>
          let maxWait = rw_MaxWaitSeconds (pl_WaitForReset policy) * Second in
          if \<not> rw_Enabled (pl_WaitForReset policy) \<or> ei_ResetWaitUsed input then None
          else if \<not> After resetAt (ei_Now input) \<or> After resetAt (ei_Now input + maxWait) then None
          else Some resetAt)"

text \<open>\<open>uint64(1) << retryOrdinal\<close> and the division are on 64-bit unsigned words.\<close>

definition NextRetryDelay :: "int \<Rightarrow> int \<Rightarrow> int option" where
  "NextRetryDelay initialIntervalSeconds retryOrdinal =
     (if initialIntervalSeconds < MinInitialIntervalSeconds \<or> retryOrdinal < 0 then None
      else if initialIntervalSeconds > MaxInitialIntervalSeconds then None
      else if retryOrdinal \<ge> 63 then Some MaxRetryDelay
      else
        let seconds = (word_of_int initialIntervalSeconds :: 64 word);
            power = (push_bit (nat retryOrdinal) 1 :: 64 word)
        in if retryOrdinal > 0 \<and> (retryOrdinal \<ge> 64 \<or> seconds > (- 1) div power) then Some MaxRetryDelay
           else
             let seconds' = (if retryOrdinal > 0 then seconds * power else seconds)
             in if seconds' \<ge> word_of_int (MaxRetryDelay div Second) then Some MaxRetryDelay
                else Some (uint seconds' * Second))"

definition retryDeadline :: "Policy \<Rightarrow> EvaluationInput \<Rightarrow> (time \<times> int) option" where
  "retryDeadline policy input =
     (if \<not> rp_Enabled (pl_Retry policy) \<or> ei_RetryOrdinal input \<ge> rp_MaxRetries (pl_Retry policy) then None
      else case NextRetryDelay (rp_InitialIntervalSeconds (pl_Retry policy)) (ei_RetryOrdinal input) of
        None \<Rightarrow> None
      | Some delay \<Rightarrow> Some (ei_Now input + delay, ei_RetryOrdinal input + 1))"

definition stopped :: Evaluation where
  "stopped = \<lparr>ev_Kind = DecisionStop, ev_Class = '''', ev_Code = '''', ev_CatalogueVersion = '''',
     ev_RetryOrdinal = 0, ev_Deadline = 0, ev_PendingOutcome = OutcomeStop\<rparr>"

definition Evaluate :: "Document \<Rightarrow> EvaluationInput \<Rightarrow> Evaluation" where
  "Evaluate document input =
     (case ei_Failure input of
        None \<Rightarrow> stopped
      | Some failure \<Rightarrow>
          if \<not> ei_EffectSafe input \<or> \<not> e_FallbackAllowed failure then stopped
          else case PolicyFor document (failureClass failure) of
            None \<Rightarrow> stopped
          | Some policy \<Rightarrow>
              if ValidateDocument document \<noteq> None then stopped
              else
                let result = stopped\<lparr>ev_Class := failureClass failure, ev_Code := e_Code failure,
                      ev_CatalogueVersion := (if e_CatalogueVersion failure = '''' then CatalogueVersion else e_CatalogueVersion failure),
                      ev_PendingOutcome := pl_OnExhausted policy\<rparr>;
                    exhausted = (if pl_OnExhausted policy = OutcomeSkip then result\<lparr>ev_Kind := DecisionSkip\<rparr> else result)
                in if HoldsUntilRelease (e_Code failure) then exhausted
                   else case resetWaitDeadline policy failure input of
                     Some resetAt \<Rightarrow> result\<lparr>ev_Kind := DecisionWaitForReset, ev_Deadline := resetAt\<rparr>
                   | None \<Rightarrow> (case retryDeadline policy input of
                       Some (retryAt, retryOrdinal) \<Rightarrow>
                         result\<lparr>ev_Kind := DecisionRetry, ev_RetryOrdinal := retryOrdinal, ev_Deadline := retryAt\<rparr>
                     | None \<Rightarrow> exhausted))"

end
