(* ===== verification/Circuits.thy ===== *)
theory Circuits
  imports Routing_Policy
begin

text \<open>
  The circuit breakers of dynamic routing (\<open>agent/runtime/dynamic/circuit.go\<close>,
  \<open>circuit_backoff.go\<close>) and their durable table (\<open>SaveCircuit\<close> and \<open>LoadCircuits\<close> of
  \<open>task/repository/sqlite/dynamic_route.go\<close>).  A method holds the registry's mutex, reads the clock once
  (\<open>ce_now\<close>) and may call the store, whose state is part of the registry's; \<open>ce_order\<close> is the order in
  which Go ranges over the pending keys.  Log records are not modelled, and all times are UTC.
\<close>

section \<open>Data\<close>

type_synonym CircuitState = string

abbreviation CircuitClosed :: CircuitState where "CircuitClosed \<equiv> ''closed''"
abbreviation CircuitOpen :: CircuitState where "CircuitOpen \<equiv> ''open''"
abbreviation CircuitHalfOpen :: CircuitState where "CircuitHalfOpen \<equiv> ''half_open''"

type_synonym ResourceScope = string

abbreviation ScopeCredential :: ResourceScope where "ScopeCredential \<equiv> ''credential''"
abbreviation ScopeAccountBlock :: ResourceScope where "ScopeAccountBlock \<equiv> ''account_block''"

definition ResourceKey :: "ResourceScope \<Rightarrow> string \<Rightarrow> string" where
  "ResourceKey scope fingerprint = scope @ '':'' @ fingerprint"

record circuit =
  c_state :: CircuitState
  c_until :: time
  c_code :: Code
  c_probeUntil :: time
  c_failures :: int
  c_updatedAt :: time

definition zero_circuit :: circuit where
  "zero_circuit = \<lparr>c_state = '''', c_until = 0, c_code = '''', c_probeUntil = 0, c_failures = 0, c_updatedAt = 0\<rparr>"

definition held :: "circuit \<Rightarrow> bool" where
  "held c \<longleftrightarrow> c_state c = CircuitOpen \<and> HoldsUntilRelease (c_code c)"

definition blocksFixedDispatchAt :: "circuit \<Rightarrow> time \<Rightarrow> bool" where
  "blocksFixedDispatchAt c now =
     (if held c then True
      else if c_state c = CircuitHalfOpen then now < c_probeUntil c \<or> now < c_until c
      else now < c_until c)"

record CircuitSnapshot =
  cs_Key :: string
  cs_State :: CircuitState
  cs_Until :: time
  cs_Code :: Code
  cs_ProbeUntil :: time
  cs_Failures :: int
  cs_UpdatedAt :: time

definition circuitSnapshot :: "string \<Rightarrow> circuit \<Rightarrow> CircuitSnapshot" where
  "circuitSnapshot key entry = \<lparr>cs_Key = key, cs_State = c_state entry, cs_Until = c_until entry, cs_Code = c_code entry,
     cs_ProbeUntil = c_probeUntil entry, cs_Failures = c_failures entry, cs_UpdatedAt = c_updatedAt entry\<rparr>"

record ProbeLease =
  l_Key :: string
  l_ExpiresAt :: time

text \<open>What a store may answer: an error is the store's own text.\<close>

type_synonym store_error = string

record 's CircuitPersistence =
  cp_SaveCircuit :: "CircuitSnapshot \<Rightarrow> 's \<Rightarrow> store_error option \<times> 's"
  cp_LoadCircuits :: "'s \<Rightarrow> store_error + CircuitSnapshot list"

record 's circuit_env =
  ce_now :: time
  ce_persist :: "'s CircuitPersistence option"
  ce_order :: "string list \<Rightarrow> string list"

record 's CircuitRegistry =
  cr_circuits :: "(string, circuit) gomap"
  cr_pending :: "string list"
  cr_store :: 's

definition NewCircuitRegistry :: "'s \<Rightarrow> 's CircuitRegistry" where
  "NewCircuitRegistry s = \<lparr>cr_circuits = [], cr_pending = [], cr_store = s\<rparr>"

section \<open>Durable writes\<close>

definition persistSnapshotLocked :: "'s circuit_env \<Rightarrow> string \<Rightarrow> 's CircuitRegistry \<Rightarrow> store_error option \<times> 's CircuitRegistry" where
  "persistSnapshotLocked env key r =
     (case ce_persist env of
        None \<Rightarrow> (None, r)
      | Some persist \<Rightarrow> (case gm_get (cr_circuits r) key of
          None \<Rightarrow> (None, r)
        | Some entry \<Rightarrow>
            let snapshot = circuitSnapshot key entry;
                snapshot' = (if IsZero (cs_UpdatedAt snapshot) then snapshot\<lparr>cs_UpdatedAt := ce_now env\<rparr> else snapshot);
                (err, s) = cp_SaveCircuit persist snapshot' (cr_store r);
                r' = r\<lparr>cr_store := s\<rparr>
            in if err \<noteq> None then (err, r'\<lparr>cr_pending := List.insert key (cr_pending r)\<rparr>)
               else (None, r'\<lparr>cr_pending := filter (\<lambda>k. k \<noteq> key) (cr_pending r)\<rparr>)))"

abbreviation pendingFlushBudget :: nat where "pendingFlushBudget \<equiv> 1"

primrec flush_keys :: "'s circuit_env \<Rightarrow> string \<Rightarrow> string list \<Rightarrow> nat \<Rightarrow> 's CircuitRegistry \<Rightarrow> 's CircuitRegistry" where
  "flush_keys env skipKey [] flushed r = r"
| "flush_keys env skipKey (key # keys) flushed r =
     (if key = skipKey then flush_keys env skipKey keys flushed r
      else if flushed \<ge> pendingFlushBudget then r
      else flush_keys env skipKey keys (flushed + 1) (snd (persistSnapshotLocked env key r)))"

definition flushPendingLocked :: "'s circuit_env \<Rightarrow> string \<Rightarrow> 's CircuitRegistry \<Rightarrow> 's CircuitRegistry" where
  "flushPendingLocked env skipKey r = flush_keys env skipKey (ce_order env (cr_pending r)) 0 r"

definition put_circuit :: "string \<Rightarrow> circuit \<Rightarrow> 's CircuitRegistry \<Rightarrow> 's CircuitRegistry" where
  "put_circuit key entry r = r\<lparr>cr_circuits := gm_put key entry (cr_circuits r)\<rparr>"

definition circuit_at :: "'s CircuitRegistry \<Rightarrow> string \<Rightarrow> circuit" where
  "circuit_at r key = gm_get0 zero_circuit (cr_circuits r) key"

section \<open>Operations\<close>

definition restored :: "CircuitSnapshot \<Rightarrow> circuit" where
  "restored snapshot = \<lparr>c_state = cs_State snapshot, c_until = cs_Until snapshot, c_code = cs_Code snapshot,
     c_probeUntil = cs_ProbeUntil snapshot, c_failures = (if cs_Failures snapshot > 0 then cs_Failures snapshot else 0),
     c_updatedAt = cs_UpdatedAt snapshot\<rparr>"

definition RestoreCircuits :: "'s circuit_env \<Rightarrow> 's CircuitRegistry \<Rightarrow> store_error option \<times> 's CircuitRegistry" where
  "RestoreCircuits env r =
     (case ce_persist env of
        None \<Rightarrow> (None, r)
      | Some persist \<Rightarrow> (case cp_LoadCircuits persist (cr_store r) of
          Inl err \<Rightarrow> (Some err, r)
        | Inr snapshots \<Rightarrow> (None, fold (\<lambda>snapshot. put_circuit (cs_Key snapshot) (restored snapshot)) snapshots r)))"

definition Open :: "'s circuit_env \<Rightarrow> string \<Rightarrow> time \<Rightarrow> Code \<Rightarrow> 's CircuitRegistry \<Rightarrow> 's CircuitRegistry" where
  "Open env key until code r =
     (if key = '''' then r
      else
        let r1 = flushPendingLocked env key r in
        if held (circuit_at r1 key) then r1
        else snd (persistSnapshotLocked env key
          (put_circuit key (zero_circuit\<lparr>c_state := CircuitOpen, c_until := until, c_code := code, c_updatedAt := ce_now env\<rparr>) r1)))"

definition Hold :: "'s circuit_env \<Rightarrow> string \<Rightarrow> Code \<Rightarrow> 's CircuitRegistry \<Rightarrow> (bool \<times> store_error option) \<times> 's CircuitRegistry" where
  "Hold env key code r =
     (if key = '''' \<or> \<not> HoldsUntilRelease code then ((False, None), r)
      else
        let r1 = flushPendingLocked env key r; entry = circuit_at r1 key in
        if held entry then
          (if key \<notin> set (cr_pending r1) then ((False, None), r1)
           else let (err, r2) = persistSnapshotLocked env key (put_circuit key (entry\<lparr>c_updatedAt := ce_now env\<rparr>) r1) in ((False, err), r2))
        else
          let (err, r2) = persistSnapshotLocked env key
                (put_circuit key (zero_circuit\<lparr>c_state := CircuitOpen, c_code := code, c_updatedAt := ce_now env\<rparr>) r1)
          in ((True, err), r2))"

definition ReleaseHold :: "'s circuit_env \<Rightarrow> string \<Rightarrow> 's CircuitRegistry \<Rightarrow> (bool \<times> store_error option) \<times> 's CircuitRegistry" where
  "ReleaseHold env key r =
     (if key = '''' then ((False, None), r)
      else case gm_get (cr_circuits r) key of
        None \<Rightarrow> ((False, None), r)
      | Some entry \<Rightarrow>
          if \<not> held entry then ((False, None), r)
          else
            let r1 = flushPendingLocked env key r;
                (err, r2) = persistSnapshotLocked env key
                  (put_circuit key (zero_circuit\<lparr>c_state := CircuitClosed, c_updatedAt := ce_now env\<rparr>) r1)
            in if err \<noteq> None then ((False, err), put_circuit key entry r2) else ((True, None), r2))"

definition IsHeld :: "string \<Rightarrow> 's CircuitRegistry \<Rightarrow> bool" where
  "IsHeld key r = held (circuit_at r key)"

definition IsOpen :: "string \<Rightarrow> time \<Rightarrow> 's CircuitRegistry \<Rightarrow> bool" where
  "IsOpen key now r =
     (case gm_get (cr_circuits r) key of
        None \<Rightarrow> False
      | Some entry \<Rightarrow>
          if c_state entry = CircuitClosed then False
          else if c_state entry = CircuitHalfOpen \<or> held entry then True
          else c_state entry = CircuitOpen \<and> \<not> IsZero (c_until entry))"

definition ActiveSuspension :: "string \<Rightarrow> time \<Rightarrow> 's CircuitRegistry \<Rightarrow> CircuitSnapshot option" where
  "ActiveSuspension key now r =
     (if key = '''' then None
      else case gm_get (cr_circuits r) key of
        None \<Rightarrow> None
      | Some entry \<Rightarrow>
          if c_state entry = CircuitClosed then None
          else if \<not> blocksFixedDispatchAt entry now then None
          else Some ((circuitSnapshot key entry)\<lparr>cs_Failures := 0, cs_UpdatedAt := 0\<rparr>))"

definition AcquireProbe :: "'s circuit_env \<Rightarrow> string \<Rightarrow> int \<Rightarrow> 's CircuitRegistry \<Rightarrow> ProbeLease option \<times> 's CircuitRegistry" where
  "AcquireProbe env key duration r =
     (if key = '''' \<or> duration \<le> 0 then (None, r)
      else
        let now = ce_now env in
        case gm_get (cr_circuits r) key of
          None \<Rightarrow> (None, r)
        | Some entry \<Rightarrow>
            if c_state entry = CircuitClosed \<or> held entry \<or> now < c_until entry \<or> now < c_probeUntil entry then (None, r)
            else
              let r1 = flushPendingLocked env key r;
                  lease = \<lparr>l_Key = key, l_ExpiresAt = now + duration\<rparr>;
                  entry' = entry\<lparr>c_state := CircuitHalfOpen, c_probeUntil := l_ExpiresAt lease, c_updatedAt := now\<rparr>
              in (Some lease, snd (persistSnapshotLocked env key (put_circuit key entry' r1))))"

abbreviation Minute :: int where "Minute \<equiv> 60 * Second"
abbreviation Hour :: int where "Hour \<equiv> 60 * Minute"

definition circuitBackoff :: int where
  "circuitBackoff = Minute"

definition circuitBackoffLadder :: "int list" where
  "circuitBackoffLadder = [circuitBackoff, 5 * Minute, 15 * Minute, 30 * Minute, Hour, 2 * Hour, 4 * Hour]"

abbreviation maxInferredResetHint :: int where "maxInferredResetHint \<equiv> 24 * Hour"

definition escalatedBackoff :: "int \<Rightarrow> int" where
  "escalatedBackoff failures =
     (let f1 = (if failures < 1 then 1 else failures);
          f2 = (if f1 > int (length circuitBackoffLadder) then int (length circuitBackoffLadder) else f1)
      in circuitBackoffLadder ! nat (f2 - 1))"

definition released_circuit :: "time \<Rightarrow> bool \<Rightarrow> int \<Rightarrow> circuit \<Rightarrow> circuit" where
  "released_circuit now success backoff entry =
     (if success then entry\<lparr>c_probeUntil := 0, c_state := CircuitClosed, c_until := 0, c_code := '''', c_updatedAt := now\<rparr>
      else
        let failures = c_failures entry + 1;
            until = now + backoff;
            escalated = now + escalatedBackoff failures
        in entry\<lparr>c_probeUntil := 0, c_state := CircuitOpen, c_until := (if After escalated until then escalated else until),
             c_failures := failures, c_updatedAt := now\<rparr>)"

definition ReleaseProbe :: "'s circuit_env \<Rightarrow> ProbeLease \<Rightarrow> bool \<Rightarrow> int \<Rightarrow> 's CircuitRegistry \<Rightarrow> 's CircuitRegistry" where
  "ReleaseProbe env lease success backoff r =
     (if l_Key lease = '''' then r
      else case gm_get (cr_circuits r) (l_Key lease) of
        None \<Rightarrow> r
      | Some entry \<Rightarrow>
          if c_state entry \<noteq> CircuitHalfOpen \<or> c_probeUntil entry \<noteq> l_ExpiresAt lease then r
          else
            let r1 = flushPendingLocked env (l_Key lease) r
            in snd (persistSnapshotLocked env (l_Key lease)
                 (put_circuit (l_Key lease) (released_circuit (ce_now env) success backoff entry) r1)))"

record FailureOpen =
  fo_Code :: Code
  fo_Now :: time
  fo_ResetHint :: "time option"
  fo_ResetHintInferred :: bool

definition boundedResetHint :: "FailureOpen \<Rightarrow> time \<Rightarrow> time" where
  "boundedResetHint failure now =
     (case fo_ResetHint failure of
        None \<Rightarrow> 0
      | Some hint \<Rightarrow>
          if fo_ResetHintInferred failure \<and> After hint (now + maxInferredResetHint) then now + maxInferredResetHint else hint)"

definition opened_circuit :: "time \<Rightarrow> FailureOpen \<Rightarrow> circuit \<Rightarrow> circuit" where
  "opened_circuit now failure previous =
     (let sameIncident = (c_state previous = CircuitOpen \<and> c_failures previous > 0 \<and> now < c_until previous);
          failures = (if sameIncident then c_failures previous else c_failures previous + 1);
          until0 = now + escalatedBackoff failures;
          hint = boundedResetHint failure now;
          until1 = (if After hint until0 then hint else until0);
          until = (if sameIncident \<and> After (c_until previous) until1 then c_until previous else until1)
      in zero_circuit\<lparr>c_state := CircuitOpen, c_until := until, c_code := fo_Code failure, c_failures := failures, c_updatedAt := now\<rparr>)"

definition failure_time :: "'s circuit_env \<Rightarrow> FailureOpen \<Rightarrow> time" where
  "failure_time env failure = (if IsZero (fo_Now failure) then ce_now env else fo_Now failure)"

definition OpenFailure :: "'s circuit_env \<Rightarrow> string \<Rightarrow> FailureOpen \<Rightarrow> 's CircuitRegistry \<Rightarrow> 's CircuitRegistry" where
  "OpenFailure env key failure r =
     (if key = '''' then r
      else
        let r1 = flushPendingLocked env key r; previous = circuit_at r1 key
        in if held previous then r1
           else snd (persistSnapshotLocked env key (put_circuit key (opened_circuit (failure_time env failure) failure previous) r1)))"

definition ResetFailures :: "'s circuit_env \<Rightarrow> string \<Rightarrow> 's CircuitRegistry \<Rightarrow> bool \<times> 's CircuitRegistry" where
  "ResetFailures env key r =
     (if key = '''' then (False, r)
      else case gm_get (cr_circuits r) key of
        None \<Rightarrow> (False, r)
      | Some entry \<Rightarrow>
          if c_failures entry = 0 then (False, r)
          else
            let r1 = flushPendingLocked env key r
            in (True, snd (persistSnapshotLocked env key (put_circuit key (entry\<lparr>c_failures := 0, c_updatedAt := ce_now env\<rparr>) r1))))"

definition Snapshots :: "'s CircuitRegistry \<Rightarrow> CircuitSnapshot list" where
  "Snapshots r =
     (let keys = map fst (filter (\<lambda>(key, entry). \<not> (c_state entry = CircuitClosed \<and> c_failures entry = 0)) (cr_circuits r))
      in map (\<lambda>key. circuitSnapshot key (circuit_at r key)) (sort keys))"

section \<open>The table of circuits\<close>

text \<open>
  A row of \<open>dynamic_resource_circuits\<close>, whose times are null when they are zero.  \<open>ct_faults\<close> says which of
  the next writes the database refuses; a refused statement changes no row.
\<close>

record circuit_row =
  cw_resource_key :: string
  cw_state :: string
  cw_until_at :: "time option"
  cw_code :: string
  cw_probe_until :: "time option"
  cw_failure_count :: int
  cw_updated_at :: time

record circuit_table =
  ct_rows :: "(string, circuit_row) gomap"
  ct_faults :: "bool list"

definition nullableTime :: "time \<Rightarrow> time option" where
  "nullableTime t = (if IsZero t then None else Some t)"

definition SaveCircuit :: "time \<Rightarrow> CircuitSnapshot \<Rightarrow> circuit_table \<Rightarrow> store_error option \<times> circuit_table" where
  "SaveCircuit now snapshot t =
     (case ct_faults t of
        True # faults \<Rightarrow> (Some ''database is locked'', t\<lparr>ct_faults := faults\<rparr>)
      | _ \<Rightarrow>
          let row = \<lparr>cw_resource_key = cs_Key snapshot, cw_state = cs_State snapshot, cw_until_at = nullableTime (cs_Until snapshot),
                cw_code = cs_Code snapshot, cw_probe_until = nullableTime (cs_ProbeUntil snapshot),
                cw_failure_count = cs_Failures snapshot,
                cw_updated_at = (if IsZero (cs_UpdatedAt snapshot) then now else cs_UpdatedAt snapshot)\<rparr>
          in (None, t\<lparr>ct_rows := gm_put (cs_Key snapshot) row (ct_rows t), ct_faults := tl (ct_faults t)\<rparr>))"

definition scan_circuit :: "circuit_row \<Rightarrow> CircuitSnapshot" where
  "scan_circuit row = \<lparr>cs_Key = cw_resource_key row, cs_State = cw_state row,
     cs_Until = (case cw_until_at row of None \<Rightarrow> 0 | Some t \<Rightarrow> t), cs_Code = cw_code row,
     cs_ProbeUntil = (case cw_probe_until row of None \<Rightarrow> 0 | Some t \<Rightarrow> t),
     cs_Failures = cw_failure_count row, cs_UpdatedAt = cw_updated_at row\<rparr>"

definition LoadCircuits :: "circuit_table \<Rightarrow> store_error + CircuitSnapshot list" where
  "LoadCircuits t = Inr (map scan_circuit (sort_key cw_resource_key
     (filter (\<lambda>row. cw_state row \<noteq> CircuitClosed \<or> cw_failure_count row > 0) (map snd (ct_rows t)))))"

definition table_persistence :: "time \<Rightarrow> circuit_table CircuitPersistence" where
  "table_persistence now = \<lparr>cp_SaveCircuit = SaveCircuit now, cp_LoadCircuits = LoadCircuits\<rparr>"

end
