(* ===== verification/Circuit_Laws.thy ===== *)
theory Circuit_Laws
  imports Circuits
begin

text \<open>
  Laws of the circuit breakers: a hold stays until its owner releases it, a probe lease is exclusive
  for its whole duration, failures climb a bounded ladder, and the durable table lags behind memory only
  at the pending keys, so that a restart recovers the circuits.
\<close>

section \<open>Runs of operations\<close>

datatype circuit_op =
    DoOpen string time Code
  | DoOpenFailure string FailureOpen
  | DoHold string Code
  | DoReleaseHold string
  | DoAcquireProbe string int
  | DoReleaseProbe ProbeLease bool int
  | DoResetFailures string
  | DoRestart

fun run_op :: "'s circuit_env \<Rightarrow> circuit_op \<Rightarrow> 's CircuitRegistry \<Rightarrow> 's CircuitRegistry" where
  "run_op env (DoOpen key until code) r = Open env key until code r"
| "run_op env (DoOpenFailure key failure) r = OpenFailure env key failure r"
| "run_op env (DoHold key code) r = snd (Hold env key code r)"
| "run_op env (DoReleaseHold key) r = snd (ReleaseHold env key r)"
| "run_op env (DoAcquireProbe key duration) r = snd (AcquireProbe env key duration r)"
| "run_op env (DoReleaseProbe lease success backoff) r = ReleaseProbe env lease success backoff r"
| "run_op env (DoResetFailures key) r = snd (ResetFailures env key r)"
| "run_op env DoRestart r = snd (RestoreCircuits env (NewCircuitRegistry (cr_store r)))"

definition run_ops :: "('s circuit_env \<times> circuit_op) list \<Rightarrow> 's CircuitRegistry \<Rightarrow> 's CircuitRegistry" where
  "run_ops ops = fold (\<lambda>(env, op). run_op env op) ops"

lemma run_ops_induct:
  assumes "P r" "\<And>env op r. (env, op) \<in> set ops \<Longrightarrow> P r \<Longrightarrow> P (run_op env op r)"
  shows "P (run_ops ops r)"
  using assms unfolding run_ops_def
proof (induction ops arbitrary: r)
  case (Cons eop ops)
  obtain env op where eop: "eop = (env, op)" by fastforce
  have "P (run_op env op r)" using Cons.prems eop by simp
  then show ?case using Cons.IH Cons.prems(2) eop by simp
qed simp

lemma persist_circuits [simp]: "cr_circuits (snd (persistSnapshotLocked env key r)) = cr_circuits r"
  by (auto simp: persistSnapshotLocked_def Let_def split: option.splits prod.splits)

lemma flush_keys_circuits [simp]: "cr_circuits (flush_keys env skip keys n r) = cr_circuits r"
  by (induction keys arbitrary: n r) auto

lemma flush_circuits [simp]: "cr_circuits (flushPendingLocked env skip r) = cr_circuits r"
  by (simp add: flushPendingLocked_def)

lemma put_circuits [simp]: "cr_circuits (put_circuit key entry r) = gm_put key entry (cr_circuits r)"
  "cr_store (put_circuit key entry r) = cr_store r" "cr_pending (put_circuit key entry r) = cr_pending r"
  by (simp_all add: put_circuit_def)

lemma circuit_at_persist [simp]: "circuit_at (snd (persistSnapshotLocked env key r)) = circuit_at r"
  "circuit_at (flushPendingLocked env skip r) = circuit_at r"
  "circuit_at (put_circuit key entry r) k = (if k = key then entry else circuit_at r k)"
  by (simp_all add: circuit_at_def fun_eq_iff)

lemma circuit_at_get: "gm_get (cr_circuits r) key = Some entry \<Longrightarrow> circuit_at r key = entry"
  by (simp add: circuit_at_def)

lemma not_held_zero [simp]: "\<not> held zero_circuit"
  by (simp add: held_def zero_circuit_def)

lemma held_at_get: "held (circuit_at r key) \<longleftrightarrow> (\<exists>entry. gm_get (cr_circuits r) key = Some entry \<and> held entry)"
  by (auto simp: circuit_at_def gm_get0_def split: option.splits)

section \<open>The ladder\<close>

lemma ladder_nth: "n < 7 \<Longrightarrow> circuitBackoffLadder ! n \<in> {circuitBackoff..4 * Hour}"
  by (auto simp: circuitBackoffLadder_def circuitBackoff_def less_Suc_eq numeral_eq_Suc)

lemma length_ladder [simp]: "length circuitBackoffLadder = 7"
  by (simp add: circuitBackoffLadder_def)

lemma escalated_bounds: "circuitBackoff \<le> escalatedBackoff n" "escalatedBackoff n \<le> 4 * Hour"
proof -
  have "nat ((if (if n < 1 then 1 else n) > 7 then 7 else (if n < 1 then 1 else n)) - 1) < 7" by auto
  from ladder_nth [OF this] show "circuitBackoff \<le> escalatedBackoff n" "escalatedBackoff n \<le> 4 * Hour"
    unfolding escalatedBackoff_def Let_def length_ladder atLeastAtMost_iff of_nat_numeral by (simp_all only:)
qed

lemma sorted_ladder: "sorted circuitBackoffLadder"
  by (simp add: circuitBackoffLadder_def circuitBackoff_def)

lemma escalated_mono: "m \<le> n \<Longrightarrow> escalatedBackoff m \<le> escalatedBackoff n"
  unfolding escalatedBackoff_def Let_def by (rule sorted_nth_mono [OF sorted_ladder]) auto

lemma opened_until: "now + escalatedBackoff (c_failures (opened_circuit now failure previous)) \<le> c_until (opened_circuit now failure previous)"
  by (auto simp: opened_circuit_def Let_def After_def)

lemma released_until: "now + escalatedBackoff (c_failures c + 1) \<le> c_until (released_circuit now False backoff c)"
  by (auto simp: released_circuit_def Let_def After_def)

section \<open>Holds\<close>

lemma hold_kept:
  assumes "IsHeld k r" "op \<noteq> DoReleaseHold k" "op \<noteq> DoRestart"
  shows "IsHeld k (run_op env op r)"
proof -
  obtain entry where e: "gm_get (cr_circuits r) k = Some entry" "held entry" "circuit_at r k = entry"
    using assms(1) by (auto simp: IsHeld_def held_at_get circuit_at_get)
  show ?thesis
  proof (cases op)
    case (DoReleaseHold key)
    with assms(2) have "key \<noteq> k" by auto
    then show ?thesis using DoReleaseHold e
      by (auto simp: IsHeld_def ReleaseHold_def Let_def case_prod_beta circuit_at_def split: option.splits)
  next
    case (DoReleaseProbe lease success backoff)
    then show ?thesis using e by (auto simp: IsHeld_def ReleaseProbe_def Let_def held_def circuit_at_def split: option.splits)
  next
    case (DoResetFailures key)
    then show ?thesis using e by (auto simp: IsHeld_def ResetFailures_def Let_def held_def circuit_at_def split: option.splits)
  next
    case (DoAcquireProbe key duration)
    then show ?thesis using e by (auto simp: IsHeld_def AcquireProbe_def Let_def circuit_at_def split: option.splits)
  next
    case (DoHold key code)
    then show ?thesis using e by (auto simp: IsHeld_def Hold_def Let_def held_def case_prod_beta circuit_at_def)
  next
    case (DoOpenFailure key failure)
    then show ?thesis using e(2,3) by (cases "key = k") (auto simp: IsHeld_def OpenFailure_def Let_def)
  next
    case (DoOpen key until code)
    then show ?thesis using e(2,3) by (cases "key = k") (auto simp: IsHeld_def Open_def Let_def)
  qed (use assms in simp)
qed

section \<open>Probe leases\<close>

text \<open>No probe can be acquired on a guarded circuit before the instant \<open>t\<close>.\<close>

definition guarded :: "time \<Rightarrow> circuit \<Rightarrow> bool" where
  "guarded t c \<longleftrightarrow> c_state c = CircuitClosed \<or> held c \<or> t \<le> c_until c \<or> t \<le> c_probeUntil c"

definition guarded_at :: "time \<Rightarrow> string \<Rightarrow> 's CircuitRegistry \<Rightarrow> bool" where
  "guarded_at t k r \<longleftrightarrow> (\<exists>entry. gm_get (cr_circuits r) k = Some entry \<and> guarded t entry)"

text \<open>The operations that routing performs: it opens circuits through \<open>OpenFailure\<close> only, at the current time.\<close>

definition routing_op :: "'s circuit_env \<Rightarrow> circuit_op \<Rightarrow> bool" where
  "routing_op env op = (case op of
       DoOpen _ _ _ \<Rightarrow> False
     | DoRestart \<Rightarrow> False
     | DoOpenFailure _ failure \<Rightarrow> fo_Now failure = 0 \<or> fo_Now failure = ce_now env
     | _ \<Rightarrow> True)"

lemma guarded_refuses: "guarded_at t k r \<Longrightarrow> ce_now env < t \<Longrightarrow> AcquireProbe env k duration r = (None, r)"
  by (auto simp: guarded_at_def guarded_def AcquireProbe_def Let_def split: option.splits)

lemma guarded_kept:
  assumes "guarded_at t k r" "routing_op env op" "t \<le> ce_now env + circuitBackoff"
  shows "guarded_at t k (run_op env op r)"
proof -
  obtain entry where e: "gm_get (cr_circuits r) k = Some entry" "guarded t entry"
    using assms(1) by (auto simp: guarded_at_def)
  have step: "t \<le> ce_now env + escalatedBackoff n" for n using assms(3) escalated_bounds(1) [of n] by linarith
  show ?thesis
  proof (cases op)
    case (DoOpenFailure key failure)
    then have now: "failure_time env failure = ce_now env"
      using assms(2) by (auto simp: routing_op_def IsZero_def failure_time_def)
    show ?thesis using DoOpenFailure e order_trans [OF step opened_until, of failure entry]
      by (auto simp: OpenFailure_def Let_def now guarded_at_def guarded_def circuit_at_get intro: order_trans)
  next
    case (DoReleaseHold key)
    then show ?thesis using e by (auto simp: ReleaseHold_def Let_def case_prod_beta guarded_at_def guarded_def split: option.splits)
  next
    case (DoReleaseProbe lease success backoff)
    then show ?thesis using e order_trans [OF step released_until, of backoff entry]
      by (cases success) (auto simp: ReleaseProbe_def Let_def guarded_at_def guarded_def released_circuit_def intro: order_trans split: option.splits)
  next
    case (DoResetFailures key)
    then show ?thesis using e by (auto simp: ResetFailures_def Let_def held_def guarded_at_def guarded_def split: option.splits)
  next
    case (DoAcquireProbe key duration)
    then show ?thesis using e by (auto simp: AcquireProbe_def Let_def guarded_at_def guarded_def split: option.splits)
  next
    case (DoHold key code)
    then show ?thesis using e by (auto simp: Hold_def Let_def held_def case_prod_beta guarded_at_def guarded_def circuit_at_def)
  qed (use assms(2) in \<open>simp_all add: routing_op_def\<close>)
qed

section \<open>The durable table\<close>

text \<open>A circuit that a restart has to bring back.\<close>

definition live :: "CircuitSnapshot \<Rightarrow> bool" where
  "live sn \<longleftrightarrow> cs_State sn \<noteq> CircuitClosed \<or> cs_Failures sn > 0"

text \<open>The circuits that the registry keeps are counted from zero and stamped.\<close>

definition stamped :: "circuit \<Rightarrow> bool" where
  "stamped c \<longleftrightarrow> 0 \<le> c_failures c \<and> c_updatedAt c \<noteq> 0"

text \<open>
  What the registry relies on: a save that succeeds replaces the row of its key and nothing else, a save
  that fails changes no row, and loading returns the live rows.
\<close>

locale circuit_store =
  fixes persist :: "'s CircuitPersistence" and ok :: "'s \<Rightarrow> bool" and row :: "'s \<Rightarrow> string \<Rightarrow> CircuitSnapshot option"
  assumes save_ok: "ok s \<Longrightarrow> cs_UpdatedAt sn \<noteq> 0 \<Longrightarrow> cp_SaveCircuit persist sn s = (None, s') \<Longrightarrow> ok s' \<and> row s' = (row s)(cs_Key sn \<mapsto> sn)"
    and save_failed: "ok s \<Longrightarrow> cp_SaveCircuit persist sn s = (Some err, s') \<Longrightarrow> ok s' \<and> row s' = row s"
    and load_live: "ok s \<Longrightarrow> cp_LoadCircuits persist s = Inr sns \<Longrightarrow> distinct (map cs_Key sns) \<and> set sns = {sn. row s (cs_Key sn) = Some sn \<and> live sn}"

text \<open>Memory and rows agree at every key that is not pending.\<close>

definition agrees_at :: "('s \<Rightarrow> string \<Rightarrow> CircuitSnapshot option) \<Rightarrow> 's CircuitRegistry \<Rightarrow> string \<Rightarrow> bool" where
  "agrees_at row r k = (case gm_get (cr_circuits r) k of
       None \<Rightarrow> (\<forall>sn. row (cr_store r) k = Some sn \<longrightarrow> \<not> live sn)
     | Some entry \<Rightarrow> row (cr_store r) k = Some (circuitSnapshot k entry))"

definition durable :: "('s \<Rightarrow> bool) \<Rightarrow> ('s \<Rightarrow> string \<Rightarrow> CircuitSnapshot option) \<Rightarrow> 's CircuitRegistry \<Rightarrow> bool" where
  "durable ok row r \<longleftrightarrow> ok (cr_store r) \<and> gm_wf (cr_circuits r) \<and> (\<forall>k entry. gm_get (cr_circuits r) k = Some entry \<longrightarrow> stamped entry) \<and>
     (\<forall>k. k \<notin> set (cr_pending r) \<longrightarrow> agrees_at row r k) \<and> (\<forall>k sn. row (cr_store r) k = Some sn \<longrightarrow> cs_Key sn = k \<and> 0 \<le> cs_Failures sn \<and> cs_UpdatedAt sn \<noteq> 0)"

text \<open>The same, except at the key being written.\<close>

definition durable_except :: "('s \<Rightarrow> bool) \<Rightarrow> ('s \<Rightarrow> string \<Rightarrow> CircuitSnapshot option) \<Rightarrow> string \<Rightarrow> 's CircuitRegistry \<Rightarrow> bool" where
  "durable_except ok row key r \<longleftrightarrow> ok (cr_store r) \<and> gm_wf (cr_circuits r) \<and> (\<forall>k entry. gm_get (cr_circuits r) k = Some entry \<longrightarrow> stamped entry) \<and>
     gm_has (cr_circuits r) key \<and> (\<forall>k. k \<noteq> key \<and> k \<notin> set (cr_pending r) \<longrightarrow> agrees_at row r k) \<and>
     (\<forall>k sn. row (cr_store r) k = Some sn \<longrightarrow> cs_Key sn = k \<and> 0 \<le> cs_Failures sn \<and> cs_UpdatedAt sn \<noteq> 0)"

context circuit_store
begin

lemma agrees_put [simp]: "k \<noteq> key \<Longrightarrow> agrees_at row (put_circuit key entry r) k = agrees_at row r k"
  by (simp add: agrees_at_def split: option.split)

lemma put_except: "durable ok row r \<Longrightarrow> stamped entry \<Longrightarrow> durable_except ok row key (put_circuit key entry r)"
  by (auto simp: durable_def durable_except_def gm_has_def split: if_splits)

lemma put_pending: "durable ok row r \<Longrightarrow> key \<in> set (cr_pending r) \<Longrightarrow> stamped entry \<Longrightarrow> durable ok row (put_circuit key entry r)"
  unfolding durable_def by (auto split: if_splits) (metis agrees_put)

lemma durable_weaken: "durable ok row r \<Longrightarrow> gm_has (cr_circuits r) key \<Longrightarrow> durable_except ok row key r"
  by (simp add: durable_def durable_except_def)

lemma persist_durable:
  assumes "durable_except ok row key r" "ce_persist env = Some persist"
  shows "durable ok row (snd (persistSnapshotLocked env key r))"
    "fst (persistSnapshotLocked env key r) \<noteq> None \<Longrightarrow> key \<in> set (cr_pending (snd (persistSnapshotLocked env key r)))"
    "fst (persistSnapshotLocked env key r) = None \<Longrightarrow> key \<notin> set (cr_pending (snd (persistSnapshotLocked env key r)))"
proof -
  obtain entry where entry: "gm_get (cr_circuits r) key = Some entry" using assms(1) by (auto simp: durable_except_def gm_has_def)
  then have st: "stamped entry" using assms(1) by (simp add: durable_except_def)
  obtain err s where save: "cp_SaveCircuit persist (circuitSnapshot key entry) (cr_store r) = (err, s)" by fastforce
  have ok: "ok (cr_store r)" using assms(1) by (simp add: durable_except_def)
  have up: "cs_UpdatedAt (circuitSnapshot key entry) \<noteq> 0" using st by (simp add: circuitSnapshot_def stamped_def)
  have run: "persistSnapshotLocked env key r = (if err \<noteq> None then (err, r\<lparr>cr_store := s, cr_pending := List.insert key (cr_pending r)\<rparr>)
      else (None, r\<lparr>cr_store := s, cr_pending := filter (\<lambda>k. k \<noteq> key) (cr_pending r)\<rparr>))"
    using save up by (auto simp: persistSnapshotLocked_def assms(2) entry Let_def IsZero_def)
  show "fst (persistSnapshotLocked env key r) \<noteq> None \<Longrightarrow> key \<in> set (cr_pending (snd (persistSnapshotLocked env key r)))"
    "fst (persistSnapshotLocked env key r) = None \<Longrightarrow> key \<notin> set (cr_pending (snd (persistSnapshotLocked env key r)))"
    by (auto simp: run split: if_splits)
  show "durable ok row (snd (persistSnapshotLocked env key r))"
  proof (cases err)
    case None
    then have "ok s" "row s = (row (cr_store r))(key \<mapsto> circuitSnapshot key entry)"
      using save_ok [OF ok up] save by (simp_all add: circuitSnapshot_def)
    moreover from this have "agrees_at row (snd (persistSnapshotLocked env key r)) k" if "k = key \<or> agrees_at row r k" for k
      using that entry None by (cases "k = key") (auto simp: run agrees_at_def split: option.splits)
    ultimately show ?thesis using assms(1) None st
      by (auto simp: run durable_except_def durable_def circuitSnapshot_def stamped_def split: if_splits)
  next
    case (Some e)
    then have "ok s" "row s = row (cr_store r)" using save_failed [OF ok] save by blast+
    moreover from this have "agrees_at row (snd (persistSnapshotLocked env key r)) k = agrees_at row r k" for k
      by (auto simp: run agrees_at_def Some split: option.splits)
    ultimately show ?thesis using assms(1) Some by (auto simp: run durable_except_def durable_def)
  qed
qed

lemma persist_missing: "\<not> gm_has (cr_circuits r) key \<Longrightarrow> persistSnapshotLocked env key r = (None, r)"
  by (auto simp: persistSnapshotLocked_def gm_has_def split: option.splits)

lemma flush_durable:
  assumes "ce_persist env = Some persist"
  shows "durable ok row r \<Longrightarrow> durable ok row (flushPendingLocked env skip r)"
proof -
  have "durable ok row r \<Longrightarrow> durable ok row (flush_keys env skip keys n r)" for keys n r
  proof (induction keys arbitrary: n r)
    case (Cons key keys)
    have "durable ok row (snd (persistSnapshotLocked env key r))"
      using Cons.prems persist_durable(1) [OF durable_weaken [OF Cons.prems] assms] persist_missing [of r key env]
      by (cases "gm_has (cr_circuits r) key") auto
    then show ?case using Cons by simp
  qed simp
  then show "durable ok row r \<Longrightarrow> durable ok row (flushPendingLocked env skip r)" by (simp add: flushPendingLocked_def)
qed

lemma write_durable:
  assumes "durable ok row r" "ce_persist env = Some persist" "stamped entry"
  shows "durable ok row (snd (persistSnapshotLocked env key (put_circuit key entry (flushPendingLocked env key r))))"
  using persist_durable(1) [OF put_except [OF flush_durable [OF assms(2,1)] assms(3)] assms(2)] .

lemma run_op_durable:
  assumes "durable ok row r" "ce_persist env = Some persist" "ce_now env \<noteq> 0" "op \<noteq> DoRestart"
  shows "durable ok row (run_op env op r)"
proof -
  note wr = write_durable [OF assms(1,2)] and fl = flush_durable [OF assms(2,1)]
  have st: "stamped entry" if "gm_get (cr_circuits r) k = Some entry" for k entry using assms(1) that by (simp add: durable_def)
  have nonneg: "0 \<le> c_failures (circuit_at r k)" for k
    using st [of k] by (cases "gm_get (cr_circuits r) k") (auto simp: circuit_at_def gm_get0_def zero_circuit_def stamped_def)
  have fresh: "stamped (zero_circuit\<lparr>c_state := x, c_until := t, c_code := c, c_updatedAt := ce_now env\<rparr>)" for x t c
    using assms(3) by (simp add: stamped_def zero_circuit_def)
  show ?thesis
  proof (cases op)
    case (DoOpen key until code)
    then show ?thesis using assms(1) fl wr [OF fresh, of key] by (simp add: Open_def Let_def)
  next
    case (DoOpenFailure key failure)
    have "stamped (opened_circuit (failure_time env failure) failure (circuit_at r key))"
      using nonneg [of key] assms(3) by (simp add: stamped_def opened_circuit_def Let_def failure_time_def IsZero_def)
    then show ?thesis using DoOpenFailure assms(1) fl wr [of _ key] by (simp add: OpenFailure_def Let_def)
  next
    case (DoHold key code)
    have "stamped ((circuit_at r key)\<lparr>c_updatedAt := ce_now env\<rparr>)" using nonneg [of key] assms(3) by (simp add: stamped_def)
    then show ?thesis using DoHold assms(1) fl wr [of _ key] fresh [where x = CircuitOpen and t = 0 and c = code]
      by (simp add: Hold_def Let_def case_prod_beta zero_circuit_def)
  next
    case (DoReleaseHold key)
    let ?z = "zero_circuit\<lparr>c_state := CircuitClosed, c_updatedAt := ce_now env\<rparr>"
    let ?p = "persistSnapshotLocked env key (put_circuit key ?z (flushPendingLocked env key r))"
    have z: "stamped ?z" using assms(3) by (simp add: stamped_def zero_circuit_def)
    note except = put_except [OF fl z, of key key]
    have "durable ok row (put_circuit key entry (snd ?p))" if "fst ?p \<noteq> None" "gm_get (cr_circuits r) key = Some entry" for entry
    proof -
      show ?thesis
        using put_pending [OF persist_durable(1) [OF except assms(2)] persist_durable(2) [OF except assms(2) that(1)] st [OF that(2)]] .
    qed
    then show ?thesis using DoReleaseHold assms(1) persist_durable(1) [OF except assms(2)]
      by (auto simp: ReleaseHold_def Let_def case_prod_beta split: option.splits)
  next
    case (DoAcquireProbe key duration)
    then show ?thesis using assms(1) wr [of _ key] st [of key] assms(3)
      by (auto simp: AcquireProbe_def Let_def stamped_def split: option.splits)
  next
    case (DoReleaseProbe lease success backoff)
    then show ?thesis using assms(1) wr [of _ "l_Key lease"] st [of "l_Key lease"] assms(3)
      by (auto simp: ReleaseProbe_def Let_def stamped_def released_circuit_def split: option.splits)
  next
    case (DoResetFailures key)
    then show ?thesis using assms(1) wr [of _ key] st [of key] assms(3)
      by (auto simp: ResetFailures_def Let_def stamped_def split: option.splits)
  qed (use assms(4) in simp)
qed

text \<open>A restart forgets the pending keys and takes the circuits from the live rows.\<close>

lemma fold_restored:
  "distinct (map cs_Key sns) \<Longrightarrow>
     cr_store (fold (\<lambda>sn. put_circuit (cs_Key sn) (restored sn)) sns r) = cr_store r \<and>
     cr_pending (fold (\<lambda>sn. put_circuit (cs_Key sn) (restored sn)) sns r) = cr_pending r \<and>
     (gm_wf (cr_circuits r) \<longrightarrow> gm_wf (cr_circuits (fold (\<lambda>sn. put_circuit (cs_Key sn) (restored sn)) sns r))) \<and>
     gm_get (cr_circuits (fold (\<lambda>sn. put_circuit (cs_Key sn) (restored sn)) sns r)) k =
       (case find (\<lambda>sn. cs_Key sn = k) sns of None \<Rightarrow> gm_get (cr_circuits r) k | Some sn \<Rightarrow> Some (restored sn))"
proof (induction sns arbitrary: r)
  case (Cons sn sns)
  have "find (\<lambda>sn'. cs_Key sn' = k) sns = None" if "cs_Key sn = k" using Cons.prems that by (auto simp: find_None_iff) (metis image_eqI)
  then show ?case using Cons.IH [of "put_circuit (cs_Key sn) (restored sn) r"] Cons.prems
    by (cases "cs_Key sn = k") (auto split: option.splits)
qed simp

lemma restart_circuits:
  assumes "durable ok row r" "ce_persist env = Some persist" "cp_LoadCircuits persist (cr_store r) = Inr sns"
  defines "r' \<equiv> run_op env DoRestart r"
  shows "cr_store r' = cr_store r" "cr_pending r' = []" "gm_wf (cr_circuits r')"
    "gm_get (cr_circuits r') k = (case row (cr_store r) k of None \<Rightarrow> None | Some sn \<Rightarrow> if live sn then Some (restored sn) else None)"
proof -
  have rows: "row (cr_store r) k = Some sn \<Longrightarrow> cs_Key sn = k" for k sn using assms(1) by (simp add: durable_def)
  have load: "distinct (map cs_Key sns)" "set sns = {sn. row (cr_store r) (cs_Key sn) = Some sn \<and> live sn}"
    using load_live assms(1,3) by (auto simp: durable_def)
  have r': "r' = fold (\<lambda>sn. put_circuit (cs_Key sn) (restored sn)) sns (NewCircuitRegistry (cr_store r))"
    by (simp add: r'_def RestoreCircuits_def assms(2,3) NewCircuitRegistry_def)
  note f = fold_restored [OF load(1), of "NewCircuitRegistry (cr_store r)", folded r']
  show "cr_store r' = cr_store r" "cr_pending r' = []" "gm_wf (cr_circuits r')" using f by (simp_all add: NewCircuitRegistry_def)
  have "find (\<lambda>sn. cs_Key sn = k) sns = (case row (cr_store r) k of None \<Rightarrow> None | Some sn \<Rightarrow> if live sn then Some sn else None)"
  proof (cases "find (\<lambda>sn. cs_Key sn = k) sns")
    case None
    then have "\<not> (row (cr_store r) k = Some sn \<and> live sn)" for sn using rows [of k sn] by (auto simp: find_None_iff load(2))
    with None show ?thesis by (auto split: option.split)
  next
    case (Some sn)
    then have "sn \<in> set sns" "cs_Key sn = k" by (auto simp: find_Some_iff)
    with Some show ?thesis by (auto simp: load(2))
  qed
  then show "gm_get (cr_circuits r') k = (case row (cr_store r) k of None \<Rightarrow> None | Some sn \<Rightarrow> if live sn then Some (restored sn) else None)"
    using f [of k] by (simp add: NewCircuitRegistry_def split: option.splits)
qed

lemma snapshot_restored: "0 \<le> cs_Failures sn \<Longrightarrow> circuitSnapshot (cs_Key sn) (restored sn) = sn"
  by (simp add: circuitSnapshot_def restored_def)

lemma restored_snapshot: "stamped c \<Longrightarrow> restored (circuitSnapshot k c) = c"
  by (simp add: circuitSnapshot_def restored_def stamped_def)

lemma restart_durable:
  assumes "durable ok row r" "ce_persist env = Some persist" "cp_LoadCircuits persist (cr_store r) = Inr sns"
  shows "durable ok row (run_op env DoRestart r)"
proof -
  note f = restart_circuits [OF assms]
  have rows: "row (cr_store r) k = Some sn \<Longrightarrow> cs_Key sn = k \<and> 0 \<le> cs_Failures sn \<and> cs_UpdatedAt sn \<noteq> 0" for k sn
    using assms(1) by (simp add: durable_def)
  have "agrees_at row (run_op env DoRestart r) k" for k
    using f(4) [of k] f(1) rows [of k] snapshot_restored by (auto simp: agrees_at_def split: option.splits if_splits)
  moreover have "stamped entry" if "gm_get (cr_circuits (run_op env DoRestart r)) k = Some entry" for k entry
    using that f(4) [of k] rows [of k] by (auto simp: stamped_def restored_def split: option.splits if_splits)
  ultimately show ?thesis using assms(1) f(1-3) by (auto simp: durable_def)
qed

text \<open>What a restart recovers: at a key that is not pending, the circuit itself, unless it was closed without strikes.\<close>

lemma restart_recovers:
  assumes "durable ok row r" "ce_persist env = Some persist" "cp_LoadCircuits persist (cr_store r) = Inr sns" "k \<notin> set (cr_pending r)"
  shows "gm_get (cr_circuits (run_op env DoRestart r)) k =
    (case gm_get (cr_circuits r) k of None \<Rightarrow> None
     | Some entry \<Rightarrow> if c_state entry = CircuitClosed \<and> c_failures entry = 0 then None else Some entry)"
proof -
  note f = restart_circuits(4) [OF assms(1-3), of k]
  have ag: "agrees_at row r k" using assms(1,4) by (simp add: durable_def)
  show ?thesis
  proof (cases "gm_get (cr_circuits r) k")
    case None
    then show ?thesis using f ag by (auto simp: agrees_at_def split: option.splits)
  next
    case (Some entry)
    then have "stamped entry" using assms(1) by (simp add: durable_def)
    then show ?thesis using f ag Some restored_snapshot by (auto simp: agrees_at_def live_def circuitSnapshot_def stamped_def)
  qed
qed

end

end
