(* ===== verification/Circuit_Props.thy ===== *)
theory Circuit_Props
  imports Circuit_Laws
begin

text \<open>
  What routing can rely on: the properties of the circuit registry over any sequence of operations, with
  the table of \<open>dynamic_route.go\<close> as its store, interpreted as a \<open>circuit_store\<close>.
\<close>

section \<open>The table is a circuit store\<close>

definition table_ok :: "circuit_table \<Rightarrow> bool" where
  "table_ok t \<longleftrightarrow> gm_wf (ct_rows t) \<and> (\<forall>k row. gm_get (ct_rows t) k = Some row \<longrightarrow> cw_resource_key row = k)"

definition table_row :: "circuit_table \<Rightarrow> string \<Rightarrow> CircuitSnapshot option" where
  "table_row t k = map_option scan_circuit (gm_get (ct_rows t) k)"

lemma gm_get_mem: "gm_wf m \<Longrightarrow> (k, v) \<in> set m \<longleftrightarrow> gm_get m k = Some v"
  by (simp add: gm_wf_def gm_get_def)

lemma nullable_scan: "(case nullableTime t of None \<Rightarrow> 0 | Some u \<Rightarrow> u) = t"
  by (simp add: nullableTime_def IsZero_def)

lemma sort_distinct: "distinct xs \<Longrightarrow> sort xs = sorted_list_of_set (set xs)"
  by (simp add: sorted_list_of_set_sort_remdups distinct_remdups_id)

interpretation ct: circuit_store "table_persistence now" table_ok table_row for now
proof unfold_locales
  fix s sn s' assume ok: "table_ok s" and up: "cs_UpdatedAt sn \<noteq> 0" and save: "cp_SaveCircuit (table_persistence now) sn s = (None, s')"
  define row where "row = \<lparr>cw_resource_key = cs_Key sn, cw_state = cs_State sn, cw_until_at = nullableTime (cs_Until sn),
      cw_code = cs_Code sn, cw_probe_until = nullableTime (cs_ProbeUntil sn), cw_failure_count = cs_Failures sn, cw_updated_at = cs_UpdatedAt sn\<rparr>"
  have "ct_rows s' = gm_put (cs_Key sn) row (ct_rows s)"
    using save up by (auto simp: table_persistence_def SaveCircuit_def IsZero_def row_def split: list.splits bool.splits)
  moreover have "scan_circuit row = sn" by (simp add: row_def scan_circuit_def nullable_scan)
  ultimately show "table_ok s' \<and> table_row s' = (table_row s)(cs_Key sn \<mapsto> sn)"
    using ok by (auto simp: table_ok_def table_row_def fun_eq_iff row_def)
next
  fix s sn err s' assume "table_ok s" "cp_SaveCircuit (table_persistence now) sn s = (Some err, s')"
  then show "table_ok s' \<and> table_row s' = table_row s"
    by (auto simp: table_persistence_def SaveCircuit_def table_ok_def table_row_def fun_eq_iff Let_def split: list.splits bool.splits)
next
  fix s sns assume ok: "table_ok s" and load: "cp_LoadCircuits (table_persistence now) s = Inr sns"
  let ?rows = "filter (\<lambda>row. cw_state row \<noteq> CircuitClosed \<or> cw_failure_count row > 0) (map snd (ct_rows s))"
  have sns: "sns = map scan_circuit (sort_key cw_resource_key ?rows)" using load by (simp add: table_persistence_def LoadCircuits_def)
  have mem: "(k, row) \<in> set (ct_rows s) \<Longrightarrow> gm_get (ct_rows s) k = Some row \<and> cw_resource_key row = k" for k row
    using ok by (auto simp: table_ok_def gm_get_mem)
  then have "map cw_resource_key (map snd (ct_rows s)) = map fst (ct_rows s)" by auto
  then have "distinct (map cw_resource_key (map snd (ct_rows s)))" using ok unfolding table_ok_def gm_wf_def by metis
  then have "distinct (map cw_resource_key ?rows)" by (rule distinct_map_filter)
  moreover have "map cs_Key sns = map cw_resource_key (sort_key cw_resource_key ?rows)" by (simp add: sns scan_circuit_def)
  ultimately have dist: "distinct (map cs_Key sns)" by (simp add: distinct_map)
  have "sn \<in> set sns \<longleftrightarrow> table_row s (cs_Key sn) = Some sn \<and> live sn" for sn
  proof
    assume "sn \<in> set sns"
    then obtain k row where "(k, row) \<in> set (ct_rows s)" "sn = scan_circuit row" "cw_state row \<noteq> CircuitClosed \<or> cw_failure_count row > 0"
      by (auto simp: sns)
    then show "table_row s (cs_Key sn) = Some sn \<and> live sn" using mem by (auto simp: table_row_def live_def scan_circuit_def)
  next
    assume "table_row s (cs_Key sn) = Some sn \<and> live sn"
    then obtain row where "gm_get (ct_rows s) (cs_Key sn) = Some row" "sn = scan_circuit row" "live sn" by (auto simp: table_row_def)
    then have "row \<in> set ?rows" using map_of_SomeD [of "ct_rows s"] by (force simp: gm_get_def live_def scan_circuit_def)
    with \<open>sn = scan_circuit row\<close> show "sn \<in> set sns" by (auto simp: sns)
  qed
  with dist show "distinct (map cs_Key sns) \<and> set sns = {sn. table_row s (cs_Key sn) = Some sn \<and> live sn}" by blast
qed

text \<open>The environment of a call: the clock, the table and some order of the pending keys.\<close>

definition table_env :: "circuit_table circuit_env \<Rightarrow> bool" where
  "table_env env \<longleftrightarrow> ce_now env \<noteq> 0 \<and> ce_persist env = Some (table_persistence (ce_now env))"

definition circuits_from :: "bool list \<Rightarrow> circuit_table CircuitRegistry \<Rightarrow> bool" where
  "circuits_from faults r \<longleftrightarrow> (\<exists>ops. list_all (\<lambda>(env, op). table_env env) ops \<and>
     r = run_ops ops (NewCircuitRegistry \<lparr>ct_rows = [], ct_faults = faults\<rparr>))"

lemma table_loads: "cp_LoadCircuits (table_persistence now) s = Inr (map scan_circuit (sort_key cw_resource_key
     (filter (\<lambda>row. cw_state row \<noteq> CircuitClosed \<or> cw_failure_count row > 0) (map snd (ct_rows s)))))"
  by (simp add: table_persistence_def LoadCircuits_def)

lemma circuits_durable: "circuits_from faults r \<Longrightarrow> durable table_ok table_row r"
proof -
  assume "circuits_from faults r"
  then obtain ops where ops: "list_all (\<lambda>(env, op). table_env env) ops" and r: "r = run_ops ops (NewCircuitRegistry \<lparr>ct_rows = [], ct_faults = faults\<rparr>)"
    by (auto simp: circuits_from_def)
  show ?thesis
    unfolding r
  proof (rule run_ops_induct)
    show "durable table_ok table_row (NewCircuitRegistry \<lparr>ct_rows = [], ct_faults = faults\<rparr>)"
      by (simp add: durable_def NewCircuitRegistry_def table_ok_def table_row_def agrees_at_def)
  next
    fix env op and r :: "circuit_table CircuitRegistry"
    assume "(env, op) \<in> set ops" and d: "durable table_ok table_row r"
    then have e: "ce_now env \<noteq> 0" "ce_persist env = Some (table_persistence (ce_now env))"
      using ops by (auto simp: list_all_iff table_env_def)
    show "durable table_ok table_row (run_op env op r)"
      using ct.run_op_durable [OF d e(2,1), of op] ct.restart_durable [OF d e(2) table_loads] by (cases "op = DoRestart") auto
  qed
qed

section \<open>Properties\<close>

text \<open>
  C10: An owner-release hold is sticky.  Once a circuit is held, whatever sequence of registry operations
  runs in the process, with any store and any clock, short of a release of this hold and of a restart, it is still held
  (a restart reloads the store, and a hold whose write was refused is lost with the memory); it is reported
  open, it suspends fixed-profile dispatches at every instant, and no probe lease is granted on it.
\<close>

theorem hold_is_sticky:
  assumes "IsHeld k r" "k \<noteq> ''''" "list_all (\<lambda>(env, op). op \<noteq> DoReleaseHold k \<and> op \<noteq> DoRestart) ops"
  defines "r' \<equiv> run_ops ops r"
  shows "IsHeld k r' \<and> IsOpen k now r' \<and> ActiveSuspension k now r' \<noteq> None \<and> AcquireProbe env k duration r' = (None, r')"
proof -
  have "IsHeld k r'"
    unfolding r'_def using assms(1) by (rule run_ops_induct) (use assms(3) hold_kept in \<open>fastforce simp: list_all_iff\<close>)
  moreover then obtain entry where "gm_get (cr_circuits r') k = Some entry" "held entry" by (auto simp: IsHeld_def held_at_get)
  ultimately show ?thesis using assms(2)
    by (auto simp: IsOpen_def ActiveSuspension_def AcquireProbe_def blocksFixedDispatchAt_def Let_def held_def)
qed

definition ex_circuit_env :: "time \<Rightarrow> circuit_table circuit_env" where
  "ex_circuit_env now = \<lparr>ce_now = now, ce_persist = Some (table_persistence now), ce_order = id\<rparr>"

definition ex_registry :: "bool list \<Rightarrow> circuit_table CircuitRegistry" where
  "ex_registry faults = NewCircuitRegistry \<lparr>ct_rows = [], ct_faults = faults\<rparr>"

definition ex_failure :: FailureOpen where
  "ex_failure = \<lparr>fo_Code = CodeRateLimited, fo_Now = 0, fo_ResetHint = None, fo_ResetHintInferred = False\<rparr>"

definition ex_held :: "circuit_table CircuitRegistry" where
  "ex_held = snd (Hold (ex_circuit_env 1) ''account_block:p'' CodeAccountBlocked (ex_registry []))"

definition ex_afterwards :: "(circuit_table circuit_env \<times> circuit_op) list" where
  "ex_afterwards = [(ex_circuit_env 2, DoOpenFailure ''account_block:p'' ex_failure), (ex_circuit_env 3, DoResetFailures ''account_block:p''), (ex_circuit_env 4, DoReleaseHold ''account_block:q'')]"

theorem hold_is_sticky_witness:
  "IsHeld ''account_block:p'' ex_held \<and> IsHeld ''account_block:p'' (run_ops ex_afterwards ex_held) \<and>
   IsOpen ''account_block:p'' 9 (run_ops ex_afterwards ex_held)"
proof -
  have h: "IsHeld ''account_block:p'' ex_held" by code_simp
  moreover have "list_all (\<lambda>(env, op). op \<noteq> DoReleaseHold ''account_block:p'' \<and> op \<noteq> DoRestart) ex_afterwards" by (simp add: ex_afterwards_def)
  ultimately show ?thesis using hold_is_sticky [OF h, of ex_afterwards 9] by simp
qed

text \<open>
  C15: A probe lease is exclusive.  When a lease of at most one minute was granted on a circuit, no other
  lease is granted on it before the first one expires, whatever routing operations run in between with
  a clock that does not run backwards: failures, releases of probes, holds and their release, or resets.
\<close>

theorem probe_exclusive:
  assumes "AcquireProbe env k duration r = (Some lease, r1)" "duration \<le> circuitBackoff"
    and "list_all (\<lambda>(env', op). routing_op env' op \<and> ce_now env \<le> ce_now env') ops"
    and "ce_now env'' < l_ExpiresAt lease"
  shows "AcquireProbe env'' k duration' (run_ops ops r1) = (None, run_ops ops r1)"
proof -
  let ?t = "l_ExpiresAt lease"
  have t: "?t = ce_now env + duration" and g: "guarded_at ?t k r1"
    using assms(1) by (auto simp: AcquireProbe_def Let_def guarded_at_def guarded_def split: if_splits option.splits)
  have "guarded_at ?t k (run_ops ops r1)"
    using g by (rule run_ops_induct) (use assms(2,3) t guarded_kept in \<open>fastforce simp: list_all_iff\<close>)
  then show ?thesis using guarded_refuses assms(4) by blast
qed

definition ex_probed :: "circuit_table CircuitRegistry" where
  "ex_probed = OpenFailure (ex_circuit_env 1) ''model:m'' ex_failure (ex_registry [])"

definition ex_lease :: "ProbeLease option \<times> circuit_table CircuitRegistry" where
  "ex_lease = AcquireProbe (ex_circuit_env (2 * Minute)) ''model:m'' (30 * Second) ex_probed"

definition ex_between :: "(circuit_table circuit_env \<times> circuit_op) list" where
  "ex_between = [(ex_circuit_env (2 * Minute + 1), DoAcquireProbe ''model:m'' Minute),
     (ex_circuit_env (2 * Minute + 2), DoReleaseProbe \<lparr>l_Key = ''model:m'', l_ExpiresAt = 2 * Minute + 30 * Second\<rparr> False circuitBackoff),
     (ex_circuit_env (2 * Minute + 3), DoOpenFailure ''model:m'' ex_failure)]"

theorem probe_exclusive_witness:
  "fst ex_lease = Some \<lparr>l_Key = ''model:m'', l_ExpiresAt = 2 * Minute + 30 * Second\<rparr> \<and>
   fst (AcquireProbe (ex_circuit_env (2 * Minute + 20 * Second)) ''model:m'' Minute (run_ops ex_between (snd ex_lease))) = None"
proof
  show lease: "fst ex_lease = Some \<lparr>l_Key = ''model:m'', l_ExpiresAt = 2 * Minute + 30 * Second\<rparr>" by code_simp
  then have acquired: "AcquireProbe (ex_circuit_env (2 * Minute)) ''model:m'' (30 * Second) ex_probed =
      (Some \<lparr>l_Key = ''model:m'', l_ExpiresAt = 2 * Minute + 30 * Second\<rparr>, snd ex_lease)" by (simp add: ex_lease_def prod_eq_iff)
  have ops: "list_all (\<lambda>(env', op). routing_op env' op \<and> ce_now (ex_circuit_env (2 * Minute)) \<le> ce_now env') ex_between"
    by (simp add: ex_between_def routing_op_def ex_circuit_env_def ex_failure_def)
  show "fst (AcquireProbe (ex_circuit_env (2 * Minute + 20 * Second)) ''model:m'' Minute (run_ops ex_between (snd ex_lease))) = None"
    using probe_exclusive [OF acquired _ ops, of "ex_circuit_env (2 * Minute + 20 * Second)" Minute]
    by (simp add: circuitBackoff_def ex_circuit_env_def)
qed

text \<open>
  C26: How long a failure closes a resource.  A qualifying failure on a circuit that is not held opens it
  from the failure on for at least a minute; it counts one more consecutive failure, unless the circuit
  was still open for counted failures, which is the same incident; the deadline is never before that of
  the same incident and it is exact: the rung of the ladder for the count, or a later reset hint, where an
  inferred hint counts for at most a day.  Without a hint and outside an incident it is at most four hours.
\<close>

theorem open_failure_exact:
  fixes env :: "'s circuit_env" and failure :: FailureOpen
  assumes "key \<noteq> ''''" "\<not> IsHeld key r" "0 < failure_time env failure"
  defines "now \<equiv> failure_time env failure" and "c \<equiv> circuit_at r key" and "c' \<equiv> circuit_at (OpenFailure env key failure r) key"
  defines "same \<equiv> c_state c = CircuitOpen \<and> c_failures c > 0 \<and> now < c_until c"
  shows "c_state c' = CircuitOpen \<and> c_code c' = fo_Code failure \<and> c_failures c' = (if same then c_failures c else c_failures c + 1) \<and>
    c_until c' = max (max (now + escalatedBackoff (c_failures c')) (boundedResetHint failure now)) (if same then c_until c else 0) \<and>
    now + Minute \<le> c_until c' \<and>
    (\<not> same \<and> fo_ResetHint failure = None \<longrightarrow> c_until c' \<le> now + 4 * Hour) \<and>
    (\<not> same \<and> fo_ResetHintInferred failure \<longrightarrow> c_until c' \<le> now + 24 * Hour)"
proof -
  have pos: "0 < now + escalatedBackoff n" for n
    using assms(3) escalated_bounds(1) [of n] by (simp add: now_def circuitBackoff_def)
  have "c' = opened_circuit now failure c"
    using assms(1,2) by (simp add: c'_def c_def now_def OpenFailure_def Let_def IsHeld_def)
  then have st: "c_state c' = CircuitOpen" "c_code c' = fo_Code failure" "c_failures c' = (if same then c_failures c else c_failures c + 1)"
      and until: "c_until c' = max (max (now + escalatedBackoff (c_failures c')) (boundedResetHint failure now)) (if same then c_until c else 0)"
    using pos [of "c_failures c"] pos [of "c_failures c + 1"]
    by (auto simp: opened_circuit_def same_def Let_def After_def max_def)
  have b: "Minute \<le> escalatedBackoff n" "escalatedBackoff n \<le> 4 * Hour" for n using escalated_bounds [of n] by (simp_all add: circuitBackoff_def)
  have "now + Minute \<le> c_until c'" unfolding until using b(1) [of "c_failures c'"] by (simp add: max_def)
  moreover have "c_until c' \<le> now + 4 * Hour" if "\<not> same \<and> fo_ResetHint failure = None"
    unfolding until using that b(2) [of "c_failures c'"] assms(3) by (simp add: boundedResetHint_def now_def)
  moreover have "c_until c' \<le> now + 24 * Hour" if "\<not> same \<and> fo_ResetHintInferred failure"
    unfolding until using that b(2) [of "c_failures c'"] assms(3) by (auto simp: boundedResetHint_def now_def After_def split: option.splits)
  ultimately show ?thesis using st until by blast
qed

theorem open_failure_exact_witness:
  "\<not> IsHeld ''model:m'' ex_probed \<and> c_failures (circuit_at ex_probed ''model:m'') = 1 \<and>
   c_failures (circuit_at (OpenFailure (ex_circuit_env (5 * Minute)) ''model:m'' ex_failure ex_probed) ''model:m'') = 2 \<and>
   c_until (circuit_at (OpenFailure (ex_circuit_env (5 * Minute)) ''model:m'' ex_failure ex_probed) ''model:m'') \<le> 5 * Minute + 4 * Hour"
proof -
  have h: "\<not> IsHeld ''model:m'' ex_probed" and c: "circuit_at ex_probed ''model:m'' = \<lparr>c_state = CircuitOpen, c_until = 1 + Minute, c_code = CodeRateLimited, c_probeUntil = 0, c_failures = 1, c_updatedAt = 1\<rparr>"
    by code_simp+
  have t: "failure_time (ex_circuit_env 300000000000) ex_failure = 300000000000" "fo_ResetHint ex_failure = None"
    by (simp_all add: failure_time_def ex_circuit_env_def ex_failure_def IsZero_def)
  show ?thesis using open_failure_exact [of "''model:m''" ex_probed "ex_circuit_env 300000000000" ex_failure] h by (auto simp: t c simp del: max.bounded_iff)
qed

text \<open>
  C24: Restarts.  Start from an empty table and run any operations and restarts, with a database that
  refuses any of the writes.  At every key whose last write was not refused, another restart brings back
  the circuit, so that holds, open circuits and suspensions are the same as before it; and when no write
  is pending, the registry reports the same circuits as before the restart.
\<close>

theorem restart_keeps_circuits:
  assumes "circuits_from faults r" "table_env env"
  defines "r' \<equiv> run_op env DoRestart r"
  shows "(k \<notin> set (cr_pending r) \<longrightarrow> IsHeld k r' = IsHeld k r \<and> IsOpen k now r' = IsOpen k now r \<and> ActiveSuspension k now r' = ActiveSuspension k now r) \<and>
    (cr_pending r = [] \<longrightarrow> Snapshots r' = Snapshots r)"
proof -
  have d: "durable table_ok table_row r" using circuits_durable [OF assms(1)] .
  have e: "ce_persist env = Some (table_persistence (ce_now env))" using assms(2) by (simp add: table_env_def)
  note rec = ct.restart_recovers [OF d e table_loads, folded r'_def]
  have wf: "gm_wf (cr_circuits r)" "gm_wf (cr_circuits r')"
    using d ct.restart_circuits(3) [OF d e table_loads] by (simp_all add: durable_def r'_def)
  have "IsHeld k r' = IsHeld k r \<and> IsOpen k now r' = IsOpen k now r \<and> ActiveSuspension k now r' = ActiveSuspension k now r"
    if "k \<notin> set (cr_pending r)"
  proof (cases "gm_get (cr_circuits r) k")
    case None
    with rec [OF that] show ?thesis by (simp add: IsHeld_def IsOpen_def ActiveSuspension_def circuit_at_def)
  next
    case (Some entry)
    with rec [OF that] show ?thesis
      by (cases "c_state entry = CircuitClosed \<and> c_failures entry = 0")
         (auto simp: IsHeld_def IsOpen_def ActiveSuspension_def circuit_at_def held_def zero_circuit_def)
  qed
  moreover have "Snapshots r' = Snapshots r" if "cr_pending r = []"
  proof -
    let ?live = "\<lambda>(key, entry). \<not> (c_state entry = CircuitClosed \<and> c_failures entry = 0)"
    have get: "gm_get (cr_circuits r') k = (case gm_get (cr_circuits r) k of None \<Rightarrow> None
        | Some entry \<Rightarrow> if c_state entry = CircuitClosed \<and> c_failures entry = 0 then None else Some entry)" for k
      using rec that by simp
    have "set (filter ?live (cr_circuits r')) = set (filter ?live (cr_circuits r))"
      using get wf by (auto simp: gm_get_mem split: option.splits if_splits)
    then have keys: "set (map fst (filter ?live (cr_circuits r'))) = set (map fst (filter ?live (cr_circuits r)))" by simp
    have dist: "distinct (map fst (filter ?live (cr_circuits r')))" "distinct (map fst (filter ?live (cr_circuits r)))"
      using wf by (simp_all add: gm_wf_def distinct_fst_filter)
    have "sort (map fst (filter ?live (cr_circuits r'))) = sort (map fst (filter ?live (cr_circuits r)))"
      by (simp only: sort_distinct [OF dist(1)] sort_distinct [OF dist(2)] keys)
    moreover have "circuit_at r' k = circuit_at r k" if "k \<in> set (map fst (filter ?live (cr_circuits r)))" for k
      using that get [of k] wf by (auto simp: circuit_at_def gm_get0_def gm_get_mem)
    ultimately show ?thesis by (simp add: Snapshots_def Let_def)
  qed
  ultimately show ?thesis by blast
qed

definition ex_run :: "(circuit_table circuit_env \<times> circuit_op) list" where
  "ex_run = [(ex_circuit_env 1, DoOpenFailure ''model:m'' ex_failure), (ex_circuit_env 2, DoHold ''account_block:p'' CodeAccountBlocked), (ex_circuit_env 3, DoHold ''account_block:q'' CodeAccountBlocked)]"

definition ex_recovered :: "circuit_table CircuitRegistry" where
  "ex_recovered = run_ops ex_run (ex_registry [True, False, False, False])"

lemma ex_recovered_from: "circuits_from [True, False, False, False] ex_recovered"
  unfolding circuits_from_def ex_recovered_def ex_registry_def
  by (intro exI [of _ ex_run]) (simp add: ex_run_def table_env_def ex_circuit_env_def)

theorem restart_keeps_circuits_witness:
  "cr_pending ex_recovered = [] \<and> length (Snapshots ex_recovered) = 3 \<and> Snapshots (run_op (ex_circuit_env 9) DoRestart ex_recovered) = Snapshots ex_recovered \<and>
   IsHeld ''account_block:p'' (run_op (ex_circuit_env 9) DoRestart ex_recovered)"
proof -
  have p: "cr_pending ex_recovered = []" "length (Snapshots ex_recovered) = 3" "IsHeld ''account_block:p'' ex_recovered" by code_simp+
  have "table_env (ex_circuit_env 9)" by (simp add: table_env_def ex_circuit_env_def)
  from restart_keeps_circuits [OF ex_recovered_from this, of "''account_block:p''"] p show ?thesis by simp
qed

text \<open>
  C28: A release is durable or it did not happen.  When \<open>ReleaseHold\<close> reports success the circuit is closed,
  and it is still not held after a restart; when the database refuses the write, the hold stays in place
  and the error is returned.
\<close>

theorem release_is_durable:
  assumes "circuits_from faults r" "table_env env" "table_env env'" "IsHeld k r" "k \<noteq> ''''"
  shows "case ReleaseHold env k r of
      ((True, err), r') \<Rightarrow> err = None \<and> \<not> IsHeld k r' \<and> \<not> IsHeld k (run_op env' DoRestart r')
    | ((False, err), r') \<Rightarrow> err \<noteq> None \<and> IsHeld k r'"
proof -
  have d: "durable table_ok table_row r" using circuits_durable [OF assms(1)] .
  have e: "ce_now env \<noteq> 0" "ce_persist env = Some (table_persistence (ce_now env))" using assms(2) by (simp_all add: table_env_def)
  have e': "ce_persist env' = Some (table_persistence (ce_now env'))" using assms(3) by (simp add: table_env_def)
  obtain entry where entry: "gm_get (cr_circuits r) k = Some entry" "held entry" using assms(4) by (auto simp: IsHeld_def held_at_get)
  let ?z = "zero_circuit\<lparr>c_state := CircuitClosed, c_updatedAt := ce_now env\<rparr>"
  let ?p = "persistSnapshotLocked env k (put_circuit k ?z (flushPendingLocked env k r))"
  have z: "stamped ?z" using e(1) by (simp add: stamped_def zero_circuit_def)
  note except = ct.put_except [OF ct.flush_durable [OF e(2) d] z, of k k]
  have run: "ReleaseHold env k r = (if fst ?p \<noteq> None then ((False, fst ?p), put_circuit k entry (snd ?p)) else ((True, None), snd ?p))"
    using assms(5) entry by (simp add: ReleaseHold_def Let_def case_prod_beta)
  show ?thesis
  proof (cases "fst ?p")
    case None
    have "gm_get (cr_circuits (run_op env' DoRestart (snd ?p))) k = None"
      using ct.restart_recovers [OF ct.persist_durable(1) [OF except e(2)] e' table_loads ct.persist_durable(3) [OF except e(2) None]]
      by (simp add: zero_circuit_def)
    then have "\<not> IsHeld k (run_op env' DoRestart (snd ?p))" by (simp add: IsHeld_def held_at_get)
    moreover have "\<not> IsHeld k (snd ?p)" by (simp add: IsHeld_def held_def)
    ultimately show ?thesis using None by (simp add: run)
  next
    case (Some err)
    then show ?thesis using entry(2) by (simp add: run IsHeld_def)
  qed
qed

theorem release_is_durable_witness:
  "fst (ReleaseHold (ex_circuit_env 5) ''account_block:p'' ex_recovered) = (True, None) \<and>
   \<not> IsHeld ''account_block:p'' (run_op (ex_circuit_env 6) DoRestart (snd (ReleaseHold (ex_circuit_env 5) ''account_block:p'' ex_recovered)))"
proof -
  have run: "fst (ReleaseHold (ex_circuit_env 5) ''account_block:p'' ex_recovered) = (True, None)" and h: "IsHeld ''account_block:p'' ex_recovered" by code_simp+
  have "table_env (ex_circuit_env 5)" "table_env (ex_circuit_env 6)" by (simp_all add: table_env_def ex_circuit_env_def)
  from release_is_durable [OF ex_recovered_from this h] run show ?thesis by (cases "ReleaseHold (ex_circuit_env 5) ''account_block:p'' ex_recovered") auto
qed

end
