(* ===== verification/Dynamic_Types.thy ===== *)
theory Dynamic_Types
  imports Circuits Go_Strings
begin

text \<open>
  The data of dynamic routing (\<open>agent/runtime/dynamic/types.go\<close>): profiles with their candidates, the durable
  state of a route, the evidence for an unclassified failure, and the interfaces of the repository, as
  records of functions on an arbitrary store.  An interface that a repository may lack is an option.
\<close>

section \<open>Profiles and routes\<close>

type_synonym RuleAction = string

abbreviation ActionRetrySame :: RuleAction where "ActionRetrySame \<equiv> ''retry_same''"
abbreviation ActionTryNext :: RuleAction where "ActionTryNext \<equiv> ''try_next''"
abbreviation ActionStop :: RuleAction where "ActionStop \<equiv> ''stop''"

abbreviation routeStatusStarting :: string where "routeStatusStarting \<equiv> ''starting''"
abbreviation routeStatusActive :: string where "routeStatusActive \<equiv> ''active''"
abbreviation routeStatusActionRequired :: string where "routeStatusActionRequired \<equiv> ''action_required''"
abbreviation routeStatusRetrying :: string where "routeStatusRetrying \<equiv> ''retrying''"

record Candidate =
  cd_ID :: string
  cd_Enabled :: bool
  cd_BindingKey :: string
  cd_Rules :: "(string, RuleAction) gomap"
  cd_Policies :: Document

record Profile =
  pf_ID :: string
  pf_Version :: int
  pf_Candidates :: "Candidate list"

record RouteState =
  rs_SessionID :: string
  rs_LogicalProfileID :: string
  rs_ExecutionProfileID :: string
  rs_Generation :: int
  rs_ProfileVersion :: int
  rs_Status :: string
  rs_ContinuationJSON :: string
  rs_PolicyStateJSON :: string
  rs_UpdatedAt :: time

type_synonym UnclassifiedFailureOrigin = string

abbreviation UnclassifiedOriginTerminalProvider :: UnclassifiedFailureOrigin where
  "UnclassifiedOriginTerminalProvider \<equiv> ''terminal_provider_result''"
abbreviation UnclassifiedOriginAgentStartup :: UnclassifiedFailureOrigin where
  "UnclassifiedOriginAgentStartup \<equiv> ''agent_startup''"
abbreviation UnclassifiedOriginEmptyTurn :: UnclassifiedFailureOrigin where
  "UnclassifiedOriginEmptyTurn \<equiv> ''empty_turn_completion''"

record UnclassifiedStreak =
  us_Version :: int
  us_LogicalProfileID :: string
  us_ExecutionProfileID :: string
  us_ProfileVersion :: int
  us_StepID :: string
  us_StepUpdatedAt :: time
  us_Fingerprint :: string
  us_Origin :: UnclassifiedFailureOrigin
  us_Phase :: Phase
  us_Count :: int
  us_LastAttemptID :: string
  us_LastRouteGeneration :: int

definition valid_streak :: "UnclassifiedStreak option \<Rightarrow> bool" where
  "valid_streak streak = (case streak of
       None \<Rightarrow> False
     | Some s \<Rightarrow> us_Version s = 1 \<and> us_LogicalProfileID s \<noteq> '''' \<and> us_ExecutionProfileID s \<noteq> '''' \<and> us_ProfileVersion s \<ge> 0 \<and>
         us_Fingerprint s \<noteq> '''' \<and> us_Origin s \<noteq> '''' \<and> us_Phase s \<noteq> '''' \<and> us_Count s \<ge> 1 \<and> us_Count s \<le> 10 \<and>
         us_LastAttemptID s \<noteq> '''' \<and> us_LastRouteGeneration s > 0)"

text \<open>The map of classes whose reset wait was used may be nil.\<close>

record PolicyState =
  ps_FailureCode :: Code
  ps_FailureClass :: Class
  ps_CatalogueVersion :: string
  ps_PolicyJSON :: string
  ps_RetryOrdinal :: int
  ps_ResetWaitUsed :: bool
  ps_ResetWaitClasses :: "(Class, bool) gomap option"
  ps_Deadline :: "time option"
  ps_PendingOutcome :: Outcome
  ps_Unclassified :: "UnclassifiedStreak option"

definition zero_policy_state :: PolicyState where
  "zero_policy_state = \<lparr>ps_FailureCode = '''', ps_FailureClass = '''', ps_CatalogueVersion = '''', ps_PolicyJSON = '''',
     ps_RetryOrdinal = 0, ps_ResetWaitUsed = False, ps_ResetWaitClasses = None, ps_Deadline = None,
     ps_PendingOutcome = '''', ps_Unclassified = None\<rparr>"

record RouteDecision =
  rd_SessionID :: string
  rd_LogicalProfileID :: string
  rd_ExecutionProfileID :: string
  rd_Generation :: int
  rd_ProfileVersion :: int
  rd_Reason :: string
  rd_Status :: string
  rd_Deadline :: "time option"
  rd_ErrorCode :: Code
  rd_ErrorClass :: Class
  rd_CatalogueVersion :: string
  rd_RetryOrdinal :: int
  rd_PendingOutcome :: Outcome

definition no_route :: RouteDecision where
  "no_route = \<lparr>rd_SessionID = '''', rd_LogicalProfileID = '''', rd_ExecutionProfileID = '''', rd_Generation = 0, rd_ProfileVersion = 0,
     rd_Reason = '''', rd_Status = '''', rd_Deadline = None, rd_ErrorCode = '''', rd_ErrorClass = '''', rd_CatalogueVersion = '''',
     rd_RetryOrdinal = 0, rd_PendingOutcome = ''''\<rparr>"

text \<open>The decision that repeats a route's own fields.\<close>

definition route_decision :: "RouteState \<Rightarrow> string \<Rightarrow> RouteDecision" where
  "route_decision state reason = no_route\<lparr>rd_SessionID := rs_SessionID state, rd_LogicalProfileID := rs_LogicalProfileID state,
     rd_ExecutionProfileID := rs_ExecutionProfileID state, rd_Generation := rs_Generation state, rd_ProfileVersion := rs_ProfileVersion state,
     rd_Reason := reason, rd_Status := rs_Status state\<rparr>"

record RouteAttempt =
  ra_SessionID :: string
  ra_LogicalProfileID :: string
  ra_ExecutionProfileID :: string
  ra_Generation :: int
  ra_ProfileVersion :: int
  ra_Reason :: string
  ra_CreatedAt :: time

section \<open>Evidence of an unclassified failure\<close>

record UnclassifiedFailureEvidence =
  uf_TaskScope :: bool
  uf_TaskID :: string
  uf_WorkflowID :: string
  uf_SessionID :: string
  uf_LogicalProfileID :: string
  uf_ExecutionProfileID :: string
  uf_RouteGeneration :: int
  uf_StepID :: string
  uf_StepUpdatedAt :: time
  uf_StepKnown :: bool
  uf_StepVeto :: bool
  uf_AttemptID :: string
  uf_Origin :: UnclassifiedFailureOrigin
  uf_Phase :: Phase
  uf_ProviderID :: string
  uf_DiagnosticText :: string
  uf_DiagnosticComplete :: bool
  uf_CurrentAttempt :: bool
  uf_EvidenceKnown :: bool
  uf_OutputObserved :: bool
  uf_EffectObserved :: bool

definition currentFor :: "UnclassifiedFailureEvidence \<Rightarrow> string \<Rightarrow> Profile \<Rightarrow> string \<Rightarrow> int \<Rightarrow> bool" where
  "currentFor e sessionID profile candidateID generation \<longleftrightarrow>
     uf_TaskScope e \<and> uf_TaskID e \<noteq> '''' \<and> uf_CurrentAttempt e \<and> uf_SessionID e = sessionID \<and>
     uf_LogicalProfileID e = pf_ID profile \<and> uf_ExecutionProfileID e = candidateID \<and>
     uf_RouteGeneration e = generation \<and> uf_AttemptID e \<noteq> ''''"

definition waivesProviderDiagnostic :: "UnclassifiedFailureEvidence \<Rightarrow> bool" where
  "waivesProviderDiagnostic e \<longleftrightarrow> uf_Origin e = UnclassifiedOriginEmptyTurn"

definition safeBeforeResult :: "UnclassifiedFailureEvidence \<Rightarrow> bool" where
  "safeBeforeResult e \<longleftrightarrow>
     uf_TaskScope e \<and> uf_TaskID e \<noteq> '''' \<and> uf_StepKnown e \<and> \<not> uf_StepVeto e \<and>
     uf_EvidenceKnown e \<and> \<not> uf_OutputObserved e \<and> \<not> uf_EffectObserved e \<and>
     (uf_DiagnosticComplete e \<or> waivesProviderDiagnostic e)"

definition trustedFailureShape :: "UnclassifiedFailureEvidence \<Rightarrow> Error \<Rightarrow> bool" where
  "trustedFailureShape e failure =
     (if e_UserAction failure then False
      else if e_Class failure \<noteq> '''' \<and> e_Class failure \<noteq> ClassUnclassified then False
      else \<not> (ClassForCode (e_Code failure) \<noteq> ClassUnclassified \<or> e_Phase failure \<noteq> uf_Phase e \<or>
              (uf_ProviderID e = '''' \<and> \<not> waivesProviderDiagnostic e)))"

definition failureMatchesOrigin :: "UnclassifiedFailureEvidence \<Rightarrow> Error \<Rightarrow> bool" where
  "failureMatchesOrigin e failure =
     (if uf_Origin e = UnclassifiedOriginTerminalProvider then e_Code failure = CodeUnknownProvider \<and> uf_Phase e = PhasePromptSend
      else if uf_Origin e = UnclassifiedOriginAgentStartup then
        e_Code failure = CodeAgentRuntime \<and> (uf_Phase e = PhaseProcessStart \<or> uf_Phase e = PhaseSessionInit)
      else if uf_Origin e = UnclassifiedOriginEmptyTurn then e_Code failure = CodeAgentRuntime \<and> uf_Phase e = PhasePromptSend
      else False)"

definition permits :: "UnclassifiedFailureEvidence \<Rightarrow> Error \<Rightarrow> bool" where
  "permits e failure = (if \<not> safeBeforeResult e \<or> \<not> trustedFailureShape e failure then False else failureMatchesOrigin e failure)"

section \<open>Errors and interfaces\<close>

datatype rerror =
    ErrStaleGeneration
  | ErrNoEligibleCandidate
  | NoEligibleCandidateError string string int
  | ErrRouteStateNotFound
  | ErrRecoveryPending string
  | ErrRecoveryNotDue
  | ErrStatusClaimUnsupported
  | ErrExecutionProfileHeld
  | ErrUnclassifiedWorkflowContextChanged
  | ErrUnclassifiedWorkflowContextUnavailable
  | ErrDecode
  | ErrEncode
  | ErrStore string

record 's Persistence =
  p_SaveRouteState :: "RouteState \<Rightarrow> 's \<Rightarrow> rerror option \<times> 's"
  p_AppendRouteAttempt :: "RouteAttempt \<Rightarrow> 's \<Rightarrow> rerror option \<times> 's"
  p_ClaimRouteState :: "(int \<Rightarrow> RouteState \<Rightarrow> 's \<Rightarrow> (rerror + bool) \<times> 's) option"
  p_ClaimRouteStateFrom :: "(int \<Rightarrow> string \<Rightarrow> RouteState \<Rightarrow> 's \<Rightarrow> (rerror + bool) \<times> 's) option"
  p_ClaimRouteStateFromSnapshot :: "(int \<Rightarrow> string \<Rightarrow> string \<Rightarrow> RouteState \<Rightarrow> 's \<Rightarrow> (rerror + bool) \<times> 's) option"
  p_RecordRouteDecision :: "(RouteDecision \<Rightarrow> RouteState \<Rightarrow> 's \<Rightarrow> rerror option \<times> 's) option"
  p_RecordUnclassifiedRouteDecision :: "(RouteDecision \<Rightarrow> RouteState \<Rightarrow> UnclassifiedFailureEvidence \<Rightarrow> 's \<Rightarrow> rerror option \<times> 's) option"
  p_ClaimUnclassifiedFallbackLaunch :: "(RouteDecision \<Rightarrow> UnclassifiedFailureEvidence \<Rightarrow> 's \<Rightarrow> rerror option \<times> 's) option"

definition actionForRules :: "(string, RuleAction) gomap \<Rightarrow> Code \<Rightarrow> RuleAction" where
  "actionForRules rules code = (case gm_get rules code of
       Some action \<Rightarrow> action
     | None \<Rightarrow> (case gm_get rules ''on_provider_error'' of Some action \<Rightarrow> action | None \<Rightarrow> ActionStop))"

section \<open>The identity of an unclassified failure\<close>

record unclassifiedFingerprintInput =
  fi_Version :: int
  fi_Code :: Code
  fi_Origin :: UnclassifiedFailureOrigin
  fi_Phase :: Phase
  fi_ProviderID :: string
  fi_Diagnostic :: string

definition emptyTurnDiagnostic :: string where
  "emptyTurnDiagnostic = ''end_turn without output''"

text \<open>
  The digest of the JSON text and the sanitizer are parameters.
\<close>

record diagnostics =
  dg_hash :: "unclassifiedFingerprintInput \<Rightarrow> string"
  dg_sanitize :: "string \<Rightarrow> string"

definition unclassifiedFailureFingerprint :: "diagnostics \<Rightarrow> UnclassifiedFailureEvidence \<Rightarrow> Error \<Rightarrow> string option" where
  "unclassifiedFailureFingerprint dg evidence failure =
     (if uf_Origin evidence = UnclassifiedOriginEmptyTurn then
        Some (dg_hash dg \<lparr>fi_Version = 1, fi_Code = e_Code failure, fi_Origin = uf_Origin evidence, fi_Phase = uf_Phase evidence,
          fi_ProviderID = '''', fi_Diagnostic = emptyTurnDiagnostic\<rparr>)
      else
        let diagnostic = uf_DiagnosticText evidence in
        if \<not> uf_DiagnosticComplete evidence \<or> diagnostic = '''' \<or> \<not> ValidString diagnostic \<or> length diagnostic > 1024 \<or>
           dg_sanitize dg diagnostic \<noteq> diagnostic then None
        else
          let diagnostic' = join_with '' '' (Fields diagnostic) in
          if diagnostic' = '''' \<or> TrimSpace (uf_ProviderID evidence) = '''' then None
          else Some (dg_hash dg \<lparr>fi_Version = 1, fi_Code = e_Code failure, fi_Origin = uf_Origin evidence, fi_Phase = uf_Phase evidence,
            fi_ProviderID = uf_ProviderID evidence, fi_Diagnostic = diagnostic'\<rparr>))"

end
