(* ===== verification/Dynamic_Engine.thy ===== *)
theory Dynamic_Engine
  imports Dynamic_Types
begin

text \<open>
  The routing engine (\<open>agent/runtime/dynamic/engine.go\<close>, \<open>account_block.go\<close>, \<open>fixed_profile.go\<close>,
  \<open>failure_circuit.go\<close>, \<open>failure_fence.go\<close>, \<open>failure_reset.go\<close>): selection of a candidate, recovery after
  a failure, and the claims on retries.  A method is one step that reads the clock once; the store is the
  one of the circuit registry.  The JSON codec is a parameter of the environment.
\<close>

section \<open>State and environment\<close>

record 's RoutingEngine =
  en_circuits :: "'s CircuitRegistry"
  en_states :: "(string, RouteState) gomap"
  en_probes :: "(string, ProbeLease) gomap"
  en_retryClaims :: "(string, int) gomap"

record 's engine_env =
  ee_now :: time
  ee_persistence :: "'s Persistence option"
  ee_loader :: "(string \<Rightarrow> 's \<Rightarrow> rerror + RouteState option) option"
  ee_circuit_persistence :: "'s CircuitPersistence option"
  ee_order :: "string list \<Rightarrow> string list"
  ee_marshal :: "PolicyState \<Rightarrow> string"
  ee_unmarshal :: "string \<Rightarrow> PolicyState option"
  ee_marshal_document :: "Document \<Rightarrow> string option"
  ee_diagnostics :: diagnostics

definition NewEngine :: "'s CircuitRegistry \<Rightarrow> 's RoutingEngine" where
  "NewEngine circuits = \<lparr>en_circuits = circuits, en_states = [], en_probes = [], en_retryClaims = []\<rparr>"

definition circuit_env_of :: "'s engine_env \<Rightarrow> 's circuit_env" where
  "circuit_env_of env = \<lparr>ce_now = ee_now env, ce_persist = ee_circuit_persistence env, ce_order = ee_order env\<rparr>"

definition en_store :: "'s RoutingEngine \<Rightarrow> 's" where
  "en_store e = cr_store (en_circuits e)"

definition call_store :: "('s \<Rightarrow> 'a \<times> 's) \<Rightarrow> 's RoutingEngine \<Rightarrow> 'a \<times> 's RoutingEngine" where
  "call_store f e = (let (x, s) = f (en_store e) in (x, e\<lparr>en_circuits := (en_circuits e)\<lparr>cr_store := s\<rparr>\<rparr>))"

definition put_state :: "string \<Rightarrow> RouteState \<Rightarrow> 's RoutingEngine \<Rightarrow> 's RoutingEngine" where
  "put_state sessionID state e = e\<lparr>en_states := gm_put sessionID state (en_states e)\<rparr>"

definition drop_state :: "string \<Rightarrow> 's RoutingEngine \<Rightarrow> 's RoutingEngine" where
  "drop_state sessionID e = e\<lparr>en_states := gm_del sessionID (en_states e)\<rparr>"

definition drop_claim :: "string \<Rightarrow> 's RoutingEngine \<Rightarrow> 's RoutingEngine" where
  "drop_claim sessionID e = e\<lparr>en_retryClaims := gm_del sessionID (en_retryClaims e)\<rparr>"

definition CircuitSnapshots :: "'s RoutingEngine \<Rightarrow> CircuitSnapshot list" where
  "CircuitSnapshots e = Snapshots (en_circuits e)"

definition loadStateLocked :: "'s engine_env \<Rightarrow> string \<Rightarrow> 's RoutingEngine \<Rightarrow> (rerror + RouteState option) \<times> 's RoutingEngine" where
  "loadStateLocked env sessionID e =
     (case gm_get (en_states e) sessionID of
        Some state \<Rightarrow> (Inr (Some state), e)
      | None \<Rightarrow> (case ee_loader env of
          None \<Rightarrow> (Inr None, e)
        | Some load \<Rightarrow> (case load sessionID (en_store e) of
            Inl err \<Rightarrow> (Inl err, e)
          | Inr None \<Rightarrow> (Inr None, e)
          | Inr (Some loaded) \<Rightarrow> (Inr (Some loaded), put_state sessionID loaded e))))"

section \<open>Account blocks\<close>

definition accountBlockKey :: "string \<Rightarrow> string" where
  "accountBlockKey executionProfileID = (if executionProfileID = '''' then '''' else ResourceKey ScopeAccountBlock executionProfileID)"

definition HoldAccountBlock :: "'s engine_env \<Rightarrow> string \<Rightarrow> Code \<Rightarrow> 's RoutingEngine \<Rightarrow> store_error option \<times> 's RoutingEngine" where
  "HoldAccountBlock env executionProfileID code e =
     (let ((established, err), r) = Hold (circuit_env_of env) (accountBlockKey executionProfileID) code (en_circuits e)
      in (err, e\<lparr>en_circuits := r\<rparr>))"

definition ReleaseAccountBlock :: "'s engine_env \<Rightarrow> string \<Rightarrow> 's RoutingEngine \<Rightarrow> (bool \<times> store_error option) \<times> 's RoutingEngine" where
  "ReleaseAccountBlock env executionProfileID e =
     (let (result, r) = ReleaseHold (circuit_env_of env) (accountBlockKey executionProfileID) (en_circuits e)
      in (result, e\<lparr>en_circuits := r\<rparr>))"

section \<open>Selection\<close>

abbreviation probeLeaseDuration :: int where "probeLeaseDuration \<equiv> 30 * Second"

definition probeKey :: "string \<Rightarrow> int \<Rightarrow> string \<Rightarrow> string" where
  "probeKey sessionID generation candidateID = sessionID @ '':'' @ FormatInt generation @ '':'' @ candidateID"

definition candidateSelectable ::
  "'s engine_env \<Rightarrow> Candidate \<Rightarrow> string \<Rightarrow> int \<Rightarrow> string \<Rightarrow> string \<Rightarrow> 's RoutingEngine \<Rightarrow> bool \<times> 's RoutingEngine" where
  "candidateSelectable env candidate sessionID generation excludeProfileID preferredProfileID e =
     (if \<not> cd_Enabled candidate \<or> cd_ID candidate = excludeProfileID then (False, e)
      else if preferredProfileID \<noteq> '''' \<and> cd_ID candidate \<noteq> preferredProfileID then (False, e)
      else if IsHeld (accountBlockKey (cd_ID candidate)) (en_circuits e) then (False, e)
      else if cd_BindingKey candidate = '''' \<or> \<not> IsOpen (cd_BindingKey candidate) (ee_now env) (en_circuits e) then (True, e)
      else case AcquireProbe (circuit_env_of env) (cd_BindingKey candidate) probeLeaseDuration (en_circuits e) of
        (None, r) \<Rightarrow> (False, e\<lparr>en_circuits := r\<rparr>)
      | (Some lease, r) \<Rightarrow>
          (True, e\<lparr>en_circuits := r, en_probes := gm_put (probeKey sessionID generation (cd_ID candidate)) lease (en_probes e)\<rparr>))"

primrec first_selectable ::
  "'s engine_env \<Rightarrow> string \<Rightarrow> int \<Rightarrow> string \<Rightarrow> string \<Rightarrow> Candidate list \<Rightarrow> 's RoutingEngine \<Rightarrow> Candidate option \<times> 's RoutingEngine" where
  "first_selectable env sessionID generation excludeProfileID preferredProfileID [] e = (None, e)"
| "first_selectable env sessionID generation excludeProfileID preferredProfileID (candidate # candidates) e =
     (let (selectable, e1) = candidateSelectable env candidate sessionID generation excludeProfileID preferredProfileID e
      in if selectable then (Some candidate, e1)
         else first_selectable env sessionID generation excludeProfileID preferredProfileID candidates e1)"

definition attempt_of :: "RouteDecision \<Rightarrow> RouteState \<Rightarrow> RouteAttempt" where
  "attempt_of decision state = \<lparr>ra_SessionID = rd_SessionID decision, ra_LogicalProfileID = rd_LogicalProfileID decision,
     ra_ExecutionProfileID = rd_ExecutionProfileID decision, ra_Generation = rd_Generation decision,
     ra_ProfileVersion = rd_ProfileVersion decision, ra_Reason = rd_Reason decision, ra_CreatedAt = rs_UpdatedAt state\<rparr>"

text \<open>A claim that another worker won is a stale generation.\<close>

definition claimed :: "(rerror + bool) \<times> 'a \<Rightarrow> rerror option \<times> 'a" where
  "claimed result = (case result of
       (Inl err, e) \<Rightarrow> (Some err, e)
     | (Inr won, e) \<Rightarrow> (if won then None else Some ErrStaleGeneration, e))"

definition persistNoEligible :: "'s engine_env \<Rightarrow> int \<Rightarrow> RouteState \<Rightarrow> 's RoutingEngine \<Rightarrow> rerror option \<times> 's RoutingEngine" where
  "persistNoEligible env expectedGeneration state e =
     (case ee_persistence env of
        None \<Rightarrow> (None, e)
      | Some p \<Rightarrow> (case p_ClaimRouteState p of
          None \<Rightarrow> call_store (p_SaveRouteState p state) e
        | Some claim \<Rightarrow> claimed (call_store (claim expectedGeneration state) e)))"

definition persist_route :: "'s Persistence \<Rightarrow> RouteDecision \<Rightarrow> RouteState \<Rightarrow> 's RoutingEngine \<Rightarrow> rerror option \<times> 's RoutingEngine" where
  "persist_route p decision state e =
     (let (err, e1) = call_store (p_SaveRouteState p state) e
      in if err \<noteq> None then (err, e1) else call_store (p_AppendRouteAttempt p (attempt_of decision state)) e1)"

definition claimAndPersist :: "'s engine_env \<Rightarrow> int \<Rightarrow> RouteDecision \<Rightarrow> RouteState \<Rightarrow> 's RoutingEngine \<Rightarrow> rerror option \<times> 's RoutingEngine" where
  "claimAndPersist env expectedGeneration decision state e =
     (case ee_persistence env of
        None \<Rightarrow> (None, e)
      | Some p \<Rightarrow> (case p_RecordRouteDecision p of
          Some record_decision \<Rightarrow> call_store (record_decision decision state) e
        | None \<Rightarrow> (case p_ClaimRouteState p of
            Some claim \<Rightarrow>
              (let (err, e1) = claimed (call_store (claim expectedGeneration state) e)
               in if err \<noteq> None then (err, e1) else call_store (p_AppendRouteAttempt p (attempt_of decision state)) e1)
          | None \<Rightarrow> persist_route p decision state e)))"

definition carryUnclassifiedStreak :: "'s engine_env \<Rightarrow> string \<Rightarrow> string \<Rightarrow> string \<Rightarrow> int \<Rightarrow> UnclassifiedPolicy option \<Rightarrow> string" where
  "carryUnclassifiedStreak env raw logicalProfileID executionProfileID profileVersion policy =
     (case policy of
        None \<Rightarrow> ''''
      | Some pol \<Rightarrow>
          if \<not> up_Enabled pol \<or> up_ConsecutiveFailureThreshold pol < 2 \<or> up_ConsecutiveFailureThreshold pol > 10 then ''''
          else case ee_unmarshal env raw of
            None \<Rightarrow> ''''
          | Some previous \<Rightarrow> (case ps_Unclassified previous of
              None \<Rightarrow> ''''
            | Some streak \<Rightarrow>
                if \<not> valid_streak (Some streak) \<or> us_LogicalProfileID streak \<noteq> logicalProfileID \<or>
                   us_ExecutionProfileID streak \<noteq> executionProfileID \<or> us_ProfileVersion streak \<noteq> profileVersion \<or>
                   us_Count streak > up_ConsecutiveFailureThreshold pol then ''''
                else ee_marshal env (zero_policy_state\<lparr>ps_Unclassified := Some streak\<rparr>)))"

definition selected_state :: "'s engine_env \<Rightarrow> string \<Rightarrow> Profile \<Rightarrow> int \<Rightarrow> RouteState option \<Rightarrow> Candidate \<Rightarrow> RouteState" where
  "selected_state env sessionID profile generation current candidate =
     (let fresh = \<lparr>rs_SessionID = sessionID, rs_LogicalProfileID = pf_ID profile, rs_ExecutionProfileID = cd_ID candidate,
            rs_Generation = generation, rs_ProfileVersion = pf_Version profile, rs_Status = routeStatusStarting,
            rs_ContinuationJSON = '''', rs_PolicyStateJSON = '''', rs_UpdatedAt = ee_now env\<rparr>
      in case current of
           None \<Rightarrow> fresh
         | Some state \<Rightarrow>
             if rs_Status state = routeStatusActionRequired \<and> rs_LogicalProfileID state = pf_ID profile \<and>
                rs_ExecutionProfileID state = cd_ID candidate \<and> rs_ProfileVersion state = pf_Version profile
             then fresh\<lparr>rs_PolicyStateJSON := carryUnclassifiedStreak env (rs_PolicyStateJSON state) (pf_ID profile) (cd_ID candidate)
                    (pf_Version profile) (d_Unclassified (cd_Policies candidate))\<rparr>
             else fresh)"

definition waiting_state :: "'s engine_env \<Rightarrow> string \<Rightarrow> Profile \<Rightarrow> int \<Rightarrow> RouteState" where
  "waiting_state env sessionID profile generation =
     \<lparr>rs_SessionID = sessionID, rs_LogicalProfileID = pf_ID profile, rs_ExecutionProfileID = '''', rs_Generation = generation,
      rs_ProfileVersion = pf_Version profile, rs_Status = ''waiting'', rs_ContinuationJSON = '''', rs_PolicyStateJSON = '''',
      rs_UpdatedAt = ee_now env\<rparr>"

definition selectContext ::
  "'s engine_env \<Rightarrow> string \<Rightarrow> Profile \<Rightarrow> int \<Rightarrow> string \<Rightarrow> string \<Rightarrow> string \<Rightarrow> 's RoutingEngine \<Rightarrow> (RouteDecision \<times> rerror option) \<times> 's RoutingEngine" where
  "selectContext env sessionID profile expectedGeneration excludeProfileID preferredProfileID reason e =
     (case loadStateLocked env sessionID e of
        (Inl err, e1) \<Rightarrow> ((no_route, Some err), e1)
      | (Inr current, e1) \<Rightarrow>
          let currentGeneration = (case current of None \<Rightarrow> 0 | Some state \<Rightarrow> rs_Generation state);
              generation = currentGeneration + 1
          in if expectedGeneration \<noteq> currentGeneration then ((no_route, Some ErrStaleGeneration), e1)
             else case first_selectable env sessionID generation excludeProfileID preferredProfileID (pf_Candidates profile) e1 of
               (Some candidate, e2) \<Rightarrow>
                 let nextState = selected_state env sessionID profile generation current candidate;
                     decision = route_decision nextState reason;
                     (err, e3) = claimAndPersist env expectedGeneration decision nextState e2
                 in if err \<noteq> None then ((no_route, err), drop_state sessionID e3)
                    else ((decision, None), put_state sessionID nextState e3)
             | (None, e2) \<Rightarrow>
                 let nextState = waiting_state env sessionID profile generation;
                     (err, e3) = persistNoEligible env expectedGeneration nextState e2
                 in if err \<noteq> None then ((no_route, err), drop_state sessionID e3)
                    else ((no_route, Some (NoEligibleCandidateError sessionID (pf_ID profile) generation)), put_state sessionID nextState e3))"

definition SelectContext where
  "SelectContext env sessionID profile expectedGeneration excludeProfileID =
     selectContext env sessionID profile expectedGeneration excludeProfileID '''' ''candidate_order''"

definition SelectContextWithReason where
  "SelectContextWithReason env sessionID profile expectedGeneration excludeProfileID reason =
     selectContext env sessionID profile expectedGeneration excludeProfileID '''' reason"

definition SelectContextWithPreference where
  "SelectContextWithPreference env sessionID profile expectedGeneration excludeProfileID preferredProfileID =
     selectContext env sessionID profile expectedGeneration excludeProfileID preferredProfileID ''candidate_order''"

definition Select where
  "Select = SelectContext"

definition engine_State :: "string \<Rightarrow> 's RoutingEngine \<Rightarrow> RouteState option" where
  "engine_State sessionID e = gm_get (en_states e) sessionID"

definition LoadState where
  "LoadState env sessionID e = loadStateLocked env sessionID e"

definition OwnsRetryClaim :: "string \<Rightarrow> int \<Rightarrow> 's RoutingEngine \<Rightarrow> bool" where
  "OwnsRetryClaim sessionID generation e =
     (if sessionID = '''' \<or> generation \<le> 0 then False else gm_get0 0 (en_retryClaims e) sessionID = generation)"

section \<open>Actions\<close>

definition actionForCandidate :: "Candidate \<Rightarrow> Code \<Rightarrow> RuleAction" where
  "actionForCandidate candidate code =
     (if d_Version (cd_Policies candidate) = 0 then
        (let action = actionForRules (cd_Rules candidate) code
         in if action = ActionRetrySame \<and> HoldsUntilRelease code then ActionTryNext else action)
      else case PolicyFor (cd_Policies candidate) (ClassForCode code) of
        None \<Rightarrow> ActionStop
      | Some policy \<Rightarrow>
          if rp_Enabled (pl_Retry policy) \<and> \<not> HoldsUntilRelease code then ActionRetrySame
          else if pl_OnExhausted policy = OutcomeSkip then ActionTryNext
          else ActionStop)"

definition candidateByID :: "Profile \<Rightarrow> string \<Rightarrow> Candidate option" where
  "candidateByID profile candidateID = find (\<lambda>candidate. cd_ID candidate = candidateID) (pf_Candidates profile)"

definition ActionFor :: "Profile \<Rightarrow> string \<Rightarrow> Code \<Rightarrow> RuleAction" where
  "ActionFor profile candidateID code =
     (case candidateByID profile candidateID of None \<Rightarrow> ActionStop | Some candidate \<Rightarrow> actionForCandidate candidate code)"

section \<open>Circuits of a failing candidate\<close>

definition qualifiesForCircuit :: "Code \<Rightarrow> bool" where
  "qualifiesForCircuit code \<longleftrightarrow> code \<in> {CodeAuthRequired, CodeMissingCredentials, CodeSubscriptionRequired, CodeProviderNotConfigured,
     CodeRateLimited, CodeQuotaLimited, CodeNetworkUnavailable, CodeModelCapacity, CodeProviderUnavailable, CodeProviderOverloaded,
     CodeModelUnavailable}"

definition openCircuitForFailure :: "'s engine_env \<Rightarrow> Profile \<Rightarrow> string \<Rightarrow> Error \<Rightarrow> 's RoutingEngine \<Rightarrow> 's RoutingEngine" where
  "openCircuitForFailure env profile candidateID failure e =
     (if HoldsUntilRelease (e_Code failure) then snd (HoldAccountBlock env candidateID (e_Code failure) e)
      else if \<not> qualifiesForCircuit (e_Code failure) then e
      else case find (\<lambda>candidate. cd_ID candidate = candidateID \<and> cd_BindingKey candidate \<noteq> '''') (pf_Candidates profile) of
        None \<Rightarrow> e
      | Some candidate \<Rightarrow> e\<lparr>en_circuits := OpenFailure (circuit_env_of env) (cd_BindingKey candidate)
          \<lparr>fo_Code = e_Code failure, fo_Now = ee_now env, fo_ResetHint = e_ResetHint failure, fo_ResetHintInferred = e_ResetHintInferred failure\<rparr>
          (en_circuits e)\<rparr>)"

definition engine_ReleaseProbe :: "'s engine_env \<Rightarrow> string \<Rightarrow> int \<Rightarrow> string \<Rightarrow> bool \<Rightarrow> 's RoutingEngine \<Rightarrow> 's RoutingEngine" where
  "engine_ReleaseProbe env sessionID generation executionProfileID success e =
     (let key = probeKey sessionID generation executionProfileID in
      case gm_get (en_probes e) key of
        None \<Rightarrow> e
      | Some lease \<Rightarrow> e\<lparr>en_probes := gm_del key (en_probes e),
          en_circuits := ReleaseProbe (circuit_env_of env) lease success circuitBackoff (en_circuits e)\<rparr>)"

definition releaseProbeForFailure :: "'s engine_env \<Rightarrow> string \<Rightarrow> int \<Rightarrow> string \<Rightarrow> 's RoutingEngine \<Rightarrow> 's RoutingEngine" where
  "releaseProbeForFailure env sessionID generation candidateID = engine_ReleaseProbe env sessionID generation candidateID False"

definition requireCurrentFailureRoute :: "'s engine_env \<Rightarrow> string \<Rightarrow> int \<Rightarrow> string \<Rightarrow> 's RoutingEngine \<Rightarrow> rerror option \<times> 's RoutingEngine" where
  "requireCurrentFailureRoute env sessionID generation candidateID e =
     (case loadStateLocked env sessionID e of
        (Inl err, e1) \<Rightarrow> (Some err, e1)
      | (Inr None, e1) \<Rightarrow> (None, e1)
      | (Inr (Some state), e1) \<Rightarrow>
          if rs_Generation state \<noteq> generation \<or> (rs_ExecutionProfileID state \<noteq> '''' \<and> rs_ExecutionProfileID state \<noteq> candidateID)
          then (Some ErrStaleGeneration, e1) else (None, e1))"

definition RecordResourceFailure :: "'s engine_env \<Rightarrow> Profile \<Rightarrow> string \<Rightarrow> Error option \<Rightarrow> 's RoutingEngine \<Rightarrow> 's RoutingEngine" where
  "RecordResourceFailure env profile candidateID failure e =
     (case failure of None \<Rightarrow> e | Some f \<Rightarrow> openCircuitForFailure env profile candidateID f e)"

definition RecordFailureCircuit ::
  "'s engine_env \<Rightarrow> string \<Rightarrow> Profile \<Rightarrow> int \<Rightarrow> string \<Rightarrow> Error option \<Rightarrow> 's RoutingEngine \<Rightarrow> (bool \<times> rerror option) \<times> 's RoutingEngine" where
  "RecordFailureCircuit env sessionID profile expectedGeneration candidateID failure e =
     (case failure of
        None \<Rightarrow> ((False, None), e)
      | Some f \<Rightarrow>
          if candidateID = '''' then ((False, None), e)
          else if HoldsUntilRelease (e_Code f) \<or> \<not> qualifiesForCircuit (e_Code f) then ((False, None), e)
          else case candidateByID profile candidateID of
            None \<Rightarrow> ((False, None), e)
          | Some candidate \<Rightarrow>
              if cd_BindingKey candidate = '''' then ((False, None), e)
              else let (err, e1) = requireCurrentFailureRoute env sessionID expectedGeneration candidateID e
                in if err \<noteq> None then ((False, err), e1)
                   else ((True, None), releaseProbeForFailure env sessionID expectedGeneration candidateID
                          (openCircuitForFailure env profile candidateID f e1)))"

definition ResetCircuitFailures ::
  "'s engine_env \<Rightarrow> string \<Rightarrow> Profile \<Rightarrow> int \<Rightarrow> string \<Rightarrow> 's RoutingEngine \<Rightarrow> (bool \<times> rerror option) \<times> 's RoutingEngine" where
  "ResetCircuitFailures env sessionID profile expectedGeneration candidateID e =
     (if candidateID = '''' then ((False, None), e)
      else case candidateByID profile candidateID of
        None \<Rightarrow> ((False, None), e)
      | Some candidate \<Rightarrow>
          if cd_BindingKey candidate = '''' then ((False, None), e)
          else let (err, e1) = requireCurrentFailureRoute env sessionID expectedGeneration candidateID e
            in if err \<noteq> None then ((False, err), e1)
               else let (cleared, r) = ResetFailures (circuit_env_of env) (cd_BindingKey candidate) (en_circuits e1)
                 in ((cleared, None), e1\<lparr>en_circuits := r\<rparr>))"

section \<open>Suspensions of a fixed profile\<close>

record Suspension =
  sp_Scope :: ResourceScope
  sp_Code :: Code
  sp_Until :: time

definition Blocked :: "Suspension \<Rightarrow> bool" where
  "Blocked s \<longleftrightarrow> sp_Code s \<noteq> ''''"

definition suspensionScopeForKey :: "string \<Rightarrow> ResourceScope" where
  "suspensionScopeForKey key =
     (let prefix = takeWhile (\<lambda>c. c \<noteq> CHR '':'') key
      in if CHR '':'' \<notin> set key \<or> prefix = '''' then ScopeCredential else prefix)"

definition CandidateSuspension :: "Candidate \<Rightarrow> time \<Rightarrow> 's RoutingEngine \<Rightarrow> Suspension option" where
  "CandidateSuspension candidate now e =
     (case ActiveSuspension (accountBlockKey (cd_ID candidate)) now (en_circuits e) of
        Some snapshot \<Rightarrow> Some \<lparr>sp_Scope = ScopeAccountBlock, sp_Code = cs_Code snapshot, sp_Until = cs_Until snapshot\<rparr>
      | None \<Rightarrow>
          if cd_BindingKey candidate = '''' then None
          else case ActiveSuspension (cd_BindingKey candidate) now (en_circuits e) of
            None \<Rightarrow> None
          | Some snapshot \<Rightarrow> Some \<lparr>sp_Scope = suspensionScopeForKey (cd_BindingKey candidate), sp_Code = cs_Code snapshot, sp_Until = cs_Until snapshot\<rparr>)"

end
