(* ===== verification/Dynamic_Recovery.thy ===== *)
theory Dynamic_Recovery
  imports Dynamic_Engine
begin

text \<open>
  The second half of \<open>agent/runtime/dynamic/engine.go\<close>: what happens to a route after a failure.  A
  classified failure is evaluated against the candidate's policy and leaves the route waiting, skipped or
  in manual recovery; a due wait is claimed and resumed; an unclassified failure counts towards a streak
  and may route to the next candidate.
\<close>

section \<open>Writes within a generation\<close>

definition persistInitialGeneration :: "'s Persistence \<Rightarrow> int \<Rightarrow> string \<Rightarrow> RouteState \<Rightarrow> 's RoutingEngine \<Rightarrow> (rerror option \<times> 's RoutingEngine) option" where
  "persistInitialGeneration p expectedGeneration expectedStatus state e =
     (if expectedGeneration \<noteq> 0 \<or> expectedStatus \<noteq> '''' then None
      else case p_ClaimRouteState p of
        None \<Rightarrow> None
      | Some claim \<Rightarrow> Some (claimed (call_store (claim expectedGeneration state) e)))"

definition persistSameGeneration :: "'s engine_env \<Rightarrow> int \<Rightarrow> string \<Rightarrow> RouteState \<Rightarrow> 's RoutingEngine \<Rightarrow> rerror option \<times> 's RoutingEngine" where
  "persistSameGeneration env expectedGeneration expectedStatus state e =
     (case ee_persistence env of
        None \<Rightarrow> (None, e)
      | Some p \<Rightarrow> (case persistInitialGeneration p expectedGeneration expectedStatus state e of
          Some result \<Rightarrow> result
        | None \<Rightarrow> (case p_ClaimRouteStateFrom p of
            Some claim \<Rightarrow> claimed (call_store (claim expectedGeneration expectedStatus state) e)
          | None \<Rightarrow> (case p_ClaimRouteState p of
              Some claim \<Rightarrow> claimed (call_store (claim expectedGeneration state) e)
            | None \<Rightarrow> call_store (p_SaveRouteState p state) e))))"

definition persistExpectedStatus :: "'s engine_env \<Rightarrow> int \<Rightarrow> string \<Rightarrow> RouteState \<Rightarrow> 's RoutingEngine \<Rightarrow> rerror option \<times> 's RoutingEngine" where
  "persistExpectedStatus env expectedGeneration expectedStatus state e =
     (case ee_persistence env of
        None \<Rightarrow> (None, e)
      | Some p \<Rightarrow> (case p_ClaimRouteStateFrom p of
          None \<Rightarrow> (Some ErrStatusClaimUnsupported, e)
        | Some claim \<Rightarrow> claimed (call_store (claim expectedGeneration expectedStatus state) e)))"

definition persistSnapshot :: "'s engine_env \<Rightarrow> string \<Rightarrow> string \<Rightarrow> RouteState \<Rightarrow> 's RoutingEngine \<Rightarrow> rerror option \<times> 's RoutingEngine" where
  "persistSnapshot env expectedStatus expectedPolicyState next e =
     (case ee_persistence env of
        None \<Rightarrow> (None, e)
      | Some p \<Rightarrow> (case p_ClaimRouteStateFromSnapshot p of
          None \<Rightarrow> (Some ErrStatusClaimUnsupported, e)
        | Some claim \<Rightarrow> claimed (call_store (claim (rs_Generation next) expectedStatus expectedPolicyState next) e)))"

section \<open>Policy failures\<close>

text \<open>An empty \<open>PolicyStateJSON\<close> is the zero policy state.\<close>

definition policy_state_of :: "'s engine_env \<Rightarrow> string \<Rightarrow> PolicyState option" where
  "policy_state_of env raw = (if raw = '''' then Some zero_policy_state else ee_unmarshal env raw)"

definition policy_input :: "'s engine_env \<Rightarrow> PolicyState \<Rightarrow> Error \<Rightarrow> EvaluationInput" where
  "policy_input env policyState failure =
     (let failureClass' = (if e_Class failure = '''' then ClassForCode (e_Code failure) else e_Class failure);
          resetWaitUsed = (case ps_ResetWaitClasses policyState of
             None \<Rightarrow> ps_ResetWaitUsed policyState \<and> ps_FailureClass policyState = failureClass'
           | Some classes \<Rightarrow> gm_get0 False classes failureClass')
      in \<lparr>ei_Failure = Some failure, ei_Now = ee_now env, ei_RetryOrdinal = ps_RetryOrdinal policyState,
          ei_ResetWaitUsed = resetWaitUsed, ei_EffectSafe = e_FallbackAllowed failure\<rparr>)"

definition evaluated_policy_state :: "Evaluation \<Rightarrow> string \<Rightarrow> PolicyState \<Rightarrow> PolicyState" where
  "evaluated_policy_state evaluation policyJSON policyState =
     (let classes0 = (case ps_ResetWaitClasses policyState of None \<Rightarrow> [] | Some classes \<Rightarrow> classes);
          classes = (if ev_Kind evaluation = DecisionWaitForReset then gm_put (ev_Class evaluation) True classes0 else classes0)
      in policyState\<lparr>ps_FailureCode := ev_Code evaluation, ps_FailureClass := ev_Class evaluation,
           ps_CatalogueVersion := ev_CatalogueVersion evaluation, ps_PolicyJSON := policyJSON,
           ps_RetryOrdinal := ev_RetryOrdinal evaluation, ps_ResetWaitClasses := Some classes,
           ps_ResetWaitUsed := gm_get0 False classes (ev_Class evaluation), ps_PendingOutcome := ev_PendingOutcome evaluation,
           ps_Deadline := (if IsZero (ev_Deadline evaluation) then None else Some (ev_Deadline evaluation))\<rparr>)"

definition preparePolicyFailure ::
  "'s engine_env \<Rightarrow> string \<Rightarrow> int \<Rightarrow> Candidate \<Rightarrow> Error \<Rightarrow> 's RoutingEngine \<Rightarrow> (rerror + RouteState option \<times> PolicyState \<times> Evaluation) \<times> 's RoutingEngine" where
  "preparePolicyFailure env sessionID expectedGeneration candidate failure e =
     (case loadStateLocked env sessionID e of
        (Inl err, e1) \<Rightarrow> (Inl err, e1)
      | (Inr current, e1) \<Rightarrow>
          if (case current of None \<Rightarrow> False | Some state \<Rightarrow> rs_Generation state \<noteq> expectedGeneration) then (Inl ErrStaleGeneration, e1)
          else case policy_state_of env (case current of None \<Rightarrow> '''' | Some state \<Rightarrow> rs_PolicyStateJSON state) of
            None \<Rightarrow> (Inl ErrDecode, e1)
          | Some decoded \<Rightarrow>
              let policyState = decoded\<lparr>ps_Unclassified := None\<rparr>;
                  evaluation = Evaluate (cd_Policies candidate) (policy_input env policyState failure)
              in case ee_marshal_document env (cd_Policies candidate) of
                   None \<Rightarrow> (Inl ErrEncode, e1)
                 | Some policyJSON \<Rightarrow> (Inr (current, evaluated_policy_state evaluation policyJSON policyState, evaluation), e1))"

definition applyPolicyFailure ::
  "'s engine_env \<Rightarrow> string \<Rightarrow> Profile \<Rightarrow> int \<Rightarrow> string \<Rightarrow> Candidate \<Rightarrow> Error \<Rightarrow> 's RoutingEngine \<Rightarrow> (RouteDecision \<times> rerror option) \<times> 's RoutingEngine" where
  "applyPolicyFailure env sessionID profile expectedGeneration currentCandidateID candidate failure e =
     (case preparePolicyFailure env sessionID expectedGeneration candidate failure e of
        (Inl err, e1) \<Rightarrow> ((no_route, Some err), e1)
      | (Inr (current, policyState, evaluation), e1) \<Rightarrow>
          if ev_Kind evaluation = DecisionSkip then
            selectContext env sessionID profile expectedGeneration currentCandidateID '''' ''policy_skip'' e1
          else
            let base = (case current of
                  Some state \<Rightarrow> state
                | None \<Rightarrow> \<lparr>rs_SessionID = sessionID, rs_LogicalProfileID = pf_ID profile, rs_ExecutionProfileID = currentCandidateID,
                    rs_Generation = expectedGeneration, rs_ProfileVersion = pf_Version profile, rs_Status = '''',
                    rs_ContinuationJSON = '''', rs_PolicyStateJSON = '''', rs_UpdatedAt = 0\<rparr>);
                observedStatus = (case current of None \<Rightarrow> '''' | Some state \<Rightarrow> rs_Status state);
                nextState = base\<lparr>rs_Status := (if ev_Kind evaluation = DecisionStop then routeStatusActionRequired else ev_Kind evaluation),
                  rs_PolicyStateJSON := ee_marshal env policyState, rs_UpdatedAt := ee_now env\<rparr>;
                (err, e2) = persistSameGeneration env expectedGeneration observedStatus nextState e1
            in if err \<noteq> None then ((no_route, err), e2)
               else
                 let e3 = put_state sessionID nextState e2;
                     decision = no_route\<lparr>rd_SessionID := sessionID, rd_LogicalProfileID := pf_ID profile,
                       rd_ExecutionProfileID := currentCandidateID, rd_Generation := expectedGeneration,
                       rd_ProfileVersion := pf_Version profile, rd_Reason := ev_Kind evaluation, rd_Status := rs_Status nextState,
                       rd_Deadline := (if IsZero (ev_Deadline evaluation) then None else Some (ev_Deadline evaluation)),
                       rd_ErrorCode := ev_Code evaluation, rd_ErrorClass := ev_Class evaluation,
                       rd_CatalogueVersion := ev_CatalogueVersion evaluation, rd_RetryOrdinal := ev_RetryOrdinal evaluation,
                       rd_PendingOutcome := ev_PendingOutcome evaluation\<rparr>
                 in if ev_Kind evaluation = DecisionStop then ((decision, Some ErrNoEligibleCandidate), e3)
                    else ((decision, Some (ErrRecoveryPending (ev_Kind evaluation))), e3))"

text \<open>
  The code gives up the lock of the engine between the test of the route, the update of the circuits and the write of the
  route; the model runs them as one step.  What another call does in between is caught by the expected generation of the write.
\<close>

definition ApplyFailureContext ::
  "'s engine_env \<Rightarrow> string \<Rightarrow> Profile \<Rightarrow> int \<Rightarrow> string \<Rightarrow> Error option \<Rightarrow> 's RoutingEngine \<Rightarrow> (RouteDecision \<times> rerror option) \<times> 's RoutingEngine" where
  "ApplyFailureContext env sessionID profile expectedGeneration currentCandidateID failure e =
     (case failure of
        None \<Rightarrow> ((no_route, Some ErrNoEligibleCandidate), e)
      | Some f \<Rightarrow>
          let (err, e1) = requireCurrentFailureRoute env sessionID expectedGeneration currentCandidateID e
          in if err \<noteq> None then ((no_route, err), e1)
             else
               let e2 = releaseProbeForFailure env sessionID expectedGeneration currentCandidateID
                          (openCircuitForFailure env profile currentCandidateID f e1);
                   legacy =
                     (let action = ActionFor profile currentCandidateID (e_Code f)
                      in if action = ActionRetrySame then selectContext env sessionID profile expectedGeneration '''' currentCandidateID ''retry'' e2
                         else if action = ActionTryNext then selectContext env sessionID profile expectedGeneration currentCandidateID '''' ''try_next'' e2
                         else ((no_route, Some ErrNoEligibleCandidate), e2))
               in case candidateByID profile currentCandidateID of
                    None \<Rightarrow> legacy
                  | Some candidate \<Rightarrow>
                      if d_Version (cd_Policies candidate) \<noteq> 0
                      then applyPolicyFailure env sessionID profile expectedGeneration currentCandidateID candidate f e2
                      else legacy)"

definition ApplyFailure where
  "ApplyFailure = ApplyFailureContext"

section \<open>Pending recoveries\<close>

definition pending_status :: "string \<Rightarrow> bool" where
  "pending_status status \<longleftrightarrow> status = DecisionRetry \<or> status = DecisionWaitForReset"

definition policy_decision :: "RouteState \<Rightarrow> PolicyState \<Rightarrow> string \<Rightarrow> RouteDecision" where
  "policy_decision state policyState reason = (route_decision state reason)\<lparr>rd_ErrorCode := ps_FailureCode policyState,
     rd_ErrorClass := ps_FailureClass policyState, rd_CatalogueVersion := ps_CatalogueVersion policyState,
     rd_RetryOrdinal := ps_RetryOrdinal policyState, rd_PendingOutcome := ps_PendingOutcome policyState\<rparr>"

definition CancelPending :: "'s engine_env \<Rightarrow> string \<Rightarrow> int \<Rightarrow> string \<Rightarrow> 's RoutingEngine \<Rightarrow> (RouteDecision \<times> rerror option) \<times> 's RoutingEngine" where
  "CancelPending env sessionID expectedGeneration reason e =
     (case loadStateLocked env sessionID e of
        (Inl err, e1) \<Rightarrow> ((no_route, Some err), e1)
      | (Inr None, e1) \<Rightarrow> ((no_route, Some ErrRouteStateNotFound), e1)
      | (Inr (Some state), e1) \<Rightarrow>
          if rs_Generation state \<noteq> expectedGeneration then ((no_route, Some ErrStaleGeneration), e1)
          else if \<not> pending_status (rs_Status state) \<and> rs_Status state \<noteq> routeStatusActionRequired
          then ((no_route, Some (ErrRecoveryPending '''')), e1)
          else case policy_state_of env (rs_PolicyStateJSON state) of
            None \<Rightarrow> ((no_route, Some ErrDecode), e1)
          | Some decoded \<Rightarrow>
              let policyState = decoded\<lparr>ps_PendingOutcome := OutcomeStop, ps_Unclassified := None\<rparr>;
                  state' = state\<lparr>rs_PolicyStateJSON := ee_marshal env policyState, rs_Status := routeStatusActionRequired, rs_UpdatedAt := ee_now env\<rparr>;
                  (err, e2) = persistSameGeneration env expectedGeneration (rs_Status state) state' e1
              in if err \<noteq> None then ((no_route, err), e2)
                 else (((policy_decision (state'\<lparr>rs_SessionID := sessionID\<rparr>) policyState reason)\<lparr>rd_Deadline := ps_Deadline policyState\<rparr>, None),
                       put_state sessionID state' e2))"

definition MarkActive :: "'s engine_env \<Rightarrow> string \<Rightarrow> int \<Rightarrow> 's RoutingEngine \<Rightarrow> rerror option \<times> 's RoutingEngine" where
  "MarkActive env sessionID expectedGeneration e =
     (case loadStateLocked env sessionID e of
        (Inl err, e1) \<Rightarrow> (Some err, e1)
      | (Inr None, e1) \<Rightarrow> (Some ErrRouteStateNotFound, e1)
      | (Inr (Some state), e1) \<Rightarrow>
          if rs_Generation state \<noteq> expectedGeneration then (Some ErrStaleGeneration, e1)
          else if rs_Status state \<noteq> routeStatusStarting \<and> rs_Status state \<noteq> routeStatusRetrying then (None, e1)
          else
            let state' = state\<lparr>rs_Status := routeStatusActive, rs_UpdatedAt := ee_now env\<rparr>;
                (err, e2) = persistSameGeneration env expectedGeneration (rs_Status state) state' e1
            in if err \<noteq> None then (err, e2) else (None, drop_claim sessionID (put_state sessionID state' e2)))"

definition MarkActionRequired :: "'s engine_env \<Rightarrow> string \<Rightarrow> int \<Rightarrow> string \<Rightarrow> 's RoutingEngine \<Rightarrow> (RouteDecision \<times> rerror option) \<times> 's RoutingEngine" where
  "MarkActionRequired env sessionID expectedGeneration reason e =
     (case loadStateLocked env sessionID e of
        (Inl err, e1) \<Rightarrow> ((no_route, Some err), e1)
      | (Inr None, e1) \<Rightarrow> ((no_route, Some ErrRouteStateNotFound), e1)
      | (Inr (Some state), e1) \<Rightarrow>
          if rs_Generation state \<noteq> expectedGeneration then ((no_route, Some ErrStaleGeneration), e1)
          else if rs_Status state = routeStatusStarting \<or> rs_Status state = routeStatusRetrying then
            (let state' = state\<lparr>rs_Status := routeStatusActionRequired, rs_UpdatedAt := ee_now env\<rparr>;
                 (err, e2) = persistSameGeneration env expectedGeneration (rs_Status state) state' e1
             in if err \<noteq> None then ((no_route, err), e2)
                else ((route_decision (state'\<lparr>rs_SessionID := sessionID\<rparr>) reason, None), drop_claim sessionID (put_state sessionID state' e2)))
          else ((route_decision (state\<lparr>rs_SessionID := sessionID\<rparr>) reason, None), e1))"

definition reclaimRetrying :: "'s engine_env \<Rightarrow> string \<Rightarrow> int \<Rightarrow> bool \<Rightarrow> 's RoutingEngine \<Rightarrow> (bool \<times> rerror option) \<times> 's RoutingEngine" where
  "reclaimRetrying env sessionID expectedGeneration allowOwned e =
     (case loadStateLocked env sessionID e of
        (Inl err, e1) \<Rightarrow> ((False, Some err), e1)
      | (Inr None, e1) \<Rightarrow> ((False, None), e1)
      | (Inr (Some state), e1) \<Rightarrow>
          if rs_Generation state \<noteq> expectedGeneration \<or> rs_Status state \<noteq> routeStatusRetrying then ((False, None), e1)
          else if \<not> allowOwned \<and> gm_get0 0 (en_retryClaims e1) sessionID = expectedGeneration then ((False, Some (ErrRecoveryPending '''')), e1)
          else
            let state' = state\<lparr>rs_Status := routeStatusActionRequired, rs_UpdatedAt := ee_now env\<rparr>;
                (err, e2) = persistExpectedStatus env expectedGeneration routeStatusRetrying state' e1
            in if err \<noteq> None then ((False, err), e2) else ((True, None), drop_claim sessionID (put_state sessionID state' e2)))"

definition ReclaimRetrying where
  "ReclaimRetrying env sessionID expectedGeneration = reclaimRetrying env sessionID expectedGeneration False"

definition MarkRecoveryActionRequired :: "'s engine_env \<Rightarrow> string \<Rightarrow> int \<Rightarrow> 's RoutingEngine \<Rightarrow> rerror option \<times> 's RoutingEngine" where
  "MarkRecoveryActionRequired env sessionID expectedGeneration e =
     (let ((reclaimed, err), e1) = reclaimRetrying env sessionID expectedGeneration True e in (err, e1))"

definition holdPendingRouteLocked :: "'s engine_env \<Rightarrow> RouteState \<Rightarrow> 's RoutingEngine \<Rightarrow> rerror \<times> 's RoutingEngine" where
  "holdPendingRouteLocked env state e =
     (if rs_Status state = routeStatusActionRequired then (ErrExecutionProfileHeld, e)
      else
        let state' = state\<lparr>rs_Status := routeStatusActionRequired, rs_UpdatedAt := ee_now env\<rparr>;
            (err, e1) = persistExpectedStatus env (rs_Generation state) (rs_Status state) state' e
        in case err of Some x \<Rightarrow> (x, e1) | None \<Rightarrow> (ErrExecutionProfileHeld, put_state (rs_SessionID state) state' e1))"

definition resumePending :: "'s engine_env \<Rightarrow> string \<Rightarrow> int \<Rightarrow> bool \<Rightarrow> 's RoutingEngine \<Rightarrow> (RouteDecision \<times> rerror option) \<times> 's RoutingEngine" where
  "resumePending env sessionID expectedGeneration force e =
     (case loadStateLocked env sessionID e of
        (Inl err, e1) \<Rightarrow> ((no_route, Some err), e1)
      | (Inr None, e1) \<Rightarrow> ((no_route, Some ErrRouteStateNotFound), e1)
      | (Inr (Some state), e1) \<Rightarrow>
          if rs_Generation state \<noteq> expectedGeneration then ((no_route, Some ErrStaleGeneration), e1)
          else if force \<and> rs_Status state = routeStatusRetrying then ((no_route, Some (ErrRecoveryPending '''')), e1)
          else if force \<and> \<not> pending_status (rs_Status state) \<and> rs_Status state \<noteq> routeStatusActionRequired
          then ((no_route, Some (ErrRecoveryPending '''')), e1)
          else if \<not> force \<and> \<not> pending_status (rs_Status state) then ((no_route, Some (ErrRecoveryPending '''')), e1)
          else case policy_state_of env (rs_PolicyStateJSON state) of
            None \<Rightarrow> ((no_route, Some ErrDecode), e1)
          | Some policyState \<Rightarrow>
              if IsHeld (accountBlockKey (rs_ExecutionProfileID state)) (en_circuits e1) then
                (let (err, e2) = holdPendingRouteLocked env state e1 in ((no_route, Some err), e2))
              else if \<not> force \<and> (case ps_Deadline policyState of None \<Rightarrow> False | Some deadline \<Rightarrow> ee_now env < deadline)
              then ((no_route, Some ErrRecoveryNotDue), e1)
              else
                let state' = state\<lparr>rs_Status := routeStatusRetrying, rs_UpdatedAt := ee_now env\<rparr>;
                    (err, e2) = persistExpectedStatus env expectedGeneration (rs_Status state) state' e1
                in if err \<noteq> None then ((no_route, err), e2)
                   else ((policy_decision (state'\<lparr>rs_SessionID := sessionID\<rparr>) policyState ''retry_due'', None),
                         (put_state sessionID state' e2)\<lparr>en_retryClaims := gm_put sessionID (rs_Generation state) (en_retryClaims e2)\<rparr>))"

definition ResumePending where
  "ResumePending env sessionID expectedGeneration = resumePending env sessionID expectedGeneration False"

definition ResumePendingNow where
  "ResumePendingNow env sessionID expectedGeneration = resumePending env sessionID expectedGeneration True"

section \<open>Unclassified failures\<close>

definition candidateUnclassifiedThreshold :: "Profile \<Rightarrow> string \<Rightarrow> int" where
  "candidateUnclassifiedThreshold profile candidateID = (case candidateByID profile candidateID of
       None \<Rightarrow> 0
     | Some candidate \<Rightarrow> (case d_Unclassified (cd_Policies candidate) of
         None \<Rightarrow> 0
       | Some policy \<Rightarrow> if up_Enabled policy then up_ConsecutiveFailureThreshold policy else 0))"

definition CandidateUnclassifiedEnabled :: "Profile \<Rightarrow> string \<Rightarrow> bool" where
  "CandidateUnclassifiedEnabled profile candidateID \<longleftrightarrow>
     candidateUnclassifiedThreshold profile candidateID \<ge> 2 \<and> candidateUnclassifiedThreshold profile candidateID \<le> 10"

definition unclassifiedFailureAdmitted :: "int \<Rightarrow> UnclassifiedFailureEvidence \<Rightarrow> Error \<Rightarrow> string option \<Rightarrow> bool" where
  "unclassifiedFailureAdmitted threshold evidence failure fingerprint \<longleftrightarrow>
     threshold \<ge> 2 \<and> threshold \<le> 10 \<and> permits evidence failure \<and> fingerprint \<noteq> None"

definition same_streak :: "UnclassifiedStreak \<Rightarrow> Profile \<Rightarrow> string \<Rightarrow> UnclassifiedFailureEvidence \<Rightarrow> int \<Rightarrow> string \<Rightarrow> bool" where
  "same_streak previous profile candidateID evidence generation fingerprint \<longleftrightarrow>
     us_LogicalProfileID previous = pf_ID profile \<and> us_ExecutionProfileID previous = candidateID \<and>
     us_ProfileVersion previous = pf_Version profile \<and> us_StepID previous = uf_StepID evidence \<and>
     us_StepUpdatedAt previous = uf_StepUpdatedAt evidence \<and> us_Fingerprint previous = fingerprint \<and>
     us_Origin previous = uf_Origin evidence \<and> us_Phase previous = uf_Phase evidence \<and>
     us_LastRouteGeneration previous \<le> generation"

definition nextUnclassifiedFailureCount ::
  "UnclassifiedStreak option \<Rightarrow> Profile \<Rightarrow> string \<Rightarrow> UnclassifiedFailureEvidence \<Rightarrow> int \<Rightarrow> string \<Rightarrow> int \<Rightarrow> int" where
  "nextUnclassifiedFailureCount previous profile candidateID evidence generation fingerprint threshold =
     (let count = (case previous of
            None \<Rightarrow> 1
          | Some p \<Rightarrow> if valid_streak (Some p) \<and> same_streak p profile candidateID evidence generation fingerprint then us_Count p + 1 else 1)
      in if count > threshold then threshold else count)"

definition newUnclassifiedStreak :: "int \<Rightarrow> Profile \<Rightarrow> string \<Rightarrow> UnclassifiedFailureEvidence \<Rightarrow> int \<Rightarrow> string \<Rightarrow> UnclassifiedStreak" where
  "newUnclassifiedStreak n profile candidateID evidence generation fingerprint =
     \<lparr>us_Version = 1, us_LogicalProfileID = pf_ID profile, us_ExecutionProfileID = candidateID, us_ProfileVersion = pf_Version profile,
      us_StepID = uf_StepID evidence, us_StepUpdatedAt = uf_StepUpdatedAt evidence, us_Fingerprint = fingerprint,
      us_Origin = uf_Origin evidence, us_Phase = uf_Phase evidence, us_Count = n, us_LastAttemptID = uf_AttemptID evidence,
      us_LastRouteGeneration = generation\<rparr>"

definition clearUnclassifiedFailureState :: "PolicyState \<Rightarrow> Error \<Rightarrow> PolicyState" where
  "clearUnclassifiedFailureState state failure = state\<lparr>ps_FailureCode := e_Code failure, ps_FailureClass := ClassUnclassified,
     ps_CatalogueVersion := CatalogueVersion, ps_PendingOutcome := OutcomeStop\<rparr>"

definition persistUnclassifiedManual ::
  "'s engine_env \<Rightarrow> RouteState \<Rightarrow> string \<Rightarrow> PolicyState \<Rightarrow> Error \<Rightarrow> string \<Rightarrow> 's RoutingEngine \<Rightarrow> (RouteDecision \<times> rerror option) \<times> 's RoutingEngine" where
  "persistUnclassifiedManual env state expectedPolicyState policyState failure reason e =
     (let state' = state\<lparr>rs_Status := routeStatusActionRequired, rs_PolicyStateJSON := ee_marshal env policyState, rs_UpdatedAt := ee_now env\<rparr>;
          (err, e1) = persistSnapshot env (rs_Status state) expectedPolicyState state' e
      in if err \<noteq> None then ((no_route, err), e1)
         else (((route_decision state' reason)\<lparr>rd_ErrorCode := e_Code failure, rd_ErrorClass := ClassUnclassified,
                  rd_CatalogueVersion := CatalogueVersion, rd_PendingOutcome := OutcomeStop\<rparr>, Some (ErrRecoveryPending reason)),
               put_state (rs_SessionID state) state' e1))"

definition unclassifiedStreakDecision :: "RouteState \<Rightarrow> UnclassifiedStreak \<Rightarrow> RouteDecision" where
  "unclassifiedStreakDecision state streak = (route_decision state ''unclassified_duplicate'')\<lparr>rd_ErrorCode := CodeUnknownProvider,
     rd_ErrorClass := ClassUnclassified, rd_RetryOrdinal := us_Count streak\<rparr>"

definition currentUnclassifiedRouteState ::
  "'s engine_env \<Rightarrow> string \<Rightarrow> Profile \<Rightarrow> int \<Rightarrow> string \<Rightarrow> 's RoutingEngine \<Rightarrow> (rerror + RouteState) \<times> 's RoutingEngine" where
  "currentUnclassifiedRouteState env sessionID profile expectedGeneration currentCandidateID e =
     (case loadStateLocked env sessionID e of
        (Inl err, e1) \<Rightarrow> (Inl err, e1)
      | (Inr None, e1) \<Rightarrow> (Inl ErrStaleGeneration, e1)
      | (Inr (Some state), e1) \<Rightarrow>
          if rs_Generation state \<noteq> expectedGeneration \<or> rs_LogicalProfileID state \<noteq> pf_ID profile \<or>
             rs_ExecutionProfileID state \<noteq> currentCandidateID \<or> rs_ProfileVersion state \<noteq> pf_Version profile
          then (Inl ErrStaleGeneration, e1)
          else if rs_Status state \<notin> {routeStatusActive, routeStatusStarting, routeStatusRetrying, routeStatusActionRequired}
          then (Inl (ErrRecoveryPending ''''), e1)
          else (Inr state, e1))"

definition decodePolicyState :: "'s engine_env \<Rightarrow> string \<Rightarrow> PolicyState" where
  "decodePolicyState env raw = (if raw = '''' then zero_policy_state else case ee_unmarshal env raw of None \<Rightarrow> zero_policy_state | Some state \<Rightarrow> state)"

definition firstSelectableUnclassifiedSuccessor ::
  "'s engine_env \<Rightarrow> Profile \<Rightarrow> string \<Rightarrow> string \<Rightarrow> int \<Rightarrow> 's RoutingEngine \<Rightarrow> Candidate option \<times> 's RoutingEngine" where
  "firstSelectableUnclassifiedSuccessor env profile currentCandidateID sessionID generation e =
     first_selectable env sessionID (generation + 1) '''' ''''
       (tl (dropWhile (\<lambda>candidate. cd_ID candidate \<noteq> currentCandidateID) (pf_Candidates profile))) e"

definition unclassifiedSuccessorRoute ::
  "'s engine_env \<Rightarrow> RouteState \<Rightarrow> Profile \<Rightarrow> Candidate \<Rightarrow> int \<Rightarrow> Error \<Rightarrow> RouteDecision \<times> RouteState" where
  "unclassifiedSuccessorRoute env state profile successor expectedGeneration failure =
     (let nextState = \<lparr>rs_SessionID = rs_SessionID state, rs_LogicalProfileID = pf_ID profile, rs_ExecutionProfileID = cd_ID successor,
            rs_Generation = expectedGeneration + 1, rs_ProfileVersion = pf_Version profile, rs_Status = routeStatusStarting,
            rs_ContinuationJSON = '''', rs_PolicyStateJSON = '''', rs_UpdatedAt = ee_now env\<rparr>
      in ((route_decision nextState ''policy_skip'')\<lparr>rd_ErrorCode := e_Code failure, rd_ErrorClass := ClassUnclassified,
            rd_CatalogueVersion := CatalogueVersion, rd_PendingOutcome := OutcomeSkip\<rparr>, nextState))"

definition workflowContextFailureReason :: "rerror \<Rightarrow> string" where
  "workflowContextFailureReason err = (if err = ErrUnclassifiedWorkflowContextChanged then ''unclassified_workflow_context_changed''
     else ''unclassified_workflow_context_unavailable'')"

definition persistUnclassifiedDecisionFailure where
  "persistUnclassifiedDecisionFailure env state policyState failure reason e =
     persistUnclassifiedManual env state (rs_PolicyStateJSON state) (policyState\<lparr>ps_Unclassified := None\<rparr>) failure reason e"

definition recordUnclassifiedSuccessor ::
  "'s engine_env \<Rightarrow> int \<Rightarrow> RouteDecision \<Rightarrow> RouteState \<Rightarrow> UnclassifiedFailureEvidence \<Rightarrow> PolicyState \<Rightarrow> RouteState \<Rightarrow> Error \<Rightarrow> 's RoutingEngine
     \<Rightarrow> (RouteDecision \<times> rerror option) \<times> 's RoutingEngine" where
  "recordUnclassifiedSuccessor env expectedGeneration decision nextState evidence policyState currentState failure e =
     (case ee_persistence env of
        None \<Rightarrow> (let (err, e1) = claimAndPersist env expectedGeneration decision nextState e in ((decision, err), e1))
      | Some p \<Rightarrow> (case p_RecordUnclassifiedRouteDecision p of
          None \<Rightarrow> persistUnclassifiedDecisionFailure env currentState policyState failure ''unclassified_workflow_context_unavailable'' e
        | Some record_decision \<Rightarrow> (case call_store (record_decision decision nextState evidence) e of
            (None, e1) \<Rightarrow> ((decision, None), e1)
          | (Some err, e1) \<Rightarrow>
              if err = ErrStaleGeneration then ((no_route, Some err), e1)
              else persistUnclassifiedDecisionFailure env currentState policyState failure (workflowContextFailureReason err) e1)))"

definition routeToUnclassifiedSuccessor ::
  "'s engine_env \<Rightarrow> RouteState \<Rightarrow> Profile \<Rightarrow> string \<Rightarrow> int \<Rightarrow> Error \<Rightarrow> UnclassifiedFailureEvidence \<Rightarrow> PolicyState \<Rightarrow> 's RoutingEngine
     \<Rightarrow> (RouteDecision \<times> rerror option) \<times> 's RoutingEngine" where
  "routeToUnclassifiedSuccessor env state profile currentCandidateID expectedGeneration failure evidence policyState e =
     (case firstSelectableUnclassifiedSuccessor env profile currentCandidateID (rs_SessionID state) expectedGeneration e of
        (None, e1) \<Rightarrow> persistUnclassifiedManual env state (rs_PolicyStateJSON state) policyState failure ''unclassified_candidates_exhausted'' e1
      | (Some successor, e1) \<Rightarrow>
          let (decision, nextState) = unclassifiedSuccessorRoute env state profile successor expectedGeneration failure;
              ((persistedDecision, err), e2) = recordUnclassifiedSuccessor env expectedGeneration decision nextState evidence policyState state failure e1
          in if err \<noteq> None then ((persistedDecision, err), e2)
             else ((decision, None), drop_claim (rs_SessionID state) (put_state (rs_SessionID state) nextState e2)))"

definition ApplyUnclassifiedFailureContext ::
  "'s engine_env \<Rightarrow> string \<Rightarrow> Profile \<Rightarrow> int \<Rightarrow> string \<Rightarrow> Error option \<Rightarrow> UnclassifiedFailureEvidence \<Rightarrow> 's RoutingEngine
     \<Rightarrow> (RouteDecision \<times> rerror option) \<times> 's RoutingEngine" where
  "ApplyUnclassifiedFailureContext env sessionID profile expectedGeneration currentCandidateID failure evidence e =
     (case failure of
        None \<Rightarrow> ((no_route, Some ErrStaleGeneration), e)
      | Some f \<Rightarrow>
          if sessionID = '''' \<or> \<not> currentFor evidence sessionID profile currentCandidateID expectedGeneration
          then ((no_route, Some ErrStaleGeneration), e)
          else case currentUnclassifiedRouteState env sessionID profile expectedGeneration currentCandidateID e of
            (Inl err, e1) \<Rightarrow> ((no_route, Some err), e1)
          | (Inr state, e1) \<Rightarrow>
              let policyState = decodePolicyState env (rs_PolicyStateJSON state);
                  threshold = candidateUnclassifiedThreshold profile currentCandidateID;
                  fingerprint = unclassifiedFailureFingerprint (ee_diagnostics env) evidence f
              in if valid_streak (ps_Unclassified policyState) \<and> us_LastAttemptID (the (ps_Unclassified policyState)) = uf_AttemptID evidence
                 then ((unclassifiedStreakDecision state (the (ps_Unclassified policyState)), Some (ErrRecoveryPending '''')), e1)
                 else if \<not> unclassifiedFailureAdmitted threshold evidence f fingerprint
                 then persistUnclassifiedManual env state (rs_PolicyStateJSON state)
                        (clearUnclassifiedFailureState (policyState\<lparr>ps_Unclassified := None\<rparr>) f) f ''unclassified_manual_recovery'' e1
                 else
                   let count = nextUnclassifiedFailureCount (ps_Unclassified policyState) profile currentCandidateID evidence expectedGeneration (the fingerprint) threshold;
                       policyState1 = clearUnclassifiedFailureState (policyState\<lparr>ps_Unclassified :=
                         Some (newUnclassifiedStreak count profile currentCandidateID evidence expectedGeneration (the fingerprint))\<rparr>) f
                   in case ee_marshal_document env (cd_Policies (the (candidateByID profile currentCandidateID))) of
                        None \<Rightarrow> ((no_route, Some ErrEncode), e1)
                      | Some policyJSON \<Rightarrow>
                          let policyState2 = policyState1\<lparr>ps_PolicyJSON := policyJSON\<rparr>
                          in if count < threshold
                             then persistUnclassifiedManual env state (rs_PolicyStateJSON state) policyState2 f ''unclassified_manual_recovery'' e1
                             else routeToUnclassifiedSuccessor env state profile currentCandidateID expectedGeneration f evidence policyState2 e1)"

definition clearUnclassifiedStreak :: "'s engine_env \<Rightarrow> string \<Rightarrow> int \<Rightarrow> string \<Rightarrow> UnclassifiedFailureOrigin \<Rightarrow> 's RoutingEngine \<Rightarrow> rerror option \<times> 's RoutingEngine" where
  "clearUnclassifiedStreak env sessionID expectedGeneration candidateID origin e =
     (case loadStateLocked env sessionID e of
        (Inl err, e1) \<Rightarrow> (Some err, e1)
      | (Inr None, e1) \<Rightarrow> (Some ErrRouteStateNotFound, e1)
      | (Inr (Some state), e1) \<Rightarrow>
          if rs_Generation state \<noteq> expectedGeneration \<or> rs_ExecutionProfileID state \<noteq> candidateID then (Some ErrStaleGeneration, e1)
          else if rs_PolicyStateJSON state = '''' then (None, e1)
          else case ee_unmarshal env (rs_PolicyStateJSON state) of
            None \<Rightarrow> (Some ErrDecode, e1)
          | Some policyState \<Rightarrow> (case ps_Unclassified policyState of
              None \<Rightarrow> (None, e1)
            | Some streak \<Rightarrow>
                if origin \<noteq> '''' \<and> us_Origin streak \<noteq> origin then (None, e1)
                else
                  let state' = state\<lparr>rs_PolicyStateJSON := ee_marshal env (policyState\<lparr>ps_Unclassified := None\<rparr>), rs_UpdatedAt := ee_now env\<rparr>;
                      (err, e2) = persistSnapshot env (rs_Status state) (rs_PolicyStateJSON state) state' e1
                  in if err \<noteq> None then (err, e2) else (None, put_state sessionID state' e2)))"

definition ClearUnclassifiedStreak where
  "ClearUnclassifiedStreak env sessionID expectedGeneration candidateID = clearUnclassifiedStreak env sessionID expectedGeneration candidateID ''''"

definition ClearUnclassifiedStartupStreak where
  "ClearUnclassifiedStartupStreak env sessionID expectedGeneration candidateID =
     clearUnclassifiedStreak env sessionID expectedGeneration candidateID UnclassifiedOriginAgentStartup"

definition ClaimUnclassifiedFallbackLaunch ::
  "'s engine_env \<Rightarrow> RouteDecision \<Rightarrow> UnclassifiedFailureEvidence \<Rightarrow> 's RoutingEngine \<Rightarrow> rerror option \<times> 's RoutingEngine" where
  "ClaimUnclassifiedFallbackLaunch env decision evidence e =
     (case ee_persistence env of
        None \<Rightarrow> (Some ErrUnclassifiedWorkflowContextUnavailable, e)
      | Some p \<Rightarrow> (case p_ClaimUnclassifiedFallbackLaunch p of
          None \<Rightarrow> (Some ErrUnclassifiedWorkflowContextUnavailable, e)
        | Some claim \<Rightarrow> call_store (claim decision evidence) e))"

end
