(* ===== verification/Route_Repo.thy ===== *)
theory Route_Repo
  imports Dynamic_Recovery
begin

text \<open>
  The repository of routes (\<open>task/repository/sqlite/dynamic_route.go\<close>): the tables of route states and
  attempts with the constraints of the schema (\<open>base_schema.go\<close>), the circuits, and the rows of tasks,
  sessions and workflow steps that the fences of an automatic fallback read.  A method is one transaction;
  \<open>db_faults\<close> says which of the next ones the database refuses, and a refused one changes no row.
\<close>

section \<open>Tables\<close>

record step_row =
  sr_workflow_id :: string
  sr_disable_unclassified_fallback :: int
  sr_updated_at :: time

record route_db =
  db_states :: "(string, RouteState) gomap"
  db_attempts :: "RouteAttempt list"
  db_circuits :: circuit_table
  db_task_steps :: "(string, string \<times> string) gomap"
  db_sessions :: "(string, string) gomap"
  db_steps :: "(string, step_row) gomap"
  db_faults :: "bool list"

definition isTransientRouteSession :: "string \<Rightarrow> bool" where
  "isTransientRouteSession sessionID \<longleftrightarrow> take 8 sessionID = ''utility:''"

text \<open>Run a transaction, or refuse it.\<close>

definition transact :: "(rerror \<Rightarrow> 'a) \<Rightarrow> (route_db \<Rightarrow> 'a \<times> route_db) \<Rightarrow> route_db \<Rightarrow> 'a \<times> route_db" where
  "transact failed tx db =
     (let db' = db\<lparr>db_faults := tl (db_faults db)\<rparr>
      in if db_faults db \<noteq> [] \<and> hd (db_faults db) then (failed (ErrStore ''database is locked''), db') else tx db')"

definition stamp :: "time \<Rightarrow> time \<Rightarrow> time" where
  "stamp now t = (if IsZero t then now else t)"

definition repo_SaveRouteState :: "time \<Rightarrow> RouteState \<Rightarrow> route_db \<Rightarrow> rerror option \<times> route_db" where
  "repo_SaveRouteState now state db =
     (if isTransientRouteSession (rs_SessionID state) then (None, db)
      else transact Some (\<lambda>db. (None, db\<lparr>db_states := gm_put (rs_SessionID state) (state\<lparr>rs_UpdatedAt := stamp now (rs_UpdatedAt state)\<rparr>) (db_states db)\<rparr>)) db)"

text \<open>
  The guarded update of a route: the insert is for the initial generation only and yields to an existing
  row; otherwise the row is updated where its generation, and whatever else is asked of it, match.
\<close>

definition update_route :: "(RouteState \<Rightarrow> bool) \<Rightarrow> RouteState \<Rightarrow> route_db \<Rightarrow> bool \<times> route_db" where
  "update_route matches state db = (case gm_get (db_states db) (rs_SessionID state) of
       None \<Rightarrow> (False, db)
     | Some row \<Rightarrow> if matches row then (True, db\<lparr>db_states := gm_put (rs_SessionID state) state (db_states db)\<rparr>) else (False, db))"

definition claim_route :: "int \<Rightarrow> RouteState \<Rightarrow> route_db \<Rightarrow> bool \<times> route_db" where
  "claim_route expectedGeneration state db =
     (if expectedGeneration = 0 then
        (case gm_get (db_states db) (rs_SessionID state) of
           Some row \<Rightarrow> (False, db)
         | None \<Rightarrow> (True, db\<lparr>db_states := gm_put (rs_SessionID state) state (db_states db)\<rparr>))
      else update_route (\<lambda>row. rs_Generation row = expectedGeneration) state db)"

definition repo_ClaimRouteState :: "int \<Rightarrow> RouteState \<Rightarrow> route_db \<Rightarrow> (rerror + bool) \<times> route_db" where
  "repo_ClaimRouteState expectedGeneration state db =
     (if isTransientRouteSession (rs_SessionID state) then (Inr True, db)
      else transact Inl (\<lambda>db. let (won, db') = claim_route expectedGeneration state db in (Inr won, db')) db)"

definition repo_ClaimRouteStateFrom :: "int \<Rightarrow> string \<Rightarrow> RouteState \<Rightarrow> route_db \<Rightarrow> (rerror + bool) \<times> route_db" where
  "repo_ClaimRouteStateFrom expectedGeneration expectedStatus state db =
     (if isTransientRouteSession (rs_SessionID state) then (Inr True, db)
      else transact Inl (\<lambda>db. let (won, db') = update_route (\<lambda>row. rs_Generation row = expectedGeneration \<and> rs_Status row = expectedStatus) state db
             in (Inr won, db')) db)"

definition repo_ClaimRouteStateFromSnapshot :: "int \<Rightarrow> string \<Rightarrow> string \<Rightarrow> RouteState \<Rightarrow> route_db \<Rightarrow> (rerror + bool) \<times> route_db" where
  "repo_ClaimRouteStateFromSnapshot expectedGeneration expectedStatus expectedPolicyState state db =
     (if isTransientRouteSession (rs_SessionID state) then (Inr True, db)
      else transact Inl (\<lambda>db. let (won, db') = update_route (\<lambda>row. rs_Generation row = expectedGeneration \<and> rs_Status row = expectedStatus \<and>
                rs_PolicyStateJSON row = expectedPolicyState) state db
             in (Inr won, db')) db)"

text \<open>\<open>UNIQUE (session_id, route_generation)\<close> of the attempts.\<close>

definition insert_attempt :: "RouteAttempt \<Rightarrow> route_db \<Rightarrow> rerror option \<times> route_db" where
  "insert_attempt attempt db =
     (if list_ex (\<lambda>a. ra_SessionID a = ra_SessionID attempt \<and> ra_Generation a = ra_Generation attempt) (db_attempts db)
      then (Some (ErrStore ''UNIQUE constraint failed''), db)
      else (None, db\<lparr>db_attempts := db_attempts db @ [attempt]\<rparr>))"

definition decisionReasonTime :: "time \<Rightarrow> RouteState \<Rightarrow> time" where
  "decisionReasonTime now state = (if \<not> IsZero (rs_UpdatedAt state) then rs_UpdatedAt state else now)"

text \<open>A transaction that returns an error is rolled back.\<close>

definition recordRouteDecisionTx :: "time \<Rightarrow> RouteDecision \<Rightarrow> RouteState \<Rightarrow> route_db \<Rightarrow> rerror option \<times> route_db" where
  "recordRouteDecisionTx now decision state db =
     (let (won, db1) = claim_route (rs_Generation state - 1) state db
      in if \<not> won then (Some ErrStaleGeneration, db)
         else case insert_attempt ((attempt_of decision state)\<lparr>ra_CreatedAt := decisionReasonTime now state\<rparr>) db1 of
           (Some err, _) \<Rightarrow> (Some err, db)
         | (None, db2) \<Rightarrow> (None, db2))"

definition repo_RecordRouteDecision :: "time \<Rightarrow> RouteDecision \<Rightarrow> RouteState \<Rightarrow> route_db \<Rightarrow> rerror option \<times> route_db" where
  "repo_RecordRouteDecision now decision state db =
     (if isTransientRouteSession (rs_SessionID state) then (None, db) else transact Some (recordRouteDecisionTx now decision state) db)"

section \<open>The workflow context of a fallback\<close>

definition validateUnclassifiedTaskStepTx :: "route_db \<Rightarrow> UnclassifiedFailureEvidence \<Rightarrow> rerror option" where
  "validateUnclassifiedTaskStepTx db evidence = (case gm_get (db_task_steps db) (uf_TaskID evidence) of
       None \<Rightarrow> Some ErrUnclassifiedWorkflowContextUnavailable
     | Some (workflowID, stepID) \<Rightarrow>
         if workflowID \<noteq> uf_WorkflowID evidence \<or> stepID \<noteq> uf_StepID evidence then Some ErrUnclassifiedWorkflowContextChanged else None)"

definition validateUnclassifiedSessionTaskTx :: "route_db \<Rightarrow> UnclassifiedFailureEvidence \<Rightarrow> rerror option" where
  "validateUnclassifiedSessionTaskTx db evidence = (case gm_get (db_sessions db) (uf_SessionID evidence) of
       None \<Rightarrow> Some ErrUnclassifiedWorkflowContextUnavailable
     | Some taskID \<Rightarrow> if taskID \<noteq> uf_TaskID evidence then Some ErrUnclassifiedWorkflowContextChanged else None)"

definition validateUnclassifiedStepRevisionTx :: "route_db \<Rightarrow> UnclassifiedFailureEvidence \<Rightarrow> rerror option" where
  "validateUnclassifiedStepRevisionTx db evidence =
     (if uf_StepID evidence = '''' then
        (if uf_StepVeto evidence \<or> \<not> IsZero (uf_StepUpdatedAt evidence) then Some ErrUnclassifiedWorkflowContextChanged else None)
      else case gm_get (db_steps db) (uf_StepID evidence) of
        None \<Rightarrow> Some ErrUnclassifiedWorkflowContextChanged
      | Some step \<Rightarrow>
          if sr_workflow_id step \<noteq> uf_WorkflowID evidence \<or> sr_disable_unclassified_fallback step \<noteq> 0 \<or> uf_StepVeto evidence \<or>
             IsZero (uf_StepUpdatedAt evidence) \<or> sr_updated_at step \<noteq> uf_StepUpdatedAt evidence
          then Some ErrUnclassifiedWorkflowContextChanged else None)"

definition validateUnclassifiedWorkflowContextTx :: "route_db \<Rightarrow> UnclassifiedFailureEvidence \<Rightarrow> rerror option" where
  "validateUnclassifiedWorkflowContextTx db evidence =
     (if \<not> uf_TaskScope evidence \<or> uf_TaskID evidence = '''' \<or> \<not> uf_StepKnown evidence then Some ErrUnclassifiedWorkflowContextUnavailable
      else case validateUnclassifiedTaskStepTx db evidence of
        Some err \<Rightarrow> Some err
      | None \<Rightarrow> (case validateUnclassifiedSessionTaskTx db evidence of
          Some err \<Rightarrow> Some err
        | None \<Rightarrow> validateUnclassifiedStepRevisionTx db evidence))"

definition repo_RecordUnclassifiedRouteDecision ::
  "time \<Rightarrow> RouteDecision \<Rightarrow> RouteState \<Rightarrow> UnclassifiedFailureEvidence \<Rightarrow> route_db \<Rightarrow> rerror option \<times> route_db" where
  "repo_RecordUnclassifiedRouteDecision now decision state evidence db =
     transact Some (\<lambda>db. case validateUnclassifiedWorkflowContextTx db evidence of
         Some err \<Rightarrow> (Some err, db)
       | None \<Rightarrow> if isTransientRouteSession (rs_SessionID state) then (None, db) else recordRouteDecisionTx now decision state db) db"

definition repo_ClaimUnclassifiedFallbackLaunch :: "RouteDecision \<Rightarrow> UnclassifiedFailureEvidence \<Rightarrow> route_db \<Rightarrow> rerror option \<times> route_db" where
  "repo_ClaimUnclassifiedFallbackLaunch decision evidence db =
     transact Some (\<lambda>db. case validateUnclassifiedWorkflowContextTx db evidence of
         Some err \<Rightarrow> (Some err, db)
       | None \<Rightarrow> (case gm_get (db_states db) (rd_SessionID decision) of
           None \<Rightarrow> (Some ErrStaleGeneration, db)
         | Some row \<Rightarrow>
             if rs_LogicalProfileID row \<noteq> rd_LogicalProfileID decision \<or> rs_ExecutionProfileID row \<noteq> rd_ExecutionProfileID decision \<or>
                rs_Generation row \<noteq> rd_Generation decision \<or> rs_ProfileVersion row \<noteq> rd_ProfileVersion decision \<or> rs_Status row \<noteq> ''starting''
             then (Some ErrStaleGeneration, db) else (None, db))) db"

section \<open>Attempts, reads and continuations\<close>

definition repo_AppendRouteAttempt :: "time \<Rightarrow> RouteAttempt \<Rightarrow> route_db \<Rightarrow> rerror option \<times> route_db" where
  "repo_AppendRouteAttempt now attempt db =
     (if isTransientRouteSession (ra_SessionID attempt) then (None, db)
      else transact Some (insert_attempt (attempt\<lparr>ra_CreatedAt := stamp now (ra_CreatedAt attempt)\<rparr>)) db)"

definition repo_LoadRouteState :: "string \<Rightarrow> route_db \<Rightarrow> rerror + RouteState option" where
  "repo_LoadRouteState sessionID db = (if isTransientRouteSession sessionID then Inr None else Inr (gm_get (db_states db) sessionID))"

definition ListPendingRouteStates :: "route_db \<Rightarrow> RouteState list" where
  "ListPendingRouteStates db = sort_key rs_UpdatedAt (filter (\<lambda>s. rs_Status s = ''retry_wait'' \<or> rs_Status s = ''waiting_for_reset'') (map snd (db_states db)))"

definition ListStartingRouteStates :: "route_db \<Rightarrow> RouteState list" where
  "ListStartingRouteStates db = sort_key rs_UpdatedAt (filter (\<lambda>s. rs_Status s = ''starting'') (map snd (db_states db)))"

definition ListRouteAttempts :: "string \<Rightarrow> route_db \<Rightarrow> RouteAttempt list" where
  "ListRouteAttempts sessionID db = (if isTransientRouteSession sessionID then []
     else sort_key ra_Generation (filter (\<lambda>a. ra_SessionID a = sessionID) (db_attempts db)))"

text \<open>The JSON text of the continuation is given.\<close>

definition SaveRouteContinuation :: "time \<Rightarrow> string \<Rightarrow> int \<Rightarrow> string \<Rightarrow> time \<Rightarrow> route_db \<Rightarrow> rerror option \<times> route_db" where
  "SaveRouteContinuation now sessionID generation payload updatedAt db =
     (if isTransientRouteSession sessionID then (None, db)
      else transact Some (\<lambda>db. case gm_get (db_states db) sessionID of
          None \<Rightarrow> (Some ErrStaleGeneration, db)
        | Some row \<Rightarrow>
            if rs_Generation row \<noteq> generation then (Some ErrStaleGeneration, db)
            else (None, db\<lparr>db_states := gm_put sessionID (row\<lparr>rs_ContinuationJSON := payload, rs_UpdatedAt := stamp now updatedAt\<rparr>) (db_states db)\<rparr>)) db)"

section \<open>The repository as the engine sees it\<close>

definition repository :: "time \<Rightarrow> route_db Persistence" where
  "repository now = \<lparr>p_SaveRouteState = repo_SaveRouteState now, p_AppendRouteAttempt = repo_AppendRouteAttempt now,
     p_ClaimRouteState = Some repo_ClaimRouteState, p_ClaimRouteStateFrom = Some repo_ClaimRouteStateFrom,
     p_ClaimRouteStateFromSnapshot = Some repo_ClaimRouteStateFromSnapshot, p_RecordRouteDecision = Some (repo_RecordRouteDecision now),
     p_RecordUnclassifiedRouteDecision = Some (repo_RecordUnclassifiedRouteDecision now),
     p_ClaimUnclassifiedFallbackLaunch = Some repo_ClaimUnclassifiedFallbackLaunch\<rparr>"

definition circuit_repository :: "time \<Rightarrow> route_db CircuitPersistence" where
  "circuit_repository now = \<lparr>
     cp_SaveCircuit = (\<lambda>snapshot db. let (err, t) = SaveCircuit now snapshot (db_circuits db) in (err, db\<lparr>db_circuits := t\<rparr>)),
     cp_LoadCircuits = (\<lambda>db. LoadCircuits (db_circuits db))\<rparr>"

text \<open>The environment of the production engine (\<open>backendapp/services.go\<close>) with a clock and a codec.\<close>

definition production :: "time \<Rightarrow> (PolicyState \<Rightarrow> string) \<Rightarrow> (string \<Rightarrow> PolicyState option) \<Rightarrow> (Document \<Rightarrow> string option) \<Rightarrow> diagnostics
     \<Rightarrow> (string list \<Rightarrow> string list) \<Rightarrow> route_db engine_env" where
  "production now marshal unmarshal marshal_document diagnostics' order =
     \<lparr>ee_now = now, ee_persistence = Some (repository now), ee_loader = Some repo_LoadRouteState,
      ee_circuit_persistence = Some (circuit_repository now), ee_order = order, ee_marshal = marshal, ee_unmarshal = unmarshal,
      ee_marshal_document = marshal_document, ee_diagnostics = diagnostics'\<rparr>"

end
