(* ===== verification/Policy_Laws.thy ===== *)
theory Policy_Laws
  imports Routing_Policy
begin

text \<open>
  The recovery policies: the delay before a retry doubles up to a day without ever wrapping around, and
  an evaluation only waits, retries or skips when the policy, the failure and the effects allow it.
\<close>

section \<open>The retry delay\<close>

lemma interval_word: "1 \<le> i \<Longrightarrow> i \<le> 3600 \<Longrightarrow> uint (word_of_int i :: 64 word) = i"
  by (simp add: uint_word_of_int)

lemma power_word: "n < 63 \<Longrightarrow> uint (push_bit n 1 :: 64 word) = 2 ^ n"
proof -
  assume "n < 63"
  then have "(2::int) ^ n < 2 ^ 64" by (intro power_strict_increasing) auto
  moreover have "uint (push_bit n 1 :: 64 word) = take_bit 64 (push_bit n (uint (1 :: 64 word)))" by (simp only: unsigned_push_bit_eq) simp
  ultimately show ?thesis by (simp add: take_bit_eq_mod push_bit_eq_mult)
qed

lemma all_ones: "uint (- 1 :: 64 word) = 2 ^ 64 - 1"
  by (simp add: unsigned_minus_1_eq_mask mask_eq_exp_minus_1)

lemma div_less_mult: "0 < b \<Longrightarrow> a div b < i \<Longrightarrow> a < i * (b :: int)"
proof -
  assume b: "0 < b" and "a div b < i"
  then have "(a div b + 1) * b \<le> i * b" by (intro mult_right_mono) auto
  moreover have "a = a div b * b + a mod b" by simp
  moreover have "a mod b < b" using b by simp
  ultimately show ?thesis by (simp only: distrib_right)
qed

lemma div_mult_less: "0 < b \<Longrightarrow> a div b * b \<le> (a :: int)"
  using div_mult_mod_eq [of a b] pos_mod_sign [of b a] by linarith

lemma retry_delay:
  assumes "1 \<le> i" "i \<le> MaxInitialIntervalSeconds" "0 \<le> n"
  shows "NextRetryDelay i n = Some (min (i * 2 ^ nat n) (24 * 60 * 60) * Second)"
proof (cases "n \<ge> 63")
  case True
  have "(2::int) ^ 63 \<le> 2 ^ nat n" using True by (intro power_increasing) auto
  then have "24 * 60 * 60 \<le> i * 2 ^ nat n" using mult_mono [of 1 i "2 ^ 63" "2 ^ nat n"] assms(1) by simp
  then show ?thesis using assms True by (simp add: NextRetryDelay_def)
next
  case False
  define s where "s = (word_of_int i :: 64 word)"
  define p where "p = (push_bit (nat n) 1 :: 64 word)"
  have us: "uint s = i" using interval_word assms by (simp add: s_def)
  have up: "uint p = 2 ^ nat n" using power_word [of "nat n"] False assms(3) by (simp add: p_def)
  have run: "NextRetryDelay i n = (if n > 0 \<and> s > (- 1) div p then Some MaxRetryDelay
      else let s' = (if n > 0 then s * p else s) in if s' \<ge> word_of_int 86400 then Some MaxRetryDelay else Some (uint s' * Second))"
    using assms False by (simp add: NextRetryDelay_def Let_def s_def p_def)
  have lim: "uint (word_of_int 86400 :: 64 word) = 86400" by simp
  show ?thesis
  proof (cases "n > 0 \<and> s > (- 1) div p")
    case True
    then have "(2 ^ 64 - 1) div 2 ^ nat n < i" by (simp add: word_less_def uint_div us up all_ones)
    then have "2 ^ 64 - 1 < i * 2 ^ nat n" by (rule div_less_mult [rotated]) simp
    then have "86400 \<le> i * 2 ^ nat n" by simp
    then show ?thesis using True by (simp add: run)
  next
    case False
    have "uint (if n > 0 then s * p else s) = i * 2 ^ nat n"
    proof (cases "n > 0")
      case True
      with False have "i \<le> (2 ^ 64 - 1) div 2 ^ nat n" by (simp add: word_less_def uint_div us up all_ones not_less)
      then have "i * 2 ^ nat n \<le> (2 ^ 64 - 1) div 2 ^ nat n * 2 ^ nat n" by (rule mult_right_mono) simp
      also have "\<dots> \<le> 2 ^ 64 - 1" by (rule div_mult_less) simp
      finally have "i * 2 ^ nat n < 2 ^ 64" by simp
      then show ?thesis using True assms(1) by (simp add: uint_word_ariths(3) us up)
    qed (use assms(3) us in simp)
    then show ?thesis using False by (simp add: run Let_def word_le_def lim min_def del: word_of_int_numeral)
  qed
qed

text \<open>
  C17: The delay before a retry, computed on 64-bit words, is the initial interval doubled once for every
  retry already made, capped at a day: no shift and no product wraps around, whatever the number of
  retries.
\<close>

theorem retry_delay_exact:
  assumes "1 \<le> i" "i \<le> MaxInitialIntervalSeconds" "0 \<le> n"
  shows "NextRetryDelay i n = Some (min (i * 2 ^ nat n) (24 * 60 * 60) * Second)"
  using assms by (rule retry_delay)

theorem retry_delay_exact_witness:
  "NextRetryDelay 3600 62 = Some MaxRetryDelay \<and> NextRetryDelay 5 2 = Some (20 * Second)"
  using retry_delay_exact [of 3600 62] retry_delay_exact [of 5 2] by (simp add: min_def)

section \<open>Evaluations\<close>

lemma valid_policy:
  assumes "ValidatePolicy p = None"
  shows "rp_Enabled (pl_Retry p) \<longrightarrow> 1 \<le> rp_MaxRetries (pl_Retry p) \<and> rp_MaxRetries (pl_Retry p) \<le> MaxRetries \<and>
      1 \<le> rp_InitialIntervalSeconds (pl_Retry p) \<and> rp_InitialIntervalSeconds (pl_Retry p) \<le> MaxInitialIntervalSeconds"
    "rw_Enabled (pl_WaitForReset p) \<longrightarrow> 1 \<le> rw_MaxWaitSeconds (pl_WaitForReset p) \<and> rw_MaxWaitSeconds (pl_WaitForReset p) \<le> MaxResetWaitSeconds"
    "pl_OnExhausted p = OutcomeSkip \<or> pl_OnExhausted p = OutcomeStop"
  using assms by (auto simp: ValidatePolicy_def Let_def split: if_splits option.splits)

lemma valid_document:
  assumes "ValidateDocument d = None" "PolicyFor d c = Some p"
  shows "ValidatePolicy p = None" "c = ClassTransient \<or> c = ClassHard"
  using assms by (auto simp: ValidateDocument_def PolicyFor_def split: if_splits option.splits)

lemma evaluation_spec:
  assumes "ev_Kind (Evaluate document input) \<noteq> DecisionStop"
  defines "ev \<equiv> Evaluate document input"
  shows "\<exists>failure policy. ei_Failure input = Some failure \<and> ei_EffectSafe input \<and> e_FallbackAllowed failure \<and>
    ValidateDocument document = None \<and> PolicyFor document (failureClass failure) = Some policy \<and> ev_PendingOutcome ev = pl_OnExhausted policy \<and> ev_Class ev = failureClass failure \<and>
    (if ev_Kind ev = DecisionRetry then
       \<not> HoldsUntilRelease (e_Code failure) \<and> rp_Enabled (pl_Retry policy) \<and> ev_RetryOrdinal ev = ei_RetryOrdinal input + 1 \<and>
       ev_RetryOrdinal ev \<le> rp_MaxRetries (pl_Retry policy) \<and>
       ev_Deadline ev = ei_Now input + min (rp_InitialIntervalSeconds (pl_Retry policy) * 2 ^ nat (ei_RetryOrdinal input)) (24 * 60 * 60) * Second
     else if ev_Kind ev = DecisionWaitForReset then
       \<not> HoldsUntilRelease (e_Code failure) \<and> rw_Enabled (pl_WaitForReset policy) \<and> \<not> ei_ResetWaitUsed input \<and>
       e_ResetHint failure = Some (ev_Deadline ev) \<and> ei_Now input < ev_Deadline ev \<and>
       ev_Deadline ev \<le> ei_Now input + rw_MaxWaitSeconds (pl_WaitForReset policy) * Second \<and> ev_RetryOrdinal ev = 0
     else ev_Kind ev = DecisionSkip \<and> pl_OnExhausted policy = OutcomeSkip)"
proof -
  obtain failure policy where e: "ei_Failure input = Some failure" "ei_EffectSafe input" "e_FallbackAllowed failure"
      "ValidateDocument document = None" "PolicyFor document (failureClass failure) = Some policy"
    using assms(1) by (auto simp: Evaluate_def stopped_def split: option.splits if_splits)
  note valid = valid_policy [OF valid_document(1) [OF e(4,5)]]
  let ?code = "e_Code failure" and ?res = "resetWaitDeadline policy failure input" and ?ret = "retryDeadline policy input"
  define result where "result = stopped\<lparr>ev_Class := failureClass failure, ev_Code := e_Code failure,
      ev_CatalogueVersion := (if e_CatalogueVersion failure = '''' then CatalogueVersion else e_CatalogueVersion failure), ev_PendingOutcome := pl_OnExhausted policy\<rparr>"
  have run: "ev = (if HoldsUntilRelease ?code then (if pl_OnExhausted policy = OutcomeSkip then result\<lparr>ev_Kind := DecisionSkip\<rparr> else result)
      else case ?res of Some resetAt \<Rightarrow> result\<lparr>ev_Kind := DecisionWaitForReset, ev_Deadline := resetAt\<rparr>
      | None \<Rightarrow> (case ?ret of Some (retryAt, n) \<Rightarrow> result\<lparr>ev_Kind := DecisionRetry, ev_RetryOrdinal := n, ev_Deadline := retryAt\<rparr>
        | None \<Rightarrow> if pl_OnExhausted policy = OutcomeSkip then result\<lparr>ev_Kind := DecisionSkip\<rparr> else result))"
    using e by (simp add: ev_def Evaluate_def result_def Let_def split: option.split)
  have res: "ev_Kind result = DecisionStop" "ev_PendingOutcome result = pl_OnExhausted policy" "ev_Class result = failureClass failure" "ev_RetryOrdinal result = 0" by (simp_all add: result_def stopped_def)
  show ?thesis
  proof (cases "HoldsUntilRelease ?code \<or> ?res = None \<and> ?ret = None")
    case True
    then have "ev_Kind ev = DecisionSkip" "pl_OnExhausted policy = OutcomeSkip" "ev_PendingOutcome ev = pl_OnExhausted policy" "ev_Class ev = failureClass failure"
      using assms(1) res by (auto simp: run ev_def [symmetric] split: if_splits)
    then show ?thesis using e by auto
  next
    case False
    show ?thesis
    proof (cases ?res)
      case (Some resetAt)
      then have "ev = result\<lparr>ev_Kind := DecisionWaitForReset, ev_Deadline := resetAt\<rparr>" using False by (simp add: run)
      moreover have "rw_Enabled (pl_WaitForReset policy)" "\<not> ei_ResetWaitUsed input" "e_ResetHint failure = Some resetAt"
          "ei_Now input < resetAt" "resetAt \<le> ei_Now input + rw_MaxWaitSeconds (pl_WaitForReset policy) * Second"
        using Some by (auto simp: resetWaitDeadline_def Let_def After_def split: option.splits if_splits)
      ultimately show ?thesis using e False res(2-4) by auto
    next
      case None
      then obtain retryAt n where ret: "?ret = Some (retryAt, n)" using False by auto
      then have ev: "ev = result\<lparr>ev_Kind := DecisionRetry, ev_RetryOrdinal := n, ev_Deadline := retryAt\<rparr>" using False None by (simp add: run)
      from ret obtain delay where d: "NextRetryDelay (rp_InitialIntervalSeconds (pl_Retry policy)) (ei_RetryOrdinal input) = Some delay"
          "retryAt = ei_Now input + delay" "n = ei_RetryOrdinal input + 1" "rp_Enabled (pl_Retry policy)" "ei_RetryOrdinal input < rp_MaxRetries (pl_Retry policy)"
        by (auto simp: retryDeadline_def split: if_splits option.splits)
      moreover have "0 \<le> ei_RetryOrdinal input" using d(1) by (auto simp: NextRetryDelay_def split: if_splits)
      ultimately have "delay = min (rp_InitialIntervalSeconds (pl_Retry policy) * 2 ^ nat (ei_RetryOrdinal input)) (24 * 60 * 60) * Second"
        using retry_delay [of "rp_InitialIntervalSeconds (pl_Retry policy)" "ei_RetryOrdinal input"] valid(1) by simp
      then show ?thesis using e False res(2-4) d ev by auto
    qed
  qed
qed

text \<open>
  C21: An evaluation is safe.  A failure leads to a wait, a retry or a skip only if its effects are safe, the
  classifier allows a fallback, and a valid policy covers its class.  A retry is within the allowed number
  and its deadline is the doubled interval from now; a wait ends at the provider's reset time, after now and
  within the allowed wait, and only if no wait was used before; a skip is what the policy says to do when it
  is exhausted.  An account block is never waited for or retried.
\<close>

theorem evaluation_safe:
  assumes "ev_Kind (Evaluate document input) \<noteq> DecisionStop"
  defines "ev \<equiv> Evaluate document input"
  shows "\<exists>failure policy. ei_Failure input = Some failure \<and> ei_EffectSafe input \<and> e_FallbackAllowed failure \<and>
    ValidateDocument document = None \<and> PolicyFor document (failureClass failure) = Some policy \<and> ev_PendingOutcome ev = pl_OnExhausted policy \<and> ev_Class ev = failureClass failure \<and>
    (if ev_Kind ev = DecisionRetry then
       \<not> HoldsUntilRelease (e_Code failure) \<and> rp_Enabled (pl_Retry policy) \<and> ev_RetryOrdinal ev = ei_RetryOrdinal input + 1 \<and>
       ev_RetryOrdinal ev \<le> rp_MaxRetries (pl_Retry policy) \<and>
       ev_Deadline ev = ei_Now input + min (rp_InitialIntervalSeconds (pl_Retry policy) * 2 ^ nat (ei_RetryOrdinal input)) (24 * 60 * 60) * Second
     else if ev_Kind ev = DecisionWaitForReset then
       \<not> HoldsUntilRelease (e_Code failure) \<and> rw_Enabled (pl_WaitForReset policy) \<and> \<not> ei_ResetWaitUsed input \<and>
       e_ResetHint failure = Some (ev_Deadline ev) \<and> ei_Now input < ev_Deadline ev \<and>
       ev_Deadline ev \<le> ei_Now input + rw_MaxWaitSeconds (pl_WaitForReset policy) * Second \<and> ev_RetryOrdinal ev = 0
     else ev_Kind ev = DecisionSkip \<and> pl_OnExhausted policy = OutcomeSkip)"
  using evaluation_spec [OF assms(1)] unfolding ev_def .

definition ex_policy :: Policy where
  "ex_policy = \<lparr>pl_Retry = \<lparr>rp_Enabled = True, rp_MaxRetries = 2, rp_InitialIntervalSeconds = 5\<rparr>,
     pl_WaitForReset = \<lparr>rw_Enabled = True, rw_MaxWaitSeconds = 300\<rparr>, pl_OnExhausted = OutcomeSkip\<rparr>"

definition ex_document :: Document where
  "ex_document = DefaultDocument\<lparr>d_Transient := ex_policy\<rparr>"

definition ex_error :: "time option \<Rightarrow> Error" where
  "ex_error hint = \<lparr>e_Code = CodeRateLimited, e_Class = ClassTransient, e_CatalogueVersion = '''', e_Confidence = ''high'',
     e_Phase = PhasePromptSend, e_FallbackAllowed = True, e_AutoRetryable = True, e_UserAction = False, e_ClassifierRule = ''http.429'',
     e_ExitCode = None, e_ResetHint = hint, e_ResetHintInferred = False, e_RawExcerpt = '''', e_RemediationPath = ''''\<rparr>"

definition ex_evaluation_input :: EvaluationInput where
  "ex_evaluation_input = \<lparr>ei_Failure = Some (ex_error None), ei_Now = 7, ei_RetryOrdinal = 1, ei_ResetWaitUsed = False, ei_EffectSafe = True\<rparr>"

theorem evaluation_safe_witness:
  "ev_Kind (Evaluate ex_document ex_evaluation_input) = DecisionRetry \<and> ev_RetryOrdinal (Evaluate ex_document ex_evaluation_input) = 2 \<and>
   (\<exists>policy. PolicyFor ex_document ClassTransient = Some policy \<and> ev_RetryOrdinal (Evaluate ex_document ex_evaluation_input) \<le> rp_MaxRetries (pl_Retry policy))"
proof -
  have k: "ev_Kind (Evaluate ex_document ex_evaluation_input) = DecisionRetry" by code_simp
  then have "ev_Kind (Evaluate ex_document ex_evaluation_input) \<noteq> DecisionStop" by simp
  from evaluation_safe [OF this] k show ?thesis by (auto simp: ex_evaluation_input_def failureClass_def ex_error_def)
qed

end
