(* ===== verification/Routing_Laws.thy ===== *)
theory Routing_Laws
  imports Route_Repo Circuit_Laws Policy_Laws
begin

text \<open>
  Laws of the routing engine that hold with any store: which candidate is selected, that a held profile
  is never used, that stale reports are ignored, and that recovery within a generation ends.
\<close>

section \<open>Selection\<close>

lemma candidate_refused: "fst (candidateSelectable env c s g x p e) = False \<Longrightarrow> snd (candidateSelectable env c s g x p e) = e"
  by (auto simp: candidateSelectable_def AcquireProbe_def Let_def split: if_splits option.splits prod.splits)

lemma load_claims: "en_retryClaims (snd (loadStateLocked env s e)) = en_retryClaims e"
  by (auto simp: loadStateLocked_def put_state_def split: option.splits sum.splits)

text \<open>Why a candidate is passed over.\<close>

definition passed_over :: "'s engine_env \<Rightarrow> string \<Rightarrow> string \<Rightarrow> 's RoutingEngine \<Rightarrow> Candidate \<Rightarrow> bool" where
  "passed_over env x p e c \<longleftrightarrow> \<not> cd_Enabled c \<or> cd_ID c = x \<or> (p \<noteq> '''' \<and> cd_ID c \<noteq> p) \<or>
     IsHeld (accountBlockKey (cd_ID c)) (en_circuits e) \<or>
     (cd_BindingKey c \<noteq> '''' \<and> IsOpen (cd_BindingKey c) (ee_now env) (en_circuits e) \<and>
      fst (AcquireProbe (circuit_env_of env) (cd_BindingKey c) probeLeaseDuration (en_circuits e)) = None)"

lemma candidate_passed: "fst (candidateSelectable env c s g x p e) = (\<not> passed_over env x p e c)"
  by (auto simp: candidateSelectable_def passed_over_def split: prod.splits option.splits)

lemma first_selectable_spec:
  "first_selectable env s g x p cs e =
     (case find (\<lambda>c. \<not> passed_over env x p e c) cs of
        None \<Rightarrow> (None, e)
      | Some c \<Rightarrow> (Some c, snd (candidateSelectable env c s g x p e)))"
proof (induction cs)
  case (Cons c cs)
  show ?case
  proof (cases "passed_over env x p e c")
    case True
    then have "candidateSelectable env c s g x p e = (False, e)"
      using candidate_passed [of env c s g x p e] candidate_refused [of env c s g x p e] by (simp add: prod_eq_iff)
    with True Cons show ?thesis by simp
  next
    case False
    then have "candidateSelectable env c s g x p e = (True, snd (candidateSelectable env c s g x p e))"
      using candidate_passed [of env c s g x p e] by (simp add: prod_eq_iff)
    with False show ?thesis by (simp add: Let_def case_prod_beta candidate_passed)
  qed
qed simp

lemma load_circuits: "en_circuits (snd (loadStateLocked env s e)) = en_circuits e"
  by (auto simp: loadStateLocked_def put_state_def split: option.splits sum.splits)

lemma load_store [simp]: "en_store (snd (loadStateLocked env s e)) = en_store e"
  by (simp add: en_store_def load_circuits)

lemma passed_load: "passed_over env x p (snd (loadStateLocked env s e)) = passed_over env x p e"
  by (simp add: passed_over_def load_circuits fun_eq_iff)

lemma claim_states [simp]:
  "en_states (snd (call_store f e)) = en_states e" "snd (claimed r) = snd r"
  "en_retryClaims (snd (call_store f e)) = en_retryClaims e"
  by (auto simp: call_store_def claimed_def Let_def split: prod.splits sum.splits)

lemma selection_spec:
  fixes e :: "'s RoutingEngine"
  assumes "fst (loadStateLocked env s e) = Inr current" "g = (case current of None \<Rightarrow> 0 | Some state \<Rightarrow> rs_Generation state)"
  shows "case (find (\<lambda>c. \<not> passed_over env x p e c) (pf_Candidates profile), selectContext env s profile g x p reason e) of
      (Some c, ((d, None), e')) \<Rightarrow> rd_SessionID d = s \<and> rd_ExecutionProfileID d = cd_ID c \<and> rd_Generation d = g + 1 \<and> rd_Status d = routeStatusStarting \<and>
        rd_Reason d = reason \<and> (\<exists>state. gm_get (en_states e') s = Some state \<and> d = route_decision state reason)
    | (Some c, ((d, Some err), e')) \<Rightarrow> d = no_route \<and> gm_get (en_states e') s = None
    | (None, ((d, err), e')) \<Rightarrow> d = no_route \<and> err \<noteq> None"
proof -
  obtain e1 where load: "loadStateLocked env s e = (Inr current, e1)" using assms(1) by (cases "loadStateLocked env s e") auto
  have passed: "passed_over env x p e1 = passed_over env x p e" using passed_load [of env x p s e] by (simp add: load)
  show ?thesis
  proof (cases "find (\<lambda>c. \<not> passed_over env x p e c) (pf_Candidates profile)")
    case None
    then show ?thesis using assms(2)
      by (auto simp: selectContext_def load first_selectable_spec passed Let_def split: prod.splits)
  next
    case (Some c)
    let ?st = "selected_state env s profile (g + 1) current c"
    let ?claim = "claimAndPersist env g (route_decision ?st reason) ?st (snd (candidateSelectable env c s (g + 1) x p e1))"
    have "selectContext env s profile g x p reason e = (if fst ?claim \<noteq> None then ((no_route, fst ?claim), drop_state s (snd ?claim))
        else ((route_decision ?st reason, None), put_state s ?st (snd ?claim)))"
      using Some assms(2) by (simp add: selectContext_def load first_selectable_spec passed Let_def case_prod_beta)
    then show ?thesis using Some
      by (auto simp: route_decision_def selected_state_def no_route_def put_state_def drop_state_def Let_def split: option.splits)
  qed
qed

lemma select_current:
  assumes "selectContext env s profile g x p reason e = ((d, None), e')"
  obtains current where "fst (loadStateLocked env s e) = Inr current" "g = (case current of None \<Rightarrow> 0 | Some state \<Rightarrow> rs_Generation state)"
  using assms by (auto simp: selectContext_def Let_def split: prod.splits sum.splits if_splits)

lemma select_chosen:
  fixes e :: "'s RoutingEngine"
  assumes "selectContext env s profile g x p reason e = ((d, None), e')"
  obtains c where "find (\<lambda>c. \<not> passed_over env x p e c) (pf_Candidates profile) = Some c" "rd_ExecutionProfileID d = cd_ID c" "rd_Generation d = g + 1"
proof -
  obtain current where cur: "fst (loadStateLocked env s e) = Inr current" "g = (case current of None \<Rightarrow> 0 | Some state \<Rightarrow> rs_Generation state)"
    using select_current [OF assms] .
  show thesis using selection_spec [OF cur, where x = x and p = p and profile = profile and reason = reason] that assms
    by (cases "find (\<lambda>c. \<not> passed_over env x p e c) (pf_Candidates profile)") auto
qed

text \<open>
  C3: Which candidate is selected.  A selection at the current generation takes the first candidate, in the
  profile's order, that is enabled, not excluded, the preferred one if one is preferred, not held, and whose
  resource is closed or grants this call a probe lease.  On success the decision and the recorded route name
  that candidate, the next generation and the status starting; when the claim fails, no decision is made
  and the cached route is dropped.  Without such a candidate the call fails.
\<close>

theorem selection_order:
  fixes e :: "'s RoutingEngine"
  assumes "fst (loadStateLocked env s e) = Inr current" "g = (case current of None \<Rightarrow> 0 | Some state \<Rightarrow> rs_Generation state)"
  shows "case (find (\<lambda>c. \<not> passed_over env x p e c) (pf_Candidates profile), selectContext env s profile g x p reason e) of
      (Some c, ((d, None), e')) \<Rightarrow> rd_SessionID d = s \<and> rd_ExecutionProfileID d = cd_ID c \<and> rd_Generation d = g + 1 \<and> rd_Status d = routeStatusStarting \<and>
        rd_Reason d = reason \<and> (\<exists>state. gm_get (en_states e') s = Some state \<and> d = route_decision state reason)
    | (Some c, ((d, Some err), e')) \<Rightarrow> d = no_route \<and> gm_get (en_states e') s = None
    | (None, ((d, err), e')) \<Rightarrow> d = no_route \<and> err \<noteq> None"
  using assms by (rule selection_spec)

text \<open>A profile with one candidate, an engine that knows one active route, and an environment without a store.\<close>

definition memory_env :: "(PolicyState \<Rightarrow> string) \<Rightarrow> (string \<Rightarrow> PolicyState option) \<Rightarrow> time \<Rightarrow> unit engine_env" where
  "memory_env encode decode now = \<lparr>ee_now = now, ee_persistence = None, ee_loader = None, ee_circuit_persistence = None, ee_order = id,
     ee_marshal = encode, ee_unmarshal = decode, ee_marshal_document = (\<lambda>d. Some ''policy''),
     ee_diagnostics = \<lparr>dg_hash = (\<lambda>i. ''f''), dg_sanitize = id\<rparr>\<rparr>"

definition ex_candidate :: "string \<Rightarrow> Candidate" where
  "ex_candidate cid = \<lparr>cd_ID = cid, cd_Enabled = True, cd_BindingKey = '''', cd_Rules = [], cd_Policies = ex_document\<rparr>"

definition ex_profile :: Profile where
  "ex_profile = \<lparr>pf_ID = ''logical'', pf_Version = 1, pf_Candidates = [ex_candidate ''a'', ex_candidate ''b'']\<rparr>"

definition ex_route :: RouteState where
  "ex_route = \<lparr>rs_SessionID = ''s'', rs_LogicalProfileID = ''logical'', rs_ExecutionProfileID = ''a'', rs_Generation = 1, rs_ProfileVersion = 1,
     rs_Status = routeStatusActive, rs_ContinuationJSON = '''', rs_PolicyStateJSON = '''', rs_UpdatedAt = 1\<rparr>"

definition ex_routing :: "unit RoutingEngine" where
  "ex_routing = \<lparr>en_circuits = NewCircuitRegistry (), en_states = [(''s'', ex_route)], en_probes = [], en_retryClaims = []\<rparr>"

abbreviation ex_quiet :: "time \<Rightarrow> unit engine_env" where
  "ex_quiet \<equiv> memory_env (\<lambda>ps. ''{}'') (\<lambda>raw. None)"

theorem selection_order_witness:
  "find (\<lambda>c. \<not> passed_over (ex_quiet 5) ''a'' '''' ex_routing c) (pf_Candidates ex_profile) = Some (ex_candidate ''b'') \<and>
   rd_ExecutionProfileID (fst (fst (selectContext (ex_quiet 5) ''s'' ex_profile 1 ''a'' '''' ''try_next'' ex_routing))) = ''b''"
proof -
  have load: "fst (loadStateLocked (ex_quiet 5) ''s'' ex_routing) = Inr (Some ex_route)" and gen: "1 = rs_Generation ex_route" by code_simp+
  have first: "find (\<lambda>c. \<not> passed_over (ex_quiet 5) ''a'' '''' ex_routing c) (pf_Candidates ex_profile) = Some (ex_candidate ''b'')"
    and ok: "snd (fst (selectContext (ex_quiet 5) ''s'' ex_profile 1 ''a'' '''' ''try_next'' ex_routing)) = None" by code_simp+
  obtain d e' where run: "selectContext (ex_quiet 5) ''s'' ex_profile 1 ''a'' '''' ''try_next'' ex_routing = ((d, None), e')"
    using ok by (metis prod.collapse)
  then show ?thesis using selection_order [OF load, where g = 1 and x = "''a''" and p = "''''" and profile = ex_profile and reason = "''try_next''"] gen first by (simp add: ex_candidate_def)
qed

section \<open>Held profiles and stale reports\<close>

text \<open>
  C13: A held profile is not used.  While the account of an execution profile is held, no selection of any
  kind returns it, and resuming a pending route on it is refused and leaves the route in manual recovery,
  or at least not resumed when the store refuses the write.
\<close>

theorem held_profile_unused:
  fixes e :: "'s RoutingEngine"
  assumes "IsHeld (accountBlockKey cid) (en_circuits e)"
  shows "(\<forall>d e'. selectContext env s profile g x p reason e = ((d, None), e') \<longrightarrow> rd_ExecutionProfileID d \<noteq> cid) \<and>
    (\<forall>state. fst (loadStateLocked env s e) = Inr (Some state) \<and> rs_ExecutionProfileID state = cid \<longrightarrow>
       snd (fst (resumePending env s g force e)) \<noteq> None \<and>
       en_retryClaims (snd (resumePending env s g force e)) = en_retryClaims e)"
proof (intro conjI allI impI)
  fix d e' assume "selectContext env s profile g x p reason e = ((d, None), e')"
  then obtain c where "find (\<lambda>c. \<not> passed_over env x p e c) (pf_Candidates profile) = Some c" "rd_ExecutionProfileID d = cd_ID c"
    by (rule select_chosen)
  then show "rd_ExecutionProfileID d \<noteq> cid" using assms by (auto simp: find_Some_iff passed_over_def)
next
  fix state assume st: "fst (loadStateLocked env s e) = Inr (Some state) \<and> rs_ExecutionProfileID state = cid"
  then obtain e1 where load: "loadStateLocked env s e = (Inr (Some state), e1)" by (cases "loadStateLocked env s e") auto
  have h: "IsHeld (accountBlockKey (rs_ExecutionProfileID state)) (en_circuits e1)"
    using assms st load_circuits [of env s e] by (simp add: load)
  show "snd (fst (resumePending env s g force e)) \<noteq> None"
    using h by (auto simp: resumePending_def load case_prod_beta split: option.splits if_splits)
  have claims: "en_retryClaims e1 = en_retryClaims e" using load_claims [of env s e] by (simp add: load)
  have "en_retryClaims (snd (holdPendingRouteLocked env state e1)) = en_retryClaims e1"
    by (auto simp: holdPendingRouteLocked_def persistExpectedStatus_def put_state_def case_prod_beta Let_def split: option.splits)
  then show "en_retryClaims (snd (resumePending env s g force e)) = en_retryClaims e"
    using h claims by (auto simp: resumePending_def load case_prod_beta split: option.splits if_splits)
qed

definition ex_blocked :: "unit RoutingEngine" where
  "ex_blocked = snd (HoldAccountBlock (ex_quiet 4) ''a'' CodeAccountBlocked ex_routing)"

theorem held_profile_unused_witness:
  "rd_ExecutionProfileID (fst (fst (selectContext (ex_quiet 5) ''s'' ex_profile 1 '''' '''' ''candidate_order'' ex_blocked))) \<noteq> ''a'' \<and>
   snd (fst (resumePending (ex_quiet 5) ''s'' 1 True ex_blocked)) \<noteq> None"
proof -
  have held: "IsHeld (accountBlockKey ''a'') (en_circuits ex_blocked)"
    and ok: "snd (fst (selectContext (ex_quiet 5) ''s'' ex_profile 1 '''' '''' ''candidate_order'' ex_blocked)) = None"
    and load: "fst (loadStateLocked (ex_quiet 5) ''s'' ex_blocked) = Inr (Some ex_route)" "rs_ExecutionProfileID ex_route = ''a''" by code_simp+
  obtain d e' where "selectContext (ex_quiet 5) ''s'' ex_profile 1 '''' '''' ''candidate_order'' ex_blocked = ((d, None), e')"
    using ok by (metis prod.collapse)
  with held_profile_unused [OF held] load show ?thesis by (metis fst_conv)
qed

text \<open>A candidate whose circuit a report reaches: known to the profile and bound to a resource.\<close>

definition has_circuit :: "Profile \<Rightarrow> string \<Rightarrow> bool" where
  "has_circuit profile cid \<longleftrightarrow> cid \<noteq> '''' \<and> (case candidateByID profile cid of None \<Rightarrow> False | Some c \<Rightarrow> cd_BindingKey c \<noteq> '''')"

lemma load_frame: "loadStateLocked env s e = (Inr (Some state), e1) \<Longrightarrow> e1 = e\<lparr>en_states := en_states e1\<rparr> \<and> gm_get (en_states e1) s = Some state"
  by (auto simp: loadStateLocked_def put_state_def split: option.splits sum.splits)

text \<open>
  C22: A stale report changes nothing.  Take a session with a route, in memory or in the store, and a failure or a completed turn
  that names another generation than the route's, or another candidate than the one it runs on.  Applying
  the failure, classified or not, is refused as stale.  Recording the failure on a circuit and resetting
  a circuit are refused as stale when the candidate has a circuit that the report could reach, and are
  no-ops otherwise.  All of them leave the circuits, the probes, the claims and the store as they are, and the
  routes too, except that a route read from the store is now in memory.
\<close>

theorem stale_report_ignored:
  fixes e :: "'s RoutingEngine"
  assumes "loadStateLocked env s e = (Inr (Some state), e1)"
    and "rs_Generation state \<noteq> g \<or> rs_ExecutionProfileID state \<noteq> '''' \<and> rs_ExecutionProfileID state \<noteq> cid"
  shows "ApplyFailureContext env s profile g cid (Some f) e = ((no_route, Some ErrStaleGeneration), e1) \<and>
    fst (ApplyUnclassifiedFailureContext env s profile g cid (Some f) evidence e) = (no_route, Some ErrStaleGeneration) \<and>
    snd (ApplyUnclassifiedFailureContext env s profile g cid (Some f) evidence e) \<in> {e, e1} \<and>
    RecordFailureCircuit env s profile g cid (Some f) e =
      (if has_circuit profile cid \<and> qualifiesForCircuit (e_Code f) \<and> \<not> HoldsUntilRelease (e_Code f)
       then ((False, Some ErrStaleGeneration), e1) else ((False, None), e)) \<and>
    ResetCircuitFailures env s profile g cid e =
      (if has_circuit profile cid then ((False, Some ErrStaleGeneration), e1) else ((False, None), e)) \<and>
    e1 = e\<lparr>en_states := en_states e1\<rparr> \<and> gm_get (en_states e1) s = Some state"
proof -
  have req: "requireCurrentFailureRoute env s g cid e = (Some ErrStaleGeneration, e1)"
    using assms by (auto simp: requireCurrentFailureRoute_def)
  have unclassified: "currentUnclassifiedRouteState env s profile g cid e = (Inl ErrStaleGeneration, e1)"
    using assms by (auto simp: currentUnclassifiedRouteState_def)
  have "fst (ApplyUnclassifiedFailureContext env s profile g cid (Some f) evidence e) = (no_route, Some ErrStaleGeneration) \<and>
    snd (ApplyUnclassifiedFailureContext env s profile g cid (Some f) evidence e) \<in> {e, e1}"
    by (simp add: ApplyUnclassifiedFailureContext_def unclassified)
  moreover have "RecordFailureCircuit env s profile g cid (Some f) e =
      (if has_circuit profile cid \<and> qualifiesForCircuit (e_Code f) \<and> \<not> HoldsUntilRelease (e_Code f)
       then ((False, Some ErrStaleGeneration), e1) else ((False, None), e))"
    by (auto simp: RecordFailureCircuit_def req has_circuit_def split: option.split)
  moreover have "ResetCircuitFailures env s profile g cid e =
      (if has_circuit profile cid then ((False, Some ErrStaleGeneration), e1) else ((False, None), e))"
    by (auto simp: ResetCircuitFailures_def req has_circuit_def split: option.split)
  ultimately show ?thesis using load_frame [OF assms(1)] by (simp add: ApplyFailureContext_def req)
qed

theorem stale_report_ignored_witness:
  "ApplyFailureContext (ex_quiet 5) ''s'' ex_profile 0 ''a'' (Some (ex_error None)) ex_routing = ((no_route, Some ErrStaleGeneration), ex_routing) \<and>
   ApplyFailureContext (ex_quiet 5) ''s'' ex_profile 1 ''b'' (Some (ex_error None)) ex_routing = ((no_route, Some ErrStaleGeneration), ex_routing)"
proof -
  have st: "gm_get (en_states ex_routing) ''s'' = Some ex_route" "rs_Generation ex_route = 1" "rs_ExecutionProfileID ex_route = ''a''" by code_simp+
  then have load: "loadStateLocked (ex_quiet 5) ''s'' ex_routing = (Inr (Some ex_route), ex_routing)" by (simp add: loadStateLocked_def)
  show ?thesis using stale_report_ignored [OF load, of 0 "''a''"] stale_report_ignored [OF load, of 1 "''b''"] st by simp
qed

end
