(* ===== verification/Recovery_Laws.thy ===== *)
theory Recovery_Laws
  imports Routing_Laws "HOL-Library.Countable"
begin

text \<open>
  Recovery within one generation ends.  A failure that leaves a route waiting, for a retry or for the
  provider's reset, spends from a budget that the recorded policy state determines: at most ten retries,
  and once per class a wait, which starts the retries afresh.
\<close>

section \<open>The budget of a policy state\<close>

definition wait_used :: "PolicyState \<Rightarrow> Class \<Rightarrow> bool" where
  "wait_used ps c = (case ps_ResetWaitClasses ps of
       None \<Rightarrow> ps_ResetWaitUsed ps \<and> ps_FailureClass ps = c
     | Some classes \<Rightarrow> gm_get0 False classes c)"

definition recovery_budget :: "PolicyState \<Rightarrow> nat" where
  "recovery_budget ps = 11 * length (filter (\<lambda>c. \<not> wait_used ps c) [ClassTransient, ClassHard]) + nat (10 - ps_RetryOrdinal ps)"

text \<open>States that this version of the engine records: the old form of the wait mark is not used.\<close>

definition current_format :: "PolicyState \<Rightarrow> bool" where
  "current_format ps \<longleftrightarrow> 0 \<le> ps_RetryOrdinal ps \<and> (ps_ResetWaitClasses ps = None \<longrightarrow> \<not> ps_ResetWaitUsed ps)"

lemma budget_bound: "current_format ps \<Longrightarrow> recovery_budget ps \<le> 32"
  by (auto simp: recovery_budget_def current_format_def)

lemma streak_ignored [simp]: "wait_used (ps\<lparr>ps_Unclassified := u\<rparr>) c = wait_used ps c" "recovery_budget (ps\<lparr>ps_Unclassified := u\<rparr>) = recovery_budget ps"
  "current_format (ps\<lparr>ps_Unclassified := u\<rparr>) = current_format ps"
  by (simp_all add: wait_used_def recovery_budget_def current_format_def cong: option.case_cong)

lemma input_fields [simp]: "ei_Failure (policy_input env ps f) = Some f" "ei_RetryOrdinal (policy_input env ps f) = ps_RetryOrdinal ps"
  "ei_ResetWaitUsed (policy_input env ps f) = wait_used ps (failureClass f)"
  by (auto simp: policy_input_def Let_def wait_used_def failureClass_def split: option.split)

lemma budget_spent:
  fixes js :: string
  assumes cf: "current_format ps" and pend: "pending_status (ev_Kind (Evaluate doc (policy_input env ps f)))"
  defines "ps' \<equiv> evaluated_policy_state (Evaluate doc (policy_input env ps f)) js ps"
  shows "recovery_budget ps' < recovery_budget ps \<and> current_format ps'"
proof -
  define ev where "ev = Evaluate doc (policy_input env ps f)"
  have kind: "ev_Kind ev = DecisionRetry \<or> ev_Kind ev = DecisionWaitForReset" using pend by (simp add: pending_status_def ev_def)
  then have "ev_Kind (Evaluate doc (policy_input env ps f)) \<noteq> DecisionStop" by (auto simp: ev_def)
  from evaluation_spec [OF this] obtain policy where p: "ValidateDocument doc = None" "PolicyFor doc (failureClass f) = Some policy" "ev_Class ev = failureClass f"
      and dec: "if ev_Kind ev = DecisionRetry then ev_RetryOrdinal ev = ps_RetryOrdinal ps + 1 \<and> ev_RetryOrdinal ev \<le> rp_MaxRetries (pl_Retry policy) \<and> rp_Enabled (pl_Retry policy)
        else ev_RetryOrdinal ev = 0 \<and> \<not> wait_used ps (failureClass f)"
    using kind by (auto simp: ev_def split: if_splits)
  have cls: "failureClass f = ClassTransient \<or> failureClass f = ClassHard" and valid: "ValidatePolicy policy = None"
    using valid_document [OF p(1,2)] by auto
  have ord: "ps_RetryOrdinal ps' = ev_RetryOrdinal ev" and some: "ps_ResetWaitClasses ps' \<noteq> None"
    by (simp_all add: ps'_def evaluated_policy_state_def Let_def ev_def)
  have used: "wait_used ps' c \<longleftrightarrow> wait_used ps c \<or> ev_Kind ev = DecisionWaitForReset \<and> c = failureClass f" for c
    using cf p(3) by (auto simp: wait_used_def ps'_def evaluated_policy_state_def Let_def current_format_def ev_def split: option.splits)
  show ?thesis
  proof (cases "ev_Kind ev = DecisionRetry")
    case True
    then have "ps_RetryOrdinal ps' = ps_RetryOrdinal ps + 1" "ps_RetryOrdinal ps' \<le> 10" using dec ord valid_policy(1) [OF valid] by auto
    then show ?thesis using cf some True by (auto simp: recovery_budget_def current_format_def used)
  next
    case False
    then have "ps_RetryOrdinal ps' = 0" "\<not> wait_used ps (failureClass f)" "ev_Kind ev = DecisionWaitForReset" using dec ord kind by auto
    then have zero: "ps_RetryOrdinal ps' = 0" and "\<not> wait_used ps (failureClass f)" and used': "wait_used ps' c \<longleftrightarrow> wait_used ps c \<or> c = failureClass f" for c
      using used by simp_all
    then have "length (filter (\<lambda>c. \<not> wait_used ps' c) [ClassTransient, ClassHard]) + 1 = length (filter (\<lambda>c. \<not> wait_used ps c) [ClassTransient, ClassHard])"
      using cls by (elim disjE) simp_all
    then show ?thesis using some zero unfolding recovery_budget_def current_format_def by linarith
  qed
qed

section \<open>The cycle of recovery\<close>

text \<open>
  What \<open>encoding/json\<close> documents of the policy state: an empty map is omitted, so it is read back as nil.  Invalid UTF-8 in a
  string would be replaced; the strings of a policy state are codes, classes and JSON documents, for which the round trip is exact.
\<close>

definition json_view :: "PolicyState \<Rightarrow> PolicyState" where
  "json_view ps = (if ps_ResetWaitClasses ps = Some [] then ps\<lparr>ps_ResetWaitClasses := None\<rparr> else ps)"

definition json_codec :: "'s engine_env \<Rightarrow> bool" where
  "json_codec env \<longleftrightarrow> (\<forall>ps. ee_marshal env ps \<noteq> '''' \<and> ee_unmarshal env (ee_marshal env ps) = Some (json_view ps))"

lemma view_budget: "ps_ResetWaitUsed ps = gm_get0 False (case ps_ResetWaitClasses ps of None \<Rightarrow> [] | Some c \<Rightarrow> c) (ps_FailureClass ps) \<Longrightarrow>
    recovery_budget (json_view ps) = recovery_budget ps \<and> (current_format ps \<longrightarrow> current_format (json_view ps))"
  by (auto simp: json_view_def recovery_budget_def current_format_def wait_used_def split: option.splits)

definition recorded :: "(string \<Rightarrow> PolicyState option) \<Rightarrow> string \<Rightarrow> int \<Rightarrow> 's RoutingEngine \<Rightarrow> PolicyState \<Rightarrow> bool" where
  "recorded dec s g e ps \<longleftrightarrow> (\<exists>state. gm_get (en_states e) s = Some state \<and> rs_Generation state = g \<and>
     dec (rs_PolicyStateJSON state) = Some ps)"

text \<open>The reply that leaves the route waiting.\<close>

definition left_waiting :: "(RouteDecision \<times> rerror option) \<times> 's RoutingEngine \<Rightarrow> bool" where
  "left_waiting result \<longleftrightarrow> snd (fst result) \<noteq> None \<and> pending_status (rd_Status (fst (fst result)))"

lemma no_route_fields [simp]: "rd_Status no_route = ''''" "rd_ExecutionProfileID no_route = ''''"
  by (simp_all add: no_route_def)

lemma select_not_waiting: "\<not> left_waiting (selectContext env s profile g x p reason e)"
  by (auto simp: left_waiting_def selectContext_def Let_def pending_status_def split: prod.splits sum.splits option.splits)

lemma probe_states [simp]: "en_states (releaseProbeForFailure env s g c e) = en_states e" "en_states (openCircuitForFailure env profile c f e) = en_states e"
  by (auto simp: releaseProbeForFailure_def engine_ReleaseProbe_def openCircuitForFailure_def HoldAccountBlock_def Let_def case_prod_beta split: option.splits)

lemma initial_states: "persistInitialGeneration p g st state e = Some result \<Longrightarrow> en_states (snd result) = en_states e"
  by (auto simp: persistInitialGeneration_def claim_states(1) claim_states(2) split: if_splits option.splits)

lemma persist_same_states [simp]: "en_states (snd (persistSameGeneration env g st state e)) = en_states e"
  "en_states (snd (persistExpectedStatus env g st state e)) = en_states e"
  by (simp_all add: persistSameGeneration_def persistExpectedStatus_def initial_states split: option.split)

lemma failure_spends:
  assumes rec: "recorded dec s g e ps" and cf: "current_format ps" and codec: "json_codec env" and dec: "policy_state_of env = dec"
    and waits: "left_waiting (ApplyFailureContext env s profile g cid (Some f) e)"
  shows "\<exists>ps'. recorded dec s g (snd (ApplyFailureContext env s profile g cid (Some f) e)) ps' \<and> current_format ps' \<and> recovery_budget ps' < recovery_budget ps"
proof -
  obtain state where st: "gm_get (en_states e) s = Some state" "rs_Generation state = g" "policy_state_of env (rs_PolicyStateJSON state) = Some ps"
    using rec dec by (auto simp: recorded_def)
  let ?e = "releaseProbeForFailure env s g cid (openCircuitForFailure env profile cid f e)"
  have load: "loadStateLocked env s e = (Inr (Some state), e)" "loadStateLocked env s ?e = (Inr (Some state), ?e)"
    using st(1) by (simp_all add: loadStateLocked_def)
  have current: "requireCurrentFailureRoute env s g cid e = (None, e)"
    using waits by (auto simp: ApplyFailureContext_def requireCurrentFailureRoute_def load left_waiting_def pending_status_def split: if_splits)
  have nw: "\<not> left_waiting (if b then selectContext env s profile g x1 p1 r1 ?e else if b' then selectContext env s profile g x2 p2 r2 ?e
      else ((no_route, Some ErrNoEligibleCandidate), ?e))" for b b' x1 p1 r1 x2 p2 r2
    using select_not_waiting [where env = env and s = s and profile = profile and g = g and e = ?e]
    by (cases b; cases b') (simp_all add: left_waiting_def [where result = "((no_route, Some ErrNoEligibleCandidate), ?e)"] pending_status_def)
  obtain candidate where cand: "candidateByID profile cid = Some candidate" and run: "ApplyFailureContext env s profile g cid (Some f) e = applyPolicyFailure env s profile g cid candidate f ?e"
    using waits nw by (auto simp: ApplyFailureContext_def current Let_def split: option.splits if_splits)
  define ev where "ev = Evaluate (cd_Policies candidate) (policy_input env (ps\<lparr>ps_Unclassified := None\<rparr>) f)"
  obtain js where js: "ee_marshal_document env (cd_Policies candidate) = Some js"
    using waits unfolding run applyPolicyFailure_def preparePolicyFailure_def load(2)
    by (cases "ee_marshal_document env (cd_Policies candidate)") (auto simp: st Let_def left_waiting_def pending_status_def)
  define ps' where "ps' = evaluated_policy_state ev js (ps\<lparr>ps_Unclassified := None\<rparr>)"
  define later where "later = state\<lparr>rs_Status := (if ev_Kind ev = DecisionStop then routeStatusActionRequired else ev_Kind ev), rs_PolicyStateJSON := ee_marshal env ps', rs_UpdatedAt := ee_now env\<rparr>"
  let ?p = "persistSameGeneration env g (rs_Status state) later ?e"
  have prep: "preparePolicyFailure env s g candidate f ?e = (Inr (Some state, ps', ev), ?e)"
    by (simp add: preparePolicyFailure_def load(2) st js Let_def ps'_def ev_def)
  have skip: "ev_Kind ev \<noteq> DecisionSkip"
    using waits by (auto simp: run applyPolicyFailure_def prep select_not_waiting)
  have kinds: "snd (applyPolicyFailure env s profile g cid candidate f ?e) = put_state s later (snd ?p) \<and> pending_status (ev_Kind ev)"
    using waits skip unfolding run by (auto simp: applyPolicyFailure_def prep Let_def case_prod_beta left_waiting_def pending_status_def later_def split: if_splits)
  have spent: "recovery_budget ps' < recovery_budget ps \<and> current_format ps'"
    using budget_spent [of "ps\<lparr>ps_Unclassified := None\<rparr>" "cd_Policies candidate" env f js] cf kinds by (simp add: ev_def ps'_def)
  have view: "recovery_budget (json_view ps') = recovery_budget ps' \<and> (current_format ps' \<longrightarrow> current_format (json_view ps'))"
    by (rule view_budget) (simp add: ps'_def evaluated_policy_state_def Let_def)
  have "dec (rs_PolicyStateJSON later) = Some (json_view ps')"
    using codec dec by (auto simp: later_def json_codec_def policy_state_of_def)
  then have "recorded dec s g (put_state s later (snd ?p)) (json_view ps')"
    using st(2) by (simp add: recorded_def put_state_def later_def)
  then show ?thesis using spent view kinds run by auto
qed

lemma resume_keeps: "recorded dec s g e ps \<Longrightarrow> recorded dec s g (snd (resumePending env s g' force e)) ps"
proof -
  assume "recorded dec s g e ps"
  then obtain state where st: "gm_get (en_states e) s = Some state" "rs_Generation state = g" "dec (rs_PolicyStateJSON state) = Some ps" by (auto simp: recorded_def)
  have load: "loadStateLocked env s e = (Inr (Some state), e)" using st(1) by (simp add: loadStateLocked_def)
  have "recorded dec s g (snd (holdPendingRouteLocked env state e)) ps"
    using st by (auto simp: holdPendingRouteLocked_def recorded_def put_state_def Let_def case_prod_beta split: option.splits)
  then show ?thesis using st
    by (auto simp: resumePending_def load Let_def case_prod_beta recorded_def put_state_def split: option.splits)
qed

lemma active_keeps: "recorded dec s g e ps \<Longrightarrow> recorded dec s g (snd (MarkActive env s g' e)) ps"
  by (auto simp: MarkActive_def loadStateLocked_def Let_def case_prod_beta recorded_def put_state_def drop_claim_def)

text \<open>
  One round of recovery: the pending route is resumed, its launch becomes active, and the attempt fails
  again so that the route is left waiting.  \<open>recovers\<close> says that this happens for a list of failures.
\<close>

primrec recovers :: "string \<Rightarrow> Profile \<Rightarrow> int \<Rightarrow> string \<Rightarrow> ('s engine_env \<times> 's engine_env \<times> 's engine_env \<times> Error) list \<Rightarrow> 's RoutingEngine \<Rightarrow> bool" where
  "recovers s profile g cid [] e = True"
| "recovers s profile g cid (cycle # rounds) e =
     (case cycle of (env1, env2, env3, f) \<Rightarrow>
        let e2 = snd (MarkActive env2 s g (snd (resumePending env1 s g True e)));
            result = ApplyFailureContext env3 s profile g cid (Some f) e2
        in left_waiting result \<and> recovers s profile g cid rounds (snd result))"

lemma recovery_spent:
  "recovers s profile g cid rounds e \<Longrightarrow> recorded dec s g e ps \<Longrightarrow> current_format ps \<Longrightarrow>
     (\<And>env1 env2 env3 f. (env1, env2, env3, f) \<in> set rounds \<Longrightarrow> json_codec env3 \<and> policy_state_of env3 = dec) \<Longrightarrow> length rounds \<le> recovery_budget ps"
proof (induction rounds arbitrary: e ps)
  case (Cons cycle rounds)
  obtain env1 env2 env3 f where r: "cycle = (env1, env2, env3, f)" by (metis prod_cases4)
  let ?e = "snd (MarkActive env2 s g (snd (resumePending env1 s g True e)))"
  have "recorded dec s g ?e ps" using Cons.prems(2) resume_keeps active_keeps by blast
  moreover have "json_codec env3" "policy_state_of env3 = dec" using Cons.prems(4) r by auto
  moreover have "left_waiting (ApplyFailureContext env3 s profile g cid (Some f) ?e)"
    and rest: "recovers s profile g cid rounds (snd (ApplyFailureContext env3 s profile g cid (Some f) ?e))"
    using Cons.prems(1) r by (simp_all add: Let_def)
  ultimately obtain ps' where "recorded dec s g (snd (ApplyFailureContext env3 s profile g cid (Some f) ?e)) ps'" "current_format ps'"
      "recovery_budget ps' < recovery_budget ps"
    using failure_spends Cons.prems(3) by blast
  with Cons.IH [OF rest] Cons.prems(4) show ?case by fastforce
qed simp

text \<open>
  C6: Automatic recovery ends.  Whatever failures a candidate reports and whatever valid or invalid policy it
  has, one generation of a route is left waiting at most thirty-two times, also when every wait is resumed
  at once and every launch succeeds: then the route is skipped to another candidate or stopped for manual
  recovery.  The codec is that of \<open>encoding/json\<close>; the store is arbitrary.
\<close>

theorem recovery_terminates:
  assumes "recovers s profile g cid rounds e"
    and "list_all (\<lambda>(env1, env2, env3, f). json_codec env3 \<and> policy_state_of env3 = dec) rounds"
    and "gm_get (en_states e) s = Some state" "rs_Generation state = g" "dec (rs_PolicyStateJSON state) = Some ps" "current_format ps"
  shows "length rounds \<le> 32"
  using recovery_spent [OF assms(1) _ assms(6), of dec] assms(2-5) budget_bound [OF assms(6)] by (fastforce simp: recorded_def list_all_iff)

text \<open>A codec with the documented behaviour: the code of the fields, in unary.\<close>

definition streak_fields :: "UnclassifiedStreak \<Rightarrow> _" where
  "streak_fields u = (us_Version u, us_LogicalProfileID u, us_ExecutionProfileID u, us_ProfileVersion u, us_StepID u, us_StepUpdatedAt u,
     us_Fingerprint u, us_Origin u, us_Phase u, us_Count u, us_LastAttemptID u, us_LastRouteGeneration u)"

definition policy_fields :: "PolicyState \<Rightarrow> _" where
  "policy_fields ps = (ps_FailureCode ps, ps_FailureClass ps, ps_CatalogueVersion ps, ps_PolicyJSON ps, ps_RetryOrdinal ps, ps_ResetWaitUsed ps,
     ps_ResetWaitClasses ps, ps_Deadline ps, ps_PendingOutcome ps, map_option streak_fields (ps_Unclassified ps))"

definition ex_marshal :: "PolicyState \<Rightarrow> string" where
  "ex_marshal ps = replicate (Suc (to_nat (policy_fields ps))) CHR ''x''"

definition ex_unmarshal :: "string \<Rightarrow> PolicyState option" where
  "ex_unmarshal raw = Some (json_view (inv policy_fields (from_nat (length raw - 1))))"

lemma inj_streak: "inj streak_fields"
  by (rule injI) (simp add: streak_fields_def)

lemma inj_policy: "inj policy_fields"
proof (rule injI)
  fix p q assume "policy_fields p = policy_fields q"
  moreover then have "ps_Unclassified p = ps_Unclassified q" using option.inj_map [OF inj_streak] by (auto simp: policy_fields_def inj_def)
  ultimately show "p = q" by (simp add: policy_fields_def)
qed

abbreviation ex_memory_env :: "time \<Rightarrow> unit engine_env" where
  "ex_memory_env \<equiv> memory_env ex_marshal ex_unmarshal"

lemma ex_json_codec: "json_codec (ex_memory_env now)"
  by (auto simp: json_codec_def memory_env_def ex_marshal_def ex_unmarshal_def inv_f_f [OF inj_policy] simp del: replicate_Suc)

definition ex_rounds :: "(unit engine_env \<times> unit engine_env \<times> unit engine_env \<times> Error) list" where
  "ex_rounds = [(ex_memory_env 2, ex_memory_env 3, ex_memory_env 4, ex_error None)]"

theorem recovery_terminates_witness:
  "recovers ''s'' ex_profile 1 ''a'' ex_rounds ex_routing \<and> length ex_rounds \<le> 32"
proof -
  have "recovers ''s'' ex_profile 1 ''a'' [(memory_env m u 2, memory_env m u 3, memory_env m u 4, ex_error None)] ex_routing" for m u
    by code_simp
  then have run: "recovers ''s'' ex_profile 1 ''a'' ex_rounds ex_routing" by (simp only: ex_rounds_def)
  have "policy_state_of (ex_memory_env 4) '''' = Some zero_policy_state" "current_format zero_policy_state"
    by (simp_all add: policy_state_of_def current_format_def zero_policy_state_def)
  with recovery_terminates [OF run, of "policy_state_of (ex_memory_env 4)"] ex_json_codec run show ?thesis
    by (simp add: ex_rounds_def ex_routing_def ex_route_def gm_get_def)
qed

end
