(* ===== verification/Fleet_Laws.thy ===== *)
theory Fleet_Laws
  imports Recovery_Laws "HOL-Library.Sublist"
begin

text \<open>
  What engines guarantee to the store they share.  The interface \<open>circuit_guarantee\<close> has a relation between
  stores that the writes of circuits keep, and \<open>engine_guarantee\<close> extends it to every write an engine may
  issue; then every method of the engine keeps the relation, whatever the engine has in its memory.
\<close>

section \<open>The methods of an engine\<close>

datatype engine_op =
    DoSelect string Profile int string string string
  | DoFailure string Profile int string "Error option"
  | DoUnclassified string Profile int string "Error option" UnclassifiedFailureEvidence
  | DoResume string int bool
  | DoCancel string int string
  | DoMarkActive string int
  | DoMarkActionRequired string int string
  | DoReclaim string int bool
  | DoReleaseDecision string int string bool
  | DoRecordResource Profile string "Error option"
  | DoRecordCircuit string Profile int string "Error option"
  | DoResetCircuits string Profile int string
  | DoHoldAccount string Code
  | DoReleaseAccount string
  | DoClearStreak string int string UnclassifiedFailureOrigin
  | DoClaimFallback RouteDecision UnclassifiedFailureEvidence
  | DoLoad string

primrec run_engine :: "'s engine_env \<Rightarrow> engine_op \<Rightarrow> 's RoutingEngine \<Rightarrow> 's RoutingEngine" where
  "run_engine env (DoSelect s profile g x p reason) e = snd (selectContext env s profile g x p reason e)"
| "run_engine env (DoFailure s profile g cid f) e = snd (ApplyFailureContext env s profile g cid f e)"
| "run_engine env (DoUnclassified s profile g cid f evidence) e = snd (ApplyUnclassifiedFailureContext env s profile g cid f evidence e)"
| "run_engine env (DoResume s g force) e = snd (resumePending env s g force e)"
| "run_engine env (DoCancel s g reason) e = snd (CancelPending env s g reason e)"
| "run_engine env (DoMarkActive s g) e = snd (MarkActive env s g e)"
| "run_engine env (DoMarkActionRequired s g reason) e = snd (MarkActionRequired env s g reason e)"
| "run_engine env (DoReclaim s g allow) e = snd (reclaimRetrying env s g allow e)"
| "run_engine env (DoReleaseDecision s g cid success) e = engine_ReleaseProbe env s g cid success e"
| "run_engine env (DoRecordResource profile cid f) e = RecordResourceFailure env profile cid f e"
| "run_engine env (DoRecordCircuit s profile g cid f) e = snd (RecordFailureCircuit env s profile g cid f e)"
| "run_engine env (DoResetCircuits s profile g cid) e = snd (ResetCircuitFailures env s profile g cid e)"
| "run_engine env (DoHoldAccount cid code) e = snd (HoldAccountBlock env cid code e)"
| "run_engine env (DoReleaseAccount cid) e = snd (ReleaseAccountBlock env cid e)"
| "run_engine env (DoClearStreak s g cid origin) e = snd (clearUnclassifiedStreak env s g cid origin e)"
| "run_engine env (DoClaimFallback d evidence) e = snd (ClaimUnclassifiedFallbackLaunch env d evidence e)"
| "run_engine env (DoLoad s) e = snd (LoadState env s e)"

lemma store_simps [simp]:
  "en_store (put_state s st e) = en_store e" "en_store (drop_state s e) = en_store e" "en_store (drop_claim s e) = en_store e"
  "en_store (e\<lparr>en_states := x\<rparr>) = en_store e" "en_store (e\<lparr>en_probes := y\<rparr>) = en_store e" "en_store (e\<lparr>en_retryClaims := z\<rparr>) = en_store e"
  "en_store (e\<lparr>en_circuits := r\<rparr>) = cr_store r"
  "en_store (snd (call_store f e)) = snd (f (en_store e))" "fst (call_store f e) = fst (f (en_store e))"
  "snd (claimed result) = snd result"
  by (simp_all add: en_store_def put_state_def drop_state_def drop_claim_def call_store_def claimed_def case_prod_beta Let_def split: prod.split sum.split)

section \<open>The guarantee\<close>

locale circuit_guarantee =
  fixes keeps :: "'s \<Rightarrow> 's \<Rightarrow> bool" and env :: "'s engine_env"
  assumes keeps_refl: "keeps s s" and keeps_trans: "keeps s t \<Longrightarrow> keeps t u \<Longrightarrow> keeps s u"
    and circuit_keeps: "ee_circuit_persistence env = Some cp \<Longrightarrow> keeps s (snd (cp_SaveCircuit cp snapshot s))"
begin

lemma persist_keeps: "keeps (cr_store r) (cr_store (snd (persistSnapshotLocked (circuit_env_of env) k r)))"
  using keeps_refl circuit_keeps
  by (auto simp: persistSnapshotLocked_def circuit_env_of_def Let_def case_prod_beta split: option.split)

lemma flush_keys_keeps: "keeps (cr_store r) (cr_store (flush_keys (circuit_env_of env) skip keys n r))"
proof (induction keys arbitrary: n r)
  case (Cons k keys)
  then show ?case using persist_keeps [of r k] keeps_trans keeps_refl by auto
qed (simp add: keeps_refl)

lemma flush_keeps: "keeps (cr_store r) (cr_store (flushPendingLocked (circuit_env_of env) k r))"
  by (simp add: flushPendingLocked_def flush_keys_keeps)

lemma put_store [simp]: "cr_store (put_circuit k entry r) = cr_store r"
  by (simp add: put_circuit_def)

lemma write_keeps: "keeps (cr_store r) (cr_store (snd (persistSnapshotLocked (circuit_env_of env) k (put_circuit k' entry (flushPendingLocked (circuit_env_of env) k'' r)))))"
  using keeps_trans [OF flush_keeps [of r k''] persist_keeps [of "put_circuit k' entry (flushPendingLocked (circuit_env_of env) k'' r)" k, simplified]] .

lemma hold_keeps: "keeps (cr_store r) (cr_store (snd (Hold (circuit_env_of env) k code r)))"
  using keeps_refl flush_keeps write_keeps by (auto simp: Hold_def Let_def case_prod_beta)

lemma release_hold_keeps: "keeps (cr_store r) (cr_store (snd (ReleaseHold (circuit_env_of env) k r)))"
  using keeps_refl write_keeps by (auto simp: ReleaseHold_def Let_def case_prod_beta split: option.split)

lemma acquire_keeps: "keeps (cr_store r) (cr_store (snd (AcquireProbe (circuit_env_of env) k duration r)))"
  using keeps_refl write_keeps by (auto simp: AcquireProbe_def Let_def split: option.split)

lemma release_probe_keeps: "keeps (cr_store r) (cr_store (ReleaseProbe (circuit_env_of env) lease success backoff r))"
  using keeps_refl write_keeps by (auto simp: ReleaseProbe_def Let_def split: option.split)

lemma open_failure_keeps: "keeps (cr_store r) (cr_store (OpenFailure (circuit_env_of env) k failure r))"
  using keeps_refl flush_keeps write_keeps by (auto simp: OpenFailure_def Let_def)

lemma reset_keeps: "keeps (cr_store r) (cr_store (snd (ResetFailures (circuit_env_of env) k r)))"
  using keeps_refl write_keeps by (auto simp: ResetFailures_def Let_def split: option.split)

lemmas circuit_guarantees = hold_keeps release_hold_keeps acquire_keeps release_probe_keeps open_failure_keeps reset_keeps

lemma load_keeps: "loadStateLocked env s e = (loaded, e1) \<Longrightarrow> en_store e1 = en_store e"
  by (metis load_store snd_conv)

lemma select_one_keeps: "keeps (en_store e) (en_store (snd (candidateSelectable env candidate s g x p e)))"
  using keeps_refl acquire_keeps [of "en_circuits e" "cd_BindingKey candidate" probeLeaseDuration]
  by (auto simp: candidateSelectable_def en_store_def [of e] split: option.split prod.split)

lemma selectable_keeps: "keeps (en_store e) (en_store (snd (first_selectable env s g x p candidates e)))"
proof (induction candidates arbitrary: e)
  case (Cons candidate candidates)
  then show ?case using select_one_keeps [of e candidate s g x p] keeps_trans by (auto simp: Let_def case_prod_beta)
qed (simp add: keeps_refl)

lemma release_decision_keeps: "keeps (en_store e) (en_store (engine_ReleaseProbe env s g cid success e))"
  using keeps_refl release_probe_keeps [of "en_circuits e"]
  by (auto simp: engine_ReleaseProbe_def Let_def en_store_def [of e] en_store_def [of "e\<lparr>en_probes := _, en_circuits := _\<rparr>"] split: option.split)

lemma hold_account_keeps: "keeps (en_store e) (en_store (snd (HoldAccountBlock env cid code e)))"
  using hold_keeps [of "en_circuits e"] by (simp add: HoldAccountBlock_def case_prod_beta Let_def en_store_def [of e])

lemma release_account_keeps: "keeps (en_store e) (en_store (snd (ReleaseAccountBlock env cid e)))"
  using release_hold_keeps [of "en_circuits e"] by (simp add: ReleaseAccountBlock_def case_prod_beta Let_def en_store_def [of e])

lemma open_circuit_keeps: "keeps (en_store e) (en_store (openCircuitForFailure env profile cid f e))"
  using keeps_refl hold_account_keeps open_failure_keeps [of "en_circuits e", folded en_store_def]
  by (auto simp: openCircuitForFailure_def split: option.split)

lemma failure_circuits_keep: "keeps (en_store e) (en_store (releaseProbeForFailure env s g cid (openCircuitForFailure env profile cid f e)))"
  unfolding releaseProbeForFailure_def by (rule keeps_trans [OF open_circuit_keeps release_decision_keeps])

lemma require_store [simp]: "en_store (snd (requireCurrentFailureRoute env s g cid e)) = en_store e"
  by (auto simp: requireCurrentFailureRoute_def dest: load_keeps split: prod.split sum.split option.split)

lemma prepare_store [simp]: "en_store (snd (preparePolicyFailure env s g candidate f e)) = en_store e"
  by (auto simp: preparePolicyFailure_def Let_def dest: load_keeps split: prod.split sum.split option.split)

lemma prepared_generation:
  "preparePolicyFailure env s g candidate f e = (Inr (Some state, ps, ev), e1) \<Longrightarrow> rs_Generation state = g"
  by (auto simp: preparePolicyFailure_def Let_def split: prod.splits sum.splits option.splits if_splits)

end

locale engine_guarantee = circuit_guarantee +
  assumes fenced: "ee_persistence env = Some p \<Longrightarrow> p_RecordRouteDecision p \<noteq> None \<and> p_ClaimRouteState p \<noteq> None \<and> p_ClaimRouteStateFrom p \<noteq> None"
    and claim_keeps: "ee_persistence env = Some p \<Longrightarrow> p_ClaimRouteState p = Some claim \<Longrightarrow> rs_Generation state = g \<or> rs_Generation state = g + 1 \<Longrightarrow>
        keeps s (snd (claim g state s))"
    and from_keeps: "ee_persistence env = Some p \<Longrightarrow> p_ClaimRouteStateFrom p = Some claim_from \<Longrightarrow> rs_Generation state = g \<Longrightarrow>
        keeps s (snd (claim_from g status state s))"
    and snapshot_keeps: "ee_persistence env = Some p \<Longrightarrow> p_ClaimRouteStateFromSnapshot p = Some snap \<Longrightarrow> rs_Generation state = g \<Longrightarrow>
        keeps s (snd (snap g status policy state s))"
    and record_keeps: "ee_persistence env = Some p \<Longrightarrow> p_RecordRouteDecision p = Some rec \<Longrightarrow> rd_SessionID d = rs_SessionID state \<Longrightarrow>
        rd_Generation d = rs_Generation state \<Longrightarrow> keeps s (snd (rec d state s))"
    and unclassified_keeps: "ee_persistence env = Some p \<Longrightarrow> p_RecordUnclassifiedRouteDecision p = Some urec \<Longrightarrow> rd_SessionID d = rs_SessionID state \<Longrightarrow>
        rd_Generation d = rs_Generation state \<Longrightarrow> keeps s (snd (urec d state evidence s))"
    and fallback_keeps: "ee_persistence env = Some p \<Longrightarrow> p_ClaimUnclassifiedFallbackLaunch p = Some flaunch \<Longrightarrow> keeps s (snd (flaunch d evidence s))"
begin

lemma same_generation_keeps: "rs_Generation state = g \<Longrightarrow> keeps (en_store e) (en_store (snd (persistSameGeneration env g status state e)))"
proof (cases "ee_persistence env")
  case (Some p)
  assume g: "rs_Generation state = g"
  obtain claim claim_from where c: "p_ClaimRouteState p = Some claim" "p_ClaimRouteStateFrom p = Some claim_from" using fenced [OF Some] by auto
  show ?thesis using claim_keeps [OF Some c(1), of state g] from_keeps [OF Some c(2) g] g
    by (auto simp: persistSameGeneration_def persistInitialGeneration_def Some c)
qed (simp add: persistSameGeneration_def keeps_refl)

lemma expected_status_keeps: "rs_Generation state = g \<Longrightarrow> keeps (en_store e) (en_store (snd (persistExpectedStatus env g status state e)))"
  using keeps_refl from_keeps by (auto simp: persistExpectedStatus_def split: option.split)

lemma snapshot_persist_keeps: "keeps (en_store e) (en_store (snd (persistSnapshot env status policy state e)))"
  using keeps_refl snapshot_keeps by (auto simp: persistSnapshot_def split: option.split)

lemma no_eligible_keeps: "rs_Generation state = g + 1 \<Longrightarrow> keeps (en_store e) (en_store (snd (persistNoEligible env g state e)))"
  using fenced keeps_refl claim_keeps by (fastforce simp: persistNoEligible_def split: option.split)

lemma claim_persist_keeps: "keeps (en_store e) (en_store (snd (claimAndPersist env g (route_decision state reason) state e)))"
  using fenced keeps_refl record_keeps by (fastforce simp: claimAndPersist_def route_decision_def split: option.split)

lemma select_keeps: "keeps (en_store e) (en_store (snd (selectContext env s profile g x p reason e)))"
proof (cases "loadStateLocked env s e")
  case (Pair loaded e1)
  have e1: "en_store e1 = en_store e" using load_keeps Pair by blast
  show ?thesis
  proof (cases loaded)
    case (Inl err)
    then show ?thesis by (simp add: selectContext_def Pair e1 keeps_refl)
  next
    case (Inr current)
    let ?g = "case current of None \<Rightarrow> 0 | Some state \<Rightarrow> rs_Generation state"
    obtain chosen e2 where first: "first_selectable env s (?g + 1) x p (pf_Candidates profile) e1 = (chosen, e2)" by fastforce
    have e2: "keeps (en_store e) (en_store e2)" using selectable_keeps [of e1 s "?g + 1" x p "pf_Candidates profile"] by (simp add: first e1)
    have wait: "keeps (en_store e2) (en_store (snd (persistNoEligible env ?g (waiting_state env s profile (?g + 1)) e2)))"
      by (rule no_eligible_keeps) (simp add: waiting_state_def)
    show ?thesis using e2 keeps_trans [OF e2 wait] keeps_trans [OF e2 claim_persist_keeps]
      by (auto simp: selectContext_def Pair Inr first e1 keeps_refl Let_def case_prod_beta split: option.split)
  qed
qed

lemma policy_keeps: "keeps (en_store e) (en_store (snd (applyPolicyFailure env s profile g cid candidate f e)))"
proof (cases "preparePolicyFailure env s g candidate f e")
  case (Pair prepared e1)
  have e1: "en_store e1 = en_store e" using prepare_store [of s g candidate f e] by (simp add: Pair)
  show ?thesis
  proof (cases prepared)
    case (Inl err)
    then show ?thesis by (simp add: applyPolicyFailure_def Pair e1 keeps_refl)
  next
    case (Inr result)
    obtain current ps ev where result: "result = (current, ps, ev)" by (cases result)
    show ?thesis
    proof (cases "ev_Kind ev = DecisionSkip")
      case True
      then show ?thesis using select_keeps [of e1] by (simp add: applyPolicyFailure_def Pair Inr result e1)
    next
      case False
      let ?base = "case current of Some state \<Rightarrow> state
        | None \<Rightarrow> \<lparr>rs_SessionID = s, rs_LogicalProfileID = pf_ID profile, rs_ExecutionProfileID = cid, rs_Generation = g,
            rs_ProfileVersion = pf_Version profile, rs_Status = '''', rs_ContinuationJSON = '''', rs_PolicyStateJSON = '''', rs_UpdatedAt = 0\<rparr>"
      let ?next = "?base\<lparr>rs_Status := (if ev_Kind ev = DecisionStop then routeStatusActionRequired else ev_Kind ev),
        rs_PolicyStateJSON := ee_marshal env ps, rs_UpdatedAt := ee_now env\<rparr>"
      have "rs_Generation ?next = g"
        using prepared_generation Pair Inr result by (auto split: option.split)
      moreover have "en_store (snd (applyPolicyFailure env s profile g cid candidate f e)) =
          en_store (snd (persistSameGeneration env g (case current of None \<Rightarrow> '''' | Some state \<Rightarrow> rs_Status state) ?next e1))"
        using False by (simp add: applyPolicyFailure_def Pair Inr result Let_def case_prod_beta)
      ultimately show ?thesis using same_generation_keeps [of ?next g e1] by (simp only: e1)
    qed
  qed
qed

lemma apply_failure_keeps: "keeps (en_store e) (en_store (snd (ApplyFailureContext env s profile g cid f e)))"
proof (cases f)
  case (Some failure)
  obtain err e1 where r: "requireCurrentFailureRoute env s g cid e = (err, e1)" by fastforce
  have e1: "en_store e1 = en_store e" using require_store [of s g cid e] by (simp add: r)
  let ?e2 = "releaseProbeForFailure env s g cid (openCircuitForFailure env profile cid failure e1)"
  have e2: "keeps (en_store e) (en_store ?e2)" using failure_circuits_keep [of e1] by (simp add: e1)
  note next_keeps = keeps_trans [OF e2 select_keeps] keeps_trans [OF e2 policy_keeps]
  show ?thesis using next_keeps e2
    by (auto simp: ApplyFailureContext_def Some r e1 keeps_refl Let_def split: option.split)
qed (simp add: ApplyFailureContext_def keeps_refl)

lemma record_resource_keeps: "keeps (en_store e) (en_store (RecordResourceFailure env profile cid f e))"
  using keeps_refl open_circuit_keeps by (auto simp: RecordResourceFailure_def split: option.split)

lemma record_circuit_keeps: "keeps (en_store e) (en_store (snd (RecordFailureCircuit env s profile g cid f e)))"
proof -
  obtain err e1 where r: "requireCurrentFailureRoute env s g cid e = (err, e1)" by fastforce
  have e1: "en_store e1 = en_store e" using require_store [of s g cid e] by (simp add: r)
  show ?thesis using failure_circuits_keep [of e1] keeps_refl
    by (auto simp: RecordFailureCircuit_def r e1 Let_def split: option.split)
qed

lemma reset_circuits_keeps: "keeps (en_store e) (en_store (snd (ResetCircuitFailures env s profile g cid e)))"
proof -
  obtain err e1 where r: "requireCurrentFailureRoute env s g cid e = (err, e1)" by fastforce
  have e1: "cr_store (en_circuits e1) = en_store e" using require_store [of s g cid e] by (simp add: r en_store_def)
  then have "en_store e1 = en_store e" by (simp add: en_store_def)
  then show ?thesis using reset_keeps [of "en_circuits e1"] keeps_refl
    by (auto simp: ResetCircuitFailures_def r e1 Let_def case_prod_beta split: option.split)
qed

text \<open>The methods that load a route and write it back within its generation.\<close>

lemma cancel_keeps: "keeps (en_store e) (en_store (snd (CancelPending env s g reason e)))"
proof (cases "loadStateLocked env s e")
  case (Pair loaded e1)
  then have e1: "en_store e1 = en_store e" by (rule load_keeps)
  show ?thesis using same_generation_keeps [of _ g e1]
    by (auto simp: CancelPending_def Pair e1 keeps_refl Let_def case_prod_beta split: sum.split option.split)
qed

lemma mark_active_keeps: "keeps (en_store e) (en_store (snd (MarkActive env s g e)))"
proof (cases "loadStateLocked env s e")
  case (Pair loaded e1)
  then have e1: "en_store e1 = en_store e" by (rule load_keeps)
  show ?thesis using same_generation_keeps [of _ g e1]
    by (auto simp: MarkActive_def Pair e1 keeps_refl Let_def case_prod_beta split: sum.split option.split)
qed

lemma mark_action_keeps: "keeps (en_store e) (en_store (snd (MarkActionRequired env s g reason e)))"
proof (cases "loadStateLocked env s e")
  case (Pair loaded e1)
  then have e1: "en_store e1 = en_store e" by (rule load_keeps)
  show ?thesis using same_generation_keeps [of _ g e1]
    by (auto simp: MarkActionRequired_def Pair e1 keeps_refl Let_def case_prod_beta split: sum.split option.split)
qed

lemma reclaim_keeps: "keeps (en_store e) (en_store (snd (reclaimRetrying env s g allow e)))"
proof (cases "loadStateLocked env s e")
  case (Pair loaded e1)
  then have e1: "en_store e1 = en_store e" by (rule load_keeps)
  show ?thesis using expected_status_keeps [of _ g e1]
    by (auto simp: reclaimRetrying_def Pair e1 keeps_refl Let_def case_prod_beta split: sum.split option.split)
qed

lemma hold_pending_keeps: "keeps (en_store e) (en_store (snd (holdPendingRouteLocked env state e)))"
  using expected_status_keeps [of "state\<lparr>rs_Status := routeStatusActionRequired, rs_UpdatedAt := ee_now env\<rparr>" "rs_Generation state" e] keeps_refl
  by (auto simp: holdPendingRouteLocked_def Let_def case_prod_beta split: option.split)

lemma resume_keeps_store: "keeps (en_store e) (en_store (snd (resumePending env s g force e)))"
proof (cases "loadStateLocked env s e")
  case (Pair loaded e1)
  then have e1: "en_store e1 = en_store e" by (rule load_keeps)
  show ?thesis using expected_status_keeps [of _ g e1] hold_pending_keeps [of e1]
    by (auto simp: resumePending_def Pair e1 keeps_refl Let_def case_prod_beta split: sum.split option.split)
qed

lemma manual_keeps: "keeps (en_store e) (en_store (snd (persistUnclassifiedManual env state expected ps f reason e)))"
  using snapshot_persist_keeps [of e] by (auto simp: persistUnclassifiedManual_def Let_def case_prod_beta)

lemma clear_streak_keeps: "keeps (en_store e) (en_store (snd (clearUnclassifiedStreak env s g cid origin e)))"
proof (cases "loadStateLocked env s e")
  case (Pair loaded e1)
  then have e1: "en_store e1 = en_store e" by (rule load_keeps)
  show ?thesis using snapshot_persist_keeps [of e1]
    by (auto simp: clearUnclassifiedStreak_def Pair e1 keeps_refl Let_def case_prod_beta split: sum.split option.split)
qed

lemma claim_fallback_keeps: "keeps (en_store e) (en_store (snd (ClaimUnclassifiedFallbackLaunch env d evidence e)))"
  using keeps_refl fallback_keeps by (auto simp: ClaimUnclassifiedFallbackLaunch_def split: option.split)

lemma current_unclassified_store: "currentUnclassifiedRouteState env s profile g cid e = (loaded, e1) \<Longrightarrow> en_store e1 = en_store e"
  by (auto simp: currentUnclassifiedRouteState_def dest: load_keeps split: prod.splits sum.splits option.splits if_splits)

lemma record_successor_keeps:
  "rd_SessionID d = rs_SessionID later \<Longrightarrow> rd_Generation d = rs_Generation later \<Longrightarrow>
     keeps (en_store e) (en_store (snd (recordUnclassifiedSuccessor env g d later evidence ps current f e)))"
proof (cases "ee_persistence env")
  case None
  then show ?thesis by (simp add: recordUnclassifiedSuccessor_def claimAndPersist_def keeps_refl)
next
  case (Some p)
  assume d: "rd_SessionID d = rs_SessionID later" "rd_Generation d = rs_Generation later"
  show ?thesis
  proof (cases "p_RecordUnclassifiedRouteDecision p")
    case None
    then show ?thesis using manual_keeps by (simp add: recordUnclassifiedSuccessor_def Some persistUnclassifiedDecisionFailure_def)
  next
    case (Some urec)
    obtain err e1 where r: "call_store (urec d later evidence) e = (err, e1)" by fastforce
    have e1: "keeps (en_store e) (en_store e1)"
      using unclassified_keeps [OF \<open>ee_persistence env = Some p\<close> Some d, of "en_store e" evidence] store_simps(8) [of "urec d later evidence" e] by (simp add: r)
    show ?thesis using e1 keeps_trans [OF e1 manual_keeps]
      by (auto simp: recordUnclassifiedSuccessor_def \<open>ee_persistence env = Some p\<close> Some r persistUnclassifiedDecisionFailure_def split: option.split)
  qed
qed

lemma successor_keeps: "keeps (en_store e) (en_store (snd (routeToUnclassifiedSuccessor env state profile cid g f evidence ps e)))"
proof -
  obtain chosen e1 where r: "firstSelectableUnclassifiedSuccessor env profile cid (rs_SessionID state) g e = (chosen, e1)" by fastforce
  have e1: "keeps (en_store e) (en_store e1)"
    using selectable_keeps [of e "rs_SessionID state" "g + 1" "''''" "''''"] r by (metis firstSelectableUnclassifiedSuccessor_def snd_conv)
  have d: "rd_SessionID (fst (unclassifiedSuccessorRoute env state profile successor g f)) = rs_SessionID (snd (unclassifiedSuccessorRoute env state profile successor g f))"
      "rd_Generation (fst (unclassifiedSuccessorRoute env state profile successor g f)) = rs_Generation (snd (unclassifiedSuccessorRoute env state profile successor g f))" for successor
    by (simp_all add: unclassifiedSuccessorRoute_def route_decision_def Let_def)
  show ?thesis using keeps_trans [OF e1 manual_keeps] keeps_trans [OF e1 record_successor_keeps [OF d]]
    by (auto simp: routeToUnclassifiedSuccessor_def r Let_def case_prod_beta split: option.split)
qed

lemma unclassified_failure_keeps: "keeps (en_store e) (en_store (snd (ApplyUnclassifiedFailureContext env s profile g cid f evidence e)))"
proof -
  obtain loaded e1 where r: "currentUnclassifiedRouteState env s profile g cid e = (loaded, e1)" by fastforce
  have e1: "en_store e1 = en_store e" using r by (rule current_unclassified_store)
  show ?thesis using manual_keeps [of e1] successor_keeps [of e1]
    by (auto simp: ApplyUnclassifiedFailureContext_def r e1 keeps_refl Let_def split: option.split sum.split)
qed

text \<open>Every method keeps the relation, whatever the memory of the engine.\<close>

lemma engine_keeps: "keeps (en_store e) (en_store (run_engine env op e))"
  by (cases op) (simp_all add: select_keeps apply_failure_keeps unclassified_failure_keeps resume_keeps_store cancel_keeps mark_active_keeps mark_action_keeps
      reclaim_keeps release_decision_keeps record_resource_keeps record_circuit_keeps reset_circuits_keeps hold_account_keeps release_account_keeps
      clear_streak_keeps claim_fallback_keeps LoadState_def keeps_refl)

end

end
