(* ===== verification/Fleet_Props.thy ===== *)
theory Fleet_Props
  imports Fleet_Laws
begin

text \<open>
  Several engines on one database: processes that start, stop and keep whatever they have in memory.  Each
  transaction of the repository keeps the routes advancing, which interprets \<open>engine_guarantee\<close>; so one of several
  selections of a generation wins, and a pending route is resumed once.
\<close>

section \<open>What every transaction keeps\<close>

definition routes_ok :: "route_db \<Rightarrow> bool" where
  "routes_ok db \<longleftrightarrow> distinct (map (\<lambda>a. (ra_SessionID a, ra_Generation a)) (db_attempts db)) \<and>
     (\<forall>a\<in>set (db_attempts db). \<exists>row. gm_get (db_states db) (ra_SessionID a) = Some row \<and> ra_Generation a \<le> rs_Generation row) \<and>
     (\<forall>s row. gm_get (db_states db) s = Some row \<longrightarrow> rs_SessionID row = s)"

lemma routes_okD:
  "routes_ok db \<Longrightarrow> a \<in> set (db_attempts db) \<Longrightarrow> \<exists>row. gm_get (db_states db) (ra_SessionID a) = Some row \<and> ra_Generation a \<le> rs_Generation row"
  unfolding routes_ok_def by blast

definition rows_advance :: "route_db \<Rightarrow> route_db \<Rightarrow> bool" where
  "rows_advance db db' \<longleftrightarrow> (\<forall>s row. gm_get (db_states db) s = Some row \<longrightarrow>
     (\<exists>row'. gm_get (db_states db') s = Some row' \<and> rs_Generation row \<le> rs_Generation row'))"

definition keeps_routes :: "route_db \<Rightarrow> route_db \<Rightarrow> bool" where
  "keeps_routes db db' \<longleftrightarrow> (routes_ok db \<longrightarrow> routes_ok db') \<and> rows_advance db db' \<and> prefix (db_attempts db) (db_attempts db')"

definition same_routes :: "route_db \<Rightarrow> route_db \<Rightarrow> bool" where
  "same_routes db db' \<longleftrightarrow> db_states db' = db_states db \<and> db_attempts db' = db_attempts db"

lemma rows_advance_trans: "rows_advance db1 db2 \<Longrightarrow> rows_advance db2 db3 \<Longrightarrow> rows_advance db1 db3"
  unfolding rows_advance_def by (meson order_trans)

lemma keeps_routes_trans: "keeps_routes db1 db2 \<Longrightarrow> keeps_routes db2 db3 \<Longrightarrow> keeps_routes db1 db3"
  unfolding keeps_routes_def by (meson prefix_order.trans rows_advance_trans)

lemma same_advances: "same_routes db db' \<Longrightarrow> keeps_routes db db'"
  by (auto simp: same_routes_def keeps_routes_def rows_advance_def routes_ok_def)

lemma same_refl [simp]: "same_routes db db"
  by (simp add: same_routes_def)

lemma keeps_routes_refl [simp]: "keeps_routes db db"
  by (simp add: same_advances)

lemma transact_advances: "(\<And>db. keeps_routes db (snd (tx db))) \<Longrightarrow> keeps_routes db (snd (transact failed tx db))"
proof -
  assume tx: "\<And>db. keeps_routes db (snd (tx db))"
  have "keeps_routes db (db\<lparr>db_faults := tl (db_faults db)\<rparr>)" by (intro same_advances) (simp add: same_routes_def)
  with keeps_routes_trans [OF this tx] show ?thesis by (simp add: transact_def Let_def)
qed

text \<open>A row is put in place of one of a generation that is not greater, and perhaps an attempt of its generation.\<close>

lemma put_advances:
  assumes "\<And>row. gm_get (db_states db) (rs_SessionID state) = Some row \<Longrightarrow> rs_Generation row \<le> rs_Generation state"
  shows "keeps_routes db (db\<lparr>db_states := gm_put (rs_SessionID state) state (db_states db)\<rparr>)"
  using assms unfolding keeps_routes_def rows_advance_def routes_ok_def by (auto simp: all_conj_distrib dest: order_trans)

lemma attempt_advances:
  assumes "\<And>row. gm_get (db_states db) (rs_SessionID state) = Some row \<Longrightarrow> rs_Generation row < rs_Generation state"
    and a: "ra_SessionID a = rs_SessionID state" "ra_Generation a = rs_Generation state"
  shows "keeps_routes db (db\<lparr>db_states := gm_put (rs_SessionID state) state (db_states db), db_attempts := db_attempts db @ [a]\<rparr>)"
proof -
  let ?db = "db\<lparr>db_states := gm_put (rs_SessionID state) state (db_states db)\<rparr>"
  have put: "keeps_routes db ?db" using assms(1) by (intro put_advances) force
  have "routes_ok (?db\<lparr>db_attempts := db_attempts db @ [a]\<rparr>)" if ok: "routes_ok db"
  proof -
    have ok': "routes_ok ?db" using put ok by (simp add: keeps_routes_def)
    have new: "(rs_SessionID state, rs_Generation state) \<notin> (\<lambda>a. (ra_SessionID a, ra_Generation a)) ` set (db_attempts db)"
    proof
      assume "(rs_SessionID state, rs_Generation state) \<in> (\<lambda>a. (ra_SessionID a, ra_Generation a)) ` set (db_attempts db)"
      then obtain b where b: "b \<in> set (db_attempts db)" "ra_SessionID b = rs_SessionID state" "ra_Generation b = rs_Generation state" by auto
      then obtain row where "gm_get (db_states db) (rs_SessionID state) = Some row" "rs_Generation state \<le> rs_Generation row"
        using routes_okD [OF ok] by metis
      then show False using assms(1) by fastforce
    qed
    have "\<forall>b\<in>set (db_attempts db @ [a]). \<exists>row. gm_get (db_states ?db) (ra_SessionID b) = Some row \<and> ra_Generation b \<le> rs_Generation row"
      using routes_okD [OF ok'] by (auto simp: a)
    moreover have "distinct (map (\<lambda>a. (ra_SessionID a, ra_Generation a)) (db_attempts db @ [a]))"
      using ok new unfolding routes_ok_def by (simp add: a)
    moreover have "\<forall>s row. gm_get (db_states ?db) s = Some row \<longrightarrow> rs_SessionID row = s" using ok' unfolding routes_ok_def by blast
    moreover have "db_states (?db\<lparr>db_attempts := db_attempts db @ [a]\<rparr>) = db_states ?db" "db_attempts (?db\<lparr>db_attempts := db_attempts db @ [a]\<rparr>) = db_attempts db @ [a]"
      by simp_all
    ultimately show ?thesis unfolding routes_ok_def by (simp only: simp_thms)
  qed
  with put show ?thesis by (simp add: keeps_routes_def rows_advance_def)
qed

section \<open>The transactions\<close>

lemma update_advances:
  assumes "\<And>row. matches row \<Longrightarrow> rs_Generation row \<le> rs_Generation state"
  shows "keeps_routes db (snd (update_route matches state db))"
  using assms put_advances [of db state] by (auto simp: update_route_def split: option.split)

lemma claim_advances:
  assumes "g \<le> rs_Generation state"
  shows "keeps_routes db (snd (claim_route g state db))"
  using assms put_advances [of db state] update_advances [of "\<lambda>row. rs_Generation row = g" state db]
  by (auto simp: claim_route_def split: option.split)

lemma recordTx_advances:
  assumes d: "rd_SessionID d = rs_SessionID state" "rd_Generation d = rs_Generation state"
  shows "keeps_routes db (snd (recordRouteDecisionTx now d state db))"
proof (cases "fst (claim_route (rs_Generation state - 1) state db)")
  case False
  then show ?thesis by (simp add: recordRouteDecisionTx_def case_prod_beta)
next
  case True
  then have won: "claim_route (rs_Generation state - 1) state db = (True, db\<lparr>db_states := gm_put (rs_SessionID state) state (db_states db)\<rparr>)"
      and row: "\<And>row. gm_get (db_states db) (rs_SessionID state) = Some row \<Longrightarrow> rs_Generation row < rs_Generation state"
    by (auto simp: claim_route_def update_route_def split: if_splits option.splits)
  show ?thesis using attempt_advances [OF row, of _ "(attempt_of d state)\<lparr>ra_CreatedAt := decisionReasonTime now state\<rparr>"] d
    by (auto simp: recordRouteDecisionTx_def won insert_attempt_def attempt_of_def)
qed

lemma claim_next: "rs_Generation state = g + 1 \<Longrightarrow> g \<le> rs_Generation state"
  by simp

lemma repository_advances:
  "g \<le> rs_Generation state \<Longrightarrow> keeps_routes db (snd (repo_ClaimRouteState g state db))"
  "g \<le> rs_Generation state \<Longrightarrow> keeps_routes db (snd (repo_ClaimRouteStateFrom g status state db))"
  "g \<le> rs_Generation state \<Longrightarrow> keeps_routes db (snd (repo_ClaimRouteStateFromSnapshot g status policy state db))"
  "rd_SessionID d = rs_SessionID state \<Longrightarrow> rd_Generation d = rs_Generation state \<Longrightarrow> keeps_routes db (snd (repo_RecordRouteDecision now d state db))"
  "rd_SessionID d = rs_SessionID state \<Longrightarrow> rd_Generation d = rs_Generation state \<Longrightarrow>
     keeps_routes db (snd (repo_RecordUnclassifiedRouteDecision now d state evidence db))"
  "keeps_routes db (snd (repo_ClaimUnclassifiedFallbackLaunch d evidence db))"
  by (auto simp: repo_ClaimRouteState_def repo_ClaimRouteStateFrom_def repo_ClaimRouteStateFromSnapshot_def repo_RecordRouteDecision_def
      repo_RecordUnclassifiedRouteDecision_def repo_ClaimUnclassifiedFallbackLaunch_def case_prod_beta
      intro!: transact_advances claim_advances update_advances recordTx_advances split: option.split)

lemma continuation_advances: "keeps_routes db (snd (SaveRouteContinuation now s g payload updated db))"
proof -
  have "keeps_routes db (db\<lparr>db_states := gm_put s (row\<lparr>rs_ContinuationJSON := payload, rs_UpdatedAt := t\<rparr>) (db_states db)\<rparr>)"
    if "gm_get (db_states db) s = Some row" for db row t
    using that unfolding keeps_routes_def rows_advance_def routes_ok_def by (auto simp: all_conj_distrib)
  then show ?thesis
    by (auto simp: SaveRouteContinuation_def intro!: transact_advances split: option.split)
qed

section \<open>The engines of the program\<close>

lemma production_simps [simp]:
  "ee_persistence (production now m u md dg ord) = Some (repository now)"
  "ee_circuit_persistence (production now m u md dg ord) = Some (circuit_repository now)"
  "ee_loader (production now m u md dg ord) = Some repo_LoadRouteState"
  by (simp_all add: production_def)

interpretation rt: circuit_guarantee same_routes "production now m u md dg ord" for now m u md dg ord
  by unfold_locales (auto simp: same_routes_def circuit_repository_def case_prod_beta)

interpretation fl: engine_guarantee keeps_routes "production now m u md dg ord" for now m u md dg ord
  by unfold_locales (auto simp: repository_def circuit_repository_def case_prod_beta same_routes_def
      intro: keeps_routes_trans same_advances repository_advances repository_advances(1) [OF claim_next])

text \<open>
  A step of the fleet: a method of an engine with any memory, the record of a handoff package, or a change of
  another service to its own tables.
\<close>

inductive fleet_step :: "route_db \<Rightarrow> route_db \<Rightarrow> bool" where
  engine_step: "en_store e = db \<Longrightarrow> fleet_step db (en_store (run_engine (production now m u md dg ord) op e))"
| continuation_step: "fleet_step db (snd (SaveRouteContinuation now s g payload updated db))"
| other_step: "same_routes db db' \<Longrightarrow> fleet_step db db'"

inductive_cases fleet_stepE: "fleet_step db db'"

lemma step_advances: "fleet_step db db' \<Longrightarrow> keeps_routes db db'"
  by (auto elim!: fleet_stepE intro: fl.engine_keeps continuation_advances same_advances)

lemma run_advances: "fleet_step\<^sup>*\<^sup>* db db' \<Longrightarrow> keeps_routes db db'"
  by (induction rule: rtranclp_induct) (auto intro: keeps_routes_trans step_advances)

section \<open>One selection per generation\<close>

lemma recordTx_won:
  assumes "recordRouteDecisionTx now d state db = (None, db')"
  shows "gm_get (db_states db') (rs_SessionID state) = Some state"
    and "gm_get (db_states db) (rs_SessionID state) = Some row \<Longrightarrow> rs_Generation row < rs_Generation state"
    and "(attempt_of d state)\<lparr>ra_CreatedAt := decisionReasonTime now state\<rparr> \<in> set (db_attempts db')"
  using assms by (auto simp: recordRouteDecisionTx_def claim_route_def update_route_def insert_attempt_def split: prod.splits if_splits option.splits)

lemma record_won:
  assumes "repo_RecordRouteDecision now d state db = (None, db')" "\<not> isTransientRouteSession (rs_SessionID state)"
  shows "gm_get (db_states db') (rs_SessionID state) = Some state"
    and "gm_get (db_states db) (rs_SessionID state) = Some row \<Longrightarrow> rs_Generation row < rs_Generation state"
    and "(attempt_of d state)\<lparr>ra_CreatedAt := decisionReasonTime now state\<rparr> \<in> set (db_attempts db')"
  using assms recordTx_won [of now d state "db\<lparr>db_faults := tl (db_faults db)\<rparr>" db']
  by (auto simp: repo_RecordRouteDecision_def transact_def Let_def split: if_splits)

text \<open>A successful selection found no route, or one of a smaller generation, and leaves the next one.\<close>

lemma select_won:
  assumes sel: "selectContext (production now m u md dg ord) s profile g x p reason e = ((d, None), e')" and s: "\<not> isTransientRouteSession s"
  shows "\<exists>row. gm_get (db_states (en_store e')) s = Some row \<and> rs_Generation row = g + 1"
    and "gm_get (db_states (en_store e)) s = Some row \<Longrightarrow> rs_Generation row < g + 1"
    and "\<exists>a\<in>set (db_attempts (en_store e')). ra_SessionID a = s \<and> ra_Generation a = g + 1 \<and> ra_ExecutionProfileID a = rd_ExecutionProfileID d"
proof -
  let ?env = "production now m u md dg ord"
  obtain loaded e1 where load: "loadStateLocked ?env s e = (loaded, e1)" by fastforce
  obtain current where current: "loaded = Inr current" and g: "g = (case current of None \<Rightarrow> 0 | Some state \<Rightarrow> rs_Generation state)"
    using sel by (auto simp: selectContext_def load Let_def split: sum.splits if_splits)
  obtain chosen e2 where first: "first_selectable ?env s (g + 1) x p (pf_Candidates profile) e1 = (chosen, e2)" by fastforce
  have same: "same_routes (en_store e) (en_store e2)"
    using rt.selectable_keeps [of e1 now m u md dg ord] load_store [of ?env s e] first load by (metis snd_conv)
  obtain candidate where chosen: "chosen = Some candidate"
    using sel by (cases chosen) (auto simp: selectContext_def load current g [symmetric] first Let_def split: prod.splits if_splits)
  let ?state = "selected_state ?env s profile (g + 1) current candidate"
  have fields: "rs_SessionID ?state = s" "rs_Generation ?state = g + 1" by (auto simp: selected_state_def Let_def split: option.split)
  obtain db' where rec: "repo_RecordRouteDecision now (route_decision ?state reason) ?state (en_store e2) = (None, db')" and e': "en_store e' = db'" and d: "d = route_decision ?state reason"
    using sel
    by (auto simp: selectContext_def load current g [symmetric] first chosen Let_def claimAndPersist_def repository_def call_store_def en_store_def
        put_state_def split: prod.splits if_splits)
  show "\<exists>row. gm_get (db_states (en_store e')) s = Some row \<and> rs_Generation row = g + 1"
    using record_won(1) [OF rec] s fields e' by auto
  show "gm_get (db_states (en_store e)) s = Some row \<Longrightarrow> rs_Generation row < g + 1"
    using record_won(2) [OF rec] s fields same by (auto simp: same_routes_def)
  show "\<exists>a\<in>set (db_attempts (en_store e')). ra_SessionID a = s \<and> ra_Generation a = g + 1 \<and> ra_ExecutionProfileID a = rd_ExecutionProfileID d"
    using record_won(3) [OF rec] s fields unfolding e' d by (intro bexI) (auto simp: attempt_of_def route_decision_def)
qed

lemma won_generation_kept:
  assumes "gm_get (db_states db) s = Some row" "fleet_step\<^sup>*\<^sup>* db db'"
  shows "\<exists>row'. gm_get (db_states db') s = Some row' \<and> rs_Generation row \<le> rs_Generation row'"
  using assms(1) run_advances [OF assms(2)] unfolding keeps_routes_def rows_advance_def by metis

lemma won_attempt_kept: "a \<in> set (db_attempts db) \<Longrightarrow> fleet_step\<^sup>*\<^sup>* db db' \<Longrightarrow> a \<in> set (db_attempts db')"
  using run_advances by (force simp: keeps_routes_def dest: set_mono_prefix)

section \<open>One resumption per wait\<close>

lemma from_won:
  assumes "repo_ClaimRouteStateFrom g status state db = (Inr True, db')" "\<not> isTransientRouteSession (rs_SessionID state)"
  shows "gm_get (db_states db') (rs_SessionID state) = Some state"
    and "\<exists>row. gm_get (db_states db) (rs_SessionID state) = Some row \<and> rs_Generation row = g \<and> rs_Status row = status"
  using assms by (auto simp: repo_ClaimRouteStateFrom_def transact_def update_route_def Let_def split: if_splits option.splits)

definition knows :: "string \<Rightarrow> route_db RoutingEngine \<Rightarrow> bool" where
  "knows s e \<longleftrightarrow> (\<forall>state. gm_get (en_states e) s = Some state \<or> gm_get (db_states (en_store e)) s = Some state \<longrightarrow> rs_SessionID state = s)"

text \<open>A successful resumption found a route that was not being retried, and leaves it retrying.\<close>

lemma resume_won:
  assumes res: "resumePending (production now m u md dg ord) s g force e = ((d, None), e')" and s: "\<not> isTransientRouteSession s" and k: "knows s e"
  shows "\<exists>row. gm_get (db_states (en_store e')) s = Some row \<and> rs_Status row = routeStatusRetrying"
    and "\<exists>row. gm_get (db_states (en_store e)) s = Some row \<and> rs_Status row \<noteq> routeStatusRetrying"
proof -
  let ?env = "production now m u md dg ord"
  obtain loaded e1 where load: "loadStateLocked ?env s e = (loaded, e1)" by fastforce
  have e1: "en_store e1 = en_store e" using load_store [of ?env s e] by (simp add: load)
  obtain state where state: "loaded = Inr (Some state)" using res by (auto simp: resumePending_def load split: sum.splits option.splits)
  have id: "rs_SessionID state = s" using load k s
    by (auto simp: state loadStateLocked_def knows_def repo_LoadRouteState_def split: option.splits sum.splits)
  have notretry: "rs_Status state \<noteq> routeStatusRetrying" using res
    by (auto simp: resumePending_def load state Let_def pending_status_def case_prod_beta split: if_splits option.splits)
  let ?state = "state\<lparr>rs_Status := routeStatusRetrying, rs_UpdatedAt := ee_now ?env\<rparr>"
  obtain db' where rec: "repo_ClaimRouteStateFrom g (rs_Status state) ?state (en_store e1) = (Inr True, db')" and e': "en_store e' = db'"
    using res
    by (auto simp: resumePending_def load state Let_def persistExpectedStatus_def repository_def claimed_def call_store_def en_store_def put_state_def
        split: prod.splits if_splits option.splits sum.splits)
  show "\<exists>row. gm_get (db_states (en_store e')) s = Some row \<and> rs_Status row = routeStatusRetrying"
    using from_won(1) [OF rec] s id e' by simp
  show "\<exists>row. gm_get (db_states (en_store e)) s = Some row \<and> rs_Status row \<noteq> routeStatusRetrying"
    using from_won(2) [OF rec] s id e1 notretry by auto
qed

section \<open>Properties\<close>

text \<open>Two workers of a fleet: a database with one route, and engines that have it in memory.\<close>

definition ex_fleet_env :: "time \<Rightarrow> route_db engine_env" where
  "ex_fleet_env now = production now (\<lambda>ps. ''{}'') (\<lambda>raw. None) (\<lambda>d. Some ''policy'') (ee_diagnostics (ex_quiet now)) id"

definition ex_db :: "(string, RouteState) gomap \<Rightarrow> route_db" where
  "ex_db states = \<lparr>db_states = states, db_attempts = [], db_circuits = \<lparr>ct_rows = [], ct_faults = []\<rparr>, db_task_steps = [], db_sessions = [],
     db_steps = [], db_faults = []\<rparr>"

definition ex_worker :: "(string, RouteState) gomap \<Rightarrow> route_db \<Rightarrow> route_db RoutingEngine" where
  "ex_worker memory db = \<lparr>en_circuits = NewCircuitRegistry db, en_states = memory, en_probes = [], en_retryClaims = []\<rparr>"

definition ex_select :: "int \<Rightarrow> route_db RoutingEngine \<Rightarrow> (RouteDecision \<times> rerror option) \<times> route_db RoutingEngine" where
  "ex_select g e = selectContext (ex_fleet_env 5) ''s'' ex_profile g '''' '''' ''candidate_order'' e"

definition ex_waiting :: RouteState where
  "ex_waiting = ex_route\<lparr>rs_Status := ''retry_wait''\<rparr>"

text \<open>
  C4: The routes of a fleet.  Whatever number of engines share the database, whatever each has in memory and
  however their methods, refused transactions and restarts interleave: from tables without routes, there is
  at most one attempt per session and generation, each attempt belongs to a route that has reached its
  generation, and every row is stored under its session.  From then on the generation of a route never
  decreases, and recorded attempts are neither changed nor removed.
\<close>

theorem routes_advance:
  assumes "db_states db0 = []" "db_attempts db0 = []" "fleet_step\<^sup>*\<^sup>* db0 db" "fleet_step\<^sup>*\<^sup>* db db'"
  shows "routes_ok db \<and> rows_advance db db' \<and> prefix (db_attempts db) (db_attempts db')"
proof -
  have "routes_ok db0" using assms(1,2) by (simp add: routes_ok_def gm_get_def)
  then show ?thesis using run_advances [OF assms(3)] run_advances [OF assms(4)] by (simp add: keeps_routes_def)
qed

theorem routes_advance_witness:
  "db_attempts (ex_db []) = [] \<and> routes_ok (en_store (snd (ex_select 0 (ex_worker [] (ex_db []))))) \<and>
   length (db_attempts (en_store (snd (ex_select 0 (ex_worker [] (ex_db [])))))) = 1"
proof -
  have "fleet_step (ex_db []) (en_store (run_engine (ex_fleet_env 5) (DoSelect ''s'' ex_profile 0 '''' '''' ''candidate_order'') (ex_worker [] (ex_db []))))"
    unfolding ex_fleet_env_def by (rule engine_step) code_simp
  then have "fleet_step\<^sup>*\<^sup>* (ex_db []) (en_store (snd (ex_select 0 (ex_worker [] (ex_db [])))))" by (simp add: ex_select_def r_into_rtranclp)
  moreover have "length (db_attempts (en_store (snd (ex_select 0 (ex_worker [] (ex_db [])))))) = 1" by code_simp
  ultimately show ?thesis using routes_advance [of "ex_db []", OF _ _ _ rtranclp.rtrancl_refl] by (simp add: ex_db_def)
qed

text \<open>
  C19: One selection of a generation wins.  Take a session whose route is stored, that is, any but the transient
  ones (\<open>utility:\<close>), which the repository does not record.  After an engine selected a candidate for it at some expected
  generation, the attempt is on record, and no engine of the fleet ever selects at that generation again,
  whatever it has in memory and whatever the fleet did in between.
\<close>

theorem one_winner:
  assumes "selectContext (production now m u md dg ord) s profile g x p reason e = ((d, None), e1)" "\<not> isTransientRouteSession s"
    and "fleet_step\<^sup>*\<^sup>* (en_store e1) (en_store e2)"
  shows "snd (fst (selectContext (production now' m' u' md' dg' ord') s profile' g x' p' reason' e2)) \<noteq> None \<and>
    (\<exists>a\<in>set (db_attempts (en_store e2)). ra_SessionID a = s \<and> ra_Generation a = g + 1 \<and> ra_ExecutionProfileID a = rd_ExecutionProfileID d)"
proof
  obtain row where row: "gm_get (db_states (en_store e1)) s = Some row" "rs_Generation row = g + 1" using select_won(1) [OF assms(1,2)] by blast
  obtain row' where row': "gm_get (db_states (en_store e2)) s = Some row'" "g + 1 \<le> rs_Generation row'"
    using won_generation_kept [OF row(1) assms(3)] row(2) by auto
  show "snd (fst (selectContext (production now' m' u' md' dg' ord') s profile' g x' p' reason' e2)) \<noteq> None"
  proof
    assume "snd (fst (selectContext (production now' m' u' md' dg' ord') s profile' g x' p' reason' e2)) = None"
    then obtain d' e3 where "selectContext (production now' m' u' md' dg' ord') s profile' g x' p' reason' e2 = ((d', None), e3)"
      by (metis prod.collapse)
    then show False using select_won(2) [OF _ assms(2) row'(1)] row'(2) by fastforce
  qed
  show "\<exists>a\<in>set (db_attempts (en_store e2)). ra_SessionID a = s \<and> ra_Generation a = g + 1 \<and> ra_ExecutionProfileID a = rd_ExecutionProfileID d"
    using select_won(3) [OF assms(1,2)] won_attempt_kept [OF _ assms(3)] by blast
qed

theorem one_winner_witness:
  "snd (fst (ex_select 1 (ex_worker [(''s'', ex_route)] (ex_db [(''s'', ex_route)])))) = None \<and>
   snd (fst (ex_select 1 (ex_worker [(''s'', ex_route)] (en_store (snd (ex_select 1 (ex_worker [(''s'', ex_route)] (ex_db [(''s'', ex_route)])))))))) \<noteq> None"
proof -
  let ?first = "ex_select 1 (ex_worker [(''s'', ex_route)] (ex_db [(''s'', ex_route)]))"
  let ?e2 = "ex_worker [(''s'', ex_route)] (en_store (snd ?first))"
  have ok: "snd (fst ?first) = None" by code_simp
  then have run: "selectContext (ex_fleet_env 5) ''s'' ex_profile 1 '''' '''' ''candidate_order'' (ex_worker [(''s'', ex_route)] (ex_db [(''s'', ex_route)])) =
      ((fst (fst ?first), None), snd ?first)"
    by (metis ex_select_def prod.collapse)
  have "en_store ?e2 = en_store (snd ?first)" by (simp add: ex_worker_def en_store_def NewCircuitRegistry_def)
  then have "fleet_step\<^sup>*\<^sup>* (en_store (snd ?first)) (en_store ?e2)" by simp
  moreover have "\<not> isTransientRouteSession ''s''" by code_simp
  ultimately show ?thesis using one_winner [OF run [unfolded ex_fleet_env_def], of ?e2] ok by (auto simp: ex_select_def ex_fleet_env_def)
qed

text \<open>
  C20: One resumption of a wait wins.  Take a session whose route is stored (any but the transient ones, \<open>utility:\<close>).
  After an engine resumed its pending route, every further attempt to resume it, on time or forced, by this
  or another engine, is refused as long as the row of this
  session stays as the first one left it, whatever happens to other rows and tables; this holds also for an engine whose
  memory still has the wait.  A route in the memory of either engine, and the row, carry the id of the session under which
  they are kept (\<open>knows\<close>).
\<close>

theorem resume_claimed_once:
  assumes "resumePending (production now m u md dg ord) s g force e = ((d, None), e1)" "\<not> isTransientRouteSession s"
    and "knows s e" "knows s e2" "gm_get (db_states (en_store e2)) s = gm_get (db_states (en_store e1)) s"
  shows "snd (fst (resumePending (production now' m' u' md' dg' ord') s g' force' e2)) \<noteq> None"
proof
  assume "snd (fst (resumePending (production now' m' u' md' dg' ord') s g' force' e2)) = None"
  then obtain d' e3 where "resumePending (production now' m' u' md' dg' ord') s g' force' e2 = ((d', None), e3)" by (metis prod.collapse)
  then show False using resume_won(2) [OF _ assms(2,4)] resume_won(1) [OF assms(1-3)] assms(5) by fastforce
qed

theorem resume_claimed_once_witness:
  "snd (fst (resumePending (ex_fleet_env 5) ''s'' 1 False (ex_worker [(''s'', ex_waiting)] (ex_db [(''s'', ex_waiting)])))) = None \<and>
   snd (fst (resumePending (ex_fleet_env 6) ''s'' 1 True (ex_worker [(''s'', ex_waiting)] (en_store (snd (resumePending (ex_fleet_env 5) ''s'' 1 False
     (ex_worker [(''s'', ex_waiting)] (ex_db [(''s'', ex_waiting)])))))))) \<noteq> None"
proof -
  let ?e = "ex_worker [(''s'', ex_waiting)] (ex_db [(''s'', ex_waiting)])"
  let ?first = "resumePending (ex_fleet_env 5) ''s'' 1 False ?e"
  let ?e2 = "ex_worker [(''s'', ex_waiting)] (en_store (snd ?first))"
  have ok: "snd (fst ?first) = None" by code_simp
  then have run: "?first = ((fst (fst ?first), None), snd ?first)" by (metis prod.collapse)
  have store: "en_store (ex_worker memory db) = db" for memory db by (simp add: ex_worker_def en_store_def NewCircuitRegistry_def)
  have rows: "db_states (en_store (snd ?first)) = [(''s'', ex_waiting\<lparr>rs_Status := routeStatusRetrying, rs_UpdatedAt := 5\<rparr>)]" by code_simp
  have k: "knows ''s'' ?e" "knows ''s'' ?e2"
    unfolding knows_def store rows by (auto simp: ex_worker_def ex_db_def gm_get_def ex_waiting_def ex_route_def)
  have "gm_get (db_states (en_store ?e2)) ''s'' = gm_get (db_states (en_store (snd ?first))) ''s''" by (simp add: store)
  moreover have "\<not> isTransientRouteSession ''s''" by code_simp
  ultimately show ?thesis using resume_claimed_once [OF run [unfolded ex_fleet_env_def] _ k(1) k(2) [unfolded ex_fleet_env_def]] ok
    by (auto simp: ex_fleet_env_def)
qed

end
