(* ===== verification/Continuation_Laws.thy ===== *)
theory Continuation_Laws
  imports Continuation "HOL-Library.Sublist"
begin

text \<open>
  What holds of a handoff package for any redaction rules: its fields are valid UTF-8 within the limit, the
  prompt that carries it is the user's prompt followed by a bounded text, and the windows on which the
  rules run are bounded and begin and end at the edge of a token.
\<close>

section \<open>Cuts\<close>

lemma cut_back_le: "cut_back v n \<le> n"
  by (induction n) auto

lemma cut_back_start: "cut_back v n = 0 \<or> RuneStart (v ! cut_back v n)"
  by (induction n) auto

lemma cut_forward_ge: "n \<le> cut_forward v n"
  by (induction v n rule: cut_forward.induct) (subst cut_forward.simps, force)

lemma cut_forward_start: "cut_forward v n < length v \<Longrightarrow> RuneStart (v ! cut_forward v n)"
proof (induction v n rule: cut_forward.induct)
  case (1 v n)
  then show ?case by (cases "n < length v \<and> \<not> RuneStart (v ! n)") (auto simp: cut_forward.simps [of v n])
qed

text \<open>A field that may cross to another provider.\<close>

definition fits :: "nat \<Rightarrow> string \<Rightarrow> bool" where
  "fits limit s \<longleftrightarrow> length s \<le> limit \<and> ValidString s"

lemma fits_utf8: "length s \<le> limit \<Longrightarrow> fits limit (ToValidUTF8 s)"
  using ToValidUTF8_length [of s] by (simp add: fits_def ToValidUTF8_valid)

lemma bounded_fits: "fits continuationFieldLimit (bounded v)"
  unfolding bounded_def Let_def using cut_back_le [of "TrimSpace v" continuationFieldLimit] by (auto intro: fits_utf8)

lemma bounded_tail_fits: "fits (nat limit) (boundedTailN v limit)"
proof (cases "limit \<le> 0")
  case True
  then show ?thesis by (simp add: boundedTailN_def fits_def)
next
  case False
  let ?w = "TrimSpace v"
  have "length ?w - cut_forward ?w (length ?w - nat limit) \<le> nat limit" using cut_forward_ge [of "length ?w - nat limit" ?w] by linarith
  with False show ?thesis unfolding boundedTailN_def Let_def by (auto intro!: fits_utf8)
qed

lemma sanitized_fits: "fits (nat limit) (sanitizedTail red raw limit)" "fits continuationFieldLimit (sanitizedHead red raw)"
  by (simp_all add: sanitizedTail_def sanitizedHead_def bounded_tail_fits bounded_fits)

lemma valid_append: "ValidString a \<Longrightarrow> ValidString b \<Longrightarrow> ValidString (a @ b)"
proof (induction a rule: ValidString.induct)
  case (1 s)
  show ?case
  proof (cases "s = []")
    case False
    then have n: "rune_length s \<noteq> 0" "ValidString (drop (rune_length s) s)" using 1 valid_step [of s] by auto
    have "rune_length (s @ b) = rune_length s"
      using rune_length_prefix [OF n(1), of "length s" b] rune_length_le [of s] by simp
    then show ?thesis using 1 n False rune_length_le [of s] valid_step [of "s @ b"] by simp
  qed (simp add: 1)
qed

lemma conversation_fits: "fits continuationFieldLimit (boundedConversation red userMessages conversation)"
proof -
  let ?u = "sanitizedTail red (join_with [CHR 0x0A] userMessages) (int conversationUserBudget)"
  let ?budget = "int continuationFieldLimit - int (length ?u) - (if ?u \<noteq> '''' then 1 else 0)"
  let ?c = "sanitizedTail red conversation ?budget"
  have u: "fits conversationUserBudget ?u" using sanitized_fits(1) [of "int conversationUserBudget"] by simp
  have c: "fits (nat ?budget) ?c" by (rule sanitized_fits)
  have nl: "ValidString [CHR 0x0A]" by code_simp
  show ?thesis
    using u c valid_append [OF _ valid_append [OF nl]] by (auto simp: boundedConversation_def Let_def fits_def)
qed

definition fields_of :: "Continuation \<Rightarrow> string list" where
  "fields_of c = [co_TaskDescription c, co_WorkflowStep c, co_Conversation c, co_ToolSummary c, co_RepositorySummary c, co_PlanSummary c, co_FailureReason c]"

lemma sanitize_fits: "list_all (fits continuationFieldLimit) (fields_of (sanitizeContinuation red c))"
  using sanitized_fits(1) [of "int continuationFieldLimit"]
  by (simp add: sanitizeContinuation_def fields_of_def bounded_fits sanitized_fits(2))

text \<open>
  What a bounded text keeps of the text it was made from: all of it, trimmed, when that is valid UTF-8 within the limit,
  and otherwise the valid part of a prefix or a suffix.
\<close>

definition keeps_text :: "nat \<Rightarrow> string \<Rightarrow> string \<Rightarrow> bool" where
  "keeps_text limit v w \<longleftrightarrow> fits limit w \<and> (if fits limit (TrimSpace v) then w = TrimSpace v
     else \<exists>part. (prefix part (TrimSpace v) \<or> suffix part (TrimSpace v)) \<and> w = ToValidUTF8 part)"

lemma keeps_part:
  assumes "fits limit (ToValidUTF8 part)" "prefix part (TrimSpace v) \<or> suffix part (TrimSpace v)" "fits limit (TrimSpace v) \<Longrightarrow> part = TrimSpace v"
  shows "keeps_text limit v (ToValidUTF8 part)"
  using assms unfolding keeps_text_def by (auto simp: fits_def valid_unchanged)

lemma bounded_keeps: "keeps_text continuationFieldLimit v (bounded v)"
proof -
  have "fits continuationFieldLimit (bounded v)" by (rule bounded_fits)
  then show ?thesis unfolding bounded_def Let_def by (rule keeps_part) (auto simp: take_is_prefix fits_def)
qed

lemma tail_keeps:
  assumes "0 < limit"
  shows "keeps_text (nat limit) v (boundedTailN v limit)"
proof -
  have "boundedTailN v limit = ToValidUTF8 (if int (length (TrimSpace v)) > limit
      then drop (cut_forward (TrimSpace v) (length (TrimSpace v) - nat limit)) (TrimSpace v) else TrimSpace v)"
    using assms by (simp add: boundedTailN_def Let_def)
  with bounded_tail_fits [of limit v] show ?thesis
    by (simp only:) (rule keeps_part; use assms in \<open>auto simp: suffix_drop fits_def\<close>)
qed

text \<open>The part of a long text that is redacted: its end or its beginning.\<close>

definition tail_window :: "string \<Rightarrow> string" where
  "tail_window raw = (if length raw \<le> maxRedactionInputBytes then raw else drop (windowStartWithLookback raw (length raw - maxRedactionInputBytes)) raw)"

definition head_window :: "string \<Rightarrow> string" where
  "head_window raw = (if length raw \<le> maxRedactionInputBytes then raw else take (windowEndWithLookahead raw maxRedactionInputBytes) raw)"

lemma sanitized_keeps:
  "0 < limit \<Longrightarrow> keeps_text (nat limit) (rd_SanitizeFullUnbounded red (tail_window raw)) (sanitizedTail red raw limit)"
  "keeps_text continuationFieldLimit (rd_SanitizeFullUnbounded red (head_window raw)) (sanitizedHead red raw)"
  by (simp_all add: sanitizedTail_def tail_window_def tail_keeps sanitizedHead_def head_window_def bounded_keeps)

text \<open>The redacted fields of a package, and of the inputs of one without its conversation.\<close>

definition redacted_fields :: "redaction \<Rightarrow> Continuation \<Rightarrow> string list" where
  "redacted_fields red c = [rd_SanitizeCredentials red (co_TaskDescription c), co_WorkflowStep c, rd_SanitizeFullUnbounded red (tail_window (co_Conversation c)),
     rd_SanitizeFullUnbounded red (head_window (co_ToolSummary c)), rd_SanitizeCredentials red (co_RepositorySummary c),
     rd_SanitizeCredentials red (co_PlanSummary c), rd_Sanitize red (co_FailureReason c)]"

definition redacted_inputs :: "redaction \<Rightarrow> ContinuationInput \<Rightarrow> string list" where
  "redacted_inputs red inp = [rd_SanitizeCredentials red (in_TaskDescription inp), in_WorkflowStep inp,
     rd_SanitizeFullUnbounded red (head_window (in_ToolSummary inp)), rd_SanitizeCredentials red (in_RepositorySummary inp),
     rd_SanitizeCredentials red (in_PlanSummary inp), rd_Sanitize red (in_FailureReason inp)]"

definition other_fields :: "Continuation \<Rightarrow> string list" where
  "other_fields c = [co_TaskDescription c, co_WorkflowStep c, co_ToolSummary c, co_RepositorySummary c, co_PlanSummary c, co_FailureReason c]"

text \<open>The conversation of a built package: the messages of the user, a line break, and what was said, when both fit.\<close>

definition conversation_kept :: "redaction \<Rightarrow> ContinuationInput \<Rightarrow> string \<Rightarrow> bool" where
  "conversation_kept red inp text \<longleftrightarrow>
     (let u = TrimSpace (rd_SanitizeFullUnbounded red (tail_window (join_with [CHR 0x0A] (in_UserMessages inp))));
          v = TrimSpace (rd_SanitizeFullUnbounded red (tail_window (in_Conversation inp))) in
      fits continuationFieldLimit text \<and>
      (if fits conversationUserBudget u \<and> fits (continuationFieldLimit - length u - 1) v
       then text = (if u = '''' then v else if v = '''' then u else u @ [CHR 0x0A] @ v) else True))"

lemma built_conversation: "conversation_kept red inp (boundedConversation red (in_UserMessages inp) (in_Conversation inp))"
proof -
  define raw_u where "raw_u = rd_SanitizeFullUnbounded red (tail_window (join_with [CHR 0x0A] (in_UserMessages inp)))"
  define raw_v where "raw_v = rd_SanitizeFullUnbounded red (tail_window (in_Conversation inp))"
  define up where "up = sanitizedTail red (join_with [CHR 0x0A] (in_UserMessages inp)) (int conversationUserBudget)"
  have kept: "boundedConversation red (in_UserMessages inp) (in_Conversation inp) =
      (if TrimSpace raw_u = '''' then TrimSpace raw_v else if TrimSpace raw_v = '''' then TrimSpace raw_u else TrimSpace raw_u @ [CHR 0x0A] @ TrimSpace raw_v)"
    if u: "fits conversationUserBudget (TrimSpace raw_u)" and v: "fits (continuationFieldLimit - length (TrimSpace raw_u) - 1) (TrimSpace raw_v)"
  proof -
    have up: "up = TrimSpace raw_u"
      using sanitized_keeps(1) [of "int conversationUserBudget" red "join_with [CHR 0x0A] (in_UserMessages inp)"] u
      unfolding up_def raw_u_def keeps_text_def by simp
    have len: "length (TrimSpace raw_u) \<le> conversationUserBudget" using u by (simp add: fits_def)
    define budget where "budget = int continuationFieldLimit - int (length (TrimSpace raw_u)) - (if TrimSpace raw_u \<noteq> '''' then 1 else 0)"
    have budget: "0 < budget" "continuationFieldLimit - length (TrimSpace raw_u) - 1 \<le> nat budget" using len by (auto simp: budget_def)
    have "fits (nat budget) (TrimSpace raw_v)" using v budget(2) by (auto simp: fits_def)
    then have "sanitizedTail red (in_Conversation inp) budget = TrimSpace raw_v"
      using sanitized_keeps(1) [OF budget(1), of red "in_Conversation inp"] unfolding raw_v_def keeps_text_def by simp
    then show ?thesis unfolding boundedConversation_def Let_def up_def [symmetric] unfolding up budget_def [symmetric] by simp
  qed
  then show ?thesis
    unfolding conversation_kept_def Let_def raw_u_def [symmetric] raw_v_def [symmetric] using conversation_fits by auto
qed

text \<open>
  C36: What a handoff package keeps.  Whatever the redaction rules return and whatever bytes a package was made
  from, each of the seven fields of a package that is built, or sanitized at the provider boundary, and
  the failure that is added to a package, is valid UTF-8 of at most 4000 bytes.  A field whose redacted and trimmed text is valid and within
  the limit is that text, and otherwise it is the valid part of a prefix or suffix of it; of a long conversation
  and a long tool summary the redacted text is that of a window.  The conversation of a built package has the redacted user
  messages and the redacted conversation, when these fit their budgets.
\<close>

theorem package_bounded:
  "list_all2 (keeps_text continuationFieldLimit) (redacted_inputs red inp) (other_fields (BuildBoundedContinuation red inp)) \<and>
   conversation_kept red inp (co_Conversation (BuildBoundedContinuation red inp)) \<and>
   list_all2 (keeps_text continuationFieldLimit) (redacted_fields red c) (fields_of (sanitizeContinuation red c)) \<and>
   keeps_text continuationFieldLimit (rd_Sanitize red reason) (co_FailureReason (continuationWithFailure red c reason)) \<and>
   (continuationWithFailure red c reason)\<lparr>co_FailureReason := co_FailureReason c\<rparr> = c"
  using sanitized_keeps(1) [of "int continuationFieldLimit"]
  by (simp add: BuildBoundedContinuation_def redacted_inputs_def other_fields_def sanitizeContinuation_def redacted_fields_def fields_of_def
      continuationWithFailure_def bounded_keeps sanitized_keeps(2) built_conversation)

section \<open>The prompt\<close>

lemma join_length: "length (join_with sep xs) \<le> sum_list (map length xs) + length sep * length xs"
  by (induction sep xs rule: join_with.induct) auto

lemma trailing_trim: "trim_right s \<noteq> [] \<Longrightarrow> trailing_space (trim_right s) = 0"
proof (induction s rule: trim_right.induct)
  case (1 s)
  then show ?case by (cases "trailing_space s = 0 \<or> s = []") (auto simp: trim_right.simps [of s])
qed

lemma trim_right_prefix: "\<exists>n. trim_right s = take n s"
proof (induction s rule: trim_right.induct)
  case (1 s)
  show ?case
  proof (cases "trailing_space s = 0 \<or> s = []")
    case True then show ?thesis by (intro exI [of _ "length s"]) (simp add: trim_right.simps [of s])
  next
    case False with 1 show ?thesis by (auto simp: trim_right.simps [of s])
  qed
qed

lemma leading_take: "leading_space (take n s) \<noteq> 0 \<Longrightarrow> leading_space s \<noteq> 0"
proof -
  assume "leading_space (take n s) \<noteq> 0"
  then obtain p where p: "p \<in> set space_encodings" "HasPrefix (take n s) p" using leading_space_iff by blast
  then have "HasPrefix s p" by (auto simp: HasPrefix_def min_def split: if_splits)
  with p(1) show ?thesis using leading_space_iff by blast
qed

lemma TrimSpace_idem [simp]: "TrimSpace (TrimSpace s) = TrimSpace s"
proof (cases "TrimSpace s = []")
  case True
  then show ?thesis by (simp add: TrimSpace_def [of "[]"])
next
  case False
  obtain n where n: "TrimSpace s = take n (trim_left s)" using trim_right_prefix by (auto simp: TrimSpace_def)
  have "leading_space (TrimSpace s) = 0" using leading_take [of n "trim_left s"] trim_left_leading [of s] False n by force
  moreover have "trailing_space (TrimSpace s) = 0" using trailing_trim [of "trim_left s"] False by (simp add: TrimSpace_def)
  ultimately show ?thesis by (simp add: TrimSpace_def [of "TrimSpace s"] trim_left.simps [of "TrimSpace s"] trim_right.simps [of "TrimSpace s"])
qed

text \<open>
  The prompt of a successor.  It is the user's prompt, with its credentials redacted and otherwise whole
  and first, followed by nothing or by a package of at most 28400 bytes that is marked as untrusted data.
\<close>

theorem prompt_kept_whole:
  "\<exists>package. ContinuationPrompt red prompt c = TrimSpace (rd_SanitizeCredentialsUnbounded red prompt) @ package \<and>
     length package \<le> 28400 \<and> (package = [] \<or> prefix package_header package)"
proof -
  let ?fields = "package_fields (sanitizeContinuation red c)"
  let ?package = "package_header @ join_with [CHR 0x0A] ?fields @ package_footer"
  have "list_all (\<lambda>s. length s \<le> 4000) (fields_of (sanitizeContinuation red c))"
    using sanitize_fits [of red c] by (auto simp: list_all_iff fits_def)
  then have "sum_list (map length ?fields) \<le> 28112 \<and> length ?fields \<le> 7" by (simp add: package_fields_def fields_of_def)
  moreover have "length (join_with [CHR 0x0A] ?fields) \<le> sum_list (map length ?fields) + length ?fields"
    using join_length [of "[CHR 0x0A]" ?fields] by simp
  ultimately have "length ?package \<le> 28400" by (simp add: package_header_def package_footer_def)
  then show ?thesis
    by (intro exI [of _ "if ?fields = [] then [] else ?package"]) (simp add: ContinuationPrompt_def Let_def)
qed

section \<open>Windows\<close>

lemma first_anchor_Some:
  assumes "first_anchor starts found = Some p"
  obtains lit where "lit \<in> set anchorLiterals" "p \<in> set (starts lit)" "found lit p"
  using assms by (fastforce simp: first_anchor_def find_Some_iff dest: nth_mem split: option.splits)

lemma first_byte_Some: "first_byte P raw pos limit = Some i \<Longrightarrow> pos \<le> i \<and> i < limit \<and> P (raw ! i)"
  by (auto simp: first_byte_def find_Some_iff)

lemma first_byte_None: "first_byte P raw pos limit = None \<Longrightarrow> pos \<le> k \<Longrightarrow> k < limit \<Longrightarrow> \<not> P (raw ! k)"
  by (auto simp: first_byte_def find_None_iff)

definition anchor_at :: "string \<Rightarrow> nat \<Rightarrow> bool" where
  "anchor_at raw p \<longleftrightarrow> list_ex (\<lambda>lit. EqualFold (slice raw p (p + length lit)) lit) anchorLiterals"

text \<open>An edge of a window that does not fall inside a token, unless a credential anchor begins there.\<close>

definition clean_edge :: "string \<Rightarrow> nat \<Rightarrow> bool" where
  "clean_edge raw p \<longleftrightarrow> p = 0 \<or> p \<ge> length raw \<or> isRedactionBoundaryByte (raw ! (p - 1)) \<or> isRedactionBoundaryByte (raw ! p) \<or> anchor_at raw p"

lemma literal_length: "lit \<in> set anchorLiterals \<Longrightarrow> length lit \<le> 14"
  by (auto simp: anchorLiterals_def)

lemma preceding_anchor: "precedingAnchorAtRisk raw pos = Some p \<Longrightarrow> anchor_at raw p \<and> p < pos \<and> pos \<le> p + 21"
  unfolding precedingAnchorAtRisk_def
  by (erule first_anchor_Some) (auto simp: anchor_at_def list_ex_iff dest: literal_length)

lemma following_anchor: "followingAnchorBeforeBoundary raw pos limit = Some p \<Longrightarrow> anchor_at raw p \<and> pos \<le> p \<and> p \<le> max pos limit"
proof -
  assume a: "followingAnchorBeforeBoundary raw pos limit = Some p"
  let ?pos = "case first_byte (\<lambda>b. \<not> isRedactionBoundaryByte b) raw pos limit of None \<Rightarrow> max pos limit | Some i \<Rightarrow> i"
  have pos: "pos \<le> ?pos" by (auto dest: first_byte_Some split: option.split)
  have b: "(case first_byte isRedactionBoundaryByte raw ?pos limit of None \<Rightarrow> limit | Some i \<Rightarrow> i) \<le> limit"
    by (auto dest: first_byte_Some split: option.split)
  from a show ?thesis unfolding followingAnchorBeforeBoundary_def Let_def
    by (rule first_anchor_Some) (use pos b in \<open>auto simp: anchor_at_def list_ex_iff\<close>)
qed

lemma forward_edge:
  assumes "pos \<le> length raw"
  shows "clean_edge raw (skipBisectedRunForward raw pos) \<and> skipBisectedRunForward raw pos \<le> length raw \<and> pos \<le> skipBisectedRunForward raw pos + 21"
proof (cases "pos \<le> 0 \<or> pos \<ge> length raw")
  case True
  then show ?thesis using assms by (auto simp: skipBisectedRunForward_def clean_edge_def)
next
  case False
  define limit where "limit = min (pos + maxRedactionInputBytes + redactionLookbackBytes) (length raw)"
  have lim: "pos < limit" "limit \<le> length raw" using False by (auto simp: limit_def)
  show ?thesis
  proof (cases "precedingAnchorAtRisk raw pos")
    case (Some p)
    then show ?thesis using preceding_anchor [OF Some] False by (auto simp: skipBisectedRunForward_def clean_edge_def)
  next
    case pre: None
    have run: "skipBisectedRunForward raw pos = (case followingAnchorBeforeBoundary raw pos limit of
            Some start \<Rightarrow> start
          | None \<Rightarrow>
              if isRedactionBoundaryByte (raw ! (pos - 1)) \<or> isRedactionBoundaryByte (raw ! pos) then
                (case first_byte (\<lambda>b. \<not> isRedactionBoundaryByte b) raw pos limit of
                   None \<Rightarrow> pos
                 | Some i \<Rightarrow> (case first_byte isRedactionBoundaryByte raw i limit of None \<Rightarrow> length raw | Some j \<Rightarrow> j + 1))
              else (case first_byte isRedactionBoundaryByte raw pos limit of None \<Rightarrow> length raw | Some i \<Rightarrow> i + 1))"
      unfolding skipBisectedRunForward_def Let_def limit_def [symmetric] using False pre by simp
    show ?thesis unfolding run using lim False
      by (auto simp: clean_edge_def dest!: first_byte_Some following_anchor split: option.split)
  qed
qed

lemma backward_edge:
  assumes "pos \<le> length raw"
  defines "p \<equiv> skipBisectedRunBackward raw pos"
  shows "p \<le> pos \<and> (clean_edge raw p \<or> p = pos - redactionLookbackBytes \<and> (\<forall>k. p \<le> k \<and> k < pos \<longrightarrow> \<not> isRedactionBoundaryByte (raw ! k)))"
proof -
  define limit where "limit = pos - redactionLookbackBytes"
  have run: "p = (if pos \<le> 0 \<or> pos \<ge> length raw \<or> isRedactionBoundaryByte (raw ! (pos - 1)) \<or> isRedactionBoundaryByte (raw ! pos) then pos
      else case find (\<lambda>i. isRedactionBoundaryByte (raw ! i)) (rev [limit..<pos]) of None \<Rightarrow> limit | Some i \<Rightarrow> i + 1)"
    unfolding p_def skipBisectedRunBackward_def Let_def limit_def [symmetric] ..
  have le: "limit \<le> pos" by (simp add: limit_def)
  show ?thesis
  proof (cases "find (\<lambda>i. isRedactionBoundaryByte (raw ! i)) (rev [limit..<pos])")
    case None
    then have "\<forall>k. limit \<le> k \<and> k < pos \<longrightarrow> \<not> isRedactionBoundaryByte (raw ! k)" by (auto simp: find_None_iff)
    then show ?thesis unfolding limit_def [symmetric] using None le by (auto simp: run clean_edge_def)
  next
    case (Some i)
    then have "i < pos" "isRedactionBoundaryByte (raw ! i)" by (auto simp: find_Some_iff rev_nth)
    with Some show ?thesis by (auto simp: run clean_edge_def)
  qed
qed

text \<open>No white space in the look-ahead behind a position.\<close>

definition unbroken :: "string \<Rightarrow> nat \<Rightarrow> bool" where
  "unbroken raw n \<longleftrightarrow> (\<forall>k. n \<le> k \<and> k < n + redactionLookbackBytes \<longrightarrow> \<not> isRedactionBoundaryByte (raw ! k))"

text \<open>
  C37: The windows of redaction.  However long a text is, the rules run on a suffix of it, when its tail is
  kept, of at most the window, the look-back and 21 bytes, or on a prefix, when its head is kept, of at most
  the window and the look-ahead.  A suffix never begins inside a token, unless a credential anchor begins
  there; a prefix never ends inside one, unless it has no white space in its last 64 KiB before the cut.
\<close>

theorem redaction_windows:
  "(\<exists>start. sanitizedTail red raw budget = boundedTailN (rd_SanitizeFullUnbounded red (drop start raw)) budget \<and>
      length raw - start \<le> maxRedactionInputBytes + redactionLookbackBytes + 21 \<and> clean_edge raw start) \<and>
   (\<exists>end'. sanitizedHead red raw = bounded (rd_SanitizeFullUnbounded red (take end' raw)) \<and>
      length (take end' raw) \<le> maxRedactionInputBytes + redactionLookbackBytes \<and>
      (clean_edge raw end' \<or> unbroken raw end'))"
proof (cases "length raw \<le> maxRedactionInputBytes")
  case True
  then show ?thesis
    by (intro conjI exI [of _ 0] exI [of _ "length raw"]) (simp_all add: sanitizedTail_def sanitizedHead_def clean_edge_def)
next
  case False
  let ?pos = "length raw - maxRedactionInputBytes - redactionLookbackBytes"
  let ?stop = "min (maxRedactionInputBytes + redactionLookbackBytes) (length raw)"
  have start: "clean_edge raw (skipBisectedRunForward raw ?pos)" "?pos \<le> skipBisectedRunForward raw ?pos + 21"
    using forward_edge [of ?pos raw] by simp_all
  have tail: "length raw - skipBisectedRunForward raw ?pos \<le> maxRedactionInputBytes + redactionLookbackBytes + 21" using start(2) by linarith
  note behind = backward_edge [of ?stop raw, simplified]
  have front: "clean_edge raw (skipBisectedRunBackward raw ?stop) \<or> unbroken raw (skipBisectedRunBackward raw ?stop)"
    using behind False by (auto simp: unbroken_def)
  show ?thesis
    using start(1) tail front behind False
    by (intro conjI exI [of _ "skipBisectedRunForward raw ?pos"] exI [of _ "skipBisectedRunBackward raw ?stop"])
       (simp_all add: sanitizedTail_def sanitizedHead_def windowStartWithLookback_def windowEndWithLookahead_def)
qed

end
