(* ===== verification/Conductor.thy ===== *)
theory Conductor
  imports Dynamic_Recovery Continuation
begin

text \<open>
  The conductor of a logical session (first half of \<open>agent/runtime/dynamic/conductor.go\<close>): it launches the
  selected candidate on a concrete runtime and falls back to others while their failures allow it.  The
  runtime, the loader of profiles and the builder of packages are parameters.  While a launch runs, other
  callers use the engine: the runtime is a function of the engine and may return any other.  The calls of
  the runtime are recorded in order.
\<close>

section \<open>Interfaces\<close>

record DownstreamLaunch =
  dl_ExecutionProfileID :: string
  dl_AttemptID :: string
  dl_Decision :: RouteDecision
  dl_Prompt :: string
  dl_PriorACPSession :: string
  dl_Continuation :: Continuation

record DownstreamExecution =
  dx_ID :: string
  dx_ExecutionProfileID :: string
  dx_ACPSessionID :: string

text \<open>A failed launch, with the classified failure that \<open>errors.As\<close> finds in it.\<close>

record launch_failure =
  lf_classified :: "Error option"
  lf_text :: string

datatype cerror =
    ErrNotConfigured
  | ErrNoActiveExecution
  | RouteError rerror
  | LaunchError launch_failure
  | OtherError string

record 's DownstreamRuntime =
  dr_Launch :: "DownstreamLaunch \<Rightarrow> 's RoutingEngine \<Rightarrow> (launch_failure + DownstreamExecution) \<times> 's RoutingEngine"
  dr_Resume :: "string \<Rightarrow> string \<Rightarrow> 's RoutingEngine \<Rightarrow> cerror option \<times> 's RoutingEngine"
  dr_Stop :: "string \<Rightarrow> string \<Rightarrow> 's RoutingEngine \<Rightarrow> cerror option \<times> 's RoutingEngine"
  dr_LoadExecution :: "(string \<Rightarrow> 's \<Rightarrow> cerror + DownstreamExecution option) option"

record ContinuationRecord =
  cx_SessionID :: string
  cx_Generation :: int
  cx_Continuation :: Continuation
  cx_UpdatedAt :: time

datatype downstream_call =
    CallLaunch DownstreamLaunch
  | CallResume string string
  | CallStop string string

record 's Conductor =
  cn_engine :: "'s RoutingEngine"
  cn_active :: "(string, DownstreamExecution) gomap"
  cn_calls :: "downstream_call list"

text \<open>The engine calls of the \<open>n\<close>-th attempt see the environment \<open>cv_env n\<close>.\<close>

record 's conductor_env =
  cv_env :: "nat \<Rightarrow> 's engine_env"
  cv_uuid :: "nat \<Rightarrow> string"
  cv_profiles :: "(string \<Rightarrow> 's \<Rightarrow> cerror + Profile) option"
  cv_downstream :: "'s DownstreamRuntime option"
  cv_builder :: "(ContinuationInput \<Rightarrow> cerror + Continuation) option"
  cv_continuations :: "(ContinuationRecord \<Rightarrow> 's \<Rightarrow> rerror option \<times> 's) option"
  cv_unclassified :: "(string \<Rightarrow> string \<Rightarrow> string \<Rightarrow> int \<Rightarrow> Error option \<Rightarrow> UnclassifiedFailureEvidence \<Rightarrow> 's RoutingEngine
     \<Rightarrow> (RouteDecision \<times> rerror option) \<times> 's RoutingEngine) option"
  cv_redaction :: redaction

definition NewConductor :: "'s RoutingEngine \<Rightarrow> 's Conductor" where
  "NewConductor engine = \<lparr>cn_engine = engine, cn_active = [], cn_calls = []\<rparr>"

record ConductorLaunch =
  cl_SessionID :: string
  cl_LogicalProfileID :: string
  cl_ExpectedGeneration :: int
  cl_ExcludeProfileID :: string
  cl_Prompt :: string
  cl_PriorACPSession :: string
  cl_Continuation :: ContinuationInput

record ConductorSelectedLaunch =
  csl_SessionID :: string
  csl_LogicalProfileID :: string
  csl_Decision :: RouteDecision
  csl_Prompt :: string
  csl_PriorACPSession :: string
  csl_Continuation :: ContinuationInput
  csl_PrebuiltContinuation :: "Continuation option"

record ConductorResult =
  cr_Decision :: RouteDecision
  cr_Execution :: DownstreamExecution
  cr_FreshRoute :: bool

section \<open>One attempt\<close>

definition on_engine :: "('s RoutingEngine \<Rightarrow> 'a \<times> 's RoutingEngine) \<Rightarrow> 's Conductor \<Rightarrow> 'a \<times> 's Conductor" where
  "on_engine f c = (let (x, e) = f (cn_engine c) in (x, c\<lparr>cn_engine := e\<rparr>))"

definition record_call :: "downstream_call \<Rightarrow> 's Conductor \<Rightarrow> 's Conductor" where
  "record_call call' c = c\<lparr>cn_calls := cn_calls c @ [call']\<rparr>"

definition release_decision :: "'s engine_env \<Rightarrow> RouteDecision \<Rightarrow> bool \<Rightarrow> 's Conductor \<Rightarrow> 's Conductor" where
  "release_decision env decision success c =
     c\<lparr>cn_engine := engine_ReleaseProbe env (rd_SessionID decision) (rd_Generation decision) (rd_ExecutionProfileID decision) success (cn_engine c)\<rparr>"

definition priorACPSession :: "string \<Rightarrow> RouteDecision \<Rightarrow> RouteDecision \<Rightarrow> string" where
  "priorACPSession persisted initial current =
     (if rd_ExecutionProfileID current \<noteq> rd_ExecutionProfileID initial then '''' else persisted)"

text \<open>The second component of the code's result is whether the failure may be routed.\<close>

definition nextAfterLaunchFailure ::
  "'s engine_env \<Rightarrow> Profile \<Rightarrow> RouteDecision \<Rightarrow> string \<Rightarrow> launch_failure \<Rightarrow> 's Conductor \<Rightarrow> (RouteDecision \<times> bool \<times> rerror option) \<times> 's Conductor" where
  "nextAfterLaunchFailure env profile decision sessionID launchErr c =
     (case lf_classified launchErr of
        None \<Rightarrow> ((no_route, False, None), c)
      | Some classified \<Rightarrow>
          if e_Phase classified \<noteq> '''' \<and> e_Phase classified \<noteq> PhaseAuthCheck \<and> e_Phase classified \<noteq> PhaseProcessStart \<and>
             e_Phase classified \<noteq> PhaseSessionInit then ((no_route, False, None), c)
          else if \<not> e_FallbackAllowed classified then ((no_route, False, None), c)
          else if ActionFor profile (rd_ExecutionProfileID decision) (e_Code classified) \<noteq> ActionTryNext then ((no_route, False, None), c)
          else
            let ((decision', err), c1) = on_engine (ApplyFailureContext env sessionID profile (rd_Generation decision)
                  (rd_ExecutionProfileID decision) (Some classified)) c
            in if err \<noteq> None then ((no_route, True, err), c1) else ((decision', True, None), c1))"

definition recordUnroutedLaunchFailure ::
  "'s engine_env \<Rightarrow> string \<Rightarrow> Profile \<Rightarrow> RouteDecision \<Rightarrow> launch_failure \<Rightarrow> 's Conductor \<Rightarrow> 's Conductor" where
  "recordUnroutedLaunchFailure env sessionID profile decision launchErr c =
     (case lf_classified launchErr of
        None \<Rightarrow> c
      | Some classified \<Rightarrow> snd (on_engine (RecordFailureCircuit env sessionID profile (rd_Generation decision)
          (rd_ExecutionProfileID decision) (Some classified)) c))"

definition persistContinuation ::
  "'s conductor_env \<Rightarrow> time \<Rightarrow> RouteDecision \<Rightarrow> Continuation \<Rightarrow> 's Conductor \<Rightarrow> rerror option \<times> 's Conductor" where
  "persistContinuation cv now decision continuation c =
     (case cv_continuations cv of
        None \<Rightarrow> (None, c)
      | Some save \<Rightarrow> on_engine (call_store (save \<lparr>cx_SessionID = rd_SessionID decision, cx_Generation = rd_Generation decision,
          cx_Continuation = continuation, cx_UpdatedAt = now\<rparr>)) c)"

text \<open>\<open>errors.Is(err, ErrNoEligibleCandidate)\<close>: \<open>NoEligibleCandidateError\<close> unwraps to it.\<close>

definition is_no_eligible :: "rerror \<Rightarrow> bool" where
  "is_no_eligible err \<longleftrightarrow> (case err of ErrNoEligibleCandidate \<Rightarrow> True | NoEligibleCandidateError s p g \<Rightarrow> True | _ \<Rightarrow> False)"

definition error_text :: "Error \<Rightarrow> string" where
  "error_text e = e_Code e @ '': '' @ e_ClassifierRule e"

definition launch_call :: "'s conductor_env \<Rightarrow> ConductorLaunch \<Rightarrow> RouteDecision \<Rightarrow> nat \<Rightarrow> RouteDecision \<Rightarrow> Continuation \<Rightarrow> DownstreamLaunch" where
  "launch_call cv request initial attempt current continuation = \<lparr>dl_ExecutionProfileID = rd_ExecutionProfileID current,
     dl_AttemptID = cv_uuid cv attempt, dl_Decision = current, dl_Prompt = ContinuationPrompt (cv_redaction cv) (cl_Prompt request) continuation,
     dl_PriorACPSession = priorACPSession (cl_PriorACPSession request) initial current, dl_Continuation = continuation\<rparr>"

section \<open>The loop over the candidates\<close>

text \<open>\<open>remaining\<close> attempts are left, after \<open>attempt\<close> earlier ones.\<close>

primrec launch_attempts ::
  "'s conductor_env \<Rightarrow> 's DownstreamRuntime \<Rightarrow> ConductorLaunch \<Rightarrow> Profile \<Rightarrow> RouteDecision \<Rightarrow> nat \<Rightarrow> nat \<Rightarrow> RouteDecision \<Rightarrow> Continuation \<Rightarrow> 's Conductor
     \<Rightarrow> ((cerror + DownstreamExecution) \<times> RouteDecision) \<times> 's Conductor" where
  "launch_attempts cv runtime request profile initial 0 attempt current continuation c = ((Inl (RouteError ErrNoEligibleCandidate), current), c)"
| "launch_attempts cv runtime request profile initial (Suc remaining) attempt current continuation c =
     (let env = cv_env cv attempt in
      if IsHeld (accountBlockKey (rd_ExecutionProfileID current)) (en_circuits (cn_engine c))
      then ((Inl (RouteError ErrExecutionProfileHeld), current), release_decision env current False c)
      else
        let request' = launch_call cv request initial attempt current continuation;
            (launched, c1) = on_engine (dr_Launch runtime request') (record_call (CallLaunch request') c)
        in case launched of
             Inr execution \<Rightarrow> ((Inr execution, current), release_decision env current True c1)
           | Inl err \<Rightarrow>
               let c2 = release_decision env current False c1;
                   ((later, shouldFallback, fallbackErr), c3) = nextAfterLaunchFailure env profile current (cl_SessionID request) err c2
               in case fallbackErr of
                    Some ferr \<Rightarrow> ((Inl (if is_no_eligible ferr then LaunchError err else RouteError ferr), current), c3)
                  | None \<Rightarrow>
                      if \<not> shouldFallback then
                        ((Inl (LaunchError err), current), recordUnroutedLaunchFailure env (cl_SessionID request) profile current err c3)
                      else if remaining = 0 then ((Inl (LaunchError err), current), c3)
                      else
                        let continuation' = (case lf_classified err of
                              None \<Rightarrow> continuation
                            | Some classified \<Rightarrow> continuationWithFailure (cv_redaction cv) continuation (error_text classified));
                            (perr, c4) = persistContinuation cv (ee_now env) later continuation' c3
                        in case perr of
                             Some e \<Rightarrow> ((Inl (RouteError e), current), c4)
                           | None \<Rightarrow> launch_attempts cv runtime request profile initial remaining (attempt + 1) later continuation' c4)"

definition launchWithFallback ::
  "'s conductor_env \<Rightarrow> 's DownstreamRuntime \<Rightarrow> Profile \<Rightarrow> RouteDecision \<Rightarrow> ConductorLaunch \<Rightarrow> Continuation \<Rightarrow> 's Conductor
     \<Rightarrow> ((cerror + DownstreamExecution) \<times> RouteDecision) \<times> 's Conductor" where
  "launchWithFallback cv runtime profile decision request continuation c =
     (let maxAttempts = length (pf_Candidates profile) in
      if maxAttempts = 0 then ((Inl (RouteError ErrNoEligibleCandidate), decision), c)
      else launch_attempts cv runtime request profile decision maxAttempts 0 decision continuation c)"

section \<open>The operations\<close>

definition buildContinuation :: "'s conductor_env \<Rightarrow> ContinuationInput \<Rightarrow> cerror + Continuation" where
  "buildContinuation cv inp =
     (case cv_builder cv of
        None \<Rightarrow> Inr (sanitizeContinuation (cv_redaction cv) (BuildBoundedContinuation (cv_redaction cv) inp))
      | Some builder \<Rightarrow> (case builder inp of
          Inl err \<Rightarrow> Inl err
        | Inr continuation \<Rightarrow> Inr (sanitizeContinuation (cv_redaction cv) continuation)))"

definition BuildContinuation where
  "BuildContinuation = buildContinuation"

definition PersistContinuation where
  "PersistContinuation = persistContinuation"

text \<open>A successful launch becomes the active execution of its session.\<close>

definition activated :: "string \<Rightarrow> bool \<Rightarrow> ((cerror + DownstreamExecution) \<times> RouteDecision) \<times> 's Conductor \<Rightarrow> (cerror + ConductorResult) \<times> 's Conductor" where
  "activated sessionID freshRoute outcome =
     (case outcome of
        ((Inl err, decision), c) \<Rightarrow> (Inl err, c)
      | ((Inr execution, decision), c) \<Rightarrow>
          let execution' = (if dx_ExecutionProfileID execution = '''' then execution\<lparr>dx_ExecutionProfileID := rd_ExecutionProfileID decision\<rparr> else execution)
          in (Inr \<lparr>cr_Decision = decision, cr_Execution = execution', cr_FreshRoute = freshRoute\<rparr>,
              c\<lparr>cn_active := gm_put sessionID execution' (cn_active c)\<rparr>))"

definition Conductor_Launch :: "'s conductor_env \<Rightarrow> 's engine_env \<Rightarrow> ConductorLaunch \<Rightarrow> 's Conductor \<Rightarrow> (cerror + ConductorResult) \<times> 's Conductor" where
  "Conductor_Launch cv env request c =
     (case (cv_profiles cv, cv_downstream cv) of
        (Some load, Some runtime) \<Rightarrow> (case load (cl_LogicalProfileID request) (en_store (cn_engine c)) of
          Inl err \<Rightarrow> (Inl err, c)
        | Inr profile \<Rightarrow>
            let ((decision, err), c1) = on_engine (SelectContext env (cl_SessionID request) profile (cl_ExpectedGeneration request) (cl_ExcludeProfileID request)) c
            in case err of
                 Some e \<Rightarrow> (Inl (RouteError e), c1)
               | None \<Rightarrow> (case buildContinuation cv (cl_Continuation request) of
                   Inl e \<Rightarrow> (Inl e, c1)
                 | Inr continuation \<Rightarrow> activated (cl_SessionID request) True (launchWithFallback cv runtime profile decision request continuation c1)))
      | _ \<Rightarrow> (Inl ErrNotConfigured, c))"

definition LaunchSelected :: "'s conductor_env \<Rightarrow> time \<Rightarrow> ConductorSelectedLaunch \<Rightarrow> 's Conductor \<Rightarrow> (cerror + ConductorResult) \<times> 's Conductor" where
  "LaunchSelected cv now request c =
     (case (cv_profiles cv, cv_downstream cv) of
        (Some load, Some runtime) \<Rightarrow> (case load (csl_LogicalProfileID request) (en_store (cn_engine c)) of
          Inl err \<Rightarrow> (Inl err, c)
        | Inr profile \<Rightarrow>
            let (prepared, c1) = (case csl_PrebuiltContinuation request of
                  Some prebuilt \<Rightarrow>
                    (let continuation = sanitizeContinuation (cv_redaction cv) prebuilt;
                         (perr, c1) = persistContinuation cv now (csl_Decision request) continuation c
                     in (case perr of Some e \<Rightarrow> Inl (RouteError e) | None \<Rightarrow> Inr continuation, c1))
                | None \<Rightarrow> (buildContinuation cv (csl_Continuation request), c));
                launch = \<lparr>cl_SessionID = csl_SessionID request, cl_LogicalProfileID = csl_LogicalProfileID request, cl_ExpectedGeneration = 0,
                  cl_ExcludeProfileID = '''', cl_Prompt = csl_Prompt request, cl_PriorACPSession = csl_PriorACPSession request,
                  cl_Continuation = csl_Continuation request\<rparr>
            in case prepared of
                 Inl err \<Rightarrow> (Inl err, c1)
               | Inr continuation \<Rightarrow> activated (csl_SessionID request) False (launchWithFallback cv runtime profile (csl_Decision request) launch continuation c1))
      | _ \<Rightarrow> (Inl ErrNotConfigured, c))"

definition route_result :: "(RouteDecision \<times> rerror option) \<times> 's Conductor \<Rightarrow> (RouteDecision \<times> cerror option) \<times> 's Conductor" where
  "route_result result = (let ((decision, err), c) = result in ((decision, map_option RouteError err), c))"

definition RouteAfterFailure ::
  "'s conductor_env \<Rightarrow> 's engine_env \<Rightarrow> string \<Rightarrow> string \<Rightarrow> string \<Rightarrow> int \<Rightarrow> Error option \<Rightarrow> 's Conductor \<Rightarrow> (RouteDecision \<times> cerror option) \<times> 's Conductor" where
  "RouteAfterFailure cv env sessionID logicalProfileID currentExecutionProfileID expectedGeneration failure c =
     (case cv_profiles cv of
        None \<Rightarrow> ((no_route, Some ErrNotConfigured), c)
      | Some load \<Rightarrow> (case load logicalProfileID (en_store (cn_engine c)) of
          Inl err \<Rightarrow> ((no_route, Some err), c)
        | Inr profile \<Rightarrow> route_result (on_engine (ApplyFailureContext env sessionID profile expectedGeneration currentExecutionProfileID failure) c)))"

definition RouteAfterUnclassifiedFailure ::
  "'s conductor_env \<Rightarrow> 's engine_env \<Rightarrow> string \<Rightarrow> string \<Rightarrow> string \<Rightarrow> int \<Rightarrow> Error option \<Rightarrow> UnclassifiedFailureEvidence \<Rightarrow> 's Conductor
     \<Rightarrow> (RouteDecision \<times> cerror option) \<times> 's Conductor" where
  "RouteAfterUnclassifiedFailure cv env sessionID logicalProfileID currentExecutionProfileID expectedGeneration failure evidence c =
     (case cv_profiles cv of
        None \<Rightarrow> ((no_route, Some ErrNotConfigured), c)
      | Some load \<Rightarrow> (case cv_unclassified cv of
          Some resolver \<Rightarrow> route_result (on_engine (resolver sessionID logicalProfileID currentExecutionProfileID expectedGeneration failure evidence) c)
        | None \<Rightarrow> (case load logicalProfileID (en_store (cn_engine c)) of
            Inl err \<Rightarrow> ((no_route, Some err), c)
          | Inr profile \<Rightarrow> route_result (on_engine
              (ApplyUnclassifiedFailureContext env sessionID profile expectedGeneration currentExecutionProfileID failure evidence) c))))"

definition Conductor_Resume :: "'s DownstreamRuntime \<Rightarrow> string \<Rightarrow> string \<Rightarrow> 's Conductor \<Rightarrow> cerror option \<times> 's Conductor" where
  "Conductor_Resume runtime sessionID prompt c =
     (let found = (case gm_get (cn_active c) sessionID of
            Some execution \<Rightarrow> Inr (execution, c)
          | None \<Rightarrow> (case dr_LoadExecution runtime of
              None \<Rightarrow> Inl ErrNoActiveExecution
            | Some load \<Rightarrow> (case load sessionID (en_store (cn_engine c)) of
                Inl err \<Rightarrow> Inl err
              | Inr None \<Rightarrow> Inl ErrNoActiveExecution
              | Inr (Some loaded) \<Rightarrow> Inr (loaded, c\<lparr>cn_active := gm_put sessionID loaded (cn_active c)\<rparr>))))
      in case found of
           Inl err \<Rightarrow> (Some err, c)
         | Inr (execution, c1) \<Rightarrow>
             if IsHeld (accountBlockKey (dx_ExecutionProfileID execution)) (en_circuits (cn_engine c1))
             then (Some (RouteError ErrExecutionProfileHeld), c1)
             else on_engine (dr_Resume runtime (dx_ID execution) prompt) (record_call (CallResume (dx_ID execution) prompt) c1))"

definition Conductor_Stop :: "'s DownstreamRuntime \<Rightarrow> string \<Rightarrow> string \<Rightarrow> 's Conductor \<Rightarrow> cerror option \<times> 's Conductor" where
  "Conductor_Stop runtime sessionID reason c =
     (let c1 = c\<lparr>cn_active := gm_del sessionID (cn_active c)\<rparr> in
      case gm_get (cn_active c) sessionID of
        Some execution \<Rightarrow> on_engine (dr_Stop runtime (dx_ID execution) reason) (record_call (CallStop (dx_ID execution) reason) c1)
      | None \<Rightarrow> (None, c1))"

definition AcceptsGeneration :: "string \<Rightarrow> int \<Rightarrow> 's Conductor \<Rightarrow> bool" where
  "AcceptsGeneration sessionID generation c =
     (case engine_State sessionID (cn_engine c) of None \<Rightarrow> False | Some state \<Rightarrow> rs_Generation state = generation)"

end
