(* ===== verification/Conductor_Laws.thy ===== *)
theory Conductor_Laws
  imports Conductor Routing_Laws
begin

text \<open>
  What the conductor asks of a concrete runtime, for any runtime, store and redaction rules: the launches of
  one request follow the route, a provider's resume token never reaches another candidate, and the route that
  the last failure of a request moves on to is not launched.
\<close>

section \<open>The next candidate after a failure\<close>

text \<open>The route of a session is starting as the decision says.\<close>

definition starting :: "string \<Rightarrow> RouteDecision \<Rightarrow> 's RoutingEngine \<Rightarrow> bool" where
  "starting s d e \<longleftrightarrow> (case engine_State s e of None \<Rightarrow> False | Some state \<Rightarrow> rs_Generation state = rd_Generation d \<and>
     rs_ExecutionProfileID state = rd_ExecutionProfileID d \<and> rs_Status state = routeStatusStarting)"

lemma select_starting:
  assumes "selectContext env s profile g x p reason e = ((d, None), e')"
  shows "starting s d e'"
  using assms
  by (auto simp: selectContext_def starting_def engine_State_def put_state_def selected_state_def route_decision_def Let_def
      split: prod.splits sum.splits option.splits if_splits)

lemma select_excluded:
  assumes "selectContext env s profile g x p reason e = ((d, None), e')"
  shows "rd_Generation d = g + 1 \<and> rd_ExecutionProfileID d \<noteq> x \<and> starting s d e'"
  using select_chosen [OF assms] select_starting [OF assms] by (metis find_Some_iff passed_over_def)

lemma policy_skips:
  assumes "applyPolicyFailure env s profile g cid candidate f e = ((d, None), e')"
  shows "rd_Generation d = g + 1 \<and> rd_ExecutionProfileID d \<noteq> cid \<and> starting s d e'"
proof -
  obtain prepared e1 where prep: "preparePolicyFailure env s g candidate f e = (prepared, e1)" by fastforce
  show ?thesis
  proof (cases prepared)
    case (Inl err)
    then show ?thesis using assms prep by (simp add: applyPolicyFailure_def)
  next
    case (Inr result)
    obtain current ps ev where result: "result = (current, ps, ev)" by (cases result) auto
    show ?thesis
    proof (cases "ev_Kind ev = DecisionSkip")
      case True
      then show ?thesis using assms prep Inr result by (auto simp: applyPolicyFailure_def intro!: select_excluded)
    next
      case False
      then show ?thesis using assms prep Inr result by (auto simp: applyPolicyFailure_def Let_def case_prod_beta split: if_splits)
    qed
  qed
qed

lemma failure_moves_on:
  assumes "ApplyFailureContext env s profile g cid (Some f) e = ((d, None), e')" "ActionFor profile cid (e_Code f) = ActionTryNext"
  shows "rd_Generation d = g + 1 \<and> rd_ExecutionProfileID d \<noteq> cid \<and> starting s d e'"
proof -
  obtain err e1 where req: "requireCurrentFailureRoute env s g cid e = (err, e1)" by fastforce
  let ?e2 = "releaseProbeForFailure env s g cid (openCircuitForFailure env profile cid f e1)"
  have none: "err = None" using assms(1) req by (auto simp: ApplyFailureContext_def split: if_splits)
  show ?thesis
  proof (cases "candidateByID profile cid")
    case None
    then show ?thesis using assms(2) by (simp add: ActionFor_def)
  next
    case (Some candidate)
    show ?thesis
    proof (cases "d_Version (cd_Policies candidate) = 0")
      case True
      then have "selectContext env s profile g cid '''' ''try_next'' ?e2 = ((d, None), e')"
        using assms req none Some by (simp add: ApplyFailureContext_def Let_def)
      then show ?thesis by (rule select_excluded)
    next
      case False
      then have "applyPolicyFailure env s profile g cid candidate f ?e2 = ((d, None), e')"
        using assms(1) req none Some by (simp add: ApplyFailureContext_def Let_def)
      then show ?thesis by (rule policy_skips)
    qed
  qed
qed

lemma next_moves_on:
  assumes "nextAfterLaunchFailure env profile decision s err c = ((later, True, None), c')"
  shows "rd_Generation later = rd_Generation decision + 1 \<and> rd_ExecutionProfileID later \<noteq> rd_ExecutionProfileID decision \<and>
    starting s later (cn_engine c')"
proof (cases "lf_classified err")
  case None
  then show ?thesis using assms by (simp add: nextAfterLaunchFailure_def)
next
  case (Some f)
  let ?apply = "ApplyFailureContext env s profile (rd_Generation decision) (rd_ExecutionProfileID decision) (Some f)"
  have try_next: "ActionFor profile (rd_ExecutionProfileID decision) (e_Code f) = ActionTryNext"
    using assms Some by (auto simp: nextAfterLaunchFailure_def split: if_splits)
  obtain d error e' where run: "?apply (cn_engine c) = ((d, error), e')" by (metis prod.collapse)
  have "error = None \<and> later = d \<and> cn_engine c' = e'"
    using assms Some try_next by (auto simp: nextAfterLaunchFailure_def on_engine_def run split: if_splits)
  with run try_next show ?thesis using failure_moves_on by blast
qed

section \<open>The launches of a request\<close>

lemma calls_kept [simp]:
  "cn_calls (snd (on_engine f c)) = cn_calls c" "cn_calls (release_decision env d b c) = cn_calls c" "cn_calls (record_call x c) = cn_calls c @ [x]"
  "cn_calls (snd (nextAfterLaunchFailure env profile decision s err c)) = cn_calls c" "cn_calls (recordUnroutedLaunchFailure env s profile decision err c) = cn_calls c"
  "cn_calls (snd (persistContinuation cv now decision continuation c)) = cn_calls c"
proof -
  show on: "cn_calls (snd (on_engine f c)) = cn_calls c" for f :: "'a RoutingEngine \<Rightarrow> 'b \<times> 'a RoutingEngine" and c
    by (simp add: on_engine_def case_prod_beta Let_def)
  show "cn_calls (release_decision env d b c) = cn_calls c" "cn_calls (record_call x c) = cn_calls c @ [x]"
    by (simp_all add: release_decision_def record_call_def)
  show "cn_calls (snd (nextAfterLaunchFailure env profile decision s err c)) = cn_calls c"
    by (auto simp: nextAfterLaunchFailure_def on_engine_def Let_def case_prod_beta split: option.split)
  show "cn_calls (recordUnroutedLaunchFailure env s profile decision err c) = cn_calls c"
    by (auto simp: recordUnroutedLaunchFailure_def on_engine_def Let_def case_prod_beta split: option.split)
  show "cn_calls (snd (persistContinuation cv now decision continuation c)) = cn_calls c"
    by (auto simp: persistContinuation_def on_engine_def Let_def case_prod_beta split: option.split)
qed

text \<open>A launch of the decision's candidate that gets the resume token only if it belongs to that candidate.\<close>

definition launch_ok :: "ConductorLaunch \<Rightarrow> RouteDecision \<Rightarrow> DownstreamLaunch \<Rightarrow> bool" where
  "launch_ok request initial l \<longleftrightarrow> dl_ExecutionProfileID l = rd_ExecutionProfileID (dl_Decision l) \<and>
     (if dl_ExecutionProfileID l = rd_ExecutionProfileID initial then dl_PriorACPSession l = cl_PriorACPSession request else dl_PriorACPSession l = '''')"

text \<open>The launches follow the route: the first is the given decision, and every other is on the next generation and another candidate.\<close>

fun fallback_chain :: "RouteDecision \<Rightarrow> DownstreamLaunch list \<Rightarrow> bool" where
  "fallback_chain d [] = True"
| "fallback_chain d (l # ls) = (dl_Decision l = d \<and> (case ls of [] \<Rightarrow> True | l' # _ \<Rightarrow>
     rd_Generation (dl_Decision l') = rd_Generation d + 1 \<and> rd_ExecutionProfileID (dl_Decision l') \<noteq> rd_ExecutionProfileID d \<and>
     fallback_chain (dl_Decision l') ls))"

lemma chain_Cons: "fallback_chain d' ls \<Longrightarrow> dl_Decision l = d \<Longrightarrow> rd_Generation d' = rd_Generation d + 1 \<Longrightarrow>
    rd_ExecutionProfileID d' \<noteq> rd_ExecutionProfileID d \<Longrightarrow> fallback_chain d (l # ls)"
  by (cases ls) auto

definition launches_ok :: "ConductorLaunch \<Rightarrow> RouteDecision \<Rightarrow> nat \<Rightarrow> RouteDecision \<Rightarrow> 's Conductor \<Rightarrow>
    ((cerror + DownstreamExecution) \<times> RouteDecision) \<times> 's Conductor \<Rightarrow> bool" where
  "launches_ok request initial n current c result \<longleftrightarrow> (\<exists>ls. cn_calls (snd result) = cn_calls c @ map CallLaunch ls \<and> length ls \<le> n \<and>
     fallback_chain current ls \<and> list_all (launch_ok request initial) ls \<and>
     (case fst (fst result) of Inl err \<Rightarrow> True | Inr execution \<Rightarrow> ls \<noteq> [] \<and> dl_Decision (last ls) = snd (fst result)))"

lemma launches_none: "cn_calls c' = cn_calls c \<Longrightarrow> launches_ok request initial n current c ((Inl err, d), c')"
  unfolding launches_ok_def by (intro exI [of _ "[]"]) simp

lemma launch_call_ok: "launch_ok request initial (launch_call cv request initial attempt current continuation)"
  by (simp add: launch_ok_def launch_call_def priorACPSession_def)

lemma launches_one:
  assumes "cn_calls c' = cn_calls c @ [CallLaunch (launch_call cv request initial attempt current continuation)]"
  shows "launches_ok request initial (Suc n) current c ((r, current), c')"
  unfolding launches_ok_def using assms launch_call_ok
  by (intro exI [of _ "[launch_call cv request initial attempt current continuation]"]) (auto simp: launch_call_def split: sum.split)

lemma launches_more:
  assumes "launches_ok request initial n later c1 result"
    and "cn_calls c1 = cn_calls c @ [CallLaunch (launch_call cv request initial attempt current continuation)]"
    and "rd_Generation later = rd_Generation current + 1" "rd_ExecutionProfileID later \<noteq> rd_ExecutionProfileID current"
  shows "launches_ok request initial (Suc n) current c result"
proof -
  obtain ls where ls: "cn_calls (snd result) = cn_calls c1 @ map CallLaunch ls" "length ls \<le> n" "fallback_chain later ls"
      "list_all (launch_ok request initial) ls" "case fst (fst result) of Inl err \<Rightarrow> True | Inr execution \<Rightarrow> ls \<noteq> [] \<and> dl_Decision (last ls) = snd (fst result)"
    using assms(1) by (auto simp: launches_ok_def)
  let ?l = "launch_call cv request initial attempt current continuation"
  have "fallback_chain current (?l # ls)" using chain_Cons [OF ls(3), of ?l current] assms(3,4) by (simp add: launch_call_def)
  then show ?thesis unfolding launches_ok_def using ls assms(2) launch_call_ok [of request initial]
    by (intro exI [of _ "?l # ls"]) (auto split: sum.split)
qed

lemma attempts_ok: "launches_ok request initial n current c (launch_attempts cv runtime request profile initial n attempt current continuation c)"
proof (induction n arbitrary: attempt current continuation c)
  case 0
  show ?case by (simp add: launches_none)
next
  case (Suc n)
  let ?env = "cv_env cv attempt" and ?call = "launch_call cv request initial attempt current continuation"
  obtain launched c1 where l: "on_engine (dr_Launch runtime ?call) (record_call (CallLaunch ?call) c) = (launched, c1)" by fastforce
  have c1: "cn_calls c1 = cn_calls c @ [CallLaunch ?call]"
    using calls_kept(1) [of "dr_Launch runtime ?call" "record_call (CallLaunch ?call) c"] by (simp add: l)
  show ?case
  proof (cases "IsHeld (accountBlockKey (rd_ExecutionProfileID current)) (en_circuits (cn_engine c))")
    case True
    then show ?thesis by (simp add: launches_none Let_def)
  next
    case free: False
    show ?thesis
    proof (cases launched)
      case (Inr execution)
      then show ?thesis using free c1 by (simp add: Let_def l launches_one)
    next
      case (Inl err)
      let ?cont = "case lf_classified err of None \<Rightarrow> continuation
                      | Some classified \<Rightarrow> continuationWithFailure (cv_redaction cv) continuation (error_text classified)"
      obtain moved c3 where m0: "nextAfterLaunchFailure ?env profile current (cl_SessionID request) err (release_decision ?env current False c1)
          = (moved, c3)" by fastforce
      obtain later sf ferr where moved: "moved = (later, sf, ferr)" by (cases moved)
      note m = m0 [unfolded moved]
      have c3: "cn_calls c3 = cn_calls c @ [CallLaunch ?call]"
        using calls_kept(4) [of ?env profile current "cl_SessionID request" err "release_decision ?env current False c1"] by (simp add: m c1)
      obtain perr c4 where p: "persistContinuation cv (ee_now ?env) later ?cont c3 = (perr, c4)" by fastforce
      have c4: "cn_calls c4 = cn_calls c @ [CallLaunch ?call]" using calls_kept(6) [of cv "ee_now ?env" later ?cont c3] c3 by (simp add: p)
      have step: "launch_attempts cv runtime request profile initial (Suc n) attempt current continuation c =
          (case ferr of
             Some x \<Rightarrow> ((Inl (if is_no_eligible x then LaunchError err else RouteError x), current), c3)
           | None \<Rightarrow> if \<not> sf then ((Inl (LaunchError err), current), recordUnroutedLaunchFailure ?env (cl_SessionID request) profile current err c3)
             else if n = 0 then ((Inl (LaunchError err), current), c3)
             else case perr of Some e \<Rightarrow> ((Inl (RouteError e), current), c4)
                  | None \<Rightarrow> launch_attempts cv runtime request profile initial n (attempt + 1) later ?cont c4)"
        using free Inl by (cases ferr) (simp_all add: Let_def l m p)
      show ?thesis
      proof (cases "ferr = None \<and> sf \<and> n \<noteq> 0")
        case False
        then show ?thesis unfolding step using c3 by (auto simp: launches_one split: option.split)
      next
        case True
        then have "rd_Generation later = rd_Generation current + 1 \<and> rd_ExecutionProfileID later \<noteq> rd_ExecutionProfileID current"
          using next_moves_on [of ?env profile current "cl_SessionID request" err _ later c3] m by simp
        then have "launches_ok request initial (Suc n) current c (launch_attempts cv runtime request profile initial n (attempt + 1) later ?cont c4)"
          using launches_more [OF Suc.IH c4] by blast
        then show ?thesis unfolding step using True c4 by (auto simp: launches_one split: option.split)
      qed
    qed
  qed
qed

lemma launches_follow: "launches_ok request decision (length (pf_Candidates profile)) decision c (launchWithFallback cv runtime profile decision request continuation c)"
  using attempts_ok by (auto simp: launchWithFallback_def launches_none Let_def)

text \<open>
  C35: The launches of a request.  Whatever the runtime answers and whatever other callers do to the engine
  meanwhile, launching a decision with fallback asks the runtime for at most as many launches as the profile
  has candidates.  The first launch is the given decision; every other is on the next generation and on
  another candidate than the one that just failed.  Each launch names the candidate of its decision, and the
  resume token of the session is passed to the candidate it belongs to and to no other.  On success the
  decision that is returned is that of the last launch.
\<close>

theorem launches_follow_route:
  "\<exists>ls. cn_calls (snd (launchWithFallback cv runtime profile decision request continuation c)) = cn_calls c @ map CallLaunch ls \<and>
    length ls \<le> length (pf_Candidates profile) \<and> fallback_chain decision ls \<and> list_all (launch_ok request decision) ls \<and>
    (case fst (fst (launchWithFallback cv runtime profile decision request continuation c)) of
       Inl err \<Rightarrow> True
     | Inr execution \<Rightarrow> ls \<noteq> [] \<and> dl_Decision (last ls) = snd (fst (launchWithFallback cv runtime profile decision request continuation c)))"
  using launches_follow [of request decision profile c cv runtime continuation] unfolding launches_ok_def .

section \<open>Held accounts\<close>

text \<open>
  A held account is not launched.  A decision for a candidate whose account is held is refused before the
  runtime is asked for anything, and so is resuming an execution on such an account.
\<close>

theorem held_not_launched:
  fixes c :: "'s Conductor"
  assumes "IsHeld (accountBlockKey cid) (en_circuits (cn_engine c))" "rd_ExecutionProfileID decision = cid" "dx_ExecutionProfileID execution = cid"
    and "gm_get (cn_active c) s = Some execution" "pf_Candidates profile \<noteq> []"
  shows "fst (launchWithFallback cv runtime profile decision request continuation c) = (Inl (RouteError ErrExecutionProfileHeld), decision) \<and>
    cn_calls (snd (launchWithFallback cv runtime profile decision request continuation c)) = cn_calls c \<and>
    Conductor_Resume runtime s prompt c = (Some (RouteError ErrExecutionProfileHeld), c)"
proof -
  obtain n where "length (pf_Candidates profile) = Suc n" using assms(5) by (cases "pf_Candidates profile") auto
  then show ?thesis using assms by (simp add: launchWithFallback_def Conductor_Resume_def Let_def)
qed

text \<open>A runtime on which every launch fails at the start of the process, and the request of a launch.\<close>

definition ex_runtime :: "unit DownstreamRuntime" where
  "ex_runtime = \<lparr>dr_Launch = (\<lambda>l e. (Inl \<lparr>lf_classified = Some ((ex_error None)\<lparr>e_Code := CodeProviderNotConfigured, e_Class := ClassHard, e_Phase := PhaseProcessStart\<rparr>), lf_text = ''exit 127''\<rparr>, e)),
     dr_Resume = (\<lambda>i p e. (None, e)), dr_Stop = (\<lambda>i r e. (None, e)), dr_LoadExecution = None\<rparr>"

definition ex_package_input :: ContinuationInput where
  "ex_package_input = \<lparr>in_TaskDescription = '''', in_WorkflowStep = '''', in_UserMessages = [], in_Conversation = '''', in_ToolSummary = '''',
     in_RepositorySummary = '''', in_PlanSummary = '''', in_FailureReason = ''''\<rparr>"

definition ex_launch_request :: ConductorLaunch where
  "ex_launch_request = \<lparr>cl_SessionID = ''s'', cl_LogicalProfileID = ''logical'', cl_ExpectedGeneration = 1, cl_ExcludeProfileID = '''', cl_Prompt = ''go'',
     cl_PriorACPSession = ''token'', cl_Continuation = ex_package_input\<rparr>"

definition ex_package :: Continuation where
  "ex_package = \<lparr>co_TaskDescription = '''', co_WorkflowStep = '''', co_Conversation = '''', co_ToolSummary = '''', co_RepositorySummary = '''',
     co_PlanSummary = '''', co_FailureReason = ''''\<rparr>"

definition ex_conductor_env :: "unit conductor_env" where
  "ex_conductor_env = \<lparr>cv_env = (\<lambda>n. ex_quiet (int n + 10)), cv_uuid = (\<lambda>n. ''attempt''), cv_profiles = None, cv_downstream = Some ex_runtime,
     cv_builder = None, cv_continuations = None, cv_unclassified = None,
     cv_redaction = \<lparr>rd_Sanitize = id, rd_SanitizeCredentials = id, rd_SanitizeCredentialsUnbounded = id, rd_SanitizeFullUnbounded = id\<rparr>\<rparr>"

definition ex_route_decision :: RouteDecision where
  "ex_route_decision = route_decision ex_route ''candidate_order''"

definition ex_conductor :: "unit Conductor" where
  "ex_conductor = \<lparr>cn_engine = ex_blocked, cn_active = [(''s'', \<lparr>dx_ID = ''x'', dx_ExecutionProfileID = ''a'', dx_ACPSessionID = ''token''\<rparr>)], cn_calls = []\<rparr>"

theorem held_not_launched_witness:
  "cn_calls (snd (launchWithFallback ex_conductor_env ex_runtime ex_profile ex_route_decision ex_launch_request ex_package ex_conductor)) = [] \<and>
   fst (Conductor_Resume ex_runtime ''s'' ''go'' ex_conductor) = Some (RouteError ErrExecutionProfileHeld)"
proof -
  have held: "IsHeld (accountBlockKey ''a'') (en_circuits (cn_engine ex_conductor))" and "rd_ExecutionProfileID ex_route_decision = ''a''"
    and "dx_ExecutionProfileID \<lparr>dx_ID = ''x'', dx_ExecutionProfileID = ''a'', dx_ACPSessionID = ''token''\<rparr> = ''a''" by code_simp+
  moreover have "gm_get (cn_active ex_conductor) ''s'' = Some \<lparr>dx_ID = ''x'', dx_ExecutionProfileID = ''a'', dx_ACPSessionID = ''token''\<rparr>"
    "pf_Candidates ex_profile \<noteq> []" "cn_calls ex_conductor = []" by (simp_all add: ex_conductor_def ex_profile_def gm_get_def)
  ultimately show ?thesis using held_not_launched [OF held, of ex_route_decision "\<lparr>dx_ID = ''x'', dx_ExecutionProfileID = ''a'', dx_ACPSessionID = ''token''\<rparr>" "''s''" ex_profile] by simp
qed

section \<open>A route that is never launched\<close>

definition ex_rule_profile :: Profile where
  "ex_rule_profile = \<lparr>pf_ID = ''logical'', pf_Version = 1, pf_Candidates =
     map (\<lambda>cid. \<lparr>cd_ID = cid, cd_Enabled = True, cd_BindingKey = '''', cd_Rules = [(CodeProviderNotConfigured, ActionTryNext)],
        cd_Policies = ex_document\<lparr>d_Version := 0\<rparr>\<rparr>) [''a'', ''b'']\<rparr>"

text \<open>
  With two candidates that both fail at their start, the conductor launches the first on generation 1 and
  the second on generation 2; it then advances the route once more, to the first candidate, and returns without
  launching it: the route is left starting on generation 3 while the caller is told that generation 2 failed.
\<close>

lemma abandoned_example:
  "case launchWithFallback ex_conductor_env ex_runtime ex_rule_profile ex_route_decision ex_launch_request ex_package (NewConductor ex_routing) of
     ((Inl (LaunchError err), current), c) \<Rightarrow>
       map (\<lambda>call. case call of CallLaunch l \<Rightarrow> (dl_ExecutionProfileID l, rd_Generation (dl_Decision l), dl_PriorACPSession l)) (cn_calls c) =
         [(''a'', 1, ''token''), (''b'', 2, '''')] \<and>
       rd_Generation current = 2 \<and>
       map_option (\<lambda>state. (rs_ExecutionProfileID state, rs_Generation state, rs_Status state)) (engine_State ''s'' (cn_engine c)) =
         Some (''a'', 3, routeStatusStarting)
   | _ \<Rightarrow> False"
  by code_simp

text \<open>
  C40: The last fallback is recorded but not launched.  Take the last attempt that the number of candidates
  permits, for a candidate whose account is not held.  If its launch fails and routing moves on to another candidate, the conductor
  returns the failure with the decision that failed and without another launch; the route is left
  starting on the next generation and the other candidate.
\<close>

theorem abandoned_route:
  assumes "\<not> IsHeld (accountBlockKey (rd_ExecutionProfileID current)) (en_circuits (cn_engine c))"
    and "call = launch_call cv request initial attempt current continuation"
    and "on_engine (dr_Launch runtime call) (record_call (CallLaunch call) c) = (Inl err, c1)"
    and "nextAfterLaunchFailure (cv_env cv attempt) profile current (cl_SessionID request) err
      (release_decision (cv_env cv attempt) current False c1) = ((later, True, None), c2)"
  shows "launch_attempts cv runtime request profile initial 1 attempt current continuation c = ((Inl (LaunchError err), current), c2) \<and>
    cn_calls c2 = cn_calls c @ [CallLaunch call] \<and>
    rd_Generation later = rd_Generation current + 1 \<and> rd_ExecutionProfileID later \<noteq> rd_ExecutionProfileID current \<and>
    starting (cl_SessionID request) later (cn_engine c2)"
proof -
  have "cn_calls c1 = cn_calls c @ [CallLaunch call]"
    using calls_kept(1) [of "dr_Launch runtime call" "record_call (CallLaunch call) c"] by (simp add: assms(3))
  then have calls: "cn_calls c2 = cn_calls c @ [CallLaunch call]"
    using calls_kept(4) [of "cv_env cv attempt" profile current "cl_SessionID request" err "release_decision (cv_env cv attempt) current False c1"]
    by (simp add: assms(4))
  have "launch_attempts cv runtime request profile initial 1 attempt current continuation c = ((Inl (LaunchError err), current), c2)"
    using assms(1,3,4) by (simp add: Let_def assms(2) [symmetric])
  with calls next_moves_on [OF assms(4)] show ?thesis by blast
qed

theorem abandoned_route_witness:
  "\<exists>c2. launch_attempts ex_conductor_env ex_runtime ex_launch_request ex_rule_profile ex_route_decision 1 0 ex_route_decision ex_package (NewConductor ex_routing) =
      ((Inl (LaunchError \<lparr>lf_classified = Some ((ex_error None)\<lparr>e_Code := CodeProviderNotConfigured, e_Class := ClassHard, e_Phase := PhaseProcessStart\<rparr>), lf_text = ''exit 127''\<rparr>),
        ex_route_decision), c2) \<and>
    length (cn_calls c2) = 1 \<and> map_option rs_Generation (engine_State ''s'' (cn_engine c2)) = Some 2"
proof -
  let ?c = "NewConductor ex_routing" and ?err = "\<lparr>lf_classified = Some ((ex_error None)\<lparr>e_Code := CodeProviderNotConfigured, e_Class := ClassHard, e_Phase := PhaseProcessStart\<rparr>), lf_text = ''exit 127''\<rparr>"
  define call where "call = launch_call ex_conductor_env ex_launch_request ex_route_decision 0 ex_route_decision ex_package"
  have free: "\<not> IsHeld (accountBlockKey (rd_ExecutionProfileID ex_route_decision)) (en_circuits (cn_engine ?c))" by code_simp
  have launch: "on_engine (dr_Launch ex_runtime call) (record_call (CallLaunch call) ?c) = (Inl ?err, record_call (CallLaunch call) ?c)"
    by (simp add: on_engine_def ex_runtime_def record_call_def)
  let ?next = "nextAfterLaunchFailure (cv_env ex_conductor_env 0) ex_rule_profile ex_route_decision (cl_SessionID ex_launch_request) ?err
      (release_decision (cv_env ex_conductor_env 0) ex_route_decision False (record_call (CallLaunch call) ?c))"
  have moved: "(\<lambda>((later, sf, ferr), c). sf \<and> ferr = None \<and> rd_Generation later = 2) ?next" unfolding call_def by code_simp
  then obtain later c2 where run: "?next = ((later, True, None), c2)" and "rd_Generation later = 2" by (cases ?next) auto
  note final = abandoned_route [OF free call_def launch run]
  have "map_option rs_Generation (engine_State ''s'' (cn_engine c2)) = Some 2"
    using final \<open>rd_Generation later = 2\<close> by (auto simp: starting_def ex_launch_request_def split: option.splits)
  moreover have "length (cn_calls c2) = 1" using final by (simp add: NewConductor_def)
  ultimately show ?thesis using final by blast
qed

end
