(* ===== verification/Spec2Isabelle.thy ===== *)
theory Spec2Isabelle
  imports Admission_Laws Decision_Laws Entry_Laws Task_Queue_Props Circuit_Props Fleet_Props Continuation_Laws Conductor_Laws
begin

text \<open>
  A verification of four subsystems of the backend of Kandev: the message queue of the orchestrator
  (\<open>src/apps/backend/internal/orchestrator/messagequeue\<close>), its task queue
  (\<open>orchestrator/queue\<close>), the workflow engine (\<open>src/apps/backend/internal/workflow\<close>) and the dynamic
  routing of agents to providers (\<open>src/apps/backend/internal/agent/runtime/dynamic\<close>).

  \<^bold>\<open>The program.\<close>  Kandev runs coding agents on tasks of a board.  Messages to an agent's session wait
  in a queue until the agent is idle; the orchestrator reserves, delivers, acknowledges, merges,
  reorders, purges and transfers them.  The board is a workflow of steps; triggers (a finished turn, a
  comment, a heartbeat, a decision) run the actions that a step declares, and quorum guards decide
  whether a task may leave a step.  A session may run on a logical profile, a list of candidates; the
  routing engine selects one of them, and after a failure of the provider retries, waits, selects
  another or hands over to the user.

  \<^bold>\<open>Message queue, definitions.\<close>
  \<^item> \<open>Go_Prelude\<close>: Go maps as association lists with the collection \<open>gm_simps\<close>, time, sorting, and
    the locale \<open>invariant_system\<close> of invariants over reachable states.
  \<^item> \<open>Go_Strings\<close>: what all subsystems use of Go's \<open>strings\<close>, \<open>strconv\<close> and \<open>unicode/utf8\<close>; a string is its bytes.
  \<^item> \<open>Queue_Types\<close> (\<open>types.go\<close>): messages, metadata, reservation keys, deferred moves, errors.
  \<^item> \<open>Queue_Store\<close>, \<open>Queue_Delivery\<close>, \<open>Queue_SendNow\<close>, \<open>Queue_Edit\<close> (\<open>repository_memory.go\<close>,
    \<open>send_now.go\<close>, \<open>reorder.go\<close>): the in-memory repository as a record of its maps; every method is a
    function from the repository to an error or a result and the new repository.  Methods hold the
    repository's mutex, so a run is a sequence of them.
  \<^item> \<open>Queue_Merge\<close> (\<open>merge.go\<close>, \<open>auto_merge.go\<close>, \<open>entityrefs\<close>): the merge policies.
  \<^item> \<open>Queue_Admission\<close>, \<open>Managed_Inputs\<close>: idempotent admission and managed inputs.

  \<^bold>\<open>Message queue, lemmas.\<close>
  \<^item> \<open>Queue_Invariant\<close>: the step relation \<open>queue_step\<close>, one rule per operation with free arguments; the runs in which
    rows are put back only at positions that rows had before, whose states are \<open>reachable\<close>; and their invariant.
  \<^item> \<open>Queue_Fence\<close>, \<open>Queue_Purge\<close>: generations and how they keep invalidated work from coming back.
  \<^item> \<open>Queue_Fifo\<close>: a session refines a first-in first-out queue (locale \<open>fifo_queue\<close>); capacity,
    requeueing and reordering.
  \<^item> \<open>Queue_Protocol\<close>, \<open>Queue_Claims\<close>: reservations, leases, acknowledgements, send-now claims.
  \<^item> \<open>Merge_Laws\<close>, \<open>Managed_Protocol\<close>, \<open>Admission_Laws\<close>: merges, the life cycle of managed inputs as
    a state machine that every step refines, and replayed admissions.
  \<^item> \<open>Queue_Scenarios\<close>: reachable repositories at which the properties are instantiated.

  \<^bold>\<open>Workflow engine, definitions.\<close>
  \<^item> \<open>Workflow_Types\<close> (\<open>engine/types.go\<close>, \<open>models/models.go\<close>): steps, actions, compilation.
  \<^item> \<open>Workflow_Stores\<close> (\<open>engine/adapters.go\<close>, \<open>payloads.go\<close>): the interfaces the engine calls, as records
    of functions on an arbitrary state \<open>'s\<close>; the world is that state and the list of counted metrics.
  \<^item> \<open>Workflow_Quorum\<close>, \<open>Workflow_Engine\<close>, \<open>Workflow_Decisions\<close>, \<open>Workflow_Entry\<close>,
    \<open>Workflow_Callbacks\<close> (\<open>quorum.go\<close>, \<open>engine.go\<close>, \<open>entrydispatch.go\<close>, \<open>stepentry.go\<close>,
    \<open>phase2_callbacks.go\<close>, \<open>phase8_callbacks.go\<close>): guards, triggers, decisions, step entry, actions.
  \<^item> \<open>Workflow_Repo\<close> (\<open>repository/phase2_sqlite.go\<close>, \<open>adapters/adapters.go\<close>, step order of
    \<open>service/service.go\<close>, ledger of \<open>orchestrator/workflow_store.go\<close>): the statements of the repository
    as functions on lists of rows with the constraints of the schema.

  \<^bold>\<open>Workflow engine, lemmas.\<close>
  \<^item> \<open>Quorum_Laws\<close>: the required slate (locale \<open>row_choice\<close>, used for both ways of choosing a row), the
    thresholds, and that guards fail closed.
  \<^item> \<open>Repo_Laws\<close>: the table constraints in every reachable state, and what the engine relies on: the
    locales \<open>decision_log\<close> and \<open>seat_writer\<close>, interpreted on the adapters of the repository.
  \<^item> \<open>Engine_Laws\<close>: the first permitted transition decides, evaluation without effects agrees with the
    committing call, and operations take effect once: the locale \<open>operation_marks\<close> is interpreted on
    the orchestrator's store over any repositories.
  \<^item> \<open>Decision_Laws\<close>, \<open>Entry_Laws\<close>: decisions, snapshot, step entry, fan-out, order of steps.
  \<^item> \<open>Workflow_Scenarios\<close>: a small transition store and a board with a review step, at which the properties are instantiated.

  \<^bold>\<open>Task queue.\<close>
  \<^item> \<open>Task_Queue\<close> (\<open>orchestrator/queue/queue.go\<close>): the priority queue of tasks that wait for an agent.
    The heap and the map by task id share objects, so the model has a memory of objects and both hold
    addresses; the loops of Go's \<open>container/heap\<close> are part of the model.
  \<^item> \<open>Heap_Laws\<close>: what the sifting loops do to a heap in a list, for any key.
  \<^item> \<open>Task_Queue_Laws\<close>, \<open>Task_Queue_Props\<close>: objects, heap and map stay consistent; the interface
    \<open>priority_queue\<close>, interpreted on the queue; the exact effect of each operation.

  \<^bold>\<open>Dynamic routing, definitions.\<close>
  \<^item> \<open>Routing_Policy\<close> (\<open>routingerr/routingerr.go\<close>, \<open>routingpolicy/policy.go\<close>): codes and classes of failures,
    policy documents, and the evaluation of a failure; the delay is computed on 64-bit words.
  \<^item> \<open>Circuits\<close> (\<open>circuit.go\<close>, \<open>circuit_backoff.go\<close>): the registry of circuit breakers with its store; the
    table of circuits, with writes that the database refuses.
  \<^item> \<open>Dynamic_Types\<close>, \<open>Dynamic_Engine\<close>, \<open>Dynamic_Recovery\<close> (\<open>types.go\<close>, \<open>engine.go\<close> and the files beside it): the
    engine as a record of its maps; a method is one step that reads the clock once and may call the store.
  \<^item> \<open>Route_Repo\<close> (\<open>task/repository/sqlite/dynamic_route.go\<close>): the tables behind the engine, one transaction at
    a time, and the production environment that connects both.
  \<^item> \<open>Continuation\<close>, \<open>Conductor\<close> (\<open>conductor.go\<close>, \<open>continuation_safety.go\<close>): the package that hands a conversation
    over to another candidate, byte by byte, and the conductor that launches candidates on a runtime.  While a
    launch runs, other callers may change the engine in any way.

  \<^bold>\<open>Dynamic routing, lemmas.\<close>
  \<^item> \<open>Policy_Laws\<close>: the delay without wrap-around, and when a failure is waited for, retried or skipped.
  \<^item> \<open>Circuit_Laws\<close>, \<open>Circuit_Props\<close>: sequences of registry operations; the interface \<open>circuit_store\<close>,
    interpreted on the table; holds, probe leases, deadlines and restarts.
  \<^item> \<open>Routing_Laws\<close>, \<open>Recovery_Laws\<close>: selection, held profiles, stale reports, and the end of recovery, for any store.
  \<^item> \<open>Continuation_Laws\<close>, \<open>Conductor_Laws\<close>: what a package keeps of the texts it was made from, the windows that are redacted,
    which candidates are launched in which order, and the route that a request leaves behind when it gives up.
  \<^item> \<open>Fleet_Laws\<close>, \<open>Fleet_Props\<close>: several engines on one database, each with whatever it has in memory.  The locale
    \<open>engine_guarantee\<close> (an extension of \<open>circuit_guarantee\<close>) says what the writes of an engine keep of the
    store; interpreted on the repository, it gives the invariant of the tables and that one engine wins each
    selection and each resumption.

  \<^bold>\<open>Bounds and loops.\<close>  Go's \<open>int\<close> and \<open>int64\<close> counters are integers: positions and sequence numbers
  grow by one per insertion, and the code has no test for wrap-around.  All loops run over lists and
  are structural or have a termination proof; there is no fuel.  The retry loops of the repository
  run at most three times, as in the code.  Times and durations of routing are integers of nanoseconds,
  except for the retry delay, whose 64-bit shifts and products are modelled and shown not to wrap.

  \<^bold>\<open>Parameters.\<close>  Digests (SHA-256), the JSON codec, generated ids and the clock, and the resolvers of
  agents and tasks are arguments of the definitions that use them.  For routing these are also the sanitizer
  of diagnostics, the rules that redact credentials, the order in which Go ranges over the map of pending
  circuits, and the runtime that launches a candidate.

  \<^bold>\<open>Not modelled.\<close>  The SQLite repository of the queue, whose behaviour under concurrent transactions
  needs a semantics of SQL; the queue service and the event handlers around both subsystems, which log,
  publish events and call agents; the regular expressions that classify provider output and redact
  credentials; the limits on work in progress of the production transition store,
  for which the engine's statements take the store as a parameter; log records and contexts; schema
  migrations; and the other services of the backend (tasks, agents, GitHub, MCP), the runtime and the
  web client.
\<close>

section \<open>The invariant of the queue repository\<close>

text \<open>
  C1: the queue invariant.  Take any sequence of repository operations from a new repository in which
  the operations that put rows back (restoring a message or a claim, replacing a session) are given rows at positions that
  rows of the queue had before, as callers do that pass on what they were handed.  In every repository on the way, the stored lists have one key per session; every row is stored under its own
  session, at a positive position that the session's position counter has already passed; and each
  list is sorted by position, which is the order of delivery.
\<close>

theorem reachable_invariant:
  assumes "reachable r"
  shows "gm_wf (r_entries r) \<and> ListBySession s r = sess r s \<and>
         (\<forall>q\<in>set (sess r s). qm_SessionID q = s \<and> 0 < qm_Position q \<and> qm_Position q \<le> nextPos r s)"
proof -
  have inv: "queue_inv r" using assms by (rule reachable_inv)
  note ok = queue_inv_sess [OF inv, of s]
  show ?thesis
    using inv slist_ok_sort_id [OF ok] slist_ok_member [OF ok] by (auto simp: ListBySession_def queue_inv_def)
qed

theorem reachable_invariant_witness:
  "reachable ex_one \<and> ListBySession ''s'' ex_one = sess ex_one ''s'' \<and> sess ex_one ''s'' \<noteq> []"
  using reachable_invariant [OF reachable_ex_one, of "''s''"] reachable_ex_one by (simp add: sess_ex_one)

end
